(* ===== verification/Prelude.thy ===== *)
theory Prelude
  imports Complex_Main "HOL-Library.Char_ord" "HOL-Library.Product_Lexorder"
begin

text \<open>
  What every component shares: the strings, exceptions and result type of the Python source, the
  reading of SQL statements over tables kept as lists, and the interfaces stated once as locales.

  Strings are lists of bytes, as the program writes them to SQLite and to files (UTF-8). Case
  mapping and the white-space test are those of ASCII. Python's \<open>float\<close> is an exact rational,
  instants are whole seconds since the epoch (the program keeps ISO texts of one fixed width with
  second precision, whose order as texts is the order of the instants).
\<close>

section \<open>Collections and names\<close>

named_theorems str_simps \<open>rules that evaluate the string operations\<close>
named_theorems table_simps \<open>rules for rows after SQL statements\<close>

type_synonym instant = int

datatype py_exc =
    ValueError string
  | RuntimeError string
  | IntegrityError string
  | JSONDecodeError string
  | KeyError string
  | TypeError string
  | TimeoutError string
  | AttributeError string
  | ProgrammingError string
  | OSError string
  | QueueFull

type_synonym 'a py_result = "py_exc + 'a"

fun exc_text :: "py_exc \<Rightarrow> string" where
  "exc_text (ValueError m) = m"
| "exc_text (RuntimeError m) = m"
| "exc_text (IntegrityError m) = m"
| "exc_text (JSONDecodeError m) = m @ '': line 1 column 1 (char 0)''"
| "exc_text (KeyError m) = m"
| "exc_text (TypeError m) = m"
| "exc_text (TimeoutError m) = m"
| "exc_text (AttributeError m) = m"
| "exc_text (ProgrammingError m) = m"
| "exc_text (OSError m) = m"
| "exc_text QueueFull = []"

definition is_ok :: "'a py_result \<Rightarrow> bool" where
  "is_ok r \<longleftrightarrow> (case r of Inl _ \<Rightarrow> False | Inr _ \<Rightarrow> True)"

lemma is_ok_simps [simp]: "is_ok (Inr x)" "\<not> is_ok (Inl e)"
  by (simp_all add: is_ok_def)

lemma ok_projr: "is_ok r \<Longrightarrow> r = Inr (projr r)"
  by (cases r) simp_all

text \<open>Statements in sequence: the first exception ends them. A loop that may raise.\<close>

definition bind_r :: "'a py_result \<Rightarrow> ('a \<Rightarrow> 'b py_result) \<Rightarrow> 'b py_result" where
  "bind_r r f = (case r of Inl e \<Rightarrow> Inl e | Inr x \<Rightarrow> f x)"

fun fold_r :: "('s \<Rightarrow> 'a \<Rightarrow> 's py_result) \<Rightarrow> 's \<Rightarrow> 'a list \<Rightarrow> 's py_result" where
  "fold_r f s [] = Inr s"
| "fold_r f s (x # xs) = bind_r (f s x) (\<lambda>t. fold_r f t xs)"

lemma bind_r_simps [simp]: "bind_r (Inl e) f = Inl e" "bind_r (Inr x) f = f x"
  by (simp_all add: bind_r_def)

lemma bind_r_Inr: "bind_r r f = Inr y \<longleftrightarrow> (\<exists>x. r = Inr x \<and> f x = Inr y)"
  by (cases r) auto

lemma bind_r_Inl: "bind_r r f = Inl e \<longleftrightarrow> r = Inl e \<or> (\<exists>x. r = Inr x \<and> f x = Inl e)"
  by (cases r) auto

lemma fold_r_invariant:
  assumes "fold_r f s xs = Inr t" and "P s"
    and "\<And>u x v. x \<in> set xs \<Longrightarrow> P u \<Longrightarrow> f u x = Inr v \<Longrightarrow> P v"
  shows "P t"
  using assms
proof (induction xs arbitrary: s)
  case (Cons x xs)
  from Cons.prems(1) obtain v where "f s x = Inr v" "fold_r f v xs = Inr t"
    by (auto simp: bind_r_Inr)
  with Cons show ?case by (meson list.set_intros)
qed simp

lemma fold_r_append: "fold_r f s (xs @ ys) = bind_r (fold_r f s xs) (\<lambda>t. fold_r f t ys)"
proof (induction xs arbitrary: s)
  case (Cons x xs)
  then show ?case by (cases "f s x") simp_all
qed simp

text \<open>\<open>value or default\<close> on an optional text: Python treats \<open>None\<close> and the empty text alike.\<close>

fun text_or :: "string option \<Rightarrow> string \<Rightarrow> string" where
  "text_or (Some (c # s)) d = c # s"
| "text_or _ d = d"

definition text_truthy :: "string option \<Rightarrow> bool" where
  "text_truthy v \<longleftrightarrow> (case v of Some (_ # _) \<Rightarrow> True | _ \<Rightarrow> False)"

fun coalesce :: "'a option \<Rightarrow> 'a option \<Rightarrow> 'a option" where
  "coalesce (Some x) _ = Some x"
| "coalesce None y = y"

lemma coalesce_None [simp]: "coalesce x None = x"
  by (cases x) simp_all

lemma text_or_None [simp]: "text_or None d = d"
  by simp

section \<open>Strings\<close>

definition py_isspace :: "char \<Rightarrow> bool" where
  "py_isspace c = (let n = (of_char c :: int) in (9 \<le> n \<and> n \<le> 13) \<or> (28 \<le> n \<and> n \<le> 32))"

definition py_isdigit :: "char \<Rightarrow> bool" where
  "py_isdigit c = (let n = (of_char c :: int) in 48 \<le> n \<and> n \<le> 57)"

definition py_isalpha :: "char \<Rightarrow> bool" where
  "py_isalpha c = (let n = (of_char c :: int) in (65 \<le> n \<and> n \<le> 90) \<or> (97 \<le> n \<and> n \<le> 122))"

definition py_isalnum :: "char \<Rightarrow> bool" where
  "py_isalnum c \<longleftrightarrow> py_isalpha c \<or> py_isdigit c"

definition lower_char :: "char \<Rightarrow> char" where
  "lower_char c = (let n = (of_char c :: int) in if 65 \<le> n \<and> n \<le> 90 then char_of (n + 32) else c)"

definition py_lower :: "string \<Rightarrow> string" where
  "py_lower s = map lower_char s"

definition upper_char :: "char \<Rightarrow> char" where
  "upper_char c = (let n = (of_char c :: int) in if 97 \<le> n \<and> n \<le> 122 then char_of (n - 32) else c)"

definition py_upper :: "string \<Rightarrow> string" where
  "py_upper s = map upper_char s"

definition lstrip_by :: "(char \<Rightarrow> bool) \<Rightarrow> string \<Rightarrow> string" where
  "lstrip_by p s = dropWhile p s"

definition rstrip_by :: "(char \<Rightarrow> bool) \<Rightarrow> string \<Rightarrow> string" where
  "rstrip_by p s = rev (dropWhile p (rev s))"

definition py_strip :: "string \<Rightarrow> string" where
  "py_strip s = lstrip_by py_isspace (rstrip_by py_isspace s)"

definition startswith :: "string \<Rightarrow> string \<Rightarrow> bool" where
  "startswith s p \<longleftrightarrow> take (length p) s = p"

definition endswith :: "string \<Rightarrow> string \<Rightarrow> bool" where
  "endswith s p \<longleftrightarrow> length p \<le> length s \<and> drop (length s - length p) s = p"

fun contains :: "string \<Rightarrow> string \<Rightarrow> bool" where
  "contains [] n = (n = [])"
| "contains (c # s) n = (startswith (c # s) n \<or> contains s n)"

definition removeprefix :: "string \<Rightarrow> string \<Rightarrow> string" where
  "removeprefix p s = (if startswith s p then drop (length p) s else s)"

definition removesuffix :: "string \<Rightarrow> string \<Rightarrow> string" where
  "removesuffix p s = (if p \<noteq> [] \<and> endswith s p then take (length s - length p) s else s)"

fun split_on :: "char \<Rightarrow> string \<Rightarrow> string list" where
  "split_on d [] = [[]]"
| "split_on d (c # s) =
     (if c = d then [] # split_on d s
      else (case split_on d s of [] \<Rightarrow> [[c]] | x # xs \<Rightarrow> (c # x) # xs))"

fun join :: "string \<Rightarrow> string list \<Rightarrow> string" where
  "join sep [] = []"
| "join sep [x] = x"
| "join sep (x # y # xs) = x @ sep @ join sep (y # xs)"

text \<open>\<open>s.split(d, 1)\<close> when \<open>d\<close> occurs; \<open>None\<close> when it does not.\<close>

fun cut_first :: "char \<Rightarrow> string \<Rightarrow> (string \<times> string) option" where
  "cut_first d [] = None"
| "cut_first d (c # s) =
     (if c = d then Some ([], s)
      else map_option (\<lambda>(a, b). (c # a, b)) (cut_first d s))"

definition digit_char :: "nat \<Rightarrow> char" where
  "digit_char n = char_of (48 + n)"

fun str_nat :: "nat \<Rightarrow> string" where
  "str_nat n = (if n < 10 then [digit_char n] else str_nat (n div 10) @ [digit_char (n mod 10)])"

declare str_nat.simps [simp del]

definition str_int :: "int \<Rightarrow> string" where
  "str_int i = (if i < 0 then CHR ''-'' # str_nat (nat (- i)) else str_nat (nat i))"

text \<open>The decimal value of a text of digits, as \<open>int()\<close> reads it.\<close>

definition digit_val :: "char \<Rightarrow> nat" where
  "digit_val c = of_char c - 48"

definition nat_of_digits :: "string \<Rightarrow> nat" where
  "nat_of_digits s = fold (\<lambda>c n. 10 * n + digit_val c) s 0"

lemma py_lower_Nil [simp]: "py_lower [] = []"
  by (simp add: py_lower_def)

lemma py_lower_append [simp]: "py_lower (a @ b) = py_lower a @ py_lower b"
  by (simp add: py_lower_def)

lemma length_py_lower [simp]: "length (py_lower s) = length s"
  by (simp add: py_lower_def)

lemma of_char_bounds: "0 \<le> (of_char c :: int)" "(of_char c :: int) < 256"
  using of_nat_of_char [where 'a = int, of c] nat_of_char_less_256 [of c] by linarith+

lemma of_char_digit: "m < 10 \<Longrightarrow> (of_char (char_of (48 + m :: nat)) :: int) = 48 + int m"
  using of_nat_of_char [where 'a = int, of "char_of (48 + m)"] by simp

lemma of_char_lower:
  "(of_char (lower_char c) :: int) =
     (if 65 \<le> (of_char c :: int) \<and> (of_char c :: int) \<le> 90 then of_char c + 32 else of_char c)"
  using of_char_bounds [of c] by (simp add: lower_char_def Let_def)

lemma of_char_inj: "(of_char c :: int) = of_char d \<longleftrightarrow> c = d"
  by simp

lemma lower_char_idem [simp]: "lower_char (lower_char c) = lower_char c"
  by (subst of_char_inj [symmetric]) (simp add: of_char_lower)

lemma py_lower_idem [simp]: "py_lower (py_lower s) = py_lower s"
  by (simp add: py_lower_def)

lemma startswith_Nil [simp]: "startswith s []"
  by (simp add: startswith_def)

lemma startswith_append [simp]: "startswith (p @ s) p"
  by (simp add: startswith_def)

lemma startswith_Cons [simp]:
  "startswith [] (c # p) \<longleftrightarrow> False"
  "startswith (d # s) (c # p) \<longleftrightarrow> d = c \<and> startswith s p"
  by (auto simp: startswith_def)

lemma startswith_iff: "startswith s p \<longleftrightarrow> (\<exists>r. s = p @ r)"
  unfolding startswith_def by (metis append_eq_conv_conj append_take_drop_id)

lemma endswith_iff: "endswith s p \<longleftrightarrow> (\<exists>r. s = r @ p)"
proof
  assume "endswith s p"
  then have "s = take (length s - length p) s @ p"
    unfolding endswith_def by (metis append_take_drop_id)
  then show "\<exists>r. s = r @ p" ..
next
  assume "\<exists>r. s = r @ p"
  then show "endswith s p" by (auto simp: endswith_def)
qed

lemma contains_iff: "contains s n \<longleftrightarrow> (\<exists>a b. s = a @ n @ b)"
proof (induction s)
  case Nil
  then show ?case by simp
next
  case (Cons c s)
  show ?case
  proof
    assume "contains (c # s) n"
    then consider "startswith (c # s) n" | "contains s n" by auto
    then show "\<exists>a b. c # s = a @ n @ b"
    proof cases
      case 1
      then show ?thesis by (metis startswith_iff append_Nil)
    next
      case 2
      then show ?thesis using Cons.IH by (metis append_Cons)
    qed
  next
    assume "\<exists>a b. c # s = a @ n @ b"
    then obtain a b where ab: "c # s = a @ n @ b" by blast
    show "contains (c # s) n"
    proof (cases a)
      case Nil
      with ab have "startswith (c # s) n" by (auto simp: startswith_iff)
      then show ?thesis by simp
    next
      case (Cons d a')
      with ab have "s = a' @ n @ b" by simp
      with Cons.IH show ?thesis by auto
    qed
  qed
qed

lemma contains_self [simp]: "contains (a @ n @ b) n"
  by (auto simp: contains_iff)

lemma removeprefix_append [simp]: "removeprefix p (p @ s) = s"
  by (simp add: removeprefix_def)

lemma split_on_nonempty [simp]: "split_on d s \<noteq> []"
  by (induction s) (auto split: list.splits)

lemma split_on_no_delim: "x \<in> set (split_on d s) \<Longrightarrow> d \<notin> set x"
proof (induction s arbitrary: x)
  case Nil
  then show ?case by simp
next
  case (Cons c s)
  show ?case
  proof (cases "split_on d s")
    case Nil
    then show ?thesis by simp
  next
    case (Cons y ys)
    with Cons.prems Cons.IH show ?thesis
      by (fastforce split: if_splits)
  qed
qed

lemma split_on_fresh: "d \<notin> set s \<Longrightarrow> split_on d s = [s]"
  by (induction s) auto

lemma split_on_append: "d \<notin> set s \<Longrightarrow> split_on d (s @ d # t) = s # split_on d t"
  by (induction s) auto

lemma join_split_on: "join [d] (split_on d s) = s"
proof (induction s)
  case Nil
  then show ?case by simp
next
  case (Cons c s)
  then show ?case
    by (cases "split_on d s" rule: list.exhaust; cases "tl (split_on d s)") auto
qed

lemma split_on_join:
  assumes "xs \<noteq> []" and "\<forall>x \<in> set xs. d \<notin> set x"
  shows "split_on d (join [d] xs) = xs"
  using assms
proof (induction "[d]" xs rule: join.induct)
  case (3 x y xs)
  then show ?case by (simp add: split_on_append)
qed (simp_all add: split_on_fresh)

lemma cut_first_Some: "cut_first d s = Some (a, b) \<Longrightarrow> s = a @ d # b \<and> d \<notin> set a"
  by (induction s arbitrary: a b) (auto split: if_splits)

lemma cut_first_None: "cut_first d s = None \<longleftrightarrow> d \<notin> set s"
  by (induction s) auto

text \<open>\<open>str.splitlines()\<close>: the line boundaries of Python's universal newlines that are single bytes,
  with \<open>\r\n\<close> as one boundary and no empty line after a final boundary.\<close>

definition is_line_break :: "char \<Rightarrow> bool" where
  "is_line_break c = (let n = (of_char c :: int) in (10 \<le> n \<and> n \<le> 13) \<or> (28 \<le> n \<and> n \<le> 30))"

fun splitlines_acc :: "string \<Rightarrow> string \<Rightarrow> string list" where
  "splitlines_acc acc [] = (if acc = [] then [] else [rev acc])"
| "splitlines_acc acc (c # s) =
     (if c = CHR 0x0D \<and> s \<noteq> [] \<and> hd s = CHR 0x0A
      then rev acc # splitlines_acc [] (tl s)
      else if is_line_break c then rev acc # splitlines_acc [] s
      else splitlines_acc (c # acc) s)"

definition splitlines :: "string \<Rightarrow> string list" where
  "splitlines s = splitlines_acc [] s"

lemma splitlines_acc_plain:
  "\<forall>c \<in> set l. \<not> is_line_break c \<Longrightarrow> splitlines_acc acc (l @ s) = splitlines_acc (rev l @ acc) s"
proof (induction l arbitrary: acc)
  case (Cons c l)
  then have "c \<noteq> CHR 0x0D" "\<not> is_line_break c"
    by (auto simp: is_line_break_def Let_def)
  with Cons show ?case by simp
qed simp

lemma splitlines_line:
  assumes "\<forall>c \<in> set l. \<not> is_line_break c"
  shows "splitlines (l @ CHR 0x0A # s) = l # splitlines s"
  using splitlines_acc_plain [OF assms, of "[]" "CHR 0x0A # s"]
  by (simp add: splitlines_def is_line_break_def)

lemma splitlines_join_lines:
  assumes "\<forall>l \<in> set ls. \<forall>c \<in> set l. \<not> is_line_break c"
  shows "splitlines (concat (map (\<lambda>l. l @ [CHR 0x0A]) ls)) = ls"
  using assms
proof (induction ls)
  case Nil
  then show ?case by (simp add: splitlines_def)
next
  case (Cons l ls)
  then show ?case using splitlines_line [of l] by simp
qed

section \<open>Rows of a table\<close>

text \<open>\<open>UPDATE .. SET f WHERE p\<close>, its row count, and \<open>SELECT .. ORDER BY k LIMIT 1\<close>: a table is the list
  of its rows in the order of their row ids, which is the order SQLite breaks ties in.\<close>

definition upd_where :: "('a \<Rightarrow> bool) \<Rightarrow> ('a \<Rightarrow> 'a) \<Rightarrow> 'a list \<Rightarrow> 'a list" where
  "upd_where p f rows = map (\<lambda>r. if p r then f r else r) rows"

definition count_where :: "('a \<Rightarrow> bool) \<Rightarrow> 'a list \<Rightarrow> nat" where
  "count_where p rows = length (filter p rows)"

definition first_by :: "('a \<Rightarrow> 'k::linorder) \<Rightarrow> 'a list \<Rightarrow> 'a option" where
  "first_by k rows = (case sort_key k rows of [] \<Rightarrow> None | r # _ \<Rightarrow> Some r)"

definition opt_list :: "'a option \<Rightarrow> 'a list" where
  "opt_list x = (case x of None \<Rightarrow> [] | Some y \<Rightarrow> [y])"

lemma upd_where_Nil [simp]: "upd_where p f [] = []"
  by (simp add: upd_where_def)

lemma upd_where_Cons [simp]: "upd_where p f (r # rows) = (if p r then f r else r) # upd_where p f rows"
  by (simp add: upd_where_def)

lemma length_upd_where [simp]: "length (upd_where p f rows) = length rows"
  by (simp add: upd_where_def)

lemma upd_where_append [simp]: "upd_where p f (a @ b) = upd_where p f a @ upd_where p f b"
  by (simp add: upd_where_def)

lemma set_upd_where: "set (upd_where p f rows) = (\<lambda>r. if p r then f r else r) ` set rows"
  by (simp add: upd_where_def)

lemma list_all_upd_where:
  "list_all q (upd_where p f rows) \<longleftrightarrow> list_all (\<lambda>r. if p r then q (f r) else q r) rows"
  by (induction rows) auto

lemma map_upd_where [table_simps]:
  "(\<And>r. k (f r) = k r) \<Longrightarrow> map k (upd_where p f rows) = map k rows"
  by (induction rows) auto

lemma upd_where_id: "(\<And>r. r \<in> set rows \<Longrightarrow> \<not> p r) \<Longrightarrow> upd_where p f rows = rows"
  by (induction rows) auto

lemma count_where_simps [simp]:
  "count_where p [] = 0"
  "count_where p (r # rows) = (if p r then 1 else 0) + count_where p rows"
  "count_where p (a @ b) = count_where p a + count_where p b"
  by (simp_all add: count_where_def)

lemma count_where_0 [simp]: "count_where p rows = 0 \<longleftrightarrow> (\<forall>r \<in> set rows. \<not> p r)"
  by (simp add: count_where_def filter_empty_conv)

lemma count_where_distinct:
  "distinct (map k rows) \<Longrightarrow> count_where (\<lambda>r. k r = x) rows = (if x \<in> k ` set rows then 1 else 0)"
  by (induction rows) (auto simp: image_iff)

lemma find_Some_key: "find p rows = Some r \<Longrightarrow> r \<in> set rows \<and> p r"
  by (induction rows) (auto split: if_splits)

lemma find_None_key: "find p rows = None \<longleftrightarrow> (\<forall>r \<in> set rows. \<not> p r)"
  by (induction rows) auto

lemma find_unique:
  "distinct (map k rows) \<Longrightarrow> r \<in> set rows \<Longrightarrow> k r = x \<Longrightarrow> find (\<lambda>r. k r = x) rows = Some r"
  by (induction rows) (auto simp: rev_image_eqI)

lemma find_upd_where [table_simps]:
  "(\<And>r. k (f r) = k r) \<Longrightarrow>
   find (\<lambda>r. k r = x) (upd_where p f rows) =
     map_option (\<lambda>r. if p r then f r else r) (find (\<lambda>r. k r = x) rows)"
  by (induction rows) auto

lemma find_append [table_simps]:
  "find p (a @ b) = (case find p a of None \<Rightarrow> find p b | Some r \<Rightarrow> Some r)"
  by (induction a) auto

lemma find_split_first: "find p xs = None \<Longrightarrow> p x \<Longrightarrow> find p (xs @ x # ys) = Some x"
  by (induction xs) (auto split: if_splits)

lemma first_by_Nil [simp]: "first_by k [] = None"
  by (simp add: first_by_def)

lemma first_by_None [simp]: "first_by k rows = None \<longleftrightarrow> rows = []"
proof -
  have "sort_key k rows = [] \<longleftrightarrow> rows = []"
    by (metis length_0_conv length_sort)
  then show ?thesis by (cases "sort_key k rows") (simp_all add: first_by_def)
qed

lemma first_by_Some:
  assumes "first_by k rows = Some r"
  shows "r \<in> set rows" and "x \<in> set rows \<Longrightarrow> k r \<le> k x"
proof -
  from assms obtain rs where rs: "sort_key k rows = r # rs"
    by (auto simp: first_by_def split: list.splits)
  then have set: "set rows = insert r (set rs)"
    by (metis set_sort list.simps(15))
  then show "r \<in> set rows" by simp
  assume "x \<in> set rows"
  moreover have "sorted (map k (r # rs))"
    by (metis rs sorted_sort_key)
  ultimately show "k r \<le> k x"
    using set by auto
qed

text \<open>The first row of the answer is the earliest row among those of least key.\<close>

lemma first_by_stable:
  assumes "first_by k rows = Some r"
  shows "find (\<lambda>x. k x = k r) rows = Some r"
proof -
  from assms obtain rs where rs: "sort_key k rows = r # rs"
    by (auto simp: first_by_def split: list.splits)
  have "filter (\<lambda>x. k x = k r) (sort_key k rows) = filter (\<lambda>x. k x = k r) rows"
    by (rule sort_key_stable)
  then have "filter (\<lambda>x. k x = k r) rows = r # filter (\<lambda>x. k x = k r) rs"
    by (simp add: rs)
  then show ?thesis
    by (induction rows) (auto split: if_splits)
qed

section \<open>Result lists\<close>

lemma sum_list_map_upd_where:
  "(\<And>r. g (f r) = g r) \<Longrightarrow> sum_list (map g (upd_where p f rows)) = sum_list (map g rows)"
  by (induction rows) auto

end
