(* ===== verification/Json_Value.thy ===== *)
theory Json_Value
  imports Prelude
begin

text \<open>
  The values \<open>json.loads\<close> returns and what Python does with them: truth, \<open>dict.get\<close>, and the
  conversions \<open>str\<close>, \<open>int\<close>, \<open>float\<close> with the exceptions they raise. A \<open>dict\<close> is the list of its
  items in insertion order. A number with a fraction is the rational it denotes; the texts \<open>inf\<close> and
  \<open>nan\<close> denote no rational and are outside the model (\<open>float\<close> of them is a \<open>ValueError\<close> here).
\<close>

datatype json =
    JNull
  | JBool bool
  | JInt int
  | JFloat rat
  | JStr string
  | JArr "json list"
  | JObj "(string \<times> json) list"

type_synonym json_dict = "(string \<times> json) list"

fun truthy :: "json \<Rightarrow> bool" where
  "truthy JNull = False"
| "truthy (JBool b) = b"
| "truthy (JInt i) = (i \<noteq> 0)"
| "truthy (JFloat q) = (q \<noteq> 0)"
| "truthy (JStr s) = (s \<noteq> [])"
| "truthy (JArr xs) = (xs \<noteq> [])"
| "truthy (JObj kvs) = (kvs \<noteq> [])"

text \<open>\<open>d.get(k)\<close>, \<open>d.get(k, default)\<close>, \<open>a or b\<close>, \<open>d[k] = v\<close>.\<close>

definition dget :: "json_dict \<Rightarrow> string \<Rightarrow> json" where
  "dget d k = (case map_of d k of None \<Rightarrow> JNull | Some v \<Rightarrow> v)"

definition dget_default :: "json_dict \<Rightarrow> string \<Rightarrow> json \<Rightarrow> json" where
  "dget_default d k v = (case map_of d k of None \<Rightarrow> v | Some w \<Rightarrow> w)"

definition has_key :: "json_dict \<Rightarrow> string \<Rightarrow> bool" where
  "has_key d k \<longleftrightarrow> map_of d k \<noteq> None"

definition py_or :: "json \<Rightarrow> json \<Rightarrow> json" where
  "py_or a b = (if truthy a then a else b)"

fun dset :: "'k \<Rightarrow> 'v \<Rightarrow> ('k \<times> 'v) list \<Rightarrow> ('k \<times> 'v) list" where
  "dset k v [] = [(k, v)]"
| "dset k v ((k', v') # d) = (if k' = k then (k, v) # d else (k', v') # dset k v d)"

lemma map_of_dset [simp]: "map_of (dset k v d) = (map_of d)(k \<mapsto> v)"
  by (induction k v d rule: dset.induct) (auto simp: fun_eq_iff)

lemma dset_keys: "fst ` set (dset k v d) = insert k (fst ` set d)"
  by (induction k v d rule: dset.induct) auto

lemma distinct_dset: "distinct (map fst d) \<Longrightarrow> distinct (map fst (dset k v d))"
proof (induction k v d rule: dset.induct)
  case (2 k v k' v' d)
  have "fst ` set (dset k v d) = insert k (fst ` set d)" by (rule dset_keys)
  with 2 show ?case by auto
qed simp

lemma length_dset_new: "map_of d k = None \<Longrightarrow> length (dset k v d) = Suc (length d)"
  by (induction k v d rule: dset.induct) (auto split: if_splits)

lemma length_dset_old: "map_of d k = Some w \<Longrightarrow> length (dset k v d) = length d"
  by (induction k v d rule: dset.induct) (auto split: if_splits)

fun is_dict :: "json \<Rightarrow> bool" where
  "is_dict (JObj _) = True"
| "is_dict _ = False"

fun is_none :: "json \<Rightarrow> bool" where
  "is_none JNull = True"
| "is_none _ = False"

text \<open>\<open>isinstance(v, dict)\<close> with the dict taken out.\<close>

fun as_dict :: "json \<Rightarrow> json_dict option" where
  "as_dict (JObj d) = Some d"
| "as_dict _ = None"

fun as_list :: "json \<Rightarrow> json list option" where
  "as_list (JArr xs) = Some xs"
| "as_list _ = None"

fun as_str :: "json \<Rightarrow> string option" where
  "as_str (JStr s) = Some s"
| "as_str _ = None"

text \<open>What a \<open>for\<close> loop runs over, and an attribute call on what must be a dict.\<close>

fun iter_json :: "json \<Rightarrow> json list py_result" where
  "iter_json (JArr xs) = Inr xs"
| "iter_json (JObj d) = Inr (map (\<lambda>kv. JStr (fst kv)) d)"
| "iter_json (JStr s) = Inr (map (\<lambda>c. JStr [c]) s)"
| "iter_json _ = Inl (TypeError ''object is not iterable'')"

fun need_dict :: "json \<Rightarrow> json_dict py_result" where
  "need_dict (JObj d) = Inr d"
| "need_dict _ = Inl (AttributeError ''object has no attribute get'')"

section \<open>Text of a value\<close>

text \<open>\<open>repr\<close> of a float whose decimal expansion ends (every number read from a JSON text in plain
  notation): sign, integer part, point, digits. Seventeen digits are as many as Python prints.\<close>

fun frac_digits :: "nat \<Rightarrow> rat \<Rightarrow> string" where
  "frac_digits 0 q = []"
| "frac_digits (Suc n) q =
     (if q = 0 then [] else digit_char (nat \<lfloor>10 * q\<rfloor>) # frac_digits n (10 * q - of_int \<lfloor>10 * q\<rfloor>))"

definition repr_float :: "rat \<Rightarrow> string" where
  "repr_float q =
     (let a = abs q; i = \<lfloor>a\<rfloor>; f = frac_digits 17 (a - of_int i)
      in (if q < 0 then ''-'' else []) @ str_int i @ ''.'' @ (if f = [] then ''0'' else f))"

fun repr_char :: "char \<Rightarrow> char \<Rightarrow> string" where
  "repr_char q c =
     (if c = q \<or> c = CHR 0x5C then [CHR 0x5C, c]
      else if c = CHR 0x0A then [CHR 0x5C, CHR ''n'']
      else if c = CHR 0x0D then [CHR 0x5C, CHR ''r'']
      else if c = CHR 0x09 then [CHR 0x5C, CHR ''t'']
      else [c])"

definition repr_str :: "string \<Rightarrow> string" where
  "repr_str s =
     (let q = (if CHR 0x27 \<in> set s \<and> CHR 0x22 \<notin> set s then CHR 0x22 else CHR 0x27)
      in q # concat (map (repr_char q) s) @ [q])"

fun py_repr :: "json \<Rightarrow> string" where
  "py_repr JNull = ''None''"
| "py_repr (JBool b) = (if b then ''True'' else ''False'')"
| "py_repr (JInt i) = str_int i"
| "py_repr (JFloat q) = repr_float q"
| "py_repr (JStr s) = repr_str s"
| "py_repr (JArr xs) = ''['' @ join '', '' (map py_repr xs) @ '']''"
| "py_repr (JObj d) = ''{'' @ join '', '' (map (\<lambda>(k, v). repr_str k @ '': '' @ py_repr v) d) @ ''}''"

fun py_str :: "json \<Rightarrow> string" where
  "py_str (JStr s) = s"
| "py_str v = py_repr v"

section \<open>Numbers from a value\<close>

text \<open>A text read as digits after an optional sign; \<open>int()\<close> strips white space first.\<close>

definition all_digits :: "string \<Rightarrow> bool" where
  "all_digits s \<longleftrightarrow> s \<noteq> [] \<and> (\<forall>c \<in> set s. py_isdigit c)"

definition signed_digits :: "string \<Rightarrow> int option" where
  "signed_digits s =
     (case s of
        c # t \<Rightarrow>
          if c = CHR ''-'' then (if all_digits t then Some (- int (nat_of_digits t)) else None)
          else if c = CHR ''+'' then (if all_digits t then Some (int (nat_of_digits t)) else None)
          else if all_digits s then Some (int (nat_of_digits s)) else None
      | [] \<Rightarrow> None)"

definition int_of_text :: "string \<Rightarrow> int py_result" where
  "int_of_text s =
     (case signed_digits (py_strip s) of
        Some i \<Rightarrow> Inr i
      | None \<Rightarrow> Inl (ValueError (''invalid literal for int() with base 10: '' @ repr_str s)))"

text \<open>A decimal number: optional sign, digits with an optional fraction, an optional exponent.\<close>

definition unsigned_decimal :: "string \<Rightarrow> rat option" where
  "unsigned_decimal s =
     (case cut_first CHR ''.'' s of
        None \<Rightarrow> if all_digits s then Some (of_nat (nat_of_digits s)) else None
      | Some (a, b) \<Rightarrow>
          if (a \<noteq> [] \<or> b \<noteq> []) \<and> (\<forall>c \<in> set a. py_isdigit c) \<and> (\<forall>c \<in> set b. py_isdigit c)
          then Some (of_nat (nat_of_digits a) + of_nat (nat_of_digits b) / 10 ^ length b) else None)"

definition decimal_with_exp :: "string \<Rightarrow> rat option" where
  "decimal_with_exp s =
     (case cut_first CHR ''e'' (py_lower s) of
        None \<Rightarrow> unsigned_decimal s
      | Some (m, e) \<Rightarrow>
          (case (unsigned_decimal m, signed_digits e) of
             (Some q, Some i) \<Rightarrow> Some (if 0 \<le> i then q * 10 ^ nat i else q / 10 ^ nat (- i))
           | _ \<Rightarrow> None))"

definition float_of_text :: "string \<Rightarrow> rat py_result" where
  "float_of_text s =
     (let t = py_strip s;
          r = (case t of
                 c # u \<Rightarrow> if c = CHR ''-'' then map_option uminus (decimal_with_exp u)
                          else if c = CHR ''+'' then decimal_with_exp u else decimal_with_exp t
               | [] \<Rightarrow> None)
      in (case r of Some q \<Rightarrow> Inr q
          | None \<Rightarrow> Inl (ValueError (''could not convert string to float: '' @ repr_str s))))"

definition trunc_rat :: "rat \<Rightarrow> int" where
  "trunc_rat q = (if q < 0 then - \<lfloor>- q\<rfloor> else \<lfloor>q\<rfloor>)"

fun py_int :: "json \<Rightarrow> int py_result" where
  "py_int (JBool b) = Inr (if b then 1 else 0)"
| "py_int (JInt i) = Inr i"
| "py_int (JFloat q) = Inr (trunc_rat q)"
| "py_int (JStr s) = int_of_text s"
| "py_int _ = Inl (TypeError ''int() argument must be a string, a bytes-like object or a real number'')"

fun py_float :: "json \<Rightarrow> rat py_result" where
  "py_float (JBool b) = Inr (if b then 1 else 0)"
| "py_float (JInt i) = Inr (of_int i)"
| "py_float (JFloat q) = Inr q"
| "py_float (JStr s) = float_of_text s"
| "py_float _ = Inl (TypeError ''float() argument must be a string or a real number'')"

lemma str_nat_digits: "set (str_nat n) \<subseteq> {c. py_isdigit c}"
proof (induction n rule: str_nat.induct)
  case (1 n)
  have d: "py_isdigit (digit_char m)" if "m < 10" for m
    using that by (simp add: py_isdigit_def digit_char_def of_char_digit)
  show ?case
    using 1 d by (subst str_nat.simps) (auto simp: d)
qed

lemma nat_of_digits_snoc: "nat_of_digits (s @ [c]) = 10 * nat_of_digits s + digit_val c"
  by (simp add: nat_of_digits_def)

text \<open>\<open>int(str(n)) = n\<close>.\<close>

lemma nat_of_digits_str_nat: "nat_of_digits (str_nat n) = n"
proof (induction n rule: str_nat.induct)
  case (1 n)
  have v: "digit_val (digit_char m) = m" if "m < 10" for m
    using that by (simp add: digit_val_def digit_char_def)
  show ?case
  proof (cases "n < 10")
    case True
    then show ?thesis
      by (subst str_nat.simps) (simp add: nat_of_digits_def v)
  next
    case False
    with 1 show ?thesis
      by (subst str_nat.simps) (simp add: nat_of_digits_snoc v)
  qed
qed

lemma str_nat_nonempty [simp]: "str_nat n \<noteq> []"
  by (subst str_nat.simps) simp

lemma all_digits_str_nat: "all_digits (str_nat n)"
  using str_nat_digits by (auto simp: all_digits_def)

lemma str_nat_inj: "str_nat m = str_nat n \<longleftrightarrow> m = n"
  by (metis nat_of_digits_str_nat)

lemma str_int_inj: "str_int i = str_int j \<longleftrightarrow> i = j"
proof -
  have "CHR ''-'' \<notin> set (str_nat n)" for n
    using str_nat_digits [of n] by (auto simp: py_isdigit_def)
  then have "CHR ''-'' # t \<noteq> str_nat n" for n t
    by (metis list.set_intros(1))
  then show ?thesis
    by (auto simp: str_int_def str_nat_inj split: if_splits) (metis)+
qed

section \<open>Paths\<close>

text \<open>\<open>PurePosixPath(s).name\<close> and \<open>.suffix\<close>: empty parts and \<open>.\<close> parts are dropped.\<close>

definition path_parts :: "string \<Rightarrow> string list" where
  "path_parts s = filter (\<lambda>p. p \<noteq> [] \<and> p \<noteq> ''.'') (split_on CHR ''/'' s)"

definition path_name :: "string \<Rightarrow> string" where
  "path_name s = (case rev (path_parts s) of [] \<Rightarrow> [] | p # _ \<Rightarrow> p)"

definition path_suffix :: "string \<Rightarrow> string" where
  "path_suffix s =
     (let r = rev (path_name s); t = takeWhile (\<lambda>c. c \<noteq> CHR ''.'') r; rest = dropWhile (\<lambda>c. c \<noteq> CHR ''.'') r
      in (if t \<noteq> [] \<and> length rest > 1 then CHR ''.'' # rev t else []))"

end
