(* ===== verification/Review_Models.thy ===== *)
theory Review_Models
  imports Json_Value
begin

text \<open>
  The storage models of \<open>review_v2/models.py\<close>: the closed sets of severities and statuses (whose
  \<open>CHECK\<close> constraints the tables repeat), their texts, and \<open>normalize_severity\<close>. Severities are
  ordered by the rank the judge gives them.
\<close>

datatype severity = Fatal | High | Medium | Low | Info

datatype task_status = TQueued | TRunning | TSuccess | TFailed | TIncomplete | TSkipped | TCancelled

datatype run_status = RQueued | RRunning | RSuccess | RFailed | RCancelled

fun severity_text :: "severity \<Rightarrow> string" where
  "severity_text Fatal = ''fatal''"
| "severity_text High = ''high''"
| "severity_text Medium = ''medium''"
| "severity_text Low = ''low''"
| "severity_text Info = ''info''"

fun severity_rank :: "severity \<Rightarrow> nat" where
  "severity_rank Fatal = 5"
| "severity_rank High = 4"
| "severity_rank Medium = 3"
| "severity_rank Low = 2"
| "severity_rank Info = 1"

instantiation severity :: linorder
begin

definition less_eq_severity :: "severity \<Rightarrow> severity \<Rightarrow> bool" where
  "less_eq_severity a b \<longleftrightarrow> severity_rank a \<le> severity_rank b"

definition less_severity :: "severity \<Rightarrow> severity \<Rightarrow> bool" where
  "less_severity a b \<longleftrightarrow> severity_rank a < severity_rank b"

lemma severity_rank_inj: "severity_rank a = severity_rank b \<Longrightarrow> a = b"
  by (cases a; cases b) simp_all

instance
  by standard
    (auto simp: less_eq_severity_def less_severity_def intro: severity_rank_inj)

end

definition all_severities :: "severity list" where
  "all_severities = [Fatal, High, Medium, Low, Info]"

text \<open>\<open>ReviewSeverity(candidate)\<close>: the member whose value is the text.\<close>

definition severity_of_text :: "string \<Rightarrow> severity option" where
  "severity_of_text t = find (\<lambda>s. severity_text s = t) all_severities"

definition normalize_severity :: "string \<Rightarrow> severity py_result" where
  "normalize_severity value =
     (let candidate = py_lower (py_strip value);
          candidate = (if candidate = ''critical'' then ''fatal'' else candidate)
      in (case severity_of_text candidate of
            Some s \<Rightarrow> Inr s
          | None \<Rightarrow> Inl (ValueError (''unsupported severity: '' @ value))))"

text \<open>\<open>json_loads\<close>: a text column read back, an empty dict when it is not one.\<close>

definition json_loads :: "(string \<Rightarrow> json option) \<Rightarrow> string option \<Rightarrow> json_dict" where
  "json_loads parse value =
     (case value of
        None \<Rightarrow> []
      | Some t \<Rightarrow> if t = [] then [] else (case parse t of Some (JObj d) \<Rightarrow> d | _ \<Rightarrow> []))"

fun task_status_text :: "task_status \<Rightarrow> string" where
  "task_status_text TQueued = ''queued''"
| "task_status_text TRunning = ''running''"
| "task_status_text TSuccess = ''success''"
| "task_status_text TFailed = ''failed''"
| "task_status_text TIncomplete = ''incomplete''"
| "task_status_text TSkipped = ''skipped''"
| "task_status_text TCancelled = ''cancelled''"

definition terminal_status :: "task_status \<Rightarrow> bool" where
  "terminal_status s \<longleftrightarrow> s \<in> {TSuccess, TFailed, TIncomplete, TSkipped, TCancelled}"

lemma terminal_status_simps [simp]:
  "terminal_status TSuccess" "terminal_status TFailed" "terminal_status TIncomplete"
  "terminal_status TSkipped" "terminal_status TCancelled"
  "\<not> terminal_status TQueued" "\<not> terminal_status TRunning"
  by (simp_all add: terminal_status_def)

lemma not_terminal: "\<not> terminal_status s \<longleftrightarrow> s = TQueued \<or> s = TRunning"
  by (cases s) simp_all

lemma severity_of_text_text [simp]: "severity_of_text (severity_text s) = Some s"
  by (cases s) (simp_all add: severity_of_text_def all_severities_def)

lemma severity_of_text_Some: "severity_of_text t = Some s \<longleftrightarrow> t = severity_text s"
proof
  assume "severity_of_text t = Some s"
  then show "t = severity_text s"
    unfolding severity_of_text_def by (auto dest: find_Some_key)
qed simp

lemma normalize_severity_text: "normalize_severity (severity_text s) = Inr s"
  by (cases s) (simp_all add: normalize_severity_def severity_of_text_def all_severities_def
      py_strip_def lstrip_by_def rstrip_by_def py_isspace_def py_lower_def lower_char_def)

lemma normalize_severity_cases:
  "normalize_severity v = Inr s \<longleftrightarrow>
     py_lower (py_strip v) = severity_text s \<or> py_lower (py_strip v) = ''critical'' \<and> s = Fatal"
proof (cases "py_lower (py_strip v) = ''critical''")
  case True
  then have "normalize_severity v = Inr Fatal"
    using severity_of_text_text [of Fatal] by (simp add: normalize_severity_def)
  moreover have "''critical'' \<noteq> severity_text s" by (cases s) simp_all
  ultimately show ?thesis using True by auto
next
  case False
  then show ?thesis
    by (simp add: normalize_severity_def severity_of_text_Some [symmetric] split: option.split)
qed

lemma normalize_severity_error:
  "normalize_severity v = Inl e \<Longrightarrow> e = ValueError (''unsupported severity: '' @ v)"
  by (auto simp: normalize_severity_def Let_def split: option.splits)

end
