(* ===== verification/Risk.thy ===== *)
theory Risk
  imports Review_Models "HOL-Library.Multiset"
begin

text \<open>
  Risk tiers and reviewer plans: \<open>review_v2/risk.py\<close> and \<open>review_v2/guards.py\<close>. A changed file is the
  summary the context builder makes of it (\<open>context.py\<close>, \<open>ChangedFileSummary\<close>). Sizes are the naturals
  Python counts with.
\<close>

record changed_file =
  cf_path :: string
  cf_changed_lines :: nat
  cf_production :: bool
  cf_ignored :: bool
  cf_test :: bool
  cf_bloat :: bool
  cf_skip_reason :: string

datatype tier = Tier_Skipped | Tier_Light | Tier_Standard | Tier_Full

fun tier_text :: "tier \<Rightarrow> string" where
  "tier_text Tier_Skipped = ''skipped''"
| "tier_text Tier_Light = ''light''"
| "tier_text Tier_Standard = ''standard''"
| "tier_text Tier_Full = ''full''"

fun tier_rank :: "tier \<Rightarrow> nat" where
  "tier_rank Tier_Skipped = 0"
| "tier_rank Tier_Light = 1"
| "tier_rank Tier_Standard = 2"
| "tier_rank Tier_Full = 3"

instantiation tier :: linorder
begin

definition less_eq_tier :: "tier \<Rightarrow> tier \<Rightarrow> bool" where
  "less_eq_tier a b \<longleftrightarrow> tier_rank a \<le> tier_rank b"

definition less_tier :: "tier \<Rightarrow> tier \<Rightarrow> bool" where
  "less_tier a b \<longleftrightarrow> tier_rank a < tier_rank b"

lemma tier_rank_inj: "tier_rank a = tier_rank b \<Longrightarrow> a = b"
  by (cases a; cases b) simp_all

instance
  by standard (auto simp: less_eq_tier_def less_tier_def intro: tier_rank_inj)

end

record risk_result =
  rk_tier :: tier
  rk_reasons :: "string list"
  rk_specialists :: "string list"
  rk_context_too_large :: bool

record plan_item =
  pi_reviewer :: string
  pi_required :: bool
  pi_reason :: string

definition FULL_CI_REVIEWERS :: "string list" where
  "FULL_CI_REVIEWERS = [''security'', ''api_contract'', ''config_release'', ''performance'']"

section \<open>Specialists\<close>

definition any_token :: "string list \<Rightarrow> string \<Rightarrow> bool" where
  "any_token tokens s \<longleftrightarrow> (\<exists>t \<in> set tokens. contains s t)"

definition ends_with_any :: "string list \<Rightarrow> string \<Rightarrow> bool" where
  "ends_with_any suffixes s \<longleftrightarrow> (\<exists>t \<in> set suffixes. endswith s t)"

definition is_api_contract_path :: "string \<Rightarrow> bool" where
  "is_api_contract_path lowered_path =
     (if any_token [''/api/'', ''routes'', ''models'', ''schemas'', ''templates/report''] lowered_path then True
      else
        (let parts = filter (\<lambda>p. p \<noteq> []) (split_on CHR ''/'' lowered_path)
         in if (\<exists>p \<in> set parts. p \<in> {''remote'', ''facade'', ''rpc'', ''dubbo''}) then True
            else if (\<exists>p \<in> set parts. ends_with_any [''-api'', ''_api''] p) then True
            else ends_with_any [''remote.java'', ''facade.java'', ''rpc.java'']
                   (if parts \<noteq> [] then last parts else lowered_path)))"

definition add_name :: "string \<Rightarrow> string list \<Rightarrow> string list" where
  "add_name name ordered = (if name \<in> set ordered then ordered else ordered @ [name])"

definition specialists_step :: "string list \<Rightarrow> string \<Rightarrow> string list" where
  "specialists_step ordered path =
     (let lowered = py_lower path;
          o1 = (if any_token [''token'', ''secret'', ''password'', ''auth'', ''permission'', ''api_key''] lowered
                then add_name ''security'' ordered else ordered);
          o2 = (if is_api_contract_path lowered then add_name ''api_contract'' o1 else o1);
          o3 = (if any_token [''config'', ''env'', ''deploy'', ''supervisor'', ''callback'', ''ack''] lowered
                then add_name ''config_release'' o2 else o2)
      in (if any_token [''scheduler'', ''worker'', ''concurrency'', ''db'', ''query'', ''usage''] lowered
          then add_name ''performance'' o3 else o3))"

definition specialists_for_paths :: "string list \<Rightarrow> string list" where
  "specialists_for_paths paths =
     (let ordered = foldl specialists_step [] paths;
          priority = [''security'', ''api_contract'', ''config_release'', ''performance'']
      in filter (\<lambda>name. name \<in> set ordered) priority)"

section \<open>Tiers and plans\<close>

definition non_production_skip_reason :: "changed_file list \<Rightarrow> string" where
  "non_production_skip_reason files =
     (if list_all cf_test files then ''test files only''
      else if list_all cf_bloat files then ''bloat files only''
      else if list_all (\<lambda>f. cf_ignored f \<and> \<not> cf_test f) files then ''ignored files only''
      else ''non-production files only'')"

definition classify_risk :: "changed_file list \<Rightarrow> nat \<Rightarrow> bool \<Rightarrow> risk_result" where
  "classify_risk files diff_bytes truncated =
     (let production_files = filter cf_production files;
          changed_line_count = sum_list (map cf_changed_lines production_files)
      in if files = [] then \<lparr>rk_tier = Tier_Skipped, rk_reasons = [''no changed files''],
                             rk_specialists = [], rk_context_too_large = False\<rparr>
         else if production_files = [] then
           \<lparr>rk_tier = Tier_Skipped, rk_reasons = [non_production_skip_reason files],
            rk_specialists = [], rk_context_too_large = False\<rparr>
         else
           (let specialists = specialists_for_paths (map cf_path production_files);
                context_too_large = truncated;
                reasons =
                  (if truncated then [''context truncated''] else []) @
                  (if length production_files > 30 then [''many production files''] else []) @
                  (if changed_line_count > 800 then [''large changed-line count''] else []) @
                  (if diff_bytes > 500 * 1024 then [''large diff''] else []) @
                  map (\<lambda>name. name @ '' trigger'') specialists
            in if context_too_large \<or> reasons \<noteq> [] then
                 \<lparr>rk_tier = Tier_Full,
                  rk_reasons = (if reasons \<noteq> [] then reasons else [''full review trigger'']),
                  rk_specialists = specialists, rk_context_too_large = context_too_large\<rparr>
               else if length production_files \<le> 5 \<and> changed_line_count \<le> 120 \<and> diff_bytes \<le> 80 * 1024 then
                 \<lparr>rk_tier = Tier_Light, rk_reasons = [''small production diff''],
                  rk_specialists = [], rk_context_too_large = False\<rparr>
               else
                 \<lparr>rk_tier = Tier_Standard, rk_reasons = [''standard production diff''],
                  rk_specialists = take 2 specialists, rk_context_too_large = False\<rparr>))"

definition plan_reviewers :: "risk_result \<Rightarrow> plan_item list" where
  "plan_reviewers risk =
     (if rk_tier risk = Tier_Skipped then []
      else if rk_tier risk = Tier_Light then
        [\<lparr>pi_reviewer = ''correctness_light'', pi_required = True, pi_reason = ''light production diff''\<rparr>]
      else
        \<lparr>pi_reviewer = ''correctness'', pi_required = True,
         pi_reason = tier_text (rk_tier risk) @ '' production diff''\<rparr> #
        (if rk_tier risk = Tier_Full then
           map (\<lambda>name. \<lparr>pi_reviewer = name, pi_required = True, pi_reason = name @ '' CI axis''\<rparr>) FULL_CI_REVIEWERS
         else
           map (\<lambda>name. \<lparr>pi_reviewer = name, pi_required = False,
                        pi_reason = name @ '' deterministic trigger''\<rparr>) (take 2 (rk_specialists risk))))"

datatype guard_outcome = Guard_Skipped | Guard_Fail | Guard_Review

text \<open>The guard's outcome; its gate texts are \<open>skipped\<close>, \<open>context_too_large\<close>, \<open>review_required\<close>.\<close>

definition prepare_review_guard :: "risk_result \<Rightarrow> guard_outcome" where
  "prepare_review_guard risk =
     (if rk_tier risk = Tier_Skipped then Guard_Skipped
      else if rk_context_too_large risk then Guard_Fail
      else Guard_Review)"

section \<open>Which specialists are named\<close>

definition names_security :: "string \<Rightarrow> bool" where
  "names_security path \<longleftrightarrow>
     any_token [''token'', ''secret'', ''password'', ''auth'', ''permission'', ''api_key''] (py_lower path)"

definition names_config :: "string \<Rightarrow> bool" where
  "names_config path \<longleftrightarrow>
     any_token [''config'', ''env'', ''deploy'', ''supervisor'', ''callback'', ''ack''] (py_lower path)"

definition names_performance :: "string \<Rightarrow> bool" where
  "names_performance path \<longleftrightarrow>
     any_token [''scheduler'', ''worker'', ''concurrency'', ''db'', ''query'', ''usage''] (py_lower path)"

definition triggers :: "string \<Rightarrow> string \<Rightarrow> bool" where
  "triggers path name \<longleftrightarrow>
     name = ''security'' \<and> names_security path
   \<or> name = ''api_contract'' \<and> is_api_contract_path (py_lower path)
   \<or> name = ''config_release'' \<and> names_config path
   \<or> name = ''performance'' \<and> names_performance path"

lemma set_add_name [simp]: "set (add_name n xs) = insert n (set xs)"
  by (auto simp: add_name_def)

lemma set_specialists_step:
  "set (specialists_step ordered path) = set ordered \<union> {n. triggers path n}"
  unfolding specialists_step_def triggers_def names_security_def names_config_def names_performance_def Let_def
  by auto

lemma set_specialists_fold:
  "set (foldl specialists_step ordered paths) = set ordered \<union> {n. \<exists>p \<in> set paths. triggers p n}"
  by (induction paths arbitrary: ordered) (auto simp: set_specialists_step)

lemma triggers_known: "triggers p n \<Longrightarrow> n \<in> set FULL_CI_REVIEWERS"
  by (auto simp: triggers_def FULL_CI_REVIEWERS_def)

lemma specialists_for_paths_filter:
  "specialists_for_paths paths = filter (\<lambda>n. \<exists>p \<in> set paths. triggers p n) FULL_CI_REVIEWERS"
  by (simp add: specialists_for_paths_def set_specialists_fold FULL_CI_REVIEWERS_def)

lemma set_specialists: "set (specialists_for_paths paths) = {n. \<exists>p \<in> set paths. triggers p n}"
  by (auto simp: specialists_for_paths_filter triggers_known)

lemma specialists_empty: "specialists_for_paths paths = [] \<longleftrightarrow> (\<forall>p \<in> set paths. \<forall>n. \<not> triggers p n)"
  using set_specialists [of paths] by (auto simp flip: set_empty)

section \<open>The three tests of the tier\<close>

definition is_large :: "changed_file list \<Rightarrow> nat \<Rightarrow> bool \<Rightarrow> bool" where
  "is_large files diff_bytes truncated \<longleftrightarrow>
     truncated \<or> length (filter cf_production files) > 30
   \<or> sum_list (map cf_changed_lines (filter cf_production files)) > 800
   \<or> diff_bytes > 500 * 1024
   \<or> specialists_for_paths (map cf_path (filter cf_production files)) \<noteq> []"

definition is_small :: "changed_file list \<Rightarrow> nat \<Rightarrow> bool" where
  "is_small files diff_bytes \<longleftrightarrow>
     length (filter cf_production files) \<le> 5
   \<and> sum_list (map cf_changed_lines (filter cf_production files)) \<le> 120 \<and> diff_bytes \<le> 80 * 1024"

lemma tier_classify:
  "rk_tier (classify_risk files diff_bytes truncated) =
     (if filter cf_production files = [] then Tier_Skipped
      else if is_large files diff_bytes truncated then Tier_Full
      else if is_small files diff_bytes then Tier_Light else Tier_Standard)"
  by (auto simp: classify_risk_def is_large_def is_small_def Let_def)

lemma too_large_classify:
  "rk_context_too_large (classify_risk files diff_bytes truncated) \<longleftrightarrow>
     filter cf_production files \<noteq> [] \<and> truncated"
  by (auto simp: classify_risk_def Let_def)

lemma specialists_classify:
  "rk_specialists (classify_risk files diff_bytes truncated) =
     (if filter cf_production files = [] \<or> \<not> is_large files diff_bytes truncated then []
      else specialists_for_paths (map cf_path (filter cf_production files)))"
  by (auto simp: classify_risk_def is_large_def Let_def)

lemmas classify_simps = tier_classify too_large_classify specialists_classify

text \<open>The plan made for a change set is empty exactly when no changed file is a production file;
  otherwise every planned reviewer is required, and there are one or five of them. So a review that
  runs always has a required reviewer, and the plan for the standard tier never adds an optional
  specialist.\<close>

theorem plan_all_required:
  "(plan_reviewers (classify_risk files diff_bytes truncated) = [] \<longleftrightarrow> filter cf_production files = [])
   \<and> list_all pi_required (plan_reviewers (classify_risk files diff_bytes truncated))
   \<and> length (plan_reviewers (classify_risk files diff_bytes truncated)) \<in> {0, 1, 5}"
  by (auto simp: plan_reviewers_def classify_simps FULL_CI_REVIEWERS_def)

lemma specialists_mono:
  "set ps \<subseteq> set qs \<Longrightarrow> specialists_for_paths ps \<noteq> [] \<Longrightarrow> specialists_for_paths qs \<noteq> []"
  by (auto simp: specialists_empty)

lemma sum_list_mono_filter: "sum_list (map g (filter p xs)) \<le> sum_list (map g (filter p (xs @ ys)))"
  for g :: "'a \<Rightarrow> nat"
  by simp

lemma is_large_mono:
  "is_large files d t \<Longrightarrow> d \<le> d' \<Longrightarrow> (t \<longrightarrow> t') \<Longrightarrow> is_large (files @ extra) d' t'"
  using specialists_mono [of "map cf_path (filter cf_production files)"
      "map cf_path (filter cf_production (files @ extra))"]
  by (auto simp: is_large_def)

lemma is_small_antimono: "is_small (files @ extra) d' \<Longrightarrow> d \<le> d' \<Longrightarrow> is_small files d"
  by (auto simp: is_small_def)

text \<open>A larger change is never reviewed at a lower tier: more changed files, a longer diff or a
  truncated context leave the tier where it was or raise it.\<close>

theorem tier_monotone:
  assumes "d \<le> d'" and "t \<longrightarrow> t'"
  shows "rk_tier (classify_risk files d t) \<le> rk_tier (classify_risk (files @ extra) d' t')"
  using assms is_large_mono [of files d t d' t' extra] is_small_antimono [of files extra d' d]
  by (auto simp: tier_classify less_eq_tier_def)

lemma mset_specialists:
  "set ps = set qs \<Longrightarrow> specialists_for_paths ps = specialists_for_paths qs"
  by (simp add: specialists_for_paths_filter)

lemma mset_skip_reason:
  "mset fs = mset gs \<Longrightarrow> non_production_skip_reason fs = non_production_skip_reason gs"
  by (drule mset_eq_setD) (simp add: non_production_skip_reason_def list_all_iff)

text \<open>The risk result, its reasons included, does not depend on the order git lists the files in.\<close>

theorem classify_order_independent:
  assumes "mset fs = mset gs"
  shows "classify_risk fs diff_bytes truncated = classify_risk gs diff_bytes truncated"
proof -
  have pf: "mset (filter cf_production fs) = mset (filter cf_production gs)"
    by (simp add: assms mset_filter)
  then have len: "length (filter cf_production fs) = length (filter cf_production gs)"
    by (rule mset_eq_length)
  have sum: "sum_list (map cf_changed_lines (filter cf_production fs))
             = sum_list (map cf_changed_lines (filter cf_production gs))"
    using pf by (metis mset_map sum_mset_sum_list)
  have sp: "specialists_for_paths (map cf_path (filter cf_production fs))
            = specialists_for_paths (map cf_path (filter cf_production gs))"
    by (rule mset_specialists) (metis list.set_map mset_eq_setD pf)
  have "fs = [] \<longleftrightarrow> gs = []" "filter cf_production fs = [] \<longleftrightarrow> filter cf_production gs = []"
    using assms len by (auto simp flip: length_0_conv dest: mset_eq_length)
  then show ?thesis
    by (simp only: classify_risk_def Let_def len sum sp mset_skip_reason [OF assms])
qed

text \<open>A change set to apply the theorems to: one production file outside every trigger.\<close>

definition sample_file :: changed_file where
  "sample_file = \<lparr>cf_path = ''src/lib/shape.py'', cf_changed_lines = 40, cf_production = True,
     cf_ignored = False, cf_test = False, cf_bloat = False, cf_skip_reason = []\<rparr>"

definition sample_auth_file :: changed_file where
  "sample_auth_file = sample_file \<lparr>cf_path := ''src/lib/auth.py'', cf_changed_lines := 3\<rparr>"

theorem tier_monotone_witness:
  "rk_tier (classify_risk [sample_file] 2000 False)
     \<le> rk_tier (classify_risk ([sample_file] @ [sample_auth_file]) 9000 False)"
  by (rule tier_monotone) simp_all

theorem classify_order_independent_witness:
  "classify_risk [sample_file, sample_auth_file] 9000 False
     = classify_risk [sample_auth_file, sample_file] 9000 False"
  by (rule classify_order_independent) simp

end
