(* ===== verification/Review_Rules.thy ===== *)
theory Review_Rules
  imports Json_Value
begin

text \<open>
  Which changed files are reviewed, and under which rule: \<open>review_v2/review_rules.py\<close>. \<open>fnmatchcase\<close> is
  modelled for patterns of literals, \<open>*\<close> and \<open>?\<close>; no pattern of the source has a bracket.
\<close>

definition SUPPORTED_EXTENSIONS :: "string list" where
  "SUPPORTED_EXTENSIONS = [
   ''.java'', ''.kt'', ''.kts'', ''.scala'', ''.groovy'', ''.py'', ''.pyi'', ''.js'', ''.jsx'',
   ''.ts'', ''.tsx'', ''.mjs'', ''.cjs'', ''.c'', ''.h'', ''.cpp'', ''.cc'', ''.cxx'',
   ''.hpp'', ''.hxx'', ''.cs'', ''.go'', ''.rs'', ''.rb'', ''.php'', ''.swift'', ''.sh'',
   ''.bash'', ''.zsh'', ''.sql'', ''.css'', ''.scss'', ''.sass'', ''.less'', ''.html'',
   ''.htm'', ''.vue'', ''.svelte'', ''.xml'', ''.yaml'', ''.yml'', ''.json'', ''.toml'',
   ''.ini'', ''.env'', ''.gradle'', ''.cmake'', ''.properties'']"

definition SUPPORTED_FILENAMES :: "string list" where
  "SUPPORTED_FILENAMES = [
   ''dockerfile'', ''jenkinsfile'', ''makefile'', ''pom.xml'', ''package.json'',
   ''cargo.toml'', ''build.gradle'', ''settings.gradle'']"

definition DEFAULT_EXCLUDE_PATTERNS :: "string list" where
  "DEFAULT_EXCLUDE_PATTERNS = [
   ''**/*_test.go'', ''**/src/test/java/**/*.java'', ''**/src/test/**/*.kt'',
   ''**/*.test.{js,jsx,ts,tsx}'', ''**/*.spec.{js,jsx,ts,tsx}'', ''**/__tests__/**'',
   ''**/test/**/*_test.py'', ''**/tests/**/*_test.py'', ''**/*_test.py'', ''**/*_spec.rb'',
   ''**/spec/**/*_spec.rb'', ''**/*Test.java'', ''**/*Tests.java'', ''**/*_test.rs'',
   ''**/*.test.ets'', ''**/oh_modules/**'']"

definition BLOAT_FILENAMES :: "string list" where
  "BLOAT_FILENAMES = [
   ''package-lock.json'', ''yarn.lock'', ''pnpm-lock.yaml'', ''poetry.lock'', ''pipfile.lock'',
   ''gemfile.lock'', ''cargo.lock'', ''composer.lock'', ''go.sum'', ''gradle.lockfile'',
   ''.terraform.lock.hcl'']"

definition BLOAT_EXTENSIONS :: "string list" where
  "BLOAT_EXTENSIONS = [
   ''.png'', ''.jpg'', ''.jpeg'', ''.gif'', ''.webp'', ''.avif'', ''.ico'', ''.bmp'', ''.tif'',
   ''.tiff'', ''.pdf'', ''.zip'', ''.gz'', ''.tgz'', ''.bz2'', ''.xz'', ''.7z'', ''.rar'',
   ''.jar'', ''.war'', ''.ear'', ''.class'', ''.o'', ''.so'', ''.dylib'', ''.dll'', ''.exe'',
   ''.bin'', ''.wasm'', ''.woff'', ''.woff2'', ''.ttf'', ''.otf'', ''.eot'', ''.mp4'',
   ''.mov'', ''.avi'', ''.webm'', ''.mp3'', ''.wav'', ''.flac'', ''.sqlite'', ''.sqlite3'',
   ''.db'', ''.dump'', ''.har'', ''.map'', ''.snap'', ''.lock'']"

definition SYSTEM_RULES :: "(string \<times> string \<times> string) list" where
  "SYSTEM_RULES = [
    (''**/*{mapper,dao}*.xml'', ''mapper_dao_xml'', ''references/rules/mapper_dao_xml.md''),
    (''**/pom.xml'', ''pom_xml'', ''references/rules/pom_xml.md''),
    (''**/build.gradle'', ''build_gradle'', ''references/rules/build_gradle.md''),
    (''**/package.json'', ''package_json'', ''references/rules/package_json.md''),
    (''**/*.{yaml,yml}'', ''yaml'', ''references/rules/yaml.md''),
    (''**/*.{json,json5}'', ''json'', ''references/rules/json.md''),
    (''**/*.properties'', ''properties'', ''references/rules/properties.md''),
    (''**/*.java'', ''java'', ''references/rules/java.md''),
    (''**/*.{kt,kts}'', ''kotlin'', ''references/rules/kotlin.md''),
    (''**/*.{ts,js,tsx,jsx}'', ''ts_js_tsx_jsx'', ''references/rules/ts_js_tsx_jsx.md''),
    (''**/*.{c,cpp,cc,cxx,h,hpp,hxx}'', ''c_cpp'', ''references/rules/c_cpp.md''),
    (''**/*.rs'', ''rust'', ''references/rules/rust.md'')]"

record file_policy =
  fp_path :: string
  fp_supported :: bool
  fp_test :: bool
  fp_bloat :: bool
  fp_skipped :: bool
  fp_skip_reason :: string

record rule_match =
  rm_path :: string
  rm_rule_names :: "string list"
  rm_references :: "string list"

section \<open>Patterns\<close>

fun fnmatchcase :: "string \<Rightarrow> string \<Rightarrow> bool" where
  "fnmatchcase s [] = (s = [])"
| "fnmatchcase [] (p # ps) = (p = CHR ''*'' \<and> fnmatchcase [] ps)"
| "fnmatchcase (c # s) (p # ps) =
     (if p = CHR ''*'' then fnmatchcase (c # s) ps \<or> fnmatchcase s (p # ps)
      else if p = CHR ''?'' then fnmatchcase s ps
      else p = c \<and> fnmatchcase s ps)"

definition expand_braces :: "string \<Rightarrow> string list" where
  "expand_braces pattern =
     (case cut_first CHR ''{'' pattern of
        None \<Rightarrow> [pattern]
      | Some (prefix, rest) \<Rightarrow>
          (case cut_first CHR ''}'' rest of
             None \<Rightarrow> [pattern]
           | Some (items, suffix) \<Rightarrow> map (\<lambda>item. prefix @ item @ suffix) (split_on CHR '','' items)))"

definition matches :: "string \<Rightarrow> string \<Rightarrow> bool" where
  "matches pattern lowered_path \<longleftrightarrow>
     (\<exists>expanded \<in> set (expand_braces (py_lower pattern)).
        fnmatchcase lowered_path expanded \<or> fnmatchcase (''/'' @ lowered_path) expanded
      \<or> startswith expanded ''**/'' \<and> fnmatchcase lowered_path (drop 3 expanded))"

definition matches_any :: "string list \<Rightarrow> string \<Rightarrow> bool" where
  "matches_any patterns lowered_path \<longleftrightarrow> (\<exists>p \<in> set patterns. matches p lowered_path)"

definition normalize_path :: "string \<Rightarrow> string" where
  "normalize_path path =
     lstrip_by (\<lambda>c. c = CHR ''.'' \<or> c = CHR ''/'')
       (py_lower (map (\<lambda>c. if c = CHR 0x5C then CHR ''/'' else c) path))"

section \<open>Classification\<close>

definition is_test_path :: "string \<Rightarrow> bool" where
  "is_test_path lowered_path =
     (if matches_any DEFAULT_EXCLUDE_PATTERNS lowered_path then True
      else if (\<exists>part \<in> set (split_on CHR ''/'' lowered_path).
                 part \<in> {''test'', ''tests'', ''__tests__'', ''testdata''}) then True
      else if (\<exists>p \<in> {''test/'', ''tests/'', ''__tests__/'', ''spec/'', ''specs/''}. startswith lowered_path p) then True
      else (\<exists>e \<in> {''test.py'', ''_test.py'', ''_test.go'', ''.test.js'', ''.test.jsx'', ''.test.ts'', ''.test.tsx''}.
              endswith (path_name lowered_path) e))"

definition is_bloat_path :: "string \<Rightarrow> bool" where
  "is_bloat_path lowered_path =
     (if path_name lowered_path \<in> set BLOAT_FILENAMES then True
      else if endswith lowered_path ''.min.js'' \<or> endswith lowered_path ''.min.css'' then True
      else path_suffix lowered_path \<in> set BLOAT_EXTENSIONS)"

definition classify_review_file :: "string \<Rightarrow> file_policy" where
  "classify_review_file path =
     (let lowered = normalize_path path;
          supported = path_suffix lowered \<in> set SUPPORTED_EXTENSIONS \<or> path_name lowered \<in> set SUPPORTED_FILENAMES;
          test = is_test_path lowered;
          bloat = is_bloat_path lowered
      in if test then \<lparr>fp_path = path, fp_supported = supported, fp_test = True, fp_bloat = bloat,
                       fp_skipped = True, fp_skip_reason = ''test file''\<rparr>
         else if bloat then \<lparr>fp_path = path, fp_supported = supported, fp_test = False, fp_bloat = True,
                       fp_skipped = True, fp_skip_reason = ''bloat file type''\<rparr>
         else if \<not> supported then \<lparr>fp_path = path, fp_supported = False, fp_test = False, fp_bloat = False,
                       fp_skipped = True, fp_skip_reason = ''unsupported file type''\<rparr>
         else \<lparr>fp_path = path, fp_supported = True, fp_test = False, fp_bloat = False,
                       fp_skipped = False, fp_skip_reason = []\<rparr>)"

definition match_review_rules :: "string list \<Rightarrow> rule_match list" where
  "match_review_rules paths =
     map (\<lambda>path.
       (case find (\<lambda>(pattern, _, _). matches pattern (normalize_path path)) SYSTEM_RULES of
          None \<Rightarrow> \<lparr>rm_path = path, rm_rule_names = [''default''],
                   rm_references = [''references/rules/default.md'']\<rparr>
        | Some (_, name, reference) \<Rightarrow>
            \<lparr>rm_path = path, rm_rule_names = [''default'', name],
             rm_references = [''references/rules/default.md'', reference]\<rparr>)) paths"

section \<open>What patterns match\<close>

definition wild_free :: "string \<Rightarrow> bool" where
  "wild_free p \<longleftrightarrow> CHR ''*'' \<notin> set p \<and> CHR ''?'' \<notin> set p"

lemma fnmatch_literal: "wild_free p \<Longrightarrow> fnmatchcase s (p @ ps) \<longleftrightarrow> (\<exists>r. s = p @ r \<and> fnmatchcase r ps)"
proof (induction p arbitrary: s)
  case (Cons c p)
  then have "wild_free p" "c \<noteq> CHR ''*''" "c \<noteq> CHR ''?''" by (auto simp: wild_free_def)
  with Cons.IH show ?case by (cases s) auto
qed simp

lemma fnmatch_literal_end: "wild_free p \<Longrightarrow> fnmatchcase s p \<longleftrightarrow> s = p"
  using fnmatch_literal [of p s "[]"] by simp

lemma fnmatch_star: "fnmatchcase s (CHR ''*'' # ps) \<longleftrightarrow> (\<exists>a b. s = a @ b \<and> fnmatchcase b ps)"
proof (induction s)
  case (Cons c s)
  show ?case
  proof
    assume "fnmatchcase (c # s) (CHR ''*'' # ps)"
    then consider "fnmatchcase (c # s) ps" | "fnmatchcase s (CHR ''*'' # ps)" by auto
    then show "\<exists>a b. c # s = a @ b \<and> fnmatchcase b ps"
    proof cases
      case 1
      then show ?thesis by (metis append_Nil)
    next
      case 2
      then show ?thesis using Cons.IH by (metis append_Cons)
    qed
  next
    assume "\<exists>a b. c # s = a @ b \<and> fnmatchcase b ps"
    then obtain a b where ab: "c # s = a @ b" "fnmatchcase b ps" by blast
    then show "fnmatchcase (c # s) (CHR ''*'' # ps)"
      using Cons.IH by (cases a) auto
  qed
qed auto

lemma fnmatch_star_literal:
  "wild_free x \<Longrightarrow> fnmatchcase s (CHR ''*'' # x) \<longleftrightarrow> endswith s x"
  by (simp add: fnmatch_star fnmatch_literal_end endswith_iff)

lemma endswith_append_iff: "endswith s x \<Longrightarrow> endswith (p @ s) x"
  by (auto simp: endswith_iff)

lemma expand_no_brace: "CHR ''{'' \<notin> set p \<Longrightarrow> expand_braces p = [p]"
  by (simp add: expand_braces_def cut_first_None [symmetric])

lemma py_lower_fixed: "\<forall>c \<in> set x. lower_char c = c \<Longrightarrow> py_lower x = x"
  by (simp add: py_lower_def map_idI)

text \<open>A \<open>**/*ext\<close> pattern is a test of the end of the path, in any directory or none.\<close>

lemma matches_extension:
  assumes "wild_free x" and "CHR ''{'' \<notin> set x" and "\<forall>c \<in> set x. lower_char c = c"
  shows "matches (''**/*'' @ x) p \<longleftrightarrow> endswith p x"
proof -
  have low: "py_lower (''**/*'' @ x) = ''**/*'' @ x"
    using assms(3) by (intro py_lower_fixed) (simp add: lower_char_def)
  have ex: "expand_braces (''**/*'' @ x) = [''**/*'' @ x]"
    using assms(2) by (intro expand_no_brace) simp
  have one: "endswith s x" if "fnmatchcase s (''**/*'' @ x)" for s
  proof -
    from that obtain a b where "s = a @ b" "fnmatchcase b (''*/*'' @ x)"
      by (auto simp: fnmatch_star)
    then obtain a' b' where "s = a' @ b'" "fnmatchcase b' (''/*'' @ x)"
      by (auto simp: fnmatch_star) (metis append.assoc)
    moreover from this obtain d where "b' = CHR ''/'' # d" "fnmatchcase d (CHR ''*'' # x)"
      by (cases b') auto
    ultimately show ?thesis
      using fnmatch_star_literal [OF assms(1)] endswith_append_iff [of d x "a' @ ''/''"] by simp
  qed
  have slash: "endswith (''/'' @ p) x \<Longrightarrow> fnmatchcase (''/'' @ p) (''**/*'' @ x) \<Longrightarrow> endswith p x"
  proof -
    assume "fnmatchcase (''/'' @ p) (''**/*'' @ x)"
    then obtain a b where ab: "''/'' @ p = a @ b" "fnmatchcase b (''*/*'' @ x)"
      by (auto simp: fnmatch_star)
    then obtain c e where ce: "b = c @ e" "fnmatchcase e (''/*'' @ x)"
      by (auto simp: fnmatch_star)
    then obtain d where d: "e = CHR ''/'' # d" "fnmatchcase d (CHR ''*'' # x)"
      by (cases e) auto
    have "endswith d x" using d(2) fnmatch_star_literal [OF assms(1)] by blast
    moreover from ab ce d have "CHR ''/'' # p = (a @ c) @ CHR ''/'' # d" by simp
    then have "\<exists>q. p = q @ d" by (cases "a @ c") auto
    ultimately show "endswith p x" using endswith_append_iff by auto
  qed
  show ?thesis
    unfolding matches_def low ex
    using one [of p] one [of "''/'' @ p"] slash fnmatch_star_literal [OF assms(1), of p]
    by (auto simp: startswith_def)
qed

section \<open>Matching in one pass\<close>

text \<open>The same matcher as a set of pending pattern suffixes, one step per character; it is the
  equation the matcher is evaluated by.\<close>

fun star_closure :: "string \<Rightarrow> string list" where
  "star_closure [] = [[]]"
| "star_closure (p # ps) = (p # ps) # (if p = CHR ''*'' then star_closure ps else [])"

fun pattern_step :: "char \<Rightarrow> string \<Rightarrow> string list" where
  "pattern_step c [] = []"
| "pattern_step c (p # ps) =
     (if p = CHR ''*'' then [p # ps] else if p = CHR ''?'' \<or> p = c then [ps] else [])"

fun run_patterns :: "string \<Rightarrow> string list \<Rightarrow> bool" where
  "run_patterns [] ps = list_ex (\<lambda>p. [] \<in> set (star_closure p)) ps"
| "run_patterns (c # s) ps =
     run_patterns s (remdups (concat (map (\<lambda>p. concat (map (pattern_step c) (star_closure p))) ps)))"

lemma fnmatch_Nil_closure: "fnmatchcase [] p \<longleftrightarrow> [] \<in> set (star_closure p)"
  by (induction p rule: star_closure.induct) auto

lemma fnmatch_Cons_closure:
  "fnmatchcase (c # s) p \<longleftrightarrow> (\<exists>q \<in> set (star_closure p). \<exists>r \<in> set (pattern_step c q). fnmatchcase s r)"
  by (induction p rule: star_closure.induct) auto

lemma run_patterns_iff: "run_patterns s ps \<longleftrightarrow> (\<exists>p \<in> set ps. fnmatchcase s p)"
proof (induction s arbitrary: ps)
  case Nil
  then show ?case by (simp add: list_ex_iff fnmatch_Nil_closure)
next
  case (Cons c s)
  then show ?case by (auto simp: fnmatch_Cons_closure)
qed

lemma fnmatchcase_run [code]: "fnmatchcase s p = run_patterns s [p]"
  by (simp add: run_patterns_iff)

section \<open>What classification promises\<close>

lemma dropWhile_idem: "dropWhile p (dropWhile p xs) = dropWhile p xs"
  by (induction xs) auto

lemma normalize_path_idem: "normalize_path (normalize_path p) = normalize_path p"
proof -
  define u where "u = map (\<lambda>c. if c = CHR 0x5C then CHR ''/'' else c) p"
  have nb: "lower_char c \<noteq> CHR 0x5C" if "c \<noteq> CHR 0x5C" for c
    using that of_char_lower [of c] by (auto simp: of_char_inj [symmetric] split: if_splits)
  have "\<forall>c \<in> set (py_lower u). c \<noteq> CHR 0x5C \<and> lower_char c = c"
    by (auto simp: py_lower_def u_def lower_char_def [of "CHR ''/''"] dest: nb)
  then have clean: "\<forall>c \<in> set (normalize_path p). c \<noteq> CHR 0x5C \<and> lower_char c = c"
    by (auto simp: normalize_path_def u_def lstrip_by_def dest: set_dropWhileD)
  then have "map (\<lambda>c. if c = CHR 0x5C then CHR ''/'' else c) (normalize_path p) = normalize_path p"
    by (intro map_idI) auto
  moreover have "py_lower (normalize_path p) = normalize_path p"
    using clean by (intro py_lower_fixed) blast
  ultimately have "normalize_path (normalize_path p)
      = lstrip_by (\<lambda>c. c = CHR ''.'' \<or> c = CHR ''/'') (normalize_path p)"
    unfolding normalize_path_def by simp
  then show ?thesis
    by (simp add: normalize_path_def [of p] lstrip_by_def dropWhile_idem)
qed

lemma classify_reason:
  "fp_skipped (classify_review_file p) \<longleftrightarrow> fp_skip_reason (classify_review_file p) \<noteq> []"
  by (simp add: classify_review_file_def Let_def)

lemma classify_skipped:
  "fp_skipped (classify_review_file p) \<longleftrightarrow>
     fp_test (classify_review_file p) \<or> fp_bloat (classify_review_file p) \<or> \<not> fp_supported (classify_review_file p)"
  by (simp add: classify_review_file_def Let_def)

lemma classify_test: "fp_test (classify_review_file p) \<longleftrightarrow> is_test_path (normalize_path p)"
  by (simp add: classify_review_file_def Let_def)

lemma test_dir_is_test:
  "x \<in> set (split_on CHR ''/'' s) \<Longrightarrow> x \<in> {''test'', ''tests'', ''__tests__'', ''testdata''} \<Longrightarrow> is_test_path s"
  unfolding is_test_path_def by auto

lemma classify_normalized:
  "classify_review_file (normalize_path p) = (classify_review_file p) \<lparr>fp_path := normalize_path p\<rparr>"
  by (simp add: classify_review_file_def normalize_path_idem Let_def)

text \<open>A file is skipped exactly when it is a test file, a bloat file or of an unsupported type, and
  exactly then a reason is recorded; a file below a test directory is always a test file; and the
  policy of a path is the policy of its normalised form.\<close>

theorem review_file_policy:
  "(\<not> fp_skipped (classify_review_file p) \<longleftrightarrow>
      fp_supported (classify_review_file p) \<and> \<not> fp_test (classify_review_file p)
      \<and> \<not> fp_bloat (classify_review_file p))
   \<and> (fp_skipped (classify_review_file p) \<longleftrightarrow> fp_skip_reason (classify_review_file p) \<noteq> [])
   \<and> ({''test'', ''tests'', ''__tests__'', ''testdata''} \<inter> set (split_on CHR ''/'' (normalize_path p)) = {}
      \<or> fp_test (classify_review_file p))
   \<and> classify_review_file (normalize_path p) = (classify_review_file p) \<lparr>fp_path := normalize_path p\<rparr>"
  using classify_skipped classify_reason classify_normalized test_dir_is_test classify_test by blast

text \<open>A leading dot is not kept by the normal form, so the lock file of Terraform at the root of a
  repository is not recognised by its name.\<close>

lemma root_lock_file_not_bloat:
  "fp_bloat (classify_review_file ''.terraform.lock.hcl'') = False"
  "fp_bloat (classify_review_file ''infra/.terraform.lock.hcl'') = True"
  by code_simp+

section \<open>The first rule that matches\<close>

lemma fnmatch_last:
  "fnmatchcase s p \<Longrightarrow> p \<noteq> [] \<Longrightarrow> last p \<noteq> CHR ''*'' \<Longrightarrow> last p \<noteq> CHR ''?'' \<Longrightarrow> s \<noteq> [] \<and> last s = last p"
proof (induction s p rule: fnmatchcase.induct)
  case (3 c s p ps)
  consider "p = CHR ''*''" "fnmatchcase (c # s) ps" | "p = CHR ''*''" "fnmatchcase s (p # ps)"
    | "p \<noteq> CHR ''*''" "fnmatchcase s ps" "p = CHR ''?'' \<or> p = c"
    using "3.prems"(1) by (auto split: if_splits)
  then show ?case
  proof cases
    case 1
    then have "ps \<noteq> []" using "3.prems"(3) by auto
    with 1 "3.IH"(1) "3.prems" show ?thesis by simp
  next
    case 2
    with "3.IH"(2) "3.prems" show ?thesis by auto
  next
    case 3
    show ?thesis
    proof (cases "ps = []")
      case True
      with 3 "3.prems" show ?thesis by auto
    next
      case False
      with 3 "3.IH"(3,4) "3.prems" show ?thesis by auto
    qed
  qed
qed (auto split: if_splits)

definition literal_end :: "string \<Rightarrow> bool" where
  "literal_end e \<longleftrightarrow> length e > 3 \<and> last e \<noteq> CHR ''*'' \<and> last e \<noteq> CHR ''?''"

lemma matches_last:
  assumes "matches pat p" and "list_all literal_end (expand_braces (py_lower pat))"
  shows "p \<noteq> [] \<and> last p \<in> last ` set (expand_braces (py_lower pat)) \<or> p = []"
proof -
  from assms(1) obtain e where e: "e \<in> set (expand_braces (py_lower pat))"
    "fnmatchcase p e \<or> fnmatchcase (''/'' @ p) e \<or> fnmatchcase p (drop 3 e)"
    by (auto simp: matches_def)
  with assms(2) have le: "length e > 3" "last e \<noteq> CHR ''*''" "last e \<noteq> CHR ''?''"
    by (auto simp: list_all_iff literal_end_def)
  then have "last (drop 3 e) = last e" "drop 3 e \<noteq> []" "e \<noteq> []" by auto
  with le e(2) fnmatch_last [of p e] fnmatch_last [of "''/'' @ p" e] fnmatch_last [of p "drop 3 e"]
  have "p = [] \<or> last p = last e" by (auto split: if_splits)
  with e(1) show ?thesis by auto
qed

text \<open>A path that ends in \<open>.java\<close>, whatever its directory, case and leading dots, is reviewed under
  the default rule and the Java rule, since no earlier rule of the table takes it.\<close>

theorem java_rule:
  assumes "endswith (normalize_path p) ''.java''"
  shows "match_review_rules [p] = [\<lparr>rm_path = p, rm_rule_names = [''default'', ''java''],
           rm_references = [''references/rules/default.md'', ''references/rules/java.md'']\<rparr>]"
proof -
  define n where "n = normalize_path p"
  obtain r where r: "n = r @ ''.java''"
    using assms by (auto simp: n_def endswith_iff)
  have "list_all (\<lambda>(pat, _, _). list_all literal_end (expand_braces (py_lower pat))
          \<and> CHR ''a'' \<notin> set (map last (expand_braces (py_lower pat)))) (take 7 SYSTEM_RULES)"
    by code_simp
  moreover have "last n = CHR ''a''" "n \<noteq> []" by (simp_all add: r)
  ultimately have no: "\<forall>(pat, _, _) \<in> set (take 7 SYSTEM_RULES). \<not> matches pat n"
    using matches_last [of _ n] by (fastforce simp: list_all_iff)
  have java: "matches (''**/*'' @ ''.java'') n"
    by (subst matches_extension) (simp_all add: wild_free_def lower_char_def r endswith_iff)
  have eq: "SYSTEM_RULES = take 7 SYSTEM_RULES @ (''**/*'' @ ''.java'', ''java'', ''references/rules/java.md'')
      # drop 8 SYSTEM_RULES"
    by (simp add: SYSTEM_RULES_def)
  from no have none: "find (\<lambda>(pat, _, _). matches pat n) (take 7 SYSTEM_RULES) = None"
    by (auto simp: find_None_key)
  have "find (\<lambda>(pat, _, _). matches pat n)
      (take 7 SYSTEM_RULES @ (''**/*'' @ ''.java'', ''java'', ''references/rules/java.md'') # drop 8 SYSTEM_RULES)
      = Some (''**/*'' @ ''.java'', ''java'', ''references/rules/java.md'')"
    by (rule find_split_first [OF none]) (use java in simp)
  then have "find (\<lambda>(pat, _, _). matches pat n) SYSTEM_RULES
      = Some (''**/*'' @ ''.java'', ''java'', ''references/rules/java.md'')"
    by (simp only: eq [symmetric])
  then show ?thesis by (simp add: match_review_rules_def n_def)
qed

theorem java_rule_witness:
  "match_review_rules [''./Src/Dao/UserMapper.JAVA''] =
     [\<lparr>rm_path = ''./Src/Dao/UserMapper.JAVA'', rm_rule_names = [''default'', ''java''],
       rm_references = [''references/rules/default.md'', ''references/rules/java.md'']\<rparr>]"
  by (rule java_rule) code_simp

end
