(* ===== verification/Context.thy ===== *)
theory Context
  imports Risk Review_Rules "HOL-Library.List_Lexorder"
begin

text \<open>
  Context preparation for a review: \<open>review_v2/context.py\<close> and the truncation of
  \<open>review_v2/artifacts.py\<close>. What git prints and what the files of the checkout hold are parameters.
  The central operation reads the new line numbers of added lines off a unified diff; it is proved
  against a rendering of hunks in the format git writes.
\<close>

section \<open>Added lines of a unified diff\<close>

text \<open>\<open>re.search(r"\+(\d+)(?:,(\d+))?", line)\<close>, group 1 as a number.\<close>

fun search_plus_number :: "string \<Rightarrow> nat option" where
  "search_plus_number [] = None"
| "search_plus_number (c # s) =
     (if c = CHR ''+'' \<and> s \<noteq> [] \<and> py_isdigit (hd s) then Some (nat_of_digits (takeWhile py_isdigit s))
      else search_plus_number s)"

definition dict_setdefault :: "'k \<Rightarrow> 'v \<Rightarrow> ('k \<times> 'v) list \<Rightarrow> ('k \<times> 'v) list" where
  "dict_setdefault k v d = (if k \<in> fst ` set d then d else d @ [(k, v)])"

definition dict_append :: "'k \<Rightarrow> 'v \<Rightarrow> ('k \<times> 'v list) list \<Rightarrow> ('k \<times> 'v list) list" where
  "dict_append k v d = map (\<lambda>(k', vs). if k' = k then (k', vs @ [v]) else (k', vs)) (dict_setdefault k [] d)"

record diff_state =
  ds_file :: "string option"
  ds_line :: "nat option"
  ds_result :: "(string \<times> nat list) list"

definition diff_step :: "diff_state \<Rightarrow> string \<Rightarrow> diff_state" where
  "diff_step st raw_line =
     (if startswith raw_line ''+++ b/'' then
        (let f = removeprefix ''+++ b/'' raw_line
         in st \<lparr>ds_file := Some f, ds_result := dict_setdefault f [] (ds_result st)\<rparr>)
      else if startswith raw_line ''@@'' then st \<lparr>ds_line := search_plus_number raw_line\<rparr>
      else (case (ds_file st, ds_line st) of
              (Some f, Some n) \<Rightarrow>
                if startswith raw_line ''+'' \<and> \<not> startswith raw_line ''+++'' then
                  st \<lparr>ds_result := dict_append f n (ds_result st), ds_line := Some (n + 1)\<rparr>
                else if startswith raw_line ''-'' \<and> \<not> startswith raw_line ''---'' then st
                else st \<lparr>ds_line := Some (n + 1)\<rparr>
            | _ \<Rightarrow> st))"

definition changed_lines :: "string \<Rightarrow> (string \<times> nat list) list" where
  "changed_lines diff_text =
     ds_result (foldl diff_step \<lparr>ds_file = None, ds_line = None, ds_result = []\<rparr> (splitlines diff_text))"

section \<open>Files and their summaries\<close>

definition is_ignored_file :: "string \<Rightarrow> bool" where
  "is_ignored_file path =
     (let lowered = py_lower path
      in lowered = ''readme.md'' \<or> endswith lowered ''.md'' \<or> startswith lowered ''docs/'')"

definition skip_reason :: "file_policy \<Rightarrow> bool \<Rightarrow> string" where
  "skip_reason policy ignored =
     (if fp_skip_reason policy \<noteq> [] then fp_skip_reason policy
      else if ignored then ''ignored file'' else [])"

definition file_summary :: "(string \<times> nat list) list \<Rightarrow> string \<Rightarrow> changed_file" where
  "file_summary all_changed_lines path =
     (let policy = classify_review_file path;
          ignored = is_ignored_file path \<or> fp_skipped policy
      in \<lparr>cf_path = path,
          cf_changed_lines = (case map_of all_changed_lines path of None \<Rightarrow> 0 | Some ls \<Rightarrow> length ls),
          cf_production = \<not> ignored, cf_ignored = ignored, cf_test = fp_test policy,
          cf_bloat = fp_bloat policy, cf_skip_reason = skip_reason policy ignored\<rparr>)"

text \<open>\<open>ArtifactStore.write_text\<close>: the bytes kept, and whether some were cut.\<close>

definition write_text :: "string \<Rightarrow> nat \<Rightarrow> string \<times> bool" where
  "write_text raw max_bytes =
     (if max_bytes > 0 \<and> length raw > max_bytes then (take max_bytes raw, True) else (raw, False))"

definition nonblank_lines :: "string \<Rightarrow> string list" where
  "nonblank_lines out = filter (\<lambda>l. l \<noteq> []) (map py_strip (splitlines out))"

section \<open>Feature specifications\<close>

definition is_word_char :: "char \<Rightarrow> bool" where
  "is_word_char c \<longleftrightarrow> py_isalnum c \<or> c = CHR ''_'' \<or> (of_char c :: int) \<ge> 128"

text \<open>\<open>\b[A-Z][A-Z0-9]+-\d+\b\<close>, any case, at the head of the text: the match and what follows it.\<close>

definition match_feature_key :: "string \<Rightarrow> (string \<times> string) option" where
  "match_feature_key s =
     (let word = takeWhile py_isalnum s; rest = dropWhile py_isalnum s
      in if length word \<ge> 2 \<and> py_isalpha (hd word) \<and> startswith rest ''-'' then
           (let digits = takeWhile py_isdigit (tl rest); after = dropWhile py_isdigit (tl rest)
            in if digits \<noteq> [] \<and> (after = [] \<or> \<not> is_word_char (hd after))
               then Some (word @ ''-'' @ digits, after) else None)
         else None)"

text \<open>All matches, scanned from the left; the flag says whether the previous character is a word
  character. The fuel is the length of the text, which every step shortens.\<close>

fun find_feature_keys :: "nat \<Rightarrow> bool \<Rightarrow> string \<Rightarrow> string list" where
  "find_feature_keys 0 _ _ = []"
| "find_feature_keys (Suc n) _ [] = []"
| "find_feature_keys (Suc n) prev (c # s) =
     (case (if prev then None else match_feature_key (c # s)) of
        Some (key, after) \<Rightarrow> py_upper key # find_feature_keys n True after
      | None \<Rightarrow> find_feature_keys n (is_word_char c) s)"

fun collect_texts :: "json \<Rightarrow> string list" where
  "collect_texts (JStr s) = [s]"
| "collect_texts (JArr xs) = concat (map collect_texts xs)"
| "collect_texts (JObj d) = concat (map (\<lambda>kv. collect_texts (snd kv)) d)"
| "collect_texts _ = []"

definition feature_keys :: "json \<Rightarrow> string list \<Rightarrow> string list" where
  "feature_keys request paths =
     remdups (concat (map (\<lambda>v. find_feature_keys (length v) False v) (paths @ collect_texts request)))"

definition FEATURE_SPEC_EXTENSIONS :: "string list" where
  "FEATURE_SPEC_EXTENSIONS = [''.md'', ''.txt'', ''.rst'', ''.json'', ''.yaml'', ''.yml'']"

definition SPEC_WORDS :: "string list" where
  "SPEC_WORDS =
     [''spec'', ''design'', ''requirement'', ''prd'', ''proposal'', ''story'', ''task'', ''ticket'',
      ''releaseapproval'', ''release-approval'', ''release_approval'',
      [CHR 0xE9, CHR 0x9C, CHR 0x80, CHR 0xE6, CHR 0xB1, CHR 0x82],
      [CHR 0xE6, CHR 0x96, CHR 0xB9, CHR 0xE6, CHR 0xA1, CHR 0x88],
      [CHR 0xE8, CHR 0xAE, CHR 0xBE, CHR 0xE8, CHR 0xAE, CHR 0xA1],
      [CHR 0xE4, CHR 0xBA, CHR 0xA7, CHR 0xE5, CHR 0x93, CHR 0x81]]"

definition NOISE_WORDS :: "string list" where
  "NOISE_WORDS = [''evidence'', ''report'', ''coverage'', ''snapshot'', ''result'', ''log'', ''cache'']"

definition DOC_PREFIXES :: "string list" where
  "DOC_PREFIXES = [''doc/'', ''docs/'', ''design/'', ''designs/'', ''spec/'', ''specs/'', ''requirements/'']"

definition feature_spec_candidate ::
  "string \<Rightarrow> string list \<Rightarrow> string list \<Rightarrow> (nat \<times> string \<times> string list) option" where
  "feature_spec_candidate path changed_paths keys =
     (let lowered = py_lower path
      in if py_lower (path_suffix path) \<notin> set FEATURE_SPEC_EXTENSIONS then None
         else if any_token NOISE_WORDS lowered \<and> \<not> any_token SPEC_WORDS lowered then None
         else
           (let spec_like = any_token SPEC_WORDS lowered;
                changed = path \<in> set changed_paths;
                doc_path = (\<exists>p \<in> set DOC_PREFIXES. startswith lowered p);
                matched_keys = sort (filter (\<lambda>key. contains (py_upper path) key) keys)
            in if changed \<and> spec_like then Some (0, ''changed_spec_file'', matched_keys)
               else if matched_keys \<noteq> [] \<and> spec_like then Some (1, ''feature_key_spec_match'', matched_keys)
               else if matched_keys \<noteq> [] \<and> doc_path then Some (2, ''feature_key_doc_match'', matched_keys)
               else None))"

record spec_reference =
  sr_path :: string
  sr_reason :: string
  sr_matched_keys :: "string list"
  sr_bytes :: nat
  sr_truncated :: bool
  sr_text :: string

definition MAX_FEATURE_SPEC_BYTES :: nat where
  "MAX_FEATURE_SPEC_BYTES = 12000"

definition MAX_FEATURE_SPEC_REFERENCES :: nat where
  "MAX_FEATURE_SPEC_REFERENCES = 5"

text \<open>\<open>read_file\<close> is the content of a path of the checkout that is a file.\<close>

definition read_feature_spec_reference ::
  "(string \<Rightarrow> string option) \<Rightarrow> string \<Rightarrow> string \<Rightarrow> string list \<Rightarrow> spec_reference option" where
  "read_feature_spec_reference read_file path reason matched_keys =
     (case read_file path of
        None \<Rightarrow> None
      | Some content \<Rightarrow>
          (let truncated = length content > MAX_FEATURE_SPEC_BYTES;
               display = take MAX_FEATURE_SPEC_BYTES content
           in Some \<lparr>sr_path = path, sr_reason = reason, sr_matched_keys = matched_keys,
                    sr_bytes = length content, sr_truncated = truncated,
                    sr_text = display @ (if truncated then CHR 0x0A # CHR 0x0A # ''[CR_V2_FEATURE_SPEC_TRUNCATED]''
                                         else [])\<rparr>))"

text \<open>The loop over the sorted candidates, with the paths seen and the references so far.\<close>

fun collect_references ::
  "(string \<Rightarrow> string option) \<Rightarrow> (nat \<times> string \<times> string \<times> string list) list \<Rightarrow> string list
     \<Rightarrow> spec_reference list \<Rightarrow> spec_reference list" where
  "collect_references read_file [] seen refs = refs"
| "collect_references read_file ((_, path, reason, keys) # cs) seen refs =
     (if path \<in> set seen then collect_references read_file cs seen refs
      else
        (let refs' = refs @ opt_list (read_feature_spec_reference read_file path reason keys)
         in if length refs' \<ge> MAX_FEATURE_SPEC_REFERENCES then refs'
            else collect_references read_file cs (path # seen) refs'))"

definition feature_spec_references ::
  "(string \<Rightarrow> string option) \<Rightarrow> string list \<Rightarrow> json \<Rightarrow> string list \<Rightarrow> spec_reference list" where
  "feature_spec_references read_file tracked request all_changed_files =
     (let keys = feature_keys request all_changed_files;
          candidates = concat (map (\<lambda>path.
            (case feature_spec_candidate path all_changed_files keys of
               None \<Rightarrow> []
             | Some (score, reason, matched) \<Rightarrow> [(score, path, reason, matched)])) tracked)
      in collect_references read_file (sort candidates) [] [])"

section \<open>The prepared context\<close>

record prepared_context =
  pc_task_id :: string
  pc_diff_range :: string
  pc_changed_files :: "string list"
  pc_changed_lines :: "(string \<times> nat list) list"
  pc_summaries :: "changed_file list"
  pc_truncated :: bool
  pc_risk :: risk_result
  pc_plan :: "plan_item list"
  pc_rules :: "rule_match list"

text \<open>\<open>git_diff\<close> and \<open>git_names\<close> are the outputs of the two \<open>git diff\<close> calls over the whole range,
  \<open>git_diff_of\<close> the diff restricted to given paths.\<close>

definition prepare_context ::
  "string \<Rightarrow> string \<Rightarrow> (string list \<Rightarrow> string) \<Rightarrow> nat \<Rightarrow> string \<Rightarrow> string \<Rightarrow> prepared_context" where
  "prepare_context git_diff git_names git_diff_of max_bytes task_id diff_range =
     (let all_changed_files = nonblank_lines git_names;
          all_changed_lines = changed_lines git_diff;
          summaries = map (file_summary all_changed_lines) all_changed_files;
          changed_files = map cf_path (filter cf_production summaries);
          diff_text = (if changed_files \<noteq> [] then git_diff_of changed_files else []);
          (kept, truncated) = write_text diff_text max_bytes;
          risk = classify_risk summaries (length kept) truncated
      in \<lparr>pc_task_id = task_id, pc_diff_range = diff_range, pc_changed_files = changed_files,
          pc_changed_lines = changed_lines diff_text, pc_summaries = summaries,
          pc_truncated = truncated, pc_risk = risk, pc_plan = plan_reviewers risk,
          pc_rules = match_review_rules changed_files\<rparr>)"

section \<open>A rendering of diffs\<close>

text \<open>The format git writes a unified diff in: for each file its header lines, the \<open>+++\<close> line and its hunks; for
  each hunk its ranges and its lines. \<open>D_No_Newline\<close> is the marker git puts after the last line of the old
  or the new file when it does not end with a line break. A file with no name after the change is deleted
  (\<open>+++ /dev/null\<close>), or has no hunks (a binary file, a change of mode or name alone).\<close>

datatype diff_line = D_Context string | D_Add string | D_Del string | D_No_Newline

record hunk =
  hk_old_start :: nat
  hk_old_count :: nat
  hk_new_start :: nat
  hk_new_count :: nat
  hk_section :: string
  hk_lines :: "diff_line list"

record file_diff =
  fd_path :: "string option"
  fd_header :: "string list"
  fd_hunks :: "hunk list"

fun render_line :: "diff_line \<Rightarrow> string" where
  "render_line (D_Context s) = '' '' @ s"
| "render_line (D_Add s) = ''+'' @ s"
| "render_line (D_Del s) = ''-'' @ s"
| "render_line D_No_Newline = [CHR 0x5C] @ '' No newline at end of file''"

definition range_text :: "nat \<Rightarrow> nat \<Rightarrow> string" where
  "range_text start len = str_nat start @ (if len = 1 then [] else '','' @ str_nat len)"

definition hunk_header :: "hunk \<Rightarrow> string" where
  "hunk_header h = ''@@ -'' @ range_text (hk_old_start h) (hk_old_count h) @ '' +'' @
     range_text (hk_new_start h) (hk_new_count h) @ '' @@'' @ hk_section h"

definition hunk_text_lines :: "hunk \<Rightarrow> string list" where
  "hunk_text_lines h = hunk_header h # map render_line (hk_lines h)"

definition file_text_lines :: "file_diff \<Rightarrow> string list" where
  "file_text_lines f = fd_header f
     @ (case fd_path f of Some p \<Rightarrow> [''+++ b/'' @ p] | None \<Rightarrow> if fd_hunks f = [] then [] else [''+++ /dev/null''])
     @ concat (map hunk_text_lines (fd_hunks f))"

definition diff_text_lines :: "file_diff list \<Rightarrow> string list" where
  "diff_text_lines fs = concat (map file_text_lines fs)"

definition render_diff :: "file_diff list \<Rightarrow> string" where
  "render_diff fs = concat (map (\<lambda>l. l @ [CHR 0x0A]) (diff_text_lines fs))"

text \<open>The line numbers of the new file at which a hunk adds lines, when the marker counts for \<open>k\<close> lines: it is no
  line of the file, so the true numbers are those for \<open>k = 0\<close>.\<close>

fun added_at :: "nat \<Rightarrow> nat \<Rightarrow> diff_line list \<Rightarrow> nat list" where
  "added_at k n [] = []"
| "added_at k n (D_Context _ # ls) = added_at k (n + 1) ls"
| "added_at k n (D_Add _ # ls) = n # added_at k (n + 1) ls"
| "added_at k n (D_Del _ # ls) = added_at k n ls"
| "added_at k n (D_No_Newline # ls) = added_at k (n + k) ls"

definition added_in_hunks :: "nat \<Rightarrow> hunk list \<Rightarrow> nat list" where
  "added_in_hunks k hs = concat (map (\<lambda>h. added_at k (hk_new_start h) (hk_lines h)) hs)"

definition added_in_diff :: "nat \<Rightarrow> file_diff list \<Rightarrow> (string \<times> nat list) list" where
  "added_in_diff k fs = concat (map (\<lambda>f. map (\<lambda>p. (p, added_in_hunks k (fd_hunks f))) (opt_list (fd_path f))) fs)"

text \<open>No line is added after the marker.\<close>

fun marker_late :: "diff_line list \<Rightarrow> bool" where
  "marker_late [] \<longleftrightarrow> True"
| "marker_late (D_No_Newline # ls) \<longleftrightarrow> added_at 0 0 ls = []"
| "marker_late (_ # ls) \<longleftrightarrow> marker_late ls"

lemma added_none: "added_at k n ls = [] \<longleftrightarrow> added_at j m ls = []"
  by (induction k n ls arbitrary: j m rule: added_at.induct) auto

lemma added_late: "marker_late ls \<Longrightarrow> added_at k n ls = added_at j n ls"
proof (induction ls arbitrary: n rule: marker_late.induct)
  case (2 ls)
  then show ?case using added_none [of 0 0 ls] by simp
qed simp_all

lemma added_late_diff:
  assumes "list_all (\<lambda>f. list_all (\<lambda>h. marker_late (hk_lines h)) (fd_hunks f)) fs"
  shows "added_in_diff k fs = added_in_diff j fs"
proof -
  have "added_in_hunks k hs = added_in_hunks j hs" if "list_all (\<lambda>h. marker_late (hk_lines h)) hs" for hs
    using that added_late [of _ k _ j] by (induction hs) (auto simp: added_in_hunks_def)
  with assms show ?thesis
    by (induction fs) (auto simp: added_in_diff_def)
qed

fun plain_line :: "diff_line \<Rightarrow> bool" where
  "plain_line (D_Context s) \<longleftrightarrow> True"
| "plain_line (D_Add s) \<longleftrightarrow> \<not> startswith s ''++''"
| "plain_line (D_Del s) \<longleftrightarrow> \<not> startswith s ''--''"
| "plain_line D_No_Newline \<longleftrightarrow> True"

fun is_added :: "diff_line \<Rightarrow> bool" where
  "is_added (D_Add _) = True"
| "is_added _ = False"

text \<open>A path git writes as it is: others it puts between quotes, or ends with a tab.\<close>

definition plain_path :: "string \<Rightarrow> bool" where
  "plain_path p \<longleftrightarrow> list_all (\<lambda>c. 0x20 < (of_char c :: nat) \<and> (of_char c :: nat) < 0x7F \<and> c \<noteq> CHR 0x22 \<and> c \<noteq> CHR 0x5C) p"

definition plain_file :: "file_diff \<Rightarrow> bool" where
  "plain_file f \<longleftrightarrow>
     list_all (\<lambda>l. \<not> startswith l ''+'' \<and> \<not> startswith l ''@@'') (fd_header f)
   \<and> list_all (\<lambda>h. list_all plain_line (hk_lines h)) (fd_hunks f)
   \<and> (case fd_path f of Some p \<Rightarrow> plain_path p
      | None \<Rightarrow> list_all (\<lambda>h. list_all (\<lambda>l. \<not> is_added l) (hk_lines h)) (fd_hunks f))"

definition one_line :: "string \<Rightarrow> bool" where
  "one_line l \<longleftrightarrow> list_all (\<lambda>c. \<not> is_line_break c) l"

lemma takeWhile_digits:
  "all_digits d \<Longrightarrow> (s = [] \<or> \<not> py_isdigit (hd s)) \<Longrightarrow> takeWhile py_isdigit (d @ s) = d"
  by (cases s) (auto simp: all_digits_def takeWhile_tail)

lemma search_plus_skip: "CHR ''+'' \<notin> set a \<Longrightarrow> search_plus_number (a @ s) = search_plus_number s"
  by (induction a) auto

lemma range_text_no_plus: "CHR ''+'' \<notin> set (range_text a b)"
  using str_nat_digits [of a] str_nat_digits [of b] by (auto simp: range_text_def py_isdigit_def)

lemma search_hunk_header: "search_plus_number (hunk_header h) = Some (hk_new_start h)"
proof -
  define rest where "rest = (if hk_new_count h = 1 then [] else '','' @ str_nat (hk_new_count h)) @ '' @@'' @ hk_section h"
  have hd: "hd (str_nat n) \<in> {c. py_isdigit c}" for n
    using str_nat_digits [of n] str_nat_nonempty [of n] hd_in_set by blast
  have rest: "rest \<noteq> [] \<and> \<not> py_isdigit (hd rest)"
    by (simp add: rest_def py_isdigit_def)
  have "hunk_header h = (''@@ -'' @ range_text (hk_old_start h) (hk_old_count h) @ '' '') @
      CHR ''+'' # str_nat (hk_new_start h) @ rest"
    by (simp add: hunk_header_def range_text_def rest_def)
  then have "search_plus_number (hunk_header h)
      = search_plus_number (CHR ''+'' # str_nat (hk_new_start h) @ rest)"
    using range_text_no_plus by (simp only:) (rule search_plus_skip, simp)
  also have "\<dots> = Some (hk_new_start h)"
    using takeWhile_digits [OF all_digits_str_nat, of rest "hk_new_start h"] hd [of "hk_new_start h"] rest
    by (simp add: nat_of_digits_str_nat)
  finally show ?thesis .
qed

lemma dict_append_last:
  "p \<notin> fst ` set R \<Longrightarrow> dict_append p n (R @ [(p, acc)]) = R @ [(p, acc @ [n])]"
  by (induction R) (auto simp: dict_append_def dict_setdefault_def)

text \<open>The parser over the lines of one hunk, of the hunks of a file, of a file, of a diff.\<close>

abbreviation in_file :: "string \<Rightarrow> nat option \<Rightarrow> (string \<times> nat list) list \<Rightarrow> nat list \<Rightarrow> diff_state" where
  "in_file p n R acc \<equiv> \<lparr>ds_file = Some p, ds_line = n, ds_result = R @ [(p, acc)]\<rparr>"

lemma parse_lines:
  assumes "p \<notin> fst ` set R" and "list_all plain_line ls"
  shows "\<exists>m. foldl diff_step (in_file p (Some n) R acc) (map render_line ls)
             = in_file p (Some m) R (acc @ added_at 1 n ls)"
  using assms(2)
proof (induction ls arbitrary: n acc)
  case (Cons l ls)
  show ?case
  proof (cases l)
    case (D_Context s)
    with Cons show ?thesis by (simp add: diff_step_def)
  next
    case (D_Add s)
    then have "diff_step (in_file p (Some n) R acc) (render_line l) = in_file p (Some (n + 1)) R (acc @ [n])"
      using Cons.prems assms(1) by (simp add: diff_step_def dict_append_last) (auto simp: startswith_iff)
    with Cons.IH [of "n + 1" "acc @ [n]"] Cons.prems D_Add show ?thesis by simp
  next
    case (D_Del s)
    then have "diff_step (in_file p (Some n) R acc) (render_line l) = in_file p (Some n) R acc"
      using Cons.prems by (simp add: diff_step_def)
    with Cons D_Del show ?thesis by simp
  next
    case D_No_Newline
    with Cons show ?thesis by (simp add: diff_step_def)
  qed
qed simp

lemma parse_hunk:
  assumes "p \<notin> fst ` set R" and "list_all plain_line (hk_lines h)"
  shows "\<exists>m. foldl diff_step (in_file p k R acc) (hunk_text_lines h)
             = in_file p (Some m) R (acc @ added_at 1 (hk_new_start h) (hk_lines h))"
proof -
  have h: "startswith (hunk_header h) ''@@''" "\<not> startswith (hunk_header h) ''+++ b/''"
    by (simp_all add: hunk_header_def)
  have "diff_step (in_file p k R acc) (hunk_header h) = in_file p (Some (hk_new_start h)) R acc"
    by (simp only: diff_step_def h if_True if_False search_hunk_header) simp
  then show ?thesis
    using parse_lines [OF assms] by (simp add: hunk_text_lines_def)
qed

lemma parse_hunks:
  assumes "p \<notin> fst ` set R" and "list_all (\<lambda>h. list_all plain_line (hk_lines h)) hs"
  shows "\<exists>m. foldl diff_step (in_file p k R acc) (concat (map hunk_text_lines hs))
             = in_file p m R (acc @ added_in_hunks 1 hs)"
  using assms(2)
proof (induction hs arbitrary: k acc)
  case (Cons h hs)
  then obtain m where "foldl diff_step (in_file p k R acc) (hunk_text_lines h)
      = in_file p (Some m) R (acc @ added_at 1 (hk_new_start h) (hk_lines h))"
    using parse_hunk [OF assms(1)] by fastforce
  with Cons.IH [of "Some m" "acc @ added_at 1 (hk_new_start h) (hk_lines h)"] Cons.prems show ?case
    by (simp add: added_in_hunks_def)
qed (simp add: added_in_hunks_def)

text \<open>Lines that leave the result as it is: whatever is no \<open>+++ b/\<close> line and no added line.\<close>

definition quiet_line :: "string \<Rightarrow> bool" where
  "quiet_line l \<longleftrightarrow> \<not> startswith l ''+++ b/'' \<and> (startswith l ''+'' \<longrightarrow> startswith l ''+++'' \<or> startswith l ''@@'')"

lemma parse_quiet: "list_all quiet_line ls \<Longrightarrow> ds_result (foldl diff_step st ls) = ds_result st"
proof (induction ls arbitrary: st)
  case (Cons l ls)
  then have "\<not> startswith l ''+++ b/''" "startswith l ''+'' \<longrightarrow> startswith l ''+++'' \<or> startswith l ''@@''"
    by (simp_all add: quiet_line_def)
  then have "ds_result (diff_step st l) = ds_result st"
    by (auto simp: diff_step_def split: option.split)
  with Cons show ?case by simp
qed simp

lemma quiet_header: "list_all (\<lambda>l. \<not> startswith l ''+'' \<and> \<not> startswith l ''@@'') hs \<Longrightarrow> list_all quiet_line hs"
  by (auto simp: list_all_iff quiet_line_def startswith_iff)

lemma quiet_render: "\<not> is_added l \<Longrightarrow> quiet_line (render_line l)"
  by (cases l) (simp_all add: quiet_line_def)

lemma quiet_hunk: "list_all (\<lambda>l. \<not> is_added l) (hk_lines h) \<Longrightarrow> list_all quiet_line (hunk_text_lines h)"
  by (auto simp: hunk_text_lines_def list_all_iff quiet_render) (simp add: quiet_line_def hunk_header_def)

lemma parse_file:
  assumes "plain_file f" and "set_option (fd_path f) \<inter> fst ` set (ds_result st) = {}"
  shows "ds_result (foldl diff_step st (file_text_lines f)) = ds_result st @ added_in_diff 1 [f]"
proof (cases "fd_path f")
  case None
  have "list_all quiet_line (file_text_lines f)"
    using assms(1) None quiet_header [of "fd_header f"] quiet_hunk
    by (auto simp: file_text_lines_def plain_file_def list_all_iff) (simp add: quiet_line_def)
  then show ?thesis using None by (simp add: parse_quiet added_in_diff_def opt_list_def)
next
  case (Some p)
  let ?st = "foldl diff_step st (fd_header f)"
  have res: "ds_result ?st = ds_result st"
    using assms(1) parse_quiet [OF quiet_header] by (simp add: plain_file_def)
  have "diff_step ?st (''+++ b/'' @ p) = in_file p (ds_line ?st) (ds_result st) []"
    using assms(2) Some res by (cases ?st) (simp add: diff_step_def dict_setdefault_def removeprefix_def Let_def)
  then show ?thesis
    using assms Some parse_hunks [of p "ds_result st" "fd_hunks f" "ds_line ?st" "[]"]
    by (auto simp: file_text_lines_def plain_file_def added_in_diff_def opt_list_def)
qed

definition new_paths :: "file_diff list \<Rightarrow> string list" where
  "new_paths fs = concat (map (\<lambda>f. opt_list (fd_path f)) fs)"

lemma parse_diff:
  assumes "list_all plain_file fs" and "distinct (new_paths fs)" and "set (new_paths fs) \<inter> fst ` set (ds_result st) = {}"
  shows "ds_result (foldl diff_step st (diff_text_lines fs)) = ds_result st @ added_in_diff 1 fs"
  using assms
proof (induction fs arbitrary: st)
  case (Cons f fs)
  have opt: "set (opt_list x) = set_option x" for x :: "string option" by (cases x) (simp_all add: opt_list_def)
  from Cons.prems have one: "ds_result (foldl diff_step st (file_text_lines f)) = ds_result st @ added_in_diff 1 [f]"
    by (intro parse_file) (auto simp: new_paths_def opt)
  have "fst ` set (added_in_diff 1 [f]) = set_option (fd_path f)"
    by (cases "fd_path f") (simp_all add: added_in_diff_def opt_list_def)
  then have "fst ` set (ds_result (foldl diff_step st (file_text_lines f))) = fst ` set (ds_result st) \<union> set_option (fd_path f)"
    by (simp only: one set_append image_Un)
  with Cons.prems have "set (new_paths fs) \<inter> fst ` set (ds_result (foldl diff_step st (file_text_lines f))) = {}"
    by (auto simp: new_paths_def opt)
  with Cons.IH [of "foldl diff_step st (file_text_lines f)"] Cons.prems one show ?case
    by (simp add: diff_text_lines_def new_paths_def added_in_diff_def)
qed (simp add: diff_text_lines_def added_in_diff_def)

text \<open>C12: read back from a diff in git's format (deleted and binary files and the marker for a missing line
  break included), the changed lines are the numbers of the added lines in the new file, file by file in the
  order of the diff, but for one thing: the marker is counted as a line of the new file. So the numbers are
  exact when no line is added after the marker in its hunk, and otherwise the lines added after it are one
  too high each. The hypotheses say that the files are distinct, that no text line holds another line
  boundary, that no deleted line begins with two dashes and no added line with two plus signs, and that no
  path is one git quotes or ends with a tab.\<close>

theorem changed_lines_of_diff:
  assumes "distinct (new_paths fs)" and "list_all plain_file fs"
    and "list_all one_line (diff_text_lines fs)"
  shows "changed_lines (render_diff fs) = added_in_diff 1 fs
    \<and> (list_all (\<lambda>f. list_all (\<lambda>h. marker_late (hk_lines h)) (fd_hunks f)) fs
        \<longrightarrow> changed_lines (render_diff fs) = added_in_diff 0 fs)"
proof -
  have "splitlines (render_diff fs) = diff_text_lines fs"
    unfolding render_diff_def
    by (rule splitlines_join_lines) (use assms(3) in \<open>simp add: list_all_iff one_line_def\<close>)
  then show ?thesis
    using parse_diff [of fs "\<lparr>ds_file = None, ds_line = None, ds_result = []\<rparr>"] assms added_late_diff [of fs 1 0]
    by (simp add: changed_lines_def)
qed

text \<open>A diff of three files to apply the theorem to: the second is deleted, and the last line of the first had no
  line break in either version. In \<open>sample_marker\<close> a line break and a line are added at the end of a file of
  one line: the lines added are 1 and 2, and the code finds 2 and 3.\<close>

definition sample_diff :: "file_diff list" where
  "sample_diff =
     [\<lparr>fd_path = Some ''a.py'', fd_header = [''diff --git a/a.py b/a.py'', ''--- a/a.py''],
       fd_hunks = [\<lparr>hk_old_start = 3, hk_old_count = 2, hk_new_start = 3, hk_new_count = 3, hk_section = '' f + 1'',
         hk_lines = [D_Context ''x'', D_Del ''y'', D_Add ''z'', D_Add ''w'', D_Context ''end'', D_No_Newline]\<rparr>]\<rparr>,
      \<lparr>fd_path = None, fd_header = [''diff --git a/c.py b/c.py'', ''deleted file mode 100644'', ''--- a/c.py''],
       fd_hunks = [\<lparr>hk_old_start = 1, hk_old_count = 1, hk_new_start = 0, hk_new_count = 0, hk_section = [],
         hk_lines = [D_Del ''gone'', D_No_Newline]\<rparr>]\<rparr>,
      \<lparr>fd_path = Some ''b.py'', fd_header = [''diff --git a/b.py b/b.py''],
       fd_hunks = [\<lparr>hk_old_start = 0, hk_old_count = 0, hk_new_start = 1, hk_new_count = 1, hk_section = [],
         hk_lines = [D_Add ''q'']\<rparr>]\<rparr>]"

definition sample_marker :: "file_diff list" where
  "sample_marker =
     [\<lparr>fd_path = Some ''a.py'', fd_header = [''diff --git a/a.py b/a.py'', ''--- a/a.py''],
       fd_hunks = [\<lparr>hk_old_start = 1, hk_old_count = 1, hk_new_start = 1, hk_new_count = 2, hk_section = [],
         hk_lines = [D_Del ''x'', D_No_Newline, D_Add ''x'', D_Add ''y'']\<rparr>]\<rparr>]"

theorem changed_lines_of_diff_witness:
  "changed_lines (render_diff sample_diff) = [(''a.py'', [4, 5]), (''b.py'', [1])]
   \<and> changed_lines (render_diff sample_marker) = [(''a.py'', [2, 3])] \<and> added_in_diff 0 sample_marker = [(''a.py'', [1, 2])]"
proof -
  have "changed_lines (render_diff sample_diff) = added_in_diff 0 sample_diff"
    using changed_lines_of_diff [of sample_diff] by (rule conjunct2 [THEN mp]) code_simp+
  moreover have "changed_lines (render_diff sample_marker) = added_in_diff 1 sample_marker"
    using changed_lines_of_diff [of sample_marker] by (rule conjunct1) code_simp+
  moreover have "added_in_diff 0 sample_diff = [(''a.py'', [4, 5]), (''b.py'', [1])]"
    "added_in_diff 1 sample_marker = [(''a.py'', [2, 3])]" "added_in_diff 0 sample_marker = [(''a.py'', [1, 2])]"
    by code_simp+
  ultimately show ?thesis by simp
qed

text \<open>Without the condition on dashes the numbers are wrong: a deleted line whose text begins with \<open>--\<close> (an
  SQL comment, say) is counted as a line of the new file, so the line added after it is reported one
  too low in the file. The hypotheses only keep the two texts on one line each.\<close>

theorem deleted_dashes_shift:
  assumes "one_line s" and "one_line t" and "\<not> startswith t ''++''"
    and "f = \<lparr>fd_path = Some ''q.sql'', fd_header = [], fd_hunks = [\<lparr>hk_old_start = n, hk_old_count = 1,
               hk_new_start = n, hk_new_count = 1, hk_section = [], hk_lines = [D_Del (''--'' @ s), D_Add t]\<rparr>]\<rparr>"
  shows "changed_lines (render_diff [f]) = [(''q.sql'', [n + 1])] \<and> added_in_diff 0 [f] = [(''q.sql'', [n])]"
proof -
  let ?h = "\<lparr>hk_old_start = n, hk_old_count = 1, hk_new_start = n, hk_new_count = 1, hk_section = [],
              hk_lines = [D_Del (''--'' @ s), D_Add t]\<rparr>"
  have nb: "\<not> is_line_break c" if "py_isdigit c \<or> c \<in> set ''@-+ q.sqlb/,''" for c
    using that by (auto simp: is_line_break_def py_isdigit_def Let_def)
  have hdr: "c \<in> set (hunk_header ?h) \<Longrightarrow> \<not> is_line_break c" for c
    using str_nat_digits [of n] by (intro nb) (auto simp: hunk_header_def range_text_def)
  have lines: "splitlines (render_diff [f])
      = [''+++ b/q.sql'', hunk_header ?h, ''---'' @ s, ''+'' @ t]"
    unfolding render_diff_def
    by (subst splitlines_join_lines)
      (use hdr assms(1,2) nb in \<open>auto simp: assms(4) diff_text_lines_def file_text_lines_def hunk_text_lines_def
          one_line_def list_all_iff is_line_break_def\<close>)
  have h: "startswith (hunk_header ?h) ''@@''" "\<not> startswith (hunk_header ?h) ''+++ b/''"
    by (simp_all add: hunk_header_def)
  have s1: "diff_step \<lparr>ds_file = None, ds_line = None, ds_result = []\<rparr> ''+++ b/q.sql''
      = in_file ''q.sql'' None [] []"
    by (simp add: diff_step_def removeprefix_def dict_setdefault_def Let_def)
  have s2: "diff_step (in_file ''q.sql'' None [] []) (hunk_header ?h) = in_file ''q.sql'' (Some n) [] []"
    by (simp only: diff_step_def h if_True if_False search_hunk_header) simp
  have s3: "diff_step (in_file ''q.sql'' (Some n) [] []) (''---'' @ s) = in_file ''q.sql'' (Some (n + 1)) [] []"
    by (simp add: diff_step_def)
  have s4: "ds_result (diff_step (in_file ''q.sql'' (Some (n + 1)) [] []) (''+'' @ t)) = [(''q.sql'', [n + 1])]"
    using assms(3) dict_append_last [of "''q.sql''" "[]" "n + 1" "[]"]
    by (auto simp: diff_step_def startswith_iff)
  have "changed_lines (render_diff [f]) = [(''q.sql'', [n + 1])]"
    unfolding changed_lines_def lines using s1 s2 s3 s4 by simp
  moreover have "added_in_diff 0 [f] = [(''q.sql'', [n])]"
    by (simp add: assms(4) added_in_diff_def added_in_hunks_def opt_list_def)
  ultimately show ?thesis by blast
qed

theorem deleted_dashes_shift_witness:
  "changed_lines (render_diff
     [\<lparr>fd_path = Some ''q.sql'', fd_header = [], fd_hunks = [\<lparr>hk_old_start = 7, hk_old_count = 1,
        hk_new_start = 7, hk_new_count = 1, hk_section = [],
        hk_lines = [D_Del (''--'' @ '' old''), D_Add ''-- new'']\<rparr>]\<rparr>]) = [(''q.sql'', [8])]"
  using deleted_dashes_shift [of "'' old''" "''-- new''" _ 7]
  by (simp add: one_line_def is_line_break_def startswith_def)

text \<open>A path git puts between quotes (it does so for every character outside ASCII) is not recognised: the lines
  added in that file are given to the file before it.\<close>

lemma quoted_path_astray:
  "changed_lines (concat (map (\<lambda>l. l @ [CHR 0x0A])
     [''+++ b/a.py'', ''@@ -0,0 +1 @@'', ''+x'',
      ''+++ '' @ [CHR 0x22] @ ''b/caf'' @ [CHR 0x5C] @ ''303'' @ [CHR 0x5C] @ ''251.py'' @ [CHR 0x22],
      ''@@ -6,0 +7 @@'', ''+y''])) = [(''a.py'', [1, 7])]"
  by code_simp

section \<open>What the context promises\<close>

lemma file_summary_production:
  "cf_production (file_summary al p) \<longleftrightarrow>
     fp_supported (classify_review_file p) \<and> \<not> fp_test (classify_review_file p)
   \<and> \<not> fp_bloat (classify_review_file p) \<and> \<not> is_ignored_file p"
  using classify_skipped [of p] by (auto simp: file_summary_def Let_def)

lemma cf_path_summary [simp]: "cf_path (file_summary al p) = p"
  by (simp add: file_summary_def Let_def)

lemma changed_files_of_summaries:
  "map cf_path (filter cf_production (map (file_summary al) ps)) = filter (\<lambda>p. cf_production (file_summary al p)) ps"
  by (induction ps) simp_all

lemma snd_write_text: "snd (write_text raw n) \<longleftrightarrow> 0 < n \<and> n < length raw"
  by (simp add: write_text_def)

text \<open>C13: the context handed to the reviewers is coherent: the files to review are the production files
  in git's order, that is the supported files that are neither tests nor bloat nor documentation; the
  plan is empty exactly when there are none, and then the review is skipped; it is refused for size
  exactly when the diff of those files is longer than the configured bound.\<close>

theorem prepared_context_coherent:
  assumes "pc = prepare_context git_diff git_names git_diff_of max_bytes task_id diff_range"
  shows "pc_changed_files pc = filter (\<lambda>p. fp_supported (classify_review_file p) \<and> \<not> fp_test (classify_review_file p)
           \<and> \<not> fp_bloat (classify_review_file p) \<and> \<not> is_ignored_file p) (nonblank_lines git_names)
    \<and> (pc_plan pc = [] \<longleftrightarrow> pc_changed_files pc = [])
    \<and> (prepare_review_guard (pc_risk pc) = Guard_Skipped \<longleftrightarrow> pc_changed_files pc = [])
    \<and> (prepare_review_guard (pc_risk pc) = Guard_Fail \<longleftrightarrow> pc_changed_files pc \<noteq> [] \<and> 0 < max_bytes
         \<and> max_bytes < length (git_diff_of (pc_changed_files pc)))"
proof -
  let ?sum = "map (file_summary (changed_lines git_diff)) (nonblank_lines git_names)"
  let ?files = "map cf_path (filter cf_production ?sum)"
  let ?text = "if ?files \<noteq> [] then git_diff_of ?files else []"
  obtain kept tr where w: "write_text ?text max_bytes = (kept, tr)" by fastforce
  have files: "pc_changed_files pc = ?files" and tr: "pc_truncated pc = tr"
    and risk: "pc_risk pc = classify_risk ?sum (length kept) (pc_truncated pc)"
      "pc_plan pc = plan_reviewers (pc_risk pc)"
    unfolding assms prepare_context_def Let_def w by simp_all
  have trunc: "pc_changed_files pc \<noteq> [] \<Longrightarrow> pc_truncated pc \<longleftrightarrow>
      0 < max_bytes \<and> max_bytes < length (git_diff_of (pc_changed_files pc))"
    using snd_write_text [of ?text max_bytes] w by (simp add: files tr)
  have empty: "pc_changed_files pc = [] \<longleftrightarrow> filter cf_production ?sum = []"
    by (simp add: files)
  have plan: "pc_plan pc = [] \<longleftrightarrow> pc_changed_files pc = []"
    unfolding risk empty by (auto simp: plan_reviewers_def tier_classify)
  have guard: "prepare_review_guard (pc_risk pc) = Guard_Skipped \<longleftrightarrow> pc_changed_files pc = []"
    "prepare_review_guard (pc_risk pc) = Guard_Fail \<longleftrightarrow> pc_changed_files pc \<noteq> [] \<and> pc_truncated pc"
    unfolding risk(1) empty by (auto simp: prepare_review_guard_def classify_simps)
  show ?thesis
    using plan guard trunc
    by (auto simp: files changed_files_of_summaries file_summary_production)
qed

theorem prepared_context_coherent_witness:
  "pc_plan (prepare_context [] ''README.md'' (\<lambda>_. []) 100 ''t'' ''a..b'') = []"
  using prepared_context_coherent [OF refl, of "[]" "''README.md''" "\<lambda>_. []" 100 "''t''" "''a..b''"]
  by (simp add: nonblank_lines_def splitlines_def is_line_break_def py_strip_def lstrip_by_def rstrip_by_def
      py_isspace_def is_ignored_file_def py_lower_def lower_char_def endswith_def)

lemma collect_references_bounds:
  assumes "length refs < MAX_FEATURE_SPEC_REFERENCES" and "distinct (map sr_path refs)"
    and "sr_path ` set refs \<subseteq> set seen"
  shows "length (collect_references rf cs seen refs) \<le> MAX_FEATURE_SPEC_REFERENCES
    \<and> distinct (map sr_path (collect_references rf cs seen refs))"
  using assms
proof (induction rf cs seen refs rule: collect_references.induct)
  case (2 rf score path reason keys cs seen refs)
  show ?case
  proof (cases "path \<in> set seen")
    case True
    with 2 show ?thesis by simp
  next
    case False
    let ?refs = "refs @ opt_list (read_feature_spec_reference rf path reason keys)"
    have d: "distinct (map sr_path ?refs)" "sr_path ` set ?refs \<subseteq> set (path # seen)"
      "length ?refs \<le> Suc (length refs)"
      using 2 False by (auto simp: opt_list_def read_feature_spec_reference_def Let_def split: option.split)
    show ?thesis
    proof (cases "length ?refs \<ge> MAX_FEATURE_SPEC_REFERENCES")
      case True
      with False d 2 show ?thesis by (simp add: Let_def)
    next
      case c: False
      with "2.IH"(2) [OF False refl] d show ?thesis
        using False by (simp add: Let_def not_le)
    qed
  qed
qed simp

lemma collect_references_read:
  "r \<in> set (collect_references rf cs seen refs) \<Longrightarrow>
     r \<in> set refs \<or> (\<exists>(sc, p, why, ks) \<in> set cs. read_feature_spec_reference rf p why ks = Some r)"
  by (induction rf cs seen refs rule: collect_references.induct)
    (fastforce simp: Let_def opt_list_def split: if_splits option.splits)+

text \<open>At most five feature specifications are attached, each path once, each a tracked file that
  exists in the checkout, and each text is at most 12000 bytes of it and the truncation mark.\<close>

theorem feature_references_bounded:
  "length (feature_spec_references rf tracked request files) \<le> 5
   \<and> distinct (map sr_path (feature_spec_references rf tracked request files))
   \<and> list_all (\<lambda>r. sr_path r \<in> set tracked \<and> rf (sr_path r) \<noteq> None \<and> length (sr_text r) \<le> 12033)
       (feature_spec_references rf tracked request files)"
proof -
  let ?refs = "feature_spec_references rf tracked request files"
  have b: "length ?refs \<le> 5 \<and> distinct (map sr_path ?refs)"
    using collect_references_bounds [of "[]" "[]"]
    by (simp add: feature_spec_references_def MAX_FEATURE_SPEC_REFERENCES_def)
  have "sr_path r \<in> set tracked \<and> rf (sr_path r) \<noteq> None \<and> length (sr_text r) \<le> 12033" if "r \<in> set ?refs" for r
  proof -
    from that obtain p why ks where p: "p \<in> set tracked" "read_feature_spec_reference rf p why ks = Some r"
      by (auto simp: feature_spec_references_def Let_def dest!: collect_references_read split: option.splits)
    then show ?thesis
      by (auto simp: read_feature_spec_reference_def MAX_FEATURE_SPEC_BYTES_def Let_def split: option.splits)
  qed
  with b show ?thesis by (simp add: list_all_iff)
qed

end
