(* ===== verification/Interfaces.thy ===== *)
theory Interfaces
  imports Prelude "HOL-Library.Multiset"
begin

text \<open>
  The interfaces components rely on, each a locale: what its operations promise, and the lemmas
  clients use, proved once. Every locale is interpreted on the model's own definitions in the theory
  that provides them.
\<close>

section \<open>Transition systems and invariants\<close>

text \<open>A store changed by a sequence of operations: states reachable from an initial one.\<close>

inductive reach :: "('s \<Rightarrow> bool) \<Rightarrow> ('s \<Rightarrow> 's \<Rightarrow> bool) \<Rightarrow> 's \<Rightarrow> bool"
  for init :: "'s \<Rightarrow> bool" and step :: "'s \<Rightarrow> 's \<Rightarrow> bool" where
  reach_init [intro]: "init s \<Longrightarrow> reach init step s"
| reach_step: "reach init step s \<Longrightarrow> step s t \<Longrightarrow> reach init step t"

locale step_system =
  fixes init :: "'s \<Rightarrow> bool" and step :: "'s \<Rightarrow> 's \<Rightarrow> bool" and inv :: "'s \<Rightarrow> bool"
  assumes init_inv: "init s \<Longrightarrow> inv s"
    and step_inv: "inv s \<Longrightarrow> step s t \<Longrightarrow> inv t"
begin

lemma reach_inv: "reach init step s \<Longrightarrow> inv s"
  by (induction rule: reach.induct) (auto intro: init_inv step_inv)

lemma steps_inv: "step\<^sup>*\<^sup>* s t \<Longrightarrow> inv s \<Longrightarrow> inv t"
  by (induction rule: rtranclp_induct) (auto intro: step_inv)

end

section \<open>Totals over records of counters\<close>

text \<open>A record of counters with a zero and a pointwise sum: totals do not depend on the order or the
  grouping in which records are added.\<close>

locale counter_sum =
  fixes zero :: "'u" and plus :: "'u \<Rightarrow> 'u \<Rightarrow> 'u"
  assumes assoc: "plus (plus a b) c = plus a (plus b c)"
    and comm: "plus a b = plus b a"
    and zero_left: "plus zero a = a"
begin

definition total :: "'u list \<Rightarrow> 'u" where
  "total xs = foldr plus xs zero"

lemma zero_right: "plus a zero = a"
  using comm zero_left by metis

lemma total_Nil: "total [] = zero"
  by (simp add: total_def)

lemma total_Cons: "total (x # xs) = plus x (total xs)"
  by (simp add: total_def)

lemma total_append: "total (xs @ ys) = plus (total xs) (total ys)"
  by (induction xs) (simp_all add: total_Nil total_Cons zero_left assoc)

lemma fold_total: "fold (\<lambda>x a. plus a x) xs a = plus a (total xs)"
  by (induction xs arbitrary: a) (simp_all add: total_Nil total_Cons zero_right assoc)

lemma total_rearrange: "mset xs = mset ys \<Longrightarrow> total xs = total ys"
proof (induction xs arbitrary: ys)
  case Nil
  then show ?case by simp
next
  case (Cons x xs)
  from Cons.prems have "x \<in> set ys"
    by (metis list.set_intros(1) set_mset_mset)
  then obtain a b where ys: "ys = a @ x # b"
    by (meson split_list)
  with Cons have "total xs = total (a @ b)" by simp
  then show ?case
    by (simp add: ys total_Cons total_append) (metis assoc comm)
qed

end

section \<open>Keep the stronger of two entries with one key\<close>

text \<open>A table built by inserting entries under their key, where an entry that meets another under
  its key stays only when it is the stronger of the two. \<open>rank\<close> orders entries by strength.\<close>

locale keep_stronger =
  fixes key :: "'e \<Rightarrow> 'k" and rank :: "'e \<Rightarrow> 'r::linorder" and pick :: "'e \<Rightarrow> 'e \<Rightarrow> 'e"
  assumes pick_cases: "pick old new = old \<or> pick old new = new"
    and pick_rank_old: "rank old \<le> rank (pick old new)"
    and pick_rank_new: "rank new \<le> rank (pick old new)"
begin

fun put :: "'e \<Rightarrow> ('k \<times> 'e) list \<Rightarrow> ('k \<times> 'e) list" where
  "put e [] = [(key e, e)]"
| "put e ((k, x) # t) = (if k = key e then (k, pick x e) # t else (k, x) # put e t)"

definition keyed :: "('k \<times> 'e) list \<Rightarrow> bool" where
  "keyed t \<longleftrightarrow> distinct (map fst t) \<and> (\<forall>(k, x) \<in> set t. k = key x)"

lemma keys_put: "fst ` set (put e t) = insert (key e) (fst ` set t)"
  by (induction e t rule: put.induct) auto

lemma keyed_Nil: "keyed []"
  by (simp add: keyed_def)

lemma keyed_put: "keyed t \<Longrightarrow> keyed (put e t)"
proof (induction e t rule: put.induct)
  case (1 e)
  then show ?case by (simp add: keyed_def)
next
  case (2 e k x t)
  show ?case
  proof (cases "k = key e")
    case True
    with 2 show ?thesis using pick_cases [of x e] by (fastforce simp: keyed_def image_iff)
  next
    case False
    then have "keyed (put e t)"
      using 2 by (simp add: keyed_def)
    with False 2 show ?thesis
      using keys_put [of e t] by (auto simp: keyed_def)
  qed
qed

lemma keyed_fold: "keyed t \<Longrightarrow> keyed (fold put es t)"
  by (induction es arbitrary: t) (simp_all add: keyed_put)

lemma put_from: "(k, x) \<in> set (put e t) \<Longrightarrow> x = e \<or> (k, x) \<in> set t"
proof (induction e t rule: put.induct)
  case (2 e k' x' t)
  then show ?case using pick_cases [of x' e] by (auto split: if_splits)
qed simp

lemma put_keeps: "(k, x) \<in> set t \<Longrightarrow> \<exists>y. (k, y) \<in> set (put e t) \<and> rank x \<le> rank y"
  by (induction e t rule: put.induct) (auto intro: pick_rank_old)

lemma put_covers: "\<exists>y. (key e, y) \<in> set (put e t) \<and> rank e \<le> rank y"
  by (induction e t rule: put.induct) (auto intro: pick_rank_new)

lemma fold_from: "(k, x) \<in> set (fold put es t) \<Longrightarrow> x \<in> set es \<or> (k, x) \<in> set t"
proof (induction es arbitrary: t)
  case (Cons e es)
  then have "x \<in> set es \<or> (k, x) \<in> set (put e t)" by simp
  then show ?case using put_from by fastforce
qed simp

lemma fold_keeps: "(k, x) \<in> set t \<Longrightarrow> \<exists>y. (k, y) \<in> set (fold put es t) \<and> rank x \<le> rank y"
proof (induction es arbitrary: t x)
  case (Cons e es)
  then obtain y where "(k, y) \<in> set (put e t)" "rank x \<le> rank y"
    using put_keeps by blast
  with Cons.IH [of y "put e t"] show ?case
    by (auto intro: order_trans)
qed auto

lemma fold_covers: "e \<in> set es \<Longrightarrow> \<exists>y. (key e, y) \<in> set (fold put es t) \<and> rank e \<le> rank y"
proof (induction es arbitrary: t)
  case (Cons d es)
  show ?case
  proof (cases "e = d")
    case True
    obtain y where "(key d, y) \<in> set (put d t)" "rank d \<le> rank y"
      using put_covers by blast
    with True fold_keeps [of "key d" y "put d t" es] show ?thesis
      by (auto intro: order_trans)
  next
    case False
    with Cons show ?thesis by simp
  qed
qed simp

end

section \<open>Stores of rows addressed by a key\<close>

text \<open>A store that answers \<open>get\<close>, overwrites with \<open>put\<close>, which stamps the value, and forgets with
  \<open>del\<close>: the contract of the JSON task store.\<close>

locale keyed_store =
  fixes get :: "'s \<Rightarrow> 'k \<Rightarrow> 'v option" and put :: "'v \<Rightarrow> 's \<Rightarrow> 's" and del :: "'k \<Rightarrow> 's \<Rightarrow> 's"
    and key :: "'v \<Rightarrow> 'k" and stamp :: "'v \<Rightarrow> 'v"
  assumes get_put: "get (put v s) k = (if k = key v then Some (stamp v) else get s k)"
    and get_del: "get (del k s) j = (if j = k then None else get s j)"
    and key_stamp: "key (stamp v) = key v"
begin

lemma get_put_same: "get (put v s) (key v) = Some (stamp v)"
  by (simp add: get_put)

lemma get_put_other: "k \<noteq> key v \<Longrightarrow> get (put v s) k = get s k"
  by (simp add: get_put)

lemma put_twice: "key v = key w \<Longrightarrow> get (put v (put w s)) k = get (put v s) k"
  by (simp add: get_put)

lemma put_commute: "key v \<noteq> key w \<Longrightarrow> get (put v (put w s)) k = get (put w (put v s)) k"
  by (simp add: get_put)

lemma del_put: "get (del (key v) (put v s)) k = get (del (key v) s) k"
  by (simp add: get_put get_del)

definition well_keyed :: "'s \<Rightarrow> bool" where
  "well_keyed s \<longleftrightarrow> (\<forall>k v. get s k = Some v \<longrightarrow> key v = k)"

lemma well_keyed_put: "well_keyed s \<Longrightarrow> well_keyed (put v s)"
  by (simp add: well_keyed_def get_put key_stamp)

lemma well_keyed_del: "well_keyed s \<Longrightarrow> well_keyed (del k s)"
  by (simp add: well_keyed_def get_del)

text \<open>A property of every stored value.\<close>

definition all_values :: "('v \<Rightarrow> bool) \<Rightarrow> 's \<Rightarrow> bool" where
  "all_values P s \<longleftrightarrow> (\<forall>k v. get s k = Some v \<longrightarrow> P v)"

lemma all_values_put: "all_values P s \<Longrightarrow> P (stamp v) \<Longrightarrow> all_values P (put v s)"
  by (simp add: all_values_def get_put)

lemma all_values_del: "all_values P s \<Longrightarrow> all_values P (del k s)"
  by (simp add: all_values_def get_del)

lemma all_values_get: "all_values P s \<Longrightarrow> get s k = Some v \<Longrightarrow> P v"
  by (simp add: all_values_def)

end

end
