(* ===== verification/Judge.thy ===== *)
theory Judge
  imports Interfaces Review_Models
begin

text \<open>
  The deterministic judge, \<open>review_v2/judge.py\<close>, and the step of \<open>review_v2/workflow.py\<close> that turns the
  judge session's answer into its input. Candidates are the dicts a model wrote, so every conversion
  may raise. The accepted findings are a dict keyed by file, line and title; on a key met twice the
  stronger finding stays, which is the interface \<open>keep_stronger\<close>. The digest of an identifier is the
  parameter \<open>sha\<close>.
\<close>

record reviewer_output =
  ro_review_run_id :: json
  ro_reviewer :: json
  ro_findings :: json

record judged =
  jf_file_path :: string
  jf_line :: "int option"
  jf_severity :: severity
  jf_title :: string
  jf_detail :: string
  jf_suggestion :: json
  jf_confidence :: rat
  jf_source_run :: json
  jf_source_reviewer :: json
  jf_finding_id :: string

record rejection =
  rj_source_run :: json
  rj_reviewer :: json
  rj_reason :: string
  rj_candidate :: json

record judge_state =
  js_accepted :: "(string \<times> judged) list"
  js_rejected :: "rejection list"

record judge_result =
  jr_accepted :: "judged list"
  jr_rejected :: "rejection list"
  jr_rationale :: string

section \<open>One candidate\<close>

text \<open>A NaN or an infinity, as a number or a text, has no value among the rationals of the model: the text raises
  here, where \<open>float\<close> accepts it. The statements that depend on it say so (\<open>finite_confidence\<close>).\<close>

definition confidence_of :: "json_dict \<Rightarrow> rat py_result" where
  "confidence_of c = (if is_none (dget c ''confidence'') then Inr 1 else py_float (dget c ''confidence''))"

definition line_in :: "json \<Rightarrow> nat list \<Rightarrow> bool py_result" where
  "line_in line ls = bind_r (py_int line) (\<lambda>i. Inr (i \<in> int ` set ls))"

definition is_test_only :: "string \<Rightarrow> bool" where
  "is_test_only file_path =
     (let lowered = py_lower file_path
      in contains lowered ''/test/'' \<or> endswith lowered ''_test.py'' \<or> endswith lowered ''test.py'')"

definition rejection_reason :: "(string \<times> nat list) list \<Rightarrow> json_dict \<Rightarrow> string py_result" where
  "rejection_reason changed_lines c =
     (if \<not> truthy (dget c ''title'') \<or> \<not> truthy (dget c ''detail'') \<or> \<not> truthy (dget c ''file'')
      then Inr ''schema_incomplete''
      else bind_r (confidence_of c) (\<lambda>confidence.
        if confidence < 3 / 10 then Inr ''low_confidence''
        else
          (let file_path = py_str (dget c ''file''); line = dget c ''line'';
               last_test = (if is_test_only file_path then ''test_only'' else [])
           in (case (is_none line, map_of changed_lines file_path) of
                 (False, Some ls) \<Rightarrow>
                   bind_r (line_in line ls) (\<lambda>inside. Inr (if \<not> inside then ''needs_evidence'' else last_test))
               | _ \<Rightarrow> Inr last_test))))"

definition or_empty_line :: "int option \<Rightarrow> string" where
  "or_empty_line l = (case l of None \<Rightarrow> [] | Some i \<Rightarrow> if i = 0 then [] else str_int i)"

definition stable_finding_id :: "(string \<Rightarrow> string) \<Rightarrow> string \<Rightarrow> int option \<Rightarrow> string \<Rightarrow> string \<Rightarrow> string" where
  "stable_finding_id sha file_path line title detail =
     ''fnd_'' @ take 24 (sha (join ''|''
       [file_path, or_empty_line line, py_lower (py_strip title), py_lower (py_strip detail)]))"

definition normalize_candidate ::
  "(string \<Rightarrow> string) \<Rightarrow> json_dict \<Rightarrow> json \<Rightarrow> json \<Rightarrow> judged py_result" where
  "normalize_candidate sha c review_run_id reviewer =
     bind_r (normalize_severity (py_str (py_or (dget c ''severity'') (JStr ''medium'')))) (\<lambda>severity.
     bind_r (if is_none (dget c ''line'') then Inr None
             else bind_r (py_int (dget c ''line'')) (\<lambda>i. Inr (Some i))) (\<lambda>line.
     bind_r (confidence_of c) (\<lambda>confidence.
       (let file_path = py_str (dget c ''file''); title = py_str (dget c ''title''); detail = py_str (dget c ''detail'')
        in Inr \<lparr>jf_file_path = file_path, jf_line = line, jf_severity = severity, jf_title = title,
                jf_detail = detail, jf_suggestion = dget c ''suggestion'', jf_confidence = confidence,
                jf_source_run = review_run_id, jf_source_reviewer = reviewer,
                jf_finding_id = stable_finding_id sha file_path line title detail\<rparr>))))"

definition dedupe_key :: "judged \<Rightarrow> string" where
  "dedupe_key f = jf_file_path f @ '':'' @ (case jf_line f of None \<Rightarrow> ''None'' | Some i \<Rightarrow> str_int i) @ '':'' @
     py_lower (py_strip (jf_title f))"

definition strength :: "judged \<Rightarrow> nat \<times> rat" where
  "strength f = (severity_rank (jf_severity f), jf_confidence f)"

definition pick_stronger :: "judged \<Rightarrow> judged \<Rightarrow> judged \<times> judged" where
  "pick_stronger left right = (if strength right > strength left then (right, left) else (left, right))"

section \<open>The normalizer\<close>

definition judge_candidate ::
  "(string \<Rightarrow> string) \<Rightarrow> (string \<times> nat list) list \<Rightarrow> json \<Rightarrow> json \<Rightarrow> judge_state \<Rightarrow> json \<Rightarrow> judge_state py_result" where
  "judge_candidate sha changed_lines review_run_id reviewer st candidate =
     bind_r (need_dict candidate) (\<lambda>c.
     bind_r (rejection_reason changed_lines c) (\<lambda>reason.
       if reason \<noteq> [] then
         Inr (st \<lparr>js_rejected := js_rejected st @
           [\<lparr>rj_source_run = review_run_id, rj_reviewer = reviewer, rj_reason = reason, rj_candidate = candidate\<rparr>]\<rparr>)
       else
         bind_r (normalize_candidate sha c review_run_id reviewer) (\<lambda>normalized.
           (let key = dedupe_key normalized
            in case map_of (js_accepted st) key of
                 None \<Rightarrow> Inr (st \<lparr>js_accepted := dset key normalized (js_accepted st)\<rparr>)
               | Some existing \<Rightarrow>
                   (let (winner, loser) = pick_stronger existing normalized
                    in Inr \<lparr>js_accepted = dset key winner (js_accepted st),
                            js_rejected = js_rejected st @
                              [\<lparr>rj_source_run = jf_source_run loser, rj_reviewer = jf_source_reviewer loser,
                                rj_reason = ''duplicate_merged'', rj_candidate = candidate\<rparr>]\<rparr>)))))"

definition judge_output ::
  "(string \<Rightarrow> string) \<Rightarrow> (string \<times> nat list) list \<Rightarrow> judge_state \<Rightarrow> reviewer_output \<Rightarrow> judge_state py_result" where
  "judge_output sha changed_lines st output =
     bind_r (iter_json (py_or (ro_findings output) (JArr []))) (\<lambda>candidates.
       fold_r (judge_candidate sha changed_lines (ro_review_run_id output) (ro_reviewer output)) st candidates)"

definition judge_normalize ::
  "(string \<Rightarrow> string) \<Rightarrow> reviewer_output list \<Rightarrow> (string \<times> nat list) list \<Rightarrow> string \<Rightarrow> judge_result py_result" where
  "judge_normalize sha reviewer_outputs changed_lines risk_tier =
     bind_r (fold_r (judge_output sha changed_lines) \<lparr>js_accepted = [], js_rejected = []\<rparr> reviewer_outputs) (\<lambda>st.
       Inr \<lparr>jr_accepted = map snd (js_accepted st), jr_rejected = js_rejected st,
            jr_rationale = (if js_accepted st = [] \<and> risk_tier \<noteq> ''full''
                            then ''all required reviewers produced no accepted findings'' else [])\<rparr>)"

section \<open>The judge session's answer\<close>

text \<open>Dict keys compare as numbers: \<open>True\<close>, \<open>1\<close> and \<open>1.0\<close> are one key. Lists and dicts are no keys.\<close>

fun key_form :: "json \<Rightarrow> json" where
  "key_form (JBool b) = JInt (if b then 1 else 0)"
| "key_form (JFloat q) = (if q = of_int \<lfloor>q\<rfloor> then JInt \<lfloor>q\<rfloor> else JFloat q)"
| "key_form v = v"

fun hashable :: "json \<Rightarrow> bool" where
  "hashable (JArr _) = False"
| "hashable (JObj _) = False"
| "hashable _ = True"

fun group_add :: "json \<times> json \<Rightarrow> json \<Rightarrow> ((json \<times> json) \<times> json list) list \<Rightarrow> ((json \<times> json) \<times> json list) list" where
  "group_add k v [] = [(k, [v])]"
| "group_add k v ((k', vs) # g) =
     (if key_form (fst k') = key_form (fst k) \<and> key_form (snd k') = key_form (snd k) then (k', vs @ [v]) # g
      else (k', vs) # group_add k v g)"

definition judge_item :: "json_dict \<Rightarrow> json" where
  "judge_item item =
     JObj [(''file'', py_or (dget item ''file_path'') (dget item ''file'')), (''line'', dget item ''line''),
           (''severity'', dget item ''severity''), (''title'', dget item ''title''), (''detail'', dget item ''detail''),
           (''suggestion'', dget item ''suggestion''),
           (''confidence'', dget_default item ''confidence'' (JFloat 1))]"

definition group_item ::
  "((json \<times> json) \<times> json list) list \<Rightarrow> json \<Rightarrow> ((json \<times> json) \<times> json list) list py_result" where
  "group_item grouped v =
     bind_r (need_dict v) (\<lambda>item.
       (let reviewer = py_or (dget item ''source_reviewer'') (JStr ''cr_judge'');
            review_run_id = dget item ''source_review_run_id''
        in if \<not> hashable reviewer \<or> \<not> hashable review_run_id then Inl (TypeError ''unhashable type'')
           else Inr (group_add (reviewer, review_run_id) (judge_item item) grouped)))"

definition judge_payload_to_reviewer_outputs :: "json_dict \<Rightarrow> reviewer_output list py_result" where
  "judge_payload_to_reviewer_outputs judge_json =
     bind_r (iter_json (py_or (dget judge_json ''accepted_findings'') (JArr []))) (\<lambda>items.
     bind_r (fold_r group_item [] items) (\<lambda>grouped.
       Inr (map (\<lambda>((reviewer, run_id), findings).
              \<lparr>ro_review_run_id = run_id, ro_reviewer = reviewer, ro_findings = JArr findings\<rparr>) grouped)))"

section \<open>Merging is keeping the stronger\<close>

lemma pick_stronger_fst: "fst (pick_stronger a b) = (if strength b > strength a then b else a)"
  by (simp add: pick_stronger_def)

interpretation jk: keep_stronger dedupe_key strength "\<lambda>old new. fst (pick_stronger old new)"
  by unfold_locales (auto simp: pick_stronger_fst)

text \<open>What one candidate contributes: its normal form when it is not rejected.\<close>

definition judged_of ::
  "(string \<Rightarrow> string) \<Rightarrow> (string \<times> nat list) list \<Rightarrow> json \<times> json \<times> json \<Rightarrow> judged option" where
  "judged_of sha changed_lines t =
     (case t of (run, reviewer, candidate) \<Rightarrow>
        (case as_dict candidate of None \<Rightarrow> None
         | Some c \<Rightarrow>
             (case rejection_reason changed_lines c of
                Inr [] \<Rightarrow> (case normalize_candidate sha c run reviewer of Inr n \<Rightarrow> Some n | Inl _ \<Rightarrow> None)
              | _ \<Rightarrow> None)))"

definition candidates_of :: "reviewer_output list \<Rightarrow> (json \<times> json \<times> json) list" where
  "candidates_of outputs =
     concat (map (\<lambda>out. case iter_json (py_or (ro_findings out) (JArr [])) of
        Inl _ \<Rightarrow> [] | Inr cs \<Rightarrow> map (\<lambda>c. (ro_review_run_id out, ro_reviewer out, c)) cs) outputs)"

lemma put_dset:
  "map_of t (dedupe_key n) = None \<Longrightarrow> jk.put n t = dset (dedupe_key n) n t"
  "map_of t (dedupe_key n) = Some x \<Longrightarrow> jk.put n t = dset (dedupe_key n) (fst (pick_stronger x n)) t"
  by (induction t) (auto split: if_splits)

lemma need_dict_as_dict: "need_dict v = Inr d \<longleftrightarrow> as_dict v = Some d"
  by (cases v) auto

text \<open>What a list of candidates contributes to the accepted findings, and the effect of judging it.\<close>

definition contributions ::
  "(string \<Rightarrow> string) \<Rightarrow> (string \<times> nat list) list \<Rightarrow> (json \<times> json \<times> json) list \<Rightarrow> judged list" where
  "contributions sha cl ts = concat (map (\<lambda>t. opt_list (judged_of sha cl t)) ts)"

definition advances ::
  "(string \<Rightarrow> string) \<Rightarrow> (string \<times> nat list) list \<Rightarrow> judge_state \<Rightarrow> (json \<times> json \<times> json) list \<Rightarrow> judge_state \<Rightarrow> bool" where
  "advances sha cl st ts st' \<longleftrightarrow>
     js_accepted st' = fold jk.put (contributions sha cl ts) (js_accepted st)
   \<and> length (js_accepted st') + length (js_rejected st')
       = length (js_accepted st) + length (js_rejected st) + length ts"

lemma advances_Nil: "advances sha cl st [] st"
  by (simp add: advances_def contributions_def)

lemma advances_append:
  assumes "advances sha cl st ts u" and "advances sha cl u us v"
  shows "advances sha cl st (ts @ us) v"
proof -
  have "contributions sha cl (ts @ us) = contributions sha cl ts @ contributions sha cl us"
    by (simp add: contributions_def)
  then have "js_accepted v = fold jk.put (contributions sha cl (ts @ us)) (js_accepted st)"
    using assms by (simp add: advances_def)
  moreover have "length (js_accepted v) + length (js_rejected v)
      = length (js_accepted st) + length (js_rejected st) + length (ts @ us)"
    using assms unfolding advances_def by (elim conjE) (simp only: length_append)
  ultimately show ?thesis unfolding advances_def by blast
qed

text \<open>One step of the loop: the candidate is put among the accepted or not, and the number of accepted
  and rejected grows by one.\<close>

lemma judge_candidate_step:
  assumes "judge_candidate sha cl run rvr st cand = Inr st'"
  shows "advances sha cl st [(run, rvr, cand)] st'"
proof -
  from assms obtain c reason where c: "as_dict cand = Some c" "rejection_reason cl c = Inr reason"
    by (auto simp: judge_candidate_def bind_r_Inr need_dict_as_dict)
  show ?thesis
  proof (cases "reason = []")
    case False
    with assms c have "st' = st \<lparr>js_rejected := js_rejected st @
        [\<lparr>rj_source_run = run, rj_reviewer = rvr, rj_reason = reason, rj_candidate = cand\<rparr>]\<rparr>"
      by (auto simp: judge_candidate_def bind_r_Inr need_dict_as_dict)
    moreover from False c have "judged_of sha cl (run, rvr, cand) = None"
      by (auto simp: judged_of_def split: list.split)
    ultimately show ?thesis by (simp add: advances_def contributions_def opt_list_def)
  next
    case True
    with assms c obtain n where n: "normalize_candidate sha c run rvr = Inr n"
      by (auto simp: judge_candidate_def bind_r_Inr need_dict_as_dict)
    with True c have of: "judged_of sha cl (run, rvr, cand) = Some n"
      by (simp add: judged_of_def)
    have need: "need_dict cand = Inr c" using c(1) by (simp add: need_dict_as_dict)
    show ?thesis
    proof (cases "map_of (js_accepted st) (dedupe_key n)")
      case None
      then have "length (dset (dedupe_key n) n (js_accepted st)) = Suc (length (js_accepted st))"
        by (rule length_dset_new)
      with None assms True c need n of show ?thesis
        by (auto simp: advances_def contributions_def judge_candidate_def opt_list_def put_dset)
    next
      case (Some x)
      with assms True c need n of show ?thesis
        by (auto simp: advances_def contributions_def judge_candidate_def opt_list_def put_dset length_dset_old Let_def split: prod.splits)
    qed
  qed
qed

lemma judge_output_step:
  assumes "judge_output sha cl st out = Inr st'"
  shows "advances sha cl st (candidates_of [out]) st'"
proof -
  let ?step = "judge_candidate sha cl (ro_review_run_id out) (ro_reviewer out)"
  let ?tag = "\<lambda>c. (ro_review_run_id out, ro_reviewer out, c)"
  from assms obtain cs where cs: "iter_json (py_or (ro_findings out) (JArr [])) = Inr cs"
    "fold_r ?step st cs = Inr st'"
    by (auto simp: judge_output_def bind_r_Inr)
  have "advances sha cl st (map ?tag cs) st'"
    using cs(2)
  proof (induction cs arbitrary: st)
    case (Cons c cs)
    then obtain u where u: "?step st c = Inr u" "fold_r ?step u cs = Inr st'"
      by (auto simp: bind_r_Inr)
    show ?case
      using advances_append [OF judge_candidate_step [OF u(1)] Cons.IH [OF u(2)]] by simp
  qed (simp add: advances_Nil)
  with cs(1) show ?thesis by (simp add: candidates_of_def)
qed

lemma judge_outputs_step:
  "fold_r (judge_output sha cl) st outs = Inr st' \<Longrightarrow> advances sha cl st (candidates_of outs) st'"
proof (induction outs arbitrary: st)
  case Nil
  then show ?case by (simp add: candidates_of_def advances_Nil)
next
  case (Cons out outs)
  have split: "candidates_of (out # outs) = candidates_of [out] @ candidates_of outs"
    by (simp add: candidates_of_def)
  from Cons.prems obtain u where u: "judge_output sha cl st out = Inr u"
    "fold_r (judge_output sha cl) u outs = Inr st'"
    by (auto simp: bind_r_Inr)
  show ?case
    unfolding split by (rule advances_append [OF judge_output_step [OF u(1)] Cons.IH [OF u(2)]])
qed

lemma judge_normalize_fold:
  assumes "judge_normalize sha outs cl tier = Inr res"
  shows "jr_accepted res = map snd (fold jk.put (contributions sha cl (candidates_of outs)) [])
    \<and> length (jr_accepted res) + length (jr_rejected res) = length (candidates_of outs)"
proof -
  from assms obtain st where st: "fold_r (judge_output sha cl) \<lparr>js_accepted = [], js_rejected = []\<rparr> outs = Inr st"
    "jr_accepted res = map snd (js_accepted st)" "jr_rejected res = js_rejected st"
    by (auto simp: judge_normalize_def bind_r_Inr)
  have "js_accepted st = fold jk.put (contributions sha cl (candidates_of outs)) []"
    "length (js_accepted st) + length (js_rejected st) = length (candidates_of outs)"
    using conjunct1 [OF judge_outputs_step [OF st(1), unfolded advances_def]]
      conjunct2 [OF judge_outputs_step [OF st(1), unfolded advances_def]] by simp_all
  then show ?thesis unfolding st(2,3) by (simp only: length_map simp_thms)
qed

definition judged_candidates :: "(string \<Rightarrow> string) \<Rightarrow> (string \<times> nat list) list \<Rightarrow> reviewer_output list \<Rightarrow> judged list" where
  "judged_candidates sha cl outs = contributions sha cl (candidates_of outs)"

section \<open>What the judge promises\<close>

text \<open>No candidate is lost: every candidate of every reviewer is either an accepted finding or an
  entry of the rejections, and exactly one of them.\<close>

theorem judge_accounts_for_all:
  assumes "judge_normalize sha outs cl tier = Inr res"
  shows "length (jr_accepted res) + length (jr_rejected res) = length (candidates_of outs)"
  using judge_normalize_fold [OF assms] by auto

text \<open>C10: the accepted findings are the strongest of their kind: no two of them share file, line and
  title; each is the normal form of a candidate; and every candidate that was not rejected has an
  accepted finding of its file, line and title that is at least as severe, and as confident when
  equally severe.\<close>

theorem judge_keeps_strongest:
  assumes "judge_normalize sha outs cl tier = Inr res"
  shows "distinct (map dedupe_key (jr_accepted res))
   \<and> set (jr_accepted res) \<subseteq> set (judged_candidates sha cl outs)
   \<and> list_all (\<lambda>n. list_ex (\<lambda>a. dedupe_key a = dedupe_key n \<and> strength n \<le> strength a) (jr_accepted res))
       (judged_candidates sha cl outs)"
proof -
  define t where "t = fold jk.put (judged_candidates sha cl outs) []"
  have acc: "jr_accepted res = map snd t"
    using judge_normalize_fold [OF assms] by (auto simp: t_def judged_candidates_def)
  have keyed: "jk.keyed t"
    unfolding t_def by (rule jk.keyed_fold) (rule jk.keyed_Nil)
  then have keys: "map dedupe_key (map snd t) = map fst t"
    by (auto simp: jk.keyed_def)
  with keyed have "distinct (map dedupe_key (jr_accepted res))"
    unfolding acc keys jk.keyed_def by blast
  moreover have "set (jr_accepted res) \<subseteq> set (judged_candidates sha cl outs)"
    using jk.fold_from [of _ _ "judged_candidates sha cl outs" "[]"] by (auto simp: acc t_def)
  moreover have "\<exists>a \<in> set (jr_accepted res). dedupe_key a = dedupe_key n \<and> strength n \<le> strength a"
    if n: "n \<in> set (judged_candidates sha cl outs)" for n
  proof -
    obtain a where a: "(dedupe_key n, a) \<in> set t" "strength n \<le> strength a"
      using jk.fold_covers [OF n] unfolding t_def by blast
    with keyed have "dedupe_key a = dedupe_key n"
      by (auto simp: jk.keyed_def)
    with a show ?thesis by (force simp: acc)
  qed
  ultimately show ?thesis by (simp add: list_all_iff list_ex_iff)
qed

lemma rejection_reason_ok:
  assumes "rejection_reason cl c = Inr []"
  shows "truthy (dget c ''title'') \<and> truthy (dget c ''detail'') \<and> truthy (dget c ''file'')
    \<and> (\<exists>q. confidence_of c = Inr q \<and> 3 / 10 \<le> q)
    \<and> \<not> is_test_only (py_str (dget c ''file''))
    \<and> (is_none (dget c ''line'') \<or> map_of cl (py_str (dget c ''file'')) = None \<or>
       (\<exists>i ls. py_int (dget c ''line'') = Inr i \<and> map_of cl (py_str (dget c ''file'')) = Some ls \<and> i \<in> int ` set ls))"
proof (cases "is_none (dget c ''line'')")
  case True
  with assms show ?thesis
    by (auto simp: rejection_reason_def bind_r_Inr Let_def not_less split: if_splits)
next
  case False
  with assms show ?thesis
    by (cases "map_of cl (py_str (dget c ''file''))")
      (auto simp: rejection_reason_def bind_r_Inr Let_def not_less line_in_def split: if_splits)
qed

definition anchored :: "(string \<times> nat list) list \<Rightarrow> judged \<Rightarrow> bool" where
  "anchored cl n \<longleftrightarrow>
     (case (jf_line n, map_of cl (jf_file_path n)) of
        (Some i, Some ls) \<Rightarrow> i \<in> int ` set ls
      | _ \<Rightarrow> True)"

lemma judged_candidate_ok:
  assumes "n \<in> set (judged_candidates sha cl outs)"
  shows "anchored cl n \<and> 3 / 10 \<le> jf_confidence n \<and> \<not> is_test_only (jf_file_path n)
    \<and> jf_finding_id n = stable_finding_id sha (jf_file_path n) (jf_line n) (jf_title n) (jf_detail n)"
proof -
  from assms obtain run rvr cand where "judged_of sha cl (run, rvr, cand) = Some n"
    by (auto simp: judged_candidates_def contributions_def opt_list_def split: option.splits)
  then obtain c where c: "rejection_reason cl c = Inr []" "normalize_candidate sha c run rvr = Inr n"
    by (auto simp: judged_of_def split: option.splits sum.splits list.splits)
  from c(2) have
    "jf_file_path n = py_str (dget c ''file'')" "confidence_of c = Inr (jf_confidence n)"
    "jf_line n = None \<and> is_none (dget c ''line'')
      \<or> (\<exists>i. py_int (dget c ''line'') = Inr i \<and> jf_line n = Some i \<and> \<not> is_none (dget c ''line''))"
    "jf_finding_id n = stable_finding_id sha (jf_file_path n) (jf_line n) (jf_title n) (jf_detail n)"
    by (auto simp: normalize_candidate_def bind_r_Inr Let_def split: if_splits)
  with rejection_reason_ok [OF c(1)] show ?thesis
    by (auto simp: anchored_def split: option.split)
qed

text \<open>A confidence given as a text that \<open>float\<close> reads as NaN or an infinity. Python compares a NaN with 0.3 as
  not less and accepts the candidate; the rationals of this model have no such number.\<close>

definition nonfinite_text :: "string \<Rightarrow> bool" where
  "nonfinite_text s \<longleftrightarrow>
     (let t = py_lower (py_strip s); u = (if t \<noteq> [] \<and> (hd t = CHR ''+'' \<or> hd t = CHR ''-'') then tl t else t)
      in u = ''nan'' \<or> u = ''inf'' \<or> u = ''infinity'')"

definition finite_confidence :: "json \<Rightarrow> bool" where
  "finite_confidence candidate \<longleftrightarrow>
     (case as_dict candidate of None \<Rightarrow> True
      | Some c \<Rightarrow> (case dget c ''confidence'' of JStr s \<Rightarrow> \<not> nonfinite_text s | _ \<Rightarrow> True))"

text \<open>C11: what every accepted finding satisfies, when no candidate's confidence is a NaN or an infinity (as a
  number or as a text; the code accepts a NaN). When the finding has a line and its file is among those with
  known changed lines, the line is one of them; a finding without a line, or in a file that is not among them,
  is accepted without being held against the change. Its confidence is at least 0.3; its file is not a test
  file; and its identifier is the digest of its file, line, title and detail.\<close>

theorem judge_accepts_anchored:
  assumes "judge_normalize sha outs cl tier = Inr res"
    and "list_all (\<lambda>t. finite_confidence (snd (snd t))) (candidates_of outs)"
  shows "list_all (\<lambda>n.
      (case (jf_line n, map_of cl (jf_file_path n)) of (Some i, Some ls) \<Rightarrow> i \<in> int ` set ls
       | (None, _) \<Rightarrow> True | (_, None) \<Rightarrow> True)
      \<and> 3 / 10 \<le> jf_confidence n \<and> \<not> is_test_only (jf_file_path n)
      \<and> jf_finding_id n = stable_finding_id sha (jf_file_path n) (jf_line n) (jf_title n) (jf_detail n))
    (jr_accepted res)"
proof -
  have "n \<in> set (judged_candidates sha cl outs)" if "n \<in> set (jr_accepted res)" for n
    using judge_normalize_fold [OF assms(1)] jk.fold_from [of _ _ "judged_candidates sha cl outs" "[]"] that
    by (auto simp: judged_candidates_def)
  then show ?thesis
    using judged_candidate_ok [of _ sha cl outs]
    by (fastforce simp: list_all_iff anchored_def split: option.splits)
qed

section \<open>Witnesses\<close>

definition sample_candidate :: "string \<Rightarrow> int \<Rightarrow> string \<Rightarrow> json" where
  "sample_candidate severity line title =
     JObj [(''file'', JStr ''a.py''), (''line'', JInt line), (''severity'', JStr severity), (''title'', JStr title),
           (''detail'', JStr ''d''), (''confidence'', JFloat 1)]"

definition sample_outputs :: "reviewer_output list" where
  "sample_outputs =
     [\<lparr>ro_review_run_id = JInt 1, ro_reviewer = JStr ''correctness'',
       ro_findings = JArr [sample_candidate ''low'' 4 ''Leak'', sample_candidate ''high'' 9 ''Off'']\<rparr>,
      \<lparr>ro_review_run_id = JInt 2, ro_reviewer = JStr ''security'',
       ro_findings = JArr [sample_candidate ''fatal'' 4 ''leak'']\<rparr>]"

definition sample_lines :: "(string \<times> nat list) list" where
  "sample_lines = [(''a.py'', [4, 5])]"

definition sample_result :: judge_result where
  "sample_result =
     (case judge_normalize (\<lambda>_. ''0'') sample_outputs sample_lines ''full'' of Inr r \<Rightarrow> r
      | Inl _ \<Rightarrow> \<lparr>jr_accepted = [], jr_rejected = [], jr_rationale = []\<rparr>)"

lemma sample_judged:
  "judge_normalize (\<lambda>_. ''0'') sample_outputs sample_lines ''full'' = Inr sample_result"
proof -
  have "is_ok (judge_normalize (\<lambda>_. ''0'') sample_outputs sample_lines ''full'')"
    by code_simp
  then show ?thesis
    by (cases "judge_normalize (\<lambda>_. ''0'') sample_outputs sample_lines ''full''") (simp_all add: sample_result_def)
qed

theorem judge_accounts_for_all_witness:
  "length (jr_accepted sample_result) + length (jr_rejected sample_result) = 3"
proof -
  have "length (candidates_of sample_outputs) = 3" by code_simp
  then show ?thesis using judge_accounts_for_all [OF sample_judged] by simp
qed

theorem judge_keeps_strongest_witness:
  "distinct (map dedupe_key (jr_accepted sample_result))"
  using judge_keeps_strongest [OF sample_judged] by blast

theorem judge_accepts_anchored_witness:
  "jr_accepted sample_result \<noteq> [] \<and> list_all (\<lambda>n. jf_line n = Some 4 \<and> 3 / 10 \<le> jf_confidence n) (jr_accepted sample_result)"
proof -
  have "list_all (\<lambda>t. finite_confidence (snd (snd t))) (candidates_of sample_outputs)"
    "map jf_line (jr_accepted sample_result) = [Some 4]" by code_simp+
  with judge_accepts_anchored [OF sample_judged] show ?thesis by (auto simp: list_all_iff)
qed

text \<open>When the incoming candidate wins, the rejection pairs the loser's run with the winner's candidate:
  the entry for run 1 of the first reviewer holds what the second reviewer wrote.\<close>

lemma merged_rejection_mixes_runs:
  "map (\<lambda>r. (rj_source_run r, rj_reason r, rj_candidate r)) (jr_rejected sample_result) =
     [(JInt 1, ''needs_evidence'', sample_candidate ''high'' 9 ''Off''),
      (JInt 1, ''duplicate_merged'', sample_candidate ''fatal'' 4 ''leak'')]"
  by code_simp

end
