(* ===== verification/Json_Decode.thy ===== *)
theory Json_Decode
  imports Json_Value
begin

text \<open>
  \<open>json.loads\<close> and \<open>JSONDecoder.raw_decode\<close> of the standard library, as far as the program uses them:
  the grammar of JSON, duplicate keys (the last value wins at the first place), escapes with
  surrogate pairs encoded in UTF-8, the four characters of JSON white space. The constants \<open>NaN\<close> and
  \<open>Infinity\<close> that Python accepts denote no rational and do not decode here. Nesting deeper than the
  fuel, the length of the text, cannot occur.
\<close>

definition is_json_ws :: "char \<Rightarrow> bool" where
  "is_json_ws c \<longleftrightarrow> c = CHR '' '' \<or> c = CHR 0x09 \<or> c = CHR 0x0A \<or> c = CHR 0x0D"

definition skip_ws :: "string \<Rightarrow> string" where
  "skip_ws s = dropWhile is_json_ws s"

definition hex_val :: "char \<Rightarrow> int option" where
  "hex_val c =
     (let n = (of_char c :: int)
      in if 48 \<le> n \<and> n \<le> 57 then Some (n - 48)
         else if 65 \<le> n \<and> n \<le> 70 then Some (n - 55)
         else if 97 \<le> n \<and> n \<le> 102 then Some (n - 87) else None)"

fun hex4 :: "string \<Rightarrow> (int \<times> string) option" where
  "hex4 (a # b # c # d # s) =
     (case (hex_val a, hex_val b, hex_val c, hex_val d) of
        (Some w, Some x, Some y, Some z) \<Rightarrow> Some (((w * 16 + x) * 16 + y) * 16 + z, s)
      | _ \<Rightarrow> None)"
| "hex4 _ = None"

definition utf8 :: "int \<Rightarrow> string" where
  "utf8 n =
     (if n < 128 then [char_of n]
      else if n < 2048 then [char_of (192 + n div 64), char_of (128 + n mod 64)]
      else if n < 65536 then
        [char_of (224 + n div 4096), char_of (128 + n div 64 mod 64), char_of (128 + n mod 64)]
      else [char_of (240 + n div 262144), char_of (128 + n div 4096 mod 64),
            char_of (128 + n div 64 mod 64), char_of (128 + n mod 64)])"

definition simple_escape :: "char \<Rightarrow> char option" where
  "simple_escape c =
     map_of [(CHR 0x22, CHR 0x22), (CHR 0x5C, CHR 0x5C), (CHR ''/'', CHR ''/''), (CHR ''b'', CHR 0x08),
             (CHR ''f'', CHR 0x0C), (CHR ''n'', CHR 0x0A), (CHR ''r'', CHR 0x0D), (CHR ''t'', CHR 0x09)] c"

text \<open>The text after an opening quote: the decoded string and what follows the closing quote.\<close>

fun json_string :: "nat \<Rightarrow> string \<Rightarrow> (string \<times> string) option" where
  "json_string 0 _ = None"
| "json_string (Suc n) [] = None"
| "json_string (Suc n) (c # s) =
     (if c = CHR 0x22 then Some ([], s)
      else if (of_char c :: int) < 32 then None
      else if c \<noteq> CHR 0x5C then map_option (\<lambda>(t, r). (c # t, r)) (json_string n s)
      else (case s of
              [] \<Rightarrow> None
            | e # s' \<Rightarrow>
                if e = CHR ''u'' then
                  (case hex4 s' of
                     None \<Rightarrow> None
                   | Some (hi, s2) \<Rightarrow>
                       (case (if 0xD800 \<le> hi \<and> hi \<le> 0xDBFF \<and> startswith s2 [CHR 0x5C, CHR ''u'']
                              then hex4 (drop 2 s2) else None) of
                          Some (lo, s3) \<Rightarrow>
                            if 0xDC00 \<le> lo \<and> lo \<le> 0xDFFF
                            then map_option (\<lambda>(t, r). (utf8 (0x10000 + (hi - 0xD800) * 1024 + (lo - 0xDC00)) @ t, r))
                                   (json_string n s3)
                            else map_option (\<lambda>(t, r). (utf8 hi @ t, r)) (json_string n s2)
                        | None \<Rightarrow> map_option (\<lambda>(t, r). (utf8 hi @ t, r)) (json_string n s2)))
                else (case simple_escape e of
                        None \<Rightarrow> None
                      | Some d \<Rightarrow> map_option (\<lambda>(t, r). (d # t, r)) (json_string n s'))))"

text \<open>\<open>(-?(?:0|[1-9]\d*))(\.\d+)?([eE][-+]?\d+)?\<close>: an \<open>int\<close> without fraction and exponent.\<close>

definition json_number :: "string \<Rightarrow> (json \<times> string) option" where
  "json_number s =
     (let neg = startswith s ''-''; s1 = (if neg then tl s else s);
          ds = (if startswith s1 ''0'' then ''0'' else takeWhile py_isdigit s1);
          r1 = drop (length ds) s1;
          fr = (if startswith r1 ''.'' then takeWhile py_isdigit (tl r1) else []);
          r2 = (if fr \<noteq> [] then drop (length fr + 1) r1 else r1);
          e1 = (if startswith r2 ''e'' \<or> startswith r2 ''E'' then tl r2 else []);
          eneg = startswith e1 ''-'';
          e2 = (if eneg \<or> startswith e1 ''+'' then tl e1 else e1);
          es = takeWhile py_isdigit e2;
          r3 = (if es \<noteq> [] then drop (length es) e2 else r2);
          m = (of_nat (nat_of_digits ds) + of_nat (nat_of_digits fr) / 10 ^ length fr :: rat);
          q = (if es = [] then m else if eneg then m / 10 ^ nat_of_digits es else m * 10 ^ nat_of_digits es)
      in if ds = [] then None
         else if fr = [] \<and> es = [] then
           Some (JInt (if neg then - int (nat_of_digits ds) else int (nat_of_digits ds)), r3)
         else Some (JFloat (if neg then - q else q), r3))"

fun json_value :: "nat \<Rightarrow> string \<Rightarrow> (json \<times> string) option"
  and json_members :: "nat \<Rightarrow> json_dict \<Rightarrow> string \<Rightarrow> (json \<times> string) option"
  and json_elements :: "nat \<Rightarrow> json list \<Rightarrow> string \<Rightarrow> (json \<times> string) option" where
  "json_value 0 _ = None"
| "json_value (Suc n) s =
     (case s of
        [] \<Rightarrow> None
      | c # r \<Rightarrow>
          if c = CHR 0x22 then map_option (\<lambda>(t, r'). (JStr t, r')) (json_string (Suc (length r)) r)
          else if c = CHR ''{'' then
            (let r' = skip_ws r
             in if startswith r' ''}'' then Some (JObj [], tl r') else json_members n [] r')
          else if c = CHR ''['' then
            (let r' = skip_ws r
             in if startswith r' '']'' then Some (JArr [], tl r') else json_elements n [] r')
          else if startswith s ''null'' then Some (JNull, drop 4 s)
          else if startswith s ''true'' then Some (JBool True, drop 4 s)
          else if startswith s ''false'' then Some (JBool False, drop 5 s)
          else json_number s)"
| "json_members 0 _ _ = None"
| "json_members (Suc n) d s =
     (if \<not> startswith s [CHR 0x22] then None
      else (case json_string (length s) (tl s) of
              None \<Rightarrow> None
            | Some (k, s1) \<Rightarrow>
                (let s2 = skip_ws s1
                 in if \<not> startswith s2 '':'' then None
                    else (case json_value n (skip_ws (tl s2)) of
                            None \<Rightarrow> None
                          | Some (v, s3) \<Rightarrow>
                              (let s4 = skip_ws s3; d' = dset k v d
                               in if startswith s4 ''}'' then Some (JObj d', tl s4)
                                  else if startswith s4 '','' then json_members n d' (skip_ws (tl s4))
                                  else None)))))"
| "json_elements 0 _ _ = None"
| "json_elements (Suc n) xs s =
     (case json_value n s of
        None \<Rightarrow> None
      | Some (v, s1) \<Rightarrow>
          (let s2 = skip_ws s1
           in if startswith s2 '']'' then Some (JArr (xs @ [v]), tl s2)
              else if startswith s2 '','' then json_elements n (xs @ [v]) (skip_ws (tl s2))
              else None))"

definition raw_decode :: "string \<Rightarrow> (json \<times> string) option" where
  "raw_decode s = json_value (Suc (length s)) s"

text \<open>\<open>json.loads\<close>: one value between white space and nothing else.\<close>

definition json_parse :: "string \<Rightarrow> json option" where
  "json_parse s =
     (case raw_decode (skip_ws s) of
        Some (v, r) \<Rightarrow> if skip_ws r = [] then Some v else None
      | None \<Rightarrow> None)"

lemma raw_decode_sample:
  "json_parse (concat [''{ '', [CHR 0x22], ''a'', [CHR 0x22], '': [1, -2.5e1, true, {}], '', [CHR 0x22], ''b'',
      [CHR 0x22], '':null} ''])
   = Some (JObj [(''a'', JArr [JInt 1, JFloat (-25), JBool True, JObj []]), (''b'', JNull)])"
  by code_simp

end
