(* ===== verification/Json_Extract.thy ===== *)
theory Json_Extract
  imports Json_Decode
begin

text \<open>
  Finding the JSON object in what a model wrote: \<open>extract_json_object\<close> of \<open>review_v2/json_output.py\<close>,
  which decodes at every brace and keeps the last object with the required keys, and
  \<open>_find_balanced_json_object\<close>, \<open>_extract_json_object\<close> and \<open>_repair_json_candidate\<close> of
  \<open>core/opencode_runner.py\<close>, which match braces outside string literals.
\<close>

section \<open>The last object with the required keys\<close>

definition has_keys :: "string list \<Rightarrow> json_dict \<Rightarrow> bool" where
  "has_keys required d \<longleftrightarrow> list_all (has_key d) required"

text \<open>The dict decoded at the head of a text that begins with a brace.\<close>

definition object_here :: "string \<Rightarrow> json_dict option" where
  "object_here s =
     (if startswith s ''{'' then
        (case raw_decode s of Some (v, _) \<Rightarrow> as_dict v | None \<Rightarrow> None)
      else None)"

fun scan_objects ::
  "string list \<Rightarrow> string \<Rightarrow> json_dict option \<Rightarrow> json_dict option \<Rightarrow> json_dict option \<times> json_dict option" where
  "scan_objects required [] fallback found = (fallback, found)"
| "scan_objects required (c # s) fallback found =
     (case object_here (c # s) of
        None \<Rightarrow> scan_objects required s fallback found
      | Some d \<Rightarrow> scan_objects required s (Some d) (if has_keys required d then Some d else found))"

definition extract_json_object :: "string \<Rightarrow> string list \<Rightarrow> json_dict py_result" where
  "extract_json_object text required =
     (let content = (if text = [] then ''{}'' else text);
          (fallback, found) = scan_objects required content None None
      in if required \<noteq> [] \<and> found \<noteq> None then Inr (the found)
         else if required = [] \<and> fallback \<noteq> None then Inr (the fallback)
         else if fallback = None then Inl (JSONDecodeError ''no JSON object found'')
         else Inl (JSONDecodeError ''no JSON object matching required keys found''))"

text \<open>The objects of a text, one for each position at which one decodes.\<close>

fun objects_of :: "string \<Rightarrow> json_dict list" where
  "objects_of [] = []"
| "objects_of (c # s) = opt_list (object_here (c # s)) @ objects_of s"

definition last_opt :: "'a list \<Rightarrow> 'a option" where
  "last_opt xs = (if xs = [] then None else Some (last xs))"

lemma last_opt_simps [simp]:
  "last_opt [] = None" "last_opt (x # xs) = (case last_opt xs of None \<Rightarrow> Some x | Some y \<Rightarrow> Some y)"
  by (simp_all add: last_opt_def)

lemma scan_objects_last:
  "scan_objects required s fb fo =
     (case last_opt (objects_of s) of None \<Rightarrow> fb | Some d \<Rightarrow> Some d,
      case last_opt (filter (has_keys required) (objects_of s)) of None \<Rightarrow> fo | Some d \<Rightarrow> Some d)"
  by (induction s arbitrary: fb fo) (auto simp: opt_list_def split: option.splits)

text \<open>C14: extraction succeeds exactly when the text holds, at some brace, an object with the required
  keys, and its answer is the last of them: what the model corrected at the end wins over what it
  wrote first. An empty text counts as an empty object.\<close>

theorem extract_last_object:
  "extract_json_object text required =
     (let objs = filter (has_keys required) (objects_of (if text = [] then ''{}'' else text))
      in if objs \<noteq> [] then Inr (last objs)
         else if objects_of (if text = [] then ''{}'' else text) = [] then
           Inl (JSONDecodeError ''no JSON object found'')
         else Inl (JSONDecodeError ''no JSON object matching required keys found''))"
proof -
  define content where "content = (if text = [] then ''{}'' else text)"
  have all: "filter (has_keys []) ds = ds" for ds by (simp add: has_keys_def)
  show ?thesis
    unfolding extract_json_object_def content_def [symmetric] scan_objects_last Let_def
    by (cases "required = []") (auto simp: all last_opt_def)
qed

section \<open>Matching braces outside string literals\<close>

text \<open>The scan with its three variables; the characters read so far are kept in reverse.\<close>

fun balanced_scan :: "int \<Rightarrow> bool \<Rightarrow> bool \<Rightarrow> string \<Rightarrow> string \<Rightarrow> string option" where
  "balanced_scan depth in_string escape acc [] = None"
| "balanced_scan depth in_string escape acc (c # s) =
     (if in_string then
        (if escape then balanced_scan depth True False (c # acc) s
         else if c = CHR 0x5C then balanced_scan depth True True (c # acc) s
         else if c = CHR 0x22 then balanced_scan depth False escape (c # acc) s
         else balanced_scan depth True escape (c # acc) s)
      else if c = CHR 0x22 then balanced_scan depth True escape (c # acc) s
      else if c = CHR ''{'' then balanced_scan (depth + 1) False escape (c # acc) s
      else if c = CHR ''}'' then
        (if depth - 1 = 0 then Some (rev (c # acc)) else balanced_scan (depth - 1) False escape (c # acc) s)
      else balanced_scan depth False escape (c # acc) s)"

definition find_balanced_json_object :: "string \<Rightarrow> nat \<Rightarrow> string option" where
  "find_balanced_json_object text start = balanced_scan 0 False False [] (drop start text)"

text \<open>\<open>re.sub(r'("line"\s*:\s*)(\d+)\s*-\s*(\d+)', r'\1"\2-\3"', text)\<close>: line ranges become strings.\<close>

definition match_line_range :: "string \<Rightarrow> (string \<times> string) option" where
  "match_line_range s =
     (let q = [CHR 0x22]; key = q @ ''line'' @ q; r1 = drop (length key) s;
          w1 = takeWhile py_isspace r1; r2 = dropWhile py_isspace r1;
          w2 = takeWhile py_isspace (tl r2); r3 = dropWhile py_isspace (tl r2);
          a = takeWhile py_isdigit r3; r4 = dropWhile py_isspace (dropWhile py_isdigit r3);
          r5 = dropWhile py_isspace (tl r4);
          b = takeWhile py_isdigit r5
      in if startswith s key \<and> startswith r2 '':'' \<and> a \<noteq> [] \<and> startswith r4 ''-'' \<and> b \<noteq> []
         then Some (key @ w1 @ '':'' @ w2 @ q @ a @ ''-'' @ b @ q, dropWhile py_isdigit r5) else None)"

fun repair_scan :: "nat \<Rightarrow> string \<Rightarrow> string" where
  "repair_scan 0 s = s"
| "repair_scan (Suc n) [] = []"
| "repair_scan (Suc n) (c # s) =
     (case match_line_range (c # s) of
        Some (out, rest) \<Rightarrow> out @ repair_scan n rest
      | None \<Rightarrow> c # repair_scan n s)"

definition repair_json_candidate :: "string \<Rightarrow> string" where
  "repair_json_candidate text = repair_scan (length text) text"

text \<open>The object a candidate text is, repaired when it does not decode as it stands.\<close>

definition object_of_candidate :: "string \<Rightarrow> json_dict option" where
  "object_of_candidate candidate =
     (case json_parse candidate of
        Some v \<Rightarrow> as_dict v
      | None \<Rightarrow>
          (let repaired = repair_json_candidate candidate
           in if repaired = candidate then None
              else (case json_parse repaired of Some v \<Rightarrow> as_dict v | None \<Rightarrow> None)))"

fun first_object :: "string \<Rightarrow> json_dict option" where
  "first_object [] = None"
| "first_object (c # s) =
     (case (if c = CHR ''{'' then find_balanced_json_object (c # s) 0 else None) of
        None \<Rightarrow> first_object s
      | Some candidate \<Rightarrow>
          (case object_of_candidate candidate of None \<Rightarrow> first_object s | Some d \<Rightarrow> Some d))"

definition extract_model_object :: "string \<Rightarrow> json_dict py_result" where
  "extract_model_object text0 =
     (let text = py_strip text0
      in case json_parse text of
           Some (JObj d) \<Rightarrow> Inr d
         | _ \<Rightarrow>
           (case first_object text of
              Some d \<Rightarrow> Inr d
            | None \<Rightarrow> Inl (RuntimeError (''opencode output is not valid json: '' @ text))))"

section \<open>The scan finds objects whole\<close>

text \<open>The lexical structure of an object: braces, string literals with their escapes, and other
  characters. It covers every JSON text.\<close>

datatype lit_char = Lit char | Esc char

datatype chunk = Other char | Quoted "lit_char list" | Braces "chunk list"

fun lit_text :: "lit_char \<Rightarrow> string" where
  "lit_text (Lit c) = [c]"
| "lit_text (Esc c) = [CHR 0x5C, c]"

fun chunk_text :: "chunk \<Rightarrow> string" where
  "chunk_text (Other c) = [c]"
| "chunk_text (Quoted ls) = CHR 0x22 # concat (map lit_text ls) @ [CHR 0x22]"
| "chunk_text (Braces cs) = CHR ''{'' # concat (map chunk_text cs) @ [CHR ''}'']"

fun lit_ok :: "lit_char \<Rightarrow> bool" where
  "lit_ok (Lit c) \<longleftrightarrow> c \<noteq> CHR 0x22 \<and> c \<noteq> CHR 0x5C"
| "lit_ok (Esc c) \<longleftrightarrow> True"

fun chunk_ok :: "chunk \<Rightarrow> bool" where
  "chunk_ok (Other c) \<longleftrightarrow> c \<noteq> CHR 0x22 \<and> c \<noteq> CHR ''{'' \<and> c \<noteq> CHR ''}''"
| "chunk_ok (Quoted ls) \<longleftrightarrow> list_all lit_ok ls"
| "chunk_ok (Braces cs) \<longleftrightarrow> list_all chunk_ok cs"

lemma scan_literal:
  "list_all lit_ok ls \<Longrightarrow>
     balanced_scan d True False acc (concat (map lit_text ls) @ CHR 0x22 # s)
       = balanced_scan d False False (CHR 0x22 # rev (concat (map lit_text ls)) @ acc) s"
proof (induction ls arbitrary: acc)
  case (Cons l ls)
  then show ?case by (cases l) simp_all
qed simp

lemma scan_chunk:
  "chunk_ok c \<Longrightarrow> 0 < d \<Longrightarrow>
     balanced_scan d False False acc (chunk_text c @ s) = balanced_scan d False False (rev (chunk_text c) @ acc) s"
proof (induction c arbitrary: d acc s)
  case (Other c)
  then show ?case by simp
next
  case (Quoted ls)
  then show ?case by (simp add: scan_literal)
next
  case (Braces cs)
  have "balanced_scan (d + 1) False False acc' (concat (map chunk_text cs) @ s')
      = balanced_scan (d + 1) False False (rev (concat (map chunk_text cs)) @ acc') s'" for acc' s'
    using Braces
  proof (induction cs arbitrary: acc')
    case (Cons c cs)
    then show ?case by (simp add: Cons.prems(1))
  qed simp
  with Braces.prems show ?case by simp
qed

lemma scan_chunks:
  "list_all chunk_ok cs \<Longrightarrow> 0 < d \<Longrightarrow>
     balanced_scan d False False acc (concat (map chunk_text cs) @ s)
       = balanced_scan d False False (rev (concat (map chunk_text cs)) @ acc) s"
  by (induction cs arbitrary: acc) (simp_all add: scan_chunk)

text \<open>C15: the brace matcher returns an object whole: from the position of its opening brace it returns
  exactly the text up to the brace that closes it, whatever braces, quotes and escapes its string
  literals hold, how deeply objects nest, and what surrounds it.\<close>

theorem balanced_object_found:
  assumes "list_all chunk_ok cs"
  shows "find_balanced_json_object (pre @ chunk_text (Braces cs) @ post) (length pre) = Some (chunk_text (Braces cs))"
  using scan_chunks [OF assms, of 1 "''{''" "CHR ''}'' # post"]
  by (simp add: find_balanced_json_object_def)

theorem balanced_object_found_witness:
  "find_balanced_json_object (''ok: '' @ chunk_text (Braces [Quoted [Lit CHR ''}'', Esc CHR 0x22], Other CHR '':'',
       Braces []]) @ ''}}'') 4
   = Some (chunk_text (Braces [Quoted [Lit CHR ''}'', Esc CHR 0x22], Other CHR '':'', Braces []]))"
  using balanced_object_found [of "[Quoted [Lit CHR ''}'', Esc CHR 0x22], Other CHR '':'', Braces []]" "''ok: ''" "''}}''"]
  by (simp add: eval_nat_numeral)

end
