(* ===== verification/Costing.thy ===== *)
theory Costing
  imports Interfaces Json_Value
begin

text \<open>
  Token accounting: prices per model (\<open>review_v2/costing.py\<close>), the token buckets of a session and
  their sums (\<open>session_usage.py\<close>, \<open>session_analysis.py\<close>), and the usage record of a reviewer run
  (\<open>workflow.py\<close>, \<open>_token_usage\<close>). Costs are exact rationals. Sums of counters are the interface
  \<open>counter_sum\<close>.
\<close>

section \<open>Prices\<close>

record rates =
  rt_input :: rat
  rt_cache :: rat
  rt_output :: rat

definition model_rates :: "string option \<Rightarrow> rates" where
  "model_rates model =
     (let model_lower = py_lower (text_or model [])
      in if contains model_lower ''kimi-k2.6'' \<or> contains model_lower ''kimi/k2.6'' then
           \<lparr>rt_input = 7448 / 10000, rt_cache = 7448 / 10000 * (25 / 100), rt_output = 4655 / 1000\<rparr>
         else if contains model_lower ''gpt-5.5'' then \<lparr>rt_input = 5, rt_cache = 1 / 2, rt_output = 30\<rparr>
         else if contains model_lower ''gpt-5.4-mini'' then
           \<lparr>rt_input = 75 / 100, rt_cache = 75 / 1000, rt_output = 45 / 10\<rparr>
         else if contains model_lower ''gpt-5.4-nano'' then
           \<lparr>rt_input = 2 / 10, rt_cache = 2 / 100, rt_output = 125 / 100\<rparr>
         else if contains model_lower ''gpt-5.4'' then
           \<lparr>rt_input = 25 / 10, rt_cache = 25 / 100, rt_output = 15\<rparr>
         else if contains model_lower ''gpt-5.3-codex'' \<or> contains model_lower ''gpt-5.3-chat''
                 \<or> contains model_lower ''gpt-5.3'' then
           \<lparr>rt_input = 175 / 100, rt_cache = 175 / 1000, rt_output = 14\<rparr>
         else \<lparr>rt_input = 25 / 10, rt_cache = 25 / 100, rt_output = 15\<rparr>)"

definition estimate_cost_from_tokens :: "string option \<Rightarrow> int \<Rightarrow> int \<Rightarrow> int \<Rightarrow> int \<Rightarrow> rat" where
  "estimate_cost_from_tokens model input output cache_read reasoning =
     (let r = model_rates model
      in of_int input * rt_input r / 1000000 + of_int cache_read * rt_cache r / 1000000
         + of_int (output + reasoning) * rt_output r / 1000000)"

definition cost_from_provider_or_tokens ::
  "rat option \<Rightarrow> string option \<Rightarrow> int \<Rightarrow> int \<Rightarrow> int \<Rightarrow> int \<Rightarrow> rat" where
  "cost_from_provider_or_tokens provider_cost_usd model input output cache_read reasoning =
     (case provider_cost_usd of
        Some c \<Rightarrow>
          if c > 0 then c
          else if input = 0 \<and> output = 0 \<and> cache_read = 0 \<and> reasoning = 0 then 0
          else estimate_cost_from_tokens model input output cache_read reasoning
      | None \<Rightarrow>
          if input = 0 \<and> output = 0 \<and> cache_read = 0 \<and> reasoning = 0 then 0
          else estimate_cost_from_tokens model input output cache_read reasoning)"

section \<open>The usage of a run\<close>

record usage =
  us_input :: int
  us_output :: int
  us_reasoning :: int
  us_cache_read :: int
  us_cache_write :: int
  us_total :: int
  us_cost :: rat

definition usage_zero :: usage where
  "usage_zero = \<lparr>us_input = 0, us_output = 0, us_reasoning = 0, us_cache_read = 0, us_cache_write = 0,
     us_total = 0, us_cost = 0\<rparr>"

definition usage_plus :: "usage \<Rightarrow> usage \<Rightarrow> usage" where
  "usage_plus a b = \<lparr>us_input = us_input a + us_input b, us_output = us_output a + us_output b,
     us_reasoning = us_reasoning a + us_reasoning b, us_cache_read = us_cache_read a + us_cache_read b,
     us_cache_write = us_cache_write a + us_cache_write b, us_total = us_total a + us_total b,
     us_cost = us_cost a + us_cost b\<rparr>"

interpretation uu: counter_sum usage_zero usage_plus
  by unfold_locales (simp_all add: usage_zero_def usage_plus_def)

text \<open>\<open>int(v or 0)\<close>.\<close>

definition int_or_zero :: "json \<Rightarrow> int py_result" where
  "int_or_zero v = py_int (py_or v (JInt 0))"

definition dict_or_empty :: "json \<Rightarrow> json_dict py_result" where
  "dict_or_empty v = (if truthy v then need_dict v else Inr [])"

text \<open>\<open>_token_usage\<close> of the tokens, cost and model of a turn.\<close>

definition token_usage :: "json_dict \<Rightarrow> rat option \<Rightarrow> string option \<Rightarrow> string option \<Rightarrow> usage py_result" where
  "token_usage tokens cost_usd model_id default_model =
     bind_r (int_or_zero (dget tokens ''input'')) (\<lambda>input.
     bind_r (int_or_zero (dget tokens ''output'')) (\<lambda>output.
     bind_r (int_or_zero (dget tokens ''reasoning'')) (\<lambda>reasoning.
     bind_r (dict_or_empty (dget tokens ''cache'')) (\<lambda>cache.
     bind_r (int_or_zero (dget cache ''read'')) (\<lambda>cache_read.
     bind_r (int_or_zero (dget cache ''write'')) (\<lambda>cache_write.
     bind_r (int_or_zero (dget tokens ''total'')) (\<lambda>total.
       Inr \<lparr>us_input = input, us_output = output, us_reasoning = reasoning, us_cache_read = cache_read,
            us_cache_write = cache_write, us_total = total,
            us_cost = cost_from_provider_or_tokens cost_usd
              (if text_truthy model_id then model_id else default_model) input output cache_read reasoning\<rparr>)))))))"

section \<open>Session buckets\<close>

record bucket =
  bk_input :: int
  bk_output :: int
  bk_reasoning :: int
  bk_cache_read :: int
  bk_cache_write :: int
  bk_total :: int

definition empty_token_bucket :: bucket where
  "empty_token_bucket = \<lparr>bk_input = 0, bk_output = 0, bk_reasoning = 0, bk_cache_read = 0,
     bk_cache_write = 0, bk_total = 0\<rparr>"

definition bucket_plus :: "bucket \<Rightarrow> bucket \<Rightarrow> bucket" where
  "bucket_plus a b = \<lparr>bk_input = bk_input a + bk_input b, bk_output = bk_output a + bk_output b,
     bk_reasoning = bk_reasoning a + bk_reasoning b, bk_cache_read = bk_cache_read a + bk_cache_read b,
     bk_cache_write = bk_cache_write a + bk_cache_write b, bk_total = bk_total a + bk_total b\<rparr>"

interpretation bb: counter_sum empty_token_bucket bucket_plus
  by unfold_locales (simp_all add: empty_token_bucket_def bucket_plus_def)

text \<open>The six metrics of a mapping, each \<open>int(source.get(metric, 0) or 0)\<close>.\<close>

definition bucket_of :: "json_dict \<Rightarrow> bucket py_result" where
  "bucket_of source =
     bind_r (int_or_zero (dget source ''input'')) (\<lambda>a.
     bind_r (int_or_zero (dget source ''output'')) (\<lambda>b.
     bind_r (int_or_zero (dget source ''reasoning'')) (\<lambda>c.
     bind_r (int_or_zero (dget source ''cache_read'')) (\<lambda>d.
     bind_r (int_or_zero (dget source ''cache_write'')) (\<lambda>e.
     bind_r (int_or_zero (dget source ''total'')) (\<lambda>f.
       Inr \<lparr>bk_input = a, bk_output = b, bk_reasoning = c, bk_cache_read = d, bk_cache_write = e, bk_total = f\<rparr>))))))"

definition sum_token_bucket :: "bucket \<Rightarrow> json_dict \<Rightarrow> bucket py_result" where
  "sum_token_bucket target source = bind_r (bucket_of source) (\<lambda>b. Inr (bucket_plus target b))"

record session_usage =
  su_session_ids :: "string list"
  su_messages :: int
  su_main :: bucket
  su_small :: bucket
  su_other :: bucket
  su_total :: bucket
  su_by_model :: "(string \<times> bucket) list"

definition add_model :: "(string \<times> bucket) list \<Rightarrow> string \<times> json \<Rightarrow> (string \<times> bucket) list py_result" where
  "add_model by_model kv =
     bind_r (dict_or_empty (snd kv)) (\<lambda>src.
     bind_r (sum_token_bucket (case map_of by_model (fst kv) of None \<Rightarrow> empty_token_bucket | Some b \<Rightarrow> b) src) (\<lambda>b.
       Inr (dset (fst kv) b by_model)))"

definition add_session :: "session_usage \<Rightarrow> json_dict \<Rightarrow> session_usage py_result" where
  "add_session u answer =
     bind_r (int_or_zero (dget answer ''assistant_messages'')) (\<lambda>m.
     bind_r (bind_r (dict_or_empty (dget answer ''main_model_tokens'')) (sum_token_bucket (su_main u))) (\<lambda>a.
     bind_r (bind_r (dict_or_empty (dget answer ''small_model_tokens'')) (sum_token_bucket (su_small u))) (\<lambda>b.
     bind_r (bind_r (dict_or_empty (dget answer ''other_model_tokens'')) (sum_token_bucket (su_other u))) (\<lambda>c.
     bind_r (bind_r (dict_or_empty (dget answer ''total_tokens'')) (sum_token_bucket (su_total u))) (\<lambda>d.
     bind_r (bind_r (dict_or_empty (dget answer ''by_model'')) (fold_r add_model (su_by_model u))) (\<lambda>e.
       Inr (u \<lparr>su_messages := su_messages u + m, su_main := a, su_small := b, su_other := c, su_total := d,
              su_by_model := e\<rparr>)))))))"

text \<open>\<open>capture_session_token_usage\<close>: \<open>analyze\<close> is the client's answer for a session, \<open>None\<close> when the
  call raises; \<open>previous\<close> is what the state already holds. The result is \<open>previous\<close>, as \<open>None\<close>, when no
  session could be analysed.\<close>

definition capture_targets :: "string option \<Rightarrow> string list \<Rightarrow> string list" where
  "capture_targets session_id session_ids =
     (case session_id of
        Some s \<Rightarrow> if s \<noteq> [] \<and> s \<notin> set session_ids then session_ids @ [s] else session_ids
      | None \<Rightarrow> session_ids)"

definition empty_session_usage :: "string list \<Rightarrow> session_usage" where
  "empty_session_usage ids = \<lparr>su_session_ids = ids, su_messages = 0, su_main = empty_token_bucket,
     su_small = empty_token_bucket, su_other = empty_token_bucket, su_total = empty_token_bucket, su_by_model = []\<rparr>"

definition capture_session_token_usage ::
  "(string \<Rightarrow> json_dict option) \<Rightarrow> string option \<Rightarrow> string list \<Rightarrow> session_usage option py_result" where
  "capture_session_token_usage analyze session_id session_ids =
     (let target_ids = capture_targets session_id session_ids;
          answers = concat (map (\<lambda>t. opt_list (analyze t)) target_ids)
      in if target_ids = [] then Inr None
         else bind_r (fold_r add_session (empty_session_usage target_ids) answers) (\<lambda>u.
           Inr (if answers \<noteq> [] then Some u else None)))"

section \<open>Costs are never negative and grow with tokens\<close>

lemma rates_pos: "0 < rt_input (model_rates m) \<and> 0 < rt_cache (model_rates m) \<and> 0 < rt_output (model_rates m)"
  by (simp add: model_rates_def Let_def)

lemma estimate_mono:
  assumes "i \<le> i'" and "out \<le> out'" and "c \<le> c'" and "r \<le> r'"
  shows "estimate_cost_from_tokens m i out c r \<le> estimate_cost_from_tokens m i' out' c' r'"
  using assms rates_pos [of m]
  by (auto simp: estimate_cost_from_tokens_def Let_def
      intro!: add_mono divide_right_mono mult_right_mono)

lemma estimate_zero: "estimate_cost_from_tokens m 0 0 0 0 = 0"
  by (simp add: estimate_cost_from_tokens_def Let_def)

lemma cost_cases:
  "cost_from_provider_or_tokens p m i out c r =
     (if \<exists>x. p = Some x \<and> 0 < x then the p else estimate_cost_from_tokens m i out c r)"
  by (auto simp: cost_from_provider_or_tokens_def estimate_zero split: option.split)

text \<open>The price of a run is what the provider reports when that is positive and the estimate from
  the tokens otherwise; without a report it is zero for a run without tokens, it never falls when
  tokens are added, and so it is never negative.\<close>

theorem cost_monotone:
  assumes "0 \<le> i" "i \<le> i'" and "0 \<le> out" "out \<le> out'" and "0 \<le> c" "c \<le> c'" and "0 \<le> r" "r \<le> r'"
  shows "0 \<le> cost_from_provider_or_tokens p m i out c r
    \<and> cost_from_provider_or_tokens p m i out c r \<le> cost_from_provider_or_tokens p m i' out' c' r'"
proof -
  have "0 \<le> estimate_cost_from_tokens m i out c r"
    using estimate_mono [of 0 i 0 out 0 c 0 r m] assms by (simp add: estimate_zero)
  moreover have "estimate_cost_from_tokens m i out c r \<le> estimate_cost_from_tokens m i' out' c' r'"
    using assms by (intro estimate_mono)
  ultimately show ?thesis by (auto simp: cost_cases)
qed

theorem cost_monotone_witness:
  "0 \<le> cost_from_provider_or_tokens None (Some ''gpt-5.4-mini'') 10 20 0 5
    \<and> cost_from_provider_or_tokens None (Some ''gpt-5.4-mini'') 10 20 0 5
      \<le> cost_from_provider_or_tokens None (Some ''gpt-5.4-mini'') 10 25 3 5"
  by (rule cost_monotone) simp_all

section \<open>Sums over sessions\<close>

lemma bucket_of_Nil [simp]: "bucket_of [] = Inr empty_token_bucket"
  by (simp add: bucket_of_def int_or_zero_def dget_def py_or_def empty_token_bucket_def)

definition total_bucket_of :: "json_dict \<Rightarrow> bucket" where
  "total_bucket_of answer =
     (case bind_r (dict_or_empty (dget answer ''total_tokens'')) bucket_of of Inr b \<Rightarrow> b | Inl _ \<Rightarrow> empty_token_bucket)"

lemma add_session_total:
  assumes "add_session u a = Inr v"
  shows "su_total v = bucket_plus (su_total u) (total_bucket_of a)"
  using assms by (auto simp: add_session_def bind_r_Inr sum_token_bucket_def total_bucket_of_def)

lemma add_sessions_total:
  "fold_r add_session u as = Inr v \<Longrightarrow> su_total v = bucket_plus (su_total u) (bb.total (map total_bucket_of as))"
proof (induction as arbitrary: u)
  case Nil
  then show ?case by (simp add: bb.total_Nil bb.zero_right)
next
  case (Cons a as)
  then obtain w where "add_session u a = Inr w" "fold_r add_session w as = Inr v"
    by (auto simp: bind_r_Inr)
  with Cons.IH add_session_total show ?case by (simp add: bb.total_Cons bb.assoc)
qed

text \<open>The tokens captured for a list of sessions are the sum of the tokens of those that could be
  analysed, each counted once, and the sum does not depend on the order of the sessions.\<close>

theorem captured_total:
  assumes "capture_session_token_usage analyze session_id ids = Inr (Some u)"
    and "capture_session_token_usage analyze session_id ids' = Inr (Some u')"
    and "mset (capture_targets session_id ids) = mset (capture_targets session_id ids')"
  shows "su_total u = su_total u'
    \<and> su_total u = bb.total (map total_bucket_of
        (concat (map (\<lambda>t. opt_list (analyze t)) (capture_targets session_id ids))))"
proof -
  have sum: "su_total v = bb.total (map total_bucket_of (concat (map (\<lambda>t. opt_list (analyze t)) (capture_targets session_id js))))"
    if "capture_session_token_usage analyze session_id js = Inr (Some v)" for js v
    using that add_sessions_total [of "empty_session_usage (capture_targets session_id js)"]
    by (auto simp: capture_session_token_usage_def bind_r_Inr Let_def empty_session_usage_def bb.zero_left
        split: if_splits)
  have "mset (map total_bucket_of (concat (map (\<lambda>t. opt_list (analyze t)) xs)))
      = (\<Sum>t \<in># mset xs. mset (map total_bucket_of (opt_list (analyze t))))" for xs
    by (induction xs) simp_all
  then have "bb.total (map total_bucket_of (concat (map (\<lambda>t. opt_list (analyze t)) (capture_targets session_id ids))))
      = bb.total (map total_bucket_of (concat (map (\<lambda>t. opt_list (analyze t)) (capture_targets session_id ids'))))"
    using assms(3) by (intro bb.total_rearrange) simp
  with sum [OF assms(1)] sum [OF assms(2)] show ?thesis by simp
qed

definition sample_analysis :: "string \<Rightarrow> json_dict option" where
  "sample_analysis s =
     (if s = ''a'' then Some [(''assistant_messages'', JInt 2), (''total_tokens'', JObj [(''input'', JInt 7), (''total'', JInt 9)])]
      else if s = ''b'' then Some [(''total_tokens'', JObj [(''input'', JInt 1), (''total'', JInt 3)])]
      else None)"

definition sample_capture :: "string list \<Rightarrow> session_usage" where
  "sample_capture ids =
     (case capture_session_token_usage sample_analysis (Some ''b'') ids of Inr (Some u) \<Rightarrow> u
      | _ \<Rightarrow> empty_session_usage [])"

theorem captured_total_witness:
  "su_total (sample_capture [''a'', ''b'']) = su_total (sample_capture [''b'', ''a''])"
proof -
  have "capture_session_token_usage sample_analysis (Some ''b'') [''a'', ''b''] = Inr (Some (sample_capture [''a'', ''b'']))"
    by code_simp
  moreover have "capture_session_token_usage sample_analysis (Some ''b'') [''b'', ''a''] = Inr (Some (sample_capture [''b'', ''a'']))"
    by code_simp
  ultimately show ?thesis
    by (rule captured_total [THEN conjunct1]) (simp add: capture_targets_def)
qed

end
