(* ===== verification/Review_Tables.thy ===== *)
theory Review_Tables
  imports Review_Models Costing "HOL-Library.Option_ord"
begin

text \<open>
  The tables of the review database (\<open>review_v2/storage.py\<close>, \<open>ReviewDB.init\<close>): one record per table
  row, the database as the record of its tables, rows in the order of their row ids. A column with a
  \<open>CHECK\<close> constraint has the datatype of its values; keys, uniqueness and foreign keys are what
  \<open>db_ok\<close> states. Rows are never deleted, so an autoincrement id is the position of its row.
\<close>

datatype callback_state = CB_Retrying | CB_Skipped | CB_Succeeded | CB_Failed

datatype control_action = Stop_Task | Cancel_Task

record cr_task =
  tk_id :: string
  tk_app_name :: string
  tk_repo_url :: string
  tk_branch :: string
  tk_commit_id :: "string option"
  tk_status :: task_status
  tk_gate :: "string option"
  tk_priority :: int
  tk_queued_at :: "instant option"
  tk_not_before :: "instant option"
  tk_claimed_by :: "string option"
  tk_lease :: "instant option"
  tk_heartbeat :: "instant option"
  tk_attempts :: nat
  tk_cb_state :: "callback_state option"
  tk_cb_attempts :: nat
  tk_cb_next :: "instant option"
  tk_cb_error :: "string option"
  tk_cb_digest :: "string option"
  tk_cb_history :: "json list"
  tk_report_url :: "string option"
  tk_request :: json_dict
  tk_created :: instant
  tk_updated :: instant
  tk_started :: "instant option"
  tk_finished :: "instant option"
  tk_error :: "string option"

record reviewer_plan =
  rp_task :: string
  rp_workflow :: string
  rp_reviewer :: string
  rp_required :: bool
  rp_tier :: "string option"
  rp_reason :: "string option"
  rp_created :: instant

record reviewer_run =
  rr_id :: nat
  rr_task :: string
  rr_reviewer :: string
  rr_workflow :: string
  rr_attempt :: int
  rr_status :: run_status
  rr_session :: "string option"
  rr_model :: "string option"
  rr_raw_log :: "string option"
  rr_output :: "string option"
  rr_error :: "string option"
  rr_duration :: "int option"
  rr_usage :: usage
  rr_created :: instant
  rr_updated :: instant
  rr_started :: "instant option"
  rr_finished :: "instant option"

record finding =
  fn_id :: string
  fn_task :: string
  fn_run :: "nat option"
  fn_file :: string
  fn_line :: "int option"
  fn_severity :: severity
  fn_title :: string
  fn_detail :: string
  fn_suggestion :: "string option"
  fn_status :: string
  fn_created :: instant
  fn_updated :: instant

record finding_event =
  fe_finding :: string
  fe_task :: string
  fe_type :: string
  fe_actor :: "string option"
  fe_message :: "string option"
  fe_payload :: json_dict
  fe_created :: instant

record feedback_session =
  fb_id :: string
  fb_task :: string
  fb_finding :: "string option"
  fb_parent_run :: "nat option"
  fb_opencode :: "string option"
  fb_text :: "string option"
  fb_reply :: "string option"
  fb_status :: string
  fb_usage :: usage
  fb_created :: instant
  fb_updated :: instant

record task_event =
  te_task :: "string option"
  te_type :: string
  te_severity :: string
  te_stage :: "string option"
  te_message :: string
  te_payload :: json_dict
  te_created :: instant

record task_control =
  tc_task :: string
  tc_action :: control_action
  tc_reason :: "string option"
  tc_requested :: instant
  tc_ack :: "instant option"

record heartbeat =
  hb_runner :: string
  hb_task :: "string option"
  hb_pid :: "int option"
  hb_host :: "string option"
  hb_status :: string
  hb_message :: "string option"
  hb_started :: "instant option"
  hb_at :: "instant option"
  hb_config_hash :: "string option"
  hb_created :: instant
  hb_updated :: instant

text \<open>\<open>db_run_seq\<close> is the row of \<open>sqlite_sequence\<close> for \<open>reviewer_runs\<close>: the last identifier its
  \<open>AUTOINCREMENT\<close> key handed out, by an insert or by an upsert that then updated an existing row.\<close>

record db =
  db_tasks :: "cr_task list"
  db_plans :: "reviewer_plan list"
  db_runs :: "reviewer_run list"
  db_run_seq :: nat
  db_findings :: "finding list"
  db_finding_events :: "finding_event list"
  db_feedback :: "feedback_session list"
  db_events :: "task_event list"
  db_controls :: "task_control list"
  db_heartbeats :: "heartbeat list"

definition empty_db :: db where
  "empty_db = \<lparr>db_tasks = [], db_plans = [], db_runs = [], db_run_seq = 0, db_findings = [], db_finding_events = [],
     db_feedback = [], db_events = [], db_controls = [], db_heartbeats = []\<rparr>"

definition get_task :: "string \<Rightarrow> db \<Rightarrow> cr_task option" where
  "get_task task_id d = find (\<lambda>t. tk_id t = task_id) (db_tasks d)"

abbreviation task_known :: "db \<Rightarrow> string \<Rightarrow> bool" where
  "task_known d i \<equiv> i \<in> tk_id ` set (db_tasks d)"

definition foreign_key_error :: py_exc where
  "foreign_key_error = IntegrityError ''FOREIGN KEY constraint failed''"

text \<open>\<open>INSERT INTO task_events\<close>: the foreign key lets through known tasks and \<open>NULL\<close>.\<close>

definition insert_event ::
  "string option \<Rightarrow> string \<Rightarrow> string \<Rightarrow> string option \<Rightarrow> string \<Rightarrow> json_dict \<Rightarrow> instant \<Rightarrow> db \<Rightarrow> db py_result" where
  "insert_event task typ sev stage msg payload now d =
     (if set_option task \<subseteq> tk_id ` set (db_tasks d) then
        Inr (d \<lparr>db_events := db_events d @
          [\<lparr>te_task = task, te_type = typ, te_severity = sev, te_stage = stage, te_message = msg,
            te_payload = payload, te_created = now\<rparr>]\<rparr>)
      else Inl foreign_key_error)"

section \<open>What the schema and the life cycle guarantee\<close>

definition run_key :: "reviewer_run \<Rightarrow> string \<times> string \<times> string \<times> int" where
  "run_key r = (rr_task r, rr_reviewer r, rr_workflow r, rr_attempt r)"

definition plan_key :: "reviewer_plan \<Rightarrow> string \<times> string \<times> string" where
  "plan_key p = (rp_task p, rp_workflow p, rp_reviewer p)"

definition keys_ok :: "db \<Rightarrow> bool" where
  "keys_ok d \<longleftrightarrow>
     distinct (map tk_id (db_tasks d)) \<and> distinct (map plan_key (db_plans d))
   \<and> distinct (map run_key (db_runs d)) \<and> sorted_wrt (<) (map rr_id (db_runs d))
   \<and> (\<forall>r \<in> set (db_runs d). 0 < rr_id r \<and> rr_id r \<le> db_run_seq d)
   \<and> distinct (map fn_id (db_findings d)) \<and> distinct (map fb_id (db_feedback d))
   \<and> distinct (map hb_runner (db_heartbeats d))"

definition run_ref_ok :: "db \<Rightarrow> nat option \<Rightarrow> bool" where
  "run_ref_ok d r \<longleftrightarrow> set_option r \<subseteq> rr_id ` set (db_runs d)"

definition task_ref_ok :: "db \<Rightarrow> string option \<Rightarrow> bool" where
  "task_ref_ok d t \<longleftrightarrow> set_option t \<subseteq> tk_id ` set (db_tasks d)"

definition finding_ref_ok :: "db \<Rightarrow> string option \<Rightarrow> bool" where
  "finding_ref_ok d f \<longleftrightarrow> set_option f \<subseteq> fn_id ` set (db_findings d)"

definition refs_ok :: "db \<Rightarrow> bool" where
  "refs_ok d \<longleftrightarrow>
     (\<forall>p \<in> set (db_plans d). task_known d (rp_task p))
   \<and> (\<forall>r \<in> set (db_runs d). task_known d (rr_task r))
   \<and> (\<forall>f \<in> set (db_findings d). task_known d (fn_task f) \<and> run_ref_ok d (fn_run f))
   \<and> (\<forall>e \<in> set (db_finding_events d). task_known d (fe_task e) \<and> fe_finding e \<in> fn_id ` set (db_findings d))
   \<and> (\<forall>s \<in> set (db_feedback d). task_known d (fb_task s) \<and> finding_ref_ok d (fb_finding s)
        \<and> run_ref_ok d (fb_parent_run s))
   \<and> (\<forall>e \<in> set (db_events d). task_ref_ok d (te_task e))
   \<and> (\<forall>c \<in> set (db_controls d). task_known d (tc_task c))
   \<and> (\<forall>h \<in> set (db_heartbeats d). task_ref_ok d (hb_task h))"

text \<open>A task that waits is held by nobody; one that runs has a holder, a lease and a started attempt.
  A run is finished exactly when its status is final.\<close>

definition task_ok :: "cr_task \<Rightarrow> bool" where
  "task_ok t \<longleftrightarrow>
     (tk_status t = TQueued \<longrightarrow> tk_claimed_by t = None \<and> tk_lease t = None)
   \<and> (tk_status t = TRunning \<longrightarrow>
        tk_claimed_by t \<noteq> None \<and> tk_lease t \<noteq> None \<and> tk_started t \<noteq> None \<and> 1 \<le> tk_attempts t)"

definition final_run :: "run_status \<Rightarrow> bool" where
  "final_run s \<longleftrightarrow> s = RSuccess \<or> s = RFailed \<or> s = RCancelled"

definition run_ok :: "reviewer_run \<Rightarrow> bool" where
  "run_ok r \<longleftrightarrow> (rr_finished r \<noteq> None \<longleftrightarrow> final_run (rr_status r))"

definition rows_ok :: "db \<Rightarrow> bool" where
  "rows_ok d \<longleftrightarrow> (\<forall>t \<in> set (db_tasks d). task_ok t) \<and> (\<forall>r \<in> set (db_runs d). run_ok r)"

definition db_ok :: "db \<Rightarrow> bool" where
  "db_ok d \<longleftrightarrow> keys_ok d \<and> refs_ok d \<and> rows_ok d"

lemma final_run_simps [simp]:
  "final_run RSuccess" "final_run RFailed" "final_run RCancelled" "\<not> final_run RQueued" "\<not> final_run RRunning"
  by (simp_all add: final_run_def)

lemma db_ok_empty: "db_ok empty_db"
  by (simp add: db_ok_def keys_ok_def refs_ok_def rows_ok_def empty_db_def)

lemma image_key_upd: "(\<And>r. k (f r) = k r) \<Longrightarrow> k ` set (upd_where p f rs) = k ` set rs"
  by (metis map_upd_where set_map)

lemma ball_upd_where:
  "(\<forall>r \<in> set rs. P r) \<Longrightarrow> (\<And>r. r \<in> set rs \<Longrightarrow> P r \<Longrightarrow> p r \<Longrightarrow> P (f r)) \<Longrightarrow> \<forall>r \<in> set (upd_where p f rs). P r"
  by (auto simp: set_upd_where)

section \<open>One table changed at a time\<close>

text \<open>For each table, what a change of its rows or a new row must satisfy for the whole database to stay
  well formed.\<close>

lemmas db_ok_defs = db_ok_def keys_ok_def refs_ok_def rows_ok_def run_ref_ok_def task_ref_ok_def finding_ref_ok_def

lemma ok_set_tasks:
  assumes "db_ok d" and "map tk_id ts = map tk_id (db_tasks d)" and "\<forall>t \<in> set ts. task_ok t"
  shows "db_ok (d \<lparr>db_tasks := ts\<rparr>)"
proof -
  have "tk_id ` set ts = tk_id ` set (db_tasks d)"
    by (metis assms(2) set_map)
  with assms show ?thesis by (simp add: db_ok_defs)
qed

lemma ok_add_task:
  assumes "db_ok d" and "\<not> task_known d (tk_id t)" and "task_ok t"
  shows "db_ok (d \<lparr>db_tasks := db_tasks d @ [t]\<rparr>)"
  using assms by (simp add: db_ok_defs) (blast)

lemma ok_upd_tasks:
  assumes "db_ok d" and "\<And>t. tk_id (f t) = tk_id t" and "\<And>t. t \<in> set (db_tasks d) \<Longrightarrow> task_ok t \<Longrightarrow> p t \<Longrightarrow> task_ok (f t)"
  shows "db_ok (d \<lparr>db_tasks := upd_where p f (db_tasks d)\<rparr>)"
proof (rule ok_set_tasks [OF assms(1)])
  show "map tk_id (upd_where p f (db_tasks d)) = map tk_id (db_tasks d)"
    using assms(2) by (rule map_upd_where)
  show "\<forall>t \<in> set (upd_where p f (db_tasks d)). task_ok t"
    by (rule ball_upd_where) (use assms(1,3) in \<open>auto simp: db_ok_def rows_ok_def\<close>)
qed

lemma ok_set_plans:
  assumes "db_ok d" and "distinct (map plan_key ps)" and "\<forall>p \<in> set ps. task_known d (rp_task p)"
  shows "db_ok (d \<lparr>db_plans := ps\<rparr>)"
  using assms by (simp add: db_ok_defs)

lemma ok_upd_runs:
  assumes "db_ok d" and "\<And>r. run_key (f r) = run_key r" and "\<And>r. rr_id (f r) = rr_id r"
    and "\<And>r. r \<in> set (db_runs d) \<Longrightarrow> run_ok r \<Longrightarrow> p r \<Longrightarrow> run_ok (f r)"
  shows "db_ok (d \<lparr>db_runs := upd_where p f (db_runs d)\<rparr>)"
proof -
  let ?rs = "upd_where p f (db_runs d)"
  have keys: "map run_key ?rs = map run_key (db_runs d)" "map rr_id ?rs = map rr_id (db_runs d)"
    using assms(2,3) by (simp_all add: map_upd_where)
  then have ids: "rr_id ` set ?rs = rr_id ` set (db_runs d)"
    by (metis set_map)
  have "\<And>r. rr_task (f r) = rr_task r"
    using assms(2) by (simp add: run_key_def)
  then have "\<forall>r \<in> set ?rs. task_known d (rr_task r)"
    using assms(1) by (intro ball_upd_where) (simp_all add: db_ok_defs)
  moreover have "\<forall>r \<in> set ?rs. 0 < rr_id r \<and> rr_id r \<le> db_run_seq d"
    using assms(1,3) by (intro ball_upd_where) (simp_all add: db_ok_defs)
  moreover have "\<forall>r \<in> set ?rs. run_ok r"
    by (rule ball_upd_where) (use assms(1,4) in \<open>auto simp: db_ok_def rows_ok_def\<close>)
  ultimately show ?thesis
    using assms(1) by (simp add: db_ok_defs keys ids)
qed

lemma ok_add_run:
  assumes "db_ok d" and "run_key r \<notin> run_key ` set (db_runs d)" and "rr_id r = Suc (db_run_seq d)"
    and "task_known d (rr_task r)" and "run_ok r"
  shows "db_ok (d \<lparr>db_runs := db_runs d @ [r], db_run_seq := Suc (db_run_seq d)\<rparr>)"
proof -
  have "\<forall>i \<in> rr_id ` set (db_runs d). 0 < i \<and> i \<le> db_run_seq d"
    using assms(1) by (simp add: db_ok_defs)
  then have "sorted_wrt (<) (map rr_id (db_runs d @ [r]))"
    using assms(1,3) by (auto simp: sorted_wrt_append db_ok_defs)
  moreover have "\<forall>q \<in> set (db_runs d @ [r]). 0 < rr_id q \<and> rr_id q \<le> Suc (db_run_seq d)"
    using assms(1,3) by (auto simp: db_ok_defs)
  ultimately show ?thesis
    using assms by (simp add: db_ok_defs) (blast)
qed

lemma ok_next_seq: "db_ok d \<Longrightarrow> db_ok (d \<lparr>db_run_seq := Suc (db_run_seq d)\<rparr>)"
  by (auto simp: db_ok_defs)

lemma ok_set_findings:
  assumes "db_ok d" and "map fn_id fs = map fn_id (db_findings d)"
    and "\<forall>f \<in> set fs. task_known d (fn_task f) \<and> run_ref_ok d (fn_run f)"
  shows "db_ok (d \<lparr>db_findings := fs\<rparr>)"
proof -
  have "fn_id ` set fs = fn_id ` set (db_findings d)"
    by (metis assms(2) set_map)
  with assms show ?thesis by (simp add: db_ok_defs)
qed

lemma ok_add_finding:
  assumes "db_ok d" and "fn_id f \<notin> fn_id ` set (db_findings d)" and "task_known d (fn_task f)"
    and "run_ref_ok d (fn_run f)"
  shows "db_ok (d \<lparr>db_findings := db_findings d @ [f]\<rparr>)"
  using assms by (simp add: db_ok_defs) (blast)

lemma ok_add_finding_event:
  assumes "db_ok d" and "task_known d (fe_task e)" and "fe_finding e \<in> fn_id ` set (db_findings d)"
  shows "db_ok (d \<lparr>db_finding_events := db_finding_events d @ [e]\<rparr>)"
  using assms by (simp add: db_ok_defs)

lemma ok_set_feedback:
  assumes "db_ok d" and "distinct (map fb_id ss)"
    and "\<forall>s \<in> set ss. task_known d (fb_task s) \<and> finding_ref_ok d (fb_finding s) \<and> run_ref_ok d (fb_parent_run s)"
  shows "db_ok (d \<lparr>db_feedback := ss\<rparr>)"
  using assms by (simp add: db_ok_defs)

lemma ok_add_event:
  assumes "db_ok d" and "task_ref_ok d (te_task e)"
  shows "db_ok (d \<lparr>db_events := db_events d @ [e]\<rparr>)"
  using assms by (simp add: db_ok_defs)

lemma ok_set_controls:
  assumes "db_ok d" and "\<forall>c \<in> set cs. task_known d (tc_task c)"
  shows "db_ok (d \<lparr>db_controls := cs\<rparr>)"
  using assms by (simp add: db_ok_defs)

lemma ok_set_heartbeats:
  assumes "db_ok d" and "distinct (map hb_runner hs)" and "\<forall>h \<in> set hs. task_ref_ok d (hb_task h)"
  shows "db_ok (d \<lparr>db_heartbeats := hs\<rparr>)"
  using assms by (simp add: db_ok_defs)

lemma insert_event_Inr:
  assumes "insert_event task typ sev stage msg payload now d = Inr d'"
  shows "task_ref_ok d task \<and> (\<exists>e. te_task e = task \<and> te_type e = typ \<and> d' = d \<lparr>db_events := db_events d @ [e]\<rparr>)"
proof -
  let ?e = "\<lparr>te_task = task, te_type = typ, te_severity = sev, te_stage = stage, te_message = msg,
    te_payload = payload, te_created = now\<rparr>"
  have "d' = d \<lparr>db_events := db_events d @ [?e]\<rparr> \<and> task_ref_ok d task"
    using assms by (simp add: insert_event_def task_ref_ok_def split: if_split_asm)
  then show ?thesis by (intro conjI exI [of _ ?e]) simp_all
qed

lemma insert_event_ok: "insert_event task typ sev stage msg payload now d = Inr d' \<Longrightarrow> db_ok d \<Longrightarrow> db_ok d'"
  using ok_add_event by (blast dest: insert_event_Inr)

lemma insert_event_known:
  "task_known d i \<Longrightarrow> insert_event (Some i) typ sev stage msg payload now d =
     Inr (d \<lparr>db_events := db_events d @
       [\<lparr>te_task = Some i, te_type = typ, te_severity = sev, te_stage = stage, te_message = msg,
         te_payload = payload, te_created = now\<rparr>]\<rparr>)"
  by (simp add: insert_event_def)

lemma insert_event_unknown:
  "\<not> task_known d i \<Longrightarrow> insert_event (Some i) typ sev stage msg payload now d = Inl foreign_key_error"
  by (simp add: insert_event_def)

lemma get_task_Some: "get_task i d = Some t \<Longrightarrow> t \<in> set (db_tasks d) \<and> tk_id t = i"
  unfolding get_task_def by (auto dest: find_Some_key)

lemma get_task_known: "task_known d i \<longleftrightarrow> get_task i d \<noteq> None"
  by (auto simp: get_task_def find_None_key)

lemma get_task_unique: "keys_ok d \<Longrightarrow> t \<in> set (db_tasks d) \<Longrightarrow> get_task (tk_id t) d = Some t"
  unfolding get_task_def keys_ok_def by (rule find_unique) auto

end
