(* ===== verification/Review_Storage.thy ===== *)
theory Review_Storage
  imports Review_Tables "HOL-Library.List_Lexorder"
begin

text \<open>
  The operations of \<open>ReviewDB\<close> (\<open>review_v2/storage.py\<close>). Each write is one transaction: it returns the
  new database, or the exception after which the database is unchanged. The clock reading \<open>now\<close> is an
  argument; the two readings of one method are taken as one. Where a query orders by columns that can
  tie, the row inserted first comes first.
\<close>

section \<open>Tasks\<close>

definition new_task ::
  "string \<Rightarrow> string \<Rightarrow> string \<Rightarrow> string \<Rightarrow> string option \<Rightarrow> int \<Rightarrow> json_dict \<Rightarrow> instant \<Rightarrow> cr_task" where
  "new_task task_id app_name repo_url branch commit_id priority request now =
     \<lparr>tk_id = task_id, tk_app_name = app_name, tk_repo_url = repo_url, tk_branch = branch,
      tk_commit_id = commit_id, tk_status = TQueued, tk_gate = None, tk_priority = priority,
      tk_queued_at = Some now, tk_not_before = None, tk_claimed_by = None, tk_lease = None,
      tk_heartbeat = None, tk_attempts = 0, tk_cb_state = None, tk_cb_attempts = 0, tk_cb_next = None,
      tk_cb_error = None, tk_cb_digest = None, tk_cb_history = [], tk_report_url = None,
      tk_request = request, tk_created = now, tk_updated = now, tk_started = None, tk_finished = None,
      tk_error = None\<rparr>"

definition create_task ::
  "string \<Rightarrow> string \<Rightarrow> string \<Rightarrow> string \<Rightarrow> string option \<Rightarrow> int \<Rightarrow> json_dict \<Rightarrow> instant \<Rightarrow> db \<Rightarrow> db py_result" where
  "create_task task_id app_name repo_url branch commit_id priority request now d =
     (if task_known d task_id then Inl (IntegrityError ''UNIQUE constraint failed: cr_tasks.task_id'')
      else insert_event (Some task_id) ''task_created'' ''info'' (Some ''queued'') ''Task queued'' [] now
        (d \<lparr>db_tasks := db_tasks d @ [new_task task_id app_name repo_url branch commit_id priority request now]\<rparr>))"

definition upd_task :: "string \<Rightarrow> (cr_task \<Rightarrow> cr_task) \<Rightarrow> db \<Rightarrow> db" where
  "upd_task task_id f d = d \<lparr>db_tasks := upd_where (\<lambda>t. tk_id t = task_id) f (db_tasks d)\<rparr>"

definition update_task_commit_id :: "string \<Rightarrow> string \<Rightarrow> instant \<Rightarrow> db \<Rightarrow> db py_result" where
  "update_task_commit_id task_id commit_id now d =
     (case get_task task_id d of
        None \<Rightarrow> Inr d
      | Some row \<Rightarrow>
          (let request = (if \<not> truthy (dget (tk_request row) ''commit_id'')
                          then dset ''commit_id'' (JStr commit_id) (tk_request row) else tk_request row)
           in insert_event (Some task_id) ''commit_resolved'' ''info'' (Some ''prepare_repo'')
                ''resolved checkout commit'' [(''commit_id'', JStr commit_id)] now
                (upd_task task_id (\<lambda>t. t \<lparr>tk_commit_id := Some commit_id, tk_request := request, tk_updated := now\<rparr>) d)))"

definition request_has_callback_target :: "json_dict \<Rightarrow> bool" where
  "request_has_callback_target request \<longleftrightarrow>
     truthy (dget request ''callback_url'')
   \<or> truthy (dget request ''ci_task_id'') \<and> truthy (dget request ''ci_record_id'')"

text \<open>\<open>update_task_outcome\<close>: the row written, and the callback state the request asks for.\<close>

definition outcome_callback :: "string \<Rightarrow> db \<Rightarrow> callback_state" where
  "outcome_callback task_id d =
     (if request_has_callback_target (case get_task task_id d of None \<Rightarrow> [] | Some t \<Rightarrow> tk_request t)
      then CB_Retrying else CB_Skipped)"

definition outcome_row ::
  "task_status \<Rightarrow> string \<Rightarrow> string option \<Rightarrow> string option \<Rightarrow> callback_state \<Rightarrow> instant \<Rightarrow> cr_task \<Rightarrow> cr_task" where
  "outcome_row status gate_status report_url err cb now t = t
     \<lparr>tk_status := status, tk_gate := Some gate_status, tk_report_url := coalesce report_url (tk_report_url t),
      tk_error := err, tk_cb_state := Some cb, tk_cb_attempts := 0,
      tk_cb_next := (if cb = CB_Retrying then Some now else None), tk_cb_error := None,
      tk_finished := Some now, tk_updated := now\<rparr>"

definition update_task_outcome ::
  "string \<Rightarrow> task_status \<Rightarrow> string \<Rightarrow> string option \<Rightarrow> string option \<Rightarrow> instant \<Rightarrow> db \<Rightarrow> db py_result" where
  "update_task_outcome task_id status gate_status report_url err now d =
     (let cb = outcome_callback task_id d;
          d1 = upd_task task_id (outcome_row status gate_status report_url err cb now) d
      in bind_r (insert_event (Some task_id) ''task_terminal'' (if status = TFailed then ''error'' else ''info'')
                   (Some ''finalize_task'') (task_status_text status @ ''/'' @ gate_status) [] now d1) (\<lambda>d2.
           if cb = CB_Skipped then
             insert_event (Some task_id) ''callback_skipped'' ''info'' (Some ''callback'')
               ''no callback target configured'' [] now d2
           else Inr d2))"

text \<open>\<open>claim_next_task\<close>: the queued task that is due, of the highest priority, the oldest first.\<close>

definition claimable :: "instant \<Rightarrow> cr_task \<Rightarrow> bool" where
  "claimable now t \<longleftrightarrow> tk_status t = TQueued \<and> (case tk_not_before t of None \<Rightarrow> True | Some b \<Rightarrow> b \<le> now)"

definition claim_order :: "cr_task \<Rightarrow> int \<times> instant" where
  "claim_order t = (- tk_priority t, tk_created t)"

definition claim_row :: "string \<Rightarrow> int \<Rightarrow> instant \<Rightarrow> cr_task \<Rightarrow> cr_task" where
  "claim_row daemon_id lease_seconds now t = t
     \<lparr>tk_status := TRunning, tk_claimed_by := Some daemon_id, tk_lease := Some (now + lease_seconds),
      tk_heartbeat := Some now, tk_started := coalesce (tk_started t) (Some now),
      tk_attempts := tk_attempts t + 1, tk_updated := now\<rparr>"

definition claim_next_task ::
  "string \<Rightarrow> int \<Rightarrow> instant \<Rightarrow> db \<Rightarrow> (cr_task option \<times> db) py_result" where
  "claim_next_task daemon_id lease_seconds now d =
     (case first_by claim_order (filter (claimable now) (db_tasks d)) of
        None \<Rightarrow> Inr (None, d)
      | Some row \<Rightarrow>
          bind_r (insert_event (Some (tk_id row)) ''task_claimed'' ''info'' (Some ''running'')
                    (''Claimed by '' @ daemon_id) [] now
                    (d \<lparr>db_tasks := upd_where (\<lambda>t. tk_id t = tk_id row \<and> tk_status t = TQueued)
                          (claim_row daemon_id lease_seconds now) (db_tasks d)\<rparr>)) (\<lambda>d'.
            Inr (get_task (tk_id row) d', d')))"

section \<open>Plans and runs\<close>

definition create_reviewer_plan ::
  "string \<Rightarrow> string \<Rightarrow> string \<Rightarrow> bool \<Rightarrow> string option \<Rightarrow> string option \<Rightarrow> instant \<Rightarrow> db \<Rightarrow> db py_result" where
  "create_reviewer_plan task_id workflow_run_id reviewer required risk_tier reason now d =
     (let p = \<lparr>rp_task = task_id, rp_workflow = workflow_run_id, rp_reviewer = reviewer, rp_required = required,
               rp_tier = risk_tier, rp_reason = reason, rp_created = now\<rparr>
      in if plan_key p \<in> plan_key ` set (db_plans d) then
           Inr (d \<lparr>db_plans := upd_where (\<lambda>q. plan_key q = plan_key p)
             (\<lambda>q. q \<lparr>rp_required := required, rp_tier := risk_tier, rp_reason := reason\<rparr>) (db_plans d)\<rparr>)
         else if \<not> task_known d task_id then Inl foreign_key_error
         else Inr (d \<lparr>db_plans := db_plans d @ [p]\<rparr>))"

definition create_reviewer_run ::
  "string \<Rightarrow> string \<Rightarrow> string \<Rightarrow> int \<Rightarrow> run_status \<Rightarrow> string option \<Rightarrow> string option \<Rightarrow> string option
     \<Rightarrow> string option \<Rightarrow> string option \<Rightarrow> int option \<Rightarrow> usage option \<Rightarrow> instant \<Rightarrow> db \<Rightarrow> (nat \<times> db) py_result" where
  "create_reviewer_run task_id reviewer workflow_run_id attempt status session_id model_id raw_log_path
     output_path err duration tokens_used now d =
     (let r = \<lparr>rr_id = Suc (db_run_seq d), rr_task = task_id, rr_reviewer = reviewer,
               rr_workflow = workflow_run_id, rr_attempt = attempt, rr_status = status, rr_session = session_id,
               rr_model = model_id, rr_raw_log = raw_log_path, rr_output = output_path, rr_error = err,
               rr_duration = duration, rr_usage = (case tokens_used of None \<Rightarrow> usage_zero | Some u \<Rightarrow> u),
               rr_created = now, rr_updated = now,
               rr_started = (if status \<noteq> RQueued then Some now else None),
               rr_finished = (if final_run status then Some now else None)\<rparr>
      in if run_key r \<in> run_key ` set (db_runs d) then
           Inl (IntegrityError ''UNIQUE constraint failed: reviewer_runs'')
         else if \<not> task_known d task_id then Inl foreign_key_error
         else Inr (rr_id r, d \<lparr>db_runs := db_runs d @ [r], db_run_seq := rr_id r\<rparr>))"

text \<open>The upsert hands out a new identifier before it meets the conflict: the row that is there keeps its
  own, and the sequence moves on all the same.\<close>

definition start_reviewer_run ::
  "string \<Rightarrow> string \<Rightarrow> string \<Rightarrow> int \<Rightarrow> string option \<Rightarrow> instant \<Rightarrow> db \<Rightarrow> (nat \<times> db) py_result" where
  "start_reviewer_run task_id reviewer workflow_run_id attempt model_id now d =
     (let key = (task_id, reviewer, workflow_run_id, attempt)
      in case find (\<lambda>r. run_key r = key) (db_runs d) of
           Some row \<Rightarrow>
             Inr (rr_id row, d \<lparr>db_runs := upd_where (\<lambda>r. run_key r = key)
               (\<lambda>r. r \<lparr>rr_status := RRunning, rr_error := None, rr_model := coalesce model_id (rr_model r),
                      rr_updated := now, rr_started := coalesce (rr_started r) (Some now), rr_finished := None\<rparr>)
               (db_runs d), db_run_seq := Suc (db_run_seq d)\<rparr>)
         | None \<Rightarrow>
             if \<not> task_known d task_id then Inl foreign_key_error
             else (let i = Suc (db_run_seq d)
                   in Inr (i, d \<lparr>db_runs := db_runs d @
                        [\<lparr>rr_id = i, rr_task = task_id, rr_reviewer = reviewer, rr_workflow = workflow_run_id,
                          rr_attempt = attempt, rr_status = RRunning, rr_session = None, rr_model = model_id,
                          rr_raw_log = None, rr_output = None, rr_error = None, rr_duration = None,
                          rr_usage = usage_zero, rr_created = now, rr_updated = now, rr_started = Some now,
                          rr_finished = None\<rparr>], db_run_seq := i\<rparr>)))"

definition finish_reviewer_run ::
  "nat \<Rightarrow> run_status \<Rightarrow> string option \<Rightarrow> string option \<Rightarrow> string option \<Rightarrow> string option \<Rightarrow> string option
     \<Rightarrow> usage option \<Rightarrow> instant \<Rightarrow> db \<Rightarrow> db" where
  "finish_reviewer_run run_id status session_id raw_log_path output_path err model_id tokens_used now d =
     d \<lparr>db_runs := upd_where (\<lambda>r. rr_id r = run_id)
       (\<lambda>r. r \<lparr>rr_status := status, rr_session := session_id, rr_raw_log := raw_log_path, rr_output := output_path,
              rr_error := err, rr_model := coalesce model_id (rr_model r),
              rr_duration := map_option (\<lambda>s. now - s) (rr_started r),
              rr_usage := (case tokens_used of None \<Rightarrow> usage_zero | Some u \<Rightarrow> u),
              rr_updated := now, rr_finished := Some now\<rparr>) (db_runs d)\<rparr>"

text \<open>\<open>ORDER BY reviewer ASC, workflow_run_id DESC, attempt DESC\<close>, then the first row of each reviewer.
  \<open>newer\<close> compares the last two columns.\<close>

definition newer_run :: "reviewer_run \<Rightarrow> reviewer_run \<Rightarrow> bool" where
  "newer_run a b \<longleftrightarrow> (rr_workflow b, rr_attempt b) \<le> (rr_workflow a, rr_attempt a)"

fun best_run :: "reviewer_run list \<Rightarrow> reviewer_run option" where
  "best_run [] = None"
| "best_run (r # rs) =
     (case best_run rs of None \<Rightarrow> Some r | Some b \<Rightarrow> if newer_run r b then Some r else Some b)"

definition current_successful_reviewer_runs :: "string \<Rightarrow> db \<Rightarrow> reviewer_run list" where
  "current_successful_reviewer_runs task_id d =
     (let rows = filter (\<lambda>r. rr_task r = task_id \<and> rr_status r = RSuccess) (db_runs d)
      in concat (map (\<lambda>name. opt_list (best_run (filter (\<lambda>r. rr_reviewer r = name) rows)))
           (sort (remdups (map rr_reviewer rows)))))"

section \<open>Findings\<close>

definition create_finding ::
  "string \<Rightarrow> nat option \<Rightarrow> string \<Rightarrow> int option \<Rightarrow> string \<Rightarrow> string \<Rightarrow> string \<Rightarrow> string option \<Rightarrow> string
     \<Rightarrow> instant \<Rightarrow> db \<Rightarrow> db py_result" where
  "create_finding task_id reviewer_run_id file_path line severity title detail suggestion finding_id now d =
     bind_r (normalize_severity severity) (\<lambda>normalized.
       if finding_id \<in> fn_id ` set (db_findings d) then
         Inl (IntegrityError ''UNIQUE constraint failed: findings.finding_id'')
       else if \<not> task_known d task_id \<or> \<not> run_ref_ok d reviewer_run_id then Inl foreign_key_error
       else Inr (d
         \<lparr>db_findings := db_findings d @
            [\<lparr>fn_id = finding_id, fn_task = task_id, fn_run = reviewer_run_id, fn_file = file_path, fn_line = line,
              fn_severity = normalized, fn_title = title, fn_detail = detail, fn_suggestion = suggestion,
              fn_status = ''open'', fn_created = now, fn_updated = now\<rparr>],
          db_finding_events := db_finding_events d @
            [\<lparr>fe_finding = finding_id, fe_task = task_id, fe_type = ''finding_created'', fe_actor = None,
              fe_message = None, fe_payload = [(''severity'', JStr (severity_text normalized))], fe_created = now\<rparr>]\<rparr>))"

definition get_finding :: "string \<Rightarrow> string \<Rightarrow> db \<Rightarrow> finding option" where
  "get_finding task_id finding_id d = find (\<lambda>f. fn_task f = task_id \<and> fn_id f = finding_id) (db_findings d)"

text \<open>The finding with the reviewer and session of its run, when it has one.\<close>

definition get_finding_with_reviewer ::
  "string \<Rightarrow> string \<Rightarrow> db \<Rightarrow> (finding \<times> string option \<times> string option) option" where
  "get_finding_with_reviewer task_id finding_id d =
     map_option (\<lambda>f.
       (let run = (case fn_run f of None \<Rightarrow> None | Some i \<Rightarrow> find (\<lambda>r. rr_id r = i) (db_runs d))
        in (f, map_option rr_reviewer run, (case run of None \<Rightarrow> None | Some r \<Rightarrow> rr_session r))))
       (get_finding task_id finding_id d)"

definition update_finding_status ::
  "string \<Rightarrow> string \<Rightarrow> string \<Rightarrow> string option \<Rightarrow> string option \<Rightarrow> instant \<Rightarrow> db \<Rightarrow> db py_result" where
  "update_finding_status task_id finding_id status actor msg now d =
     (let hit = (\<lambda>f. fn_id f = finding_id \<and> fn_task f = task_id)
      in if count_where hit (db_findings d) \<noteq> 1 then
           Inl (ValueError (''finding not found for task: '' @ finding_id))
         else Inr (d
           \<lparr>db_findings := upd_where hit (\<lambda>f. f \<lparr>fn_status := status, fn_updated := now\<rparr>) (db_findings d),
            db_finding_events := db_finding_events d @
              [\<lparr>fe_finding = finding_id, fe_task = task_id, fe_type = ''finding_status_changed'', fe_actor = actor,
                fe_message = msg, fe_payload = [], fe_created = now\<rparr>]\<rparr>))"

definition open_findings_count :: "string \<Rightarrow> db \<Rightarrow> nat" where
  "open_findings_count task_id d =
     count_where (\<lambda>f. fn_task f = task_id \<and> fn_status f = ''open'') (db_findings d)"

section \<open>Controls\<close>

definition request_task_control ::
  "string \<Rightarrow> control_action \<Rightarrow> string option \<Rightarrow> instant \<Rightarrow> db \<Rightarrow> db py_result" where
  "request_task_control task_id action reason now d =
     (if \<not> task_known d task_id then Inl foreign_key_error
      else Inr (d \<lparr>db_controls := db_controls d @
        [\<lparr>tc_task = task_id, tc_action = action, tc_reason = reason, tc_requested = now, tc_ack = None\<rparr>]\<rparr>))"

text \<open>A stop and a cancellation are two transactions each: the request first, by \<open>_request_task_control\<close>,
  then the second one, before which other processes may move. Each half is a definition (and a step of
  the storage) of its own; the operation runs them one after the other.\<close>

definition stop_transaction :: "string \<Rightarrow> string option \<Rightarrow> instant \<Rightarrow> db \<Rightarrow> db py_result" where
  "stop_transaction task_id reason now =
     insert_event (Some task_id) ''task_stop_requested'' ''warn'' (Some ''control'')
       (text_or reason ''stop requested'') [] now"

definition request_task_stop :: "string \<Rightarrow> string option \<Rightarrow> instant \<Rightarrow> db \<Rightarrow> db py_result" where
  "request_task_stop task_id reason now d =
     bind_r (request_task_control task_id Stop_Task reason now d) (stop_transaction task_id reason now)"

text \<open>Statements shared by cancelling, stopping and requeueing: the task row released, its unfinished
  runs ended, its controls acknowledged.\<close>

definition cancel_row :: "string \<Rightarrow> string \<Rightarrow> instant \<Rightarrow> cr_task \<Rightarrow> cr_task" where
  "cancel_row gate msg now t = t
     \<lparr>tk_status := TCancelled, tk_gate := Some gate, tk_claimed_by := None, tk_lease := None,
      tk_error := Some msg, tk_finished := coalesce (tk_finished t) (Some now), tk_updated := now\<rparr>"

definition end_runs :: "string \<Rightarrow> string \<Rightarrow> instant \<Rightarrow> db \<Rightarrow> db" where
  "end_runs task_id msg now d = d
     \<lparr>db_runs := upd_where (\<lambda>r. rr_task r = task_id \<and> (rr_status r = RQueued \<or> rr_status r = RRunning))
       (\<lambda>r. r \<lparr>rr_status := RCancelled, rr_error := coalesce (rr_error r) (Some msg),
              rr_finished := coalesce (rr_finished r) (Some now), rr_updated := now\<rparr>) (db_runs d)\<rparr>"

definition ack_controls :: "(task_control \<Rightarrow> bool) \<Rightarrow> instant \<Rightarrow> db \<Rightarrow> db" where
  "ack_controls p now d = d
     \<lparr>db_controls := upd_where p (\<lambda>c. c \<lparr>tc_ack := coalesce (tc_ack c) (Some now)\<rparr>) (db_controls d)\<rparr>"

definition cancel_transaction :: "string \<Rightarrow> string option \<Rightarrow> instant \<Rightarrow> db \<Rightarrow> db py_result" where
  "cancel_transaction task_id reason now d =
     (let msg = text_or reason ''cancelled by operator'';
          d1 = upd_task task_id (cancel_row ''cancelled'' msg now) d;
          d2 = end_runs task_id msg now d1;
          d3 = ack_controls (\<lambda>c. tc_task c = task_id) now d2
      in insert_event (Some task_id) ''task_cancelled'' ''warn'' (Some ''cancel'') msg [] now d3)"

definition cancel_task :: "string \<Rightarrow> string option \<Rightarrow> instant \<Rightarrow> db \<Rightarrow> db py_result" where
  "cancel_task task_id reason now d =
     bind_r (request_task_control task_id Cancel_Task reason now d) (cancel_transaction task_id reason now)"

definition requeue_row :: "instant \<Rightarrow> cr_task \<Rightarrow> cr_task" where
  "requeue_row now t = t
     \<lparr>tk_status := TQueued, tk_gate := None, tk_claimed_by := None, tk_lease := None, tk_finished := None,
      tk_error := None, tk_updated := now, tk_queued_at := coalesce (tk_queued_at t) (Some now)\<rparr>"

definition requeue_task :: "string \<Rightarrow> string option \<Rightarrow> instant \<Rightarrow> db \<Rightarrow> db py_result" where
  "requeue_task task_id reason now d =
     (let msg = text_or reason ''requeued by operator'';
          d1 = upd_task task_id (requeue_row now) d;
          d2 = d1 \<lparr>db_runs := upd_where (\<lambda>r. rr_task r = task_id \<and> rr_status r \<noteq> RSuccess)
            (\<lambda>r. r \<lparr>rr_status := RQueued, rr_session := None, rr_raw_log := None, rr_output := None, rr_error := None,
                   rr_duration := None, rr_usage := usage_zero, rr_started := None, rr_finished := None,
                   rr_updated := now\<rparr>) (db_runs d1)\<rparr>;
          d3 = ack_controls (\<lambda>c. tc_task c = task_id) now d2
      in insert_event (Some task_id) ''task_requeued'' ''warn'' (Some ''queued'') msg [] now d3)"

definition mark_task_stopped :: "string \<Rightarrow> string option \<Rightarrow> instant \<Rightarrow> db \<Rightarrow> db py_result" where
  "mark_task_stopped task_id reason now d =
     (let msg = text_or reason ''task stopped'';
          d1 = upd_task task_id (cancel_row ''stopped'' msg now) d;
          d2 = end_runs task_id msg now d1;
          d3 = ack_controls (\<lambda>c. tc_task c = task_id \<and> tc_action c = Stop_Task) now d2
      in insert_event (Some task_id) ''task_stopped'' ''warn'' (Some ''stopped'') msg [] now d3)"

definition action_text :: "control_action \<Rightarrow> string" where
  "action_text a = (case a of Stop_Task \<Rightarrow> ''stop'' | Cancel_Task \<Rightarrow> ''cancel'')"

text \<open>The latest request that nobody has acknowledged.\<close>

definition check_task_control :: "string \<Rightarrow> db \<Rightarrow> (control_action \<times> string) option" where
  "check_task_control task_id d =
     map_option (\<lambda>c. (tc_action c, text_or (tc_reason c) (action_text (tc_action c) @ '' requested'')))
       (find (\<lambda>c. tc_task c = task_id \<and> tc_ack c = None) (rev (db_controls d)))"

section \<open>Heartbeats and feedback sessions\<close>

definition upsert_heartbeat ::
  "string \<Rightarrow> string option \<Rightarrow> string \<Rightarrow> string option \<Rightarrow> int option \<Rightarrow> string option \<Rightarrow> string option
     \<Rightarrow> instant \<Rightarrow> db \<Rightarrow> db py_result" where
  "upsert_heartbeat runner_id task_id status msg pid hostname config_hash now d =
     (if \<not> task_ref_ok d task_id then Inl foreign_key_error
      else if runner_id \<in> hb_runner ` set (db_heartbeats d) then
        Inr (d \<lparr>db_heartbeats := upd_where (\<lambda>h. hb_runner h = runner_id)
          (\<lambda>h. h \<lparr>hb_task := task_id, hb_pid := pid, hb_host := hostname, hb_status := status, hb_message := msg,
                 hb_at := Some now, hb_config_hash := config_hash, hb_updated := now\<rparr>) (db_heartbeats d)\<rparr>)
      else Inr (d \<lparr>db_heartbeats := db_heartbeats d @
        [\<lparr>hb_runner = runner_id, hb_task = task_id, hb_pid = pid, hb_host = hostname, hb_status = status,
          hb_message = msg, hb_started = Some now, hb_at = Some now, hb_config_hash = config_hash,
          hb_created = now, hb_updated = now\<rparr>]\<rparr>))"

definition create_feedback_session ::
  "string \<Rightarrow> string option \<Rightarrow> string \<Rightarrow> string option \<Rightarrow> nat option \<Rightarrow> string option \<Rightarrow> string option
     \<Rightarrow> usage option \<Rightarrow> string \<Rightarrow> instant \<Rightarrow> db \<Rightarrow> db py_result" where
  "create_feedback_session task_id finding_id status opencode parent_run feedback_text model_reply tokens_used
     feedback_session_id now d =
     (if feedback_session_id \<in> fb_id ` set (db_feedback d) then
        Inl (IntegrityError ''UNIQUE constraint failed: feedback_sessions.feedback_session_id'')
      else if \<not> task_known d task_id \<or> \<not> finding_ref_ok d finding_id \<or> \<not> run_ref_ok d parent_run then
        Inl foreign_key_error
      else Inr (d \<lparr>db_feedback := db_feedback d @
        [\<lparr>fb_id = feedback_session_id, fb_task = task_id, fb_finding = finding_id, fb_parent_run = parent_run,
          fb_opencode = opencode, fb_text = feedback_text, fb_reply = model_reply, fb_status = status,
          fb_usage = (case tokens_used of None \<Rightarrow> usage_zero | Some u \<Rightarrow> u), fb_created = now, fb_updated = now\<rparr>]\<rparr>))"

definition finish_feedback_session ::
  "string \<Rightarrow> string \<Rightarrow> string option \<Rightarrow> string option \<Rightarrow> usage option \<Rightarrow> instant \<Rightarrow> db \<Rightarrow> db" where
  "finish_feedback_session feedback_session_id status opencode model_reply tokens_used now d =
     d \<lparr>db_feedback := upd_where (\<lambda>s. fb_id s = feedback_session_id)
       (\<lambda>s. s \<lparr>fb_status := status, fb_opencode := opencode, fb_reply := model_reply,
              fb_usage := (case tokens_used of None \<Rightarrow> usage_zero | Some u \<Rightarrow> u), fb_updated := now\<rparr>) (db_feedback d)\<rparr>"

section \<open>Callbacks, recovery, totals\<close>

definition set_callback_state ::
  "string \<Rightarrow> callback_state \<Rightarrow> nat \<Rightarrow> instant option \<Rightarrow> string option \<Rightarrow> string option \<Rightarrow> json list option
     \<Rightarrow> instant \<Rightarrow> db \<Rightarrow> db" where
  "set_callback_state task_id state attempts next_retry_at last_error payload_digest history now d =
     upd_task task_id (\<lambda>t. t
       \<lparr>tk_cb_state := Some state, tk_cb_attempts := attempts, tk_cb_next := next_retry_at,
        tk_cb_error := last_error, tk_cb_digest := coalesce payload_digest (tk_cb_digest t),
        tk_cb_history := (case history of None \<Rightarrow> tk_cb_history t | Some h \<Rightarrow> h), tk_updated := now\<rparr>) d"

definition stale :: "instant \<Rightarrow> cr_task \<Rightarrow> bool" where
  "stale now t \<longleftrightarrow> tk_status t = TRunning \<and> (case tk_lease t of None \<Rightarrow> False | Some l \<Rightarrow> l < now)"

definition exhausted_row :: "instant \<Rightarrow> cr_task \<Rightarrow> cr_task" where
  "exhausted_row now t = t
     \<lparr>tk_status := TFailed, tk_gate := Some ''incomplete'', tk_claimed_by := None, tk_lease := None,
      tk_error := Some ''stale task retry budget exhausted'', tk_updated := now\<rparr>"

definition released_row :: "instant \<Rightarrow> cr_task \<Rightarrow> cr_task" where
  "released_row now t = t \<lparr>tk_status := TQueued, tk_claimed_by := None, tk_lease := None, tk_updated := now\<rparr>"

definition recover_row :: "nat \<Rightarrow> instant \<Rightarrow> string list \<times> db \<Rightarrow> cr_task \<Rightarrow> (string list \<times> db) py_result" where
  "recover_row max_attempts now acc row =
     (let (recovered, d) = acc;
          spent = tk_attempts row \<ge> max_attempts;
          d1 = upd_task (tk_id row) (if spent then exhausted_row now else released_row now) d
      in bind_r (insert_event (Some (tk_id row)) ''task_recovered'' ''warn'' (Some ''recover_stale'')
                   ''stale running task recovered'' [] now d1)
           (\<lambda>d2. Inr (if spent then recovered else recovered @ [tk_id row], d2)))"

definition recover_stale_running_tasks :: "nat \<Rightarrow> instant \<Rightarrow> db \<Rightarrow> (string list \<times> db) py_result" where
  "recover_stale_running_tasks max_attempts now d =
     fold_r (recover_row max_attempts now) ([], d) (sort_key tk_updated (filter (stale now) (db_tasks d)))"

definition callback_due :: "instant \<Rightarrow> cr_task \<Rightarrow> bool" where
  "callback_due now t \<longleftrightarrow>
     tk_cb_state t = Some CB_Retrying \<and> (case tk_cb_next t of None \<Rightarrow> True | Some b \<Rightarrow> b \<le> now)"

definition due_callback_tasks :: "nat \<Rightarrow> instant \<Rightarrow> db \<Rightarrow> string list" where
  "due_callback_tasks limit now d =
     map tk_id (take limit (sort_key (\<lambda>t. (tk_cb_next t, tk_updated t)) (filter (callback_due now) (db_tasks d))))"

definition task_counts :: "db \<Rightarrow> (task_status \<times> nat) list" where
  "task_counts d =
     map (\<lambda>s. (s, count_where (\<lambda>t. tk_status t = s) (db_tasks d))) (remdups (map tk_status (db_tasks d)))"

definition latest_heartbeats :: "nat \<Rightarrow> db \<Rightarrow> heartbeat list" where
  "latest_heartbeats limit d = take limit (sort_key (\<lambda>h. - hb_updated h) (db_heartbeats d))"

definition active_tasks :: "nat \<Rightarrow> db \<Rightarrow> cr_task list" where
  "active_tasks limit d =
     take limit (sort_key (\<lambda>t. (- tk_priority t, tk_updated t))
       (filter (\<lambda>t. tk_status t = TQueued \<or> tk_status t = TRunning) (db_tasks d)))"

definition aggregate_task_usage :: "string \<Rightarrow> db \<Rightarrow> usage" where
  "aggregate_task_usage task_id d =
     foldl usage_plus usage_zero
       (map rr_usage (filter (\<lambda>r. rr_task r = task_id) (db_runs d)) @
        map fb_usage (filter (\<lambda>s. fb_task s = task_id) (db_feedback d)))"

end
