(* ===== verification/Storage_Invariant.thy ===== *)
theory Storage_Invariant
  imports Review_Storage Interfaces
begin

text \<open>
  The invariant of the review database. Every operation of \<open>ReviewDB\<close> keeps \<open>db_ok\<close>; the steps of the
  running system are an inductive relation, interpreted as a \<open>step_system\<close>, so every reachable database
  has unique keys, no dangling reference, and task rows whose claim agrees with their status.
\<close>

section \<open>Rows\<close>

lemma task_ok_new [simp]: "task_ok (new_task i a r b c p q now)"
  by (simp add: task_ok_def new_task_def)

lemma tk_id_new [simp]: "tk_id (new_task i a r b c p q now) = i"
  by (simp add: new_task_def)

lemma coalesce_Some_r [simp]: "coalesce x (Some y) \<noteq> None"
  by (cases x) simp_all

lemma task_ok_claim [simp]: "task_ok (claim_row w l now t)"
  by (simp add: task_ok_def claim_row_def)

lemma task_ok_terminal: "terminal_status (tk_status t) \<Longrightarrow> task_ok t"
  by (auto simp: task_ok_def)

lemma task_ok_cancel [simp]: "task_ok (cancel_row g m now t)"
  by (rule task_ok_terminal) (simp add: cancel_row_def)

lemma task_ok_requeue [simp]: "task_ok (requeue_row now t)"
  by (simp add: task_ok_def requeue_row_def)

lemma task_ok_exhausted [simp]: "task_ok (exhausted_row now t)"
  by (rule task_ok_terminal) (simp add: exhausted_row_def)

lemma task_ok_released [simp]: "task_ok (released_row now t)"
  by (simp add: task_ok_def released_row_def)

lemma row_ids [simp]:
  "tk_id (claim_row w l now t) = tk_id t" "tk_id (cancel_row g m now t) = tk_id t"
  "tk_id (requeue_row now t) = tk_id t" "tk_id (exhausted_row now t) = tk_id t"
  "tk_id (released_row now t) = tk_id t" "tk_id (outcome_row s g u e cb now t) = tk_id t"
  by (simp_all add: outcome_row_def claim_row_def cancel_row_def requeue_row_def exhausted_row_def released_row_def)

lemma ok_upd_task:
  assumes "db_ok d" and "\<And>t. tk_id (f t) = tk_id t" and "\<And>t. task_ok t \<Longrightarrow> task_ok (f t)"
  shows "db_ok (upd_task i f d)"
  unfolding upd_task_def by (rule ok_upd_tasks) (use assms in auto)

section \<open>Each operation\<close>

lemma create_task_ok:
  assumes "create_task i a r b c p q now d = Inr d'" and "db_ok d"
  shows "db_ok d'"
  using assms insert_event_ok [OF _ ok_add_task]
  by (auto simp: create_task_def split: if_split_asm)

lemma update_task_commit_id_ok:
  assumes "update_task_commit_id i c now d = Inr d'" and "db_ok d"
  shows "db_ok d'"
  using assms insert_event_ok [OF _ ok_upd_task]
  by (auto simp: update_task_commit_id_def Let_def task_ok_def split: option.splits)

lemma update_task_outcome_ok:
  assumes "update_task_outcome i s g u e now d = Inr d'" and "terminal_status s" and "db_ok d"
  shows "db_ok d'"
proof -
  have "db_ok (upd_task i (outcome_row s g u e cb now) d)" for cb
    using assms(2,3) by (intro ok_upd_task) (auto simp: outcome_row_def intro!: task_ok_terminal)
  then show ?thesis
    using assms(1) by (auto simp: update_task_outcome_def Let_def bind_r_Inr split: if_split_asm elim!: insert_event_ok)
qed

lemma claim_next_task_ok:
  assumes "claim_next_task w l now d = Inr (r, d')" and "db_ok d"
  shows "db_ok d'"
proof -
  have "db_ok (d \<lparr>db_tasks := upd_where p (claim_row w l now) (db_tasks d)\<rparr>)" for p
    using assms(2) by (intro ok_upd_tasks) auto
  then show ?thesis
    using assms by (auto simp: claim_next_task_def bind_r_Inr split: option.splits intro: insert_event_ok)
qed

lemma create_reviewer_plan_ok:
  assumes "create_reviewer_plan i w r q tr rs now d = Inr d'" and "db_ok d"
  shows "db_ok d'"
proof -
  let ?f = "\<lambda>p. p \<lparr>rp_required := q, rp_tier := tr, rp_reason := rs\<rparr>"
  have "map plan_key (upd_where c ?f ps) = map plan_key ps" for c ps
    by (rule map_upd_where) (simp add: plan_key_def)
  then have "db_ok (d \<lparr>db_plans := upd_where c ?f (db_plans d)\<rparr>)" for c
    using assms(2) by (intro ok_set_plans ball_upd_where) (auto simp: db_ok_defs)
  moreover have "db_ok (d \<lparr>db_plans := db_plans d @ [p]\<rparr>)"
    if "plan_key p \<notin> plan_key ` set (db_plans d)" "task_known d (rp_task p)" for p
    using assms(2) that by (intro ok_set_plans) (auto simp: db_ok_defs)
  ultimately show ?thesis
    using assms(1) by (auto simp: create_reviewer_plan_def Let_def split: if_split_asm)
qed

lemma create_reviewer_run_ok:
  assumes "create_reviewer_run i r w a s se m l out e du us now d = Inr (n, d')" and "db_ok d"
  shows "db_ok d'"
  using assms
  by (auto simp: create_reviewer_run_def Let_def run_ok_def split: if_split_asm intro!: ok_add_run)

lemma start_reviewer_run_ok:
  assumes "start_reviewer_run i r w a m now d = Inr (n, d')" and "db_ok d"
  shows "db_ok d'"
proof (cases "find (\<lambda>x. run_key x = (i, r, w, a)) (db_runs d)")
  case None
  then have "(i, r, w, a) \<notin> run_key ` set (db_runs d)"
    by (auto simp: find_None_key)
  with None assms show ?thesis
    by (auto simp: start_reviewer_run_def Let_def split: if_split_asm
        intro!: ok_add_run) (auto simp: run_key_def run_ok_def)
next
  case (Some row)
  with assms show ?thesis
    by (auto simp: start_reviewer_run_def Let_def run_key_def run_ok_def ok_next_seq
        intro!: ok_next_seq [OF ok_upd_runs, simplified])
qed

lemma finish_reviewer_run_ok:
  assumes "final_run s" and "db_ok d"
  shows "db_ok (finish_reviewer_run n s se l out e m us now d)"
  using assms by (auto simp: finish_reviewer_run_def run_key_def run_ok_def intro!: ok_upd_runs)

lemma create_finding_ok:
  assumes "create_finding i rn f lno s t dt sg fid now d = Inr d'" and "db_ok d"
  shows "db_ok d'"
proof -
  from assms(1) obtain fd ev where d': "d' = (d \<lparr>db_findings := db_findings d @ [fd]\<rparr>)
      \<lparr>db_finding_events := db_finding_events (d \<lparr>db_findings := db_findings d @ [fd]\<rparr>) @ [ev]\<rparr>"
    "fn_id fd = fid" "fid \<notin> fn_id ` set (db_findings d)" "fn_task fd = i" "task_known d i"
    "fn_run fd = rn" "run_ref_ok d rn" "fe_task ev = i" "fe_finding ev = fid"
    by (auto simp: create_finding_def bind_r_Inr split: if_split_asm)
  have "db_ok (d \<lparr>db_findings := db_findings d @ [fd]\<rparr>)"
    using assms(2) d' by (intro ok_add_finding) simp_all
  then show ?thesis
    unfolding d'(1) by (rule ok_add_finding_event) (simp_all add: d')
qed

lemma update_finding_status_ok:
  assumes "update_finding_status i fid s ac m now d = Inr d'" and "db_ok d"
  shows "db_ok d'"
proof -
  let ?hit = "\<lambda>f. fn_id f = fid \<and> fn_task f = i"
  let ?f = "\<lambda>f. f \<lparr>fn_status := s, fn_updated := now\<rparr>"
  let ?d = "d \<lparr>db_findings := upd_where ?hit ?f (db_findings d)\<rparr>"
  from assms(1) obtain ev where d': "d' = ?d \<lparr>db_finding_events := db_finding_events ?d @ [ev]\<rparr>"
    "fe_task ev = i" "fe_finding ev = fid" "count_where ?hit (db_findings d) = 1"
    by (auto simp: update_finding_status_def Let_def split: if_split_asm)
  then obtain f where f: "f \<in> set (db_findings d)" "fn_id f = fid" "fn_task f = i"
    using count_where_0 [of ?hit "db_findings d"] by auto
  have ids: "map fn_id (db_findings ?d) = map fn_id (db_findings d)"
    by (simp add: map_upd_where)
  have "db_ok ?d"
    using assms(2) by (intro ok_set_findings ball_upd_where) (auto simp: db_ok_defs map_upd_where)
  moreover have "fid \<in> fn_id ` set (db_findings ?d)"
    using f ids by (metis image_eqI set_map)
  moreover have "task_known ?d i"
    using f assms(2) by (auto simp: db_ok_defs)
  ultimately show ?thesis
    unfolding d'(1) by (intro ok_add_finding_event) (simp_all only: d')
qed

lemma request_task_control_ok:
  "request_task_control i a r now d = Inr d' \<Longrightarrow> db_ok d \<Longrightarrow> db_ok d'"
  by (auto simp: request_task_control_def split: if_split_asm intro!: ok_set_controls)
    (auto simp: db_ok_defs)

lemma stop_transaction_ok: "stop_transaction i r now d = Inr d' \<Longrightarrow> db_ok d \<Longrightarrow> db_ok d'"
  unfolding stop_transaction_def by (rule insert_event_ok)

lemma request_task_stop_ok:
  "request_task_stop i r now d = Inr d' \<Longrightarrow> db_ok d \<Longrightarrow> db_ok d'"
  by (auto simp: request_task_stop_def bind_r_Inr intro: stop_transaction_ok request_task_control_ok)

lemma end_runs_ok: "db_ok d \<Longrightarrow> db_ok (end_runs i m now d)"
  by (auto simp: end_runs_def run_key_def run_ok_def intro!: ok_upd_runs)

lemma ack_controls_ok: "db_ok d \<Longrightarrow> db_ok (ack_controls p now d)"
  unfolding ack_controls_def by (intro ok_set_controls ball_upd_where) (auto simp: db_ok_defs)

lemma cancel_transaction_ok: "cancel_transaction i r now d = Inr d' \<Longrightarrow> db_ok d \<Longrightarrow> db_ok d'"
  by (auto simp: cancel_transaction_def Let_def
      intro!: ack_controls_ok end_runs_ok ok_upd_task elim!: insert_event_ok)

lemma cancel_task_ok: "cancel_task i r now d = Inr d' \<Longrightarrow> db_ok d \<Longrightarrow> db_ok d'"
  by (auto simp: cancel_task_def bind_r_Inr intro: cancel_transaction_ok request_task_control_ok)

lemma mark_task_stopped_ok: "mark_task_stopped i r now d = Inr d' \<Longrightarrow> db_ok d \<Longrightarrow> db_ok d'"
  by (auto simp: mark_task_stopped_def Let_def
      intro!: ack_controls_ok end_runs_ok ok_upd_task elim!: insert_event_ok)

lemma requeue_task_ok:
  assumes "requeue_task i r now d = Inr d'" and "db_ok d"
  shows "db_ok d'"
proof -
  have "db_ok (upd_task i (requeue_row now) d)"
    using assms(2) by (intro ok_upd_task) auto
  then show ?thesis
    using assms(1)
    by (auto simp: requeue_task_def Let_def run_key_def run_ok_def intro!: ack_controls_ok ok_upd_runs elim!: insert_event_ok)
qed

lemma upsert_heartbeat_ok:
  assumes "upsert_heartbeat rn i s m p h c now d = Inr d'" and "db_ok d"
  shows "db_ok d'"
proof (cases "rn \<in> hb_runner ` set (db_heartbeats d)")
  case True
  with assms show ?thesis
    by (auto simp: upsert_heartbeat_def split: if_split_asm intro!: ok_set_heartbeats)
      (auto simp: db_ok_defs map_upd_where set_upd_where)
next
  case False
  with assms show ?thesis
    by (auto simp: upsert_heartbeat_def split: if_split_asm intro!: ok_set_heartbeats)
      (auto simp: db_ok_defs)
qed

lemma create_feedback_session_ok:
  assumes "create_feedback_session i f s o' p t m u fid now d = Inr d'" and "db_ok d"
  shows "db_ok d'"
  using assms
  by (auto simp: create_feedback_session_def split: if_split_asm intro!: ok_set_feedback)
    (auto simp: db_ok_defs)

lemma finish_feedback_session_ok:
  assumes "db_ok d"
  shows "db_ok (finish_feedback_session fid s o' m u now d)"
  unfolding finish_feedback_session_def
  by (intro ok_set_feedback ball_upd_where) (use assms in \<open>auto simp: db_ok_defs map_upd_where\<close>)

lemma set_callback_state_ok: "db_ok d \<Longrightarrow> db_ok (set_callback_state i s a n e g h now d)"
  unfolding set_callback_state_def by (rule ok_upd_task) (auto simp: task_ok_def)

lemma recover_row_ok:
  assumes "recover_row m now (rs, d) t = Inr (rs', d')" and "db_ok d"
  shows "db_ok d'"
proof -
  have "db_ok (upd_task (tk_id t) (if m \<le> tk_attempts t then exhausted_row now else released_row now) d)"
    using assms(2) by (intro ok_upd_task) auto
  then show ?thesis
    using assms(1) by (auto simp: recover_row_def Let_def bind_r_Inr elim!: insert_event_ok)
qed

lemma recover_stale_ok:
  assumes "recover_stale_running_tasks m now d = Inr (rs, d')" and "db_ok d"
  shows "db_ok d'"
  using fold_r_invariant [OF assms(1) [unfolded recover_stale_running_tasks_def], of "\<lambda>(_, d). db_ok d"]
    assms(2) recover_row_ok by (fastforce split: prod.splits)

end
