(* ===== verification/Storage_Lifecycle.thy ===== *)
theory Storage_Lifecycle
  imports Storage_Invariant
begin

text \<open>
  The life cycle of a review task over the operations of \<open>ReviewDB\<close>: the steps the daemon, the
  workflow and the operators can take in any order, what is reachable, and what claiming, recovering,
  stopping, cancelling and requeueing do to a task.
\<close>

section \<open>Steps\<close>

text \<open>Every write of the program, in any order and by any process. Outcomes are terminal statuses and
  runs finish with a final status, as every caller passes them. \<open>budget\<close> is \<open>max_task_attempts\<close>; \<open>operator\<close> says whether
  the operator's command to requeue a task is among the steps.\<close>

inductive db_step :: "nat \<Rightarrow> bool \<Rightarrow> db \<Rightarrow> db \<Rightarrow> bool" for budget :: nat and operator :: bool where
  step_create: "create_task i a r b c p q now d = Inr d' \<Longrightarrow> db_step budget operator d d'"
| step_commit: "update_task_commit_id i c now d = Inr d' \<Longrightarrow> db_step budget operator d d'"
| step_claim: "claim_next_task w l now d = Inr (t, d') \<Longrightarrow> db_step budget operator d d'"
| step_outcome: "update_task_outcome i s g u e now d = Inr d' \<Longrightarrow> terminal_status s \<Longrightarrow> db_step budget operator d d'"
| step_plan: "create_reviewer_plan i w r q tr rs now d = Inr d' \<Longrightarrow> db_step budget operator d d'"
| step_new_run: "create_reviewer_run i r w a s se m l out e du us now d = Inr (n, d') \<Longrightarrow> db_step budget operator d d'"
| step_start_run: "start_reviewer_run i r w a m now d = Inr (n, d') \<Longrightarrow> db_step budget operator d d'"
| step_finish_run: "final_run s \<Longrightarrow> db_step budget operator d (finish_reviewer_run n s se l out e m us now d)"
| step_finding: "create_finding i rn f lno s t dt sg fid now d = Inr d' \<Longrightarrow> db_step budget operator d d'"
| step_finding_status: "update_finding_status i fid s ac m now d = Inr d' \<Longrightarrow> db_step budget operator d d'"
| step_event: "insert_event tk typ sev stage msg payload now d = Inr d' \<Longrightarrow> db_step budget operator d d'"
| step_control: "request_task_control i a r now d = Inr d' \<Longrightarrow> db_step budget operator d d'"
| step_stop: "stop_transaction i r now d = Inr d' \<Longrightarrow> db_step budget operator d d'"
| step_stopped: "mark_task_stopped i r now d = Inr d' \<Longrightarrow> db_step budget operator d d'"
| step_cancel: "cancel_transaction i r now d = Inr d' \<Longrightarrow> db_step budget operator d d'"
| step_requeue: "operator \<Longrightarrow> requeue_task i r now d = Inr d' \<Longrightarrow> db_step budget operator d d'"
| step_heartbeat: "upsert_heartbeat rn tk s m p h c now d = Inr d' \<Longrightarrow> db_step budget operator d d'"
| step_feedback: "create_feedback_session i fd s o' p t m u fid now d = Inr d' \<Longrightarrow> db_step budget operator d d'"
| step_feedback_end: "db_step budget operator d (finish_feedback_session fid s o' m u now d)"
| step_callback: "db_step budget operator d (set_callback_state i st a n e g h now d)"
| step_recover: "recover_stale_running_tasks budget now d = Inr (rs, d') \<Longrightarrow> db_step budget operator d d'"

lemmas storage_ok = create_task_ok update_task_commit_id_ok claim_next_task_ok update_task_outcome_ok
  create_reviewer_plan_ok create_reviewer_run_ok start_reviewer_run_ok create_finding_ok
  update_finding_status_ok insert_event_ok request_task_control_ok stop_transaction_ok mark_task_stopped_ok
  cancel_transaction_ok requeue_task_ok
  upsert_heartbeat_ok create_feedback_session_ok recover_stale_ok

lemmas storage_ok_total = finish_reviewer_run_ok finish_feedback_session_ok set_callback_state_ok

lemma db_step_ok: "db_step budget operator d d' \<Longrightarrow> db_ok d \<Longrightarrow> db_ok d'"
  by (erule db_step.cases) (blast dest: storage_ok intro: storage_ok_total)+

interpretation store: step_system "\<lambda>d. d = empty_db" "db_step budget operator" db_ok
  by unfold_locales (auto simp: db_ok_empty db_step_ok)

text \<open>A stop and a cancellation are two steps each, with room for others in between.\<close>

lemma stop_steps:
  assumes "request_task_stop i r now d = Inr d'"
  shows "(db_step budget operator)\<^sup>*\<^sup>* d d'"
proof -
  from assms obtain d1 where "request_task_control i Stop_Task r now d = Inr d1" "stop_transaction i r now d1 = Inr d'"
    by (auto simp: request_task_stop_def bind_r_Inr)
  then show ?thesis
    by (blast intro: step_control step_stop converse_rtranclp_into_rtranclp)
qed

lemma cancel_steps:
  assumes "cancel_task i r now d = Inr d'"
  shows "(db_step budget operator)\<^sup>*\<^sup>* d d'"
proof -
  from assms obtain d1 where "request_task_control i Cancel_Task r now d = Inr d1" "cancel_transaction i r now d1 = Inr d'"
    by (auto simp: cancel_task_def bind_r_Inr)
  then show ?thesis
    by (blast intro: step_control step_cancel converse_rtranclp_into_rtranclp)
qed

text \<open>C8: whatever the processes do in whatever order, the database stays well formed: keys are unique,
  the numbers of reviewer runs increase along the table and do not exceed the sequence they are drawn from (an
  upsert of a run there is uses up a number too), no row refers to a row that does not exist, a queued task is held by nobody, a running task has a
  holder, a lease and a started attempt, and a reviewer run is finished exactly when its status is
  final.\<close>

theorem reachable_db_ok:
  assumes "reach (\<lambda>d. d = empty_db) (db_step budget operator) d"
  shows "db_ok d"
  using assms by (rule store.reach_inv)

section \<open>Claiming\<close>

lemma claim_next_task_cases:
  assumes "claim_next_task w l now d = Inr (r, d')"
  shows "(r = None \<and> d' = d \<and> filter (claimable now) (db_tasks d) = [])
    \<or> (\<exists>row. first_by claim_order (filter (claimable now) (db_tasks d)) = Some row
        \<and> db_tasks d' = upd_where (\<lambda>t. tk_id t = tk_id row \<and> tk_status t = TQueued) (claim_row w l now) (db_tasks d)
        \<and> r = get_task (tk_id row) d' \<and> db_runs d' = db_runs d \<and> db_controls d' = db_controls d)"
proof (cases "first_by claim_order (filter (claimable now) (db_tasks d))")
  case None
  with assms show ?thesis by (simp add: claim_next_task_def)
next
  case (Some row)
  with assms obtain e where "d' = (d \<lparr>db_tasks := upd_where (\<lambda>t. tk_id t = tk_id row \<and> tk_status t = TQueued)
      (claim_row w l now) (db_tasks d)\<rparr>) \<lparr>db_events := db_events d @ [e]\<rparr>" "r = get_task (tk_id row) d'"
    by (auto simp: claim_next_task_def bind_r_Inr dest!: insert_event_Inr)
  with Some show ?thesis by auto
qed

lemma claimed_row:
  assumes "keys_ok d" and "first_by claim_order (filter (claimable now) (db_tasks d)) = Some row"
    and "db_tasks d' = upd_where (\<lambda>t. tk_id t = tk_id row \<and> tk_status t = TQueued) (claim_row w l now) (db_tasks d)"
  shows "get_task (tk_id row) d' = Some (claim_row w l now row)"
proof -
  have row: "row \<in> set (db_tasks d)" "claimable now row"
    using first_by_Some(1) [OF assms(2)] by auto
  then have "find (\<lambda>t. tk_id t = tk_id row) (db_tasks d) = Some row"
    using get_task_unique [OF assms(1)] by (simp add: get_task_def)
  then show ?thesis
    using row(2) by (simp add: get_task_def assms(3) find_upd_where claimable_def)
qed

lemma claim_some:
  assumes "keys_ok d" and "claim_next_task w l now d = Inr (Some t, d')"
  shows "\<exists>old. old \<in> set (db_tasks d) \<and> claimable now old \<and> t = claim_row w l now old
    \<and> (\<forall>u \<in> set (db_tasks d). claimable now u \<longrightarrow> claim_order old \<le> claim_order u)
    \<and> (\<forall>u \<in> set (db_tasks d). tk_id u \<noteq> tk_id old \<longrightarrow> get_task (tk_id u) d' = Some u)
    \<and> get_task (tk_id old) d' = Some t"
proof -
  obtain row where
    first: "first_by claim_order (filter (claimable now) (db_tasks d)) = Some row"
    and tasks: "db_tasks d' = upd_where (\<lambda>t. tk_id t = tk_id row \<and> tk_status t = TQueued) (claim_row w l now) (db_tasks d)"
    and r: "Some t = get_task (tk_id row) d'"
    using claim_next_task_cases [OF assms(2)] by blast
  have get: "get_task (tk_id row) d' = Some (claim_row w l now row)"
    by (rule claimed_row [OF assms(1) first tasks])
  have row: "row \<in> set (db_tasks d)" "claimable now row"
    using first_by_Some(1) [OF first] by auto
  have order: "\<forall>u \<in> set (db_tasks d). claimable now u \<longrightarrow> claim_order row \<le> claim_order u"
    using first_by_Some(2) [OF first] by simp
  have others: "get_task (tk_id u) d' = Some u" if "u \<in> set (db_tasks d)" "tk_id u \<noteq> tk_id row" for u
    using get_task_unique [OF assms(1) that(1)] that(2) by (simp add: get_task_def tasks find_upd_where)
  show ?thesis
    using r get row order others by (intro exI [of _ row]) simp
qed

lemma claim_someE:
  assumes "keys_ok d" and "claim_next_task w l now d = Inr (Some t, d')"
  obtains old where "old \<in> set (db_tasks d)" "claimable now old" "t = claim_row w l now old"
    "get_task (tk_id old) d' = Some t"
  using claim_some [OF assms] by (elim exE conjE)

lemma claim_none:
  assumes "keys_ok d" and "claim_next_task w l now d = Inr (None, d')"
  shows "d' = d \<and> list_all (\<lambda>t. \<not> claimable now t) (db_tasks d)"
  using claim_next_task_cases [OF assms(2)] claimed_row [OF assms(1)]
  by (fastforce simp: list_all_iff filter_empty_conv)

text \<open>C9: a claim takes the task that is due, of the highest priority, the oldest first: it answers
  nothing only when no queued task is due, and otherwise it returns one such task, now running, held by
  the claiming daemon until the lease ends, with one attempt more; every other task is as it was.\<close>

theorem claim_takes_first:
  assumes "keys_ok d" and "claim_next_task w l now d = Inr (r, d')"
  shows "case r of
      None \<Rightarrow> d' = d \<and> list_all (\<lambda>t. \<not> claimable now t) (db_tasks d)
    | Some t \<Rightarrow> (\<exists>old. old \<in> set (db_tasks d) \<and> claimable now old \<and> t = claim_row w l now old
        \<and> (\<forall>u \<in> set (db_tasks d). claimable now u \<longrightarrow> claim_order old \<le> claim_order u)
        \<and> (\<forall>u \<in> set (db_tasks d). tk_id u \<noteq> tk_id old \<longrightarrow> get_task (tk_id u) d' = Some u)
        \<and> get_task (tk_id old) d' = Some t)"
proof (cases r)
  case None
  then show ?thesis using claim_none [OF assms(1)] assms(2) by simp
next
  case (Some t)
  then show ?thesis using claim_some [OF assms(1)] assms(2) by (simp only: option.case)
qed

text \<open>Two claims in a row, by whatever daemons, never return the same task.\<close>

theorem claims_exclusive:
  assumes "db_ok d" and "claim_next_task w l now d = Inr (Some t, d1)"
    and "claim_next_task w' l' now' d1 = Inr (Some t', d2)"
  shows "tk_id t \<noteq> tk_id t'"
proof -
  have k: "keys_ok d" and k1: "keys_ok d1"
    using assms(1) claim_next_task_ok [OF assms(2,1)] by (simp_all add: db_ok_def)
  obtain old where old: "t = claim_row w l now old" "get_task (tk_id old) d1 = Some t"
    by (rule claim_someE [OF k assms(2)])
  obtain old' where old': "old' \<in> set (db_tasks d1)" "claimable now' old'" "t' = claim_row w' l' now' old'"
    by (rule claim_someE [OF k1 assms(3)])
  have get: "get_task (tk_id old') d1 = Some old'"
    by (rule get_task_unique [OF k1 old'(1)])
  show ?thesis
  proof
    assume "tk_id t = tk_id t'"
    then have "tk_id old = tk_id old'" by (simp add: old(1) old'(3))
    then have "t = old'" using get old(2) by simp
    moreover have "tk_status t = TRunning" by (simp add: old(1) claim_row_def)
    ultimately show False using old'(2) by (simp add: claimable_def)
  qed
qed

section \<open>Recovering tasks whose lease ran out\<close>

definition recovered_row :: "nat \<Rightarrow> instant \<Rightarrow> cr_task \<Rightarrow> cr_task" where
  "recovered_row budget now t =
     (if stale now t then (if budget \<le> tk_attempts t then exhausted_row now t else released_row now t) else t)"

lemma recover_fold:
  assumes "distinct (map tk_id rows)" and "\<forall>r \<in> set rows. task_known d (tk_id r)"
  shows "\<exists>d'. fold_r (recover_row budget now) (acc, d) rows =
      Inr (acc @ map tk_id (filter (\<lambda>r. \<not> budget \<le> tk_attempts r) rows), d')
    \<and> db_tasks d' = map (\<lambda>t. case find (\<lambda>r. tk_id r = tk_id t) rows of
        None \<Rightarrow> t | Some r \<Rightarrow> if budget \<le> tk_attempts r then exhausted_row now t else released_row now t) (db_tasks d)"
  using assms
proof (induction rows arbitrary: acc d)
  case Nil
  then show ?case by simp
next
  case (Cons r rows)
  let ?f = "if budget \<le> tk_attempts r then exhausted_row now else released_row now"
  let ?d1 = "upd_task (tk_id r) ?f d"
  have ids: "tk_id ` set (db_tasks ?d1) = tk_id ` set (db_tasks d)"
    by (simp add: upd_task_def image_key_upd)
  then have known: "task_known ?d1 (tk_id r)"
    using Cons.prems(2) by auto
  obtain d2 where d2: "insert_event (Some (tk_id r)) ''task_recovered'' ''warn'' (Some ''recover_stale'')
      ''stale running task recovered'' [] now ?d1 = Inr d2" "db_tasks d2 = db_tasks ?d1"
    using known by (simp add: insert_event_known)
  let ?acc = "if budget \<le> tk_attempts r then acc else acc @ [tk_id r]"
  have step: "recover_row budget now (acc, d) r = Inr (?acc, d2)"
    using d2(1) by (simp add: recover_row_def)
  have "\<forall>x \<in> set rows. task_known d2 (tk_id x)"
    using Cons.prems(2) ids d2(2) by auto
  with Cons.IH [of d2 ?acc] Cons.prems(1) obtain d' where d': "fold_r (recover_row budget now) (?acc, d2) rows =
      Inr (?acc @ map tk_id (filter (\<lambda>r. \<not> budget \<le> tk_attempts r) rows), d')"
    "db_tasks d' = map (\<lambda>t. case find (\<lambda>r. tk_id r = tk_id t) rows of None \<Rightarrow> t
        | Some r \<Rightarrow> if budget \<le> tk_attempts r then exhausted_row now t else released_row now t) (db_tasks d2)"
    by auto
  have none: "find (\<lambda>x. tk_id x = tk_id r) rows = None"
    using Cons.prems(1) by (simp add: find_None_key image_iff) metis
  have "db_tasks d' = map (\<lambda>t. case find (\<lambda>x. tk_id x = tk_id t) (r # rows) of None \<Rightarrow> t
      | Some r \<Rightarrow> if budget \<le> tk_attempts r then exhausted_row now t else released_row now t) (db_tasks d)"
    by (auto simp: d'(2) d2(2) upd_task_def upd_where_def none)
  with d'(1) step show ?case by simp
qed

lemma recover_exact:
  assumes "keys_ok d"
  shows "\<exists>ids d'. recover_stale_running_tasks budget now d = Inr (ids, d')
    \<and> db_tasks d' = map (recovered_row budget now) (db_tasks d)
    \<and> set ids = {tk_id t | t. t \<in> set (db_tasks d) \<and> stale now t \<and> tk_attempts t < budget}"
proof -
  let ?rows = "sort_key tk_updated (filter (stale now) (db_tasks d))"
  have dist: "distinct (map tk_id (db_tasks d))"
    using assms by (simp add: keys_ok_def)
  have perm: "mset ?rows = mset (filter (stale now) (db_tasks d))" by simp
  have "distinct (map tk_id (filter (stale now) (db_tasks d)))"
    using dist by (rule distinct_map_filter)
  then have rows: "distinct (map tk_id ?rows)"
    using perm by (metis mset_eq_imp_distinct_iff mset_map)
  have find: "find (\<lambda>r. tk_id r = tk_id t) ?rows = (if stale now t then Some t else None)" if "t \<in> set (db_tasks d)" for t
  proof (cases "stale now t")
    case True
    then show ?thesis
      using find_unique [OF rows, of t "tk_id t"] that by simp
  next
    case False
    have "u = t" if "u \<in> set (db_tasks d)" "tk_id u = tk_id t" for u
      using dist \<open>t \<in> set (db_tasks d)\<close> that by (auto simp: distinct_map dest: inj_onD)
    with False show ?thesis by (auto simp: find_None_key)
  qed
  have known: "\<forall>r \<in> set ?rows. task_known d (tk_id r)" by simp
  obtain d' where d': "recover_stale_running_tasks budget now d =
      Inr (map tk_id (filter (\<lambda>r. \<not> budget \<le> tk_attempts r) ?rows), d')"
    "db_tasks d' = map (\<lambda>t. case find (\<lambda>r. tk_id r = tk_id t) ?rows of None \<Rightarrow> t
      | Some r \<Rightarrow> if budget \<le> tk_attempts r then exhausted_row now t else released_row now t) (db_tasks d)"
    using recover_fold [OF rows known, of budget now "[]"] by (auto simp: recover_stale_running_tasks_def)
  have "db_tasks d' = map (recovered_row budget now) (db_tasks d)"
    by (auto simp: d'(2) find recovered_row_def)
  moreover have "set (map tk_id (filter (\<lambda>r. \<not> budget \<le> tk_attempts r) ?rows))
      = {tk_id t | t. t \<in> set (db_tasks d) \<and> stale now t \<and> tk_attempts t < budget}"
    by auto
  ultimately show ?thesis using d'(1) by blast
qed

text \<open>Recovery always succeeds. It touches exactly the running tasks whose lease has ended: those
  with attempts left go back to the queue, released, and are the answer; the others fail for good;
  every other task is as it was.\<close>

theorem recover_stale_exact:
  assumes "keys_ok d"
  shows "\<exists>ids d'. recover_stale_running_tasks budget now d = Inr (ids, d')
    \<and> db_tasks d' = map (recovered_row budget now) (db_tasks d)
    \<and> set ids = {tk_id t | t. t \<in> set (db_tasks d) \<and> stale now t \<and> tk_attempts t < budget}"
  by (rule recover_exact [OF assms])

text \<open>A task whose attempts are spent when its lease ends fails without its caller being told:
  recovery leaves it without an end time and without a callback, so the retry loop never picks it up.\<close>

theorem exhausted_not_called_back:
  assumes "keys_ok d" and "t \<in> set (db_tasks d)" and "stale now t" and "budget \<le> tk_attempts t"
    and "tk_cb_state t = None" and "recover_stale_running_tasks budget now d = Inr (ids, d')"
  shows "\<exists>u. get_task (tk_id t) d' = Some u \<and> tk_status u = TFailed \<and> tk_finished u = tk_finished t
    \<and> tk_cb_state u = None \<and> tk_id t \<notin> set (due_callback_tasks limit later d')"
proof -
  have tasks: "db_tasks d' = map (recovered_row budget now) (db_tasks d)"
    using recover_exact [OF assms(1), of budget now] assms(6) by auto
  have id: "tk_id (recovered_row budget now x) = tk_id x" for x
    by (simp add: recovered_row_def)
  have row: "recovered_row budget now t = exhausted_row now t"
    using assms by (simp add: recovered_row_def)
  have dist: "distinct (map tk_id (db_tasks d'))"
    using assms(1) by (simp add: tasks keys_ok_def comp_def id)
  moreover have mem: "exhausted_row now t \<in> set (db_tasks d')"
    using assms(2) row by (force simp: tasks)
  ultimately have get: "get_task (tk_id t) d' = Some (exhausted_row now t)"
    by (auto simp: get_task_def intro!: find_unique)
  have uniq: "x = exhausted_row now t" if "x \<in> set (db_tasks d')" "tk_id x = tk_id t" for x
    using dist mem that by (auto simp: distinct_map inj_on_def)
  have "tk_id t \<notin> set (due_callback_tasks limit later d')"
    using uniq assms(5)
    by (fastforce simp: due_callback_tasks_def callback_due_def exhausted_row_def dest: in_set_takeD)
  with get assms(5) show ?thesis by (simp add: exhausted_row_def)
qed

section \<open>The retry budget\<close>

text \<open>Unattended, a queued task has an attempt left and no task has had more attempts than the budget.\<close>

definition task_budget :: "nat \<Rightarrow> cr_task \<Rightarrow> bool" where
  "task_budget budget t \<longleftrightarrow> tk_attempts t \<le> budget \<and> (tk_status t = TQueued \<longrightarrow> tk_attempts t < budget)"

lemma budget_upd:
  "(\<And>t. t \<in> set ts \<Longrightarrow> p t \<Longrightarrow> task_budget b t \<Longrightarrow> task_budget b (f t)) \<Longrightarrow> \<forall>t \<in> set ts. task_budget b t \<Longrightarrow>
     \<forall>t \<in> set (upd_where p f ts). task_budget b t"
  by (rule ball_upd_where) auto

lemma tasks_insert_event: "insert_event task typ sev stage msg payload now d = Inr d' \<Longrightarrow> db_tasks d' = db_tasks d"
  by (auto dest: insert_event_Inr)

lemma budget_create:
  assumes "create_task i a r b c p q now d = Inr d'" and "0 < budget" and "\<forall>t \<in> set (db_tasks d). task_budget budget t"
  shows "\<forall>t \<in> set (db_tasks d'). task_budget budget t"
  using assms by (auto simp: create_task_def task_budget_def new_task_def split: if_split_asm dest!: tasks_insert_event)

lemma budget_commit:
  assumes "update_task_commit_id i c now d = Inr d'" and "\<forall>t \<in> set (db_tasks d). task_budget budget t"
  shows "\<forall>t \<in> set (db_tasks d'). task_budget budget t"
  using assms by (auto simp: update_task_commit_id_def Let_def upd_task_def set_upd_where task_budget_def
      split: option.splits dest!: tasks_insert_event)

lemma budget_claim:
  assumes "claim_next_task w l now d = Inr (r, d')" and "\<forall>t \<in> set (db_tasks d). task_budget budget t"
  shows "\<forall>t \<in> set (db_tasks d'). task_budget budget t"
proof -
  have "\<forall>t \<in> set (upd_where (\<lambda>t. tk_id t = i \<and> tk_status t = TQueued) (claim_row w l now) (db_tasks d)). task_budget budget t" for i
    by (rule budget_upd [OF _ assms(2)]) (auto simp: task_budget_def claim_row_def)
  with claim_next_task_cases [OF assms(1)] assms(2) show ?thesis by auto
qed

lemma tasks_outcome:
  "update_task_outcome i s g u e now d = Inr d' \<Longrightarrow>
     db_tasks d' = db_tasks (upd_task i (outcome_row s g u e (outcome_callback i d) now) d)"
  by (auto simp: update_task_outcome_def Let_def bind_r_Inr split: if_split_asm dest!: tasks_insert_event)

lemma budget_outcome:
  assumes "update_task_outcome i s g u e now d = Inr d'" and "terminal_status s"
    and "\<forall>t \<in> set (db_tasks d). task_budget budget t"
  shows "\<forall>t \<in> set (db_tasks d'). task_budget budget t"
  using assms by (auto simp: tasks_outcome upd_task_def set_upd_where task_budget_def outcome_row_def)

lemma budget_rows:
  "task_budget b t \<Longrightarrow> task_budget b (cancel_row g m now t)"
  "task_budget b t \<Longrightarrow> task_budget b (recovered_row b now t)"
  by (auto simp: task_budget_def cancel_row_def recovered_row_def exhausted_row_def released_row_def)

lemma tasks_cancel:
  "cancel_transaction i r now d = Inr d' \<Longrightarrow>
     db_tasks d' = db_tasks (upd_task i (cancel_row ''cancelled'' (text_or r ''cancelled by operator'') now) d)"
  by (auto simp: cancel_transaction_def Let_def ack_controls_def end_runs_def upd_task_def dest!: tasks_insert_event)

lemma tasks_stopped:
  "mark_task_stopped i r now d = Inr d' \<Longrightarrow>
     db_tasks d' = db_tasks (upd_task i (cancel_row ''stopped'' (text_or r ''task stopped'') now) d)"
  by (auto simp: mark_task_stopped_def Let_def ack_controls_def end_runs_def upd_task_def dest!: tasks_insert_event)

lemma budget_cancel_row:
  "\<forall>t \<in> set (db_tasks d). task_budget b t \<Longrightarrow> \<forall>t \<in> set (db_tasks (upd_task i (cancel_row g m now) d)). task_budget b t"
  unfolding upd_task_def by (simp, rule budget_upd) (auto intro: budget_rows)

lemma same_tasks_ops:
  "create_reviewer_plan i w r q tr rs now d = Inr d' \<Longrightarrow> db_tasks d' = db_tasks d"
  "create_reviewer_run i r w a s se m l out e du us now d = Inr (n, d') \<Longrightarrow> db_tasks d' = db_tasks d"
  "start_reviewer_run i r w a m now d = Inr (n, d') \<Longrightarrow> db_tasks d' = db_tasks d"
  "create_finding i rn f lno sv t dt sg fid now d = Inr d' \<Longrightarrow> db_tasks d' = db_tasks d"
  "update_finding_status i fid sx ac m' now d = Inr d' \<Longrightarrow> db_tasks d' = db_tasks d"
  "request_task_control i ac' r' now d = Inr d' \<Longrightarrow> db_tasks d' = db_tasks d"
  "stop_transaction i r' now d = Inr d' \<Longrightarrow> db_tasks d' = db_tasks d"
  "upsert_heartbeat rn' tk sx m' p h c now d = Inr d' \<Longrightarrow> db_tasks d' = db_tasks d"
  "create_feedback_session i fd sx o' p' t' m' u fid now d = Inr d' \<Longrightarrow> db_tasks d' = db_tasks d"
  by (auto simp: create_reviewer_plan_def create_reviewer_run_def start_reviewer_run_def create_finding_def
      update_finding_status_def stop_transaction_def request_task_control_def upsert_heartbeat_def
      create_feedback_session_def Let_def bind_r_Inr split: if_split_asm option.splits dest!: tasks_insert_event)

lemma budget_callback:
  "\<forall>t \<in> set (db_tasks d). task_budget b t \<Longrightarrow> \<forall>t \<in> set (db_tasks (set_callback_state i st a n e g h now d)). task_budget b t"
  by (auto simp: set_callback_state_def upd_task_def set_upd_where task_budget_def)

lemma budget_recover:
  assumes "recover_stale_running_tasks b now d = Inr (rs, d')" and "keys_ok d" and "\<forall>t \<in> set (db_tasks d). task_budget b t"
  shows "\<forall>t \<in> set (db_tasks d'). task_budget b t"
  using recover_exact [OF assms(2), of b now] assms(1,3) budget_rows by auto

lemma unattended_step_budget:
  assumes "db_step budget False d d'" and "0 < budget" and "keys_ok d" and "\<forall>t \<in> set (db_tasks d). task_budget budget t"
  shows "\<forall>t \<in> set (db_tasks d'). task_budget budget t"
  using assms(1)
proof cases
  case step_create
  then show ?thesis by (rule budget_create [OF _ assms(2,4)])
next
  case step_commit
  then show ?thesis by (rule budget_commit [OF _ assms(4)])
next
  case step_claim
  then show ?thesis by (rule budget_claim [OF _ assms(4)])
next
  case step_outcome
  then show ?thesis by (rule budget_outcome [OF _ _ assms(4)])
next
  case step_cancel
  then show ?thesis using budget_cancel_row [OF assms(4)] by (simp only: tasks_cancel)
next
  case step_stopped
  then show ?thesis using budget_cancel_row [OF assms(4)] by (simp only: tasks_stopped)
next
  case step_recover
  then show ?thesis by (rule budget_recover [OF _ assms(3,4)])
next
  case step_callback
  then show ?thesis using budget_callback [OF assms(4)] by simp
next
  case step_event
  then show ?thesis using assms(4) by (simp only: tasks_insert_event)
next
  case step_finish_run
  with assms show ?thesis by (simp add: finish_reviewer_run_def)
next
  case step_feedback_end
  with assms show ?thesis by (simp add: finish_feedback_session_def)
qed (use assms(4) in \<open>simp_all only: same_tasks_ops\<close>)

interpretation unattended: step_system "\<lambda>d. d = empty_db \<and> 0 < budget" "db_step budget False"
  "\<lambda>d. db_ok d \<and> 0 < budget \<and> (\<forall>t \<in> set (db_tasks d). task_budget budget t)"
proof unfold_locales
  fix d
  assume "d = empty_db \<and> 0 < budget"
  then show "db_ok d \<and> 0 < budget \<and> (\<forall>t \<in> set (db_tasks d). task_budget budget t)"
    using db_ok_empty by (simp add: empty_db_def)
next
  fix d d'
  assume "db_ok d \<and> 0 < budget \<and> (\<forall>t \<in> set (db_tasks d). task_budget budget t)" and "db_step budget False d d'"
  then show "db_ok d' \<and> 0 < budget \<and> (\<forall>t \<in> set (db_tasks d'). task_budget budget t)"
    using db_step_ok unattended_step_budget by (auto simp: db_ok_def)
qed

text \<open>As long as the operator requeues nothing, no task is started more often than the configured
  number of attempts, however claims, expiring leases, recoveries and outcomes interleave; and a task in
  the queue always has an attempt left.\<close>

theorem attempts_bounded:
  assumes "0 < budget" and "reach (\<lambda>d. d = empty_db) (db_step budget False) d"
  shows "list_all (\<lambda>t. tk_attempts t \<le> budget \<and> (tk_status t \<noteq> TQueued \<or> tk_attempts t < budget)) (db_tasks d)"
proof -
  have "reach (\<lambda>d. d = empty_db \<and> 0 < budget) (db_step budget False) d"
    using assms(2) by (induction rule: reach.induct) (auto simp: assms(1) intro: reach.intros)
  from unattended.reach_inv [OF this] show ?thesis
    by (auto simp: list_all_iff task_budget_def)
qed

section \<open>Stopping, cancelling, requeueing\<close>

lemma get_upd_task:
  assumes "\<And>t. tk_id (f t) = tk_id t"
  shows "get_task j (upd_task i f d) = (if j = i then map_option f (get_task j d) else get_task j d)"
proof (cases "get_task j d")
  case None
  with assms show ?thesis by (auto simp: get_task_def upd_task_def find_upd_where)
next
  case (Some t)
  then have "tk_id t = j" by (auto dest: get_task_Some)
  with assms Some show ?thesis by (auto simp: get_task_def upd_task_def find_upd_where)
qed

lemma check_ack_controls:
  "check_task_control i (ack_controls (\<lambda>c. tc_task c = j \<and> q c) now d) =
     (if i = j then map_option (\<lambda>c. (tc_action c, text_or (tc_reason c) (action_text (tc_action c) @ '' requested'')))
        (find (\<lambda>c. tc_task c = i \<and> tc_ack c = None \<and> \<not> q c) (rev (db_controls d)))
      else check_task_control i d)"
proof -
  let ?f = "\<lambda>c. c \<lparr>tc_ack := coalesce (tc_ack c) (Some now)\<rparr>"
  have rev: "rev (upd_where p ?f cs) = upd_where p ?f (rev cs)" for p cs
    by (simp add: upd_where_def rev_map)
  have "find (\<lambda>c. tc_task c = i \<and> tc_ack c = None) (upd_where (\<lambda>c. tc_task c = j \<and> q c) ?f cs) =
      (if i = j then find (\<lambda>c. tc_task c = i \<and> tc_ack c = None \<and> \<not> q c) cs
       else find (\<lambda>c. tc_task c = i \<and> tc_ack c = None) cs)" for cs
    by (induction cs) auto
  then show ?thesis
    by (simp add: check_task_control_def ack_controls_def rev)
qed

lemma find_rev_snoc: "find p (rev (xs @ [x])) = (if p x then Some x else find p (rev xs))"
  by simp

definition run_unfinished :: "reviewer_run \<Rightarrow> bool" where
  "run_unfinished r \<longleftrightarrow> rr_status r = RQueued \<or> rr_status r = RRunning"

lemma cancel_effect:
  assumes "get_task i d = Some t"
  shows "\<exists>d'. cancel_task i reason now d = Inr d'
    \<and> get_task i d' = Some (cancel_row ''cancelled'' (text_or reason ''cancelled by operator'') now t)
    \<and> list_all (\<lambda>r. rr_task r \<noteq> i \<or> \<not> run_unfinished r) (db_runs d')
    \<and> check_task_control i d' = None
    \<and> (\<forall>j. j = i \<or> get_task j d' = get_task j d \<and> check_task_control j d' = check_task_control j d)
    \<and> db_runs d' = db_runs (end_runs i (text_or reason ''cancelled by operator'') now d) \<and> db_plans d' = db_plans d"
proof -
  define msg where "msg = text_or reason ''cancelled by operator''"
  define c where "c = \<lparr>tc_task = i, tc_action = Cancel_Task, tc_reason = reason, tc_requested = now, tc_ack = None\<rparr>"
  define d1 where "d1 = d \<lparr>db_controls := db_controls d @ [c]\<rparr>"
  define d4 where "d4 = ack_controls (\<lambda>c. tc_task c = i) now (end_runs i msg now (upd_task i (cancel_row ''cancelled'' msg now) d1))"
  have known: "task_known d i"
    using assms by (simp add: get_task_known)
  have tasks4: "db_tasks d4 = db_tasks (upd_task i (cancel_row ''cancelled'' msg now) d)"
    by (simp add: d4_def d1_def ack_controls_def end_runs_def upd_task_def)
  have get4: "get_task j d4 = (if j = i then map_option (cancel_row ''cancelled'' msg now) (get_task j d) else get_task j d)" for j
    using get_upd_task [of "cancel_row ''cancelled'' msg now" j i d] by (simp add: get_task_def tasks4)
  have known4: "task_known d4 i"
    using get4 assms by (simp add: get_task_known)
  have "request_task_control i Cancel_Task reason now d = Inr d1"
    using known by (simp add: request_task_control_def d1_def c_def)
  then have "cancel_task i reason now d = insert_event (Some i) ''task_cancelled'' ''warn'' (Some ''cancel'') msg [] now d4"
    by (simp add: cancel_task_def cancel_transaction_def msg_def d4_def Let_def)
  then obtain e where e: "cancel_task i reason now d = Inr (d4 \<lparr>db_events := db_events d4 @ [e]\<rparr>)"
    using known4 by (simp add: insert_event_known)
  let ?d' = "d4 \<lparr>db_events := db_events d4 @ [e]\<rparr>"
  have get: "get_task j ?d' = get_task j d4" for j by (simp add: get_task_def)
  have chk: "check_task_control j ?d' = check_task_control j d4" for j by (simp add: check_task_control_def)
  have runs: "list_all (\<lambda>r. rr_task r \<noteq> i \<or> \<not> run_unfinished r) (db_runs ?d')"
    by (simp add: d4_def ack_controls_def end_runs_def list_all_upd_where)
      (simp add: list_all_iff run_unfinished_def)
  have ctl: "check_task_control i d4 = None" and other: "j \<noteq> i \<Longrightarrow> check_task_control j d4 = check_task_control j d" for j
    using check_ack_controls [of i i "\<lambda>_. True" now] check_ack_controls [of j i "\<lambda>_. True" now]
    by (auto simp: d4_def find_None_iff end_runs_def upd_task_def check_task_control_def d1_def c_def)
  have "db_runs d4 = db_runs (end_runs i msg now d)" "db_plans d4 = db_plans d"
    by (simp_all add: d4_def d1_def ack_controls_def end_runs_def upd_task_def)
  then show ?thesis
    using e get chk runs ctl other get4 assms
    by (intro exI [of _ ?d'] conjI allI) (simp_all add: msg_def)
qed

lemma stopped_effect:
  assumes "get_task i d = Some t"
  shows "\<exists>d'. mark_task_stopped i reason now d = Inr d'
    \<and> get_task i d' = Some (cancel_row ''stopped'' (text_or reason ''task stopped'') now t)
    \<and> db_runs d' = db_runs (end_runs i (text_or reason ''task stopped'') now d) \<and> db_plans d' = db_plans d"
proof -
  define msg where "msg = text_or reason ''task stopped''"
  define d3 where "d3 = ack_controls (\<lambda>c. tc_task c = i \<and> tc_action c = Stop_Task) now
    (end_runs i msg now (upd_task i (cancel_row ''stopped'' msg now) d))"
  have get3: "get_task i d3 = Some (cancel_row ''stopped'' msg now t)"
    using get_upd_task [of "cancel_row ''stopped'' msg now" i i d] assms
    by (simp add: get_task_def d3_def ack_controls_def end_runs_def)
  then have "task_known d3 i" by (simp add: get_task_known)
  then obtain e where "mark_task_stopped i reason now d = Inr (d3 \<lparr>db_events := db_events d3 @ [e]\<rparr>)"
    by (auto simp: mark_task_stopped_def Let_def insert_event_known d3_def msg_def)
  moreover have "db_runs d3 = db_runs (end_runs i msg now d)" "db_plans d3 = db_plans d"
    by (simp_all add: d3_def ack_controls_def end_runs_def upd_task_def)
  ultimately show ?thesis
    using get3 by (simp add: msg_def get_task_def)
qed

text \<open>Cancelling a task always succeeds and leaves nothing of it behind: the task is cancelled and
  released, none of its runs is queued or running, no request about it is pending, and neither another
  task nor the requests about it have changed.\<close>

theorem cancel_task_effect:
  assumes "get_task i d = Some t"
  shows "\<exists>d'. cancel_task i reason now d = Inr d'
    \<and> get_task i d' = Some (cancel_row ''cancelled'' (text_or reason ''cancelled by operator'') now t)
    \<and> list_all (\<lambda>r. rr_task r \<noteq> i \<or> \<not> run_unfinished r) (db_runs d')
    \<and> check_task_control i d' = None
    \<and> (\<forall>j. j = i \<or> get_task j d' = get_task j d \<and> check_task_control j d' = check_task_control j d)"
  using cancel_effect [OF assms, of reason now] by blast

text \<open>Requeueing a task, whatever its state, always succeeds: it is queued and released, the next
  claim may take it, the runs that had not succeeded start over without result or cost, those that had
  succeeded keep theirs, and no request about the task is pending.\<close>

theorem requeue_task_effect:
  assumes "get_task i d = Some t"
  shows "\<exists>d'. requeue_task i reason now d = Inr d'
    \<and> get_task i d' = Some (requeue_row now t) \<and> tk_attempts (requeue_row now t) = tk_attempts t
    \<and> list_all (\<lambda>r. rr_task r \<noteq> i \<or> rr_status r = RSuccess \<or> rr_status r = RQueued \<and> rr_usage r = usage_zero
        \<and> rr_session r = None) (db_runs d')
    \<and> filter (\<lambda>r. rr_status r = RSuccess) (db_runs d') = filter (\<lambda>r. rr_status r = RSuccess) (db_runs d)
    \<and> check_task_control i d' = None"
proof -
  define rr :: "reviewer_run \<Rightarrow> reviewer_run" where "rr = (\<lambda>r. r \<lparr>rr_status := RQueued, rr_session := None, rr_raw_log := None, rr_output := None,
    rr_error := None, rr_duration := None, rr_usage := usage_zero, rr_started := None, rr_finished := None,
    rr_updated := now\<rparr>)"
  define d1 where "d1 = upd_task i (requeue_row now) d"
  define d2 where "d2 = d1 \<lparr>db_runs := upd_where (\<lambda>r. rr_task r = i \<and> rr_status r \<noteq> RSuccess) rr (db_runs d1)\<rparr>"
  define d3 where "d3 = ack_controls (\<lambda>c. tc_task c = i) now d2"
  have get3: "get_task i d3 = Some (requeue_row now t)"
    using get_upd_task [of "requeue_row now" i i d] assms
    by (simp add: get_task_def d3_def d2_def d1_def ack_controls_def)
  then have "task_known d3 i" by (simp add: get_task_known)
  then obtain e where e: "requeue_task i reason now d = Inr (d3 \<lparr>db_events := db_events d3 @ [e]\<rparr>)"
    by (auto simp: requeue_task_def Let_def insert_event_known d3_def d2_def d1_def rr_def)
  let ?d' = "d3 \<lparr>db_events := db_events d3 @ [e]\<rparr>"
  have runs: "db_runs ?d' = upd_where (\<lambda>r. rr_task r = i \<and> rr_status r \<noteq> RSuccess) rr (db_runs d)"
    by (simp add: d3_def d2_def d1_def ack_controls_def upd_task_def)
  have keep: "filter (\<lambda>r. rr_status r = RSuccess) (upd_where (\<lambda>r. rr_task r = i \<and> rr_status r \<noteq> RSuccess) rr rs)
      = filter (\<lambda>r. rr_status r = RSuccess) rs" for rs
    by (induction rs) (auto simp: rr_def)
  have ctl: "check_task_control i d3 = None"
    using check_ack_controls [of i i "\<lambda>_. True" now] by (auto simp: d3_def find_None_iff)
  have fresh: "list_all (\<lambda>r. rr_task r \<noteq> i \<or> rr_status r = RSuccess \<or> rr_status r = RQueued \<and> rr_usage r = usage_zero
      \<and> rr_session r = None) (db_runs ?d')"
    unfolding runs list_all_upd_where by (simp add: list_all_iff rr_def)
  have kept: "filter (\<lambda>r. rr_status r = RSuccess) (db_runs ?d') = filter (\<lambda>r. rr_status r = RSuccess) (db_runs d)"
    unfolding runs by (rule keep)
  have get: "get_task i ?d' = Some (requeue_row now t)" and chk: "check_task_control i ?d' = None"
    using get3 ctl by (simp_all add: get_task_def check_task_control_def)
  have att: "tk_attempts (requeue_row now t) = tk_attempts t"
    by (simp add: requeue_row_def)
  show ?thesis
    using e get att fresh kept chk by blast
qed

text \<open>A stop request is seen by the next check until it is acted on; stopping the task acknowledges
  it, but leaves a cancellation that arrived in the meantime pending, so that no request to cancel is
  lost.\<close>

theorem stop_request_cycle:
  assumes "request_task_stop i reason now d = Inr d1"
  shows "check_task_control i d1 = Some (Stop_Task, text_or reason ''stop requested'')
    \<and> (\<exists>d2. mark_task_stopped i why later d1 = Inr d2
        \<and> check_task_control i d2 =
            map_option (\<lambda>c. (Cancel_Task, text_or (tc_reason c) ''cancel requested''))
              (find (\<lambda>c. tc_task c = i \<and> tc_ack c = None \<and> tc_action c = Cancel_Task) (rev (db_controls d))))"
proof -
  define c where "c = \<lparr>tc_task = i, tc_action = Stop_Task, tc_reason = reason, tc_requested = now, tc_ack = None\<rparr>"
  have known: "task_known d i"
    using assms by (auto simp: request_task_stop_def bind_r_Inr request_task_control_def split: if_split_asm)
  then obtain e where d1: "d1 = d \<lparr>db_controls := db_controls d @ [c], db_events := db_events d @ [e]\<rparr>"
    using assms by (auto simp: request_task_stop_def stop_transaction_def request_task_control_def insert_event_known c_def)
  have first: "check_task_control i d1 = Some (Stop_Task, text_or reason ''stop requested'')"
    by (simp add: check_task_control_def d1 c_def action_text_def)
  define msg where "msg = text_or why ''task stopped''"
  define d3 where "d3 = ack_controls (\<lambda>c. tc_task c = i \<and> tc_action c = Stop_Task) later
    (end_runs i msg later (upd_task i (cancel_row ''stopped'' msg later) d1))"
  have "task_known d3 i"
    using known by (simp add: d3_def ack_controls_def end_runs_def upd_task_def d1 image_key_upd)
  then obtain e' where d2: "mark_task_stopped i why later d1 = Inr (d3 \<lparr>db_events := db_events d3 @ [e']\<rparr>)"
    by (auto simp: mark_task_stopped_def Let_def insert_event_known d3_def msg_def)
  have neq: "tc_action c \<noteq> Stop_Task \<longleftrightarrow> tc_action c = Cancel_Task" for c :: task_control
    by (cases "tc_action c") simp_all
  have "check_task_control i d3 =
      map_option (\<lambda>c. (tc_action c, text_or (tc_reason c) (action_text (tc_action c) @ '' requested'')))
        (find (\<lambda>c. tc_task c = i \<and> tc_ack c = None \<and> tc_action c = Cancel_Task) (rev (db_controls d)))"
    using check_ack_controls [of i i "\<lambda>c. tc_action c = Stop_Task" later]
    by (simp add: d3_def end_runs_def upd_task_def d1 c_def neq)
  also have "\<dots> = map_option (\<lambda>c. (Cancel_Task, text_or (tc_reason c) ''cancel requested''))
        (find (\<lambda>c. tc_task c = i \<and> tc_ack c = None \<and> tc_action c = Cancel_Task) (rev (db_controls d)))"
    by (rule map_option_cong) (auto simp: action_text_def dest: find_Some_key)
  finally show ?thesis
    using first d2 by (auto simp: check_task_control_def)
qed

section \<open>Witnesses\<close>

text \<open>Two tasks are queued, the second of higher priority; the daemon claims it at time 30 for 300
  seconds.\<close>

definition sample_db1 :: db where
  "sample_db1 = projr (create_task ''t1'' ''app'' ''url'' ''main'' None 100 [] 10 empty_db)"

definition sample_db2 :: db where
  "sample_db2 = projr (create_task ''t2'' ''app'' ''url'' ''dev'' None 200 [] 20 sample_db1)"

definition sample_db3 :: db where
  "sample_db3 = snd (projr (claim_next_task ''w1'' 300 30 sample_db2))"

definition sample_claimed :: cr_task where
  "sample_claimed = the (fst (projr (claim_next_task ''w1'' 300 30 sample_db2)))"

lemma sample_steps:
  "create_task ''t1'' ''app'' ''url'' ''main'' None 100 [] 10 empty_db = Inr sample_db1"
  "create_task ''t2'' ''app'' ''url'' ''dev'' None 200 [] 20 sample_db1 = Inr sample_db2"
  unfolding sample_db1_def sample_db2_def by (rule ok_projr, code_simp)+

lemma sample_claim: "claim_next_task ''w1'' 300 30 sample_db2 = Inr (Some sample_claimed, sample_db3)"
proof -
  have "is_ok (claim_next_task ''w1'' 300 30 sample_db2)"
    "fst (projr (claim_next_task ''w1'' 300 30 sample_db2)) \<noteq> None"
    by code_simp+
  then show ?thesis
    using ok_projr [of "claim_next_task ''w1'' 300 30 sample_db2"]
    by (auto simp: sample_claimed_def sample_db3_def)
qed

lemma sample_reach: "reach (\<lambda>d. d = empty_db) (db_step 3 False) sample_db3"
proof -
  have "reach (\<lambda>d. d = empty_db) (db_step 3 False) empty_db" by (rule reach_init) simp
  then have "reach (\<lambda>d. d = empty_db) (db_step 3 False) sample_db1"
    by (rule reach_step) (rule step_create [OF sample_steps(1)])
  then have "reach (\<lambda>d. d = empty_db) (db_step 3 False) sample_db2"
    by (rule reach_step) (rule step_create [OF sample_steps(2)])
  then show ?thesis by (rule reach_step) (rule step_claim [OF sample_claim])
qed

lemma sample_ok: "db_ok sample_db2" "db_ok sample_db3" "keys_ok sample_db2" "keys_ok sample_db3"
proof -
  show d2: "db_ok sample_db2"
    using create_task_ok [OF sample_steps(2) create_task_ok [OF sample_steps(1) db_ok_empty]] .
  then show d3: "db_ok sample_db3" using claim_next_task_ok [OF sample_claim] by blast
  from d2 d3 show "keys_ok sample_db2" "keys_ok sample_db3" by (simp_all add: db_ok_def)
qed

theorem reachable_db_ok_witness: "db_ok sample_db3"
  by (rule reachable_db_ok [OF sample_reach])

theorem attempts_bounded_witness:
  "list_all (\<lambda>t. tk_attempts t \<le> 3 \<and> (tk_status t \<noteq> TQueued \<or> tk_attempts t < 3)) (db_tasks sample_db3)"
  by (rule attempts_bounded [OF _ sample_reach]) simp

theorem claim_takes_first_witness:
  "\<exists>old. old \<in> set (db_tasks sample_db2) \<and> sample_claimed = claim_row ''w1'' 300 30 old"
  using claim_takes_first [OF sample_ok(3) sample_claim] by (simp only: option.case) blast

definition sample_second :: "cr_task option \<times> db" where
  "sample_second = projr (claim_next_task ''w2'' 300 31 sample_db3)"

lemma sample_second_claim:
  "claim_next_task ''w2'' 300 31 sample_db3 = Inr (Some (the (fst sample_second)), snd sample_second)"
proof -
  have "is_ok (claim_next_task ''w2'' 300 31 sample_db3)" "fst sample_second \<noteq> None"
    by code_simp+
  then show ?thesis
    using ok_projr [of "claim_next_task ''w2'' 300 31 sample_db3"] by (auto simp: sample_second_def)
qed

theorem claims_exclusive_witness: "tk_id sample_claimed \<noteq> tk_id (the (fst sample_second))"
  by (rule claims_exclusive [OF sample_ok(1) sample_claim sample_second_claim])

theorem recover_stale_exact_witness:
  "\<exists>ids d'. recover_stale_running_tasks 3 1000 sample_db3 = Inr (ids, d')
    \<and> db_tasks d' = map (recovered_row 3 1000) (db_tasks sample_db3)"
  using recover_stale_exact [OF sample_ok(4), of 3 1000] by blast

lemma sample_stale:
  "sample_claimed \<in> set (db_tasks sample_db3)" "stale 1000 sample_claimed" "tk_attempts sample_claimed = 1"
  "tk_cb_state sample_claimed = None"
  by code_simp+

definition sample_recovered :: "string list \<times> db" where
  "sample_recovered = projr (recover_stale_running_tasks 1 1000 sample_db3)"

theorem exhausted_not_called_back_witness:
  "tk_id sample_claimed \<notin> set (due_callback_tasks 20 2000 (snd sample_recovered))"
proof -
  have "is_ok (recover_stale_running_tasks 1 1000 sample_db3)" by code_simp
  then have r: "recover_stale_running_tasks 1 1000 sample_db3 = Inr (fst sample_recovered, snd sample_recovered)"
    using ok_projr by (simp add: sample_recovered_def)
  show ?thesis
    using exhausted_not_called_back [OF sample_ok(4) sample_stale(1,2) _ sample_stale(4) r, of 20 2000] sample_stale(3)
    by auto
qed

lemma sample_get: "get_task ''t2'' sample_db3 = Some sample_claimed"
  by code_simp

theorem cancel_task_effect_witness:
  "\<exists>d'. cancel_task ''t2'' None 40 sample_db3 = Inr d' \<and> check_task_control ''t2'' d' = None"
  using cancel_task_effect [OF sample_get, of None 40] by blast

theorem requeue_task_effect_witness:
  "\<exists>d'. requeue_task ''t2'' None 40 sample_db3 = Inr d' \<and> check_task_control ''t2'' d' = None"
  using requeue_task_effect [OF sample_get, of None 40] by blast

theorem stop_request_cycle_witness:
  "check_task_control ''t2'' (projr (request_task_stop ''t2'' None 40 sample_db3)) = Some (Stop_Task, ''stop requested'')"
proof -
  have "is_ok (request_task_stop ''t2'' None 40 sample_db3)" by code_simp
  then have "request_task_stop ''t2'' None 40 sample_db3 = Inr (projr (request_task_stop ''t2'' None 40 sample_db3))"
    by (rule ok_projr)
  from stop_request_cycle [OF this] show ?thesis by simp
qed

end
