(* ===== verification/Statements.thy ===== *)
theory Statements
  imports Prelude
begin

text \<open>
  Statements over a state that may raise: a function of the state to a result or an exception and the
  state it leaves, which is kept in both cases, as Python keeps what a statement did before it raised.
  The review workflow and the task service are written with these combinators. \<open>wp\<close> is the weakest
  precondition for a pair of postconditions, \<open>ends\<close> what a normal end establishes, \<open>always\<close> an
  invariant kept at either end.
\<close>

section \<open>Combinators\<close>

type_synonym ('w, 'e, 'a) stmt = "'w \<Rightarrow> ('e + 'a) \<times> 'w"

definition wret :: "'a \<Rightarrow> ('w, 'e, 'a) stmt" where
  "wret x w = (Inr x, w)"

definition wraise :: "'e \<Rightarrow> ('w, 'e, 'a) stmt" where
  "wraise e w = (Inl e, w)"

definition wbind :: "('w, 'e, 'a) stmt \<Rightarrow> ('a \<Rightarrow> ('w, 'e, 'b) stmt) \<Rightarrow> ('w, 'e, 'b) stmt" where
  "wbind m f w = (case m w of (Inl e, w1) \<Rightarrow> (Inl e, w1) | (Inr x, w1) \<Rightarrow> f x w1)"

definition wseq :: "('w, 'e, unit) stmt \<Rightarrow> ('w, 'e, 'b) stmt \<Rightarrow> ('w, 'e, 'b) stmt" where
  "wseq m n = wbind m (\<lambda>_. n)"

definition wcatch :: "('w, 'e, 'a) stmt \<Rightarrow> ('e \<Rightarrow> ('w, 'e, 'a) stmt) \<Rightarrow> ('w, 'e, 'a) stmt" where
  "wcatch m h w = (case m w of (Inl e, w1) \<Rightarrow> h e w1 | (Inr x, w1) \<Rightarrow> (Inr x, w1))"

text \<open>A \<open>try\<close> whose outcome is kept as a value, as a future keeps it.\<close>

definition wtry :: "('w, 'e, 'a) stmt \<Rightarrow> ('w, 'e, ('e + 'a)) stmt" where
  "wtry m w = (case m w of (r, w1) \<Rightarrow> (Inr r, w1))"

fun wfor :: "'a list \<Rightarrow> ('a \<Rightarrow> ('w, 'e, unit) stmt) \<Rightarrow> ('w, 'e, unit) stmt" where
  "wfor [] f = wret ()"
| "wfor (x # xs) f = wseq (f x) (wfor xs f)"

fun wfold :: "('a \<Rightarrow> 's \<Rightarrow> ('w, 'e, 's) stmt) \<Rightarrow> 'a list \<Rightarrow> 's \<Rightarrow> ('w, 'e, 's) stmt" where
  "wfold f [] s = wret s"
| "wfold f (x # xs) s = wbind (f x s) (wfold f xs)"

text \<open>Reading and changing the state.\<close>

definition wget :: "('w \<Rightarrow> 'a) \<Rightarrow> ('w, 'e, 'a) stmt" where
  "wget f w = (Inr (f w), w)"

definition wmod :: "('w \<Rightarrow> 'w) \<Rightarrow> ('w, 'e, unit) stmt" where
  "wmod f w = (Inr (), f w)"

text \<open>The value of an expression that may raise.\<close>

definition wlift :: "('e + 'a) \<Rightarrow> ('w, 'e, 'a) stmt" where
  "wlift r w = (r, w)"

text \<open>Running a statement to its end, one part after the other.\<close>

lemma run_then: "m w = (Inr x, w1) \<Longrightarrow> wbind m f w = f x w1"
  by (simp add: wbind_def)

lemma run_then_seq: "m w = (Inr (), w1) \<Longrightarrow> wseq m n w = n w1"
  by (simp add: wseq_def wbind_def)

section \<open>Weakest preconditions\<close>

definition wp :: "('w, 'e, 'a) stmt \<Rightarrow> ('a \<Rightarrow> 'w \<Rightarrow> bool) \<Rightarrow> ('e \<Rightarrow> 'w \<Rightarrow> bool) \<Rightarrow> 'w \<Rightarrow> bool" where
  "wp m Q E w = (case m w of (Inl e, w1) \<Rightarrow> E e w1 | (Inr x, w1) \<Rightarrow> Q x w1)"

named_theorems wp_simps \<open>weakest preconditions of the statements\<close>

lemma wp_wret [wp_simps]: "wp (wret x) Q E w = Q x w"
  by (simp add: wp_def wret_def)

lemma wp_wraise [wp_simps]: "wp (wraise e) Q E w = E e w"
  by (simp add: wp_def wraise_def)

lemma wp_wbind [wp_simps]: "wp (wbind m f) Q E w = wp m (\<lambda>x. wp (f x) Q E) E w"
  by (simp add: wp_def wbind_def split: prod.split sum.split)

lemma wp_wseq [wp_simps]: "wp (wseq m n) Q E w = wp m (\<lambda>_. wp n Q E) E w"
  by (simp add: wseq_def wp_wbind)

lemma wp_wcatch [wp_simps]: "wp (wcatch m h) Q E w = wp m Q (\<lambda>e. wp (h e) Q E) w"
  by (simp add: wp_def wcatch_def split: prod.split sum.split)

lemma wp_wtry [wp_simps]: "wp (wtry m) Q E w = wp m (\<lambda>x. Q (Inr x)) (\<lambda>e. Q (Inl e)) w"
  by (simp add: wp_def wtry_def split: prod.split sum.split)

lemma wp_if [wp_simps]: "wp (if b then m else n) Q E w = (if b then wp m Q E w else wp n Q E w)"
  by simp

lemma wp_conseq:
  assumes "wp m Q E w" and "\<And>x w1. Q x w1 \<Longrightarrow> Q' x w1" and "\<And>e w1. E e w1 \<Longrightarrow> E' e w1"
  shows "wp m Q' E' w"
  using assms by (auto simp: wp_def split: prod.splits sum.splits)

lemma wp_run: "wp m Q E w \<Longrightarrow> m w = (Inr x, w1) \<Longrightarrow> Q x w1"
  by (simp add: wp_def)

lemma wp_wfor:
  assumes "P w" and "\<And>x v. x \<in> set xs \<Longrightarrow> P v \<Longrightarrow> wp (f x) (\<lambda>_. P) E v"
  shows "wp (wfor xs f) (\<lambda>_. P) E w"
  using assms
proof (induction xs arbitrary: w)
  case (Cons x xs)
  have "wp (f x) (\<lambda>_. P) E w" using Cons.prems by simp
  then show ?case
    by (simp add: wp_simps) (rule wp_conseq, assumption, use Cons in auto)
qed (simp add: wp_simps)

lemma wp_wfold:
  assumes "P s w" and "\<And>x t v. x \<in> set xs \<Longrightarrow> P t v \<Longrightarrow> wp (f x t) P E v"
  shows "wp (wfold f xs s) P E w"
  using assms
proof (induction xs arbitrary: s w)
  case (Cons x xs)
  have "wp (f x s) P E w" using Cons.prems by simp
  then show ?case
    by (simp add: wp_simps) (rule wp_conseq, assumption, use Cons in auto)
qed (simp add: wp_simps)

lemma wp_wbindI: "wp m (\<lambda>x. wp (f x) Q E) E w \<Longrightarrow> wp (wbind m f) Q E w"
  by (simp add: wp_wbind)

lemma wp_wseqI: "wp m (\<lambda>_. wp n Q E) E w \<Longrightarrow> wp (wseq m n) Q E w"
  by (simp add: wp_wseq)

lemma wp_wcatchI: "wp m Q (\<lambda>e. wp (h e) Q E) w \<Longrightarrow> wp (wcatch m h) Q E w"
  by (simp add: wp_wcatch)

lemma wp_wget [wp_simps]: "wp (wget f) Q E w = Q (f w) w"
  by (simp add: wp_def wget_def)

lemma wp_wmod [wp_simps]: "wp (wmod f) Q E w = Q () (f w)"
  by (simp add: wp_def wmod_def)

lemma wp_wlift [wp_simps]: "wp (wlift r) Q E w = (case r of Inl e \<Rightarrow> E e w | Inr x \<Rightarrow> Q x w)"
  by (simp add: wp_def wlift_def)

lemma wp_conj:
  "wp m Q E w \<Longrightarrow> wp m Q2 E2 w \<Longrightarrow> wp m (\<lambda>x v. Q x v \<and> Q2 x v) (\<lambda>e v. E e v \<and> E2 e v) w"
  by (auto simp: wp_def split: prod.splits sum.splits)

lemma wp_true: "wp m (\<lambda>_ _. True) (\<lambda>_ _. True) w"
  by (simp add: wp_def split: prod.split sum.split)

text \<open>What a statement's normal end establishes is decided by its last part.\<close>

definition ends :: "('a \<Rightarrow> 'w \<Rightarrow> bool) \<Rightarrow> ('w, 'e, 'a) stmt \<Rightarrow> bool" where
  "ends Q m \<longleftrightarrow> (\<forall>w. wp m Q (\<lambda>_ _. True) w)"

named_theorems ends_intros \<open>what the last statement establishes\<close>

lemma ends_wbind [ends_intros]: "(\<And>x. ends Q (f x)) \<Longrightarrow> ends Q (wbind m f)"
  unfolding ends_def wp_wbind by (auto intro: wp_conseq [OF wp_true])

lemma ends_wseq [ends_intros]: "ends Q n \<Longrightarrow> ends Q (wseq m n)"
  unfolding wseq_def by (rule ends_wbind)

lemma ends_wraise [ends_intros]: "ends Q (wraise e)"
  by (simp add: ends_def wp_wraise)

lemma ends_if [ends_intros]: "(b \<Longrightarrow> ends Q m) \<Longrightarrow> (\<not> b \<Longrightarrow> ends Q n) \<Longrightarrow> ends Q (if b then m else n)"
  by simp

lemma ends_case_sum [ends_intros]:
  "(\<And>e. r = Inl e \<Longrightarrow> ends Q (f e)) \<Longrightarrow> (\<And>x. r = Inr x \<Longrightarrow> ends Q (g x)) \<Longrightarrow> ends Q (case r of Inl e \<Rightarrow> f e | Inr x \<Rightarrow> g x)"
  by (cases r) simp_all

lemma ends_case_option [ends_intros]:
  "(r = None \<Longrightarrow> ends Q f) \<Longrightarrow> (\<And>x. r = Some x \<Longrightarrow> ends Q (g x)) \<Longrightarrow> ends Q (case r of None \<Rightarrow> f | Some x \<Rightarrow> g x)"
  by (cases r) simp_all

lemma ends_case_prod [ends_intros]:
  "(\<And>x y. p = (x, y) \<Longrightarrow> ends Q (f x y)) \<Longrightarrow> ends Q (case p of (x, y) \<Rightarrow> f x y)"
  by (cases p) simp

lemma ends_Let [ends_intros]: "ends Q (f x) \<Longrightarrow> ends Q (let y = x in f y)"
  by simp

section \<open>Invariants\<close>

definition always :: "('w \<Rightarrow> bool) \<Rightarrow> ('w, 'e, 'a) stmt \<Rightarrow> bool" where
  "always I m \<longleftrightarrow> (\<forall>w. I w \<longrightarrow> I (snd (m w)))"

named_theorems always_intros \<open>statements that keep an invariant of the state\<close>

lemma always_wret [always_intros]: "always I (wret x)"
  by (simp add: always_def wret_def)

lemma always_wraise [always_intros]: "always I (wraise e)"
  by (simp add: always_def wraise_def)

lemma always_wget [always_intros]: "always I (wget f)"
  by (simp add: always_def wget_def)

lemma always_wlift [always_intros]: "always I (wlift r)"
  by (simp add: always_def wlift_def)

lemma always_wmod: "(\<And>w. I w \<Longrightarrow> I (f w)) \<Longrightarrow> always I (wmod f)"
  by (simp add: always_def wmod_def)

lemma always_wbind [always_intros]:
  assumes "always I m" and "\<And>x. always I (f x)"
  shows "always I (wbind m f)"
  using assms unfolding always_def wbind_def
  by (auto split: prod.split sum.split)

lemma always_wseq [always_intros]: "always I m \<Longrightarrow> always I n \<Longrightarrow> always I (wseq m n)"
  unfolding wseq_def by (rule always_wbind)

lemma always_wcatch [always_intros]:
  assumes "always I m" and "\<And>e. always I (h e)"
  shows "always I (wcatch m h)"
  using assms unfolding always_def wcatch_def
  by (auto split: prod.split sum.split)

lemma always_wtry [always_intros]: "always I m \<Longrightarrow> always I (wtry m)"
  by (simp add: always_def wtry_def case_prod_beta)

lemma always_wfor [always_intros]: "(\<And>x. always I (f x)) \<Longrightarrow> always I (wfor xs f)"
  by (induction xs) (auto intro: always_intros)

lemma always_wfold [always_intros]: "(\<And>x s. always I (f x s)) \<Longrightarrow> always I (wfold f xs s)"
  by (induction xs arbitrary: s) (auto intro: always_intros)

lemma always_if [always_intros]: "(b \<Longrightarrow> always I m) \<Longrightarrow> (\<not> b \<Longrightarrow> always I n) \<Longrightarrow> always I (if b then m else n)"
  by simp

lemma always_case_sum [always_intros]:
  "(\<And>e. r = Inl e \<Longrightarrow> always I (f e)) \<Longrightarrow> (\<And>x. r = Inr x \<Longrightarrow> always I (g x)) \<Longrightarrow> always I (case r of Inl e \<Rightarrow> f e | Inr x \<Rightarrow> g x)"
  by (cases r) simp_all

lemma always_case_option [always_intros]:
  "(r = None \<Longrightarrow> always I f) \<Longrightarrow> (\<And>x. r = Some x \<Longrightarrow> always I (g x)) \<Longrightarrow> always I (case r of None \<Rightarrow> f | Some x \<Rightarrow> g x)"
  by (cases r) simp_all

lemma always_case_prod [always_intros]:
  "(\<And>x y. p = (x, y) \<Longrightarrow> always I (f x y)) \<Longrightarrow> always I (case p of (x, y) \<Rightarrow> f x y)"
  by (cases p) simp

lemma always_Let [always_intros]: "always I (f x) \<Longrightarrow> always I (let y = x in f y)"
  by simp

section \<open>Invariants with a fact on the value\<close>

text \<open>A statement that keeps \<open>I\<close> at either end and whose value satisfies \<open>P\<close>.\<close>

definition yields :: "('w \<Rightarrow> bool) \<Rightarrow> ('a \<Rightarrow> bool) \<Rightarrow> ('w, 'e, 'a) stmt \<Rightarrow> bool" where
  "yields I P m \<longleftrightarrow> (\<forall>w. I w \<longrightarrow> wp m (\<lambda>x v. P x \<and> I v) (\<lambda>_. I) w)"

named_theorems yields_intros \<open>statements that keep an invariant and whose value has a property\<close>

lemma yields_wret [yields_intros]: "P x \<Longrightarrow> yields I P (wret x)"
  by (simp add: yields_def wp_simps)

lemma yields_wraise [yields_intros]: "yields I P (wraise e)"
  by (simp add: yields_def wp_simps)

lemma yields_wget: "(\<And>w. I w \<Longrightarrow> P (f w)) \<Longrightarrow> yields I P (wget f)"
  by (simp add: yields_def wp_simps)

lemma yields_wmod: "(\<And>w. I w \<Longrightarrow> I (f w)) \<Longrightarrow> P () \<Longrightarrow> yields I P (wmod f)"
  by (simp add: yields_def wp_simps)

lemma yields_wlift: "(\<And>x. r = Inr x \<Longrightarrow> P x) \<Longrightarrow> yields I P (wlift r)"
  by (auto simp: yields_def wp_simps split: sum.split)

lemma yields_wbind:
  assumes "yields I P m" and "\<And>x. P x \<Longrightarrow> yields I Q (f x)"
  shows "yields I Q (wbind m f)"
  unfolding yields_def wp_wbind
proof (intro allI impI)
  fix w assume "I w"
  then have "wp m (\<lambda>x v. P x \<and> I v) (\<lambda>_. I) w" using assms(1) by (simp add: yields_def)
  then show "wp m (\<lambda>x. wp (f x) (\<lambda>x v. Q x \<and> I v) (\<lambda>_. I)) (\<lambda>_. I) w"
    by (rule wp_conseq) (use assms(2) in \<open>simp_all add: yields_def\<close>)
qed

lemma yields_wseq [yields_intros]: "yields I (\<lambda>_. True) m \<Longrightarrow> yields I Q n \<Longrightarrow> yields I Q (wseq m n)"
  unfolding wseq_def by (rule yields_wbind)

text \<open>A check that raises: what follows may rely on it.\<close>

lemma yields_check [yields_intros]: "(\<And>x. r = Inr x \<Longrightarrow> yields I Q (f x)) \<Longrightarrow> yields I Q (wbind (wlift r) f)"
  by (rule yields_wbind [where P = "\<lambda>x. r = Inr x"]) (simp_all add: yields_wlift)

lemma yields_if [yields_intros]: "(b \<Longrightarrow> yields I P m) \<Longrightarrow> (\<not> b \<Longrightarrow> yields I P n) \<Longrightarrow> yields I P (if b then m else n)"
  by simp

lemma yields_case_option [yields_intros]:
  "(r = None \<Longrightarrow> yields I P f) \<Longrightarrow> (\<And>x. r = Some x \<Longrightarrow> yields I P (g x)) \<Longrightarrow> yields I P (case r of None \<Rightarrow> f | Some x \<Rightarrow> g x)"
  by (cases r) simp_all

lemma yields_weaken: "yields I P m \<Longrightarrow> (\<And>x. P x \<Longrightarrow> Q x) \<Longrightarrow> yields I Q m"
  unfolding yields_def by (auto elim!: wp_conseq)

lemma yields_wcatch:
  assumes "yields I P m" and "\<And>e. yields I P (h e)"
  shows "yields I P (wcatch m h)"
  unfolding yields_def wp_wcatch
proof (intro allI impI)
  fix w assume "I w"
  then have "wp m (\<lambda>x v. P x \<and> I v) (\<lambda>_. I) w" using assms(1) by (simp add: yields_def)
  then show "wp m (\<lambda>x v. P x \<and> I v) (\<lambda>e. wp (h e) (\<lambda>x v. P x \<and> I v) (\<lambda>_. I)) w"
    by (rule wp_conseq) (use assms(2) in \<open>simp_all add: yields_def\<close>)
qed

lemma yields_wtry:
  assumes "yields I P m" and "\<And>x. P x \<Longrightarrow> Q (Inr x)" and "\<And>e. Q (Inl e)"
  shows "yields I Q (wtry m)"
  unfolding yields_def wp_wtry
proof (intro allI impI)
  fix w assume "I w"
  then have "wp m (\<lambda>x v. P x \<and> I v) (\<lambda>_. I) w" using assms(1) by (simp add: yields_def)
  then show "wp m (\<lambda>x v. Q (Inr x) \<and> I v) (\<lambda>e v. Q (Inl e) \<and> I v) w"
    by (rule wp_conseq) (use assms(2, 3) in simp_all)
qed

lemma yields_end: "yields I P m \<Longrightarrow> I w \<Longrightarrow> I (snd (m w))"
  unfolding yields_def wp_def by (cases "m w"; cases "fst (m w)") (auto dest!: spec [of _ w])

end
