(* ===== verification/Workflow_Monad.thy ===== *)
theory Workflow_Monad
  imports Storage_Lifecycle Statements
begin

text \<open>
  The world of the review workflow and its statements. A statement of \<open>WorkflowRunner\<close> reads and
  changes the database under other processes that share it: whenever the workflow waits for something
  outside (git, a model), the next move of the environment takes place, an arbitrary change of the
  database after some seconds. A statement ends normally or with an exception, and the world it leaves
  is kept in both cases. \<open>wp\<close> is the weakest precondition for a pair of postconditions.
\<close>

section \<open>Statements\<close>

text \<open>\<open>TaskControlRequested\<close> and every other exception.\<close>

datatype wf_exc = Control control_action string | Failure py_exc

fun wf_exc_text :: "wf_exc \<Rightarrow> string" where
  "wf_exc_text (Control _ reason) = reason"
| "wf_exc_text (Failure e) = exc_text e"

record report =
  re_status :: string
  re_gate :: string
  re_summary :: string
  re_findings :: "json_dict list"

record world =
  wd_db :: db
  wd_now :: instant
  wd_moves :: "(instant \<times> (db \<Rightarrow> db)) list"
  wd_reports :: "(string \<times> report \<times> string) list"

type_synonym 'a wf = "(world, wf_exc, 'a) stmt"

definition lift_r :: "'a py_result \<Rightarrow> 'a wf" where
  "lift_r r w = (case r of Inl e \<Rightarrow> (Inl (Failure e), w) | Inr x \<Rightarrow> (Inr x, w))"

definition db_get :: "(db \<Rightarrow> 'a) \<Rightarrow> 'a wf" where
  "db_get f w = (Inr (f (wd_db w)), w)"

text \<open>A write of the database: a transaction that changes it or raises and leaves it.\<close>

definition db_do :: "(instant \<Rightarrow> db \<Rightarrow> ('a \<times> db) py_result) \<Rightarrow> 'a wf" where
  "db_do f w = (case f (wd_now w) (wd_db w) of Inl e \<Rightarrow> (Inl (Failure e), w) | Inr (x, d) \<Rightarrow> (Inr x, w\<lparr>wd_db := d\<rparr>))"

definition unit_r :: "(instant \<Rightarrow> db \<Rightarrow> db py_result) \<Rightarrow> instant \<Rightarrow> db \<Rightarrow> (unit \<times> db) py_result" where
  "unit_r f now d = bind_r (f now d) (\<lambda>d1. Inr ((), d1))"

definition db_set :: "(instant \<Rightarrow> db \<Rightarrow> db py_result) \<Rightarrow> unit wf" where
  "db_set f = db_do (unit_r f)"

definition env_step :: "unit wf" where
  "env_step w =
     (case wd_moves w of
        [] \<Rightarrow> (Inr (), w)
      | (seconds, f) # moves \<Rightarrow>
          (Inr (), w\<lparr>wd_db := f (wd_db w), wd_now := wd_now w + seconds, wd_moves := moves\<rparr>))"

text \<open>A call outside: others move, then its answer or exception.\<close>

definition external :: "'a py_result \<Rightarrow> 'a wf" where
  "external r = wseq env_step (lift_r r)"

definition wf_event :: "string \<Rightarrow> string \<Rightarrow> string \<Rightarrow> string \<Rightarrow> string \<Rightarrow> json_dict \<Rightarrow> unit wf" where
  "wf_event task_id typ msg stage severity payload =
     db_set (insert_event (Some task_id) typ severity (Some stage) msg payload)"

lemma run_lift: "wbind (lift_r (Inr x)) f w = f x w"
  by (simp add: wbind_def lift_r_def)

lemma run_write: "wseq (db_set (\<lambda>now d. Inr (g now d))) n w = n (w\<lparr>wd_db := g (wd_now w) (wd_db w)\<rparr>)"
  by (simp add: wseq_def wbind_def db_set_def db_do_def unit_r_def)

section \<open>Weakest preconditions\<close>

lemma wp_lift_r [wp_simps]: "wp (lift_r r) Q E w = (case r of Inl e \<Rightarrow> E (Failure e) w | Inr x \<Rightarrow> Q x w)"
  by (simp add: wp_def lift_r_def split: sum.split)

lemma wp_db_get [wp_simps]: "wp (db_get f) Q E w = Q (f (wd_db w)) w"
  by (simp add: wp_def db_get_def)

lemma wp_db_do [wp_simps]:
  "wp (db_do f) Q E w =
     (case f (wd_now w) (wd_db w) of Inl e \<Rightarrow> E (Failure e) w | Inr (x, d) \<Rightarrow> Q x (w\<lparr>wd_db := d\<rparr>))"
  by (simp add: wp_def db_do_def split: prod.split sum.split)

lemma wp_db_set [wp_simps]:
  "wp (db_set f) Q E w =
     (case f (wd_now w) (wd_db w) of Inl e \<Rightarrow> E (Failure e) w | Inr d \<Rightarrow> Q () (w\<lparr>wd_db := d\<rparr>))"
  by (cases "f (wd_now w) (wd_db w)") (simp_all add: db_set_def wp_db_do unit_r_def)

lemma wp_external [wp_simps]:
  "wp (external r) Q E w = wp env_step (\<lambda>_ w1. case r of Inl e \<Rightarrow> E (Failure e) w1 | Inr x \<Rightarrow> Q x w1) E w"
  by (simp add: external_def wp_wseq) (simp add: wp_def lift_r_def split: prod.split sum.split)

text \<open>A relation every move of the environment respects holds across a wait.\<close>

definition moves_keep :: "(db \<Rightarrow> db \<Rightarrow> bool) \<Rightarrow> world \<Rightarrow> bool" where
  "moves_keep R w \<longleftrightarrow> (\<forall>m \<in> set (wd_moves w). \<forall>d. R d (snd m d))"

lemma moves_keep_suffix: "moves_keep R w \<Longrightarrow> set (wd_moves w1) \<subseteq> set (wd_moves w) \<Longrightarrow> moves_keep R w1"
  by (auto simp: moves_keep_def)

lemma moves_keep_mono: "moves_keep R w \<Longrightarrow> (\<And>d d1. R d d1 \<Longrightarrow> S d d1) \<Longrightarrow> moves_keep S w"
  by (auto simp: moves_keep_def)

lemma wp_env_step [wp_simps]:
  "wp env_step Q E w =
     (case wd_moves w of [] \<Rightarrow> Q () w
      | (s, f) # ms \<Rightarrow> Q () (w\<lparr>wd_db := f (wd_db w), wd_now := wd_now w + s, wd_moves := ms\<rparr>))"
  by (simp add: wp_def env_step_def split: list.split prod.split)

text \<open>An invariant of the database that the statement and the environment keep, whether the statement
  ends normally or not.\<close>

definition settled :: "(db \<Rightarrow> bool) \<Rightarrow> world \<Rightarrow> bool" where
  "settled I w \<longleftrightarrow> I (wd_db w) \<and> moves_keep (\<lambda>d d1. I d \<longrightarrow> I d1) w"

definition keeps :: "(db \<Rightarrow> bool) \<Rightarrow> 'a wf \<Rightarrow> bool" where
  "keeps I m \<longleftrightarrow> (\<forall>w. settled I w \<longrightarrow> I (wd_db (snd (m w))) \<and> set (wd_moves (snd (m w))) \<subseteq> set (wd_moves w))"

lemma keeps_settled: "keeps I m \<Longrightarrow> settled I w \<Longrightarrow> settled I (snd (m w))"
  by (auto simp: keeps_def settled_def intro: moves_keep_suffix)

lemma keeps_moves: "keeps I m \<Longrightarrow> settled I w \<Longrightarrow> set (wd_moves (snd (m w))) \<subseteq> set (wd_moves w)"
  by (simp add: keeps_def)

lemma keepsI:
  assumes "\<And>w. settled I w \<Longrightarrow> I (wd_db (snd (m w))) \<and> set (wd_moves (snd (m w))) \<subseteq> set (wd_moves w)"
  shows "keeps I m"
  using assms by (simp add: keeps_def)

text \<open>A statement that keeps an invariant ends in it either way.\<close>

lemma wp_keeps:
  assumes "keeps I m" and "settled I w"
  shows "wp m (\<lambda>_ w1. settled I w1 \<and> set (wd_moves w1) \<subseteq> set (wd_moves w))
    (\<lambda>_ w1. settled I w1 \<and> set (wd_moves w1) \<subseteq> set (wd_moves w)) w"
  using keeps_settled [OF assms] keeps_moves [OF assms] by (auto simp: wp_def split: prod.split sum.split)

named_theorems keeps_intros \<open>statements that keep an invariant\<close>

lemma keeps_wret [keeps_intros]: "keeps I (wret x)"
  by (simp add: keeps_def settled_def wret_def)

lemma keeps_wraise [keeps_intros]: "keeps I (wraise e)"
  by (simp add: keeps_def settled_def wraise_def)

lemma keeps_wbind [keeps_intros]:
  assumes "keeps I m" and "\<And>x. keeps I (f x)"
  shows "keeps I (wbind m f)"
proof (rule keepsI)
  fix w assume w: "settled I w"
  note s = keeps_settled [OF assms(1) w] keeps_moves [OF assms(1) w]
  show "I (wd_db (snd (wbind m f w))) \<and> set (wd_moves (snd (wbind m f w))) \<subseteq> set (wd_moves w)"
  proof (cases "m w")
    case (Pair r w1)
    with s have "settled I w1" "set (wd_moves w1) \<subseteq> set (wd_moves w)" by simp_all
    then have "I (wd_db (snd (f x w1))) \<and> set (wd_moves (snd (f x w1))) \<subseteq> set (wd_moves w)" for x
      using assms(2) [of x] by (auto simp: keeps_def dest: subsetD)
    then show ?thesis
      using Pair \<open>settled I w1\<close> \<open>set (wd_moves w1) \<subseteq> set (wd_moves w)\<close>
      by (cases r) (simp_all add: wbind_def settled_def)
  qed
qed

lemma keeps_wseq [keeps_intros]: "keeps I m \<Longrightarrow> keeps I n \<Longrightarrow> keeps I (wseq m n)"
  unfolding wseq_def by (rule keeps_wbind)

lemma keeps_wcatch [keeps_intros]:
  assumes "keeps I m" and "\<And>e. keeps I (h e)"
  shows "keeps I (wcatch m h)"
proof (rule keepsI)
  fix w assume w: "settled I w"
  note s = keeps_settled [OF assms(1) w] keeps_moves [OF assms(1) w]
  show "I (wd_db (snd (wcatch m h w))) \<and> set (wd_moves (snd (wcatch m h w))) \<subseteq> set (wd_moves w)"
  proof (cases "m w")
    case (Pair r w1)
    with s have "settled I w1" "set (wd_moves w1) \<subseteq> set (wd_moves w)" by simp_all
    then have "I (wd_db (snd (h e w1))) \<and> set (wd_moves (snd (h e w1))) \<subseteq> set (wd_moves w)" for e
      using assms(2) [of e] by (auto simp: keeps_def dest: subsetD)
    then show ?thesis
      using Pair \<open>settled I w1\<close> \<open>set (wd_moves w1) \<subseteq> set (wd_moves w)\<close>
      by (cases r) (simp_all add: wcatch_def settled_def)
  qed
qed

lemma keeps_wtry [keeps_intros]: "keeps I m \<Longrightarrow> keeps I (wtry m)"
  by (simp add: keeps_def wtry_def case_prod_beta)

lemma keeps_wfor [keeps_intros]: "(\<And>x. keeps I (f x)) \<Longrightarrow> keeps I (wfor xs f)"
  by (induction xs) (auto intro: keeps_intros)

lemma keeps_wfold [keeps_intros]: "(\<And>x s. keeps I (f x s)) \<Longrightarrow> keeps I (wfold f xs s)"
  by (induction xs arbitrary: s) (auto intro: keeps_intros)

lemma keeps_if [keeps_intros]: "(b \<Longrightarrow> keeps I m) \<Longrightarrow> (\<not> b \<Longrightarrow> keeps I n) \<Longrightarrow> keeps I (if b then m else n)"
  by simp

lemma keeps_case_sum [keeps_intros]:
  "(\<And>e. r = Inl e \<Longrightarrow> keeps I (f e)) \<Longrightarrow> (\<And>x. r = Inr x \<Longrightarrow> keeps I (g x)) \<Longrightarrow> keeps I (case r of Inl e \<Rightarrow> f e | Inr x \<Rightarrow> g x)"
  by (cases r) simp_all

lemma keeps_case_option [keeps_intros]:
  "(r = None \<Longrightarrow> keeps I f) \<Longrightarrow> (\<And>x. r = Some x \<Longrightarrow> keeps I (g x)) \<Longrightarrow> keeps I (case r of None \<Rightarrow> f | Some x \<Rightarrow> g x)"
  by (cases r) simp_all

lemma keeps_case_prod [keeps_intros]:
  "(\<And>x y. p = (x, y) \<Longrightarrow> keeps I (f x y)) \<Longrightarrow> keeps I (case p of (x, y) \<Rightarrow> f x y)"
  by (cases p) simp

lemma keeps_Let [keeps_intros]: "keeps I (f x) \<Longrightarrow> keeps I (let y = x in f y)"
  by simp

lemma keeps_lift_r [keeps_intros]: "keeps I (lift_r r)"
  by (auto simp: keeps_def settled_def lift_r_def split: sum.split)

lemma keeps_db_get [keeps_intros]: "keeps I (db_get f)"
  by (simp add: keeps_def settled_def db_get_def)

lemma keeps_db_do: "(\<And>now d x d1. f now d = Inr (x, d1) \<Longrightarrow> I d \<Longrightarrow> I d1) \<Longrightarrow> keeps I (db_do f)"
  unfolding keeps_def db_do_def settled_def by (auto split: sum.split prod.split)

lemma keeps_db_set: "(\<And>now d d1. f now d = Inr d1 \<Longrightarrow> I d \<Longrightarrow> I d1) \<Longrightarrow> keeps I (db_set f)"
  unfolding db_set_def by (rule keeps_db_do) (auto simp: unit_r_def bind_r_Inr)

lemma keeps_env_step [keeps_intros]: "keeps I env_step"
  by (auto simp: keeps_def settled_def env_step_def moves_keep_def split: list.split prod.split)

lemma keeps_external [keeps_intros]: "keeps I (external r)"
  unfolding external_def by (intro keeps_intros)

lemma ends_db_set: "(\<And>now d d1 w. f now d = Inr d1 \<Longrightarrow> Q () (w\<lparr>wd_db := d1\<rparr>)) \<Longrightarrow> ends Q (db_set f)"
  by (auto simp: ends_def wp_db_set split: sum.split)

end
