(* ===== verification/Report_Html.thy ===== *)
theory Report_Html
  imports Context Judge "HOL-Library.List_Lexorder"
begin

text \<open>
  The static report page of a review, the functions at the head of \<open>review_v2/workflow.py\<close> and the page of
  \<open>_write_report\<close>: findings grouped by severity, blocking ones first, every value escaped. Texts are the
  bytes of their UTF-8 encoding, so the few labels that are not ASCII are written as bytes.
\<close>

section \<open>Escaping\<close>

text \<open>\<open>html.escape\<close> with quotes.\<close>

definition escape_char :: "char \<Rightarrow> string" where
  "escape_char c =
     (if c = CHR ''&'' then ''&amp;'' else if c = CHR ''<'' then ''&lt;'' else if c = CHR ''>'' then ''&gt;''
      else if c = CHR 0x22 then ''&quot;'' else if c = CHR 0x27 then ''&#x27;'' else [c])"

definition html_escape :: "string \<Rightarrow> string" where
  "html_escape s = concat (map escape_char s)"

section \<open>Findings\<close>

text \<open>A finding as the judge's dict, which the report is given.\<close>

definition judged_dict :: "judged \<Rightarrow> json_dict" where
  "judged_dict f =
     [(''file_path'', JStr (jf_file_path f)), (''line'', case jf_line f of None \<Rightarrow> JNull | Some l \<Rightarrow> JInt l),
      (''severity'', JStr (severity_text (jf_severity f))), (''title'', JStr (jf_title f)), (''detail'', JStr (jf_detail f)),
      (''suggestion'', jf_suggestion f), (''confidence'', JFloat (jf_confidence f)),
      (''source_review_run_id'', jf_source_run f), (''source_reviewer'', jf_source_reviewer f),
      (''finding_id'', JStr (jf_finding_id f))]"

definition SEVERITY_ORDER :: "string list" where
  "SEVERITY_ORDER = [''fatal'', ''high'', ''medium'', ''low'', ''info'']"

definition BLOCKING_SEVERITIES :: "string list" where
  "BLOCKING_SEVERITIES = [''fatal'', ''high'', ''medium'']"

definition finding_severity :: "json_dict \<Rightarrow> string" where
  "finding_severity item =
     (let severity = py_lower (py_str (py_or (dget item ''effective_severity'') (py_or (dget item ''severity'')
            (py_or (dget item ''original_severity'') (JStr ''info'')))))
      in if severity \<in> set SEVERITY_ORDER then severity else ''info'')"

definition finding_location :: "json_dict \<Rightarrow> string" where
  "finding_location item =
     (let path = py_str (py_or (dget item ''file_path'') (py_or (dget item ''file'') (JStr ''-''))); line = dget item ''line''
      in if truthy line then path @ '':'' @ py_str line else path)"

fun index_of :: "string \<Rightarrow> string list \<Rightarrow> nat" where
  "index_of x [] = 0"
| "index_of x (y # ys) = (if x = y then 0 else Suc (index_of x ys))"

definition finding_rank :: "json_dict \<Rightarrow> nat" where
  "finding_rank item = index_of (finding_severity item) SEVERITY_ORDER"

definition severity_group_title :: "string \<Rightarrow> nat \<Rightarrow> string" where
  "severity_group_title severity n =
     (if severity \<in> set BLOCKING_SEVERITIES then ''Blocking'' else ''Non-blocking'') @ '' '' @ [CHR 0xC2, CHR 0xB7] @ '' '' @ severity
       @ '' ('' @ str_nat n @ '')''"

section \<open>The page\<close>

definition unnamed_title :: string where
  "unnamed_title = [CHR 0xE6, CHR 0x9C, CHR 0xAA, CHR 0xE5, CHR 0x91, CHR 0xBD, CHR 0xE5, CHR 0x90, CHR 0x8D, CHR 0xE9, CHR 0x97,
     CHR 0xAE, CHR 0xE9, CHR 0xA2, CHR 0x98]"

definition no_findings_text :: string where
  "no_findings_text = [CHR 0xE6, CHR 0x9C, CHR 0xAA, CHR 0xE5, CHR 0x8F, CHR 0x91, CHR 0xE7, CHR 0x8E, CHR 0xB0, CHR 0xE9, CHR 0x97,
     CHR 0xAE, CHR 0xE9, CHR 0xA2, CHR 0x98, CHR 0xE3, CHR 0x80, CHR 0x82]"

definition finding_list_text :: string where
  "finding_list_text = [CHR 0xE9, CHR 0x97, CHR 0xAE, CHR 0xE9, CHR 0xA2, CHR 0x98, CHR 0xE5, CHR 0x88, CHR 0x97, CHR 0xE8, CHR 0xA1,
     CHR 0xA8]"

definition finding_card :: "nat \<times> json_dict \<Rightarrow> string" where
  "finding_card numbered =
     (let (index, item) = numbered;
          severity = finding_severity item;
          blocking = severity \<in> set BLOCKING_SEVERITIES;
          layer_label = (if blocking then ''Blocking'' else ''Non-blocking'');
          layer_class = (if blocking then ''blocking'' else ''non-blocking'');
          reviewer = py_str (py_or (dget item ''source_reviewer'') (JStr []));
          reviewer_badge = (if reviewer \<noteq> [] then ''<span class=\"badge\">reviewer: '' @ html_escape reviewer @ ''</span>'' else [])
      in ''\<newline>    <article class=\"finding severity-'' @ severity @ ''\">\<newline>      <h3>'' @ str_nat index @ ''. ''
         @ html_escape (py_str (py_or (dget item ''title'') (JStr unnamed_title)))
         @ ''</h3>\<newline>      <p>\<newline>        <span class=\"badge\">'' @ html_escape severity
         @ ''</span>\<newline>        <span class=\"badge '' @ layer_class @ ''\">'' @ html_escape layer_label
         @ ''</span>\<newline>        <span class=\"badge\">'' @ html_escape (py_str (py_or (dget item ''status'') (JStr ''open'')))
         @ ''</span>\<newline>        '' @ reviewer_badge @ ''\<newline>        <code>'' @ html_escape (finding_location item)
         @ ''</code>\<newline>      </p>\<newline>      <p>'' @ html_escape (py_str (py_or (dget item ''detail'') (JStr [])))
         @ ''</p>\<newline>      ''
         @ (if truthy (dget item ''suggestion'') then ''<pre>'' @ html_escape (py_str (dget item ''suggestion'')) @ ''</pre>'' else [])
         @ ''\<newline>    </article>\<newline>    '')"

definition severity_section :: "(string \<times> json_dict list) list \<Rightarrow> string \<Rightarrow> string list" where
  "severity_section grouped severity =
     (let items = (case map_of grouped severity of None \<Rightarrow> [] | Some xs \<Rightarrow> xs)
      in if items = [] then []
         else
           [''\<newline>            <section class=\"severity-group severity-'' @ severity @ ''\">\<newline>              <h3>''
            @ html_escape (severity_group_title severity (length items)) @ ''</h3>\<newline>              ''
            @ join ''\<newline>'' (map finding_card (zip [1..<length items + 1] items))
            @ ''\<newline>            </section>\<newline>            ''])"

definition group_findings :: "json_dict list \<Rightarrow> (string \<times> json_dict list) list" where
  "group_findings findings =
     foldl (\<lambda>grouped item. dict_append (finding_severity item) item grouped) []
       (sort_key (\<lambda>item. (finding_rank item, finding_location item)) findings)"

definition render_static_findings :: "json_dict list \<Rightarrow> string" where
  "render_static_findings findings =
     (if findings = [] then ''<p>'' @ no_findings_text @ ''</p>''
      else join ''\<newline>'' (concat (map (severity_section (group_findings findings)) SEVERITY_ORDER)))"

text \<open>The page of \<open>_write_report\<close>; the title, the state and the summary are not escaped by the source.\<close>

definition report_style :: string where
  "report_style =
     ''<!doctype html><meta charset='' @ [CHR 0x27] @ ''utf-8'' @ [CHR 0x27] @ ''>''
     @ ''<style>''
     @ ''body{font-family:-apple-system,BlinkMacSystemFont,'' @ [CHR 0x27] @ ''Segoe UI'' @ [CHR 0x27] @ '',sans-serif;margin:32px;color:#172033;background:#f6f8fb}''
     @ ''article,section{background:#fff}''
     @ ''.severity-group{border:1px solid #d9e1ec;border-radius:8px;padding:14px;margin:12px 0 18px}''
     @ ''.severity-fatal{border-left:5px solid #991b1b}.severity-high{border-left:5px solid #dc2626}''
     @ ''.severity-medium{border-left:5px solid #d97706}.severity-low{border-left:5px solid #2563eb}.severity-info{border-left:5px solid #64748b}''
     @ ''.finding{border:1px solid #d9e1ec;border-radius:8px;padding:14px;margin:12px 0}''
     @ ''.badge{display:inline-block;border:1px solid #d0d7e2;border-radius:999px;padding:1px 8px;margin-right:6px;font-size:12px}''
     @ ''.blocking{background:#fee2e2;border-color:#fecaca;color:#991b1b}.non-blocking{background:#ecfdf5;border-color:#bbf7d0;color:#047857}''
     @ ''code{word-break:break-all}pre{white-space:pre-wrap;word-break:break-word;background:#f7f7f7;padding:12px;border-radius:8px}''
     @ ''</style>''"

definition report_page :: "string \<Rightarrow> string \<Rightarrow> string \<Rightarrow> string \<Rightarrow> json_dict list \<Rightarrow> string" where
  "report_page task_id status gate_status summary findings =
     report_style @ ''<title>CR Report '' @ task_id @ ''</title>'' @ ''<h1>CR Report '' @ task_id @ ''</h1>''
       @ ''<p>Status: '' @ status @ '' / '' @ gate_status @ ''</p>'' @ ''<p>'' @ summary @ ''</p>''
       @ ''<h2>'' @ finding_list_text @ '' ('' @ str_nat (length findings) @ '')</h2>'' @ render_static_findings findings"

section \<open>The markup is the page's own\<close>

abbreviation tags :: "string \<Rightarrow> nat" where
  "tags s \<equiv> count_list s (CHR ''<'')"

lemma tags_escape [simp]: "tags (html_escape s) = 0"
  unfolding html_escape_def by (induction s) (simp_all add: escape_char_def)

lemma tags_digits [simp]: "tags (str_nat n) = 0"
  using str_nat_digits [of n] by (auto simp: count_list_0_iff py_isdigit_def)

lemma severity_known: "finding_severity item \<in> set SEVERITY_ORDER"
  by (auto simp: finding_severity_def Let_def SEVERITY_ORDER_def)

lemma tags_severity: "s \<in> set SEVERITY_ORDER \<Longrightarrow> tags s = 0"
  by (auto simp: SEVERITY_ORDER_def)

lemma tags_finding_severity [simp]: "tags (finding_severity item) = 0"
  by (rule tags_severity [OF severity_known])

lemma tags_join: "tags (join ''\<newline>'' xs) = sum_list (map tags xs)"
  by (induction "''\<newline>''" xs rule: join.induct) simp_all

text \<open>The tags of one finding: those of the card, of the reviewer's badge and of the suggestion.\<close>

definition card_tags :: "json_dict \<Rightarrow> nat" where
  "card_tags item = 16 + (if py_str (py_or (dget item ''source_reviewer'') (JStr [])) \<noteq> [] then 2 else 0)
     + (if truthy (dget item ''suggestion'') then 2 else 0)"

lemma tags_card: "tags (finding_card (n, item)) = card_tags item"
  by (simp add: finding_card_def card_tags_def Let_def)

lemma dict_append_lookup:
  "map_of (dict_append k v d) s =
     (if s = k then Some ((case map_of d k of None \<Rightarrow> [] | Some vs \<Rightarrow> vs) @ [v]) else map_of d s)"
proof -
  have upd: "map_of (map (\<lambda>(k', vs). if k' = k then (k', vs @ [v]) else (k', vs)) e) s =
      map_option (\<lambda>vs. if s = k then vs @ [v] else vs) (map_of e s)" for e
    by (induction e) auto
  have "k \<in> fst ` set d \<longleftrightarrow> map_of d k \<noteq> None" by (simp add: map_of_eq_None_iff)
  then show ?thesis
    unfolding dict_append_def upd dict_setdefault_def
    by (cases "map_of d k"; cases "map_of d s") (auto simp: map_add_def)
qed

lemma group_lookup:
  "map_of (foldl (\<lambda>g x. dict_append (k x) x g) [] xs) s =
     (if filter (\<lambda>x. k x = s) xs = [] then None else Some (filter (\<lambda>x. k x = s) xs))"
  by (induction xs rule: rev_induct) (auto simp: dict_append_lookup)

lemma tags_section:
  assumes "s \<in> set SEVERITY_ORDER"
  shows "sum_list (map tags (severity_section (group_findings fs) s)) =
    (if s \<in> finding_severity ` set fs then 4 else 0)
      + sum_list (map card_tags (filter (\<lambda>i. finding_severity i = s) (sort_key (\<lambda>i. (finding_rank i, finding_location i)) fs)))"
proof -
  let ?items = "filter (\<lambda>i. finding_severity i = s) (sort_key (\<lambda>i. (finding_rank i, finding_location i)) fs)"
  have none: "?items = [] \<longleftrightarrow> s \<notin> finding_severity ` set fs" by (auto simp: filter_empty_conv)
  have cards: "sum_list (map (tags \<circ> finding_card) (zip ns is)) = sum_list (map card_tags is)" if "length ns = length is" for ns "is"
    using that by (induction ns "is" rule: list_induct2) (simp_all add: tags_card)
  show ?thesis
  proof (cases "?items = []")
    case True
    with none show ?thesis by (simp add: severity_section_def group_findings_def group_lookup)
  next
    case False
    have "map_of (group_findings fs) s = Some ?items"
      using False by (simp add: group_findings_def group_lookup)
    with False have "severity_section (group_findings fs) s =
        [''\<newline>            <section class=\"severity-group severity-'' @ s @ ''\">\<newline>              <h3>''
            @ html_escape (severity_group_title s (length ?items)) @ ''</h3>\<newline>              ''
            @ join ''\<newline>'' (map finding_card (zip [1..<length ?items + 1] ?items))
            @ ''\<newline>            </section>\<newline>            '']"
      by (simp only: severity_section_def Let_def option.case if_False)
    moreover have "s \<in> finding_severity ` set fs" using False none by simp
    ultimately show ?thesis
      using tags_severity [OF assms] cards [of "[1..<length ?items + 1]" ?items] by (simp add: tags_join del: upt_Suc)
  qed
qed

lemma sum_by_key:
  "distinct ss \<Longrightarrow> sum_list (map (\<lambda>s. sum_list (map f (filter (\<lambda>i. g i = s) xs))) ss) =
     sum_list (map f (filter (\<lambda>i. g i \<in> set ss) xs))" for f :: "'a \<Rightarrow> nat"
proof (induction ss)
  case (Cons s ss)
  have "sum_list (map f (filter (\<lambda>i. g i = s \<or> g i \<in> set ss) xs)) =
      sum_list (map f (filter (\<lambda>i. g i = s) xs)) + sum_list (map f (filter (\<lambda>i. g i \<in> set ss) xs))"
    using Cons.prems by (induction xs) auto
  with Cons show ?case by simp
qed simp

lemma sum_concat: "sum_list (concat xss) = sum_list (map sum_list xss)" for xss :: "nat list list"
  by (induction xss) simp_all

lemma sum_present:
  "distinct ss \<Longrightarrow> finite A \<Longrightarrow> sum_list (map (\<lambda>s. if s \<in> A then c else 0) ss) = c * card (A \<inter> set ss)" for c :: nat
  by (induction ss) auto

text \<open>C6: whatever the texts of the findings, the page has exactly the tags of its own layout: four for each
  severity that occurs, and for each finding those of one card. So every finding is shown exactly once, and
  no value of a finding can add or close an element.\<close>

theorem report_markup_fixed:
  "tags (render_static_findings findings) =
     (if findings = [] then 2 else 4 * card (finding_severity ` set findings) + sum_list (map card_tags findings))"
proof (cases "findings = []")
  case False
  let ?sorted = "sort_key (\<lambda>i. (finding_rank i, finding_location i)) findings"
  have order: "distinct SEVERITY_ORDER" by (simp add: SEVERITY_ORDER_def)
  have "tags (render_static_findings findings) =
      sum_list (map (\<lambda>s. sum_list (map tags (severity_section (group_findings findings) s))) SEVERITY_ORDER)"
    using False by (simp add: render_static_findings_def tags_join map_concat sum_concat o_def)
  also have "\<dots> = sum_list (map (\<lambda>s. (if s \<in> finding_severity ` set findings then 4 else 0)
      + sum_list (map card_tags (filter (\<lambda>i. finding_severity i = s) ?sorted))) SEVERITY_ORDER)"
    by (rule arg_cong [of _ _ sum_list], rule map_cong) (simp_all add: tags_section)
  also have "\<dots> = 4 * card (finding_severity ` set findings \<inter> set SEVERITY_ORDER)
      + sum_list (map card_tags (filter (\<lambda>i. finding_severity i \<in> set SEVERITY_ORDER) ?sorted))"
    by (simp add: sum_list_addf sum_present [OF order] sum_by_key [OF order])
  also have "finding_severity ` set findings \<inter> set SEVERITY_ORDER = finding_severity ` set findings"
    using severity_known by auto
  also have "sum_list (map card_tags (filter (\<lambda>i. finding_severity i \<in> set SEVERITY_ORDER) ?sorted)) = sum_list (map card_tags findings)"
    by (simp add: severity_known sum_mset_sum_list [symmetric] mset_map)
  finally show ?thesis using False by simp
qed (simp add: render_static_findings_def no_findings_text_def)

end
