(* ===== verification/Opencode_Stream.thy ===== *)
theory Opencode_Stream
  imports Costing Json_Decode
begin

text \<open>
  The parser of the event stream of an OpenCode turn, \<open>review_v2/opencode_stream.py\<close>: one JSON object
  per line; text parts, session, tokens, cost, patches and rate limits are read off the events. A value
  of an unexpected shape raises where Python raises (\<open>.get\<close> of what is not a dict, \<open>int\<close> of a text).
\<close>

type_synonym event = json_dict

definition RATE_LIMIT_PHRASES :: "string list" where
  "RATE_LIMIT_PHRASES = [''429'', ''rate limit'', ''rate_limit'', ''ratelimit'', ''quota'', ''too many requests'',
     ''usage limit'', ''resource_exhausted'', ''free_quota_exhausted'', ''endpoint is inactive'',
     ''requires more credits'', ''add more credits'']"

definition parse_line :: "string \<Rightarrow> event option" where
  "parse_line line =
     (let l = py_strip line
      in if l = [] then None
         else (case json_parse l of None \<Rightarrow> None | Some v \<Rightarrow> as_dict v))"

definition stream_events :: "event option list \<Rightarrow> event list" where
  "stream_events evs = concat (map opt_list evs)"

text \<open>\<open>event.get("type") == t\<close>; \<open>event.get(k) or {}\<close> on which the code goes on with \<open>.get\<close>.\<close>

definition has_type :: "event \<Rightarrow> string \<Rightarrow> bool" where
  "has_type e t \<longleftrightarrow> dget e ''type'' = JStr t"

definition part_of :: "event \<Rightarrow> json_dict py_result" where
  "part_of e = dict_or_empty (dget e ''part'')"

fun nonempty_text :: "json \<Rightarrow> string option" where
  "nonempty_text (JStr (c # s)) = Some (c # s)"
| "nonempty_text _ = None"

section \<open>Text and session\<close>

definition text_step :: "string list \<Rightarrow> event \<Rightarrow> string list py_result" where
  "text_step parts e =
     (if \<not> has_type e ''text'' then Inr parts
      else bind_r (part_of e) (\<lambda>part. Inr (parts @ opt_list (nonempty_text (dget part ''text'')))))"

definition extract_text :: "event option list \<Rightarrow> string py_result" where
  "extract_text evs =
     bind_r (fold_r text_step [] (stream_events evs)) (\<lambda>parts. Inr (join [CHR 0x0A] parts))"

fun first_session :: "event list \<Rightarrow> string option py_result" where
  "first_session [] = Inr None"
| "first_session (e # es) =
     (case nonempty_text (dget e ''sessionID'') of
        Some s \<Rightarrow> Inr (Some s)
      | None \<Rightarrow>
          bind_r (part_of e) (\<lambda>part.
            (case nonempty_text (dget part ''sessionID'') of
               Some s \<Rightarrow> Inr (Some s)
             | None \<Rightarrow> first_session es)))"

definition extract_session_id :: "event option list \<Rightarrow> string option py_result" where
  "extract_session_id evs = first_session (stream_events evs)"

section \<open>Tokens and cost\<close>

text \<open>The tokens one finished step reports; \<open>None\<close> when it reports none.\<close>

definition step_tokens :: "event \<Rightarrow> bucket option py_result" where
  "step_tokens e =
     (if \<not> has_type e ''step_finish'' then Inr None
      else bind_r (part_of e) (\<lambda>part.
        (case py_or (dget part ''tokens'') (JObj []) of
           JObj (kv # kvs) \<Rightarrow>
             (let tokens = kv # kvs
              in bind_r (int_or_zero (dget tokens ''input'')) (\<lambda>input.
                 bind_r (int_or_zero (dget tokens ''output'')) (\<lambda>output.
                 bind_r (int_or_zero (dget tokens ''reasoning'')) (\<lambda>reasoning.
                 bind_r (dict_or_empty (dget tokens ''cache'')) (\<lambda>cache.
                 bind_r (int_or_zero (dget cache ''read'')) (\<lambda>cache_read.
                 bind_r (int_or_zero (dget cache ''write'')) (\<lambda>cache_write.
                 bind_r (if is_none (dget tokens ''total'')
                         then Inr (input + output + reasoning + cache_read + cache_write)
                         else int_or_zero (dget tokens ''total'')) (\<lambda>token_total.
                   Inr (Some \<lparr>bk_input = input, bk_output = output, bk_reasoning = reasoning,
                     bk_cache_read = cache_read, bk_cache_write = cache_write, bk_total = token_total\<rparr>)))))))))
         | _ \<Rightarrow> Inr None)))"

definition tokens_step :: "bool \<times> bucket \<Rightarrow> event \<Rightarrow> (bool \<times> bucket) py_result" where
  "tokens_step acc e =
     bind_r (step_tokens e) (\<lambda>r. Inr (case r of None \<Rightarrow> acc | Some b \<Rightarrow> (True, bucket_plus (snd acc) b)))"

definition tokens_dict :: "bucket \<Rightarrow> json_dict" where
  "tokens_dict b =
     [(''input'', JInt (bk_input b)), (''output'', JInt (bk_output b)), (''reasoning'', JInt (bk_reasoning b)),
      (''cache'', JObj [(''read'', JInt (bk_cache_read b)), (''write'', JInt (bk_cache_write b))]),
      (''total'', JInt (bk_total b))]"

definition extract_tokens :: "event option list \<Rightarrow> json_dict py_result" where
  "extract_tokens evs =
     bind_r (fold_r tokens_step (False, empty_token_bucket) (stream_events evs)) (\<lambda>(saw, b).
       Inr (if saw then tokens_dict b else []))"

text \<open>A cost that is no number is passed over; \<open>part\<close> must be a dict.\<close>

definition add_cost :: "json \<Rightarrow> rat option \<Rightarrow> rat option" where
  "add_cost v acc =
     (if is_none v then acc
      else (case py_float v of Inl _ \<Rightarrow> acc | Inr q \<Rightarrow> Some ((case acc of None \<Rightarrow> 0 | Some t \<Rightarrow> t) + q)))"

definition cost_step :: "rat option \<Rightarrow> event \<Rightarrow> rat option py_result" where
  "cost_step acc e =
     bind_r (part_of e) (\<lambda>part. Inr (add_cost (dget part ''cost'') (add_cost (dget e ''cost'') acc)))"

definition extract_cost :: "event option list \<Rightarrow> rat option py_result" where
  "extract_cost evs = fold_r cost_step None (stream_events evs)"

section \<open>Patches and completion\<close>

definition patches_step :: "nat \<Rightarrow> event \<Rightarrow> nat py_result" where
  "patches_step n e =
     (if has_type e ''patch'' then Inr (n + 1)
      else bind_r (part_of e) (\<lambda>part.
        if dget part ''type'' = JStr ''patch'' then Inr (n + 1)
        else if has_type e ''tool_use'' \<and> dget part ''tool'' = JStr ''apply_patch'' then
          bind_r (dict_or_empty (dget part ''state'')) (\<lambda>state.
            Inr (if dget state ''status'' = JStr ''completed''
                   \<and> contains (py_str (py_or (dget state ''output'') (JStr []))) ''Success.''
                 then n + 1 else n))
        else Inr n))"

definition count_patches :: "event option list \<Rightarrow> nat py_result" where
  "count_patches evs = fold_r patches_step 0 (stream_events evs)"

fun last_stop :: "event list \<Rightarrow> bool py_result" where
  "last_stop [] = Inr False"
| "last_stop (e # es) =
     (if \<not> has_type e ''step_finish'' then last_stop es
      else bind_r (part_of e) (\<lambda>part. if dget part ''reason'' = JStr ''stop'' then Inr True else last_stop es))"

definition detect_completion :: "event option list \<Rightarrow> string option py_result" where
  "detect_completion evs =
     bind_r (last_stop (rev (stream_events evs))) (\<lambda>b. Inr (if b then Some ''stop'' else None))"

section \<open>Rate limits and progress\<close>

fun equals_int :: "json \<Rightarrow> int \<Rightarrow> bool" where
  "equals_int (JInt i) n = (i = n)"
| "equals_int (JFloat q) n = (q = of_int n)"
| "equals_int (JBool b) n = ((if b then 1 else 0) = n)"
| "equals_int _ _ = False"

definition detect_rate_limit :: "event \<Rightarrow> bool py_result" where
  "detect_rate_limit e =
     (if \<not> has_type e ''error'' then Inr False
      else bind_r (dict_or_empty (dget e ''error'')) (\<lambda>err.
           bind_r (dict_or_empty (dget err ''data'')) (\<lambda>data.
             (let message = py_lower (py_str (py_or (py_or (dget data ''message'') (dget err ''message'')) (JStr [])));
                  status_code = py_or (dget data ''statusCode'') (dget data ''status_code'')
              in Inr (equals_int status_code 429 \<or> list_ex (contains message) RATE_LIMIT_PHRASES)))))"

definition detect_rate_limit_text :: "string \<Rightarrow> bool" where
  "detect_rate_limit_text s = (let lowered = py_lower s in lowered \<noteq> [] \<and> list_ex (contains lowered) RATE_LIMIT_PHRASES)"

definition progress_line :: "event \<Rightarrow> string option py_result" where
  "progress_line e =
     (if has_type e ''text'' then
        bind_r (part_of e) (\<lambda>part.
          (let s = py_strip (py_str (py_or (dget part ''text'') (JStr [])))
           in Inr (if s = [] then None else Some (''text: '' @ take 180 (hd (splitlines s))))))
      else if has_type e ''tool_use'' then
        bind_r (part_of e) (\<lambda>part.
        bind_r (dict_or_empty (dget part ''state'')) (\<lambda>state.
          Inr (Some (''tool['' @ py_str (dget_default part ''tool'' (JStr ''?'')) @ ''] '' @
            py_str (dget_default state ''status'' (JStr ''started''))))))
      else if has_type e ''step_start'' then Inr (Some ''step: started'')
      else if has_type e ''step_finish'' then
        bind_r (part_of e) (\<lambda>part.
          Inr (Some (''step: finished ('' @ py_str (dget_default part ''reason'' (JStr ''unknown'')) @ '')'')))
      else if has_type e ''error'' then
        bind_r (dict_or_empty (dget e ''error'')) (\<lambda>err.
        bind_r (dict_or_empty (dget err ''data'')) (\<lambda>data.
          Inr (Some (''error: '' @ take 180 (py_str (py_or (dget data ''message'') (JStr ''unknown error'')))))))
      else Inr None)"

section \<open>The usage of a turn\<close>

text \<open>The buckets the steps of a stream report, in order.\<close>

definition reports :: "event list \<Rightarrow> bucket list" where
  "reports es = concat (map (\<lambda>e. opt_list (projr (step_tokens e))) es)"

lemma bucket_plus_sel:
  "bk_input (bucket_plus a b) = bk_input a + bk_input b" "bk_output (bucket_plus a b) = bk_output a + bk_output b"
  "bk_cache_read (bucket_plus a b) = bk_cache_read a + bk_cache_read b" "bk_total (bucket_plus a b) = bk_total a + bk_total b"
  "bk_input empty_token_bucket = 0" "bk_output empty_token_bucket = 0" "bk_cache_read empty_token_bucket = 0"
  "bk_total empty_token_bucket = 0"
  by (simp_all add: bucket_plus_def empty_token_bucket_def)

lemma reports_mset: "mset (reports es) = (\<Sum>e\<in>#mset es. mset (opt_list (projr (step_tokens e))))"
  by (induction es) (simp_all add: reports_def)

lemma tokens_fold:
  "list_all (\<lambda>e. is_ok (step_tokens e)) es \<Longrightarrow>
   fold_r tokens_step (s, b) es = Inr (s \<or> reports es \<noteq> [], bucket_plus b (bb.total (reports es)))"
proof (induction es arbitrary: s b)
  case Nil
  then show ?case by (simp add: reports_def bb.total_Nil bb.zero_right)
next
  case (Cons e es)
  then obtain r where r: "step_tokens e = Inr r" by (cases "step_tokens e") auto
  with Cons show ?case
    by (cases r) (simp_all add: tokens_step_def reports_def opt_list_def bb.total_Cons bb.assoc)
qed

lemma tokens_fold_ok: "fold_r tokens_step acc es = Inr r \<Longrightarrow> list_all (\<lambda>e. is_ok (step_tokens e)) es"
  by (induction es arbitrary: acc) (auto simp: bind_r_Inr tokens_step_def)

lemma extract_tokens_eq:
  "extract_tokens evs = Inr t \<longleftrightarrow>
     list_all (\<lambda>e. is_ok (step_tokens e)) (stream_events evs)
     \<and> t = (if reports (stream_events evs) = [] then [] else tokens_dict (bb.total (reports (stream_events evs))))"
proof (cases "list_all (\<lambda>e. is_ok (step_tokens e)) (stream_events evs)")
  case True
  then show ?thesis by (auto simp: extract_tokens_def tokens_fold bb.zero_left)
next
  case False
  then show ?thesis using tokens_fold_ok by (auto simp: extract_tokens_def bind_r_Inr)
qed

lemma int_or_zero_JInt [simp]: "int_or_zero (JInt i) = Inr i"
  by (simp add: int_or_zero_def py_or_def)

lemma int_or_zero_JNull [simp]: "int_or_zero JNull = Inr 0"
  by (simp add: int_or_zero_def py_or_def)

lemma token_usage_dict:
  "\<exists>u. token_usage (tokens_dict b) c m dm = Inr u \<and> us_input u = bk_input b \<and> us_output u = bk_output b
     \<and> us_reasoning u = bk_reasoning b \<and> us_cache_read u = bk_cache_read b \<and> us_cache_write u = bk_cache_write b
     \<and> us_total u = bk_total b"
  by (simp add: token_usage_def tokens_dict_def dget_def dict_or_empty_def)

lemma token_usage_Nil:
  "\<exists>u. token_usage [] c m dm = Inr u \<and> us_input u = 0 \<and> us_output u = 0
     \<and> us_reasoning u = 0 \<and> us_cache_read u = 0 \<and> us_cache_write u = 0 \<and> us_total u = 0"
  by (simp add: token_usage_def dget_def dict_or_empty_def)

text \<open>The usage recorded for a turn is the sum of what its finished steps report, counter by counter,
  and a stream whose events arrive in another order gives the same tokens.\<close>

theorem turn_usage_total:
  assumes "extract_tokens evs = Inr t"
  shows "(\<exists>u. token_usage t c m dm = Inr u
      \<and> us_input u = sum_list (map bk_input (reports (stream_events evs)))
      \<and> us_output u = sum_list (map bk_output (reports (stream_events evs)))
      \<and> us_cache_read u = sum_list (map bk_cache_read (reports (stream_events evs)))
      \<and> us_total u = sum_list (map bk_total (reports (stream_events evs))))
    \<and> (mset (stream_events evs') = mset (stream_events evs) \<longrightarrow> extract_tokens evs' = Inr t)"
proof -
  let ?rs = "reports (stream_events evs)"
  have sums: "bk_input (bb.total rs) = sum_list (map bk_input rs)" "bk_output (bb.total rs) = sum_list (map bk_output rs)"
    "bk_cache_read (bb.total rs) = sum_list (map bk_cache_read rs)" "bk_total (bb.total rs) = sum_list (map bk_total rs)" for rs
    by (induction rs) (simp_all add: bb.total_Nil bb.total_Cons bucket_plus_sel)
  from assms have t: "t = (if ?rs = [] then [] else tokens_dict (bb.total ?rs))"
    and ok: "list_all (\<lambda>e. is_ok (step_tokens e)) (stream_events evs)"
    by (auto simp: extract_tokens_eq)
  have "extract_tokens evs' = Inr t" if p: "mset (stream_events evs') = mset (stream_events evs)"
  proof -
    have "mset (reports (stream_events evs')) = mset ?rs"
      using p by (simp add: reports_mset)
    then have "bb.total (reports (stream_events evs')) = bb.total ?rs"
      and "reports (stream_events evs') = [] \<longleftrightarrow> ?rs = []"
      by (rule bb.total_rearrange, metis mset_zero_iff)
    with t ok show ?thesis
      unfolding extract_tokens_eq by (metis list_all_iff mset_eq_setD p)
  qed
  then show ?thesis
    using token_usage_dict [of "bb.total ?rs" c m dm] token_usage_Nil [of c m dm] t sums [of ?rs]
    by (cases "?rs = []") auto
qed

definition sample_step :: "int \<Rightarrow> int \<Rightarrow> event" where
  "sample_step i j = [(''type'', JStr ''step_finish''), (''part'', JObj [(''tokens'',
     JObj [(''input'', JInt i), (''output'', JInt j), (''cache'', JObj [(''read'', JInt 5)])])])]"

definition sample_stream :: "event option list" where
  "sample_stream = [Some [(''type'', JStr ''step_start'')], Some (sample_step 10 3), None, Some (sample_step 20 4)]"

theorem turn_usage_total_witness:
  "\<exists>u. token_usage (projr (extract_tokens sample_stream)) None None None = Inr u \<and> us_input u = 30 \<and> us_total u = 47"
proof -
  have "is_ok (extract_tokens sample_stream)" by code_simp
  from turn_usage_total [OF ok_projr [OF this], of None None None]
  obtain u where u: "token_usage (projr (extract_tokens sample_stream)) None None None = Inr u"
    "us_input u = sum_list (map bk_input (reports (stream_events sample_stream)))"
    "us_total u = sum_list (map bk_total (reports (stream_events sample_stream)))" by blast
  moreover have "sum_list (map bk_input (reports (stream_events sample_stream))) = 30"
    "sum_list (map bk_total (reports (stream_events sample_stream))) = 47" by code_simp+
  ultimately show ?thesis by simp
qed

end
