(* ===== verification/Opencode_Routing.thy ===== *)
theory Opencode_Routing
  imports Json_Decode Interfaces "HOL-Library.List_Lexorder" "HOL-Library.Sublist"
begin

text \<open>
  Which model a turn runs with: the provider chain, tokens and base URLs of the settings and the health
  of models (\<open>review_v2/opencode_routing.py\<close>), the selection of candidates and the configuration
  written for a turn (\<open>review_v2/opencode_config.py\<close>). The clock is an argument; the request for a
  provider's model list is a parameter, from URL and token to the body of the answer, if any.
\<close>

record opencode_settings =
  os_provider_chain :: string
  os_provider_tokens :: string
  os_provider_base_urls :: string
  os_llm_proxy_base_url :: string
  os_model_api_cache_seconds :: int
  os_model_api_timeout_seconds :: rat

record provider_candidate =
  pc_provider :: string
  pc_model :: string
  pc_index :: nat

section \<open>Reading the settings\<close>

definition provider_local_model_id :: "string \<Rightarrow> string \<Rightarrow> string" where
  "provider_local_model_id provider_id model_id =
     (if startswith model_id (provider_id @ ''/'')
      then (case cut_first CHR ''/'' model_id of Some (_, rest) \<Rightarrow> rest | None \<Rightarrow> model_id)
      else model_id)"

definition opencode_model_id :: "provider_candidate \<Rightarrow> string" where
  "opencode_model_id c =
     (if pc_provider c = [] \<or> CHR ''/'' \<in> set (pc_model c) then pc_model c
      else pc_provider c @ ''/'' @ pc_model c)"

definition add_model_candidate :: "string \<Rightarrow> string \<Rightarrow> provider_candidate list \<Rightarrow> provider_candidate list" where
  "add_model_candidate provider raw_model cs =
     (let model = py_strip raw_model
      in if model = [] then cs
         else cs @ [\<lparr>pc_provider = provider, pc_model = model, pc_index = length cs\<rparr>])"

definition add_provider_group :: "string \<Rightarrow> provider_candidate list \<Rightarrow> provider_candidate list" where
  "add_provider_group provider_group cs =
     (case cut_first CHR '':'' (py_strip provider_group) of
        None \<Rightarrow> cs
      | Some (provider, raw_models) \<Rightarrow>
          (let provider = py_strip provider
           in if provider = [] then cs
              else fold (add_model_candidate provider) (split_on CHR '','' raw_models) cs))"

definition parse_provider_chain :: "string \<Rightarrow> provider_candidate list" where
  "parse_provider_chain raw = fold add_provider_group (split_on CHR '';'' raw) []"

definition add_token_entry :: "string \<Rightarrow> (string \<times> string) list \<Rightarrow> (string \<times> string) list" where
  "add_token_entry raw_entry tokens =
     (case cut_first CHR ''='' (py_strip raw_entry) of
        None \<Rightarrow> tokens
      | Some (raw_key, raw_value) \<Rightarrow>
          (let key = py_strip raw_key; v = py_strip raw_value
           in if \<not> endswith key ''.token'' \<or> v = [] then tokens
              else (let provider = py_strip (removesuffix ''.token'' key)
                    in if provider = [] then tokens else dset provider v tokens)))"

definition parse_provider_tokens :: "string \<Rightarrow> (string \<times> string) list" where
  "parse_provider_tokens raw = fold add_token_entry (split_on CHR '';'' raw) []"

definition BASE_URL_SUFFIXES :: "string list" where
  "BASE_URL_SUFFIXES = [''.base_url'', ''.baseURL'', ''.base-url'', ''.baseurl'']"

definition rstrip_slash :: "string \<Rightarrow> string" where
  "rstrip_slash s = rstrip_by (\<lambda>c. c = CHR ''/'') s"

definition add_base_url_entry :: "string \<Rightarrow> (string \<times> string) list \<Rightarrow> (string \<times> string) list" where
  "add_base_url_entry raw_entry urls =
     (case cut_first CHR ''='' (py_strip raw_entry) of
        None \<Rightarrow> urls
      | Some (raw_key, raw_value) \<Rightarrow>
          (let key = py_strip raw_key; v = rstrip_slash (py_strip raw_value)
           in if v = [] then urls
              else (case find (endswith key) BASE_URL_SUFFIXES of
                      None \<Rightarrow> urls
                    | Some sfx \<Rightarrow>
                        (let provider = py_strip (removesuffix sfx key)
                         in if provider = [] then urls else dset provider v urls))))"

definition parse_provider_base_urls :: "string \<Rightarrow> (string \<times> string) list" where
  "parse_provider_base_urls raw = fold add_base_url_entry (split_on CHR '';'' raw) []"

definition text_get :: "(string \<times> string) list \<Rightarrow> string \<Rightarrow> string" where
  "text_get d k = (case map_of d k of None \<Rightarrow> [] | Some v \<Rightarrow> v)"

definition add_token_status :: "(string \<times> string) list \<Rightarrow> provider_candidate \<Rightarrow> (string \<times> string) list \<Rightarrow> (string \<times> string) list" where
  "add_token_status tokens c statuses =
     (if map_of statuses (pc_provider c) \<noteq> None then statuses
      else dset (pc_provider c) (if text_get tokens (pc_provider c) \<noteq> [] then ''configured'' else ''missing'') statuses)"

definition provider_token_statuses :: "provider_candidate list \<Rightarrow> (string \<times> string) list \<Rightarrow> (string \<times> string) list" where
  "provider_token_statuses chain tokens = fold (add_token_status tokens) chain []"

section \<open>Health of models\<close>

text \<open>\<open>ModelHealthTracker\<close>: until when a model is set aside, and why.\<close>

record model_health =
  mh_until :: "(string \<times> instant) list"
  mh_reasons :: "(string \<times> string) list"

definition reset_health :: model_health where
  "reset_health = \<lparr>mh_until = [], mh_reasons = []\<rparr>"

definition cooldown_seconds :: "string \<Rightarrow> int option \<Rightarrow> int" where
  "cooldown_seconds reason retry_after =
     (case retry_after of
        Some n \<Rightarrow>
          if n > 0 then n
          else if reason = ''no_output'' then 600 else if reason \<noteq> [] \<and> reason \<noteq> ''rate_limit'' then 900 else 120
      | None \<Rightarrow> if reason = ''no_output'' then 600 else if reason \<noteq> [] \<and> reason \<noteq> ''rate_limit'' then 900 else 120)"

definition mark_unhealthy :: "string \<Rightarrow> string \<Rightarrow> int option \<Rightarrow> instant \<Rightarrow> model_health \<Rightarrow> model_health" where
  "mark_unhealthy model_id reason retry_after now h =
     \<lparr>mh_until = dset model_id (now + cooldown_seconds reason retry_after) (mh_until h),
      mh_reasons = dset model_id (if reason = [] then ''model_unavailable'' else reason) (mh_reasons h)\<rparr>"

definition ddel :: "string \<Rightarrow> (string \<times> 'v) list \<Rightarrow> (string \<times> 'v) list" where
  "ddel k d = filter (\<lambda>kv. fst kv \<noteq> k) d"

definition is_healthy :: "string \<Rightarrow> instant \<Rightarrow> model_health \<Rightarrow> bool \<times> model_health" where
  "is_healthy model_id now h =
     (case map_of (mh_until h) model_id of
        None \<Rightarrow> (True, h)
      | Some until \<Rightarrow>
          if now \<ge> until
          then (True, \<lparr>mh_until = ddel model_id (mh_until h), mh_reasons = ddel model_id (mh_reasons h)\<rparr>)
          else (False, h))"

definition health_status :: "string \<Rightarrow> instant \<Rightarrow> model_health \<Rightarrow> (string \<times> instant) option \<times> model_health" where
  "health_status model_id now h =
     (let (ok, h1) = is_healthy model_id now h
      in if ok then (None, h1)
         else (Some (text_or (map_of (mh_reasons h1) model_id) ''model_unavailable'', the (map_of (mh_until h1) model_id)), h1))"

definition add_model_health ::
  "instant \<Rightarrow> provider_candidate \<Rightarrow> (string \<times> string \<times> instant) list \<times> model_health
     \<Rightarrow> (string \<times> string \<times> instant) list \<times> model_health" where
  "add_model_health now c acc =
     (let (health, h) = acc; (st, h1) = health_status (opencode_model_id c) now h
      in (case st of None \<Rightarrow> health | Some s \<Rightarrow> dset (opencode_model_id c) s health, h1))"

definition model_health_for_candidates ::
  "provider_candidate list \<Rightarrow> instant \<Rightarrow> model_health \<Rightarrow> (string \<times> string \<times> instant) list \<times> model_health" where
  "model_health_for_candidates candidates now h = fold (add_model_health now) candidates ([], h)"

section \<open>Candidates\<close>

definition provider_candidates :: "opencode_settings \<Rightarrow> provider_candidate list" where
  "provider_candidates st =
     (case parse_provider_chain (py_strip (os_provider_chain st)) of
        [] \<Rightarrow> [\<lparr>pc_provider = ''llm-proxy'', pc_model = ''gpt-5.5'', pc_index = 0\<rparr>]
      | c # cs \<Rightarrow> c # cs)"

definition provider_api_key :: "string \<Rightarrow> opencode_settings \<Rightarrow> string" where
  "provider_api_key provider_id st = text_get (parse_provider_tokens (os_provider_tokens st)) provider_id"

definition provider_base_url :: "string \<Rightarrow> opencode_settings \<Rightarrow> string" where
  "provider_base_url provider_id st =
     (let configured = text_get (parse_provider_base_urls (os_provider_base_urls st)) provider_id
      in if configured \<noteq> [] then configured
         else if provider_id = ''llm-proxy'' then rstrip_slash (os_llm_proxy_base_url st) else [])"

definition model_api_url :: "string \<Rightarrow> opencode_settings \<Rightarrow> string" where
  "model_api_url provider_id st =
     (let base_url = rstrip_slash (provider_base_url provider_id st)
      in if base_url = [] then []
         else if endswith base_url ''/v1'' then base_url @ ''/models'' else base_url @ ''/v1/models'')"

definition model_ids_of_item :: "json \<Rightarrow> string list" where
  "model_ids_of_item item =
     (case item of
        JStr s \<Rightarrow> if py_strip s \<noteq> [] then [py_strip s] else []
      | JObj d \<Rightarrow> (case dget d ''id'' of JStr s \<Rightarrow> if py_strip s \<noteq> [] then [py_strip s] else [] | _ \<Rightarrow> [])
      | _ \<Rightarrow> [])"

definition parse_model_list_response :: "json \<Rightarrow> string list" where
  "parse_model_list_response payload =
     (let raw_items = (case payload of
            JObj d \<Rightarrow> (if is_none (dget d ''data'') then dget d ''models'' else dget d ''data'')
          | _ \<Rightarrow> payload)
      in (case raw_items of JArr items \<Rightarrow> concat (map model_ids_of_item items) | _ \<Rightarrow> []))"

text \<open>The model lists already fetched, by URL, with their time; \<open>None\<close> when the request failed.\<close>

type_synonym model_cache = "(string \<times> instant \<times> string list option) list"

definition provider_available_models ::
  "(string \<Rightarrow> string \<Rightarrow> string option) \<Rightarrow> opencode_settings \<Rightarrow> string \<Rightarrow> instant \<Rightarrow> model_cache
     \<Rightarrow> string list option \<times> model_cache" where
  "provider_available_models http st provider_id now cache =
     (let token = provider_api_key provider_id st; url = model_api_url provider_id st;
          ttl = max 0 (os_model_api_cache_seconds st)
      in if token = [] \<or> url = [] then (None, cache)
         else (case (case map_of cache url of
                       Some (fetched, models) \<Rightarrow> if ttl > 0 \<and> now - fetched < ttl then Some models else None
                     | None \<Rightarrow> None) of
                 Some models \<Rightarrow> (models, cache)
               | None \<Rightarrow>
                   if os_model_api_timeout_seconds st \<le> 0 then (None, cache)
                   else (let available = (case http url token of
                               None \<Rightarrow> None
                             | Some body \<Rightarrow> map_option parse_model_list_response (json_parse body))
                         in (available, dset url (now, available) cache))))"

definition candidate_model_ids :: "provider_candidate \<Rightarrow> string list" where
  "candidate_model_ids c =
     (let local_id = provider_local_model_id (pc_provider c) (pc_model c)
      in [pc_model c, opencode_model_id c] @ (if local_id \<noteq> [] then [local_id] else []))"

record routing =
  ro_health :: model_health
  ro_cache :: model_cache

text \<open>The loop of \<open>_select_candidates\<close>: the lists fetched so far by provider, the candidates selected.\<close>

definition select_step ::
  "(string \<Rightarrow> string \<Rightarrow> string option) \<Rightarrow> opencode_settings \<Rightarrow> instant \<Rightarrow> provider_candidate
     \<Rightarrow> (string \<times> string list option) list \<times> provider_candidate list \<times> routing
     \<Rightarrow> (string \<times> string list option) list \<times> provider_candidate list \<times> routing" where
  "select_step http st now c acc =
     (let (by_provider, selected, ro) = acc;
          (healthy, h) = is_healthy (opencode_model_id c) now (ro_health ro)
      in if \<not> healthy then (by_provider, selected, ro\<lparr>ro_health := h\<rparr>)
         else
           (let (available, by_provider', cache) =
                  (case map_of by_provider (pc_provider c) of
                     Some available \<Rightarrow> (available, by_provider, ro_cache ro)
                   | None \<Rightarrow>
                       (let (available, cache) = provider_available_models http st (pc_provider c) now (ro_cache ro)
                        in (available, dset (pc_provider c) available by_provider, cache)))
            in (by_provider',
                (case available of
                   None \<Rightarrow> selected @ [c]
                 | Some models \<Rightarrow> if list_ex (\<lambda>i. i \<in> set models) (candidate_model_ids c) then selected @ [c] else selected),
                \<lparr>ro_health = h, ro_cache = cache\<rparr>)))"

definition select_candidates ::
  "(string \<Rightarrow> string \<Rightarrow> string option) \<Rightarrow> opencode_settings \<Rightarrow> instant \<Rightarrow> routing
     \<Rightarrow> provider_candidate list \<times> routing" where
  "select_candidates http st now ro = snd (fold (select_step http st now) (provider_candidates st) ([], [], ro))"

definition selected_opencode_model ::
  "(string \<Rightarrow> string \<Rightarrow> string option) \<Rightarrow> opencode_settings \<Rightarrow> instant \<Rightarrow> routing \<Rightarrow> string \<times> routing" where
  "selected_opencode_model http st now ro =
     (let (selected, ro1) = select_candidates http st now ro
      in (opencode_model_id (case selected of c # _ \<Rightarrow> c | [] \<Rightarrow> hd (provider_candidates st)), ro1))"

definition candidate_opencode_models ::
  "(string \<Rightarrow> string \<Rightarrow> string option) \<Rightarrow> opencode_settings \<Rightarrow> string option \<Rightarrow> instant \<Rightarrow> routing
     \<Rightarrow> string list \<times> routing" where
  "candidate_opencode_models http st preferred now ro =
     (let (selected, ro1) = select_candidates http st now ro; models = map opencode_model_id selected
      in (if text_truthy preferred then the preferred # filter (\<lambda>m. Some m \<noteq> preferred) models else models, ro1))"

section \<open>The configuration of a turn\<close>

definition model_limit :: "string \<Rightarrow> json" where
  "model_limit provider_id =
     (if provider_id \<in> {''llm-proxy'', ''openai'', ''deepseek''}
      then JObj [(''context'', JInt 272000), (''output'', JInt 128000)]
      else JObj [(''context'', JInt 262144), (''output'', JInt 32768)])"

definition provider_label :: "string \<Rightarrow> string" where
  "provider_label provider_id =
     (if provider_id = ''llm-proxy'' then ''LLM Proxy''
      else if provider_id = ''openai'' then ''OpenAI-compatible''
      else if provider_id = ''deepseek'' then ''DeepSeek OpenAI-compatible'' else provider_id)"

definition register_model :: "string \<Rightarrow> string \<Rightarrow> json_dict \<Rightarrow> json_dict" where
  "register_model provider_id full_model models =
     (let model_id = provider_local_model_id provider_id full_model
      in if model_id = [] \<or> map_of models model_id \<noteq> None then models
         else dset model_id (JObj [(''name'', JStr model_id), (''limit'', model_limit provider_id)]) models)"

text \<open>The entry \<open>_register_provider_models\<close> adds for a provider, which the configuration has not yet.\<close>

definition register_provider_models :: "opencode_settings \<Rightarrow> string \<Rightarrow> string list \<Rightarrow> json_dict" where
  "register_provider_models st provider_id models =
     (let base_url = provider_base_url provider_id st; api_key = provider_api_key provider_id st
      in (''models'', JObj (fold (register_model provider_id) models [])) #
         (if base_url = [] then []
          else [(''npm'', JStr ''@ai-sdk/openai-compatible''), (''name'', JStr (provider_label provider_id)),
                (''options'', JObj ((''baseURL'', JStr base_url) #
                   (if api_key = [] then [] else [(''apiKey'', JStr api_key)])))]))"

definition review_permission :: "string option \<Rightarrow> json_dict" where
  "review_permission project_root =
     [(''*'', JStr ''allow''), (''edit'', JStr ''deny''), (''question'', JStr ''deny''), (''doom_loop'', JStr ''allow'')]
     @ (case project_root of None \<Rightarrow> []
        | Some project \<Rightarrow> [(''external_directory'', JObj [(project @ ''/**'', JStr ''allow'')])])"

definition list_get :: "(string \<times> 'v list) list \<Rightarrow> string \<Rightarrow> 'v list" where
  "list_get d k = (case map_of d k of None \<Rightarrow> [] | Some v \<Rightarrow> v)"

definition add_provider_model :: "provider_candidate \<Rightarrow> (string \<times> string list) list \<Rightarrow> (string \<times> string list) list" where
  "add_provider_model c d = dset (pc_provider c) (list_get d (pc_provider c) @ [pc_model c]) d"

definition provider_models_of :: "opencode_settings \<Rightarrow> string \<Rightarrow> (string \<times> string list) list" where
  "provider_models_of st executable =
     (let d = fold add_provider_model (provider_candidates st) []
      in (case cut_first CHR ''/'' executable of
            None \<Rightarrow> d
          | Some (provider_id, local_model) \<Rightarrow>
              (let models = list_get d provider_id
               in dset provider_id (if local_model \<in> set models then models else models @ [local_model]) d)))"

definition build_opencode_config ::
  "(string \<Rightarrow> string \<Rightarrow> string option) \<Rightarrow> opencode_settings \<Rightarrow> string option \<Rightarrow> string option \<Rightarrow> instant \<Rightarrow> routing
     \<Rightarrow> json_dict \<times> routing" where
  "build_opencode_config http st model_id project_root now ro =
     (let (executable, ro1) = (if text_truthy model_id then (the model_id, ro) else selected_opencode_model http st now ro);
          pm = provider_models_of st executable
      in ([(''model'', JStr executable), (''small_model'', JStr executable),
           (''provider'', JObj (map (\<lambda>p. (p, JObj (register_provider_models st p (list_get pm p)))) (sort (map fst pm)))),
           (''permission'', JObj (review_permission project_root))], ro1))"

section \<open>The provider chain\<close>

text \<open>A name that can stand in a chain: not empty, no white space at its ends, none of the delimiters.\<close>

definition chain_name :: "string \<Rightarrow> bool" where
  "chain_name s \<longleftrightarrow> s \<noteq> [] \<and> \<not> py_isspace (hd s) \<and> \<not> py_isspace (last s)
     \<and> CHR '';'' \<notin> set s \<and> CHR '','' \<notin> set s"

definition print_group :: "string \<times> string list \<Rightarrow> string" where
  "print_group g = fst g @ '':'' @ join '','' (snd g)"

fun number_candidates :: "nat \<Rightarrow> (string \<times> string) list \<Rightarrow> provider_candidate list" where
  "number_candidates n [] = []"
| "number_candidates n ((p, m) # xs) = \<lparr>pc_provider = p, pc_model = m, pc_index = n\<rparr> # number_candidates (Suc n) xs"

lemma py_strip_id:
  assumes "s = [] \<or> \<not> py_isspace (hd s) \<and> \<not> py_isspace (last s)"
  shows "py_strip s = s"
proof (cases "s = []")
  case False
  with assms have "dropWhile py_isspace (rev s) = rev s" "dropWhile py_isspace s = s"
    by (cases "rev s"; cases s; auto simp: hd_rev [symmetric])+
  then show ?thesis by (simp add: py_strip_def lstrip_by_def rstrip_by_def)
qed (simp add: py_strip_def lstrip_by_def rstrip_by_def)

lemma chain_name_strip: "chain_name s \<Longrightarrow> py_strip s = s"
  by (rule py_strip_id) (simp add: chain_name_def)

lemma join_ends:
  "xs \<noteq> [] \<Longrightarrow> [] \<notin> set xs \<Longrightarrow>
   join sep xs \<noteq> [] \<and> hd (join sep xs) = hd (hd xs) \<and> last (join sep xs) = last (last xs)"
  by (induction sep xs rule: join.induct) auto

lemma add_models:
  "\<forall>m \<in> set ms. chain_name m \<Longrightarrow>
   fold (add_model_candidate p) ms cs = cs @ number_candidates (length cs) (map (Pair p) ms)"
  by (induction ms arbitrary: cs) (simp_all add: add_model_candidate_def chain_name_strip Let_def chain_name_def)

lemma cut_first_fresh: "d \<notin> set a \<Longrightarrow> cut_first d (a @ d # b) = Some (a, b)"
  by (induction a) auto

lemma add_group:
  assumes "chain_name p" and "CHR '':'' \<notin> set p" and "ms \<noteq> []" and "\<forall>m \<in> set ms. chain_name m"
  shows "add_provider_group (print_group (p, ms)) cs = cs @ number_candidates (length cs) (map (Pair p) ms)"
proof -
  have "[] \<notin> set ms" using assms(4) by (auto simp: chain_name_def)
  then have "last (print_group (p, ms)) = last (last ms)" "hd (print_group (p, ms)) = hd p"
    using join_ends [OF assms(3), of "'',''"] assms(1) by (simp_all add: print_group_def chain_name_def)
  moreover have "last ms \<in> set ms" using assms(3) by simp
  ultimately have s: "py_strip (print_group (p, ms)) = p @ CHR '':'' # join '','' ms"
    using assms(1,4) by (subst py_strip_id) (auto simp: chain_name_def print_group_def)
  have "split_on CHR '','' (join '','' ms) = ms"
    using assms(3,4) by (intro split_on_join) (auto simp: chain_name_def)
  then show ?thesis
    using assms add_models [OF assms(4), of p cs]
    by (simp add: add_provider_group_def s cut_first_fresh chain_name_strip chain_name_def Let_def)
qed

lemma number_candidates_append:
  "number_candidates n (xs @ ys) = number_candidates n xs @ number_candidates (n + length xs) ys"
  by (induction n xs rule: number_candidates.induct) simp_all

lemma length_number_candidates [simp]: "length (number_candidates n xs) = length xs"
  by (induction n xs rule: number_candidates.induct) simp_all

definition chain_group :: "string \<times> string list \<Rightarrow> bool" where
  "chain_group g \<longleftrightarrow> chain_name (fst g) \<and> CHR '':'' \<notin> set (fst g) \<and> snd g \<noteq> [] \<and> list_all chain_name (snd g)"

lemma add_groups:
  "list_all chain_group gs \<Longrightarrow>
   fold add_provider_group (map print_group gs) cs
     = cs @ number_candidates (length cs) (concat (map (\<lambda>(p, ms). map (Pair p) ms) gs))"
proof (induction gs arbitrary: cs)
  case (Cons g gs)
  obtain p ms where "g = (p, ms)" by fastforce
  with Cons show ?case
    by (simp add: chain_group_def add_group list_all_iff number_candidates_append)
qed simp

text \<open>C17: a provider chain written as \<open>provider:model,model;provider:model\<close> is read back as exactly these
  candidates, in this order and numbered from zero.\<close>

theorem chain_roundtrip:
  assumes "gs \<noteq> []" and "list_all chain_group gs"
  shows "parse_provider_chain (join '';'' (map print_group gs))
    = number_candidates 0 (concat (map (\<lambda>(p, ms). map (Pair p) ms) gs))"
proof -
  have sep: "d \<notin> set (join '','' ms)" if "\<forall>m \<in> set ms. d \<notin> set m" "d \<noteq> CHR '',''" for ms d
    using that by (induction "'',''" ms rule: join.induct) auto
  have "\<forall>s \<in> set (map print_group gs). CHR '';'' \<notin> set s"
  proof
    fix s assume "s \<in> set (map print_group gs)"
    then obtain p ms where s: "s = print_group (p, ms)" and "(p, ms) \<in> set gs" by auto
    from assms(2) this(2) have "chain_group (p, ms)" by (simp add: list_all_iff)
    then have "CHR '';'' \<notin> set p" "\<forall>m \<in> set ms. CHR '';'' \<notin> set m"
      by (simp_all add: chain_group_def chain_name_def list_all_iff)
    moreover from sep [OF this(2)] have "CHR '';'' \<notin> set (join '','' ms)" by simp
    ultimately show "CHR '';'' \<notin> set s"
      by (simp add: s print_group_def)
  qed
  then have "split_on CHR '';'' (join '';'' (map print_group gs)) = map print_group gs"
    using assms(1) by (intro split_on_join) auto
  then show ?thesis
    using add_groups [OF assms(2), of "[]"] by (simp add: parse_provider_chain_def)
qed

theorem chain_roundtrip_witness:
  "map pc_model (parse_provider_chain ''llm-proxy:gpt-5.5,kimi/k2.6;openai:gpt-5.4'') = [''gpt-5.5'', ''kimi/k2.6'', ''gpt-5.4'']"
proof -
  have "list_all chain_group [(''llm-proxy'', [''gpt-5.5'', ''kimi/k2.6'']), (''openai'', [''gpt-5.4''])]" by code_simp
  from chain_roundtrip [OF _ this] show ?thesis by (simp add: print_group_def)
qed

section \<open>Selection\<close>

lemma map_of_ddel [simp]: "map_of (ddel k d) m = (if m = k then None else map_of d m)"
  by (induction d) (auto simp: ddel_def)

definition healthy :: "string \<Rightarrow> instant \<Rightarrow> model_health \<Rightarrow> bool" where
  "healthy m now h \<longleftrightarrow> (case map_of (mh_until h) m of None \<Rightarrow> True | Some until \<Rightarrow> until \<le> now)"

lemma is_healthy_eq: "fst (is_healthy m now h) = healthy m now h"
  by (simp add: is_healthy_def healthy_def split: option.split)

text \<open>Forgetting an expired entry answers no question differently.\<close>

lemma healthy_after: "healthy m now (snd (is_healthy k now h)) = healthy m now h"
  by (auto simp: is_healthy_def healthy_def split: option.split)

lemma healthy_marked:
  "healthy m now (mark_unhealthy k reason retry t0 h) =
     (if m = k then t0 + cooldown_seconds reason retry \<le> now else healthy m now h)"
  by (simp add: healthy_def mark_unhealthy_def)

lemma cooldown_positive: "0 < cooldown_seconds reason retry"
  by (simp add: cooldown_seconds_def split: option.split)

lemma no_key_no_list:
  "provider_api_key p st = [] \<Longrightarrow> provider_available_models http st p now cache = (None, cache)"
  by (simp add: provider_available_models_def)

definition no_key_unknown :: "opencode_settings \<Rightarrow> (string \<times> string list option) list \<Rightarrow> bool" where
  "no_key_unknown st by_provider \<longleftrightarrow>
     (\<forall>p r. provider_api_key p st = [] \<longrightarrow> map_of by_provider p = Some r \<longrightarrow> r = None)"

lemma select_step_effect:
  assumes "select_step http st now c (bp, sel, ro) = (bp', sel', ro')" and "no_key_unknown st bp"
  shows "no_key_unknown st bp'" and "healthy m now (ro_health ro') = healthy m now (ro_health ro)"
    and "sel' = sel \<or> sel' = sel @ [c] \<and> healthy (opencode_model_id c) now (ro_health ro)"
    and "provider_api_key (pc_provider c) st = [] \<Longrightarrow> healthy (opencode_model_id c) now (ro_health ro) \<Longrightarrow> sel' = sel @ [c]"
proof -
  obtain b h where h: "is_healthy (opencode_model_id c) now (ro_health ro) = (b, h)" by fastforce
  have b: "b = healthy (opencode_model_id c) now (ro_health ro)"
    using is_healthy_eq [of "opencode_model_id c" now "ro_health ro"] h by simp
  have inv: "healthy m now h = healthy m now (ro_health ro)" for m
    using healthy_after [of m now "opencode_model_id c" "ro_health ro"] h by simp
  obtain av ca where av: "provider_available_models http st (pc_provider c) now (ro_cache ro) = (av, ca)" by fastforce
  have nk: "av = None" if "provider_api_key (pc_provider c) st = []"
    using no_key_no_list [OF that, of http now "ro_cache ro"] av by simp
  note step = assms(1) [unfolded select_step_def Let_def prod.case h av, symmetric]
  show "healthy m now (ro_health ro') = healthy m now (ro_health ro)"
    using step inv by (auto split: if_split_asm option.split_asm)
  show "no_key_unknown st bp'"
    using step assms(2) nk by (auto simp: no_key_unknown_def split: if_split_asm option.split_asm)
  show "sel' = sel \<or> sel' = sel @ [c] \<and> healthy (opencode_model_id c) now (ro_health ro)"
    using step b by (auto split: if_split_asm option.split_asm)
  show "sel' = sel @ [c]" if k: "provider_api_key (pc_provider c) st = []"
    and "healthy (opencode_model_id c) now (ro_health ro)"
  proof (cases "map_of bp (pc_provider c)")
    case None
    with step b that nk [OF k] show ?thesis by simp
  next
    case (Some r)
    with assms(2) k have "r = None" by (auto simp: no_key_unknown_def)
    with step b that Some show ?thesis by simp
  qed
qed

lemma select_fold:
  assumes "no_key_unknown st bp" and "fold (select_step http st now) cs (bp, sel, ro) = (bp', sel', ro')"
  shows "\<exists>new. sel' = sel @ new \<and> subseq new cs \<and> list_all (\<lambda>c. healthy (opencode_model_id c) now (ro_health ro)) new
    \<and> (\<forall>c \<in> set cs. provider_api_key (pc_provider c) st = [] \<longrightarrow> healthy (opencode_model_id c) now (ro_health ro)
         \<longrightarrow> c \<in> set new)"
  using assms
proof (induction cs arbitrary: bp sel ro)
  case (Cons c cs)
  obtain bp1 sel1 ro1 where s: "select_step http st now c (bp, sel, ro) = (bp1, sel1, ro1)"
    by (metis prod.exhaust)
  note e = select_step_effect [OF s Cons.prems(1)]
  have f: "fold (select_step http st now) cs (bp1, sel1, ro1) = (bp', sel', ro')"
    using Cons.prems(2) s by simp
  from Cons.IH [OF e(1) f, unfolded e(2)] obtain new where new: "sel' = sel1 @ new" "subseq new cs"
    "list_all (\<lambda>c. healthy (opencode_model_id c) now (ro_health ro)) new"
    "\<forall>c \<in> set cs. provider_api_key (pc_provider c) st = [] \<longrightarrow> healthy (opencode_model_id c) now (ro_health ro) \<longrightarrow> c \<in> set new"
    by blast
  show ?case
  proof (cases "sel1 = sel")
    case True
    with new e(4) show ?thesis by (intro exI [of _ new]) auto
  next
    case False
    with e(3) new show ?thesis by (intro exI [of _ "c # new"]) auto
  qed
qed simp

lemma select_candidates_facts:
  "subseq (fst (select_candidates http st now ro)) (provider_candidates st)
   \<and> list_all (\<lambda>c. healthy (opencode_model_id c) now (ro_health ro)) (fst (select_candidates http st now ro))
   \<and> (\<forall>c \<in> set (provider_candidates st). provider_api_key (pc_provider c) st = []
        \<longrightarrow> healthy (opencode_model_id c) now (ro_health ro) \<longrightarrow> c \<in> set (fst (select_candidates http st now ro)))"
proof -
  obtain bp' sel' ro' where f: "fold (select_step http st now) (provider_candidates st) ([], [], ro) = (bp', sel', ro')"
    by (metis prod.exhaust)
  have "no_key_unknown st []" by (simp add: no_key_unknown_def)
  from select_fold [OF this f] show ?thesis
    by (auto simp: select_candidates_def f)
qed

text \<open>A model set aside after a failure is out of the selection for its whole cool-down, which is never
  empty, and a model of a provider without a token is back in it from the moment the cool-down ends;
  what is selected keeps the order of the chain.\<close>

theorem cooldown_governs_selection:
  assumes "c \<in> set (provider_candidates st)" and "provider_api_key (pc_provider c) st = []"
  shows "(c \<in> set (fst (select_candidates http st now
             (ro\<lparr>ro_health := mark_unhealthy (opencode_model_id c) reason retry t0 (ro_health ro)\<rparr>)))
           \<longleftrightarrow> t0 + cooldown_seconds reason retry \<le> now)
    \<and> 0 < cooldown_seconds reason retry
    \<and> subseq (fst (select_candidates http st now ro)) (provider_candidates st)"
proof -
  let ?ro = "ro\<lparr>ro_health := mark_unhealthy (opencode_model_id c) reason retry t0 (ro_health ro)\<rparr>"
  have h: "healthy (opencode_model_id c) now (ro_health ?ro) \<longleftrightarrow> t0 + cooldown_seconds reason retry \<le> now"
    by (simp add: healthy_marked)
  note f = select_candidates_facts [of http st now ?ro]
  have "c \<in> set (fst (select_candidates http st now ?ro)) \<Longrightarrow> healthy (opencode_model_id c) now (ro_health ?ro)"
    using f [THEN conjunct2, THEN conjunct1] by (simp only: list_all_iff)
  moreover have "healthy (opencode_model_id c) now (ro_health ?ro) \<Longrightarrow> c \<in> set (fst (select_candidates http st now ?ro))"
    using f [THEN conjunct2, THEN conjunct2] assms by blast
  ultimately show ?thesis
    using h cooldown_positive select_candidates_facts [of http st now ro, THEN conjunct1] by blast
qed

section \<open>The configuration registers the model it runs\<close>

lemma register_known: "map_of (fold (register_model p) ms d) m \<noteq> None" if "map_of d m \<noteq> None"
  using that by (induction ms arbitrary: d) (simp_all add: register_model_def Let_def)

lemma register_models:
  "m \<in> set ms \<Longrightarrow> provider_local_model_id p m \<noteq> [] \<Longrightarrow>
   map_of (fold (register_model p) ms d) (provider_local_model_id p m) \<noteq> None"
proof (induction ms arbitrary: d)
  case (Cons x ms)
  show ?case
  proof (cases "x = m")
    case True
    with Cons.prems(2) have "map_of (register_model p x d) (provider_local_model_id p m) \<noteq> None"
      by (simp add: register_model_def Let_def)
    then show ?thesis using register_known by simp
  qed (use Cons in simp)
qed simp

text \<open>The configuration written for a turn names the model asked for, registers it under its provider,
  and never lets the agent edit files.\<close>

theorem turn_model_configured:
  assumes "CHR ''/'' \<notin> set p" and "m \<noteq> []" and "startswith m (p @ ''/'') = False"
  shows "\<exists>config providers entry models permission.
      build_opencode_config http st (Some (p @ ''/'' @ m)) project_root now ro = (config, ro)
    \<and> dget config ''model'' = JStr (p @ ''/'' @ m)
    \<and> dget config ''provider'' = JObj providers \<and> dget providers p = JObj entry
    \<and> dget entry ''models'' = JObj models \<and> map_of models m \<noteq> None
    \<and> dget config ''permission'' = JObj permission \<and> dget permission ''edit'' = JStr ''deny''"
proof -
  let ?x = "p @ ''/'' @ m" and ?pm = "provider_models_of st (p @ ''/'' @ m)"
  have cut: "cut_first CHR ''/'' ?x = Some (p, m)"
    using cut_first_fresh [OF assms(1)] by simp
  have pm: "p \<in> set (map fst ?pm)" "m \<in> set (list_get ?pm p)"
    unfolding provider_models_of_def cut
    by (simp_all add: Let_def dset_keys list_get_def)
  have local_id: "provider_local_model_id p m = m"
    using assms(3) by (simp add: provider_local_model_id_def)
  have "map_of (fold (register_model p) (list_get ?pm p) []) m \<noteq> None"
    using register_models [OF pm(2), of p "[]"] assms(2) by (simp add: local_id)
  moreover have "map_of (map (\<lambda>q. (q, f q)) (sort (map fst ?pm))) p = Some (f p)" for f :: "string \<Rightarrow> json"
    using pm(1) by (simp add: map_of_map_restrict)
  ultimately show ?thesis
    by (simp add: build_opencode_config_def text_truthy_def dget_def review_permission_def register_provider_models_def
        Let_def split: list.split)
qed

definition sample_settings :: opencode_settings where
  "sample_settings = \<lparr>os_provider_chain = ''llm-proxy:gpt-5.5,kimi-k2.6;openai:gpt-5.4'', os_provider_tokens = [],
     os_provider_base_urls = [], os_llm_proxy_base_url = ''http://p/v1'', os_model_api_cache_seconds = 60,
     os_model_api_timeout_seconds = 5\<rparr>"

definition sample_routing :: routing where
  "sample_routing = \<lparr>ro_health = reset_health, ro_cache = []\<rparr>"

definition sample_kimi :: provider_candidate where
  "sample_kimi = \<lparr>pc_provider = ''llm-proxy'', pc_model = ''kimi-k2.6'', pc_index = 1\<rparr>"

theorem cooldown_governs_selection_witness:
  "(sample_kimi \<in> set (fst (select_candidates (\<lambda>_ _. None) sample_settings 700
      (sample_routing\<lparr>ro_health := mark_unhealthy (opencode_model_id sample_kimi) ''no_output'' None 100 (ro_health sample_routing)\<rparr>)))) = True"
proof -
  have "list_ex (\<lambda>c. c = sample_kimi) (provider_candidates sample_settings)" by code_simp
  then have "sample_kimi \<in> set (provider_candidates sample_settings)" by (auto simp: list_ex_iff)
  moreover have "provider_api_key (pc_provider sample_kimi) sample_settings = []" by code_simp
  moreover have "cooldown_seconds ''no_output'' None = 600" by (simp add: cooldown_seconds_def)
  ultimately show ?thesis
    using cooldown_governs_selection [where c = sample_kimi and st = sample_settings and http = "\<lambda>_ _. None" and now = 700
      and ro = sample_routing and reason = "''no_output''" and retry = None and ?t0.0 = 100]
    by simp
qed

theorem turn_model_configured_witness:
  "\<exists>providers. dget (fst (build_opencode_config (\<lambda>_ _. None) sample_settings (Some ''kimi/k2'') (Some ''/r'') 5 sample_routing))
     ''provider'' = JObj providers \<and> is_dict (dget providers ''kimi'')"
  using turn_model_configured [where p = "''kimi''" and m = "''k2''" and http = "\<lambda>_ _. None" and st = sample_settings
      and project_root = "Some ''/r''" and now = 5 and ro = sample_routing]
  by auto

end
