(* ===== verification/Opencode_Process.thy ===== *)
theory Opencode_Process
  imports Opencode_Stream Opencode_Routing
begin

text \<open>
  One turn of the agent, \<open>review_v2/opencode_process.py\<close>: the fallback over candidate models, the
  reading of the process's output with its timeouts, the classification of the outcome. What the
  operating system does is a parameter: for each model started, the interleaving of lines its two
  pipes delivered with the turns of the polling loop, and its return code.
\<close>

record turn_settings =
  ts_opencode :: opencode_settings
  ts_opencode_bin :: string
  ts_pure :: bool
  ts_prompt_file_threshold :: int
  ts_active_multiplier :: rat
  ts_idle_timeout :: rat
  ts_task_timeout :: int

record turn_result =
  tr_type :: string
  tr_result :: string
  tr_session_id :: "string option"
  tr_model_id :: "string option"
  tr_tokens :: json_dict
  tr_cost_usd :: "rat option"
  tr_error :: "json_dict option"
  tr_patch_count :: nat
  tr_fallback_eligible :: bool
  tr_fallback_reason :: "string option"
  tr_raw_log_path :: "string option"

definition turn_result_of_type :: "string \<Rightarrow> turn_result" where
  "turn_result_of_type typ = \<lparr>tr_type = typ, tr_result = [], tr_session_id = None, tr_model_id = None, tr_tokens = [],
     tr_cost_usd = None, tr_error = None, tr_patch_count = 0, tr_fallback_eligible = False, tr_fallback_reason = None,
     tr_raw_log_path = None\<rparr>"

section \<open>Kinds of failure\<close>

definition PROVIDER_TRANSPORT_FAILURES :: "string list" where
  "PROVIDER_TRANSPORT_FAILURES = [''ConnectionRefused'', ''ECONNREFUSED'', ''ENOTFOUND'', ''EAI_AGAIN'', ''ETIMEDOUT'',
     ''ECONNRESET'', ''fetch failed'', ''socket hang up'']"

definition CONNECTION_REFUSED_FAILURES :: "string list" where
  "CONNECTION_REFUSED_FAILURES = [''ConnectionRefused'', ''ECONNREFUSED'']"

definition model_provider :: "string option \<Rightarrow> string" where
  "model_provider model_id =
     (case cut_first CHR ''/'' (text_or model_id []) of None \<Rightarrow> [] | Some (provider, _) \<Rightarrow> provider)"

text \<open>A text anywhere in a value that has one of the markers.\<close>

fun contains_marker :: "string list \<Rightarrow> json \<Rightarrow> bool" where
  "contains_marker markers (JObj d) = list_ex (\<lambda>kv. contains_marker markers (snd kv)) d"
| "contains_marker markers (JArr xs) = list_ex (contains_marker markers) xs"
| "contains_marker markers (JStr s) = list_ex (contains s) markers"
| "contains_marker markers _ = False"

definition contains_provider_transport_failure :: "json \<Rightarrow> bool" where
  "contains_provider_transport_failure v = contains_marker PROVIDER_TRANSPORT_FAILURES v"

definition contains_connection_refused :: "json \<Rightarrow> bool" where
  "contains_connection_refused v = contains_marker CONNECTION_REFUSED_FAILURES v"

text \<open>\<open>v in {401, 403}\<close> hashes \<open>v\<close> first.\<close>

definition in_int_set :: "json \<Rightarrow> int list \<Rightarrow> bool py_result" where
  "in_int_set v ns =
     (case v of
        JArr _ \<Rightarrow> Inl (TypeError ''unhashable type: list'')
      | JObj _ \<Rightarrow> Inl (TypeError ''unhashable type: dict'')
      | _ \<Rightarrow> Inr (list_ex (equals_int v) ns))"

definition error_text :: "json_dict \<Rightarrow> json_dict \<Rightarrow> string" where
  "error_text error_obj data =
     py_lower (join '' '' (map py_str (filter truthy
       [dget error_obj ''message'', dget error_obj ''name'', dget data ''message'', dget data ''error'', dget data ''type''])))"

definition classify_provider_model_error :: "json_dict \<Rightarrow> string option py_result" where
  "classify_provider_model_error error_obj =
     (if error_obj = [] then Inr None
      else
        (let data = (case dget error_obj ''data'' of JObj d \<Rightarrow> d | _ \<Rightarrow> []);
             status_code = py_or (py_or (dget data ''statusCode'') (dget data ''status_code'')) (dget error_obj ''statusCode'');
             txt = error_text error_obj data
         in bind_r (in_int_set status_code [401, 403]) (\<lambda>denied.
              Inr (if denied \<or> contains txt ''authentication'' \<or> contains txt ''invalid api key'' then Some ''provider_auth_failed''
                   else if equals_int status_code 404 then Some ''model_not_found''
                   else if contains txt ''rate limit'' \<or> contains txt ''too many request'' \<or> contains txt ''quota exceeded''
                   then Some ''rate_limit''
                   else if contains txt ''disabled'' then Some ''model_disabled''
                   else if contains txt ''not found'' \<or> contains txt ''does not exist'' \<or> contains txt ''unknown model''
                   then Some ''model_not_found''
                   else if contains txt ''unavailable'' \<or> contains txt ''not available'' then Some ''model_unavailable''
                   else if contains_provider_transport_failure (JObj error_obj) then Some ''provider_error''
                   else None))))"

definition should_skip_provider_after_failure :: "string \<Rightarrow> turn_result \<Rightarrow> bool" where
  "should_skip_provider_after_failure provider r \<longleftrightarrow>
     provider = ''llm-proxy'' \<and> tr_fallback_reason r = Some ''provider_error''
     \<and> contains_connection_refused (case tr_error r of None \<Rightarrow> JNull | Some d \<Rightarrow> JObj d)"

definition provider_failure_from_stderr :: "string \<Rightarrow> json_dict option" where
  "provider_failure_from_stderr line =
     (if \<not> contains line ''AI_APICallError'' \<and> \<not> contains line ''AI_RetryError'' then None
      else if \<not> list_ex (contains line) PROVIDER_TRANSPORT_FAILURES then None
      else Some [(''message'', JStr ''opencode provider transport failure''), (''stderr'', JStr (take 4000 line))])"

section \<open>Reading the output\<close>

datatype stream_name = Stdout | Stderr

text \<open>A line a reader thread got at a time, and a turn of the polling loop at a time, with what
  \<open>is_cancelled\<close> answered. The list ends when both threads have ended.\<close>

datatype stream_item = Got stream_name string rat | Poll rat bool

record stream_state =
  ss_events :: "event list"
  ss_stdout :: "string list"
  ss_stderr :: "string list"
  ss_dead :: "stream_name list"
  ss_last_event_at :: rat
  ss_saw_event :: bool
  ss_session_id :: "string option"
  ss_provider_failure :: "json_dict option"
  ss_timed_out :: bool
  ss_cancelled :: bool
  ss_stopped :: bool

definition stream_start :: "rat \<Rightarrow> stream_state" where
  "stream_start t = \<lparr>ss_events = [], ss_stdout = [], ss_stderr = [], ss_dead = [], ss_last_event_at = t, ss_saw_event = False,
     ss_session_id = None, ss_provider_failure = None, ss_timed_out = False, ss_cancelled = False, ss_stopped = False\<rparr>"

text \<open>A line in \<open>read_lines\<close>. An exception ends the thread that reads; its pipe is not read further.\<close>

definition read_line :: "stream_name \<Rightarrow> string \<Rightarrow> rat \<Rightarrow> stream_state \<Rightarrow> stream_state" where
  "read_line n raw now s =
     (let line = rstrip_by py_isspace raw;
          s1 = (case n of Stdout \<Rightarrow> s\<lparr>ss_stdout := ss_stdout s @ [line]\<rparr> | Stderr \<Rightarrow> s\<lparr>ss_stderr := ss_stderr s @ [line]\<rparr>)
      in case parse_line line of
           None \<Rightarrow>
             (case (if n = Stderr then provider_failure_from_stderr line else None) of
                None \<Rightarrow> s1
              | Some failure \<Rightarrow> s1\<lparr>ss_provider_failure := Some failure, ss_last_event_at := now, ss_saw_event := True\<rparr>)
         | Some e \<Rightarrow>
             (let s2 = s1\<lparr>ss_events := ss_events s1 @ [e], ss_last_event_at := now, ss_saw_event := True\<rparr>
              in if ss_session_id s \<noteq> None then s2
                 else (case extract_session_id [Some e] of
                         Inr i \<Rightarrow> s2\<lparr>ss_session_id := i\<rparr>
                       | Inl _ \<Rightarrow> s2\<lparr>ss_dead := n # ss_dead s\<rparr>)))"

definition base_timeout :: "int \<Rightarrow> rat" where
  "base_timeout timeout = max (1 / 1000) (of_int timeout)"

definition active_timeout :: "turn_settings \<Rightarrow> int \<Rightarrow> rat" where
  "active_timeout st timeout =
     max (base_timeout timeout)
       (base_timeout timeout * (if ts_active_multiplier st = 0 then 1 else ts_active_multiplier st))"

definition idle_timeout :: "turn_settings \<Rightarrow> int \<Rightarrow> rat" where
  "idle_timeout st timeout = max 1 (if ts_idle_timeout st = 0 then base_timeout timeout else ts_idle_timeout st)"

definition poll :: "turn_settings \<Rightarrow> int \<Rightarrow> rat \<Rightarrow> rat \<Rightarrow> bool \<Rightarrow> stream_state \<Rightarrow> stream_state" where
  "poll st timeout started now cancel_requested s =
     (if cancel_requested then s\<lparr>ss_cancelled := True, ss_stopped := True\<rparr>
      else if ss_provider_failure s \<noteq> None then s\<lparr>ss_stopped := True\<rparr>
      else if (\<not> ss_saw_event s \<and> now - started \<ge> base_timeout timeout)
            \<or> (ss_saw_event s \<and> (now - started \<ge> active_timeout st timeout
                 \<or> now - ss_last_event_at s \<ge> idle_timeout st timeout))
      then s\<lparr>ss_timed_out := True, ss_stopped := True\<rparr>
      else s)"

text \<open>Once the loop has ended, the threads may deliver what is left in the pipes before they are joined.\<close>

definition stream_step :: "turn_settings \<Rightarrow> int \<Rightarrow> rat \<Rightarrow> stream_item \<Rightarrow> stream_state \<Rightarrow> stream_state" where
  "stream_step st timeout started item s =
     (case item of
        Got n raw now \<Rightarrow> if n \<in> set (ss_dead s) then s else read_line n raw now s
      | Poll now c \<Rightarrow> if ss_stopped s then s else poll st timeout started now c s)"

definition read_items :: "turn_settings \<Rightarrow> int \<Rightarrow> rat \<Rightarrow> stream_item list \<Rightarrow> stream_state" where
  "read_items st timeout started items = fold (stream_step st timeout started) items (stream_start started)"

section \<open>The outcome\<close>

definition session_or :: "string option \<Rightarrow> event option list \<Rightarrow> string option py_result" where
  "session_or session_id evs = (if text_truthy session_id then Inr session_id else extract_session_id evs)"

text \<open>The fields every outcome takes from the events.\<close>

definition with_events :: "string option \<Rightarrow> string \<Rightarrow> string \<Rightarrow> event option list \<Rightarrow> turn_result \<Rightarrow> turn_result py_result" where
  "with_events session_id model raw_log evs r =
     bind_r (extract_tokens evs) (\<lambda>tokens.
     bind_r (extract_cost evs) (\<lambda>cost.
     bind_r (count_patches evs) (\<lambda>patches.
       Inr (r\<lparr>tr_session_id := session_id, tr_model_id := Some model, tr_tokens := tokens, tr_cost_usd := cost,
              tr_patch_count := patches, tr_raw_log_path := Some raw_log\<rparr>))))"

definition build_result :: "stream_state \<Rightarrow> int option \<Rightarrow> string \<Rightarrow> string \<Rightarrow> turn_result py_result" where
  "build_result s returncode raw_log model =
     (let evs = map Some (ss_events s); stdout = join [CHR 0x0A] (ss_stdout s); stderr = join [CHR 0x0A] (ss_stderr s)
      in if ss_cancelled s then
           bind_r (session_or (ss_session_id s) evs) (\<lambda>sid. with_events sid model raw_log evs
             ((turn_result_of_type ''cancelled'')\<lparr>tr_result := stdout,
                tr_error := Some [(''message'', JStr ''task cancelled by operator'')]\<rparr>))
         else if ss_provider_failure s \<noteq> None then
           bind_r (session_or (ss_session_id s) evs) (\<lambda>sid. with_events sid model raw_log evs
             ((turn_result_of_type ''error'')\<lparr>tr_result := stdout, tr_error := ss_provider_failure s,
                tr_fallback_eligible := True, tr_fallback_reason := Some ''provider_error''\<rparr>))
         else (case find (\<lambda>e. has_type e ''error'') (ss_events s) of
                 Some error_event \<Rightarrow>
                   bind_r (detect_rate_limit error_event) (\<lambda>is_rate_limited.
                     (let error_obj = (case py_or (dget error_event ''error'') (JObj error_event) of JObj d \<Rightarrow> d | _ \<Rightarrow> [])
                      in bind_r (if is_rate_limited then Inr (Some ''rate_limit'') else classify_provider_model_error error_obj)
                           (\<lambda>fallback_reason.
                         bind_r (session_or (ss_session_id s) evs) (\<lambda>sid. with_events sid model raw_log evs
                           ((turn_result_of_type
                               (if is_rate_limited \<or> fallback_reason = Some ''rate_limit'' then ''rate_limited'' else ''error''))
                            \<lparr>tr_error := Some error_obj, tr_fallback_eligible := fallback_reason \<noteq> None,
                             tr_fallback_reason := fallback_reason\<rparr>)))))
               | None \<Rightarrow>
                   if ss_timed_out s then
                     bind_r (extract_text evs) (\<lambda>txt. bind_r (extract_tokens evs) (\<lambda>tokens.
                       (let no_output = (txt = [] \<and> tokens = [])
                        in with_events (ss_session_id s) model raw_log evs
                             ((turn_result_of_type ''timeout'')\<lparr>tr_fallback_eligible := no_output,
                                tr_fallback_reason := (if no_output then Some ''no_output'' else None),
                                tr_error := Some [(''message'', JStr ''opencode prompt timeout'')]\<rparr>))))
                   else if returncode \<noteq> Some 0 then
                     bind_r (session_or (ss_session_id s) evs) (\<lambda>sid. with_events sid model raw_log evs
                       ((turn_result_of_type ''error'')\<lparr>tr_result := stdout,
                          tr_error := Some [(''message'', JStr (if stderr \<noteq> [] then stderr else stdout)),
                            (''returncode'', (case returncode of None \<Rightarrow> JNull | Some i \<Rightarrow> JInt i))]\<rparr>))
                   else
                     bind_r (extract_text evs) (\<lambda>txt.
                     bind_r (session_or (ss_session_id s) evs) (\<lambda>sid. with_events sid model raw_log evs
                       ((turn_result_of_type ''completed'')\<lparr>tr_result := txt\<rparr>)))))"

section \<open>Falling back over models\<close>

text \<open>What the operating system answers when the process of a model is started after those started
  before: its output, its return code, the name its raw log got from the clock, the time it took.\<close>

record process_run =
  pr_items :: "stream_item list"
  pr_returncode :: "int option"
  pr_raw_log :: string
  pr_seconds :: instant

type_synonym process_oracle = "string list \<Rightarrow> string \<Rightarrow> process_run"

record turn_world =
  tw_routing :: routing
  tw_now :: instant
  tw_spawned :: "string list"

text \<open>\<open>_run_single_turn\<close>: the state after the process, and its outcome or an exception.\<close>

definition run_single_turn ::
  "process_oracle \<Rightarrow> turn_settings \<Rightarrow> int \<Rightarrow> string \<Rightarrow> turn_world \<Rightarrow> turn_result py_result \<times> turn_world" where
  "run_single_turn os st timeout model w =
     (let run = os (tw_spawned w) model;
          s = read_items st timeout (of_int (tw_now w)) (pr_items run)
      in (build_result s (pr_returncode run) (pr_raw_log run) model,
          w\<lparr>tw_now := tw_now w + pr_seconds run, tw_spawned := tw_spawned w @ [model]\<rparr>))"

definition mark_model_unhealthy :: "string \<Rightarrow> string \<Rightarrow> turn_world \<Rightarrow> turn_world" where
  "mark_model_unhealthy model reason w =
     w\<lparr>tw_routing := (tw_routing w)\<lparr>ro_health := mark_unhealthy model reason None (tw_now w) (ro_health (tw_routing w))\<rparr>\<rparr>"

text \<open>The loop of \<open>run_turn\<close> over the models left.\<close>

fun run_models ::
  "process_oracle \<Rightarrow> turn_settings \<Rightarrow> int \<Rightarrow> string list \<Rightarrow> string list \<Rightarrow> turn_result option \<Rightarrow> turn_world
     \<Rightarrow> turn_result option py_result \<times> turn_world" where
  "run_models os st timeout failed [] last_result w = (Inr last_result, w)"
| "run_models os st timeout failed (model # models) last_result w =
     (let provider = model_provider (Some model)
      in if provider \<noteq> [] \<and> provider \<in> set failed then
           run_models os st timeout failed models last_result (mark_model_unhealthy model ''provider_error'' w)
         else
           (case run_single_turn os st timeout model w of
              (Inl e, w1) \<Rightarrow> (Inl e, w1)
            | (Inr r, w1) \<Rightarrow>
                if tr_type r = ''cancelled'' \<or> \<not> tr_fallback_eligible r \<or> models = [] then (Inr (Some r), w1)
                else run_models os st timeout
                       (if provider \<noteq> [] \<and> should_skip_provider_after_failure provider r then provider # failed else failed)
                       models (Some r)
                       (mark_model_unhealthy model (text_or (tr_fallback_reason r) ''provider_error'') w1)))"

definition turn_models ::
  "(string \<Rightarrow> string \<Rightarrow> string option) \<Rightarrow> turn_settings \<Rightarrow> string option \<Rightarrow> turn_world \<Rightarrow> string list \<times> turn_world" where
  "turn_models http st model_id w =
     (let (preferred, ro1) = (if text_truthy model_id then (the model_id, tw_routing w)
                              else selected_opencode_model http (ts_opencode st) (tw_now w) (tw_routing w));
          (models, ro2) = candidate_opencode_models http (ts_opencode st) (Some preferred) (tw_now w) ro1;
          w' = w\<lparr>tw_routing := ro2\<rparr>
      in (if models = [] then [preferred] else models, w'))"

definition turn_timeout :: "turn_settings \<Rightarrow> int option \<Rightarrow> int" where
  "turn_timeout st timeout_seconds =
     (case timeout_seconds of Some n \<Rightarrow> if n \<noteq> 0 then n else ts_task_timeout st | None \<Rightarrow> ts_task_timeout st)"

definition run_turn ::
  "process_oracle \<Rightarrow> (string \<Rightarrow> string \<Rightarrow> string option) \<Rightarrow> turn_settings \<Rightarrow> string option \<Rightarrow> int option \<Rightarrow> turn_world
     \<Rightarrow> turn_result py_result \<times> turn_world" where
  "run_turn os http st model_id timeout_seconds w =
     (let timeout = turn_timeout st timeout_seconds;
          (models, w1) = turn_models http st model_id w;
          (r, w2) = run_models os st timeout [] models None w1
      in (bind_r r (\<lambda>last. Inr (case last of
            Some x \<Rightarrow> x
          | None \<Rightarrow> (turn_result_of_type ''error'')\<lparr>tr_model_id := model_id,
              tr_error := Some [(''message'', JStr ''no opencode model candidate'')]\<rparr>)), w2))"

section \<open>The command and environment of the process\<close>

definition prompt_file_path :: "(string \<Rightarrow> string) \<Rightarrow> string \<Rightarrow> string \<Rightarrow> string" where
  "prompt_file_path sha256 repo_path prompt =
     repo_path @ ''/.cr_agent/opencode/prompts/prompt-'' @ take 16 (sha256 prompt) @ ''.md''"

definition message_args :: "(string \<Rightarrow> string) \<Rightarrow> turn_settings \<Rightarrow> string \<Rightarrow> string \<Rightarrow> string list" where
  "message_args sha256 st repo_path prompt =
     (if int (length prompt) \<le> ts_prompt_file_threshold st then [prompt]
      else (let path = prompt_file_path sha256 repo_path prompt
            in [''Read and follow the attached prompt file exactly: '' @ path_name path, ''--file'', path]))"

definition build_command :: "(string \<Rightarrow> string) \<Rightarrow> turn_settings \<Rightarrow> string \<Rightarrow> string \<Rightarrow> string list" where
  "build_command sha256 st repo_path prompt =
     [ts_opencode_bin st, ''run'', ''--print-logs'', ''--format'', ''json'']
     @ (if ts_pure st then [''--pure''] else []) @ message_args sha256 st repo_path prompt"

definition build_env :: "turn_settings \<Rightarrow> string \<Rightarrow> string \<Rightarrow> string \<Rightarrow> (string \<times> string) list \<Rightarrow> (string \<times> string) list" where
  "build_env st service_bin repo_path model environ =
     (let env = dset ''PWD'' repo_path environ;
          path_parts = filter (\<lambda>p. p \<noteq> []) (split_on CHR '':'' (text_get env ''PATH''));
          env = (if service_bin \<notin> set path_parts then dset ''PATH'' (join '':'' (service_bin # path_parts)) env else env);
          provider = model_provider (Some model);
          token = text_get (parse_provider_tokens (os_provider_tokens (ts_opencode st))) provider;
          configured = text_get (parse_provider_base_urls (os_provider_base_urls (ts_opencode st))) provider;
          base_url = (if provider = ''llm-proxy'' \<and> configured = []
                      then rstrip_slash (os_llm_proxy_base_url (ts_opencode st)) else configured)
      in if provider = ''openai'' then ddel ''OPENAI_BASE_URL'' (ddel ''OPENAI_API_KEY'' env)
         else if token \<noteq> [] then
           (let env = dset ''OPENAI_API_KEY'' token env
            in if base_url \<noteq> [] then dset ''OPENAI_BASE_URL'' base_url env else env)
         else if base_url \<noteq> [] then dset ''OPENAI_BASE_URL'' base_url env else env)"

section \<open>Which processes a turn starts\<close>

text \<open>The outcomes of starting the processes of a list of models one after the other.\<close>

fun replay ::
  "process_oracle \<Rightarrow> turn_settings \<Rightarrow> int \<Rightarrow> string list \<Rightarrow> instant \<Rightarrow> string list \<Rightarrow> turn_result py_result list" where
  "replay os st timeout spawned now [] = []"
| "replay os st timeout spawned now (m # ms) =
     build_result (read_items st timeout (of_int now) (pr_items (os spawned m))) (pr_returncode (os spawned m))
       (pr_raw_log (os spawned m)) m
     # replay os st timeout (spawned @ [m]) (now + pr_seconds (os spawned m)) ms"

definition falls_back :: "turn_result \<Rightarrow> bool" where
  "falls_back r \<longleftrightarrow> tr_type r \<noteq> ''cancelled'' \<and> tr_fallback_eligible r"

definition failed_over :: "turn_result py_result \<Rightarrow> bool" where
  "failed_over x \<longleftrightarrow> (case x of Inl _ \<Rightarrow> False | Inr r \<Rightarrow> falls_back r)"

lemma run_single_fst:
  "fst (run_single_turn os st timeout m w) = hd (replay os st timeout (tw_spawned w) (tw_now w) [m])"
  by (simp add: run_single_turn_def Let_def)

lemma length_replay [simp]: "length (replay os st timeout sp now ms) = length ms"
  by (induction ms arbitrary: sp now) simp_all

lemma replay_empty [simp]: "replay os st timeout sp now ms = [] \<longleftrightarrow> ms = []"
  by (metis length_0_conv length_replay)

lemma mark_world [simp]:
  "tw_spawned (mark_model_unhealthy m r w) = tw_spawned w" "tw_now (mark_model_unhealthy m r w) = tw_now w"
  by (simp_all add: mark_model_unhealthy_def)

text \<open>What the loop has done when it ends: the processes started, and why no other was.\<close>

definition models_run ::
  "process_oracle \<Rightarrow> turn_settings \<Rightarrow> int \<Rightarrow> string list \<Rightarrow> turn_result option \<Rightarrow> turn_world
     \<Rightarrow> turn_result option py_result \<Rightarrow> turn_world \<Rightarrow> string list \<Rightarrow> bool" where
  "models_run os st timeout models last_result w res w' tried \<longleftrightarrow>
     tw_spawned w' = tw_spawned w @ tried \<and> subseq tried models
     \<and> (tried = [] \<longrightarrow> res = Inr last_result)
     \<and> (tried \<noteq> [] \<longrightarrow> res = bind_r (last (replay os st timeout (tw_spawned w) (tw_now w) tried)) (\<lambda>r. Inr (Some r)))
     \<and> list_all failed_over (butlast (replay os st timeout (tw_spawned w) (tw_now w) tried))
     \<and> (\<forall>r. res = Inr (Some r) \<longrightarrow> falls_back r \<longrightarrow>
          (\<forall>m \<in> set models. m \<in> set tried \<or> model_provider (Some m) = ''llm-proxy''))"

lemma run_models_run:
  assumes "set failed \<subseteq> {''llm-proxy''}" and "run_models os st timeout failed models last_result w = (res, w')"
  shows "\<exists>tried. models_run os st timeout models last_result w res w' tried
    \<and> (failed = [] \<longrightarrow> models \<noteq> [] \<longrightarrow> tried \<noteq> [])"
  using assms
proof (induction models arbitrary: failed last_result w)
  case Nil
  then show ?case by (intro exI [of _ "[]"]) (simp add: models_run_def)
next
  case (Cons m ms)
  let ?p = "model_provider (Some m)"
  show ?case
  proof (cases "?p \<noteq> [] \<and> ?p \<in> set failed")
    case True
    with Cons.prems have p: "?p = ''llm-proxy''" by auto
    have r: "run_models os st timeout failed ms last_result (mark_model_unhealthy m ''provider_error'' w) = (res, w')"
      using Cons.prems(2) True by (simp add: Let_def)
    from Cons.IH [OF Cons.prems(1) r] obtain tried where
      "models_run os st timeout ms last_result (mark_model_unhealthy m ''provider_error'' w) res w' tried" by blast
    then show ?thesis
      using p True by (intro exI [of _ tried]) (auto simp: models_run_def)
  next
    case False
    obtain x w1 where x: "run_single_turn os st timeout m w = (x, w1)" by fastforce
    have w1: "tw_spawned w1 = tw_spawned w @ [m]" "tw_now w1 = tw_now w + pr_seconds (os (tw_spawned w) m)"
      using x by (auto simp: run_single_turn_def Let_def)
    have x': "replay os st timeout (tw_spawned w) (tw_now w) (m # ts) =
        x # replay os st timeout (tw_spawned w1) (tw_now w1) ts" for ts
      using x run_single_fst [of os st timeout m w] by (simp add: w1)
    show ?thesis
    proof (cases x)
      case (Inl e)
      with Cons.prems(2) False x w1 x' [of "[]"] show ?thesis
        by (intro exI [of _ "[m]"]) (auto simp: models_run_def Let_def)
    next
      case (Inr r)
      show ?thesis
      proof (cases "falls_back r \<and> ms \<noteq> []")
        case stop: False
        with Cons.prems(2) False x Inr w1 x' [of "[]"] show ?thesis
          by (intro exI [of _ "[m]"]) (auto simp: models_run_def Let_def falls_back_def split: if_splits)
      next
        case go: True
        let ?w2 = "mark_model_unhealthy m (text_or (tr_fallback_reason r) ''provider_error'') w1"
        let ?failed = "if ?p \<noteq> [] \<and> should_skip_provider_after_failure ?p r then ?p # failed else failed"
        have r2: "run_models os st timeout ?failed ms (Some r) ?w2 = (res, w')"
          using Cons.prems(2) False x Inr go by (simp add: Let_def falls_back_def)
        have "set ?failed \<subseteq> {''llm-proxy''}"
          using Cons.prems(1) by (simp add: should_skip_provider_after_failure_def)
        from Cons.IH [OF this r2] obtain tried where
          t: "models_run os st timeout ms (Some r) ?w2 res w' tried" by blast
        have "models_run os st timeout (m # ms) last_result w res w' (m # tried)"
          using t go Inr unfolding models_run_def x' by (auto simp: w1 failed_over_def)
        then show ?thesis by blast
      qed
    qed
  qed
qed

text \<open>C16: a turn starts the candidate models in their order, each place of the list at most once; it moves
  on only after a failure that asks for another model, never after a cancellation, and its result is
  that of the last process started. When it ends with a failure that asks for another model, every
  candidate left out belongs to the proxy found unreachable.\<close>

theorem run_turn_falls_back:
  assumes "run_turn os http st model_id timeout_seconds w = (res, w')"
  shows "\<exists>tried. tw_spawned w' = tw_spawned w @ tried \<and> tried \<noteq> []
    \<and> subseq tried (fst (turn_models http st model_id w))
    \<and> (let outcomes = replay os st (turn_timeout st timeout_seconds) (tw_spawned w) (tw_now w) tried
       in res = last outcomes \<and> list_all failed_over (butlast outcomes))
    \<and> (\<forall>r. res = Inr r \<longrightarrow> falls_back r \<longrightarrow>
         (\<forall>m \<in> set (fst (turn_models http st model_id w)). m \<in> set tried \<or> model_provider (Some m) = ''llm-proxy''))"
proof -
  let ?t = "turn_timeout st timeout_seconds"
  obtain models w1 where m: "turn_models http st model_id w = (models, w1)" by fastforce
  have w1: "tw_spawned w1 = tw_spawned w" "tw_now w1 = tw_now w" "models \<noteq> []"
    using m by (auto simp: turn_models_def Let_def split: prod.splits if_splits)
  obtain r w2 where r: "run_models os st ?t [] models None w1 = (r, w2)" by fastforce
  from run_models_run [OF _ r] w1(3) obtain tried where
    t: "models_run os st ?t models None w1 r w2 tried" "tried \<noteq> []" by auto
  have r': "r = bind_r (last (replay os st ?t (tw_spawned w) (tw_now w) tried)) (\<lambda>x. Inr (Some x))" and "w' = w2"
    using t assms by (simp_all add: models_run_def w1 run_turn_def m r)
  then have "res = last (replay os st ?t (tw_spawned w) (tw_now w) tried)"
    using assms by (cases "last (replay os st ?t (tw_spawned w) (tw_now w) tried)") (simp_all add: run_turn_def m r)
  with t r' \<open>w' = w2\<close> show ?thesis
    unfolding models_run_def w1 m fst_conv Let_def by (intro exI [of _ tried]) auto
qed

section \<open>When a turn ends and what it is called\<close>

definition stop_explained :: "stream_state \<Rightarrow> bool" where
  "stop_explained s \<longleftrightarrow> ss_stopped s \<longrightarrow> ss_cancelled s \<or> ss_provider_failure s \<noteq> None \<or> ss_timed_out s"

lemma read_line_keeps:
  "ss_stopped (read_line n raw now s) = ss_stopped s"
  "ss_cancelled (read_line n raw now s) = ss_cancelled s" "ss_timed_out (read_line n raw now s) = ss_timed_out s"
  "ss_provider_failure s \<noteq> None \<Longrightarrow> ss_provider_failure (read_line n raw now s) \<noteq> None"
  by (auto simp: read_line_def Let_def split: stream_name.split option.split sum.split)

lemma stream_step_explained: "stop_explained s \<Longrightarrow> stop_explained (stream_step st timeout started i s)"
  using read_line_keeps
  by (auto simp: stream_step_def poll_def stop_explained_def split: stream_item.split)

lemma stream_step_stays: "ss_stopped s \<Longrightarrow> ss_stopped (stream_step st timeout started i s)"
  by (auto simp: stream_step_def read_line_keeps split: stream_item.split)

lemma fold_explained: "stop_explained s \<Longrightarrow> stop_explained (fold (stream_step st timeout started) items s)"
  by (induction items arbitrary: s) (simp_all add: stream_step_explained)

lemma fold_stays: "ss_stopped s \<Longrightarrow> ss_stopped (fold (stream_step st timeout started) items s)"
  by (induction items arbitrary: s) (simp_all add: stream_step_stays)

lemma base_le_active: "base_timeout timeout \<le> active_timeout st timeout"
  by (simp add: active_timeout_def)

lemma poll_late: "started + active_timeout st timeout \<le> t \<Longrightarrow> ss_stopped (stream_step st timeout started (Poll t c) s)"
  using base_le_active [of timeout st] by (auto simp: stream_step_def poll_def)

text \<open>However much the agent prints, the first look at the process after its active timeout ends the
  turn, and a turn that was ended was cancelled, lost its provider or timed out.\<close>

theorem late_turn_ended:
  assumes "Poll t c \<in> set items" and "started + active_timeout st timeout \<le> t"
  shows "ss_stopped (read_items st timeout started items)
    \<and> (ss_cancelled (read_items st timeout started items)
       \<or> ss_provider_failure (read_items st timeout started items) \<noteq> None
       \<or> ss_timed_out (read_items st timeout started items))"
proof -
  from assms(1) obtain a b where "items = a @ Poll t c # b" by (meson split_list)
  then have "ss_stopped (read_items st timeout started items)"
    using poll_late [OF assms(2)] by (simp add: read_items_def fold_stays)
  moreover have "stop_explained (read_items st timeout started items)"
    unfolding read_items_def by (rule fold_explained) (simp add: stop_explained_def stream_start_def)
  ultimately show ?thesis by (simp add: stop_explained_def)
qed

lemma with_events_Inr:
  "with_events sid m raw_log evs r = Inr r' \<Longrightarrow> tr_type r' = tr_type r \<and> tr_fallback_eligible r' = tr_fallback_eligible r
     \<and> tr_fallback_reason r' = tr_fallback_reason r \<and> tr_model_id r' = Some m"
  by (auto simp: with_events_def bind_r_Inr)

text \<open>A turn counts as completed exactly when nothing interrupted it, no error event arrived and the
  process returned 0; another model is asked for exactly when a reason is recorded, and never after a
  completed or cancelled turn.\<close>

theorem outcome_kinds:
  assumes "build_result s returncode raw_log model = Inr r"
  shows "(tr_type r = ''completed'' \<longleftrightarrow> ss_cancelled s = False \<and> ss_provider_failure s = None
        \<and> list_all (\<lambda>e. has_type e ''error'' = False) (ss_events s) \<and> ss_timed_out s = False \<and> returncode = Some 0)
    \<and> (tr_type r = ''cancelled'' \<longleftrightarrow> ss_cancelled s)
    \<and> (tr_fallback_eligible r \<longleftrightarrow> tr_fallback_reason r \<noteq> None)
    \<and> (tr_fallback_eligible r \<longrightarrow> tr_type r \<in> {''error'', ''rate_limited'', ''timeout''})
    \<and> tr_model_id r = Some model"
proof -
  have none: "find (\<lambda>e. has_type e ''error'') es = None \<longleftrightarrow> list_all (\<lambda>e. has_type e ''error'' = False) es" for es
    by (auto simp: find_None_key list_all_iff)
  consider (c) "ss_cancelled s" | (f) "\<not> ss_cancelled s" "ss_provider_failure s \<noteq> None"
    | (e) x where "\<not> ss_cancelled s" "ss_provider_failure s = None" "find (\<lambda>e. has_type e ''error'') (ss_events s) = Some x"
    | (t) "\<not> ss_cancelled s" "ss_provider_failure s = None" "find (\<lambda>e. has_type e ''error'') (ss_events s) = None" "ss_timed_out s"
    | (r) "\<not> ss_cancelled s" "ss_provider_failure s = None" "find (\<lambda>e. has_type e ''error'') (ss_events s) = None" "\<not> ss_timed_out s"
    by (cases "find (\<lambda>e. has_type e ''error'') (ss_events s)") auto
  then show ?thesis
  proof cases
    case e
    then have "\<not> list_all (\<lambda>e. has_type e ''error'' = False) (ss_events s)" by (metis none option.distinct(1))
    with e assms show ?thesis
      by (auto simp: build_result_def Let_def bind_r_Inr turn_result_of_type_def dest!: with_events_Inr split: if_splits)
  next
    case t
    from t(3) none have "list_all (\<lambda>e. has_type e ''error'' = False) (ss_events s)" by blast
    with t assms show ?thesis
      by (auto simp: build_result_def Let_def bind_r_Inr turn_result_of_type_def dest!: with_events_Inr)
  next
    case r
    from r(3) none have "list_all (\<lambda>e. has_type e ''error'' = False) (ss_events s)" by blast
    with r assms show ?thesis
      by (auto simp: build_result_def Let_def bind_r_Inr turn_result_of_type_def dest!: with_events_Inr split: if_split_asm)
  qed (use assms in \<open>auto simp: build_result_def Let_def bind_r_Inr turn_result_of_type_def dest!: with_events_Inr\<close>)
qed

section \<open>Witnesses\<close>

definition sample_turn_settings :: turn_settings where
  "sample_turn_settings = \<lparr>ts_opencode = sample_settings, ts_opencode_bin = ''opencode'', ts_pure = True,
     ts_prompt_file_threshold = 4000, ts_active_multiplier = 3, ts_idle_timeout = 600, ts_task_timeout = 1200\<rparr>"

text \<open>The first model is refused, the second answers.\<close>

definition sample_oracle :: process_oracle where
  "sample_oracle spawned model =
     (if spawned = [] then \<lparr>pr_items = [Got Stderr ''AI_APICallError ECONNRESET'' 1, Poll 2 False], pr_returncode = Some 1, pr_raw_log = ''a'', pr_seconds = 3\<rparr>
      else \<lparr>pr_items = [Poll 1 False], pr_returncode = Some 0, pr_raw_log = ''b'', pr_seconds = 9\<rparr>)"

definition sample_turn_world :: turn_world where
  "sample_turn_world = \<lparr>tw_routing = sample_routing, tw_now = 0, tw_spawned = []\<rparr>"

definition sample_turn :: "turn_result py_result \<times> turn_world" where
  "sample_turn = run_turn sample_oracle (\<lambda>_ _. None) sample_turn_settings None None sample_turn_world"

lemma sample_turn_models:
  "turn_models (\<lambda>_ _. None) sample_turn_settings None sample_turn_world =
     ([''llm-proxy/gpt-5.5'', ''llm-proxy/kimi-k2.6'', ''openai/gpt-5.4''], sample_turn_world)"
  by code_simp

lemma sample_turn_run:
  "tw_spawned (snd (run_models sample_oracle sample_turn_settings 1200 []
     [''llm-proxy/gpt-5.5'', ''llm-proxy/kimi-k2.6'', ''openai/gpt-5.4''] None sample_turn_world))
   = [''llm-proxy/gpt-5.5'', ''llm-proxy/kimi-k2.6'']"
  by code_simp

lemma sample_turn_spawned: "tw_spawned (snd sample_turn) = [''llm-proxy/gpt-5.5'', ''llm-proxy/kimi-k2.6'']"
proof -
  have "turn_timeout sample_turn_settings None = 1200"
    by (simp add: turn_timeout_def sample_turn_settings_def)
  then show ?thesis
    unfolding sample_turn_def run_turn_def
    by (simp only: sample_turn_models Let_def prod.case case_prod_beta fst_conv snd_conv sample_turn_run)
qed

lemma sample_turn_world_empty: "tw_spawned sample_turn_world = []"
  by (simp add: sample_turn_world_def)

theorem run_turn_falls_back_witness:
  "subseq [''llm-proxy/gpt-5.5'', ''llm-proxy/kimi-k2.6'']
     (fst (turn_models (\<lambda>_ _. None) sample_turn_settings None sample_turn_world))"
proof -
  have "run_turn sample_oracle (\<lambda>_ _. None) sample_turn_settings None None sample_turn_world = (fst sample_turn, snd sample_turn)"
    by (simp add: sample_turn_def)
  from run_turn_falls_back [OF this] obtain tried where t:
    "tw_spawned (snd sample_turn) = tw_spawned sample_turn_world @ tried"
    "subseq tried (fst (turn_models (\<lambda>_ _. None) sample_turn_settings None sample_turn_world))" by blast
  from t(1) have "tried = [''llm-proxy/gpt-5.5'', ''llm-proxy/kimi-k2.6'']"
    by (simp only: sample_turn_spawned sample_turn_world_empty append_Nil)
  with t(2) show ?thesis by (simp only:)
qed

theorem late_turn_ended_witness:
  "ss_stopped (read_items sample_turn_settings 60 0 [Got Stdout ''{}'' 1, Got Stdout ''{}'' 179, Poll 180 False])"
  using late_turn_ended [of 180 False "[Got Stdout ''{}'' 1, Got Stdout ''{}'' 179, Poll 180 False]" 0 sample_turn_settings 60]
  by (simp add: active_timeout_def base_timeout_def sample_turn_settings_def)

definition sample_refused :: stream_state where
  "sample_refused = read_items sample_turn_settings 60 0 [Got Stderr ''AI_APICallError ECONNRESET'' 1, Poll 2 False]"

theorem outcome_kinds_witness:
  "tr_type (projr (build_result sample_refused (Some 1) ''log'' ''m'')) \<in> {''error'', ''rate_limited'', ''timeout''}"
proof -
  have "is_ok (build_result sample_refused (Some 1) ''log'' ''m'')"
    "tr_fallback_eligible (projr (build_result sample_refused (Some 1) ''log'' ''m''))" by code_simp+
  with outcome_kinds [OF ok_projr [OF this(1)]] show ?thesis by blast
qed

end
