(* ===== verification/Workflow.thy ===== *)
theory Workflow
  imports Workflow_Monad Report_Html Context Judge Json_Extract Opencode_Process
begin

text \<open>
  The review workflow, \<open>review_v2/workflow.py\<close>: preparation, guard, reviewers in parallel, the judge, the
  outcome, with the control requests of operators looked for between the steps. Git, the prompts and
  the turns of the models are fields of \<open>wf_env\<close>; the schedule of the reviewer threads is a list of
  their indices, each occurrence running the thread up to its next wait. The database statements of one
  such stretch are taken together; statements of different reviewers are about different rows.
\<close>

record wf_env =
  we_prepare_repo :: "cr_task \<Rightarrow> string py_result"
  we_current_commit :: "string \<Rightarrow> string py_result"
  we_review_context :: "string \<Rightarrow> json_dict py_result"
  we_git_diffs :: "string \<Rightarrow> string \<Rightarrow> (string \<times> string \<times> (string list \<Rightarrow> string)) py_result"
  we_max_diff_bytes :: nat
  we_selected_model :: string
  we_prompt :: "string \<Rightarrow> json_dict list \<Rightarrow> string py_result"
  we_turn :: "string \<Rightarrow> turn_result py_result"
  we_concurrency :: int
  we_schedule :: "nat list"
  we_artifacts :: string
  we_report_base :: string
  we_sha256 :: "string \<Rightarrow> string"

section \<open>Control\<close>

definition opt_str :: "string option \<Rightarrow> json" where
  "opt_str v = (case v of None \<Rightarrow> JNull | Some s \<Rightarrow> JStr s)"

text \<open>The request \<open>_raise_if_task_control_requested\<close> finds, if any.\<close>

definition requested_control :: "string \<Rightarrow> db \<Rightarrow> (control_action \<times> string) option" where
  "requested_control task_id d =
     (case get_task task_id d of
        Some t \<Rightarrow>
          if tk_status t = TCancelled then
            (let action = (if text_or (tk_gate t) ''cancelled'' = ''stopped'' then Stop_Task else Cancel_Task)
             in Some (action, text_or (tk_error t) (action_text action @ '' requested'')))
          else check_task_control task_id d
      | None \<Rightarrow> check_task_control task_id d)"

definition raise_if_control :: "string \<Rightarrow> unit wf" where
  "raise_if_control task_id =
     wbind (db_get (requested_control task_id)) (\<lambda>c.
       case c of None \<Rightarrow> wret () | Some (action, reason) \<Rightarrow> wraise (Control action reason))"

section \<open>One reviewer\<close>

definition turn_ok :: "turn_result \<Rightarrow> bool" where
  "turn_ok r \<longleftrightarrow> tr_type r = ''completed'' \<and> text_truthy (tr_session_id r)"

definition run_model :: "wf_env \<Rightarrow> turn_result \<Rightarrow> string option" where
  "run_model env r = (if text_truthy (tr_model_id r) then tr_model_id r else Some (we_selected_model env))"

text \<open>Up to the turn of the model: the run and the prompt.\<close>

definition begin_reviewer :: "wf_env \<Rightarrow> string \<Rightarrow> plan_item \<Rightarrow> (nat \<times> string) wf" where
  "begin_reviewer env task_id item =
     wseq (raise_if_control task_id)
       (wbind (lift_r (we_prompt env (pi_reviewer item) [])) (\<lambda>prompt.
        wbind (db_do (start_reviewer_run task_id (pi_reviewer item) ''wf1'' 1 (Some (we_selected_model env)))) (\<lambda>run_id.
        wseq (wf_event task_id ''reviewer_started'' (pi_reviewer item @ '' started'') (''reviewer:'' @ pi_reviewer item) ''info''
                [(''reviewer'', JStr (pi_reviewer item)), (''required'', JBool (pi_required item)),
                 (''run_id'', JInt (int run_id))])
          (wret (run_id, prompt)))))"

text \<open>A run recorded as failed by the exception of its turn.\<close>

definition fail_run :: "wf_env \<Rightarrow> string \<Rightarrow> nat \<Rightarrow> string \<Rightarrow> string \<Rightarrow> unit wf" where
  "fail_run env task_id run_id output_path err =
     wseq (raise_if_control task_id)
       (db_set (\<lambda>now d. Inr (finish_reviewer_run run_id RFailed None None (Some output_path) (Some err)
          (Some (we_selected_model env)) None now d)))"

text \<open>The end of a run by the result of its turn, with \<open>msg\<close> as the error when it is no success.\<close>

definition finish_run :: "wf_env \<Rightarrow> string \<Rightarrow> nat \<Rightarrow> string \<Rightarrow> string \<Rightarrow> turn_result \<Rightarrow> unit wf" where
  "finish_run env task_id run_id output_path msg r =
     wseq (raise_if_control task_id)
       (wbind (lift_r (token_usage (tr_tokens r) (tr_cost_usd r) (tr_model_id r) (Some (we_selected_model env)))) (\<lambda>u.
          db_set (\<lambda>now d. Inr (finish_reviewer_run run_id (if turn_ok r then RSuccess else RFailed) (tr_session_id r)
             (tr_raw_log_path r) (Some output_path) (if turn_ok r then None else Some msg) (run_model env r) (Some u) now d))))"

definition reviewer_json :: "string \<Rightarrow> nat \<Rightarrow> json_dict \<Rightarrow> json_dict" where
  "reviewer_json reviewer run_id d = dset ''reviewer'' (JStr reviewer) (dset ''review_run_id'' (JInt (int run_id)) d)"

text \<open>The output of a successful run: the JSON object with its findings, or the reason there is none.\<close>

definition reviewer_output_of :: "string \<Rightarrow> plan_item \<Rightarrow> nat \<Rightarrow> turn_result \<Rightarrow> json_dict option wf" where
  "reviewer_output_of task_id item run_id r =
     (let name = pi_reviewer item;
          skipped = (\<lambda>extra. wseq (wf_event task_id ''reviewer_output_skipped'' (name @ '' output missing findings'')
                (''reviewer:'' @ name) ''warn'' ([(''reviewer'', JStr name)] @ extra)) (wret None))
      in case extract_json_object (tr_result r) [''findings''] of
           Inl e \<Rightarrow>
             if pi_required item then wraise (Failure (RuntimeError ''invalid reviewer output''))
             else skipped [(''required'', JBool (pi_required item)), (''run_id'', JInt (int run_id)), (''error'', JStr (exc_text e))]
         | Inr d \<Rightarrow>
             if \<not> has_key d ''findings'' then
               if pi_required item then wraise (Failure (RuntimeError ''invalid reviewer output''))
               else skipped [(''run_id'', JInt (int run_id))]
             else wret (Some (reviewer_json name run_id d)))"

definition reviewer_output_path :: "wf_env \<Rightarrow> string \<Rightarrow> string" where
  "reviewer_output_path env name = we_artifacts env @ ''/reviewers/'' @ name @ ''/output.json''"

text \<open>After the turn.\<close>

definition end_reviewer :: "wf_env \<Rightarrow> string \<Rightarrow> plan_item \<Rightarrow> nat \<Rightarrow> string \<Rightarrow> json_dict option wf" where
  "end_reviewer env task_id item run_id prompt =
     (let name = pi_reviewer item; stage = ''reviewer:'' @ name; path = reviewer_output_path env name
      in case we_turn env prompt of
           Inl e \<Rightarrow>
             wseq (fail_run env task_id run_id path (exc_text e))
             (wseq (wf_event task_id ''reviewer_failed'' (name @ '' failed'') stage ''error''
                 [(''reviewer'', JStr name), (''required'', JBool (pi_required item)), (''run_id'', JInt (int run_id)),
                  (''error'', JStr (exc_text e))])
               (wraise (Failure e)))
         | Inr r \<Rightarrow>
             wseq (finish_run env task_id run_id path ''missing session id or reviewer failed'' r)
             (wbind (lift_r (int_or_zero (dget (tr_tokens r) ''total''))) (\<lambda>tokens.
              wseq (wf_event task_id (if turn_ok r then ''reviewer_completed'' else ''reviewer_failed'')
                 (name @ (if turn_ok r then '' success'' else '' failed'')) stage (if turn_ok r then ''info'' else ''error'')
                 [(''reviewer'', JStr name), (''required'', JBool (pi_required item)), (''run_id'', JInt (int run_id)),
                  (''session_id'', opt_str (tr_session_id r)), (''total_tokens'', JInt tokens)])
                (if \<not> turn_ok r then
                   wseq (raise_if_control task_id)
                     (if pi_required item
                      then wraise (Failure (RuntimeError ''required reviewer failed or did not return session id''))
                      else wret None)
                 else reviewer_output_of task_id item run_id r))))"

section \<open>The reviewers in parallel\<close>

datatype review_thread = Waiting | Started nat string | Done

record fanout =
  fo_threads :: "review_thread list"
  fo_outputs :: "json_dict list"
  fo_failures :: "string list"
  fo_control :: "(control_action \<times> string) option"

text \<open>What the loop over the completed futures does with one.\<close>

definition collect :: "plan_item \<Rightarrow> wf_exc + json_dict option \<Rightarrow> fanout \<Rightarrow> fanout" where
  "collect item r fo =
     (case r of
        Inl (Control action reason) \<Rightarrow> fo\<lparr>fo_control := Some (action, reason)\<rparr>
      | Inl (Failure e) \<Rightarrow>
          if pi_required item then fo\<lparr>fo_failures := fo_failures fo @ [pi_reviewer item @ '': '' @ exc_text e]\<rparr> else fo
      | Inr (Some d) \<Rightarrow> if d \<noteq> [] then fo\<lparr>fo_outputs := fo_outputs fo @ [d]\<rparr> else fo
      | Inr None \<Rightarrow> fo)"

definition set_thread :: "nat \<Rightarrow> review_thread \<Rightarrow> fanout \<Rightarrow> fanout" where
  "set_thread i t fo = fo\<lparr>fo_threads := (fo_threads fo)[i := t]\<rparr>"

definition fanout_step :: "wf_env \<Rightarrow> string \<Rightarrow> plan_item list \<Rightarrow> nat \<Rightarrow> fanout \<Rightarrow> fanout wf" where
  "fanout_step env task_id items i fo =
     (if i \<ge> length (fo_threads fo) then wret fo
      else wseq env_step
        (case fo_threads fo ! i of
           Waiting \<Rightarrow>
             wbind (wtry (begin_reviewer env task_id (items ! i))) (\<lambda>r.
               wret (case r of
                       Inr (run_id, prompt) \<Rightarrow> set_thread i (Started run_id prompt) fo
                     | Inl e \<Rightarrow> collect (items ! i) (Inl e) (set_thread i Done fo)))
         | Started run_id prompt \<Rightarrow>
             wbind (wtry (end_reviewer env task_id (items ! i) run_id prompt)) (\<lambda>r.
               wret (collect (items ! i) r (set_thread i Done fo)))
         | Done \<Rightarrow> wret fo))"

text \<open>The executor waits for every thread: after the given schedule those left are run to their end.\<close>

definition fanout_order :: "wf_env \<Rightarrow> plan_item list \<Rightarrow> nat list" where
  "fanout_order env items = we_schedule env @ [0..<length items] @ [0..<length items]"

definition run_fanout :: "wf_env \<Rightarrow> string \<Rightarrow> plan_item list \<Rightarrow> fanout wf" where
  "run_fanout env task_id items =
     wfold (fanout_step env task_id items) (fanout_order env items)
       \<lparr>fo_threads = replicate (length items) Waiting, fo_outputs = [], fo_failures = [], fo_control = None\<rparr>"

section \<open>The judge\<close>

definition judge_output_path :: "wf_env \<Rightarrow> string" where
  "judge_output_path env = we_artifacts env @ ''/judge/output.json''"

definition judge_event :: "string \<Rightarrow> string \<Rightarrow> string \<Rightarrow> string \<Rightarrow> nat \<Rightarrow> json_dict \<Rightarrow> unit wf" where
  "judge_event task_id typ msg severity run_id extra =
     wf_event task_id typ msg ''judge'' severity ([(''reviewer'', JStr ''cr_judge''), (''run_id'', JInt (int run_id))] @ extra)"

definition judge_result_of ::
  "wf_env \<Rightarrow> string \<Rightarrow> (string \<times> nat list) list \<Rightarrow> risk_result \<Rightarrow> nat \<Rightarrow> turn_result \<Rightarrow> judge_result wf" where
  "judge_result_of env task_id diff_lines risk run_id r =
     (case extract_json_object (tr_result r) [''accepted_findings'', ''rejected_candidates''] of
        Inl e \<Rightarrow>
          wseq (judge_event task_id ''judge_parse_failed'' ''cr_judge returned invalid JSON'' ''error'' run_id
                  [(''error'', JStr (exc_text e))])
            (wraise (Failure (RuntimeError (''cr_judge returned invalid JSON: '' @ exc_text e))))
      | Inr judge_json \<Rightarrow>
          wbind (lift_r (judge_payload_to_reviewer_outputs judge_json)) (\<lambda>guarded.
          wbind (lift_r (judge_normalize (we_sha256 env) guarded diff_lines (tier_text (rk_tier risk)))) (\<lambda>judged.
          wseq (judge_event task_id ''judge_completed'' ''cr_judge completed'' ''info'' run_id
                  [(''accepted_findings'', JInt (int (length (jr_accepted judged))))])
            (wret judged))))"

definition run_judge ::
  "wf_env \<Rightarrow> string \<Rightarrow> json_dict list \<Rightarrow> (string \<times> nat list) list \<Rightarrow> risk_result \<Rightarrow> judge_result wf" where
  "run_judge env task_id outputs diff_lines risk =
     wbind (lift_r (we_prompt env ''cr_judge'' outputs)) (\<lambda>prompt.
     wbind (db_do (start_reviewer_run task_id ''cr_judge'' ''wf1'' 1 (Some (we_selected_model env)))) (\<lambda>run_id.
     wseq (judge_event task_id ''judge_started'' ''cr_judge started'' ''info'' run_id [])
     (wseq env_step
       (case we_turn env prompt of
          Inl e \<Rightarrow>
            wseq (fail_run env task_id run_id (judge_output_path env) (exc_text e))
            (wseq (judge_event task_id ''judge_failed'' ''cr_judge failed'' ''error'' run_id [(''error'', JStr (exc_text e))])
              (wraise (Failure e)))
        | Inr r \<Rightarrow>
            wseq (finish_run env task_id run_id (judge_output_path env) ''missing session id or judge failed'' r)
              (if \<not> turn_ok r then
                 wseq (judge_event task_id ''judge_failed'' ''cr_judge failed'' ''error'' run_id
                         [(''error'', JStr ''missing session id or judge failed'')])
                   (wraise (Failure (RuntimeError ''cr_judge failed: missing session id or judge failed'')))
               else judge_result_of env task_id diff_lines risk run_id r)))))"

section \<open>The outcome\<close>

text \<open>SQLite's reading of the values of an answer: a reference with integer affinity (0
  when it names no row, since row ids start at 1), a text column.\<close>

definition sql_run_ref :: "json \<Rightarrow> nat option py_result" where
  "sql_run_ref v =
     (case v of
        JNull \<Rightarrow> Inr None
      | JArr _ \<Rightarrow> Inl (ProgrammingError ''type list is not supported'')
      | JObj _ \<Rightarrow> Inl (ProgrammingError ''type dict is not supported'')
      | _ \<Rightarrow>
          (case py_float v of
             Inr q \<Rightarrow> Inr (Some (if of_int \<lfloor>q\<rfloor> = q \<and> 0 < q then nat \<lfloor>q\<rfloor> else 0))
           | Inl _ \<Rightarrow> Inr (Some 0)))"

definition sql_text :: "json \<Rightarrow> string option py_result" where
  "sql_text v =
     (case v of
        JNull \<Rightarrow> Inr None
      | JBool b \<Rightarrow> Inr (Some (if b then ''1'' else ''0''))
      | JArr _ \<Rightarrow> Inl (ProgrammingError ''type list is not supported'')
      | JObj _ \<Rightarrow> Inl (ProgrammingError ''type dict is not supported'')
      | _ \<Rightarrow> Inr (Some (py_str v)))"

definition create_judged :: "string \<Rightarrow> judged \<Rightarrow> instant \<Rightarrow> db \<Rightarrow> db py_result" where
  "create_judged task_id f now d =
     bind_r (sql_text (jf_suggestion f)) (\<lambda>suggestion.
     bind_r (sql_run_ref (jf_source_run f)) (\<lambda>run.
       create_finding task_id run (jf_file_path f) (jf_line f) (severity_text (jf_severity f)) (jf_title f) (jf_detail f)
         suggestion (jf_finding_id f) now d))"

definition report_url_of :: "wf_env \<Rightarrow> string \<Rightarrow> string" where
  "report_url_of env task_id = rstrip_by (\<lambda>c. c = CHR ''/'') (we_report_base env) @ ''/'' @ task_id @ ''/index.html''"

text \<open>The result file and the page of a report.\<close>

definition write_report :: "wf_env \<Rightarrow> string \<Rightarrow> report \<Rightarrow> string wf" where
  "write_report env task_id r w = (Inr (report_url_of env task_id), w\<lparr>wd_reports := wd_reports w @
       [(task_id, r, report_page task_id (re_status r) (re_gate r) (re_summary r) (re_findings r))]\<rparr>)"

definition outcome :: "string \<Rightarrow> task_status \<Rightarrow> string \<Rightarrow> string option \<Rightarrow> string option \<Rightarrow> unit wf" where
  "outcome task_id status gate url err = db_set (update_task_outcome task_id status gate url err)"

definition review_outcome :: "wf_env \<Rightarrow> string \<Rightarrow> judge_result \<Rightarrow> unit wf" where
  "review_outcome env task_id jr =
     (let gate = (if jr_accepted jr \<noteq> [] then ''failed'' else ''passed'')
      in wseq (wfor (jr_accepted jr) (\<lambda>f. wseq (raise_if_control task_id) (db_set (create_judged task_id f))))
         (wseq (raise_if_control task_id)
         (wbind (write_report env task_id
             \<lparr>re_status = ''success'', re_gate = gate,
              re_summary = (if jr_accepted jr \<noteq> [] then ''Review found issues.'' else ''Review passed.''),
              re_findings = map judged_dict (jr_accepted jr)\<rparr>) (\<lambda>url.
           outcome task_id TSuccess gate (Some url) None))))"

definition run_reviewers_and_judge ::
  "wf_env \<Rightarrow> string \<Rightarrow> (string \<times> nat list) list \<Rightarrow> risk_result \<Rightarrow> plan_item list \<Rightarrow> unit wf" where
  "run_reviewers_and_judge env task_id diff_lines risk plan =
     wseq (raise_if_control task_id)
       (if filter pi_required plan = []
        then wraise (Failure (RuntimeError ''production review requires at least one required reviewer''))
        else
          (let reviewers = map (\<lambda>p. p\<lparr>pi_reason := (if pi_reason p \<noteq> [] then pi_reason p else ''reviewer'')\<rparr>) plan;
               workers = max 1 (min (int (length reviewers)) (if we_concurrency env = 0 then 1 else we_concurrency env));
               tier = tier_text (rk_tier risk)
           in wseq (wf_event task_id ''reviewer_fanout_started'' (tier @ '' review fanout started'') ''reviewer_fanout'' ''info''
                  [(''risk_tier'', JStr tier), (''reviewers'', JArr (map (\<lambda>p. JStr (pi_reviewer p)) reviewers)),
                   (''concurrency'', JInt workers)])
              (wbind (run_fanout env task_id reviewers) (\<lambda>fo.
               wseq (case fo_control fo of None \<Rightarrow> wret () | Some (action, reason) \<Rightarrow> wraise (Control action reason))
               (wseq (raise_if_control task_id)
               (if fo_failures fo \<noteq> []
                then wraise (Failure (RuntimeError (''required reviewer failed: '' @ join ''; '' (fo_failures fo))))
                else
                  wseq (wf_event task_id ''reviewer_fanout_completed'' (tier @ '' review fanout completed'') ''reviewer_fanout''
                          ''info'' [(''risk_tier'', JStr tier), (''outputs'', JInt (int (length (fo_outputs fo))))])
                  (wbind (run_judge env task_id (fo_outputs fo) diff_lines risk) (review_outcome env task_id))))))))"

section \<open>The whole run\<close>

definition collect_review_context :: "wf_env \<Rightarrow> string \<Rightarrow> string \<Rightarrow> json_dict wf" where
  "collect_review_context env task_id repo =
     wseq env_step
       (case we_review_context env repo of
          Inl e \<Rightarrow>
            wseq (wf_event task_id ''diff_range_fallback'' ''failed to resolve branch diff range; falling back to last commit''
                    ''prepare_context'' ''warn''
                    [(''fallback_diff_range'', JStr ''HEAD~1..HEAD''), (''error'', JStr (exc_text e))])
              (wret [(''diff_range'', JStr ''HEAD~1..HEAD''), (''commit_log'', JStr [])])
        | Inr c \<Rightarrow>
            wseq (wf_event task_id ''diff_range_resolved'' ''resolved review diff range'' ''prepare_context'' ''info''
                    [(''diff_range'', dget c ''diff_range'')])
              (wret c))"

definition prepare_wf :: "wf_env \<Rightarrow> string \<Rightarrow> string \<Rightarrow> string \<Rightarrow> prepared_context wf" where
  "prepare_wf env task_id repo diff_range =
     wbind (external (we_git_diffs env repo diff_range)) (\<lambda>(git_diff, git_names, git_diff_of).
       wret (prepare_context git_diff git_names git_diff_of (we_max_diff_bytes env) task_id diff_range))"

definition write_plans :: "string \<Rightarrow> risk_result \<Rightarrow> plan_item list \<Rightarrow> unit wf" where
  "write_plans task_id risk plan =
     wfor plan (\<lambda>p. db_set (create_reviewer_plan task_id ''wf1'' (pi_reviewer p) (pi_required p)
        (Some (tier_text (rk_tier risk))) (Some (pi_reason p))))"

definition skip_outcome :: "wf_env \<Rightarrow> string \<Rightarrow> risk_result \<Rightarrow> unit wf" where
  "skip_outcome env task_id risk =
     (let reason = (if rk_reasons risk \<noteq> [] then join '', '' (rk_reasons risk) else ''no reviewable production files'')
      in wbind (write_report env task_id
           \<lparr>re_status = ''success'', re_gate = ''skipped'',
            re_summary = ''No reviewable production files ('' @ reason @ ''); LLM review skipped.'', re_findings = []\<rparr>)
         (\<lambda>url. outcome task_id TSuccess ''skipped'' (Some url) None))"

definition review_prepared :: "wf_env \<Rightarrow> string \<Rightarrow> prepared_context \<Rightarrow> unit wf" where
  "review_prepared env task_id p =
     wseq (raise_if_control task_id)
     (wseq (write_plans task_id (pc_risk p) (pc_plan p))
        (case prepare_review_guard (pc_risk p) of
           Guard_Skipped \<Rightarrow> skip_outcome env task_id (pc_risk p)
         | Guard_Fail \<Rightarrow> outcome task_id TFailed ''context_too_large'' None (Some ''context_too_large'')
         | Guard_Review \<Rightarrow> run_reviewers_and_judge env task_id (pc_changed_lines p) (pc_risk p) (pc_plan p)))"

definition run_body :: "wf_env \<Rightarrow> string \<Rightarrow> cr_task \<Rightarrow> unit wf" where
  "run_body env task_id task =
     wseq (raise_if_control task_id)
     (wbind (external (we_prepare_repo env task)) (\<lambda>repo.
      wbind (external (we_current_commit env repo)) (\<lambda>commit.
      wseq (if commit \<noteq> text_or (tk_commit_id task) [] then db_set (update_task_commit_id task_id commit) else wret ())
      (wseq (raise_if_control task_id)
      (wbind (collect_review_context env task_id repo) (\<lambda>ctx.
       wbind (prepare_wf env task_id repo (py_str (py_or (dget ctx ''diff_range'') (JStr ''HEAD~1..HEAD''))))
         (review_prepared env task_id)))))))"

definition handle_exc :: "string \<Rightarrow> wf_exc \<Rightarrow> unit wf" where
  "handle_exc task_id e =
     (case e of
        Control Cancel_Task reason \<Rightarrow> db_set (cancel_task task_id (Some reason))
      | Control Stop_Task reason \<Rightarrow> db_set (mark_task_stopped task_id (Some reason))
      | Failure x \<Rightarrow> outcome task_id TFailed ''incomplete'' None (Some (exc_text x)))"

definition workflow_run :: "wf_env \<Rightarrow> string \<Rightarrow> unit wf" where
  "workflow_run env task_id =
     wbind (db_get (get_task task_id)) (\<lambda>t.
       case t of
         None \<Rightarrow> wraise (Failure (RuntimeError (''task not found: '' @ task_id)))
       | Some task \<Rightarrow> wcatch (run_body env task_id task) (handle_exc task_id))"

end
