(* ===== verification/Daemon.thy ===== *)
theory Daemon
  imports Workflow_Monad
begin

text \<open>
  The review daemon, \<open>review_v2/daemon.py\<close>: one claim per tick, recovery of stale tasks, delivery of
  callbacks with exponential backoff, the daily synchronisation of feedback patterns. The callback
  client, the digest of a payload, the workflow and the pattern syncer are parameters. The daemon's
  turn is a statement of the world shared with the other processes (other daemons, the service, the
  operators): they move after each of the daemon's transactions and reads, and while it waits for the
  pattern sync, for the receiver of a callback and, inside the workflow, for git and the models.
\<close>

record daemon_config =
  dc_id :: string
  dc_pid :: int
  dc_host :: string
  dc_lease_seconds :: int
  dc_max_task_attempts :: nat
  dc_claim_limit :: nat
  dc_cb_max_attempts :: nat
  dc_cb_initial_delay :: int
  dc_cb_max_delay :: int
  dc_report_base :: string
  dc_sync_enabled :: bool
  dc_sync_hour :: nat
  dc_sync_minute :: nat

record callback_payload =
  cp_task_id :: string
  cp_app_name :: string
  cp_branch :: string
  cp_commit_id :: "string option"
  cp_passed :: bool
  cp_score :: nat
  cp_report_url :: string
  cp_summary :: string
  cp_findings :: nat
  cp_metadata :: json

definition beat ::
  "daemon_config \<Rightarrow> string option \<Rightarrow> string \<Rightarrow> string \<Rightarrow> instant \<Rightarrow> db \<Rightarrow> db py_result" where
  "beat cfg task_id status msg now d =
     upsert_heartbeat (dc_id cfg) task_id status (Some msg) (Some (dc_pid cfg)) (Some (dc_host cfg)) None now d"

section \<open>Transactions of the daemon\<close>

text \<open>A transaction or a read of the daemon, after which the others may move before its next one.\<close>

definition own :: "(instant \<Rightarrow> db \<Rightarrow> ('a \<times> db) py_result) \<Rightarrow> 'a wf" where
  "own f = wbind (db_do f) (\<lambda>x. wseq env_step (wret x))"

definition own_set :: "(instant \<Rightarrow> db \<Rightarrow> db py_result) \<Rightarrow> unit wf" where
  "own_set f = own (unit_r f)"

definition own_read :: "(instant \<Rightarrow> db \<Rightarrow> 'a) \<Rightarrow> 'a wf" where
  "own_read f = own (\<lambda>now d. Inr (f now d, d))"

section \<open>Claiming and running\<close>

text \<open>\<open>once\<close>; \<open>run\<close> is the workflow on the claimed task.\<close>

definition daemon_once :: "daemon_config \<Rightarrow> (string \<Rightarrow> unit wf) \<Rightarrow> nat wf" where
  "daemon_once cfg run =
     wbind (own (claim_next_task (dc_id cfg) (dc_lease_seconds cfg))) (\<lambda>claimed.
       (case claimed of
          None \<Rightarrow> wseq (own_set (beat cfg None ''IDLE'' ''no queued task'')) (wret 0)
        | Some t \<Rightarrow> wseq (own_set (beat cfg (Some (tk_id t)) ''RUNNING'' ''task acquired''))
                      (wseq (run (tk_id t)) (wret 1))))"

definition daemon_recover_stale :: "daemon_config \<Rightarrow> string list wf" where
  "daemon_recover_stale cfg =
     wbind (own (recover_stale_running_tasks (dc_max_task_attempts cfg))) (\<lambda>recovered.
     wseq (own_set (beat cfg None ''RECOVER'' (''recovered '' @ str_nat (length recovered) @ '' stale tasks'')))
       (wret recovered))"

section \<open>Callbacks\<close>

definition task_passed :: "cr_task \<Rightarrow> bool" where
  "task_passed t \<longleftrightarrow> tk_gate t = Some ''passed'' \<or> tk_gate t = Some ''skipped''"

definition default_report_url :: "daemon_config \<Rightarrow> string \<Rightarrow> string" where
  "default_report_url cfg task_id = rstrip_by (\<lambda>c. c = CHR ''/'') (dc_report_base cfg) @ ''/'' @ task_id @ ''/index.html''"

definition findings_count :: "string \<Rightarrow> db \<Rightarrow> nat" where
  "findings_count task_id d = count_where (\<lambda>f. fn_task f = task_id) (db_findings d)"

definition callback_payload_of :: "daemon_config \<Rightarrow> cr_task \<Rightarrow> db \<Rightarrow> callback_payload" where
  "callback_payload_of cfg t d =
     (let passed = task_passed t
      in \<lparr>cp_task_id = tk_id t, cp_app_name = tk_app_name t, cp_branch = tk_branch t, cp_commit_id = tk_commit_id t,
          cp_passed = passed, cp_score = (if passed then 100 else 80),
          cp_report_url = text_or (tk_report_url t) (default_report_url cfg (tk_id t)),
          cp_summary = text_or (tk_error t) (if passed then ''Review passed.'' else ''Review found issues.''),
          cp_findings = findings_count (tk_id t) d,
          cp_metadata = py_or (dget (tk_request t) ''metadata'') (JObj [])\<rparr>)"

definition callback_delay :: "daemon_config \<Rightarrow> nat \<Rightarrow> int" where
  "callback_delay cfg attempts = min (dc_cb_initial_delay cfg * 2 ^ (attempts - 1)) (dc_cb_max_delay cfg)"

definition record_callback_failure :: "daemon_config \<Rightarrow> cr_task \<Rightarrow> string \<Rightarrow> unit wf" where
  "record_callback_failure cfg t err =
     (let attempts = tk_cb_attempts t + 1; i = tk_id t
      in if attempts \<ge> dc_cb_max_attempts cfg then
           wseq (own_set (\<lambda>now d. Inr (set_callback_state i CB_Failed attempts None (Some err) None None now d)))
             (own_set (insert_event (Some i) ''callback_failed'' ''error'' (Some ''callback'')
                ''callback retry budget exhausted'' [(''attempts'', JInt (int attempts)), (''error'', JStr err)]))
         else
           wbind (own_read (\<lambda>now _. now + callback_delay cfg attempts)) (\<lambda>next.
           wseq (own_set (\<lambda>now d. Inr (set_callback_state i CB_Retrying attempts (Some next) (Some err) None None now d)))
             (own_set (insert_event (Some i) ''callback_retry_scheduled'' ''warn'' (Some ''callback'')
                ''callback failed; retry scheduled''
                [(''attempts'', JInt (int attempts)), (''next_retry_at'', JInt next), (''error'', JStr err)]))))"

text \<open>\<open>_send_callback\<close>. The client's \<open>send\<close> returns the history of its requests or raises. Everything after the
  task is read stands in the \<open>try\<close>; both the success and the failure are recorded from the row as it was
  read, whatever has become of it meanwhile.\<close>

definition send_callback ::
  "daemon_config \<Rightarrow> (callback_payload \<Rightarrow> json list py_result) \<Rightarrow> (callback_payload \<Rightarrow> string) \<Rightarrow> string \<Rightarrow> bool wf" where
  "send_callback cfg send digest task_id =
     wbind (own_read (\<lambda>_. get_task task_id)) (\<lambda>task.
       (case task of
          None \<Rightarrow> wret False
        | Some t \<Rightarrow> wcatch
            (if \<not> request_has_callback_target (tk_request t) then
               wseq (own_set (\<lambda>now d. Inr (set_callback_state task_id CB_Skipped (tk_cb_attempts t) None None None None now d)))
                 (wret True)
             else
               wbind (own_read (\<lambda>_. callback_payload_of cfg t)) (\<lambda>payload.
                 (let dg = digest payload; attempts = tk_cb_attempts t
                  in if tk_cb_state t = Some CB_Succeeded \<and> tk_cb_digest t = Some dg then wret True
                     else wbind (external (send payload)) (\<lambda>history.
                       wseq (own_set (\<lambda>now d. Inr (set_callback_state task_id CB_Succeeded (attempts + 1) None None
                               (Some dg) (Some history) now d)))
                       (wseq (own_set (insert_event (Some task_id) ''callback_succeeded'' ''info'' (Some ''callback'')
                               ''callback acknowledged'' [(''attempts'', JInt (int (attempts + 1)))]))
                          (wret True))))))
            (\<lambda>e. wseq (record_callback_failure cfg t (wf_exc_text e)) (wret False))))"

definition retry_step ::
  "daemon_config \<Rightarrow> (callback_payload \<Rightarrow> json list py_result) \<Rightarrow> (callback_payload \<Rightarrow> string) \<Rightarrow> string
     \<Rightarrow> string list \<Rightarrow> string list wf" where
  "retry_step cfg send digest task_id completed =
     wbind (send_callback cfg send digest task_id) (\<lambda>acknowledged.
       wret (if acknowledged then completed @ [task_id] else completed))"

definition retry_callbacks ::
  "daemon_config \<Rightarrow> (callback_payload \<Rightarrow> json list py_result) \<Rightarrow> (callback_payload \<Rightarrow> string) \<Rightarrow> string list wf" where
  "retry_callbacks cfg send digest =
     wbind (own_read (due_callback_tasks (dc_claim_limit cfg))) (\<lambda>due.
     wbind (wfold (retry_step cfg send digest) due []) (\<lambda>completed.
     wseq (own_set (beat cfg None ''CALLBACK_RETRY'' (''due callbacks '' @ str_nat (length due) @ '', completed ''
             @ str_nat (length completed))))
       (wret completed)))"

section \<open>The daily synchronisation\<close>

text \<open>The local wall clock of the schedule: a date and the minute of the day. \<open>sync\<close> is the syncer's
  result as a dict, or its exception, by the patterns it finds in the database when it starts; the others
  move while it works.\<close>

definition run_pattern_sync :: "daemon_config \<Rightarrow> (db \<Rightarrow> json_dict py_result) \<Rightarrow> bool wf" where
  "run_pattern_sync cfg sync =
     wbind (own_read (\<lambda>_. sync)) (\<lambda>answer.
     wbind (external answer) (\<lambda>payload.
     wseq (own_set (insert_event None ''feedback_pattern_sync_completed'' ''info'' (Some ''feedback_pattern_sync'')
             ''feedback pattern sync completed'' payload))
     (wseq (own_set (beat cfg None ''PATTERN_SYNC'' (''feedback patterns total='' @
              py_str (dget_default payload ''total_count'' (JInt 0)) @ '' changed='' @
              py_str (dget_default payload ''changed'' (JBool False)))))
        (wret True))))"

definition maybe_sync_feedback_patterns ::
  "daemon_config \<Rightarrow> (db \<Rightarrow> json_dict py_result) \<Rightarrow> string \<Rightarrow> nat \<Rightarrow> string option \<Rightarrow> (bool \<times> string option) wf" where
  "maybe_sync_feedback_patterns cfg sync date minute last_date =
     (if \<not> dc_sync_enabled cfg then wret (False, last_date)
      else if minute < dc_sync_hour cfg * 60 + dc_sync_minute cfg \<or> last_date = Some date then wret (False, last_date)
      else
        wbind (wcatch (run_pattern_sync cfg sync)
          (\<lambda>e. wseq (own_set (insert_event None ''feedback_pattern_sync_failed'' ''error'' (Some ''feedback_pattern_sync'')
                 ''feedback pattern sync failed'' [(''error'', JStr (wf_exc_text e))]))
               (wret False))) (\<lambda>changed.
          wret (changed, Some date)))"

text \<open>One turn of \<open>run_forever\<close>: what comes before the claim, and the whole.\<close>

definition turn_start ::
  "daemon_config \<Rightarrow> (db \<Rightarrow> json_dict py_result) \<Rightarrow> (callback_payload \<Rightarrow> json list py_result)
     \<Rightarrow> (callback_payload \<Rightarrow> string) \<Rightarrow> string \<Rightarrow> nat \<Rightarrow> string option \<Rightarrow> string option wf" where
  "turn_start cfg sync send digest date minute last_date =
     wbind (maybe_sync_feedback_patterns cfg sync date minute last_date) (\<lambda>(_, last_date1).
     wbind (daemon_recover_stale cfg) (\<lambda>_.
     wbind (retry_callbacks cfg send digest) (\<lambda>_.
       wret last_date1)))"

definition daemon_tick ::
  "daemon_config \<Rightarrow> (db \<Rightarrow> json_dict py_result) \<Rightarrow> (callback_payload \<Rightarrow> json list py_result)
     \<Rightarrow> (callback_payload \<Rightarrow> string) \<Rightarrow> (string \<Rightarrow> unit wf) \<Rightarrow> string \<Rightarrow> nat \<Rightarrow> string option \<Rightarrow> string option wf" where
  "daemon_tick cfg sync send digest run date minute last_date =
     wbind (turn_start cfg sync send digest date minute last_date) (\<lambda>last_date1.
     wbind (daemon_once cfg run) (\<lambda>_.
       wret last_date1))"

section \<open>Properties\<close>

lemma beat_ok: "beat cfg tk s m now d = Inr d' \<Longrightarrow> db_ok d \<Longrightarrow> db_ok d'"
  unfolding beat_def by (rule upsert_heartbeat_ok)

text \<open>Statements of a world in which nobody else moves.\<close>

lemma quiet_own:
  "wd_moves w = [] \<Longrightarrow> wbind (own f) g w =
     (case f (wd_now w) (wd_db w) of Inl e \<Rightarrow> (Inl (Failure e), w) | Inr (x, d) \<Rightarrow> g x (w\<lparr>wd_db := d\<rparr>))"
  by (auto simp: own_def wbind_def wseq_def db_do_def env_step_def wret_def split: sum.split prod.split)

lemma quiet_set:
  "wd_moves w = [] \<Longrightarrow> wseq (own_set f) m w =
     (case f (wd_now w) (wd_db w) of Inl e \<Rightarrow> (Inl (Failure e), w) | Inr d \<Rightarrow> m (w\<lparr>wd_db := d\<rparr>))"
  unfolding wseq_def own_set_def by (simp add: quiet_own unit_r_def bind_r_def split: sum.split)

lemma quiet_set_last:
  "wd_moves w = [] \<Longrightarrow> own_set f w =
     (case f (wd_now w) (wd_db w) of Inl e \<Rightarrow> (Inl (Failure e), w) | Inr d \<Rightarrow> (Inr (), w\<lparr>wd_db := d\<rparr>))"
  by (auto simp: own_set_def own_def wbind_def wseq_def db_do_def env_step_def wret_def unit_r_def bind_r_def
      split: sum.split prod.split)

lemma quiet_read: "wd_moves w = [] \<Longrightarrow> wbind (own_read f) g w = g (f (wd_now w) (wd_db w)) w"
  unfolding own_read_def by (simp add: quiet_own)

lemma quiet_external:
  "wd_moves w = [] \<Longrightarrow> wbind (external r) g w = (case r of Inl e \<Rightarrow> (Inl (Failure e), w) | Inr x \<Rightarrow> g x w)"
  by (auto simp: external_def wbind_def wseq_def env_step_def lift_r_def split: sum.split)

lemma quiet_set_then:
  "wd_moves w = [] \<Longrightarrow> wseq (wseq (own_set f) m) n w =
     (case f (wd_now w) (wd_db w) of Inl e \<Rightarrow> (Inl (Failure e), w) | Inr d \<Rightarrow> wseq m n (w\<lparr>wd_db := d\<rparr>))"
  "wd_moves w = [] \<Longrightarrow> wseq (wbind (own_read g) k) n w = wseq (k (g (wd_now w) (wd_db w))) n w"
proof -
  assume w: "wd_moves w = []"
  show "wseq (wseq (own_set f) m) n w =
     (case f (wd_now w) (wd_db w) of Inl e \<Rightarrow> (Inl (Failure e), w) | Inr d \<Rightarrow> wseq m n (w\<lparr>wd_db := d\<rparr>))"
    by (simp add: wseq_def [of "wseq (own_set f) m"] wbind_def quiet_set [OF w] split: sum.split)
      (simp add: wseq_def wbind_def)
  show "wseq (wbind (own_read g) k) n w = wseq (k (g (wd_now w) (wd_db w))) n w"
    by (simp add: wseq_def [of "wbind (own_read g) k"] wbind_def [where m = "wbind (own_read g) k"] quiet_read [OF w])
      (simp add: wseq_def wbind_def)
qed

lemmas quiet = quiet_own quiet_set quiet_set_last quiet_read quiet_external

lemma get_set_callback:
  "get_task j (set_callback_state i s a n e g h now d) =
     (if j = i then map_option (\<lambda>t. t \<lparr>tk_cb_state := Some s, tk_cb_attempts := a, tk_cb_next := n,
        tk_cb_error := e, tk_cb_digest := coalesce g (tk_cb_digest t),
        tk_cb_history := (case h of None \<Rightarrow> tk_cb_history t | Some x \<Rightarrow> x), tk_updated := now\<rparr>) (get_task j d)
      else get_task j d)"
  unfolding set_callback_state_def by (subst get_upd_task) simp_all

lemma insert_event_get: "insert_event tk typ sev stage msg payload now d = Inr d' \<Longrightarrow> get_task j d' = get_task j d"
  by (auto simp: get_task_def dest!: insert_event_Inr)

lemma insert_event_succeeds: "get_task i d = Some t \<Longrightarrow> \<exists>d'. insert_event (Some i) typ sev stage msg payload now d = Inr d'"
  by (simp add: insert_event_known get_task_known)

text \<open>What one delivery does to the task it is about, by the client's answer, while nobody else moves.\<close>

lemma send_callback_effect:
  assumes "wd_moves w = []" and "get_task i (wd_db w) = Some t" and "tk_cb_state t = Some CB_Retrying"
    and "request_has_callback_target (tk_request t)"
  shows "\<exists>b d u. send_callback cfg send digest i w = (Inr b, w\<lparr>wd_db := d\<rparr>) \<and> get_task i d = Some u
    \<and> tk_request u = tk_request t \<and> tk_cb_attempts u = tk_cb_attempts t + 1
    \<and> (case send (callback_payload_of cfg t (wd_db w)) of
         Inr h \<Rightarrow> b \<and> tk_cb_state u = Some CB_Succeeded
       | Inl e \<Rightarrow> \<not> b \<and> (if dc_cb_max_attempts cfg \<le> tk_cb_attempts t + 1
           then tk_cb_state u = Some CB_Failed
           else tk_cb_state u = Some CB_Retrying
             \<and> tk_cb_next u = Some (wd_now w + callback_delay cfg (tk_cb_attempts t + 1))))"
proof (cases "send (callback_payload_of cfg t (wd_db w))")
  case (Inr h)
  let ?d = "set_callback_state i CB_Succeeded (tk_cb_attempts t + 1) None None
    (Some (digest (callback_payload_of cfg t (wd_db w)))) (Some h) (wd_now w) (wd_db w)"
  have g: "get_task i ?d \<noteq> None" using assms(2) by (simp add: get_set_callback)
  then obtain d' where d': "insert_event (Some i) ''callback_succeeded'' ''info'' (Some ''callback'')
      ''callback acknowledged'' [(''attempts'', JInt (int (tk_cb_attempts t + 1)))] (wd_now w) ?d = Inr d'"
    using insert_event_succeeds by blast
  with Inr assms insert_event_get [OF d', of i] show ?thesis
    by (simp add: send_callback_def quiet wcatch_def Let_def wret_def get_set_callback)
      (intro exI [of _ True] conjI TrueI exI [of _ d'], simp_all)
next
  case (Inl e)
  have id: "tk_id t = i" using assms(2) by (auto dest: get_task_Some)
  show ?thesis
  proof (cases "dc_cb_max_attempts cfg \<le> tk_cb_attempts t + 1")
    case True
    let ?d = "set_callback_state i CB_Failed (tk_cb_attempts t + 1) None (Some (exc_text e)) None None (wd_now w) (wd_db w)"
    have g: "get_task i ?d \<noteq> None" using assms(2) by (simp add: get_set_callback)
    then obtain d' where d': "insert_event (Some i) ''callback_failed'' ''error'' (Some ''callback'')
        ''callback retry budget exhausted'' [(''attempts'', JInt (int (tk_cb_attempts t + 1))),
          (''error'', JStr (exc_text e))] (wd_now w) ?d = Inr d'"
      using insert_event_succeeds by blast
    with Inl True assms id insert_event_get [OF d', of i] show ?thesis
      by (simp add: send_callback_def record_callback_failure_def quiet quiet_set_then wcatch_def Let_def wret_def get_set_callback)
      (intro exI [of _ False] conjI exI [of _ d'], simp_all)
  next
    case False
    let ?n = "wd_now w + callback_delay cfg (tk_cb_attempts t + 1)"
    let ?d = "set_callback_state i CB_Retrying (tk_cb_attempts t + 1) (Some ?n) (Some (exc_text e)) None None (wd_now w) (wd_db w)"
    have g: "get_task i ?d \<noteq> None" using assms(2) by (simp add: get_set_callback)
    then obtain d' where d': "insert_event (Some i) ''callback_retry_scheduled'' ''warn'' (Some ''callback'')
        ''callback failed; retry scheduled'' [(''attempts'', JInt (int (tk_cb_attempts t + 1))),
          (''next_retry_at'', JInt ?n), (''error'', JStr (exc_text e))] (wd_now w) ?d = Inr d'"
      using insert_event_succeeds by blast
    with Inl False assms id insert_event_get [OF d', of i] show ?thesis
      by (simp add: send_callback_def record_callback_failure_def quiet quiet_set_then wcatch_def Let_def wret_def get_set_callback)
      (intro exI [of _ False] conjI exI [of _ d'], simp_all)
  qed
qed

section \<open>How often a callback is sent\<close>

text \<open>The turns of a single daemon seen from one task: at each time the callback is sent if it is due; the
  receiver's answer may be different each time. The result counts the deliveries tried.\<close>

definition quiet_world :: "instant \<Rightarrow> db \<Rightarrow> world" where
  "quiet_world now d = \<lparr>wd_db = d, wd_now = now, wd_moves = [], wd_reports = []\<rparr>"

lemma quiet_world_simps [simp]:
  "wd_db (quiet_world now d) = d" "wd_now (quiet_world now d) = now" "wd_moves (quiet_world now d) = []"
  by (simp_all add: quiet_world_def)

definition deliver ::
  "daemon_config \<Rightarrow> (instant \<Rightarrow> callback_payload \<Rightarrow> json list py_result) \<Rightarrow> (callback_payload \<Rightarrow> string) \<Rightarrow> string
     \<Rightarrow> instant \<Rightarrow> db \<Rightarrow> nat \<times> db" where
  "deliver cfg answer digest i now d =
     (case get_task i d of
        None \<Rightarrow> (0, d)
      | Some t \<Rightarrow>
          if callback_due now t then
            (1, wd_db (snd (send_callback cfg (answer now) digest i (quiet_world now d))))
          else (0, d))"

fun deliveries ::
  "daemon_config \<Rightarrow> (instant \<Rightarrow> callback_payload \<Rightarrow> json list py_result) \<Rightarrow> (callback_payload \<Rightarrow> string) \<Rightarrow> string
     \<Rightarrow> instant list \<Rightarrow> db \<Rightarrow> nat \<times> db" where
  "deliveries cfg answer digest i [] d = (0, d)"
| "deliveries cfg answer digest i (now # ticks) d =
     (let (n, d1) = deliver cfg answer digest i now d; (m, d2) = deliveries cfg answer digest i ticks d1
      in (n + m, d2))"

text \<open>The deliveries a task has left.\<close>

definition deliveries_left :: "daemon_config \<Rightarrow> cr_task \<Rightarrow> nat" where
  "deliveries_left cfg t = (if tk_cb_state t = Some CB_Retrying then max 1 (dc_cb_max_attempts cfg - tk_cb_attempts t) else 0)"

lemma deliver_left:
  assumes "get_task i d = Some t" and "deliver cfg answer digest i now d = (n, d')"
  shows "\<exists>u. get_task i d' = Some u \<and> n + deliveries_left cfg u \<le> deliveries_left cfg t"
proof (cases "callback_due now t")
  case False
  with assms show ?thesis by (auto simp: deliver_def)
next
  case due: True
  then have st: "tk_cb_state t = Some CB_Retrying" by (simp add: callback_due_def)
  show ?thesis
  proof (cases "request_has_callback_target (tk_request t)")
    case False
    with assms due st show ?thesis
      by (auto simp: deliver_def send_callback_def quiet wcatch_def wret_def get_set_callback deliveries_left_def)
  next
    case True
    from send_callback_effect [of "quiet_world now d" i t cfg "answer now" digest] assms(1) st True
    obtain b d1 u where e: "send_callback cfg (answer now) digest i (quiet_world now d) = (Inr b, quiet_world now d\<lparr>wd_db := d1\<rparr>)"
      "get_task i d1 = Some u"
      "tk_cb_attempts u = tk_cb_attempts t + 1"
      "tk_cb_state u = Some CB_Retrying \<longrightarrow> tk_cb_attempts t + 1 < dc_cb_max_attempts cfg"
      by (cases "answer now (callback_payload_of cfg t d)") (auto split: if_splits)
    have "n = 1" "d' = d1"
      using assms due e(1) by (auto simp: deliver_def)
    moreover have "1 + deliveries_left cfg u \<le> deliveries_left cfg t"
      using e(3,4) st by (auto simp: deliveries_left_def)
    ultimately show ?thesis using e(2) by auto
  qed
qed

lemma deliveries_left_bound:
  "get_task i d = Some t \<Longrightarrow> fst (deliveries cfg answer digest i ticks d) \<le> deliveries_left cfg t"
proof (induction ticks arbitrary: d t)
  case (Cons now ticks)
  obtain n d1 where n: "deliver cfg answer digest i now d = (n, d1)" by fastforce
  then obtain u where u: "get_task i d1 = Some u" "n + deliveries_left cfg u \<le> deliveries_left cfg t"
    using deliver_left [OF Cons.prems] by blast
  obtain m d2 where m: "deliveries cfg answer digest i ticks d1 = (m, d2)" by fastforce
  with Cons.IH [OF u(1)] n u(2) show ?case by simp
qed simp

text \<open>An outcome is reported to its caller at most as often as configured: over any number of turns
  of a daemon that works alone, at any times and with any answers of the receiver, the callback of a task
  whose attempts start at zero is sent at most \<open>dc_cb_max_attempts\<close> times.\<close>

theorem callbacks_bounded:
  assumes "get_task i d = Some t" and "tk_cb_attempts t = 0" and "1 \<le> dc_cb_max_attempts cfg"
  shows "fst (deliveries cfg answer digest i ticks d) \<le> dc_cb_max_attempts cfg"
  using deliveries_left_bound [OF assms(1), of cfg answer digest ticks] assms(2,3)
  by (auto simp: deliveries_left_def split: if_splits)

text \<open>A failed delivery is tried again after the initial delay doubled with every failure and cut at
  the maximum; the wait is never negative, and the failure that spends the attempts ends the retries.\<close>

theorem callback_backoff:
  assumes "wd_moves w = []" and "get_task i (wd_db w) = Some t" and "tk_cb_state t = Some CB_Retrying"
    and "request_has_callback_target (tk_request t)" and "send (callback_payload_of cfg t (wd_db w)) = Inl e"
    and "0 \<le> dc_cb_initial_delay cfg" and "0 \<le> dc_cb_max_delay cfg"
  shows "\<exists>d' u. send_callback cfg send digest i w = (Inr False, w\<lparr>wd_db := d'\<rparr>) \<and> get_task i d' = Some u
    \<and> tk_cb_attempts u = tk_cb_attempts t + 1
    \<and> (if tk_cb_attempts u < dc_cb_max_attempts cfg
       then (\<exists>delay. callback_due (wd_now w + delay) u \<and> 0 \<le> delay \<and> delay \<le> dc_cb_max_delay cfg
          \<and> delay \<le> dc_cb_initial_delay cfg * 2 ^ tk_cb_attempts t
          \<and> (delay = dc_cb_max_delay cfg \<or> delay = dc_cb_initial_delay cfg * 2 ^ tk_cb_attempts t))
       else list_all (\<lambda>later. callback_due later u = False) ticks)"
proof -
  let ?delay = "callback_delay cfg (tk_cb_attempts t + 1)"
  have delay: "0 \<le> ?delay" "?delay \<le> dc_cb_max_delay cfg" "?delay \<le> dc_cb_initial_delay cfg * 2 ^ tk_cb_attempts t"
    "?delay = dc_cb_max_delay cfg \<or> ?delay = dc_cb_initial_delay cfg * 2 ^ tk_cb_attempts t"
    using assms(6,7) by (auto simp: callback_delay_def min_def)
  from send_callback_effect [OF assms(1-4), of cfg send digest] assms(5)
  obtain b d' u where r: "send_callback cfg send digest i w = (Inr b, w\<lparr>wd_db := d'\<rparr>)" "get_task i d' = Some u"
    "tk_cb_attempts u = tk_cb_attempts t + 1" "\<not> b"
    "if dc_cb_max_attempts cfg \<le> tk_cb_attempts t + 1 then tk_cb_state u = Some CB_Failed
     else tk_cb_state u = Some CB_Retrying \<and> tk_cb_next u = Some (wd_now w + ?delay)"
    by auto
  show ?thesis
  proof (cases "dc_cb_max_attempts cfg \<le> tk_cb_attempts t + 1")
    case True
    with r show ?thesis by (intro exI [of _ d'] exI [of _ u]) (auto simp: callback_due_def list_all_iff)
  next
    case False
    with r(5) have "callback_due (wd_now w + ?delay) u" by (simp add: callback_due_def)
    with False r delay show ?thesis by (intro exI [of _ d'] exI [of _ u]) auto
  qed
qed

section \<open>Witnesses\<close>

definition sample_config :: daemon_config where
  "sample_config = \<lparr>dc_id = ''w1'', dc_pid = 7, dc_host = ''h'', dc_lease_seconds = 300, dc_max_task_attempts = 3,
     dc_claim_limit = 20, dc_cb_max_attempts = 3, dc_cb_initial_delay = 10, dc_cb_max_delay = 15,
     dc_report_base = ''http://r/'', dc_sync_enabled = True, dc_sync_hour = 3, dc_sync_minute = 0\<rparr>"

definition refuse :: "callback_payload \<Rightarrow> json list py_result" where
  "refuse _ = Inl (RuntimeError ''refused'')"

text \<open>A task with a callback target whose review has passed.\<close>

definition sample_done :: db where
  "sample_done = projr (update_task_outcome ''t'' TSuccess ''passed'' None None 50
     (projr (create_task ''t'' ''app'' ''url'' ''main'' None 100 [(''callback_url'', JStr ''http://ci'')] 10 empty_db)))"

definition sample_done_task :: cr_task where
  "sample_done_task = the (get_task ''t'' sample_done)"

lemma sample_done_get: "get_task ''t'' sample_done = Some sample_done_task"
proof -
  have "get_task ''t'' sample_done \<noteq> None" by code_simp
  then show ?thesis by (simp add: sample_done_task_def)
qed

lemma sample_done_facts:
  "tk_cb_attempts sample_done_task = 0" "tk_cb_state sample_done_task = Some CB_Retrying"
  "request_has_callback_target (tk_request sample_done_task)"
  by code_simp+

theorem callbacks_bounded_witness:
  "fst (deliveries sample_config (\<lambda>_. refuse) cp_task_id ''t'' [50, 60, 75, 90, 105, 120] sample_done) \<le> 3"
  using callbacks_bounded [OF sample_done_get sample_done_facts(1), of sample_config "\<lambda>_. refuse" cp_task_id
      "[50, 60, 75, 90, 105, 120]"]
  by (simp add: sample_config_def)

theorem callback_backoff_witness:
  "\<exists>d' u. send_callback sample_config refuse cp_task_id ''t'' (quiet_world 50 sample_done)
      = (Inr False, quiet_world 50 sample_done\<lparr>wd_db := d'\<rparr>)
    \<and> get_task ''t'' d' = Some u \<and> tk_cb_attempts u = 1"
  using callback_backoff [where w = "quiet_world 50 sample_done" and i = "''t''" and t = sample_done_task
      and send = refuse and cfg = sample_config and e = "RuntimeError ''refused''" and digest = cp_task_id and ticks = "[]"]
    sample_done_get sample_done_facts
  by (auto simp: refuse_def sample_config_def)

end
