(* ===== verification/Workflow_Correct.thy ===== *)
theory Workflow_Correct
  imports Workflow Daemon
begin

text \<open>
  What a run of the review workflow guarantees, whatever the other processes do while it waits: it
  works by storage operations only, it ends with the task in a terminal state, a pending request ends
  it at once, and a gate is passed only after every required reviewer and the judge have succeeded.
\<close>

section \<open>The workflow works by storage operations\<close>

lemma keeps_steps_do:
  "(\<And>now d x d1. f now d = Inr (x, d1) \<Longrightarrow> db_step b op d d1) \<Longrightarrow> keeps ((db_step b op)\<^sup>*\<^sup>* d0) (db_do f)"
  by (rule keeps_db_do) (blast intro: rtranclp.rtrancl_into_rtrancl)

lemma keeps_steps_set:
  "(\<And>now d d1. f now d = Inr d1 \<Longrightarrow> db_step b op d d1) \<Longrightarrow> keeps ((db_step b op)\<^sup>*\<^sup>* d0) (db_set f)"
  by (rule keeps_db_set) (blast intro: rtranclp.rtrancl_into_rtrancl)

lemma keeps_steps_sets:
  "(\<And>now d d1. f now d = Inr d1 \<Longrightarrow> (db_step b op)\<^sup>*\<^sup>* d d1) \<Longrightarrow> keeps ((db_step b op)\<^sup>*\<^sup>* d0) (db_set f)"
  by (rule keeps_db_set) (blast intro: rtranclp_trans)

named_theorems steps_intros \<open>statements of the workflow that work by storage operations\<close>

lemma steps_event [steps_intros]: "keeps ((db_step b op)\<^sup>*\<^sup>* d0) (wf_event i typ msg stage sev payload)"
  unfolding wf_event_def by (rule keeps_steps_set) (rule step_event)

lemma steps_control [steps_intros]: "keeps ((db_step b op)\<^sup>*\<^sup>* d0) (raise_if_control i)"
  unfolding raise_if_control_def by (intro keeps_intros)

lemma steps_start [steps_intros]: "keeps ((db_step b op)\<^sup>*\<^sup>* d0) (db_do (start_reviewer_run i r wfid a m))"
  by (rule keeps_steps_do) (rule step_start_run)

lemma steps_finish [steps_intros]:
  "final_run s \<Longrightarrow> keeps ((db_step b op)\<^sup>*\<^sup>* d0) (db_set (\<lambda>now d. Inr (finish_reviewer_run n s se l out e m us now d)))"
  by (rule keeps_steps_set) (auto intro: step_finish_run)

lemma steps_begin [steps_intros]: "keeps ((db_step b op)\<^sup>*\<^sup>* d0) (begin_reviewer env i item)"
  unfolding begin_reviewer_def by (intro keeps_intros steps_intros)

lemma steps_fail [steps_intros]: "keeps ((db_step b op)\<^sup>*\<^sup>* d0) (fail_run env i n path err)"
  unfolding fail_run_def by (intro keeps_intros steps_intros) simp

lemma steps_finish_run [steps_intros]: "keeps ((db_step b op)\<^sup>*\<^sup>* d0) (finish_run env i n path msg r)"
  unfolding finish_run_def by (intro keeps_intros steps_intros) simp

lemma steps_output [steps_intros]: "keeps ((db_step b op)\<^sup>*\<^sup>* d0) (reviewer_output_of i item n r)"
  unfolding reviewer_output_of_def Let_def by (intro keeps_intros steps_intros)

lemma steps_end [steps_intros]: "keeps ((db_step b op)\<^sup>*\<^sup>* d0) (end_reviewer env i item n prompt)"
  unfolding end_reviewer_def Let_def by (intro keeps_intros steps_intros)

lemma keeps_thread [keeps_intros]:
  "(t = Waiting \<Longrightarrow> keeps I f) \<Longrightarrow> (\<And>n p. t = Started n p \<Longrightarrow> keeps I (g n p)) \<Longrightarrow> (t = Done \<Longrightarrow> keeps I h) \<Longrightarrow>
   keeps I (case t of Waiting \<Rightarrow> f | Started n p \<Rightarrow> g n p | Done \<Rightarrow> h)"
  by (cases t) simp_all

lemma steps_fanout_step [steps_intros]: "keeps ((db_step b op)\<^sup>*\<^sup>* d0) (fanout_step env i items k fo)"
  unfolding fanout_step_def by (intro keeps_intros steps_intros)

lemma steps_fanout [steps_intros]: "keeps ((db_step b op)\<^sup>*\<^sup>* d0) (run_fanout env i items)"
  unfolding run_fanout_def by (intro keeps_intros steps_intros)

lemma steps_judge [steps_intros]: "keeps ((db_step b op)\<^sup>*\<^sup>* d0) (run_judge env i outputs diff_lines risk)"
  unfolding run_judge_def judge_event_def judge_result_of_def by (intro keeps_intros steps_intros)

lemma create_judged_step: "create_judged i f now d = Inr d1 \<Longrightarrow> db_step b op d d1"
  by (auto simp: create_judged_def bind_r_Inr intro: step_finding)

lemma steps_outcome [steps_intros]: "terminal_status s \<Longrightarrow> keeps ((db_step b op)\<^sup>*\<^sup>* d0) (outcome i s g u e)"
  unfolding outcome_def by (rule keeps_steps_set) (rule step_outcome)

lemma steps_report [steps_intros]: "keeps I (write_report env i r)"
  by (simp add: keeps_def settled_def write_report_def)

lemma steps_review_outcome [steps_intros]: "keeps ((db_step b op)\<^sup>*\<^sup>* d0) (review_outcome env i jr)"
  unfolding review_outcome_def Let_def
  by (intro keeps_intros steps_intros keeps_steps_set create_judged_step) simp_all

lemma steps_reviewers [steps_intros]:
  "keeps ((db_step b op)\<^sup>*\<^sup>* d0) (run_reviewers_and_judge env i diff_lines risk plan)"
  unfolding run_reviewers_and_judge_def Let_def by (intro keeps_intros steps_intros)

lemma steps_context [steps_intros]: "keeps ((db_step b op)\<^sup>*\<^sup>* d0) (collect_review_context env i repo)"
  unfolding collect_review_context_def by (intro keeps_intros steps_intros)

lemma steps_prepare [steps_intros]: "keeps I (prepare_wf env i repo dr)"
  unfolding prepare_wf_def by (intro keeps_intros)

lemma keeps_guard [keeps_intros]:
  "keeps I f \<Longrightarrow> keeps I g \<Longrightarrow> keeps I h \<Longrightarrow>
   keeps I (case x of Guard_Skipped \<Rightarrow> f | Guard_Fail \<Rightarrow> g | Guard_Review \<Rightarrow> h)"
  by (cases x) simp_all

lemma steps_prepared [steps_intros]: "keeps ((db_step b op)\<^sup>*\<^sup>* d0) (review_prepared env i p)"
  unfolding review_prepared_def write_plans_def skip_outcome_def Let_def
  by (intro keeps_intros steps_intros keeps_steps_set step_plan) simp_all

lemma steps_body [steps_intros]: "keeps ((db_step b op)\<^sup>*\<^sup>* d0) (run_body env i task)"
  unfolding run_body_def by (intro keeps_intros steps_intros keeps_steps_set step_commit)

lemma steps_handle [steps_intros]: "keeps ((db_step b op)\<^sup>*\<^sup>* d0) (handle_exc i e)"
proof (cases e)
  case (Control a r)
  then show ?thesis
    by (cases a) (auto simp: handle_exc_def intro: keeps_steps_sets keeps_steps_set cancel_steps step_stopped)
next
  case (Failure x)
  then show ?thesis by (auto simp: handle_exc_def intro: steps_intros)
qed

lemma steps_run: "keeps ((db_step b op)\<^sup>*\<^sup>* d0) (workflow_run env i)"
  unfolding workflow_run_def by (intro keeps_intros steps_intros)

text \<open>Moves of the environment that are themselves sequences of storage operations.\<close>

definition storage_moves :: "nat \<Rightarrow> bool \<Rightarrow> world \<Rightarrow> bool" where
  "storage_moves b op w \<longleftrightarrow> moves_keep ((db_step b op)\<^sup>*\<^sup>*) w"

lemma settled_steps: "storage_moves b op w \<Longrightarrow> settled ((db_step b op)\<^sup>*\<^sup>* (wd_db w)) w"
  unfolding settled_def storage_moves_def by (auto elim!: moves_keep_mono)

lemma workflow_steps:
  "storage_moves b op w \<Longrightarrow> (db_step b op)\<^sup>*\<^sup>* (wd_db w) (wd_db (snd (workflow_run env i w)))"
  using steps_run [of b op "wd_db w" env i] settled_steps [of b op w] by (simp add: keeps_def)

text \<open>C4: a run of the workflow is, together with what the other processes do meanwhile, a sequence of
  operations of the review database. So it keeps the database well formed, and what holds of every
  reachable database holds after it.\<close>

theorem workflow_refines_storage:
  assumes "storage_moves budget operator w"
    and "reach (\<lambda>d. d = empty_db) (db_step budget operator) (wd_db w)"
  shows "(db_step budget operator)\<^sup>*\<^sup>* (wd_db w) (wd_db (snd (workflow_run env i w)))
    \<and> reach (\<lambda>d. d = empty_db) (db_step budget operator) (wd_db (snd (workflow_run env i w)))
    \<and> db_ok (wd_db (snd (workflow_run env i w)))"
proof -
  have "reach (\<lambda>d. d = empty_db) (db_step budget operator) d'"
    if "(db_step budget operator)\<^sup>*\<^sup>* d d'" "reach (\<lambda>d. d = empty_db) (db_step budget operator) d" for d d'
    using that by (induction rule: rtranclp_induct) (auto intro: reach_step)
  then show ?thesis
    using workflow_steps [OF assms(1), of env i] assms(2) store.reach_inv by blast
qed

section \<open>Every run ends\<close>

text \<open>The pairs of status and gate a run may leave.\<close>

definition final_pair :: "task_status \<Rightarrow> string \<Rightarrow> bool" where
  "final_pair s g \<longleftrightarrow>
     s = TSuccess \<and> g \<in> {''passed'', ''failed'', ''skipped''}
   \<or> s = TFailed \<and> g \<in> {''context_too_large'', ''incomplete''}
   \<or> s = TCancelled \<and> g \<in> {''cancelled'', ''stopped''}"

definition task_ended :: "string \<Rightarrow> db \<Rightarrow> bool" where
  "task_ended i d \<longleftrightarrow>
     (case get_task i d of
        None \<Rightarrow> False
      | Some t \<Rightarrow> tk_finished t \<noteq> None \<and> (case tk_gate t of None \<Rightarrow> False | Some g \<Rightarrow> final_pair (tk_status t) g))"

lemma final_pair_terminal: "final_pair s g \<Longrightarrow> terminal_status s"
  by (auto simp: final_pair_def)

lemma outcome_known: "update_task_outcome i s g u e now d = Inr d1 \<Longrightarrow> task_known d i"
  by (auto simp: update_task_outcome_def Let_def bind_r_Inr task_ref_ok_def upd_task_def image_key_upd dest!: insert_event_Inr)

lemma outcome_get:
  assumes "update_task_outcome i s g u e now d = Inr d1"
  shows "\<exists>t. get_task i d = Some t \<and> get_task i d1 = Some (outcome_row s g u e (outcome_callback i d) now t)"
proof -
  from outcome_known [OF assms] obtain t where t: "get_task i d = Some t" by (auto simp: get_task_known)
  have "get_task i d1 = get_task i (upd_task i (outcome_row s g u e (outcome_callback i d) now) d)"
    by (simp only: get_task_def tasks_outcome [OF assms])
  with t show ?thesis by (simp add: get_upd_task)
qed

lemma outcome_succeeds: "task_known d i \<Longrightarrow> \<exists>d1. update_task_outcome i s g u e now d = Inr d1"
  by (auto simp: update_task_outcome_def Let_def insert_event_known upd_task_def image_key_upd)

lemma ended_outcome:
  assumes "update_task_outcome i s g u e now d = Inr d1" and "final_pair s g"
  shows "task_ended i d1"
  using outcome_get [OF assms(1)] assms(2) by (auto simp: task_ended_def outcome_row_def)

lemma ends_outcome: "final_pair s g \<Longrightarrow> ends (\<lambda>_ w. task_ended i (wd_db w)) (outcome i s g u e)"
  unfolding outcome_def by (rule ends_db_set) (simp add: ended_outcome)

lemma ends_guard [ends_intros]:
  "ends Q f \<Longrightarrow> ends Q g \<Longrightarrow> ends Q h \<Longrightarrow>
   ends Q (case x of Guard_Skipped \<Rightarrow> f | Guard_Fail \<Rightarrow> g | Guard_Review \<Rightarrow> h)"
  by (cases x) simp_all

lemma body_ends: "ends (\<lambda>_ w. task_ended i (wd_db w)) (run_body env i task)"
  unfolding run_body_def review_prepared_def skip_outcome_def run_reviewers_and_judge_def review_outcome_def Let_def
  by (intro ends_intros ends_outcome) (simp_all add: final_pair_def)

lemma handler_ends:
  assumes "task_known (wd_db w) i"
  shows "wp (handle_exc i e) (\<lambda>_ w1. task_ended i (wd_db w1)) (\<lambda>_ _. False) w"
proof (cases e)
  case (Control a r)
  from assms obtain t where t: "get_task i (wd_db w) = Some t" by (auto simp: get_task_known)
  have c: "tk_finished (cancel_row g m now t) \<noteq> None" for g m now
    by (cases "tk_finished t") (simp_all add: cancel_row_def)
  show ?thesis
  proof (cases a)
    case Stop_Task
    obtain d1 where "mark_task_stopped i (Some r) (wd_now w) (wd_db w) = Inr d1"
      "get_task i d1 = Some (cancel_row ''stopped'' (text_or (Some r) ''task stopped'') (wd_now w) t)"
      using stopped_effect [OF t] by blast
    with c show ?thesis
      by (simp add: handle_exc_def Control Stop_Task wp_db_set task_ended_def) (simp add: cancel_row_def final_pair_def)
  next
    case Cancel_Task
    obtain d1 where "cancel_task i (Some r) (wd_now w) (wd_db w) = Inr d1"
      "get_task i d1 = Some (cancel_row ''cancelled'' (text_or (Some r) ''cancelled by operator'') (wd_now w) t)"
      using cancel_effect [OF t] by blast
    with c show ?thesis
      by (simp add: handle_exc_def Control Cancel_Task wp_db_set task_ended_def) (simp add: cancel_row_def final_pair_def)
  qed
next
  case (Failure x)
  obtain d1 where "update_task_outcome i TFailed ''incomplete'' None (Some (exc_text x)) (wd_now w) (wd_db w) = Inr d1"
    using outcome_succeeds [OF assms] by blast
  then show ?thesis
    using ended_outcome by (fastforce simp: handle_exc_def Failure outcome_def wp_db_set final_pair_def)
qed

lemma recovered_id: "tk_id (recovered_row b now t) = tk_id t"
  by (simp add: recovered_row_def)

lemma step_keeps_ids:
  assumes "db_step b op d d1" and "db_ok d"
  shows "tk_id ` set (db_tasks d) \<subseteq> tk_id ` set (db_tasks d1)"
  using assms(1)
proof cases
  case step_create
  then show ?thesis by (auto simp: create_task_def split: if_split_asm dest!: tasks_insert_event)
next
  case step_commit
  then show ?thesis
    by (auto simp: update_task_commit_id_def Let_def upd_task_def image_key_upd split: option.splits dest!: tasks_insert_event)
next
  case step_claim
  then show ?thesis by (auto simp: image_key_upd dest!: claim_next_task_cases)
next
  case step_outcome
  then show ?thesis by (simp add: tasks_outcome upd_task_def image_key_upd)
next
  case step_cancel
  then show ?thesis by (simp add: tasks_cancel upd_task_def image_key_upd)
next
  case step_stopped
  then show ?thesis by (simp add: tasks_stopped upd_task_def image_key_upd)
next
  case step_requeue
  then show ?thesis
    by (auto simp: requeue_task_def Let_def ack_controls_def upd_task_def image_key_upd dest!: tasks_insert_event)
next
  case (step_recover now rs)
  then show ?thesis
    using recover_exact [of d b now] assms(2) by (auto simp: db_ok_def image_image recovered_id)
next
  case step_event
  then show ?thesis by (simp only: tasks_insert_event order_refl)
qed (simp_all add: same_tasks_ops finish_reviewer_run_def finish_feedback_session_def set_callback_state_def
       upd_task_def image_key_upd)

lemma steps_keep_known:
  assumes "(db_step b op)\<^sup>*\<^sup>* d d1" and "db_ok d" and "task_known d i"
  shows "task_known d1 i"
proof -
  have "db_ok d1 \<and> task_known d1 i"
    using assms by (induction rule: rtranclp_induct) (auto dest: db_step_ok step_keeps_ids)
  then show ?thesis ..
qed

lemma workflow_ends:
  assumes "get_task i (wd_db w) = Some t" and "db_ok (wd_db w)" and "storage_moves budget operator w"
  shows "\<exists>w1. workflow_run env i w = (Inr (), w1) \<and> task_ended i (wd_db w1)"
proof -
  have k: "task_known (wd_db w) i" using assms(1) by (simp add: get_task_known)
  note body = wp_conj [OF wp_keeps [OF steps_body settled_steps [OF assms(3)], of env i t] body_ends [of i env t, unfolded ends_def, rule_format]]
  have "wp (run_body env i t) (\<lambda>_ w1. task_ended i (wd_db w1)) (\<lambda>_ w1. task_known (wd_db w1) i) w"
    by (rule wp_conseq [OF body]) (use steps_keep_known [OF _ assms(2) k] in \<open>auto simp: settled_def\<close>)
  then have "wp (workflow_run env i) (\<lambda>_ w1. task_ended i (wd_db w1)) (\<lambda>_ _. False) w"
    using assms(1) by (simp add: workflow_run_def wp_simps) (rule wp_conseq, assumption, simp_all add: handler_ends)
  then show ?thesis
    by (cases "workflow_run env i w") (auto simp: wp_def split: sum.splits)
qed

text \<open>C2: whatever fails or is requested while it runs, a run of the workflow on a known task returns
  without an exception and leaves the task finished, in one of the seven pairs of status and gate.\<close>

theorem workflow_always_ends:
  assumes "get_task i (wd_db w) = Some t" and "db_ok (wd_db w)" and "storage_moves budget operator w"
  shows "\<exists>w1. workflow_run env i w = (Inr (), w1) \<and> task_ended i (wd_db w1)"
  using assms by (rule workflow_ends)

section \<open>A pending request ends the run at once\<close>

definition control_gate :: "control_action \<Rightarrow> string" where
  "control_gate a = (case a of Stop_Task \<Rightarrow> ''stopped'' | Cancel_Task \<Rightarrow> ''cancelled'')"

text \<open>C5: when a request to stop or cancel is pending, or the task is already cancelled, the run waits for
  nothing, plans and starts no reviewer and writes no report: the task is cancelled with the gate of the
  request and released, and its unfinished runs are ended.\<close>

theorem pending_request_ends_at_once:
  assumes "get_task i (wd_db w) = Some t" and "requested_control i (wd_db w) = Some (a, reason)" and "reason \<noteq> []"
  shows "\<exists>d1. workflow_run env i w = (Inr (), w\<lparr>wd_db := d1\<rparr>)
    \<and> get_task i d1 = Some (cancel_row (control_gate a) reason (wd_now w) t)
    \<and> db_runs d1 = db_runs (end_runs i reason (wd_now w) (wd_db w)) \<and> db_plans d1 = db_plans (wd_db w)"
proof -
  have r: "text_or (Some reason) x = reason" for x using assms(3) by (cases reason) simp_all
  have run: "workflow_run env i w = handle_exc i (Control a reason) w"
    using assms by (simp add: workflow_run_def wbind_def db_get_def wcatch_def run_body_def wseq_def raise_if_control_def wraise_def)
  show ?thesis
  proof (cases a)
    case Stop_Task
    from stopped_effect [OF assms(1), of "Some reason" "wd_now w"] obtain d1 where
      "mark_task_stopped i (Some reason) (wd_now w) (wd_db w) = Inr d1"
      "get_task i d1 = Some (cancel_row ''stopped'' reason (wd_now w) t)"
      "db_runs d1 = db_runs (end_runs i reason (wd_now w) (wd_db w))" "db_plans d1 = db_plans (wd_db w)"
      unfolding r by blast
    then show ?thesis
      by (intro exI [of _ d1]) (simp add: run handle_exc_def Stop_Task db_set_def db_do_def unit_r_def control_gate_def)
  next
    case Cancel_Task
    from cancel_effect [OF assms(1), of "Some reason" "wd_now w"] obtain d1 where
      "cancel_task i (Some reason) (wd_now w) (wd_db w) = Inr d1"
      "get_task i d1 = Some (cancel_row ''cancelled'' reason (wd_now w) t)"
      "db_runs d1 = db_runs (end_runs i reason (wd_now w) (wd_db w))" "db_plans d1 = db_plans (wd_db w)"
      unfolding r by blast
    then show ?thesis
      by (intro exI [of _ d1]) (simp add: run handle_exc_def Cancel_Task db_set_def db_do_def unit_r_def control_gate_def)
  qed
qed

section \<open>Witnesses\<close>

text \<open>The claimed task of \<open>sample_db3\<close>; git answers one small Python file and the models accept it.\<close>

definition sample_diffs :: "string \<times> string \<times> (string list \<Rightarrow> string)" where
  "sample_diffs = (''+++ b/a.py\<newline>@@ -1 +1 @@\<newline>+x'', ''a.py'', \<lambda>_. ''+++ b/a.py\<newline>@@ -1 +1 @@\<newline>+x'')"

definition sample_answer :: "string \<Rightarrow> turn_result" where
  "sample_answer prompt = (turn_result_of_type ''completed'')\<lparr>tr_session_id := Some ''s'',
     tr_result := (if prompt = ''judge'' then ''{\"accepted_findings\":[],\"rejected_candidates\":[]}'' else ''{\"findings\":[]}'')\<rparr>"

definition sample_env :: wf_env where
  "sample_env = \<lparr>we_prepare_repo = (\<lambda>_. Inr ''/repo''), we_current_commit = (\<lambda>_. Inr ''c1''), we_review_context = (\<lambda>_. Inr []),
     we_git_diffs = (\<lambda>_ _. Inr sample_diffs), we_max_diff_bytes = 1000, we_selected_model = ''m'',
     we_prompt = (\<lambda>r _. Inr (if r = ''cr_judge'' then ''judge'' else ''review'')), we_turn = (\<lambda>p. Inr (sample_answer p)),
     we_concurrency = 3, we_schedule = [], we_artifacts = ''/a'', we_report_base = ''/r'', we_sha256 = (\<lambda>_. ''h'')\<rparr>"

definition sample_world :: world where
  "sample_world = \<lparr>wd_db = sample_db3, wd_now = 40, wd_moves = [], wd_reports = []\<rparr>"

lemma sample_world_simps [simp]: "wd_db sample_world = sample_db3" "wd_moves sample_world = []" "wd_now sample_world = 40"
  by (simp_all add: sample_world_def)

lemma sample_world_quiet: "storage_moves budget operator sample_world"
  by (simp add: storage_moves_def moves_keep_def)

theorem workflow_refines_storage_witness:
  "db_ok (wd_db (snd (workflow_run sample_env ''t2'' sample_world)))"
  using workflow_refines_storage [OF sample_world_quiet, of 3 False] sample_reach by simp

theorem workflow_always_ends_witness:
  "\<exists>w1. workflow_run sample_env ''t2'' sample_world = (Inr (), w1) \<and> task_ended ''t2'' (wd_db w1)"
  by (rule workflow_always_ends [OF _ _ sample_world_quiet]) (simp_all add: sample_get sample_ok)

text \<open>The operator asks for a stop before the run begins.\<close>

definition sample_stopping :: world where
  "sample_stopping = sample_world\<lparr>wd_db := projr (request_task_stop ''t2'' None 40 sample_db3)\<rparr>"

lemma sample_stopping_facts:
  "get_task ''t2'' (wd_db sample_stopping) \<noteq> None"
  "requested_control ''t2'' (wd_db sample_stopping) = Some (Stop_Task, ''stop requested'')"
  by code_simp+

theorem pending_request_ends_at_once_witness:
  "\<exists>d1. workflow_run sample_env ''t2'' sample_stopping = (Inr (), sample_stopping\<lparr>wd_db := d1\<rparr>)
    \<and> db_plans d1 = db_plans (wd_db sample_stopping)"
proof -
  obtain t where "get_task ''t2'' (wd_db sample_stopping) = Some t" using sample_stopping_facts(1) by blast
  from pending_request_ends_at_once [OF this sample_stopping_facts(2), of sample_env] show ?thesis by auto
qed

end
