(* ===== verification/Workflow_Gate.thy ===== *)
theory Workflow_Gate
  imports Workflow_Correct
begin

text \<open>
  Why a gate is passed: the reviewers' threads are followed through any schedule, each by the row of its
  run, until the judge has answered.
\<close>

section \<open>Rows of runs\<close>

type_synonym runs = "reviewer_run list"

definition run_there :: "string \<Rightarrow> string \<Rightarrow> nat \<Rightarrow> runs \<Rightarrow> bool" where
  "run_there i rev_name n rs \<longleftrightarrow> (\<exists>r \<in> set rs. run_key r = (i, rev_name, ''wf1'', 1) \<and> rr_id r = n)"

definition run_succeeded :: "string \<Rightarrow> string \<Rightarrow> runs \<Rightarrow> bool" where
  "run_succeeded i rev_name rs \<longleftrightarrow> (\<exists>r \<in> set rs. run_key r = (i, rev_name, ''wf1'', 1) \<and> rr_status r = RSuccess)"

text \<open>The rows of a task that belong to no reviewer of a set are still there, unchanged.\<close>

definition runs_kept :: "string \<Rightarrow> string set \<Rightarrow> runs \<Rightarrow> runs \<Rightarrow> bool" where
  "runs_kept i K rs rs1 \<longleftrightarrow> (\<forall>r \<in> set rs. rr_task r = i \<longrightarrow> rr_reviewer r \<notin> K \<longrightarrow> r \<in> set rs1)"

lemma runs_kept_refl [simp]: "runs_kept i K rs rs"
  by (simp add: runs_kept_def)

lemma runs_kept_trans: "runs_kept i K a b \<Longrightarrow> runs_kept i K' b c \<Longrightarrow> K' \<subseteq> K \<Longrightarrow> runs_kept i K a c"
  by (auto simp: runs_kept_def)

lemma kept_there: "runs_kept i K a b \<Longrightarrow> x \<notin> K \<Longrightarrow> run_there i x n a \<Longrightarrow> run_there i x n b"
  by (auto simp: runs_kept_def run_there_def run_key_def)

lemma kept_succeeded: "runs_kept i K a b \<Longrightarrow> x \<notin> K \<Longrightarrow> run_succeeded i x a \<Longrightarrow> run_succeeded i x b"
  by (auto simp: runs_kept_def run_succeeded_def run_key_def)

text \<open>An invariant of the runs in a well-formed database, and the operations that do not touch runs.\<close>

definition runs_inv :: "(runs \<Rightarrow> bool) \<Rightarrow> db \<Rightarrow> bool" where
  "runs_inv P d \<longleftrightarrow> db_ok d \<and> P (db_runs d)"

lemma insert_event_runs: "insert_event tk typ sev stage msg payload now d = Inr d1 \<Longrightarrow> db_runs d1 = db_runs d"
  by (auto dest: insert_event_Inr)

lemma outcome_runs: "update_task_outcome i s g u e now d = Inr d1 \<Longrightarrow> db_runs d1 = db_runs d"
  by (auto simp: update_task_outcome_def Let_def bind_r_Inr upd_task_def split: if_split_asm dest!: insert_event_runs)

lemma finding_runs: "create_finding i rn f lno sv t dt sg fid now d = Inr d1 \<Longrightarrow> db_runs d1 = db_runs d"
  by (auto simp: create_finding_def bind_r_Inr split: if_split_asm)

named_theorems runs_intros \<open>statements that keep an invariant of the runs\<close>

lemma runs_event [runs_intros]: "keeps (runs_inv P) (wf_event i typ msg stage sev payload)"
  unfolding wf_event_def
  by (rule keeps_db_set) (auto simp: runs_inv_def insert_event_runs intro: insert_event_ok)

lemma runs_control [runs_intros]: "keeps (runs_inv P) (raise_if_control i)"
  unfolding raise_if_control_def by (intro keeps_intros)

lemma runs_output [runs_intros]: "keeps (runs_inv P) (reviewer_output_of i item n r)"
  unfolding reviewer_output_of_def Let_def by (intro keeps_intros runs_intros)

lemma runs_outcome [runs_intros]: "terminal_status s \<Longrightarrow> keeps (runs_inv P) (outcome i s g u e)"
  unfolding outcome_def
  by (rule keeps_db_set) (auto simp: runs_inv_def outcome_runs intro: update_task_outcome_ok)

lemma runs_judged [runs_intros]: "keeps (runs_inv P) (db_set (create_judged i f))"
  by (rule keeps_db_set) (auto simp: runs_inv_def create_judged_def bind_r_Inr finding_runs intro: create_finding_ok)

lemma runs_report [runs_intros]: "keeps I (write_report env i r)"
  by (rule steps_report)

lemma runs_review_outcome [runs_intros]: "keeps (runs_inv P) (review_outcome env i jr)"
  unfolding review_outcome_def Let_def by (intro keeps_intros runs_intros) simp_all

lemma runs_judge_result [runs_intros]: "keeps (runs_inv P) (judge_result_of env i diff_lines risk n r)"
  unfolding judge_result_of_def judge_event_def by (intro keeps_intros runs_intros)

section \<open>What starting and finishing a run changes\<close>

lemma run_there_upd:
  assumes "run_there i x n rs" and "\<And>r. run_key (f r) = run_key r" and "\<And>r. rr_id (f r) = rr_id r"
  shows "run_there i x n (upd_where p f rs)"
proof -
  from assms(1) obtain r where "r \<in> set rs" "run_key r = (i, x, ''wf1'', 1)" "rr_id r = n"
    by (auto simp: run_there_def)
  then show ?thesis
    unfolding run_there_def set_upd_where
    by (intro bexI [of _ "if p r then f r else r"]) (auto simp: assms(2,3))
qed

lemma start_run_effect:
  assumes "start_reviewer_run i x ''wf1'' 1 m now d = Inr (n, d1)" and "db_ok d"
  shows "db_ok d1" and "runs_kept i {x} (db_runs d) (db_runs d1)" and "run_there i x n (db_runs d1)"
proof -
  show "db_ok d1" using assms by (rule start_reviewer_run_ok)
  have k: "run_key r = (i, x, ''wf1'', 1) \<Longrightarrow> rr_reviewer r = x" for r by (simp add: run_key_def)
  show "runs_kept i {x} (db_runs d) (db_runs d1)"
    using assms(1) k
    by (auto simp: start_reviewer_run_def Let_def runs_kept_def set_upd_where split: option.splits if_split_asm)
  show "run_there i x n (db_runs d1)"
  proof (cases "find (\<lambda>r. run_key r = (i, x, ''wf1'', 1)) (db_runs d)")
    case None
    with assms(1) show ?thesis
      by (auto simp: start_reviewer_run_def Let_def run_there_def run_key_def split: if_split_asm)
  next
    case (Some r)
    then have "run_there i x (rr_id r) (db_runs d)" by (auto simp: run_there_def dest: find_Some_key)
    with assms(1) Some show ?thesis
      by (auto simp: start_reviewer_run_def Let_def run_key_def intro!: run_there_upd)
  qed
qed

lemma finish_run_effect:
  assumes "db_ok d" and "run_there i x n (db_runs d)" and "final_run s"
    and "d1 = finish_reviewer_run n s se l out e m us now d"
  shows "db_ok d1" and "runs_kept i {x} (db_runs d) (db_runs d1)" and "run_there i x n (db_runs d1)"
    and "s = RSuccess \<Longrightarrow> run_succeeded i x (db_runs d1)"
proof -
  obtain r0 where r0: "r0 \<in> set (db_runs d)" "run_key r0 = (i, x, ''wf1'', 1)" "rr_id r0 = n"
    using assms(2) by (auto simp: run_there_def)
  have dist: "distinct (map rr_id (db_runs d))" using assms(1) by (simp only: db_ok_def keys_ok_def strict_sorted_iff)
  have u: "r = r0" if "r \<in> set (db_runs d)" "rr_id r = n" for r
    using dist that r0 by (metis distinct_map inj_onD)
  show "db_ok d1" using assms by (auto intro: finish_reviewer_run_ok)
  show "runs_kept i {x} (db_runs d) (db_runs d1)"
    unfolding runs_kept_def
  proof (intro ballI impI)
    fix r assume r: "r \<in> set (db_runs d)" "rr_reviewer r \<notin> {x}"
    have "rr_id r \<noteq> n"
    proof
      assume "rr_id r = n"
      with u r(1) have "r = r0" by blast
      with r0(2) r(2) show False by (simp add: run_key_def)
    qed
    with r(1) show "r \<in> set (db_runs d1)"
      unfolding assms(4) finish_reviewer_run_def by (simp add: set_upd_where image_iff)
  qed
  show "run_there i x n (db_runs d1)"
    unfolding assms(4) finish_reviewer_run_def by (simp, rule run_there_upd [OF assms(2)]) (simp_all add: run_key_def)
  show "run_succeeded i x (db_runs d1)" if "s = RSuccess"
    unfolding run_succeeded_def
  proof (rule bexI)
    let ?r = "r0 \<lparr>rr_status := s, rr_session := se, rr_raw_log := l, rr_output := out, rr_error := e,
      rr_model := coalesce m (rr_model r0), rr_duration := map_option (\<lambda>t. now - t) (rr_started r0),
      rr_usage := (case us of None \<Rightarrow> usage_zero | Some u \<Rightarrow> u), rr_updated := now, rr_finished := Some now\<rparr>"
    show "run_key ?r = (i, x, ''wf1'', 1) \<and> rr_status ?r = RSuccess" using r0 that by (simp add: run_key_def)
    show "?r \<in> set (db_runs d1)"
      using r0(1,3) unfolding assms(4) finish_reviewer_run_def by (auto simp: set_upd_where)
  qed
qed

section \<open>A quiet environment\<close>

text \<open>Others work by storage operations and leave the runs of this task alone.\<close>

definition quiet :: "nat \<Rightarrow> bool \<Rightarrow> string \<Rightarrow> world \<Rightarrow> bool" where
  "quiet b op i w \<longleftrightarrow> db_ok (wd_db w) \<and> storage_moves b op w
     \<and> moves_keep (\<lambda>d d1. runs_kept i {} (db_runs d) (db_runs d1)) w"

abbreviation runs_of :: "world \<Rightarrow> runs" where
  "runs_of w \<equiv> db_runs (wd_db w)"

lemma quiet_keeps:
  assumes "keeps ((db_step b op)\<^sup>*\<^sup>* (wd_db w)) m" and "quiet b op i w"
  shows "wp m (\<lambda>_. quiet b op i) (\<lambda>_. quiet b op i) w"
proof -
  have s: "storage_moves b op w" "db_ok (wd_db w)" using assms(2) by (simp_all add: quiet_def)
  have q: "quiet b op i v" if "(db_step b op)\<^sup>*\<^sup>* (wd_db w) (wd_db v)" "set (wd_moves v) \<subseteq> set (wd_moves w)" for v
    using assms(2) that store.steps_inv [OF that(1)] by (auto simp: quiet_def storage_moves_def intro: moves_keep_suffix)
  show ?thesis
    by (rule wp_conseq [OF wp_keeps [OF assms(1) settled_steps [OF s(1)]]]) (auto simp: settled_def intro: q)
qed

lemma quiet_settled:
  assumes "quiet b op i w" and "P (runs_of w)" and "\<And>a c. P a \<Longrightarrow> runs_kept i {} a c \<Longrightarrow> P c"
  shows "settled (runs_inv P) w"
  unfolding settled_def
proof
  show "runs_inv P (wd_db w)" using assms(1,2) by (simp add: runs_inv_def quiet_def)
  have "moves_keep (\<lambda>d d1. (db_step b op)\<^sup>*\<^sup>* d d1) w" "moves_keep (\<lambda>d d1. runs_kept i {} (db_runs d) (db_runs d1)) w"
    using assms(1) by (simp_all add: quiet_def storage_moves_def)
  then show "moves_keep (\<lambda>d d1. runs_inv P d \<longrightarrow> runs_inv P d1) w"
    using assms(3) store.steps_inv unfolding moves_keep_def runs_inv_def by metis
qed

lemma wp_runs:
  assumes "keeps (runs_inv P) m" and "quiet b op i w" and "P (runs_of w)" and "\<And>a c. P a \<Longrightarrow> runs_kept i {} a c \<Longrightarrow> P c"
  shows "wp m (\<lambda>_ w1. P (runs_of w1)) (\<lambda>_ w1. P (runs_of w1)) w"
  by (rule wp_conseq [OF wp_keeps [OF assms(1) quiet_settled [where P = P, OF assms(2-4)]]]) (simp_all add: settled_def runs_inv_def)

section \<open>The stretches of one reviewer\<close>

lemma wp_control:
  "wp (raise_if_control i) Q E w =
     (case requested_control i (wd_db w) of None \<Rightarrow> Q () w | Some (a, r) \<Rightarrow> E (Control a r) w)"
  by (auto simp: raise_if_control_def wp_simps split: option.split)

lemma wp_event:
  "wp (wf_event i typ msg stage sev payload) Q E w =
     (case insert_event (Some i) typ sev (Some stage) msg payload (wd_now w) (wd_db w) of
        Inl e \<Rightarrow> E (Failure e) w | Inr d \<Rightarrow> Q () (w\<lparr>wd_db := d\<rparr>))"
  by (simp add: wf_event_def wp_simps)

lemma begin_runs:
  assumes "db_ok (wd_db w)"
  shows "wp (begin_reviewer env i item)
    (\<lambda>(n, p) w1. runs_kept i {pi_reviewer item} (runs_of w) (runs_of w1) \<and> run_there i (pi_reviewer item) n (runs_of w1))
    (\<lambda>_ w1. runs_kept i {pi_reviewer item} (runs_of w) (runs_of w1)) w"
  unfolding begin_reviewer_def wp_simps wp_control wp_event
  using start_run_effect [OF _ assms]
  by (auto split: option.split sum.split prod.split dest!: insert_event_runs)

lemma begin_wp:
  assumes "quiet b op i w"
  shows "wp (begin_reviewer env i item)
    (\<lambda>(n, p) w1. quiet b op i w1 \<and> runs_kept i {pi_reviewer item} (runs_of w) (runs_of w1) \<and> run_there i (pi_reviewer item) n (runs_of w1))
    (\<lambda>_ w1. quiet b op i w1 \<and> runs_kept i {pi_reviewer item} (runs_of w) (runs_of w1)) w"
proof -
  have "db_ok (wd_db w)" using assms by (simp add: quiet_def)
  from wp_conj [OF quiet_keeps [OF steps_begin assms] begin_runs [OF this]]
  show ?thesis by (rule wp_conseq) auto
qed

lemma runs_finish [runs_intros]:
  "final_run s \<Longrightarrow> keeps (runs_inv (\<lambda>rs. runs_kept i {x} rs0 rs \<and> run_there i x n rs))
     (db_set (\<lambda>now d. Inr (finish_reviewer_run n s se l out e m us now d)))"
  by (rule keeps_db_set)
    (auto simp: runs_inv_def intro: finish_run_effect runs_kept_trans)

lemma runs_fail [runs_intros]:
  "keeps (runs_inv (\<lambda>rs. runs_kept i {x} rs0 rs \<and> run_there i x n rs)) (fail_run env i n path err)"
  unfolding fail_run_def by (intro keeps_intros runs_intros) simp

lemma runs_finish_run [runs_intros]:
  "keeps (runs_inv (\<lambda>rs. runs_kept i {x} rs0 rs \<and> run_there i x n rs)) (finish_run env i n path msg r)"
  unfolding finish_run_def by (intro keeps_intros runs_intros) simp

lemma runs_end [runs_intros]:
  "keeps (runs_inv (\<lambda>rs. runs_kept i {x} rs0 rs \<and> run_there i x n rs)) (end_reviewer env i item n p)"
  unfolding end_reviewer_def Let_def by (intro keeps_intros runs_intros)

lemma closed_there: "runs_kept i {x} rs0 a \<and> run_there i x n a \<Longrightarrow> runs_kept i {} a c \<Longrightarrow> runs_kept i {x} rs0 c \<and> run_there i x n c"
  using runs_kept_trans kept_there by blast

lemma finish_run_success:
  assumes "quiet b op i w" and "run_there i x n (runs_of w)"
  shows "wp (finish_run env i n path msg r) (\<lambda>_ w1. quiet b op i w1 \<and> (turn_ok r \<longrightarrow> run_succeeded i x (runs_of w1))) (\<lambda>_ _. True) w"
proof -
  have "db_ok (wd_db w)" using assms by (simp add: quiet_def)
  note e = finish_run_effect [OF this assms(2) _ refl]
  have "wp (finish_run env i n path msg r) (\<lambda>_ w1. turn_ok r \<longrightarrow> run_succeeded i x (runs_of w1)) (\<lambda>_ _. True) w"
    unfolding finish_run_def wp_simps wp_control using e(4) by (auto split: option.split sum.split)
  from wp_conj [OF quiet_keeps [OF steps_finish_run assms(1)] this] show ?thesis
    by (rule wp_conseq) auto
qed

lemma closed_succeeded: "run_succeeded i x a \<Longrightarrow> runs_kept i {} a c \<Longrightarrow> run_succeeded i x c"
  using kept_succeeded by blast

lemma end_success:
  assumes "quiet b op i w" and "run_there i (pi_reviewer item) n (runs_of w)"
  shows "wp (end_reviewer env i item n p)
    (\<lambda>_ w1. pi_required item \<longrightarrow> run_succeeded i (pi_reviewer item) (runs_of w1)) (\<lambda>_ _. True) w"
proof (cases "we_turn env p")
  case (Inl e)
  have "ends Q (end_reviewer env i item n p)" for Q
    unfolding end_reviewer_def Inl Let_def sum.case by (intro ends_intros)
  then show ?thesis by (simp add: ends_def)
next
  case (Inr r)
  note f = finish_run_success [OF assms]
  show ?thesis
  proof (cases "turn_ok r")
    case False
    have "pi_required item \<Longrightarrow> ends Q (end_reviewer env i item n p)" for Q
      unfolding end_reviewer_def Inr Let_def sum.case using False by (simp, intro ends_intros)
    then show ?thesis
      by (cases "pi_required item") (auto simp: ends_def intro: wp_conseq [OF wp_true])
  next
    case True
    let ?P = "run_succeeded i (pi_reviewer item)"
    have rest: "wp m (\<lambda>_ w1. pi_required item \<longrightarrow> ?P (runs_of w1)) (\<lambda>_ _. True) v"
      if "keeps (runs_inv ?P) m" "quiet b op i v" "?P (runs_of v)" for m :: "json_dict option wf" and v
      by (rule wp_conseq [OF wp_runs [where P = ?P, OF that]]) (auto intro: closed_succeeded)
    show ?thesis
      unfolding end_reviewer_def Inr Let_def sum.case
    proof (subst wp_wseq, rule wp_conseq [OF f], rule rest)
      fix v assume v: "quiet b op i v \<and> (turn_ok r \<longrightarrow> ?P (runs_of v))"
      then show "quiet b op i v" "?P (runs_of v)" using True by simp_all
    qed (intro keeps_intros runs_intros | simp)+
  qed
qed

lemma end_wp:
  assumes "quiet b op i w" and "run_there i (pi_reviewer item) n (runs_of w)"
  shows "wp (end_reviewer env i item n p)
    (\<lambda>_ w1. quiet b op i w1 \<and> runs_kept i {pi_reviewer item} (runs_of w) (runs_of w1)
       \<and> (pi_required item \<longrightarrow> run_succeeded i (pi_reviewer item) (runs_of w1)))
    (\<lambda>_ w1. quiet b op i w1 \<and> runs_kept i {pi_reviewer item} (runs_of w) (runs_of w1)) w"
proof -
  have k: "wp (end_reviewer env i item n p)
      (\<lambda>_ w1. runs_kept i {pi_reviewer item} (runs_of w) (runs_of w1) \<and> run_there i (pi_reviewer item) n (runs_of w1))
      (\<lambda>_ w1. runs_kept i {pi_reviewer item} (runs_of w) (runs_of w1) \<and> run_there i (pi_reviewer item) n (runs_of w1)) w"
    by (rule wp_runs [OF runs_end assms(1)]) (simp add: assms(2), rule closed_there)
  from wp_conj [OF quiet_keeps [OF steps_end assms(1)] wp_conj [OF k end_success [OF assms]]]
  show ?thesis by (rule wp_conseq) auto
qed

section \<open>The threads under any schedule\<close>

definition thread_ok :: "string \<Rightarrow> plan_item list \<Rightarrow> fanout \<Rightarrow> runs \<Rightarrow> nat \<Rightarrow> bool" where
  "thread_ok i items fo rs j \<longleftrightarrow>
     (case fo_threads fo ! j of
        Waiting \<Rightarrow> True
      | Started n p \<Rightarrow> run_there i (pi_reviewer (items ! j)) n rs
      | Done \<Rightarrow> pi_required (items ! j) \<longrightarrow> fo_failures fo \<noteq> [] \<or> fo_control fo \<noteq> None
                  \<or> run_succeeded i (pi_reviewer (items ! j)) rs)"

fun thread_rank :: "review_thread \<Rightarrow> nat" where
  "thread_rank Waiting = 0"
| "thread_rank (Started _ _) = 1"
| "thread_rank Done = 2"

text \<open>After the stretches \<open>ks\<close>: every thread is as far as it was let run, and its row is as far.\<close>

definition fan_ok :: "string \<Rightarrow> plan_item list \<Rightarrow> nat list \<Rightarrow> fanout \<Rightarrow> runs \<Rightarrow> bool" where
  "fan_ok i items ks fo rs \<longleftrightarrow> length (fo_threads fo) = length items
     \<and> (\<forall>j < length items. thread_ok i items fo rs j \<and> min 2 (count_list ks j) \<le> thread_rank (fo_threads fo ! j))"

lemma thread_ok_kept:
  "thread_ok i items fo a j \<Longrightarrow> runs_kept i K a c \<Longrightarrow> pi_reviewer (items ! j) \<notin> K \<Longrightarrow> thread_ok i items fo c j"
  using kept_there kept_succeeded by (auto simp: thread_ok_def split: review_thread.splits)

lemma fan_ok_kept: "fan_ok i items ks fo a \<Longrightarrow> runs_kept i {} a c \<Longrightarrow> fan_ok i items ks fo c"
  using thread_ok_kept by (auto simp: fan_ok_def)

lemma collect_threads [simp]: "fo_threads (collect item r fo) = fo_threads fo"
  by (auto simp: collect_def split: sum.split wf_exc.split option.split)

lemma collect_reports:
  "fo_failures fo \<noteq> [] \<Longrightarrow> fo_failures (collect item r fo) \<noteq> []"
  "fo_control fo \<noteq> None \<Longrightarrow> fo_control (collect item r fo) \<noteq> None"
  "pi_required item \<Longrightarrow> fo_failures (collect item (Inl e) fo) \<noteq> [] \<or> fo_control (collect item (Inl e) fo) \<noteq> None"
  by (auto simp: collect_def split: sum.split wf_exc.split option.split)

lemma thread_ok_collect:
  "thread_ok i items fo rs j \<Longrightarrow> thread_ok i items (collect item r fo) rs j"
  using collect_reports(1,2) by (auto simp: thread_ok_def split: review_thread.splits)

lemma set_thread_simps [simp]:
  "fo_threads (set_thread k t fo) = (fo_threads fo)[k := t]"
  "fo_failures (set_thread k t fo) = fo_failures fo" "fo_control (set_thread k t fo) = fo_control fo"
  by (simp_all add: set_thread_def)

text \<open>One thread moves on; the others stay where they are.\<close>

lemma fan_ok_move:
  assumes "fan_ok i items ks fo a" and "k < length items" and "distinct (map pi_reviewer items)"
    and "runs_kept i {pi_reviewer (items ! k)} a c"
    and "fo_threads fo1 = (fo_threads fo)[k := t]" and "thread_ok i items fo1 c k"
    and "min 2 (Suc (thread_rank (fo_threads fo ! k))) \<le> thread_rank t"
    and "fo_failures fo \<noteq> [] \<Longrightarrow> fo_failures fo1 \<noteq> []" and "fo_control fo \<noteq> None \<Longrightarrow> fo_control fo1 \<noteq> None"
  shows "fan_ok i items (ks @ [k]) fo1 c"
  unfolding fan_ok_def
proof (intro conjI allI impI)
  have len: "length (fo_threads fo) = length items" using assms(1) by (simp add: fan_ok_def)
  then show "length (fo_threads fo1) = length items" by (simp add: assms(5))
  fix j assume j: "j < length items"
  have old: "thread_ok i items fo a j" "min 2 (count_list ks j) \<le> thread_rank (fo_threads fo ! j)"
    using assms(1) j by (simp_all add: fan_ok_def)
  show "thread_ok i items fo1 c j"
  proof (cases "j = k")
    case False
    then have "pi_reviewer (items ! j) \<notin> {pi_reviewer (items ! k)}"
      using assms(2,3) j by (metis distinct_conv_nth length_map nth_map singletonD)
    with thread_ok_kept [OF old(1) assms(4)] False assms(5,8,9) show ?thesis
      by (auto simp: thread_ok_def split: review_thread.splits)
  qed (use assms(6) in simp)
  show "min 2 (count_list (ks @ [k]) j) \<le> thread_rank (fo_threads fo1 ! j)"
    using old(2) assms(2,5,7) len by (cases "j = k") auto
qed

lemma wp_wfold_prefix:
  assumes "P [] s w" and "\<And>ys x t v. x \<in> set xs \<Longrightarrow> P ys t v \<Longrightarrow> wp (f x t) (P (ys @ [x])) E v"
  shows "wp (wfold f xs s) (P xs) E w"
proof -
  have "P ys s w \<Longrightarrow> wp (wfold f xs s) (P (ys @ xs)) E w" for ys
    using assms(2)
  proof (induction xs arbitrary: ys s w)
    case (Cons x xs)
    have "wp (f x s) (P (ys @ [x])) E w" using Cons.prems by simp
    then show ?case
      unfolding wfold.simps wp_wbind
      by (rule wp_conseq) (use Cons.IH [of "ys @ [x]"] Cons.prems(2) in auto)
  qed (simp add: wp_simps)
  from this [of "[]"] assms(1) show ?thesis by simp
qed

lemma fanout_step_wp:
  assumes "quiet b op i w" and "fan_ok i items ks fo (runs_of w)" and "distinct (map pi_reviewer items)" and "k < length items"
  shows "wp (fanout_step env i items k fo) (\<lambda>fo1 w1. quiet b op i w1 \<and> fan_ok i items (ks @ [k]) fo1 (runs_of w1)) (\<lambda>_ _. False) w"
proof -
  have len: "length (fo_threads fo) = length items" using assms(2) by (simp add: fan_ok_def)
  let ?name = "pi_reviewer (items ! k)"
  let ?J = "\<lambda>fo1 w1. quiet b op i w1 \<and> fan_ok i items (ks @ [k]) fo1 (runs_of w1)"
  have env: "wp env_step (\<lambda>_ w1. quiet b op i w1 \<and> fan_ok i items ks fo (runs_of w1)) (\<lambda>_ _. False) w"
  proof -
    have "wp env_step (\<lambda>_ w1. fan_ok i items ks fo (runs_of w1)) (\<lambda>_ w1. fan_ok i items ks fo (runs_of w1)) w"
      by (rule wp_runs [where P = "fan_ok i items ks fo", OF keeps_env_step assms(1,2)]) (rule fan_ok_kept)
    from wp_conj [OF quiet_keeps [OF keeps_env_step assms(1)] this]
    show ?thesis by (simp add: wp_def env_step_def split: list.splits prod.splits)
  qed
  have go: "wp (case fo_threads fo ! k of
           Waiting \<Rightarrow>
             wbind (wtry (begin_reviewer env i (items ! k))) (\<lambda>r.
               wret (case r of
                       Inr (run_id, prompt) \<Rightarrow> set_thread k (Started run_id prompt) fo
                     | Inl e \<Rightarrow> collect (items ! k) (Inl e) (set_thread k Done fo)))
         | Started run_id prompt \<Rightarrow>
             wbind (wtry (end_reviewer env i (items ! k) run_id prompt)) (\<lambda>r.
               wret (collect (items ! k) r (set_thread k Done fo)))
         | Done \<Rightarrow> wret fo) ?J (\<lambda>_ _. False) v"
    if v: "quiet b op i v" "fan_ok i items ks fo (runs_of v)" for v
  proof (cases "fo_threads fo ! k")
    case Waiting
    note move = fan_ok_move [OF v(2) assms(4,3)]
    have "?J (set_thread k (Started n p) fo) v1"
      if "quiet b op i v1" "runs_kept i {?name} (runs_of v) (runs_of v1)" "run_there i ?name n (runs_of v1)" for n p v1
      using that len assms(4) Waiting by (intro conjI move [where t = "Started n p"]) (simp_all add: thread_ok_def)
    moreover have "?J (collect (items ! k) (Inl e) (set_thread k Done fo)) v1"
      if "quiet b op i v1" "runs_kept i {?name} (runs_of v) (runs_of v1)" for e v1
      using that len assms(4) Waiting collect_reports
      by (intro conjI move [where t = Done]) (simp_all add: thread_ok_def)
    ultimately show ?thesis
      unfolding Waiting review_thread.case wp_simps
      by (intro wp_conseq [OF begin_wp [OF v(1)]]) auto
  next
    case (Started n p)
    have there: "run_there i ?name n (runs_of v)"
      using v(2) assms(4) Started by (simp add: fan_ok_def thread_ok_def) (metis review_thread.case(2))
    note move = fan_ok_move [OF v(2) assms(4,3), where t = Done]
    have "?J (collect (items ! k) (Inr x) (set_thread k Done fo)) v1"
      if "quiet b op i v1" "runs_kept i {?name} (runs_of v) (runs_of v1)"
        "pi_required (items ! k) \<longrightarrow> run_succeeded i ?name (runs_of v1)" for x v1
      using that len assms(4) Started collect_reports
      by (intro conjI move) (simp_all add: thread_ok_def)
    moreover have "?J (collect (items ! k) (Inl e) (set_thread k Done fo)) v1"
      if "quiet b op i v1" "runs_kept i {?name} (runs_of v) (runs_of v1)" for e v1
      using that len assms(4) Started collect_reports
      by (intro conjI move) (simp_all add: thread_ok_def)
    ultimately show ?thesis
      unfolding Started review_thread.case wp_simps
      by (intro wp_conseq [OF end_wp [OF v(1) there]]) auto
  next
    case Done
    have "fan_ok i items (ks @ [k]) fo (runs_of v)"
      using v(2) Done by (auto simp: fan_ok_def)
    with v(1) show ?thesis unfolding Done review_thread.case wp_simps by simp
  qed
  show ?thesis
    unfolding fanout_step_def wp_if wp_wseq
    using len assms(4) by simp (rule wp_conseq [OF env], use go in auto)
qed

lemma count_list_distinct: "distinct xs \<Longrightarrow> count_list xs x = (if x \<in> set xs then 1 else 0)"
  by (induction xs) auto

lemma run_fanout_wp:
  assumes "quiet b op i w" and "distinct (map pi_reviewer items)"
  shows "wp (run_fanout env i items)
    (\<lambda>fo w1. quiet b op i w1 \<and> (fo_failures fo = [] \<longrightarrow> fo_control fo = None \<longrightarrow>
       (\<forall>p \<in> set items. pi_required p \<longrightarrow> run_succeeded i (pi_reviewer p) (runs_of w1)))) (\<lambda>_ _. False) w"
proof -
  let ?xs = "fanout_order env items"
  let ?P = "\<lambda>ks fo w1. quiet b op i w1 \<and> fan_ok i items ks fo (runs_of w1)"
  have step: "wp (fanout_step env i items k fo) (?P (ks @ [k])) (\<lambda>_ _. False) v" if "?P ks fo v" for ks k fo v
  proof (cases "k < length items")
    case True
    with that show ?thesis using fanout_step_wp assms(2) by blast
  next
    case False
    with that have "fan_ok i items (ks @ [k]) fo (runs_of v)" "length (fo_threads fo) \<le> k"
      by (auto simp: fan_ok_def)
    with that show ?thesis by (simp add: fanout_step_def wp_simps)
  qed
  have "wp (run_fanout env i items) (?P ?xs) (\<lambda>_ _. False) w"
    unfolding run_fanout_def
    by (rule wp_wfold_prefix) (use assms(1) step in \<open>auto simp: fan_ok_def thread_ok_def\<close>)
  then show ?thesis
  proof (rule wp_conseq)
    fix fo v assume v: "?P ?xs fo v"
    have "run_succeeded i (pi_reviewer p) (runs_of v)"
      if "fo_failures fo = []" "fo_control fo = None" "p \<in> set items" "pi_required p" for p
    proof -
      from that(3) obtain j where j: "j < length items" "items ! j = p" by (auto simp: in_set_conv_nth)
      have "count_list [0..<length items] j = 1"
        using j(1) by (simp add: count_list_distinct)
      then have "min 2 (count_list ?xs j) = 2"
        by (simp add: fanout_order_def)
      then have "fo_threads fo ! j = Done"
        using v j(1) by (cases "fo_threads fo ! j") (force simp: fan_ok_def)+
      with v j that show ?thesis by (auto simp: fan_ok_def thread_ok_def)
    qed
    with v show "quiet b op i v \<and> (fo_failures fo = [] \<longrightarrow> fo_control fo = None \<longrightarrow>
       (\<forall>p \<in> set items. pi_required p \<longrightarrow> run_succeeded i (pi_reviewer p) (runs_of v)))" by blast
  qed
qed

section \<open>The judge\<close>

definition after_start :: "wf_env \<Rightarrow> string \<Rightarrow> string \<Rightarrow> (string \<times> nat list) list \<Rightarrow> risk_result \<Rightarrow> nat \<Rightarrow> judge_result wf" where
  "after_start env i prompt diff_lines risk run_id =
     wseq (judge_event i ''judge_started'' ''cr_judge started'' ''info'' run_id [])
     (wseq env_step
       (case we_turn env prompt of
          Inl e \<Rightarrow>
            wseq (fail_run env i run_id (judge_output_path env) (exc_text e))
            (wseq (judge_event i ''judge_failed'' ''cr_judge failed'' ''error'' run_id [(''error'', JStr (exc_text e))])
              (wraise (Failure e)))
        | Inr r \<Rightarrow>
            wseq (finish_run env i run_id (judge_output_path env) ''missing session id or judge failed'' r)
              (if \<not> turn_ok r then
                 wseq (judge_event i ''judge_failed'' ''cr_judge failed'' ''error'' run_id
                         [(''error'', JStr ''missing session id or judge failed'')])
                   (wraise (Failure (RuntimeError ''cr_judge failed: missing session id or judge failed'')))
               else judge_result_of env i diff_lines risk run_id r)))"

lemma run_judge_eq:
  "run_judge env i outputs diff_lines risk =
     wbind (lift_r (we_prompt env ''cr_judge'' outputs)) (\<lambda>prompt.
     wbind (db_do (start_reviewer_run i ''cr_judge'' ''wf1'' 1 (Some (we_selected_model env))))
       (after_start env i prompt diff_lines risk))"
  by (simp add: run_judge_def after_start_def [abs_def])

lemma runs_judge_event [runs_intros]: "keeps (runs_inv P) (judge_event i typ msg sev n extra)"
  unfolding judge_event_def by (rule runs_event)

lemma steps_judge_event [steps_intros]: "keeps ((db_step b op)\<^sup>*\<^sup>* d0) (judge_event i typ msg sev n extra)"
  unfolding judge_event_def by (rule steps_event)

lemma runs_after_start:
  "keeps (runs_inv (\<lambda>rs. runs_kept i {x} rs0 rs \<and> run_there i x n rs)) (after_start env i prompt diff_lines risk n)"
  unfolding after_start_def by (intro keeps_intros runs_intros)

lemma after_start_success:
  assumes "quiet b op i w" and "run_there i ''cr_judge'' n (runs_of w)"
  shows "wp (after_start env i prompt diff_lines risk n) (\<lambda>_ w1. run_succeeded i ''cr_judge'' (runs_of w1)) (\<lambda>_ _. True) w"
proof (cases "we_turn env prompt")
  case (Inl e)
  have "ends Q (after_start env i prompt diff_lines risk n)" for Q
    unfolding after_start_def Inl sum.case by (intro ends_intros)
  then show ?thesis by (simp add: ends_def)
next
  case (Inr r)
  let ?A = "\<lambda>v. quiet b op i v \<and> run_there i ''cr_judge'' n (runs_of v)"
  have keep: "wp m (\<lambda>_. ?A) (\<lambda>_ _. True) v" if "?A v" "\<And>d0. keeps ((db_step b op)\<^sup>*\<^sup>* d0) m"
    "keeps (runs_inv (run_there i ''cr_judge'' n)) m" for m :: "unit wf" and v
  proof -
    have "wp m (\<lambda>_ w1. run_there i ''cr_judge'' n (runs_of w1)) (\<lambda>_ w1. run_there i ''cr_judge'' n (runs_of w1)) v"
      by (rule wp_runs [where P = "run_there i ''cr_judge'' n", OF that(3)]) (use that(1) kept_there in auto)
    from wp_conj [OF quiet_keeps [OF that(2) that(1) [THEN conjunct1]] this] show ?thesis
      by (rule wp_conseq) simp_all
  qed
  show ?thesis
  proof (cases "turn_ok r")
    case False
    have "ends Q (after_start env i prompt diff_lines risk n)" for Q
      unfolding after_start_def Inr sum.case using False by (simp, intro ends_intros)
    then show ?thesis by (simp add: ends_def)
  next
    case True
    let ?P = "run_succeeded i ''cr_judge''"
    have last: "wp (judge_result_of env i diff_lines risk n r) (\<lambda>_ w1. ?P (runs_of w1)) (\<lambda>_ _. True) v"
      if "quiet b op i v" "?P (runs_of v)" for v
      by (rule wp_conseq [OF wp_runs [where P = ?P, OF runs_judge_result that closed_succeeded]]) simp_all
    have fin: "wp (wseq (finish_run env i n (judge_output_path env) ''missing session id or judge failed'' r)
        (judge_result_of env i diff_lines risk n r)) (\<lambda>_ w1. ?P (runs_of w1)) (\<lambda>_ _. True) v" if "?A v" for v
      unfolding wp_wseq
      by (rule wp_conseq [OF finish_run_success [OF that [THEN conjunct1] that [THEN conjunct2]]]) (use True last in auto)
    have env: "wp (wseq env_step (wseq (finish_run env i n (judge_output_path env) ''missing session id or judge failed'' r)
        (judge_result_of env i diff_lines risk n r))) (\<lambda>_ w1. ?P (runs_of w1)) (\<lambda>_ _. True) v" if "?A v" for v
      unfolding wp_wseq [of env_step]
      by (rule wp_conseq [OF keep [OF that keeps_env_step keeps_env_step]]) (use fin in auto)
    show ?thesis
      unfolding after_start_def Inr sum.case wp_wseq [of "judge_event _ _ _ _ _ _"]
      by (rule wp_conseq [OF keep [OF _ steps_judge_event runs_judge_event]]) (use assms True env in auto)
  qed
qed

lemma run_judge_wp:
  assumes "quiet b op i w"
  shows "wp (run_judge env i outputs diff_lines risk)
    (\<lambda>_ w1. quiet b op i w1 \<and> runs_kept i {''cr_judge''} (runs_of w) (runs_of w1) \<and> run_succeeded i ''cr_judge'' (runs_of w1))
    (\<lambda>_ _. True) w"
proof -
  let ?A = "\<lambda>n rs. runs_kept i {''cr_judge''} (runs_of w) rs \<and> run_there i ''cr_judge'' n rs"
  have ok: "db_ok (wd_db w)" using assms by (simp add: quiet_def)
  have rest: "wp (after_start env i prompt diff_lines risk n)
      (\<lambda>_ w1. runs_kept i {''cr_judge''} (runs_of w) (runs_of w1) \<and> run_succeeded i ''cr_judge'' (runs_of w1)) (\<lambda>_ _. True) v"
    if "quiet b op i v" "?A n (runs_of v)" for v n prompt
  proof -
    have "wp (after_start env i prompt diff_lines risk n) (\<lambda>_ w1. ?A n (runs_of w1)) (\<lambda>_ w1. ?A n (runs_of w1)) v"
      by (rule wp_runs [where P = "?A n", OF runs_after_start that]) (rule closed_there)
    from wp_conj [OF this after_start_success [OF that(1) that(2) [THEN conjunct2]]] show ?thesis
      by (rule wp_conseq) auto
  qed
  have start: "quiet b op i (w\<lparr>wd_db := d\<rparr>) \<and> ?A n (db_runs d)"
    if "start_reviewer_run i ''cr_judge'' ''wf1'' 1 m (wd_now w) (wd_db w) = Inr (n, d)" for m n d
    using start_run_effect [OF that ok] assms by (auto simp: quiet_def storage_moves_def moves_keep_def)
  have "wp (run_judge env i outputs diff_lines risk)
    (\<lambda>_ w1. runs_kept i {''cr_judge''} (runs_of w) (runs_of w1) \<and> run_succeeded i ''cr_judge'' (runs_of w1)) (\<lambda>_ _. True) w"
    unfolding run_judge_eq wp_simps
    using start rest by (auto split: sum.split)
  from wp_conj [OF quiet_keeps [OF steps_judge assms] this] show ?thesis
    by (rule wp_conseq) auto
qed

section \<open>The gate\<close>

definition all_succeeded :: "string \<Rightarrow> plan_item list \<Rightarrow> runs \<Rightarrow> bool" where
  "all_succeeded i plan rs \<longleftrightarrow> list_all (\<lambda>p. pi_required p \<longrightarrow> run_succeeded i (pi_reviewer p) rs) plan"

lemma kept_all_succeeded:
  "all_succeeded i plan a \<Longrightarrow> runs_kept i K a c \<Longrightarrow> list_all (\<lambda>p. pi_reviewer p \<notin> K) plan \<Longrightarrow> all_succeeded i plan c"
  using kept_succeeded by (auto simp: all_succeeded_def list_all_iff)

text \<open>What comes after a statement that works by storage operations.\<close>

lemma quiet_then:
  assumes "\<And>d0. keeps ((db_step b op)\<^sup>*\<^sup>* d0) m" and "quiet b op i w"
    and "\<And>x v. quiet b op i v \<Longrightarrow> wp (f x) Q (\<lambda>_ _. True) v"
  shows "wp (wbind m f) Q (\<lambda>_ _. True) w"
  unfolding wp_wbind by (rule wp_conseq [OF quiet_keeps [OF assms(1,2)]]) (simp_all add: assms(3))

lemma quiet_then_seq:
  assumes "\<And>d0. keeps ((db_step b op)\<^sup>*\<^sup>* d0) m" and "quiet b op i w"
    and "\<And>v. quiet b op i v \<Longrightarrow> wp n Q (\<lambda>_ _. True) v"
  shows "wp (wseq m n) Q (\<lambda>_ _. True) w"
  unfolding wseq_def using assms by (rule quiet_then)

abbreviation reviewed :: "string \<Rightarrow> plan_item list \<Rightarrow> world \<Rightarrow> bool" where
  "reviewed i plan w \<equiv> all_succeeded i plan (runs_of w) \<and> run_succeeded i ''cr_judge'' (runs_of w)"

lemma outcome_wp:
  assumes "quiet b op i w" and "reviewed i plan w"
  shows "wp (review_outcome env i jr) (\<lambda>_. reviewed i plan) (\<lambda>_ _. True) w"
  by (rule wp_conseq [OF wp_runs [where P = "\<lambda>rs. all_succeeded i plan rs \<and> run_succeeded i ''cr_judge'' rs",
        OF runs_review_outcome assms]])
    (auto intro: closed_succeeded kept_all_succeeded simp: list_all_iff)

lemma judge_wp:
  assumes "quiet b op i w" and "all_succeeded i plan (runs_of w)" and "list_all (\<lambda>p. pi_reviewer p \<noteq> ''cr_judge'') plan"
  shows "wp (wbind (run_judge env i outs diff_lines risk) (review_outcome env i)) (\<lambda>_. reviewed i plan) (\<lambda>_ _. True) w"
  unfolding wp_wbind
proof (rule wp_conseq [OF run_judge_wp [OF assms(1)]])
  fix jr v assume v: "quiet b op i v \<and> runs_kept i {''cr_judge''} (runs_of w) (runs_of v) \<and> run_succeeded i ''cr_judge'' (runs_of v)"
  with assms(3) have "all_succeeded i plan (runs_of v)"
    using kept_all_succeeded [OF assms(2), of "{''cr_judge''}"] by (simp add: list_all_iff)
  with v show "wp (review_outcome env i jr) (\<lambda>_. reviewed i plan) (\<lambda>_ _. True) v"
    using outcome_wp by blast
qed simp

lemma event_quiet:
  assumes "quiet b op i w" and "insert_event tk ty sev stg msg payload (wd_now w) (wd_db w) = Inr d"
  shows "quiet b op i (w\<lparr>wd_db := d\<rparr>)" and "runs_of (w\<lparr>wd_db := d\<rparr>) = runs_of w"
  using insert_event_runs [OF assms(2)] insert_event_ok [OF assms(2)] assms(1)
  by (auto simp: quiet_def storage_moves_def moves_keep_def)

lemma reviewers_wp:
  assumes "quiet b op i w" and "distinct (map pi_reviewer plan)" and "list_all (\<lambda>p. pi_reviewer p \<noteq> ''cr_judge'') plan"
  shows "wp (run_reviewers_and_judge env i diff_lines risk plan) (\<lambda>_. reviewed i plan) (\<lambda>_ _. True) w"
proof -
  let ?items = "map (\<lambda>p. p\<lparr>pi_reason := (if pi_reason p \<noteq> [] then pi_reason p else ''reviewer'')\<rparr>) plan"
  let ?good = "\<lambda>fo v. quiet b op i v \<and> (fo_failures fo = [] \<longrightarrow> fo_control fo = None \<longrightarrow> all_succeeded i plan (runs_of v))"
  have fan: "wp (run_fanout env i ?items) ?good (\<lambda>_ _. True) v" if "quiet b op i v" for v
    by (rule wp_conseq [OF run_fanout_wp [OF that]])
      (use assms(2) in \<open>auto simp: all_succeeded_def list_all_iff o_def\<close>)
  have rest: "wp (wseq (case fo_control fo of None \<Rightarrow> wret () | Some (action, reason) \<Rightarrow> wraise (Control action reason))
               (wseq (raise_if_control i)
               (if fo_failures fo \<noteq> [] then wraise (Failure x)
                else wseq (wf_event i ty msg stg sev payload)
                  (wbind (run_judge env i outs diff_lines risk) (review_outcome env i)))))
      (\<lambda>_. reviewed i plan) (\<lambda>_ _. True) v"
    if good: "?good fo v" for fo v x ty msg stg sev payload outs
  proof (cases "fo_control fo = None \<and> fo_failures fo = []")
    case True
    with good have v: "quiet b op i v" "all_succeeded i plan (runs_of v)" by simp_all
    have "wp (wbind (run_judge env i outs diff_lines risk) (review_outcome env i)) (\<lambda>_. reviewed i plan) (\<lambda>_ _. True) (v\<lparr>wd_db := d\<rparr>)"
      if "insert_event (Some i) ty sev (Some stg) msg payload (wd_now v) (wd_db v) = Inr d" for d
      using judge_wp [OF event_quiet(1) [OF v(1) that] _ assms(3)] v(2) event_quiet(2) [OF v(1) that] by simp
    then show ?thesis
      using True by (simp add: wp_wseq wp_control wp_wret wp_event split: option.split sum.split)
  next
    case False
    then show ?thesis
      by (auto simp: wp_wseq wp_control wp_wret wp_wraise split: option.split)
  qed
  have all: "wp (wseq (wf_event i ty msg stg sev payload) (wbind (run_fanout env i ?items) f)) (\<lambda>_. reviewed i plan) (\<lambda>_ _. True) w"
    if "\<And>fo v. ?good fo v \<Longrightarrow> wp (f fo) (\<lambda>_. reviewed i plan) (\<lambda>_ _. True) v" for ty msg stg sev payload f
    by (rule quiet_then_seq [OF steps_event assms(1)], unfold wp_wbind, rule wp_conseq [OF fan]) (use that in auto)
  show ?thesis
  proof (cases "filter pi_required plan = []")
    case True
    then show ?thesis
      by (simp only: run_reviewers_and_judge_def simp_thms if_True) (auto simp: wp_wseq wp_control wp_wraise split: option.split)
  next
    case False
    have "run_reviewers_and_judge env i diff_lines risk plan = wseq (raise_if_control i)
        (wseq (wf_event i ty msg stg sev payload) (wbind (run_fanout env i ?items) f))
      \<Longrightarrow> (\<And>fo v. ?good fo v \<Longrightarrow> wp (f fo) (\<lambda>_. reviewed i plan) (\<lambda>_ _. True) v) \<Longrightarrow> ?thesis" for ty msg stg sev payload f
      using all [of f] by (simp add: wp_wseq [of "raise_if_control i"] wp_control split: option.split)
    then show ?thesis
      unfolding run_reviewers_and_judge_def Let_def if_not_P [OF False] by this (rule refl, rule rest)
  qed
qed

lemma plan_names:
  "distinct (map pi_reviewer (plan_reviewers (classify_risk fs n t)))
   \<and> list_all (\<lambda>p. pi_reviewer p \<noteq> ''cr_judge'') (plan_reviewers (classify_risk fs n t))"
  by (auto simp: plan_reviewers_def classify_simps FULL_CI_REVIEWERS_def)

lemma prepared_risk:
  "\<exists>fs n t. pc_risk (prepare_context gd gn gdo m i dr) = classify_risk fs n t
     \<and> pc_plan (prepare_context gd gn gdo m i dr) = plan_reviewers (classify_risk fs n t)"
  by (auto simp: prepare_context_def Let_def split: prod.split)

text \<open>The gate a task has, and the evidence there is for a passed one.\<close>

definition gate_passed :: "string \<Rightarrow> db \<Rightarrow> bool" where
  "gate_passed i d \<longleftrightarrow> (case get_task i d of None \<Rightarrow> False | Some t \<Rightarrow> tk_gate t = Some ''passed'')"

definition review_done :: "string \<Rightarrow> prepared_context \<Rightarrow> runs \<Rightarrow> bool" where
  "review_done i p rs \<longleftrightarrow> prepare_review_guard (pc_risk p) = Guard_Review \<and> all_succeeded i (pc_plan p) rs
     \<and> run_succeeded i ''cr_judge'' rs"

abbreviation passed_only :: "string \<Rightarrow> prepared_context \<Rightarrow> world \<Rightarrow> bool" where
  "passed_only i p w \<equiv> gate_passed i (wd_db w) \<longrightarrow> review_done i p (runs_of w)"

lemma other_gate:
  assumes "update_task_outcome i s g u e now d = Inr d1" and "g \<noteq> ''passed''"
  shows "\<not> gate_passed i d1"
  using outcome_get [OF assms(1)] assms(2) by (auto simp: gate_passed_def outcome_row_def)

lemma ends_other_gate: "g \<noteq> ''passed'' \<Longrightarrow> ends (\<lambda>_ w. \<not> gate_passed i (wd_db w)) (outcome i s g u e)"
  unfolding outcome_def by (rule ends_db_set) (simp add: other_gate)

lemma steps_plans [steps_intros]: "keeps ((db_step b op)\<^sup>*\<^sup>* d0) (write_plans i risk plan)"
  unfolding write_plans_def by (intro keeps_intros keeps_steps_set step_plan)

lemma prepared_wp:
  assumes "quiet b op i w" and "p = prepare_context gd gn gdo m i dr"
  shows "wp (review_prepared env i p) (\<lambda>_. passed_only i p) (\<lambda>_ _. True) w"
  unfolding review_prepared_def
proof (rule quiet_then_seq [OF steps_control assms(1)], rule quiet_then_seq [OF steps_plans])
  fix v assume v: "quiet b op i v"
  have other: "ends (\<lambda>_ w. \<not> gate_passed i (wd_db w)) c \<Longrightarrow> wp c (\<lambda>_. passed_only i p) (\<lambda>_ _. True) v" for c
    unfolding ends_def by (erule allE [of _ v], erule wp_conseq) simp_all
  have plan: "distinct (map pi_reviewer (pc_plan p))" "list_all (\<lambda>q. pi_reviewer q \<noteq> ''cr_judge'') (pc_plan p)"
    using prepared_risk [of gd gn gdo m i dr] plan_names unfolding assms(2) by metis+
  show "wp (case prepare_review_guard (pc_risk p) of
           Guard_Skipped \<Rightarrow> skip_outcome env i (pc_risk p)
         | Guard_Fail \<Rightarrow> outcome i TFailed ''context_too_large'' None (Some ''context_too_large'')
         | Guard_Review \<Rightarrow> run_reviewers_and_judge env i (pc_changed_lines p) (pc_risk p) (pc_plan p))
      (\<lambda>_. passed_only i p) (\<lambda>_ _. True) v"
  proof (cases "prepare_review_guard (pc_risk p)")
    case Guard_Review
    then show ?thesis
      by (simp add: review_done_def) (rule wp_conseq [OF reviewers_wp [OF v plan]], simp_all)
  next
    case Guard_Skipped
    have "ends (\<lambda>_ w. \<not> gate_passed i (wd_db w)) (skip_outcome env i (pc_risk p))"
      unfolding skip_outcome_def Let_def by (intro ends_intros ends_other_gate) simp
    with Guard_Skipped show ?thesis by (simp add: other)
  next
    case Guard_Fail
    then show ?thesis by (simp) (intro other ends_other_gate, simp)
  qed
qed

text \<open>The contexts a run may review: those prepared from what git answers.\<close>

definition git_context :: "wf_env \<Rightarrow> string \<Rightarrow> prepared_context \<Rightarrow> bool" where
  "git_context env i p \<longleftrightarrow> (\<exists>repo diff_range git_diff git_names git_diff_of.
     we_git_diffs env repo diff_range = Inr (git_diff, git_names, git_diff_of)
     \<and> p = prepare_context git_diff git_names git_diff_of (we_max_diff_bytes env) i diff_range)"

abbreviation passed_reviewed :: "wf_env \<Rightarrow> string \<Rightarrow> world \<Rightarrow> bool" where
  "passed_reviewed env i w \<equiv> gate_passed i (wd_db w) \<longrightarrow> (\<exists>p. git_context env i p \<and> review_done i p (runs_of w))"

lemma body_wp:
  assumes "quiet b op i w"
  shows "wp (run_body env i task) (\<lambda>_. passed_reviewed env i) (\<lambda>_ _. True) w"
proof -
  have commit: "keeps ((db_step b op)\<^sup>*\<^sup>* d0) (if c then db_set (update_task_commit_id i commit) else wret ())" for c :: bool and commit d0
    by (intro keeps_intros keeps_steps_set step_commit)
  have prep: "wp (wbind (prepare_wf env i repo dr) (review_prepared env i)) (\<lambda>_. passed_reviewed env i) (\<lambda>_ _. True) v"
    if v: "quiet b op i v" for repo dr v
  proof (cases "we_git_diffs env repo dr")
    case (Inl e)
    have "wp env_step (\<lambda>_ _. True) (\<lambda>_ _. True) v" by (rule wp_true)
    then show ?thesis by (simp add: prepare_wf_def wp_simps(3) wp_external Inl)
  next
    case (Inr x)
    obtain gd gn gdo where x: "x = (gd, gn, gdo)" by (cases x)
    let ?p = "prepare_context gd gn gdo (we_max_diff_bytes env) i dr"
    have git: "git_context env i ?p" using Inr x unfolding git_context_def by blast
    have "wp (review_prepared env i ?p) (\<lambda>_. passed_reviewed env i) (\<lambda>_ _. True) u" if "quiet b op i u" for u
      by (rule wp_conseq [OF prepared_wp [OF that refl]]) (use git in auto)
    then have "wp (wseq env_step (review_prepared env i ?p)) (\<lambda>_. passed_reviewed env i) (\<lambda>_ _. True) v"
      by (rule quiet_then_seq [OF keeps_env_step v])
    then show ?thesis
      by (simp add: prepare_wf_def wp_wbind wp_wseq wp_external wp_wret Inr x)
  qed
  show ?thesis
    unfolding run_body_def
    by (rule quiet_then_seq [OF steps_control assms], rule quiet_then [OF keeps_external], assumption,
        rule quiet_then [OF keeps_external], assumption, rule quiet_then_seq [OF commit], assumption,
        rule quiet_then_seq [OF steps_control], assumption, rule quiet_then [OF steps_context], assumption, rule prep)
qed

lemma handler_other_gate:
  assumes "handle_exc i e v = (Inr (), w1)" and "task_known (wd_db v) i"
  shows "\<not> gate_passed i (wd_db w1)"
proof -
  from assms(2) obtain t where t: "get_task i (wd_db v) = Some t" by (auto simp: get_task_known)
  show ?thesis
  proof (cases e)
    case (Control a r)
    show ?thesis
    proof (cases a)
      case Stop_Task
      with assms(1) stopped_effect [OF t, of "Some r" "wd_now v"] show ?thesis
        by (auto simp: handle_exc_def Control db_set_def db_do_def unit_r_def gate_passed_def cancel_row_def)
    next
      case Cancel_Task
      with assms(1) cancel_effect [OF t, of "Some r" "wd_now v"] show ?thesis
        by (auto simp: handle_exc_def Control db_set_def db_do_def unit_r_def gate_passed_def cancel_row_def)
    qed
  next
    case (Failure x)
    with assms(1) show ?thesis
      by (auto simp: handle_exc_def outcome_def db_set_def db_do_def unit_r_def bind_r_Inr other_gate split: sum.splits prod.splits)
  qed
qed

text \<open>C1: when a run leaves the gate passed, while other processes work by storage operations and leave the
  runs of this task alone, then the guard let the diff git answered be reviewed (neither skipped nor
  cut), every required reviewer of its plan has a successful run, and so has the judge.\<close>

theorem gate_passed_means_reviewed:
  assumes "workflow_run env i w = (Inr (), w1)" and "quiet budget operator i w" and "gate_passed i (wd_db w1)"
  shows "\<exists>p. git_context env i p \<and> review_done i p (db_runs (wd_db w1))"
proof -
  obtain t where t: "get_task i (wd_db w) = Some t"
    using assms(1) by (cases "get_task i (wd_db w)") (auto simp: workflow_run_def wbind_def db_get_def wraise_def)
  then have k: "task_known (wd_db w) i" by (simp add: get_task_known)
  have "wp (run_body env i t) (\<lambda>_. passed_reviewed env i) (\<lambda>_ v. task_known (wd_db v) i) w"
    by (rule wp_conseq [OF wp_conj [OF body_wp [OF assms(2)]
          wp_keeps [OF steps_body settled_steps, of budget operator w env i t]]])
      (use assms(2) steps_keep_known [OF _ _ k] in \<open>auto simp: quiet_def settled_def\<close>)
  moreover have "wcatch (run_body env i t) (handle_exc i) w = (Inr (), w1)"
    using assms(1) t by (simp add: workflow_run_def wbind_def db_get_def)
  ultimately show ?thesis
    using assms(3) handler_other_gate
    by (cases "run_body env i t w") (fastforce simp: wp_def wcatch_def split: sum.splits)
qed

section \<open>Witness\<close>

text \<open>The run of the sample, statement by statement; each world is what one statement leaves.\<close>

lemma run_bind: "fst (m w) = Inr x \<Longrightarrow> wbind m f w = f x (snd (m w))"
  by (cases "m w") (simp add: wbind_def)

lemma run_seq: "fst (m w) = Inr () \<Longrightarrow> wseq m n w = n (snd (m w))"
  unfolding wseq_def by (rule run_bind)

lemma run_control: "requested_control i (wd_db w) = None \<Longrightarrow> wseq (raise_if_control i) n w = n w"
  by (simp add: wseq_def raise_if_control_def wbind_def db_get_def wret_def)

lemma run_external: "wd_moves w = [] \<Longrightarrow> wbind (external (Inr x)) f w = f x w"
  by (simp add: external_def wseq_def wbind_def env_step_def lift_r_def)

definition sample_light :: risk_result where
  "sample_light = \<lparr>rk_tier = Tier_Light, rk_reasons = [''small production diff''], rk_specialists = [], rk_context_too_large = False\<rparr>"

definition sample_prepared :: prepared_context where
  "sample_prepared = prepare_context (fst sample_diffs) (fst (snd sample_diffs)) (snd (snd sample_diffs)) 1000 ''t2'' ''HEAD~1..HEAD''"

lemma sample_files: "nonblank_lines ''a.py'' = [''a.py'']"
  by (simp add: nonblank_lines_def splitlines_def is_line_break_def py_strip_def lstrip_by_def rstrip_by_def py_isspace_def)

lemma sample_text: "write_text (fst sample_diffs) 1000 = (fst sample_diffs, False)"
  by (simp add: sample_diffs_def write_text_def)

lemma sample_summary:
  "cf_production (file_summary (changed_lines (fst sample_diffs)) ''a.py'')"
  "cf_changed_lines (file_summary (changed_lines (fst sample_diffs)) ''a.py'') = 1"
  "specialists_for_paths [''a.py''] = []"
  by code_simp+

lemma sample_path: "cf_path (file_summary (changed_lines (fst sample_diffs)) ''a.py'') = ''a.py''"
  by (simp add: file_summary_def Let_def)

lemma sample_risk:
  "classify_risk [file_summary (changed_lines (fst sample_diffs)) ''a.py''] (length (fst sample_diffs)) False = sample_light"
  by (simp add: classify_risk_def sample_summary sample_path sample_light_def) (simp add: sample_diffs_def)

lemma sample_prepared_risk:
  "pc_risk sample_prepared = sample_light" "pc_plan sample_prepared = plan_reviewers sample_light"
  "pc_changed_lines sample_prepared = changed_lines (fst sample_diffs)"
  using sample_summary(1) sample_risk sample_text sample_files sample_path
  by (simp_all add: sample_prepared_def prepare_context_def Let_def) (simp_all add: sample_diffs_def)

definition sample_items :: "plan_item list" where
  "sample_items = [\<lparr>pi_reviewer = ''correctness_light'', pi_required = True, pi_reason = ''light production diff''\<rparr>]"

lemma sample_plan: "plan_reviewers sample_light = sample_items"
  by (simp add: plan_reviewers_def sample_light_def sample_items_def)

definition sample_commit :: "unit wf" where
  "sample_commit = db_set (update_task_commit_id ''t2'' ''c1'')"

definition sample_w1 :: world where
  "sample_w1 = snd (sample_commit sample_world)"

definition sample_w2 :: world where
  "sample_w2 = snd (collect_review_context sample_env ''t2'' ''/repo'' sample_w1)"

definition sample_w3 :: world where
  "sample_w3 = snd (write_plans ''t2'' sample_light sample_items sample_w2)"

definition sample_fanout_started :: "unit wf" where
  "sample_fanout_started = wf_event ''t2'' ''reviewer_fanout_started'' (''light'' @ '' review fanout started'') ''reviewer_fanout'' ''info''
     [(''risk_tier'', JStr ''light''), (''reviewers'', JArr [JStr ''correctness_light'']), (''concurrency'', JInt 1)]"

definition sample_w4 :: world where
  "sample_w4 = snd (sample_fanout_started sample_w3)"

definition sample_w5 :: world where
  "sample_w5 = snd (run_fanout sample_env ''t2'' sample_items sample_w4)"

definition sample_out :: fanout where
  "sample_out = projr (fst (run_fanout sample_env ''t2'' sample_items sample_w4))"

definition sample_fanout_completed :: "unit wf" where
  "sample_fanout_completed = wf_event ''t2'' ''reviewer_fanout_completed'' (''light'' @ '' review fanout completed'') ''reviewer_fanout'' ''info''
     [(''risk_tier'', JStr ''light''), (''outputs'', JInt (int 1))]"

definition sample_w6 :: world where
  "sample_w6 = snd (sample_fanout_completed sample_w5)"

definition sample_judge :: "judge_result wf" where
  "sample_judge = run_judge sample_env ''t2'' (fo_outputs sample_out) (changed_lines (fst sample_diffs)) sample_light"

definition sample_end :: "unit wf" where
  "sample_end = review_outcome sample_env ''t2'' (projr (fst (sample_judge sample_w6)))"

definition sample_w7 :: world where
  "sample_w7 = snd (sample_judge sample_w6)"

lemma sample_moves: "wd_moves sample_w1 = [] \<and> wd_moves sample_w2 = []"
  by code_simp

lemma sample_controls:
  "requested_control ''t2'' (wd_db sample_world) = None" "requested_control ''t2'' (wd_db sample_w1) = None"
  "requested_control ''t2'' (wd_db sample_w2) = None" "requested_control ''t2'' (wd_db sample_w3) = None"
  "requested_control ''t2'' (wd_db sample_w5) = None"
  by code_simp+

lemma sample_statements:
  "fst (sample_commit sample_world) = Inr ()"
  "fst (collect_review_context sample_env ''t2'' ''/repo'' sample_w1) = Inr []"
  "fst (write_plans ''t2'' sample_light sample_items sample_w2) = Inr ()"
  "fst (sample_fanout_started sample_w3) = Inr ()"
  "\<not> isl (fst (run_fanout sample_env ''t2'' sample_items sample_w4))"
  "fo_control sample_out = None" "fo_failures sample_out = []" "length (fo_outputs sample_out) = 1"
  "fst (sample_fanout_completed sample_w5) = Inr ()"
  by code_simp+

lemma sample_judge_ok: "\<not> isl (fst (sample_judge sample_w6))"
  by code_simp

lemma sample_ended: "fst (sample_end sample_w7) = Inr ()"
  by code_simp

lemma sample_passed: "gate_passed ''t2'' (wd_db (snd (sample_end sample_w7)))"
  by code_simp

lemma sample_guard: "prepare_review_guard sample_light = Guard_Review"
  by (simp add: prepare_review_guard_def sample_light_def)

lemma sample_reviewers:
  "run_reviewers_and_judge sample_env ''t2'' (changed_lines (fst sample_diffs)) sample_light sample_items sample_w3
     = sample_end sample_w7"
proof -
  have items: "map (\<lambda>p. p\<lparr>pi_reason := (if pi_reason p \<noteq> [] then pi_reason p else ''reviewer'')\<rparr>) sample_items = sample_items"
    "filter pi_required sample_items \<noteq> []" "map (\<lambda>p. JStr (pi_reviewer p)) sample_items = [JStr ''correctness_light'']"
    by (simp_all add: sample_items_def)
  have tier: "tier_text (rk_tier sample_light) = ''light''" by (simp add: sample_light_def)
  have workers: "max 1 (min (int (length sample_items)) (if we_concurrency sample_env = 0 then 1 else we_concurrency sample_env)) = 1"
    by (simp add: sample_env_def sample_items_def)
  have out: "fst (run_fanout sample_env ''t2'' sample_items sample_w4) = Inr sample_out"
    using sample_statements(5) by (simp add: sample_out_def)
  have judged: "fst (sample_judge sample_w6) = Inr (projr (fst (sample_judge sample_w6)))"
    using sample_judge_ok by simp
  have none: "wseq (wret ()) n w = n w" for n :: "unit wf" and w by (simp add: run_seq wret_def)
  show ?thesis
    unfolding run_reviewers_and_judge_def Let_def items tier workers run_control [OF sample_controls(4)] if_not_P [OF items(2)]
      sample_fanout_started_def [symmetric] run_seq [of sample_fanout_started, OF sample_statements(4)] sample_w4_def [symmetric]
      run_bind [of "run_fanout sample_env ''t2'' sample_items", OF out] sample_w5_def [symmetric]
      sample_statements(6,7,8) option.case none run_control [OF sample_controls(5)]
      sample_fanout_completed_def [symmetric] simp_thms if_False run_seq [of sample_fanout_completed, OF sample_statements(9)] sample_w6_def [symmetric]
      sample_judge_def [symmetric] run_bind [of sample_judge, OF judged] sample_w7_def [symmetric] sample_end_def [symmetric]
    by (rule TrueI)
qed

lemma sample_body: "run_body sample_env ''t2'' sample_claimed sample_world = sample_end sample_w7"
proof -
  have commit: "text_or (tk_commit_id sample_claimed) [] \<noteq> ''c1''" by code_simp
  have range: "py_str (py_or (dget [] ''diff_range'') (JStr ''HEAD~1..HEAD'')) = ''HEAD~1..HEAD''" by code_simp
  have prepared: "wbind (prepare_wf sample_env ''t2'' repo ''HEAD~1..HEAD'') f sample_w2 = f sample_prepared sample_w2" for repo f
    using sample_moves
    by (simp add: prepare_wf_def sample_env_def external_def wseq_def wbind_def env_step_def lift_r_def wret_def sample_prepared_def
        sample_diffs_def)
  have env: "we_prepare_repo sample_env t = Inr ''/repo''" "we_current_commit sample_env r = Inr ''c1''" for t r
    by (simp_all add: sample_env_def)
  show ?thesis
    unfolding run_body_def run_control [OF sample_controls(1)] env run_external [OF sample_world_simps(2)]
    by (simp only: if_P [OF commit [symmetric]] sample_commit_def [symmetric] run_seq [of sample_commit, OF sample_statements(1)] sample_w1_def [symmetric]
        run_control [OF sample_controls(2)] run_bind [of "collect_review_context sample_env ''t2'' ''/repo''", OF sample_statements(2)] sample_w2_def [symmetric] range prepared
        review_prepared_def run_control [OF sample_controls(3)] sample_prepared_risk sample_guard guard_outcome.case
        run_seq [of "write_plans ''t2'' sample_light sample_items", OF sample_statements(3)] sample_w3_def [symmetric] sample_plan sample_reviewers)
qed

lemma sample_run: "workflow_run sample_env ''t2'' sample_world = (Inr (), snd (sample_end sample_w7))"
proof -
  have "sample_end sample_w7 = (Inr (), snd (sample_end sample_w7))"
    using sample_ended by (cases "sample_end sample_w7") simp
  then show ?thesis
    by (cases "sample_end sample_w7") (simp add: workflow_run_def wbind_def db_get_def sample_get wcatch_def sample_body)
qed

theorem gate_passed_means_reviewed_witness:
  "\<exists>p. git_context sample_env ''t2'' p \<and> review_done ''t2'' p (db_runs (wd_db (snd (sample_end sample_w7))))"
proof -
  have "quiet 3 False ''t2'' sample_world"
    using sample_world_quiet [of 3 False] by (simp add: quiet_def sample_ok moves_keep_def)
  from gate_passed_means_reviewed [OF sample_run this sample_passed] show ?thesis .
qed

end
