(* ===== verification/System.thy ===== *)
theory System
  imports Workflow_Gate
begin

text \<open>
  The daemon with the review workflow as the program it runs: one turn of the loop, from the
  synchronisation of patterns to the end of the claimed task, among the moves of the other processes.
\<close>

definition system_tick ::
  "daemon_config \<Rightarrow> wf_env \<Rightarrow> (db \<Rightarrow> json_dict py_result) \<Rightarrow> (callback_payload \<Rightarrow> json list py_result)
     \<Rightarrow> (callback_payload \<Rightarrow> string) \<Rightarrow> string \<Rightarrow> nat \<Rightarrow> string option \<Rightarrow> string option wf" where
  "system_tick cfg env sync send digest = daemon_tick cfg sync send digest (workflow_run env)"

section \<open>The turn works by storage operations\<close>

lemma keeps_own: "(\<And>now d x d1. f now d = Inr (x, d1) \<Longrightarrow> I d \<Longrightarrow> I d1) \<Longrightarrow> keeps I (own f)"
  unfolding own_def by (intro keeps_intros keeps_db_do)

lemma keeps_own_read [keeps_intros]: "keeps I (own_read f)"
  unfolding own_read_def by (rule keeps_own) simp

lemma steps_own:
  "(\<And>now d x d1. f now d = Inr (x, d1) \<Longrightarrow> db_step b op d d1) \<Longrightarrow> keeps ((db_step b op)\<^sup>*\<^sup>* d0) (own f)"
  by (rule keeps_own) (blast intro: rtranclp.rtrancl_into_rtrancl)

lemma steps_own_set:
  "(\<And>now d d1. f now d = Inr d1 \<Longrightarrow> db_step b op d d1) \<Longrightarrow> keeps ((db_step b op)\<^sup>*\<^sup>* d0) (own_set f)"
  unfolding own_set_def by (rule steps_own) (auto simp: unit_r_def bind_r_Inr)

lemma steps_own_event [steps_intros]: "keeps ((db_step b op)\<^sup>*\<^sup>* d0) (own_set (insert_event tk typ sev stage msg payload))"
  by (rule steps_own_set) (rule step_event)

lemma steps_own_beat [steps_intros]: "keeps ((db_step b op)\<^sup>*\<^sup>* d0) (own_set (beat cfg tk s m))"
  by (rule steps_own_set) (auto simp: beat_def intro: step_heartbeat)

lemma steps_own_callback [steps_intros]:
  "keeps ((db_step b op)\<^sup>*\<^sup>* d0) (own_set (\<lambda>now d. Inr (set_callback_state i st a n e g h now d)))"
  by (rule steps_own_set) (auto intro: step_callback)

lemma steps_failure [steps_intros]: "keeps ((db_step b op)\<^sup>*\<^sup>* d0) (record_callback_failure cfg t e)"
  unfolding record_callback_failure_def Let_def by (intro keeps_intros steps_intros)

lemma steps_send [steps_intros]: "keeps ((db_step b op)\<^sup>*\<^sup>* d0) (send_callback cfg send dg i)"
  unfolding send_callback_def Let_def by (intro keeps_intros steps_intros)

lemma steps_retry [steps_intros]: "keeps ((db_step b op)\<^sup>*\<^sup>* d0) (retry_callbacks cfg send dg)"
  unfolding retry_callbacks_def retry_step_def by (intro keeps_intros steps_intros)

lemma steps_pattern_sync [steps_intros]: "keeps ((db_step b op)\<^sup>*\<^sup>* d0) (run_pattern_sync cfg sync)"
  unfolding run_pattern_sync_def by (intro keeps_intros steps_intros)

lemma steps_maybe_sync [steps_intros]: "keeps ((db_step b op)\<^sup>*\<^sup>* d0) (maybe_sync_feedback_patterns cfg sync date minute l)"
  unfolding maybe_sync_feedback_patterns_def by (intro keeps_intros steps_intros)

lemma steps_recover [steps_intros]: "keeps ((db_step (dc_max_task_attempts cfg) op)\<^sup>*\<^sup>* d0) (daemon_recover_stale cfg)"
  unfolding daemon_recover_stale_def by (intro keeps_intros steps_intros steps_own step_recover)

lemma steps_start_turn:
  "keeps ((db_step (dc_max_task_attempts cfg) op)\<^sup>*\<^sup>* d0) (turn_start cfg sync send dg date minute l)"
  unfolding turn_start_def by (intro keeps_intros steps_intros)

lemma steps_once: "keeps ((db_step b op)\<^sup>*\<^sup>* d0) (daemon_once cfg (workflow_run env))"
  unfolding daemon_once_def by (intro keeps_intros steps_intros steps_own steps_run step_claim)

section \<open>The turn ends normally\<close>

text \<open>\<open>stands b op K w\<close>: the database of the world is well formed and knows the tasks \<open>K\<close>, and the others move by
  storage operations. \<open>sure b op K m\<close>: from such a world \<open>m\<close> ends normally, in such a world.\<close>

definition stands :: "nat \<Rightarrow> bool \<Rightarrow> string set \<Rightarrow> world \<Rightarrow> bool" where
  "stands b op K w \<longleftrightarrow> storage_moves b op w \<and> db_ok (wd_db w) \<and> K \<subseteq> tk_id ` set (db_tasks (wd_db w))"

definition sure :: "nat \<Rightarrow> bool \<Rightarrow> string set \<Rightarrow> 'a wf \<Rightarrow> bool" where
  "sure b op K m \<longleftrightarrow> (\<forall>w. stands b op K w \<longrightarrow> wp m (\<lambda>_. stands b op K) (\<lambda>_ _. False) w)"

lemma sureI: "(\<And>w. stands b op K w \<Longrightarrow> wp m (\<lambda>_. stands b op K) (\<lambda>_ _. False) w) \<Longrightarrow> sure b op K m"
  by (simp add: sure_def)

lemma sureD: "sure b op K m \<Longrightarrow> stands b op K w \<Longrightarrow> wp m (\<lambda>_. stands b op K) (\<lambda>_ _. False) w"
  by (simp add: sure_def)

lemma steps_stand:
  assumes "stands b op K w" and "(db_step b op)\<^sup>*\<^sup>* (wd_db w) (wd_db w1)" and "set (wd_moves w1) \<subseteq> set (wd_moves w)"
  shows "stands b op K w1"
  using assms steps_keep_known [OF assms(2)] store.steps_inv [OF assms(2)]
  by (auto simp: stands_def storage_moves_def dest: moves_keep_suffix)

lemma keeps_stand:
  assumes "keeps ((db_step b op)\<^sup>*\<^sup>* (wd_db w)) m" and "stands b op K w"
  shows "wp m (\<lambda>_. stands b op K) (\<lambda>_. stands b op K) w"
proof -
  have s: "storage_moves b op w" using assms(2) by (simp add: stands_def)
  show ?thesis
    by (rule wp_conseq [OF wp_keeps [OF assms(1) settled_steps [OF s]]])
      (auto simp: settled_def intro: steps_stand [OF assms(2)])
qed

lemma sure_keeps:
  assumes "\<And>d0. keeps ((db_step b op)\<^sup>*\<^sup>* d0) m" and "\<And>w. stands b op K w \<Longrightarrow> wp m (\<lambda>_ _. True) (\<lambda>_ _. False) w"
  shows "sure b op K m"
proof (rule sureI)
  fix w assume w: "stands b op K w"
  show "wp m (\<lambda>_. stands b op K) (\<lambda>_ _. False) w"
    by (rule wp_conseq [OF wp_conj [OF keeps_stand [OF assms(1) w] assms(2) [OF w]]]) simp_all
qed

named_theorems sure_intros \<open>statements of the daemon that end normally\<close>

lemma sure_wret [sure_intros]: "sure b op K (wret x)"
  by (simp add: sure_def wp_simps)

lemma sure_wbind [sure_intros]: "sure b op K m \<Longrightarrow> (\<And>x. sure b op K (f x)) \<Longrightarrow> sure b op K (wbind m f)"
  unfolding sure_def wp_wbind by (auto elim!: wp_conseq)

lemma sure_wseq [sure_intros]: "sure b op K m \<Longrightarrow> sure b op K n \<Longrightarrow> sure b op K (wseq m n)"
  unfolding wseq_def by (rule sure_wbind)

lemma sure_wfold [sure_intros]: "(\<And>x s. sure b op K (f x s)) \<Longrightarrow> sure b op K (wfold f xs s)"
  by (induction xs arbitrary: s) (auto intro: sure_intros)

lemma sure_if [sure_intros]: "(c \<Longrightarrow> sure b op K m) \<Longrightarrow> (\<not> c \<Longrightarrow> sure b op K n) \<Longrightarrow> sure b op K (if c then m else n)"
  by simp

lemma sure_wcatch:
  assumes "\<And>d0. keeps ((db_step b op)\<^sup>*\<^sup>* d0) m" and "\<And>e. sure b op K (h e)"
  shows "sure b op K (wcatch m h)"
proof (rule sureI)
  fix w assume w: "stands b op K w"
  show "wp (wcatch m h) (\<lambda>_. stands b op K) (\<lambda>_ _. False) w"
    unfolding wp_wcatch by (rule wp_conseq [OF keeps_stand [OF assms(1) w]]) (auto intro: sureD [OF assms(2)])
qed

lemma wp_wret_fun: "wp (wret x) Q E = Q x"
  by (rule ext) (simp add: wp_wret)

lemma wp_own:
  "wp (own f) Q E w = (case f (wd_now w) (wd_db w) of Inl e \<Rightarrow> E (Failure e) w
     | Inr (x, d) \<Rightarrow> wp env_step (\<lambda>_. Q x) E (w\<lparr>wd_db := d\<rparr>))"
  by (simp add: own_def wp_wbind wp_wseq wp_wret_fun wp_db_do split: sum.split prod.split)

lemma wp_env_true: "wp env_step (\<lambda>_ _. True) E w"
  by (simp add: wp_env_step split: list.split)

lemma sure_own:
  assumes "\<And>now d x d1. f now d = Inr (x, d1) \<Longrightarrow> (db_step b op)\<^sup>*\<^sup>* d d1"
    and "\<And>now d. db_ok d \<Longrightarrow> K \<subseteq> tk_id ` set (db_tasks d) \<Longrightarrow> \<exists>r. f now d = Inr r"
  shows "sure b op K (own f)"
proof (rule sure_keeps)
  show "keeps ((db_step b op)\<^sup>*\<^sup>* d0) (own f)" for d0
    by (rule keeps_own) (use assms(1) in \<open>blast intro: rtranclp_trans\<close>)
  show "wp (own f) (\<lambda>_ _. True) (\<lambda>_ _. False) w" if "stands b op K w" for w
    using assms(2) [of "wd_db w" "wd_now w"] that by (auto simp: wp_own wp_env_true stands_def)
qed

lemma sure_own_set:
  assumes "\<And>now d d1. f now d = Inr d1 \<Longrightarrow> db_step b op d d1"
    and "\<And>now d. db_ok d \<Longrightarrow> K \<subseteq> tk_id ` set (db_tasks d) \<Longrightarrow> \<exists>d1. f now d = Inr d1"
  shows "sure b op K (own_set f)"
  unfolding own_set_def
proof (rule sure_own)
  show "\<And>now d x d1. unit_r f now d = Inr (x, d1) \<Longrightarrow> (db_step b op)\<^sup>*\<^sup>* d d1"
    using assms(1) by (auto simp: unit_r_def bind_r_Inr)
  show "\<exists>r. unit_r f now d = Inr r" if k: "db_ok d" "K \<subseteq> tk_id ` set (db_tasks d)" for now d
  proof -
    obtain d1 where "f now d = Inr d1" using assms(2) [OF k] by blast
    then show ?thesis by (simp add: unit_r_def)
  qed
qed

lemma sure_own_read [sure_intros]: "sure b op K (own_read f)"
  unfolding own_read_def by (rule sure_own) auto

lemma sure_event [sure_intros]:
  "set_option tk \<subseteq> K \<Longrightarrow> sure b op K (own_set (insert_event tk typ sev stage msg payload))"
  by (rule sure_own_set) (erule step_event, auto simp: insert_event_def)

lemma sure_beat [sure_intros]: "set_option tk \<subseteq> K \<Longrightarrow> sure b op K (own_set (beat cfg tk s m))"
  by (rule sure_own_set) (auto simp: beat_def upsert_heartbeat_def task_ref_ok_def intro: step_heartbeat)

lemma sure_callback [sure_intros]: "sure b op K (own_set (\<lambda>now d. Inr (set_callback_state i st a n e g h now d)))"
  by (rule sure_own_set) (auto intro: step_callback)

lemma sure_failure: "sure b op {tk_id t} (record_callback_failure cfg t e)"
  unfolding record_callback_failure_def Let_def by (intro sure_intros) simp_all

text \<open>A task that has been read is known from then on.\<close>

lemma sure_read_task:
  assumes "sure b op {} (F None)" and "\<And>t. tk_id t = i \<Longrightarrow> sure b op {i} (F (Some t))"
  shows "sure b op {} (wbind (own_read (\<lambda>_. get_task i)) F)"
proof (rule sureI)
  fix w assume w: "stands b op {} w"
  have known: "stands b op {i} w" if "get_task i (wd_db w) \<noteq> None"
    using w that by (auto simp: stands_def get_task_known)
  have moved: "wp env_step (\<lambda>_. stands b op K) (\<lambda>_ _. False) w" if "stands b op K w" for K
    by (rule wp_conseq [OF wp_conj [OF keeps_stand [OF keeps_env_step that] wp_env_true [where E = "\<lambda>_ _. False"]]]) simp_all
  show "wp (wbind (own_read (\<lambda>_. get_task i)) F) (\<lambda>_. stands b op {}) (\<lambda>_ _. False) w"
  proof (cases "get_task i (wd_db w)")
    case None
    show ?thesis
      unfolding own_read_def wp_wbind wp_own
      by (simp add: None) (rule wp_conseq [OF moved [OF w]], auto intro: sureD [OF assms(1)])
  next
    case (Some t)
    then have "tk_id t = i" by (auto dest: get_task_Some)
    have after: "wp (F (Some t)) (\<lambda>_. stands b op {}) (\<lambda>_ _. False) v" if "stands b op {i} v" for v
      by (rule wp_conseq [OF sureD [OF assms(2) [OF \<open>tk_id t = i\<close>] that]]) (simp_all add: stands_def)
    show ?thesis
      unfolding own_read_def wp_wbind wp_own
      by (simp add: Some) (rule wp_conseq [OF moved [OF known]], use Some in \<open>simp_all add: after\<close>)
  qed
qed

lemma sure_send [sure_intros]: "sure b op {} (send_callback cfg send dg i)"
  unfolding send_callback_def
  by (rule sure_read_task, unfold option.case Let_def, rule sure_wret, rule sure_wcatch)
    (intro keeps_intros steps_intros, erule subst, intro sure_intros sure_failure)

lemma sure_retry [sure_intros]: "sure b op {} (retry_callbacks cfg send dg)"
  unfolding retry_callbacks_def retry_step_def by (intro sure_intros) simp

lemma sure_maybe_sync [sure_intros]: "sure b op {} (maybe_sync_feedback_patterns cfg sync date minute l)"
  unfolding maybe_sync_feedback_patterns_def by (intro sure_intros sure_wcatch steps_intros) simp

lemma sure_recover [sure_intros]: "sure (dc_max_task_attempts cfg) op {} (daemon_recover_stale cfg)"
  unfolding daemon_recover_stale_def
proof (intro sure_intros sure_own)
  show "\<exists>r. recover_stale_running_tasks (dc_max_task_attempts cfg) now d = Inr r" if "db_ok d" for now d
    using recover_exact [of d "dc_max_task_attempts cfg" now] that by (auto simp: db_ok_def)
qed (auto intro: step_recover)

lemma sure_turn_start: "sure (dc_max_task_attempts cfg) op {} (turn_start cfg sync send dg date minute l)"
  unfolding turn_start_def by (intro sure_intros) (auto intro!: sure_intros)

text \<open>The claim, the heartbeat and the run of the workflow: the first due task, when there is one, is ended.\<close>

definition first_due :: "world \<Rightarrow> cr_task option" where
  "first_due w = first_by claim_order (filter (claimable (wd_now w)) (db_tasks (wd_db w)))"

lemma claim_answers:
  assumes "keys_ok d"
  shows "\<exists>d'. claim_next_task w l now d
    = Inr (map_option (claim_row w l now) (first_by claim_order (filter (claimable now) (db_tasks d))), d')"
proof (cases "first_by claim_order (filter (claimable now) (db_tasks d))")
  case None
  then show ?thesis by (simp add: claim_next_task_def)
next
  case (Some row)
  then have "row \<in> set (db_tasks d)" using first_by_Some(1) by fastforce
  with Some obtain r d' where r: "claim_next_task w l now d = Inr (r, d')"
    by (auto simp: claim_next_task_def insert_event_def image_key_upd claim_row_def)
  with claim_next_task_cases [OF r] claimed_row [OF assms Some, of d' w l] Some
  show ?thesis by auto
qed

lemma workflow_ended:
  assumes "stands b op {i} w"
  shows "wp (workflow_run env i) (\<lambda>_ w1. task_ended i (wd_db w1)) (\<lambda>_ _. False) w"
proof -
  obtain t where "get_task i (wd_db w) = Some t"
    using assms by (auto simp: stands_def get_task_known)
  with workflow_ends [of i w t b op env] assms show ?thesis
    by (auto simp: stands_def wp_def)
qed

lemma once_ends:
  assumes "stands b op {} w"
  shows "wp (daemon_once cfg (workflow_run env))
    (\<lambda>n w1. case first_due w of None \<Rightarrow> n = 0 | Some t \<Rightarrow> n = 1 \<and> task_ended (tk_id t) (wd_db w1)) (\<lambda>_ _. False) w"
proof -
  let ?claim = "claim_next_task (dc_id cfg) (dc_lease_seconds cfg)"
  obtain d where d: "?claim (wd_now w) (wd_db w)
      = Inr (map_option (claim_row (dc_id cfg) (dc_lease_seconds cfg) (wd_now w)) (first_due w), d)"
    using claim_answers [of "wd_db w" "dc_id cfg" "dc_lease_seconds cfg" "wd_now w"] assms
    by (auto simp: stands_def db_ok_def first_due_def)
  have "db_step b op (wd_db w) d" using d by (rule step_claim)
  then have w1: "stands b op {} (w\<lparr>wd_db := d\<rparr>)"
    using steps_stand [OF assms, of "w\<lparr>wd_db := d\<rparr>"] by (simp add: r_into_rtranclp)
  have moved: "wp env_step (\<lambda>_. stands b op K) (\<lambda>_ _. False) v" if "stands b op K v" for K v
    by (rule wp_conseq [OF wp_conj [OF keeps_stand [OF keeps_env_step that] wp_env_true [where E = "\<lambda>_ _. False"]]]) simp_all
  show ?thesis
  proof (cases "first_due w")
    case None
    have "wp (wseq (own_set (beat cfg None ''IDLE'' ''no queued task'')) (wret 0)) (\<lambda>n _. n = 0) (\<lambda>_ _. False) v"
      if "stands b op {} v" for v
      unfolding wp_wseq by (rule wp_conseq [OF sureD [OF sure_beat that]]) (simp_all add: wp_wret)
    then show ?thesis
      unfolding daemon_once_def wp_wbind wp_own
      by (simp add: d None) (rule wp_conseq [OF moved [OF w1]], simp_all)
  next
    case (Some old)
    have id: "tk_id (claim_row a l now old) = tk_id old" for a l now by (simp add: claim_row_def)
    have "old \<in> set (db_tasks (wd_db w))" using first_by_Some(1) [OF Some [unfolded first_due_def]] by simp
    then have "tk_id old \<in> tk_id ` set (db_tasks d)"
      using step_keeps_ids [OF \<open>db_step b op (wd_db w) d\<close>] assms by (auto simp: stands_def)
    with w1 have known: "stands b op {tk_id old} (w\<lparr>wd_db := d\<rparr>)" by (simp add: stands_def)
    have rest: "wp (wseq (own_set (beat cfg (Some (tk_id old)) ''RUNNING'' ''task acquired'')) (wseq (workflow_run env (tk_id old)) (wret (1 :: nat))))
        (\<lambda>n w1. n = 1 \<and> task_ended (tk_id old) (wd_db w1)) (\<lambda>_ _. False) v" if "stands b op {tk_id old} v" for v
      unfolding wp_wseq
      by (rule wp_conseq [OF sureD [OF sure_beat that]]) (auto simp: wp_wret intro: wp_conseq [OF workflow_ended])
    show ?thesis
      unfolding daemon_once_def wp_wbind wp_own
      by (simp add: d Some id) (rule wp_conseq [OF moved [OF known]], simp_all add: rest [simplified])
  qed
qed

section \<open>A turn among quiet processes\<close>

text \<open>The tasks neither finished nor cancelled, and what a stage before the claim may do to the queue.\<close>

definition pending :: "db \<Rightarrow> string set" where
  "pending d = tk_id ` {t \<in> set (db_tasks d). tk_status t = TQueued \<or> tk_status t = TRunning}"

definition some_due :: "instant \<Rightarrow> db \<Rightarrow> bool" where
  "some_due now d \<longleftrightarrow> list_ex (claimable now) (db_tasks d)"

definition queue_kept :: "instant \<Rightarrow> db \<Rightarrow> db \<Rightarrow> bool" where
  "queue_kept now d d1 \<longleftrightarrow> (some_due now d \<longrightarrow> some_due now d1) \<and> pending d1 \<subseteq> pending d"

lemma queue_kept_trans: "queue_kept now a b \<Longrightarrow> queue_kept now b c \<Longrightarrow> queue_kept now a c"
  by (auto simp: queue_kept_def)

lemma queue_kept_same: "db_tasks d1 = db_tasks d \<Longrightarrow> queue_kept now d d1"
  by (simp add: queue_kept_def some_due_def pending_def)

lemma queue_kept_map:
  assumes "db_tasks d1 = map f (db_tasks d)" and "\<And>t. tk_id (f t) = tk_id t" and "\<And>t. claimable now t \<Longrightarrow> claimable now (f t)"
    and "\<And>t. tk_status (f t) = TQueued \<or> tk_status (f t) = TRunning \<Longrightarrow> tk_status t = TQueued \<or> tk_status t = TRunning"
  shows "queue_kept now d d1"
proof -
  have "some_due now d1" if "some_due now d"
    using that assms(3) by (auto simp: some_due_def assms(1) list_ex_iff)
  moreover have "pending d1 \<subseteq> pending d"
    using assms(2,4) by (fastforce simp: pending_def assms(1))
  ultimately show ?thesis by (simp add: queue_kept_def)
qed

lemma beat_tasks: "beat cfg tk s m now d = Inr d' \<Longrightarrow> db_tasks d' = db_tasks d"
  by (auto simp: beat_def upsert_heartbeat_def split: if_splits option.splits)

lemma callback_state_queue: "queue_kept n d (set_callback_state i s a nx e g h now d)"
  by (rule queue_kept_map [where f = "\<lambda>t. if tk_id t = i then t
      \<lparr>tk_cb_state := Some s, tk_cb_attempts := a, tk_cb_next := nx, tk_cb_error := e, tk_cb_digest := coalesce g (tk_cb_digest t),
       tk_cb_history := (case h of None \<Rightarrow> tk_cb_history t | Some x \<Rightarrow> x), tk_updated := now\<rparr> else t"])
    (auto simp: set_callback_state_def upd_task_def upd_where_def claimable_def split: if_splits)

lemma event_queue:
  "insert_event tk ty sev stg msg payload now d1 = Inr d2 \<Longrightarrow> queue_kept n d d1 \<Longrightarrow> queue_kept n d d2"
  by (erule queue_kept_trans) (simp add: queue_kept_same tasks_insert_event)

lemma recovered_claimable: "claimable n t \<Longrightarrow> claimable n (recovered_row b now t)"
  by (simp add: recovered_row_def stale_def claimable_def)

lemma recovered_live:
  "tk_status (recovered_row b now t) = TQueued \<or> tk_status (recovered_row b now t) = TRunning \<Longrightarrow>
   tk_status t = TQueued \<or> tk_status t = TRunning"
  by (simp add: recovered_row_def stale_def exhausted_row_def split: if_splits)

lemma recover_queue:
  assumes "recover_stale_running_tasks b now d = Inr (r, d')" and "db_ok d"
  shows "queue_kept n d d'"
proof -
  have "keys_ok d" using assms(2) by (simp add: db_ok_def)
  have "db_tasks d' = map (recovered_row b now) (db_tasks d)"
    using recover_exact [OF \<open>keys_ok d\<close>, of b now] assms(1) by auto
  then show ?thesis by (rule queue_kept_map [OF _ recovered_id recovered_claimable recovered_live])
qed

text \<open>Nobody else moves and no time passes; the database is well formed and its queue has kept what it had.\<close>

definition still :: "instant \<Rightarrow> db \<Rightarrow> world \<Rightarrow> bool" where
  "still now d w \<longleftrightarrow> wd_moves w = [] \<and> wd_now w = now \<and> db_ok (wd_db w) \<and> queue_kept now d (wd_db w)"

lemma still_env_step [always_intros]: "always (still now d) env_step"
  by (simp add: always_def still_def env_step_def)

lemma still_own:
  assumes "\<And>d0 x d1. f now d0 = Inr (x, d1) \<Longrightarrow> db_ok d0 \<Longrightarrow> db_ok d1 \<and> queue_kept now d0 d1"
  shows "always (still now d) (own f)"
proof -
  have "always (still now d) (db_do f)"
    using assms by (auto simp: always_def still_def db_do_def split: sum.split prod.split intro: queue_kept_trans)
  then show ?thesis unfolding own_def by (intro always_intros)
qed

lemma still_own_set:
  assumes "\<And>d0 d1. f now d0 = Inr d1 \<Longrightarrow> db_ok d0 \<Longrightarrow> db_ok d1 \<and> queue_kept now d0 d1"
  shows "always (still now d) (own_set f)"
  unfolding own_set_def by (rule still_own) (use assms in \<open>auto simp: unit_r_def bind_r_Inr\<close>)

lemma still_read [always_intros]: "always (still now d) (own_read f)"
  unfolding own_read_def by (rule still_own) (simp add: queue_kept_same)

lemma still_event [always_intros]: "always (still now d) (own_set (insert_event tk typ sev stage msg payload))"
  by (rule still_own_set) (auto simp: queue_kept_same dest: tasks_insert_event intro: insert_event_ok)

lemma still_beat [always_intros]: "always (still now d) (own_set (beat cfg tk s m))"
  by (rule still_own_set) (auto simp: queue_kept_same dest: beat_tasks intro: beat_ok)

lemma still_callback [always_intros]:
  "always (still now d) (own_set (\<lambda>t d0. Inr (set_callback_state i st a n e g h t d0)))"
  by (rule still_own_set) (auto intro: set_callback_state_ok callback_state_queue)

lemma still_external [always_intros]: "always (still now d) (external r)"
  unfolding external_def by (intro always_intros) (simp add: always_def lift_r_def split: sum.split)

lemma still_turn_start: "always (still now d) (turn_start cfg sync send dg date minute l)"
  unfolding turn_start_def maybe_sync_feedback_patterns_def run_pattern_sync_def daemon_recover_stale_def
    retry_callbacks_def retry_step_def send_callback_def record_callback_failure_def Let_def
  by (intro always_intros still_own)
    (auto intro: recover_stale_ok recover_queue)

section \<open>A turn of the daemon makes progress\<close>

lemma first_due_pending:
  assumes "first_due w = Some t"
  shows "tk_id t \<in> pending (wd_db w)"
  using first_by_Some(1) [OF assms [unfolded first_due_def]] by (auto simp: pending_def claimable_def)

lemma some_due_first:
  assumes "some_due (wd_now w) (wd_db w)"
  shows "\<exists>t. first_due w = Some t"
proof (cases "first_due w")
  case None
  then have "filter (claimable (wd_now w)) (db_tasks (wd_db w)) = []" by (simp add: first_due_def)
  with assms show ?thesis by (auto simp: some_due_def list_ex_iff filter_empty_conv)
qed simp

text \<open>C3: a turn of the daemon always ends normally, whatever the syncer, the receivers of callbacks, git and the
  models answer, and together with what the other processes do meanwhile (any storage operations, after each
  transaction of the daemon and while it waits for the pattern sync, for a callback, for git or a model) it is a
  sequence of storage operations that keeps the database well formed. The first task of the queue at the moment
  the turn comes to its claim is finished with a gate when the turn is over; and when nobody else moves, it is
  enough that a task is due when the turn starts: one of those then queued or running is ended.\<close>

theorem tick_ends_a_task:
  assumes "db_ok (wd_db w)" and "storage_moves (dc_max_task_attempts cfg) operator w"
  shows "\<exists>last' w3 w1. turn_start cfg sync send digest date minute synced w = (Inr last', w3)
    \<and> system_tick cfg env sync send digest date minute synced w = (Inr last', w1)
    \<and> (db_step (dc_max_task_attempts cfg) operator)\<^sup>*\<^sup>* (wd_db w) (wd_db w3)
    \<and> (db_step (dc_max_task_attempts cfg) operator)\<^sup>*\<^sup>* (wd_db w3) (wd_db w1) \<and> db_ok (wd_db w1)
    \<and> (case first_due w3 of None \<Rightarrow> True | Some t \<Rightarrow> task_ended (tk_id t) (wd_db w1))
    \<and> (wd_moves w = [] \<and> some_due (wd_now w) (wd_db w) \<longrightarrow> (\<exists>i \<in> pending (wd_db w). task_ended i (wd_db w1)))"
proof -
  let ?b = "dc_max_task_attempts cfg" and ?start = "turn_start cfg sync send digest date minute synced"
  have w: "stands ?b operator {} w" using assms by (simp add: stands_def)
  obtain l w3 where w3: "?start w = (Inr l, w3)" "stands ?b operator {} w3"
    using sureD [OF sure_turn_start w, of sync send digest date minute synced] by (auto simp: wp_def split: prod.splits sum.splits)
  obtain n w1 where w1: "daemon_once cfg (workflow_run env) w3 = (Inr n, w1)"
    "case first_due w3 of None \<Rightarrow> True | Some t \<Rightarrow> task_ended (tk_id t) (wd_db w1)"
    using once_ends [OF w3(2), of cfg env] by (auto simp: wp_def split: prod.splits sum.splits option.splits)
  have tick: "system_tick cfg env sync send digest date minute synced w = (Inr l, w1)"
    by (simp add: system_tick_def daemon_tick_def wbind_def w3(1) w1(1) wret_def)
  have steps: "(db_step ?b operator)\<^sup>*\<^sup>* (wd_db w) (wd_db w3)" "(db_step ?b operator)\<^sup>*\<^sup>* (wd_db w3) (wd_db w1)"
    using keeps_settled [OF steps_start_turn settled_steps [OF assms(2)], of sync send digest date minute synced]
      keeps_settled [OF steps_once settled_steps, of ?b operator w3 cfg env] w3 w1(1)
    by (simp_all add: settled_def stands_def)
  have ok: "db_ok (wd_db w1)" using store.steps_inv [OF steps(2)] w3(2) by (simp add: stands_def)
  have "\<exists>i \<in> pending (wd_db w). task_ended i (wd_db w1)" if q: "wd_moves w = []" "some_due (wd_now w) (wd_db w)"
  proof -
    have "still (wd_now w) (wd_db w) w3"
      using still_turn_start [of "wd_now w" "wd_db w" cfg sync send digest date minute synced] q(1) assms(1) w3(1)
      by (auto simp: always_def still_def queue_kept_same dest!: spec [of _ w])
    then have kept: "some_due (wd_now w3) (wd_db w3)" "pending (wd_db w3) \<subseteq> pending (wd_db w)"
      using q(2) by (auto simp: still_def queue_kept_def)
    then obtain t where "first_due w3 = Some t" using some_due_first by blast
    with w1(2) first_due_pending kept(2) show ?thesis by fastforce
  qed
  then show ?thesis using w3(1) tick steps ok w1(2) by blast
qed

text \<open>A world without others, and one in which another process moves after the daemon's first transaction.\<close>

definition sample_daemon_world :: world where
  "sample_daemon_world = quiet_world 60 sample_db3"

definition sample_busy :: world where
  "sample_busy = sample_daemon_world\<lparr>wd_moves := [(5, set_callback_state ''t1'' CB_Skipped 0 None None None None 61)]\<rparr>"

lemma sample_busy_moves: "storage_moves 3 False sample_busy" "wd_db sample_busy = sample_db3"
  by (auto simp: sample_busy_def sample_daemon_world_def storage_moves_def moves_keep_def intro: step_callback)

lemma sample_due: "some_due 60 sample_db3"
  by code_simp

theorem tick_ends_a_task_witness:
  "(\<exists>w1. system_tick sample_config sample_env (\<lambda>_. Inr []) refuse cp_task_id ''2024-01-02'' 600 None sample_daemon_world
      = (Inr (Some ''2024-01-02''), w1) \<and> (\<exists>i \<in> pending sample_db3. task_ended i (wd_db w1)))
   \<and> (\<exists>w1. system_tick sample_config sample_env (\<lambda>_. Inr []) refuse cp_task_id ''2024-01-02'' 600 None sample_busy
      = (Inr (Some ''2024-01-02''), w1) \<and> task_ended ''t1'' (wd_db w1))"
proof -
  let ?start = "turn_start sample_config (\<lambda>_. Inr []) refuse cp_task_id ''2024-01-02'' 600 None"
  have run: "fst (?start sample_daemon_world) = Inr (Some ''2024-01-02'')" "fst (?start sample_busy) = Inr (Some ''2024-01-02'')"
    "map_option tk_id (first_due (snd (?start sample_busy))) = Some ''t1''"
    by code_simp+
  note turn = tick_ends_a_task [where cfg = sample_config and operator = False and env = sample_env
      and sync = "\<lambda>_. Inr []" and send = refuse and digest = cp_task_id and date = "''2024-01-02''" and minute = 600
      and synced = None]
  have b: "dc_max_task_attempts sample_config = 3" by (simp add: sample_config_def)
  show ?thesis
    using turn [of sample_daemon_world] turn [of sample_busy] sample_ok(2) sample_due sample_busy_moves run unfolding b
    by (auto simp: sample_daemon_world_def storage_moves_def moves_keep_def)
qed

end
