(* ===== verification/Feedback_Review.thy ===== *)
theory Feedback_Review
  imports Workflow_Correct
begin

text \<open>
  Feedback on findings, \<open>review_v2/feedback.py\<close>: a focused re-review of one finding by its reviewer, the
  operator's decision that a finding is no defect, and the gate that passes when the last open finding of
  the task is closed. The turn of the model, the reviewer profiles and \<open>json.dumps\<close> are fields of
  \<open>feedback_env\<close>; the prompt file is the text written to it.
\<close>

record feedback_env =
  fv_profile :: "string \<Rightarrow> json"
  fv_dumps :: "json \<Rightarrow> string"
  fv_turn :: "string \<Rightarrow> turn_result py_result"

definition MODEL_RESOLVED_STATUSES :: "string list" where
  "MODEL_RESOLVED_STATUSES = [''resolved_model_false_positive'', ''re_reviewed_pass'']"

definition HUMAN_RESOLVED_STATUS :: string where
  "HUMAN_RESOLVED_STATUS = ''human_non_fix''"

section \<open>The prompt\<close>

definition feedback_finding_payload :: "finding \<Rightarrow> string \<Rightarrow> string \<Rightarrow> json_dict" where
  "feedback_finding_payload f reviewer session_id =
     [(''finding_id'', JStr (fn_id f)), (''reviewer'', JStr reviewer),
      (''reviewer_run_id'', case fn_run f of None \<Rightarrow> JNull | Some n \<Rightarrow> JInt (int n)),
      (''reviewer_session_id'', if session_id = [] then JNull else JStr session_id),
      (''file'', JStr (fn_file f)), (''line'', case fn_line f of None \<Rightarrow> JNull | Some l \<Rightarrow> JInt l),
      (''severity'', JStr (severity_text (fn_severity f))), (''title'', JStr (fn_title f)), (''detail'', JStr (fn_detail f)),
      (''suggestion'', opt_str (fn_suggestion f))]"

definition feedback_prompt :: "feedback_env \<Rightarrow> finding \<times> string option \<times> string option \<Rightarrow> string \<Rightarrow> string" where
  "feedback_prompt env row msg =
     (let (f, source_reviewer, source_session) = row;
          reviewer = text_or source_reviewer ''correctness'';
          session_id = text_or source_session []
      in join ''\<newline>''
        [''Review feedback for finding '' @ fn_id f @ ''.'', [],
         ''Original contributing reviewer: '' @ reviewer,
         ''Original OpenCode session: '' @ (if session_id \<noteq> [] then session_id else ''unknown''), [],
         ''Reviewer profile:'', fv_dumps env (fv_profile env reviewer), [],
         ''Scope:'',
         ''- Run this as a focused feedback re-review for the original contributing reviewer only.'',
         ''- Do not restart the whole CR workflow or invoke unrelated reviewer personas.'',
         ''- Re-check only whether this finding should remain open after the user feedback.'', [],
         ''Original finding:'', fv_dumps env (JObj (feedback_finding_payload f reviewer session_id)), [],
         ''User feedback:'', msg, [],
         ''Return one JSON object only:'',
         ''{\"resolved\": boolean, \"status\": \"resolved_model_false_positive|re_reviewed_pass|null\", \"reply\": string}'', []])"

section \<open>The re-review\<close>

text \<open>\<open>start_finding_feedback\<close>; the identifier of the session is drawn by the caller of the model.\<close>

definition start_finding_feedback ::
  "feedback_env \<Rightarrow> string \<Rightarrow> string \<Rightarrow> string \<Rightarrow> string \<Rightarrow> (string \<times> string) wf" where
  "start_finding_feedback env task_id finding_id msg feedback_id =
     wbind (db_get (get_finding_with_reviewer task_id finding_id)) (\<lambda>row.
       case row of
         None \<Rightarrow> wraise (Failure (ValueError (''finding not found for task: '' @ finding_id)))
       | Some (f, source_reviewer, source_session) \<Rightarrow>
           (let prompt = feedback_prompt env (f, source_reviewer, source_session) msg
            in wseq (db_set (create_feedback_session task_id (Some finding_id) ''running'' None (fn_run f) (Some msg) None None
                       feedback_id))
               (wseq (wf_event task_id ''feedback_started'' ''feedback re-review started'' ''feedback'' ''info''
                        [(''finding_id'', JStr finding_id), (''feedback_session_id'', JStr feedback_id),
                         (''reviewer'', opt_str source_reviewer)])
                  (wret (feedback_id, prompt)))))"

definition resolved_status :: "json \<Rightarrow> string" where
  "resolved_status v =
     (let status = py_str (py_or v (JStr ''resolved_model_false_positive''))
      in if status \<notin> set MODEL_RESOLVED_STATUSES then ''resolved_model_false_positive'' else status)"

definition recompute_pass_ack :: "string \<Rightarrow> unit wf" where
  "recompute_pass_ack task_id =
     wbind (db_get (open_findings_count task_id)) (\<lambda>n.
       if n \<noteq> 0 then wret () else outcome task_id TSuccess ''passed'' None None)"

text \<open>What a turn said: the object with a \<open>resolved\<close> key, or the error of reading it.\<close>

definition feedback_payload :: "turn_result \<Rightarrow> json_dict \<times> string option" where
  "feedback_payload r =
     (if tr_result r = [] then ([], None)
      else case extract_json_object (tr_result r) [''resolved''] of
             Inr d \<Rightarrow> (d, None)
           | Inl e \<Rightarrow> ([], Some (exc_text e)))"

definition feedback_reply :: "json_dict \<Rightarrow> string option" where
  "feedback_reply payload = (if payload \<noteq> [] then Some (py_str (py_or (dget payload ''reply'') (JStr []))) else None)"

definition feedback_resolved :: "turn_result \<Rightarrow> bool" where
  "feedback_resolved r \<longleftrightarrow> tr_type r = ''completed'' \<and> truthy (dget (fst (feedback_payload r)) ''resolved'')"

definition feedback_usage :: "turn_result \<Rightarrow> usage py_result" where
  "feedback_usage r = token_usage (tr_tokens r) (tr_cost_usd r) (tr_model_id r) (Some ''llm-proxy/gpt-5.5'')"

definition set_status :: "string \<Rightarrow> string \<Rightarrow> string \<Rightarrow> string \<Rightarrow> json \<Rightarrow> unit wf" where
  "set_status task_id finding_id status actor msg =
     wbind (lift_r (sql_text msg)) (\<lambda>m. db_set (update_finding_status task_id finding_id status (Some actor) m))"

text \<open>The turn has answered.\<close>

definition apply_feedback :: "string \<Rightarrow> string \<Rightarrow> string \<Rightarrow> string \<Rightarrow> turn_result \<Rightarrow> unit wf" where
  "apply_feedback task_id finding_id feedback_id msg r =
     (let (payload, parse_error) = feedback_payload r;
          reply = feedback_reply payload;
          resolved = feedback_resolved r
      in wbind (lift_r (feedback_usage r)) (\<lambda>u.
         wseq (db_set (\<lambda>now d. Inr (finish_feedback_session feedback_id (if resolved then ''success'' else ''failed'')
                 (tr_session_id r) reply (Some u) now d)))
         (wseq (wf_event task_id (if resolved then ''feedback_completed'' else ''feedback_failed'')
                  (if resolved then ''feedback re-review completed'' else ''feedback re-review failed'') ''feedback''
                  (if resolved then ''info'' else ''warn'')
                  [(''finding_id'', JStr finding_id), (''feedback_session_id'', JStr feedback_id),
                   (''opencode_session_id'', opt_str (tr_session_id r)),
                   (''status'', JStr (if resolved then ''success'' else ''failed'')), (''reply'', opt_str reply)])
            (if resolved then
               wseq (set_status task_id finding_id (resolved_status (dget payload ''status'')) ''model''
                       (py_or (dget payload ''reply'') (JStr msg)))
                 (recompute_pass_ack task_id)
             else if text_truthy parse_error then
               wf_event task_id ''feedback_parse_failed'' ''feedback session returned invalid JSON'' ''feedback'' ''warn''
                 [(''finding_id'', JStr finding_id), (''error'', opt_str parse_error)]
             else wret ()))))"

definition process_finding_feedback ::
  "feedback_env \<Rightarrow> string \<Rightarrow> string \<Rightarrow> string \<Rightarrow> string \<Rightarrow> string \<Rightarrow> unit wf" where
  "process_finding_feedback env task_id finding_id feedback_id prompt msg =
     wseq env_step
       (case fv_turn env prompt of
          Inl e \<Rightarrow>
            wseq (db_set (\<lambda>now d. Inr (finish_feedback_session feedback_id ''failed'' None None None now d)))
              (wf_event task_id ''feedback_failed'' ''feedback session failed'' ''feedback'' ''error''
                 [(''finding_id'', JStr finding_id), (''feedback_session_id'', JStr feedback_id), (''error'', JStr (exc_text e))])
        | Inr r \<Rightarrow> apply_feedback task_id finding_id feedback_id msg r)"

definition submit_finding_feedback :: "feedback_env \<Rightarrow> string \<Rightarrow> string \<Rightarrow> string \<Rightarrow> string \<Rightarrow> string wf" where
  "submit_finding_feedback env task_id finding_id msg feedback_id =
     wbind (start_finding_feedback env task_id finding_id msg feedback_id) (\<lambda>(i, prompt).
       wseq (process_finding_feedback env task_id finding_id i prompt msg) (wret i))"

definition mark_human_non_fix :: "string \<Rightarrow> string \<Rightarrow> string \<Rightarrow> string \<Rightarrow> unit wf" where
  "mark_human_non_fix task_id finding_id actor rationale =
     wseq (db_set (update_finding_status task_id finding_id HUMAN_RESOLVED_STATUS (Some actor) (Some rationale)))
       (recompute_pass_ack task_id)"

section \<open>Closing a finding\<close>

definition others_open :: "string \<Rightarrow> string \<Rightarrow> db \<Rightarrow> bool" where
  "others_open task_id finding_id d \<longleftrightarrow>
     list_ex (\<lambda>f. fn_task f = task_id \<and> fn_id f \<noteq> finding_id \<and> fn_status f = ''open'') (db_findings d)"

text \<open>The finding of a task is closed with a status: that row is changed and no other, and the task's row
  only when no finding of the task is left open; then its gate passes.\<close>

definition finding_closed :: "string \<Rightarrow> string \<Rightarrow> string \<Rightarrow> instant \<Rightarrow> db \<Rightarrow> db \<Rightarrow> bool" where
  "finding_closed task_id finding_id status now d d1 \<longleftrightarrow>
     db_findings d1 = upd_where (\<lambda>f. fn_id f = finding_id \<and> fn_task f = task_id)
       (\<lambda>f. f\<lparr>fn_status := status, fn_updated := now\<rparr>) (db_findings d)
     \<and> db_tasks d1 = (if others_open task_id finding_id d then db_tasks d
         else db_tasks (upd_task task_id (outcome_row TSuccess ''passed'' None None (outcome_callback task_id d) now) d))"

lemma finding_hit:
  assumes dist: "distinct (map fn_id (db_findings d))" and "get_finding i fid d = Some f"
  shows "count_where (\<lambda>f. fn_id f = fid \<and> fn_task f = i) (db_findings d) = 1"
proof -
  have f: "f \<in> set (db_findings d)" "fn_id f = fid" "fn_task f = i"
    using assms(2) by (auto simp: get_finding_def dest: find_Some_key)
  have "fn_task g = i" if "g \<in> set (db_findings d)" "fn_id g = fid" for g
    using dist that f by (metis distinct_map inj_onD)
  then have "filter (\<lambda>g. fn_id g = fid \<and> fn_task g = i) (db_findings d) = filter (\<lambda>g. fn_id g = fid) (db_findings d)"
    by (intro filter_cong refl) blast
  then have "count_where (\<lambda>g. fn_id g = fid \<and> fn_task g = i) (db_findings d) = count_where (\<lambda>g. fn_id g = fid) (db_findings d)"
    by (simp only: count_where_def)
  also have "\<dots> = 1" using f(1,2) by (simp only: count_where_distinct [OF dist] image_eqI [of fid fn_id f] if_True)
  finally show ?thesis .
qed

lemma open_after_close:
  assumes "s \<noteq> ''open''"
  shows "open_findings_count i (d\<lparr>db_findings := upd_where (\<lambda>f. fn_id f = fid \<and> fn_task f = i)
      (\<lambda>f. f\<lparr>fn_status := s, fn_updated := now\<rparr>) (db_findings d), db_finding_events := es\<rparr>) = 0 \<longleftrightarrow> \<not> others_open i fid d"
proof -
  let ?hit = "\<lambda>f. fn_id f = fid \<and> fn_task f = i"
  let ?q = "\<lambda>f. \<not> (fn_task f = i \<and> fn_status f = ''open'')"
  let ?set = "\<lambda>f. f\<lparr>fn_status := s, fn_updated := now\<rparr>"
  have "open_findings_count i (d\<lparr>db_findings := upd_where ?hit ?set (db_findings d), db_finding_events := es\<rparr>) = 0
      \<longleftrightarrow> list_all ?q (upd_where ?hit ?set (db_findings d))"
    by (simp only: open_findings_count_def count_where_0 list_all_iff) simp
  also have "\<dots> \<longleftrightarrow> list_all (\<lambda>f. if ?hit f then ?q (?set f) else ?q f) (db_findings d)"
    by (rule list_all_upd_where)
  also have "\<dots> \<longleftrightarrow> list_all (\<lambda>f. \<not> (fn_task f = i \<and> fn_id f \<noteq> fid \<and> fn_status f = ''open'')) (db_findings d)"
    by (rule arg_cong [of _ _ "\<lambda>p. list_all p (db_findings d)"], rule ext) (use assms(1) in auto)
  finally show ?thesis by (simp add: others_open_def list_all_iff list_ex_iff)
qed

lemma close_effect:
  assumes "distinct (map fn_id (db_findings (wd_db w)))" and "get_finding i fid (wd_db w) = Some f" and "task_known (wd_db w) i"
    and "s \<noteq> ''open''"
  shows "\<exists>d1. wseq (db_set (update_finding_status i fid s a m)) (recompute_pass_ack i) w = (Inr (), w\<lparr>wd_db := d1\<rparr>)
    \<and> finding_closed i fid s (wd_now w) (wd_db w) d1"
proof -
  let ?d = "wd_db w"
  obtain d0 es where d0: "update_finding_status i fid s a m (wd_now w) ?d = Inr d0"
    "d0 = ?d\<lparr>db_findings := upd_where (\<lambda>f. fn_id f = fid \<and> fn_task f = i)
      (\<lambda>f. f\<lparr>fn_status := s, fn_updated := wd_now w\<rparr>) (db_findings ?d), db_finding_events := es\<rparr>"
    using finding_hit [OF assms(1,2)] by (simp add: update_finding_status_def)
  have known: "task_known d0 i" using assms(3) by (simp add: d0(2))
  show ?thesis
  proof (cases "others_open i fid ?d")
    case True
    then have "open_findings_count i d0 \<noteq> 0" using open_after_close [OF assms(4)] d0(2) by simp
    with True d0 show ?thesis
      by (intro exI [of _ d0]) (simp add: wseq_def wbind_def db_set_def db_do_def unit_r_def recompute_pass_ack_def db_get_def
          wret_def finding_closed_def)
  next
    case False
    then have z: "open_findings_count i d0 = 0" using open_after_close [OF assms(4)] d0(2) by simp
    obtain d1 where d1: "update_task_outcome i TSuccess ''passed'' None None (wd_now w) d0 = Inr d1"
      using outcome_succeeds [OF known] by blast
    have cb1: "outcome_callback i (?d\<lparr>db_findings := x, db_finding_events := y\<rparr>) = outcome_callback i ?d" for x y
      by (simp add: outcome_callback_def get_task_def)
    have "db_findings d1 = db_findings d0"
      using d1 by (auto simp: update_task_outcome_def Let_def bind_r_Inr upd_task_def split: if_split_asm dest!: insert_event_Inr)
    moreover have "db_tasks d1 = db_tasks (upd_task i (outcome_row TSuccess ''passed'' None None (outcome_callback i ?d) (wd_now w)) ?d)"
      using tasks_outcome [OF d1] by (simp add: upd_task_def d0(2) cb1)
    ultimately show ?thesis
      using d0 d1 z False
      by (intro exI [of _ d1]) (simp add: wseq_def wbind_def db_set_def db_do_def unit_r_def recompute_pass_ack_def db_get_def
          outcome_def finding_closed_def)
  qed
qed

lemma close_raises:
  assumes "get_finding i fid (wd_db w) = None"
  shows "db_set (update_finding_status i fid s a m) w = (Inl (Failure (ValueError (''finding not found for task: '' @ fid))), w)"
proof -
  have "filter (\<lambda>f. fn_id f = fid \<and> fn_task f = i) (db_findings (wd_db w)) = []"
    using assms by (auto simp: get_finding_def find_None_iff filter_empty_conv)
  then have "count_where (\<lambda>f. fn_id f = fid \<and> fn_task f = i) (db_findings (wd_db w)) \<noteq> 1"
    by (simp only: count_where_def) simp
  then show ?thesis by (simp add: db_set_def db_do_def unit_r_def update_finding_status_def Let_def)
qed

text \<open>An operator's \<open>human_non_fix\<close> raises for a finding that is not the task's, and leaves everything
  as it was; otherwise it closes that finding alone, and the task's row changes exactly when no other
  finding of the task is open: then the task is a success with its gate passed, whatever it was before.\<close>

theorem human_non_fix_effect:
  assumes "keys_ok (wd_db w)" and "task_known (wd_db w) i"
  shows "case get_finding i fid (wd_db w) of
      None \<Rightarrow> mark_human_non_fix i fid actor rationale w = (Inl (Failure (ValueError (''finding not found for task: '' @ fid))), w)
    | Some f \<Rightarrow> \<exists>d1. mark_human_non_fix i fid actor rationale w = (Inr (), w\<lparr>wd_db := d1\<rparr>)
        \<and> finding_closed i fid ''human_non_fix'' (wd_now w) (wd_db w) d1"
proof (cases "get_finding i fid (wd_db w)")
  case None
  then show ?thesis by (simp add: mark_human_non_fix_def wseq_def wbind_def close_raises)
next
  case (Some f)
  have "distinct (map fn_id (db_findings (wd_db w)))" using assms(1) by (simp add: keys_ok_def)
  from close_effect [OF this Some assms(2), of "''human_non_fix''"] show ?thesis
    by (simp add: Some mark_human_non_fix_def HUMAN_RESOLVED_STATUS_def)
qed











text \<open>Feedback works by storage operations, so it keeps what every reachable database satisfies.\<close>

lemma steps_recompute [steps_intros]: "keeps ((db_step b op)\<^sup>*\<^sup>* d0) (recompute_pass_ack i)"
  unfolding recompute_pass_ack_def by (intro keeps_intros steps_intros) simp_all

lemma steps_set_status [steps_intros]: "keeps ((db_step b op)\<^sup>*\<^sup>* d0) (set_status i fid s a m)"
  unfolding set_status_def by (intro keeps_intros keeps_steps_set step_finding_status)

lemma steps_session [steps_intros]:
  "keeps ((db_step b op)\<^sup>*\<^sup>* d0) (db_set (\<lambda>now d. Inr (finish_feedback_session fb s o' rp u now d)))"
  by (rule keeps_steps_set) (auto intro: step_feedback_end)

lemma steps_apply [steps_intros]: "keeps ((db_step b op)\<^sup>*\<^sup>* d0) (apply_feedback i fid fb msg r)"
  unfolding apply_feedback_def Let_def by (intro keeps_intros steps_intros)

lemma steps_human: "keeps ((db_step b op)\<^sup>*\<^sup>* d0) (mark_human_non_fix i fid actor msg)"
  unfolding mark_human_non_fix_def by (intro keeps_intros steps_intros keeps_steps_set step_finding_status)

lemma steps_submit: "keeps ((db_step b op)\<^sup>*\<^sup>* d0) (submit_finding_feedback env i fid msg fb)"
  unfolding submit_finding_feedback_def start_finding_feedback_def process_finding_feedback_def Let_def
  by (intro keeps_intros steps_intros keeps_steps_set step_feedback)

section \<open>Witnesses\<close>

text \<open>The claimed task with two findings; the second is already closed.\<close>

definition sample_found :: db where
  "sample_found = projr (create_finding ''t2'' None ''a.py'' (Some 1) ''high'' ''title'' ''detail'' None ''f1'' 40
     (projr (update_finding_status ''t2'' ''f2'' ''human_non_fix'' None None 40
       (projr (create_finding ''t2'' None ''a.py'' (Some 2) ''low'' ''title'' ''detail'' None ''f2'' 40 sample_db3)))))"

definition sample_feedback_world :: world where
  "sample_feedback_world = sample_world\<lparr>wd_db := sample_found\<rparr>"

lemma sample_found_facts:
  "keys_ok sample_found" "task_known sample_found ''t2''" "get_finding ''t2'' ''f1'' sample_found \<noteq> None"
  "\<not> others_open ''t2'' ''f1'' sample_found"
  by code_simp+

theorem human_non_fix_effect_witness:
  "\<exists>d1. mark_human_non_fix ''t2'' ''f1'' ''op'' ''by design'' sample_feedback_world = (Inr (), sample_feedback_world\<lparr>wd_db := d1\<rparr>)
    \<and> finding_closed ''t2'' ''f1'' ''human_non_fix'' 40 sample_found d1"
proof -
  have "keys_ok (wd_db sample_feedback_world)" "task_known (wd_db sample_feedback_world) ''t2''"
    using sample_found_facts by (simp_all add: sample_feedback_world_def)
  from human_non_fix_effect [OF this, of "''f1''" "''op''" "''by design''"] show ?thesis
    using sample_found_facts(3) by (auto simp: sample_feedback_world_def sample_world_def)
qed






end
