(* ===== verification/Task_Models.thy ===== *)
theory Task_Models
  imports Review_Models
begin

text \<open>
  The records of the task service, \<open>models.py\<close>: findings and analysis results, feedback threads, fix
  sessions, trigger requests with their validators, task records. Severities are those of the review
  models, whose texts are the same. An instant is whole seconds; an aware \<open>datetime\<close> is not told from it.
\<close>

section \<open>Findings and results\<close>

datatype record_status = LQueued | LRunning | LSuccess | LFailed

datatype finding_status = FS_Open | FS_Severity_Adjusted | FS_Resolved_False_Positive

fun record_status_text :: "record_status \<Rightarrow> string" where
  "record_status_text LQueued = ''queued''"
| "record_status_text LRunning = ''running''"
| "record_status_text LSuccess = ''success''"
| "record_status_text LFailed = ''failed''"

record model_finding =
  mf_file :: string
  mf_line :: "int option"
  mf_severity :: severity
  mf_title :: string
  mf_detail :: string
  mf_suggestion :: "string option"

text \<open>\<open>re.match(r"\s*(\d+)", value)\<close>: the leading digits of a text.\<close>

definition leading_digits :: "string \<Rightarrow> nat option" where
  "leading_digits s =
     (let ds = takeWhile py_isdigit (lstrip_by py_isspace s) in if ds = [] then None else Some (nat_of_digits ds))"

definition normalize_line :: "json \<Rightarrow> json" where
  "normalize_line v =
     (case v of
        JStr s \<Rightarrow> if s = [] then JNull else (case leading_digits s of Some n \<Rightarrow> JInt (int n) | None \<Rightarrow> v)
      | _ \<Rightarrow> v)"

record analysis_result =
  ar_summary :: string
  ar_pass :: bool
  ar_score :: int
  ar_findings :: "model_finding list"
  ar_raw :: "json_dict option"

section \<open>Feedback and fix sessions\<close>

datatype feedback_role = From_User | From_Model

record feedback_message =
  fm_role :: feedback_role
  fm_content :: string
  fm_created :: instant

record feedback_thread =
  ft_index :: int
  ft_status :: finding_status
  ft_severity :: "severity option"
  ft_pattern :: "string option"
  ft_messages :: "feedback_message list"
  ft_processing :: bool
  ft_updated :: instant

definition new_thread :: "int \<Rightarrow> instant \<Rightarrow> feedback_thread" where
  "new_thread i now =
     \<lparr>ft_index = i, ft_status = FS_Open, ft_severity = None, ft_pattern = None, ft_messages = [],
      ft_processing = False, ft_updated = now\<rparr>"

record general_feedback =
  gf_id :: string
  gf_content :: string
  gf_processing :: bool
  gf_confirmed :: "bool option"
  gf_reply :: "string option"
  gf_pattern :: "string option"
  gf_created :: instant
  gf_updated :: instant

datatype fix_stage =
  Scope_Confirmation | Plan_Confirmation | Fixing | Awaiting_User_Confirmation | Fix_Completed | Fix_Failed

fun fix_stage_text :: "fix_stage \<Rightarrow> string" where
  "fix_stage_text Scope_Confirmation = ''scope_confirmation''"
| "fix_stage_text Plan_Confirmation = ''plan_confirmation''"
| "fix_stage_text Fixing = ''fixing''"
| "fix_stage_text Awaiting_User_Confirmation = ''awaiting_user_confirmation''"
| "fix_stage_text Fix_Completed = ''completed''"
| "fix_stage_text Fix_Failed = ''failed''"

definition all_fix_stages :: "fix_stage list" where
  "all_fix_stages =
     [Scope_Confirmation, Plan_Confirmation, Fixing, Awaiting_User_Confirmation, Fix_Completed, Fix_Failed]"

text \<open>\<open>FixSessionStage(text)\<close>.\<close>

definition fix_stage_of_text :: "string \<Rightarrow> fix_stage py_result" where
  "fix_stage_of_text t =
     (case find (\<lambda>s. fix_stage_text s = t) all_fix_stages of
        Some s \<Rightarrow> Inr s
      | None \<Rightarrow> Inl (ValueError (repr_str t @ '' is not a valid FixSessionStage'')))"

record fix_session =
  fx_id :: string
  fx_selected :: "int list"
  fx_stage :: fix_stage
  fx_repo :: "string option"
  fx_branch :: "string option"
  fx_scope :: "string option"
  fx_plan :: "string option"
  fx_messages :: "feedback_message list"
  fx_processing :: bool
  fx_workspace :: "string option"
  fx_source_branch :: "string option"
  fx_mr :: "string option"
  fx_last :: "string option"
  fx_round :: nat
  fx_created :: instant
  fx_updated :: instant

section \<open>Trigger requests\<close>

record trigger_request =
  rq_app_name :: string
  rq_repo_url :: string
  rq_branch :: string
  rq_commit :: "string option"
  rq_callback_url :: "string option"
  rq_callback_token :: "string option"
  rq_pipeline :: "string option"
  rq_sprint :: "string option"
  rq_operator :: "string option"
  rq_source :: string
  rq_metadata :: json_dict
  rq_ci_task :: "string option"
  rq_ci_record :: "string option"
  rq_ci_parent :: "string option"
  rq_ci_template :: "string option"

definition FORBIDDEN_REF_PARTS :: "string list" where
  "FORBIDDEN_REF_PARTS = [''..'', ''~'', ''^'', '':'', ''?'', ''*'', ''['', [CHR 0x5C], [CHR ''@'', CHR 0x7B], ''//'']"

definition validate_git_ref :: "string \<Rightarrow> string \<Rightarrow> unit py_result" where
  "validate_git_ref value field_name =
     (if value = [] \<or> startswith value ''-'' then Inl (ValueError (''unsafe git '' @ field_name))
      else if list_ex (\<lambda>c. (of_char c :: int) < 32 \<or> py_isspace c) value then Inl (ValueError (''unsafe git '' @ field_name))
      else if list_ex (\<lambda>p. contains value p) FORBIDDEN_REF_PARTS then Inl (ValueError (''unsafe git '' @ field_name))
      else Inr ())"

definition non_empty :: "string \<Rightarrow> string py_result" where
  "non_empty value = (let v = py_strip value in if v = [] then Inl (ValueError ''must not be empty'') else Inr v)"

definition safe_branch :: "string \<Rightarrow> string py_result" where
  "safe_branch value =
     bind_r (validate_git_ref value ''branch'') (\<lambda>_.
       (let branch = removeprefix ''origin/'' value
        in if startswith branch ''/'' \<or> endswith branch ''/'' \<or> endswith branch ''.'' \<or> endswith branch ''.lock''
           then Inl (ValueError ''unsafe git branch'') else Inr value))"

definition safe_commit_id :: "string option \<Rightarrow> string option py_result" where
  "safe_commit_id value =
     (case value of
        None \<Rightarrow> Inr None
      | Some v \<Rightarrow>
          (let v = py_strip v
           in if v = [] then Inr None else bind_r (validate_git_ref v ''commit_id'') (\<lambda>_. Inr (Some v))))"

text \<open>\<open>urlparse\<close>, as far as the validator reads it: tabs and line ends are removed, a scheme is what
  precedes the first colon when it begins with a letter and has only letters, digits and \<open>+-.\<close>; the
  network location follows \<open>//\<close> up to one of \<open>/?#\<close>, the host the last \<open>@\<close> in it up to a colon, or what is
  between brackets (which is taken as it is).\<close>

definition url_scheme :: "string \<Rightarrow> (string \<times> string) option" where
  "url_scheme u =
     (case cut_first CHR '':'' u of
        Some (c # s, rest) \<Rightarrow>
          if py_isalpha c \<and> (\<forall>d \<in> set (c # s). py_isalnum d \<or> d \<in> set ''+-.'') then Some (py_lower (c # s), rest) else None
      | _ \<Rightarrow> None)"

definition url_netloc :: "string \<Rightarrow> string" where
  "url_netloc rest = (if startswith rest ''//'' then takeWhile (\<lambda>c. c \<notin> set ''/?#'') (drop 2 rest) else [])"

definition url_hostname :: "string \<Rightarrow> string" where
  "url_hostname netloc =
     (let hostinfo = rev (takeWhile (\<lambda>c. c \<noteq> CHR ''@'') (rev netloc))
      in (case cut_first CHR ''['' hostinfo of
            Some (_, bracketed) \<Rightarrow> takeWhile (\<lambda>c. c \<noteq> CHR '']'') bracketed
          | None \<Rightarrow> takeWhile (\<lambda>c. c \<noteq> CHR '':'') hostinfo))"

text \<open>\<open>^[A-Za-z0-9._-]+@[A-Za-z0-9.-]+:[^\\\s]+$\<close>.\<close>

definition scp_like_url :: "string \<Rightarrow> bool" where
  "scp_like_url u \<longleftrightarrow>
     (case cut_first CHR ''@'' u of
        Some (user, rest) \<Rightarrow>
          (case cut_first CHR '':'' rest of
             Some (host, path) \<Rightarrow>
               user \<noteq> [] \<and> list_all (\<lambda>c. py_isalnum c \<or> c \<in> set ''._-'') user \<and>
               host \<noteq> [] \<and> list_all (\<lambda>c. py_isalnum c \<or> c \<in> set ''.-'') host \<and>
               path \<noteq> [] \<and> list_all (\<lambda>c. c \<noteq> CHR 0x5C \<and> \<not> py_isspace c) path
           | None \<Rightarrow> False)
      | None \<Rightarrow> False)"

definition safe_repo_url :: "string \<Rightarrow> string py_result" where
  "safe_repo_url value =
     (if startswith value ''-'' then Inl (ValueError ''unsafe git repo_url'')
      else (let url = filter (\<lambda>c. c \<notin> {CHR 0x09, CHR 0x0A, CHR 0x0D}) (lstrip_by (\<lambda>c. (of_char c :: int) \<le> 32) value)
            in (case url_scheme url of
                  Some (scheme, rest) \<Rightarrow>
                    if scheme \<noteq> ''https'' \<and> scheme \<noteq> ''ssh'' then Inl (ValueError ''unsupported git repo_url scheme'')
                    else if (CHR ''['' \<in> set (url_netloc rest)) \<noteq> (CHR '']'' \<in> set (url_netloc rest)) then Inl (ValueError ''Invalid IPv6 URL'')
                    else if url_hostname (url_netloc rest) = [] then Inl (ValueError ''git repo_url host is required'')
                    else Inr value
                | None \<Rightarrow> if scp_like_url value then Inr value else Inl (ValueError ''unsupported git repo_url format''))))"

text \<open>The validators of a request, in the order they are declared.\<close>

definition validate_request :: "trigger_request \<Rightarrow> trigger_request py_result" where
  "validate_request r =
     bind_r (non_empty (rq_app_name r)) (\<lambda>app.
     bind_r (bind_r (non_empty (rq_repo_url r)) safe_repo_url) (\<lambda>url.
     bind_r (bind_r (non_empty (rq_branch r)) safe_branch) (\<lambda>branch.
     bind_r (safe_commit_id (rq_commit r)) (\<lambda>commit.
       Inr (r\<lparr>rq_app_name := app, rq_repo_url := url, rq_branch := branch, rq_commit := commit\<rparr>)))))"

text \<open>\<open>from_ci_payload\<close>: the first value that is not \<open>None\<close>, from the attribute or the payload itself. What
  pydantic asks of the values: a text where a text is declared, a dict for the metadata.\<close>

definition pick_value :: "json list \<Rightarrow> json" where
  "pick_value vs = (case find (\<lambda>v. v \<noteq> JNull) vs of Some v \<Rightarrow> v | None \<Rightarrow> JNull)"

definition str_or_null :: "json \<Rightarrow> json" where
  "str_or_null v = (if v = JNull then JNull else JStr (py_str v))"

fun str_field :: "json \<Rightarrow> string py_result" where
  "str_field (JStr s) = Inr s"
| "str_field _ = Inl (ValueError ''Input should be a valid string'')"

fun opt_str_field :: "json \<Rightarrow> string option py_result" where
  "opt_str_field JNull = Inr None"
| "opt_str_field (JStr s) = Inr (Some s)"
| "opt_str_field _ = Inl (ValueError ''Input should be a valid string'')"

fun dict_field :: "json \<Rightarrow> json_dict py_result" where
  "dict_field (JObj d) = Inr d"
| "dict_field _ = Inl (ValueError ''Input should be a valid dictionary'')"

definition attribute_of :: "json_dict \<Rightarrow> json_dict py_result" where
  "attribute_of payload =
     (case py_or (dget payload ''attribute'') (JObj []) of
        JObj d \<Rightarrow> Inr d
      | _ \<Rightarrow> Inl (AttributeError ''object has no attribute 'get' ''))"

definition from_ci_payload :: "json_dict \<Rightarrow> trigger_request py_result" where
  "from_ci_payload payload =
     bind_r (attribute_of payload) (\<lambda>a.
     bind_r (str_field (pick_value [dget a ''appName'', dget payload ''appName''])) (\<lambda>app.
     bind_r (str_field (pick_value [dget a ''gitUrl'', dget a ''gitRepositoryPath'', dget payload ''gitUrl'',
               dget payload ''gitRepositoryPath''])) (\<lambda>url.
     bind_r (str_field (pick_value [dget a ''branch'', dget payload ''branch''])) (\<lambda>branch.
     bind_r (opt_str_field (str_or_null (pick_value [dget a ''taskId'', dget payload ''taskId'']))) (\<lambda>task.
     bind_r (opt_str_field (str_or_null (pick_value [dget a ''recordId'', dget payload ''recordId'']))) (\<lambda>record_id.
     bind_r (opt_str_field (str_or_null (pick_value [dget a ''parentId'', dget payload ''parentId'']))) (\<lambda>parent.
     bind_r (opt_str_field (str_or_null (pick_value [dget a ''taskTemplateId'', dget payload ''taskTemplateId'']))) (\<lambda>template.
     bind_r (opt_str_field (pick_value [dget payload ''operator'', dget a ''operator''])) (\<lambda>operator.
     bind_r (str_field (pick_value [dget payload ''trigger_source'', dget a ''trigger_source'', JStr ''ci''])) (\<lambda>source.
     bind_r (dict_field (py_or (dget payload ''data'') (JObj []))) (\<lambda>data.
       validate_request
         \<lparr>rq_app_name = app, rq_repo_url = url, rq_branch = branch, rq_commit = None, rq_callback_url = None,
          rq_callback_token = None, rq_pipeline = None, rq_sprint = None, rq_operator = operator, rq_source = source,
          rq_metadata = data, rq_ci_task = task, rq_ci_record = record_id, rq_ci_parent = parent,
          rq_ci_template = template\<rparr>)))))))))))"

text \<open>A reference a request carries cannot be read as an option of git, cannot leave the reference name
  space and holds no white space.\<close>

definition ref_safe :: "string \<Rightarrow> bool" where
  "ref_safe v \<longleftrightarrow> v \<noteq> [] \<and> hd v \<noteq> CHR ''-'' \<and> list_all (\<lambda>c. \<not> py_isspace c) v \<and> \<not> contains v ''..''"

lemma validate_git_ref_safe: "validate_git_ref v f = Inr u \<Longrightarrow> ref_safe v"
  unfolding validate_git_ref_def ref_safe_def FORBIDDEN_REF_PARTS_def
  by (cases v) (auto split: if_split_asm simp: list_all_iff list_ex_iff)

lemma strip_fixed_head:
  assumes "py_strip v \<noteq> []" shows "\<not> py_isspace (hd (py_strip v))"
  using assms unfolding py_strip_def lstrip_by_def by (simp add: hd_dropWhile)

text \<open>What a validated request promises the code that passes its fields to git.\<close>

definition request_safe :: "trigger_request \<Rightarrow> bool" where
  "request_safe r \<longleftrightarrow>
     rq_app_name r \<noteq> [] \<and> rq_repo_url r \<noteq> [] \<and> hd (rq_repo_url r) \<noteq> CHR ''-'' \<and> ref_safe (rq_branch r)
     \<and> (case rq_commit r of None \<Rightarrow> True | Some c \<Rightarrow> ref_safe c)"

lemma safe_repo_url_Inr: "safe_repo_url v = Inr u \<Longrightarrow> u = v \<and> \<not> startswith v ''-''"
  unfolding safe_repo_url_def by (auto simp: Let_def split: if_splits option.splits prod.splits)

lemma safe_branch_Inr: "safe_branch v = Inr b \<Longrightarrow> b = v \<and> ref_safe b"
  unfolding safe_branch_def by (auto simp: bind_r_Inr Let_def split: if_splits dest: validate_git_ref_safe)

lemma safe_commit_Inr: "safe_commit_id v = Inr c \<Longrightarrow> (case c of None \<Rightarrow> True | Some c \<Rightarrow> ref_safe c)"
  unfolding safe_commit_id_def by (auto simp: bind_r_Inr Let_def split: if_splits option.splits dest: validate_git_ref_safe)

lemma non_empty_Inr: "non_empty v = Inr w \<Longrightarrow> w \<noteq> []"
  unfolding non_empty_def by (auto simp: Let_def split: if_splits)

lemma validate_request_safe: "validate_request r = Inr r1 \<Longrightarrow> request_safe r1"
  unfolding validate_request_def request_safe_def
  by (auto simp: bind_r_Inr dest!: safe_repo_url_Inr safe_branch_Inr safe_commit_Inr non_empty_Inr)
    (metis startswith_Cons(2) startswith_Nil list.collapse)

lemma from_ci_payload_safe: "from_ci_payload p = Inr r \<Longrightarrow> request_safe r"
  unfolding from_ci_payload_def by (auto simp: bind_r_Inr dest: validate_request_safe)

text \<open>Validation keeps what it accepted: a record written to its file is read back with its request.\<close>

lemma strip_idem: "py_strip (py_strip v) = py_strip v"
proof -
  let ?r = "rstrip_by py_isspace v"
  have "py_strip v = [] \<or> \<not> py_isspace (last (py_strip v))"
  proof (cases "?r = []")
    case False
    then have l: "\<not> py_isspace (last ?r)"
      using hd_dropWhile [of py_isspace "rev v"] by (simp add: rstrip_by_def last_rev)
    then have "last (py_strip v) = last ?r"
      unfolding py_strip_def lstrip_by_def using False by (intro dropWhile_last [of "last ?r"]) simp_all
    then show ?thesis using l by simp
  qed (simp add: py_strip_def lstrip_by_def)
  then have "rstrip_by py_isspace (py_strip v) = py_strip v"
    by (cases "py_strip v" rule: rev_cases) (auto simp: rstrip_by_def)
  then show ?thesis
    by (simp add: py_strip_def [of "py_strip v"]) (simp add: py_strip_def lstrip_by_def)
qed

lemma non_empty_again: "non_empty v = Inr w \<Longrightarrow> non_empty w = Inr w"
  unfolding non_empty_def by (auto simp: Let_def strip_idem split: if_splits)

lemma safe_commit_again: "safe_commit_id v = Inr c \<Longrightarrow> safe_commit_id c = Inr c"
  unfolding safe_commit_id_def by (auto simp: Let_def bind_r_Inr strip_idem split: option.splits if_splits)

lemma validate_again:
  assumes "validate_request r = Inr r1" shows "validate_request r1 = Inr r1"
proof -
  obtain app url0 url branch0 branch commit where v: "non_empty (rq_app_name r) = Inr app" "non_empty (rq_repo_url r) = Inr url0"
    "safe_repo_url url0 = Inr url" "non_empty (rq_branch r) = Inr branch0" "safe_branch branch0 = Inr branch"
    "safe_commit_id (rq_commit r) = Inr commit"
    and r1: "r1 = r\<lparr>rq_app_name := app, rq_repo_url := url, rq_branch := branch, rq_commit := commit\<rparr>"
    using assms unfolding validate_request_def by (auto simp: bind_r_Inr)
  have same: "url0 = url" "branch0 = branch" using safe_repo_url_Inr [OF v(3)] safe_branch_Inr [OF v(5)] by simp_all
  note again = non_empty_again [OF v(1)] non_empty_again [OF v(2)] v(3) non_empty_again [OF v(4)] v(5) safe_commit_again [OF v(6)]
  show ?thesis
    unfolding r1 validate_request_def by (simp add: again [unfolded same])
qed

text \<open>C28: a request accepted from a CI payload is of the type its users rely on: a name, an address and a branch
  that are not empty, no text git could take for an option, no white space and no dots in a row in a branch or
  commit; and validating it again, as reading its record does, accepts it unchanged.\<close>

theorem accepted_request_typed:
  assumes "from_ci_payload payload = Inr r"
  shows "request_safe r \<and> validate_request r = Inr r"
  using from_ci_payload_safe [OF assms] assms unfolding from_ci_payload_def by (auto simp: bind_r_Inr dest: validate_again)

definition sample_payload :: json_dict where
  "sample_payload =
     [(''attribute'', JObj [(''appName'', JStr '' app ''), (''gitUrl'', JStr ''git@h:g/r.git''), (''taskId'', JInt 7)]),
      (''branch'', JStr ''origin/main'')]"

theorem accepted_request_typed_witness:
  "\<exists>r. from_ci_payload sample_payload = Inr r \<and> request_safe r \<and> rq_app_name r = ''app'' \<and> rq_ci_task r = Some ''7''"
proof -
  have "case from_ci_payload sample_payload of Inr r \<Rightarrow> rq_app_name r = ''app'' \<and> rq_ci_task r = Some ''7'' | Inl _ \<Rightarrow> False"
    by code_simp
  then show ?thesis using accepted_request_typed [of sample_payload] by (auto split: sum.splits)
qed
section \<open>Task records\<close>

record task_record =
  lr_id :: string
  lr_status :: record_status
  lr_request :: trigger_request
  lr_created :: instant
  lr_updated :: instant
  lr_started :: "instant option"
  lr_finished :: "instant option"
  lr_attempts :: nat
  lr_error :: "string option"
  lr_report_url :: "string option"
  lr_report_file :: "string option"
  lr_result :: "analysis_result option"
  lr_sessions :: "string list"
  lr_callbacks :: "json list"
  lr_callback_ok :: bool
  lr_callback_digest :: "string option"

definition new_record :: "string \<Rightarrow> trigger_request \<Rightarrow> instant \<Rightarrow> task_record" where
  "new_record i rq now =
     \<lparr>lr_id = i, lr_status = LQueued, lr_request = rq, lr_created = now, lr_updated = now, lr_started = None,
      lr_finished = None, lr_attempts = 0, lr_error = None, lr_report_url = None, lr_report_file = None,
      lr_result = None, lr_sessions = [], lr_callbacks = [], lr_callback_ok = False, lr_callback_digest = None\<rparr>"

definition touch :: "instant \<Rightarrow> task_record \<Rightarrow> task_record" where
  "touch now r = r\<lparr>lr_updated := now\<rparr>"

end
