(* ===== verification/Task_Store.thy ===== *)
theory Task_Store
  imports Task_Models Interfaces "HOL-Library.AList" "HOL-Library.List_Lexorder"
begin

text \<open>
  The task store, \<open>core/storage.py\<close>: one JSON file per task under the root directory and a cache of the
  records read or written. \<open>model_dump_json\<close> and \<open>model_validate\<close> are the two fields of a codec; that
  reading what was written gives the record back is the hypothesis \<open>codec_ok\<close>. A file is replaced as a
  whole, so a reader sees a whole text. Errors of the file system are not modelled.
\<close>

record codec =
  cd_dump :: "task_record \<Rightarrow> string"
  cd_load :: "string \<Rightarrow> task_record py_result"

definition codec_ok :: "codec \<Rightarrow> bool" where
  "codec_ok c \<longleftrightarrow> (\<forall>r. cd_load c (cd_dump c r) = Inr r)"

record task_store =
  ts_cache :: "(string \<times> task_record) list"
  ts_files :: "(string \<times> string) list"

definition empty_store :: "(string \<times> string) list \<Rightarrow> task_store" where
  "empty_store files = \<lparr>ts_cache = [], ts_files = files\<rparr>"

text \<open>\<open>_load_record\<close>: three readings of the file; only a text that is no JSON is read again.\<close>

fun load_attempts :: "codec \<Rightarrow> string list \<Rightarrow> py_exc option \<Rightarrow> task_record py_result" where
  "load_attempts c [] last_error =
     Inl (case last_error of Some e \<Rightarrow> e | None \<Rightarrow> RuntimeError ''failed to load task file'')"
| "load_attempts c (t # ts) last_error =
     (case cd_load c t of
        Inl (JSONDecodeError m) \<Rightarrow> load_attempts c ts (Some (JSONDecodeError m))
      | r \<Rightarrow> r)"

definition load_record :: "codec \<Rightarrow> string \<Rightarrow> task_record py_result" where
  "load_record c t = load_attempts c [t, t, t] None"

definition save_task :: "codec \<Rightarrow> instant \<Rightarrow> task_record \<Rightarrow> task_store \<Rightarrow> task_store" where
  "save_task c now r st =
     (let r = touch now r
      in st\<lparr>ts_cache := AList.update (lr_id r) r (ts_cache st),
            ts_files := AList.update (lr_id r) (cd_dump c r) (ts_files st)\<rparr>)"

definition get_task_record :: "codec \<Rightarrow> string \<Rightarrow> task_store \<Rightarrow> task_record option py_result \<times> task_store" where
  "get_task_record c i st =
     (case map_of (ts_cache st) i of
        Some r \<Rightarrow> (Inr (Some r), st)
      | None \<Rightarrow>
          (case map_of (ts_files st) i of
             None \<Rightarrow> (Inr None, st)
           | Some t \<Rightarrow>
               (case load_record c t of
                  Inl e \<Rightarrow> (Inl e, st)
                | Inr r \<Rightarrow> (Inr (Some r), st\<lparr>ts_cache := AList.update i r (ts_cache st)\<rparr>))))"

text \<open>\<open>list_all\<close>: the files in the order of their names.\<close>

definition file_order :: "task_store \<Rightarrow> string list" where
  "file_order st = sort_key (\<lambda>i. i @ ''.json'') (map fst (ts_files st))"

fun list_records :: "codec \<Rightarrow> string list \<Rightarrow> task_record list \<Rightarrow> task_store \<Rightarrow> task_record list py_result \<times> task_store" where
  "list_records c [] acc st = (Inr acc, st)"
| "list_records c (i # is) acc st =
     (case get_task_record c i st of
        (Inl e, st1) \<Rightarrow> (Inl e, st1)
      | (Inr None, st1) \<Rightarrow> list_records c is acc st1
      | (Inr (Some r), st1) \<Rightarrow> list_records c is (acc @ [r]) st1)"

definition list_all_tasks :: "codec \<Rightarrow> task_store \<Rightarrow> task_record list py_result \<times> task_store" where
  "list_all_tasks c st = list_records c (file_order st) [] st"

definition delete_task :: "string \<Rightarrow> task_store \<Rightarrow> task_store" where
  "delete_task i st = st\<lparr>ts_cache := AList.delete i (ts_cache st), ts_files := AList.delete i (ts_files st)\<rparr>"

section \<open>The store answers what was saved last\<close>

text \<open>The record a \<open>get\<close> would return.\<close>

definition stored :: "codec \<Rightarrow> task_store \<Rightarrow> string \<Rightarrow> task_record option" where
  "stored c st i = (case fst (get_task_record c i st) of Inr v \<Rightarrow> v | Inl _ \<Rightarrow> None)"

lemma map_of_update [simp]: "map_of (AList.update k v xs) = (map_of xs)(k \<mapsto> v)"
  by (rule ext) (simp add: AList.update_conv')

lemma map_of_delete [simp]: "map_of (AList.delete k xs) = (map_of xs)(k := None)"
  by (rule ext) (simp add: AList.delete_conv')

lemma load_record_dump: "codec_ok c \<Longrightarrow> load_record c (cd_dump c r) = Inr r"
  by (simp add: codec_ok_def load_record_def)

text \<open>A reload gives what the codec gives: the retries change an answer into no other.\<close>

lemma load_record_once: "load_record c t = cd_load c t"
  by (cases "cd_load c t" rule: sum.exhaust) (simp_all add: load_record_def split: py_exc.split)

lemma stored_cached: "map_of (ts_cache st) i = Some r \<Longrightarrow> stored c st i = Some r"
  by (simp add: stored_def get_task_record_def)

lemma stored_save: "stored c (save_task c now r st) k = (if k = lr_id r then Some (touch now r) else stored c st k)"
  by (simp add: stored_def save_task_def get_task_record_def Let_def touch_def split: option.split sum.split)

lemma stored_delete: "stored c (delete_task i st) k = (if k = i then None else stored c st k)"
  by (simp add: stored_def delete_task_def get_task_record_def split: option.split sum.split)

interpretation store: keyed_store "stored c" "save_task c now" "delete_task" lr_id "touch now" for c now
  by unfold_locales (simp_all add: stored_save stored_delete touch_def)

lemma stored_get: "stored c (snd (get_task_record c i st)) k = stored c st k"
  by (auto simp: stored_def get_task_record_def split: option.split sum.split)

lemma fst_get: "fst (get_task_record c i st) = Inr v \<Longrightarrow> v = stored c st i"
  by (simp add: stored_def)

section \<open>Restart\<close>

text \<open>Every file holds the record in the cache, so a process that starts anew on the files sees the
  records the old one had.\<close>

definition files_current :: "codec \<Rightarrow> task_store \<Rightarrow> bool" where
  "files_current c st \<longleftrightarrow> (\<forall>i r. map_of (ts_cache st) i = Some r \<longrightarrow>
     (\<exists>t. map_of (ts_files st) i = Some t \<and> cd_load c t = Inr r))"

lemma files_current_empty: "files_current c (empty_store files)"
  by (simp add: files_current_def empty_store_def)

lemma files_current_save: "codec_ok c \<Longrightarrow> files_current c st \<Longrightarrow> files_current c (save_task c now r st)"
  by (simp add: files_current_def save_task_def Let_def codec_ok_def)

lemma files_current_delete: "files_current c st \<Longrightarrow> files_current c (delete_task i st)"
  by (simp add: files_current_def delete_task_def)

lemma files_current_get: "files_current c st \<Longrightarrow> files_current c (snd (get_task_record c i st))"
  by (auto simp: files_current_def get_task_record_def load_record_once split: option.split sum.split)

lemma stored_restart: "files_current c st \<Longrightarrow> stored c (empty_store (ts_files st)) i = stored c st i"
proof (cases "map_of (ts_cache st) i")
  case (Some r)
  moreover assume "files_current c st"
  ultimately obtain t where "map_of (ts_files st) i = Some t" "cd_load c t = Inr r"
    by (auto simp: files_current_def)
  with Some show ?thesis
    by (simp add: stored_def get_task_record_def empty_store_def load_record_once)
qed (simp add: stored_def get_task_record_def empty_store_def split: option.split sum.split)

section \<open>Listing\<close>

lemma list_records_inv:
  assumes "P st" and "\<And>st j. P st \<Longrightarrow> P (snd (get_task_record c j st))"
  shows "P (snd (list_records c is acc st))"
  using assms(1)
proof (induction "is" arbitrary: acc st)
  case (Cons j "is")
  obtain v st2 where v: "get_task_record c j st = (v, st2)" by fastforce
  with assms(2) [OF Cons.prems, of j] have "P st2" by simp
  with Cons.IH v show ?case by (auto split: sum.split option.split)
qed simp

lemma files_get [simp]: "ts_files (snd (get_task_record c j st)) = ts_files st"
  by (auto simp: get_task_record_def split: option.split sum.split)

lemma files_list [simp]: "ts_files (snd (list_records c is acc st)) = ts_files st"
  by (rule list_records_inv [where P = "\<lambda>s. ts_files s = ts_files st"]) simp_all

lemma stored_list: "stored c (snd (list_records c is acc st)) k = stored c st k"
  by (rule list_records_inv [where P = "\<lambda>s. stored c s k = stored c st k"]) (simp_all add: stored_get)

lemma files_current_list: "files_current c st \<Longrightarrow> files_current c (snd (list_records c is acc st))"
  by (rule list_records_inv) (simp_all add: files_current_get)

lemma list_records_value:
  "list_records c is acc st = (Inr rs, st1) \<Longrightarrow> rs = acc @ List.map_filter (stored c st) is"
proof (induction c "is" acc st rule: list_records.induct)
  case (2 c i "is" acc st)
  obtain v st2 where v: "get_task_record c i st = (v, st2)" by fastforce
  have s: "stored c st2 = stored c st" using stored_get [of c i st] v by (simp add: fun_eq_iff)
  show ?case
  proof (cases v)
    case (Inr o')
    then have "stored c st i = o'" using fst_get [of c i st] v by simp
    with 2 v s Inr show ?thesis
      by (cases o') (simp_all add: List.map_filter_simps)
  qed (use 2 v in simp)
qed (simp add: List.map_filter_simps)

text \<open>\<open>list_all\<close> returns the stored records in the order of the file names.\<close>

lemma list_all_value:
  "list_all_tasks c st = (Inr rs, st1) \<Longrightarrow> rs = List.map_filter (stored c st) (file_order st)"
  unfolding list_all_tasks_def by (drule list_records_value) simp

lemma stored_list_all: "stored c (snd (list_all_tasks c st)) k = stored c st k"
  unfolding list_all_tasks_def by (rule stored_list)

lemma files_list_all [simp]: "ts_files (snd (list_all_tasks c st)) = ts_files st"
  by (simp add: list_all_tasks_def)

lemma set_file_order: "set (file_order st) = fst ` set (ts_files st)"
  by (simp add: file_order_def)

end
