(* ===== verification/Task_Report.thy ===== *)
theory Task_Report
  imports Task_Models "HOL-Library.Multiset"
begin

text \<open>
  What the task service says of findings, \<open>core/service.py\<close>: the normalised result of an analysis, its score
  and summary, the effective state of a report under the feedback on its findings, and the link of a
  finding (\<open>core/reporting.py\<close>). Texts that are not ASCII are written as the bytes of their UTF-8 encoding;
  what the comment beside a constant shows is its reading.
\<close>

section \<open>Texts\<close>

text \<open>"in this change, in all" / "reviewed" / "files that are no tests" / "no blocking problem found".\<close>

definition summary_intro :: string where
  "summary_intro =
     [CHR 0xE6, CHR 0x9C, CHR 0xAC, CHR 0xE6, CHR 0xAC, CHR 0xA1, CHR 0xE5, CHR 0x8F, CHR 0x98, CHR 0xE6, CHR 0x9B, CHR
     0xB4]"

definition reviewed_text :: string where
  "reviewed_text =
     [CHR 0xE5, CHR 0x85, CHR 0xB1, CHR 0xE5, CHR 0xAE, CHR 0xA1, CHR 0xE6, CHR 0x9F, CHR 0xA5]"

definition files_text :: string where
  "files_text =
     [CHR 0xE4, CHR 0xB8, CHR 0xAA, CHR 0xE9, CHR 0x9D, CHR 0x9E, CHR 0xE6, CHR 0xB5, CHR 0x8B, CHR 0xE8, CHR 0xAF, CHR
     0x95, CHR 0xE6, CHR 0x96, CHR 0x87, CHR 0xE4, CHR 0xBB, CHR 0xB6]"

definition no_problem_text :: string where
  "no_problem_text =
     [CHR 0xEF, CHR 0xBC, CHR 0x8C, CHR 0xE6, CHR 0x9C, CHR 0xAA, CHR 0xE5, CHR 0x8F, CHR 0x91, CHR 0xE7, CHR 0x8E, CHR
     0xB0, CHR 0xE9, CHR 0x98, CHR 0xBB, CHR 0xE6, CHR 0x96, CHR 0xAD, CHR 0xE5, CHR 0x8F, CHR 0x91, CHR 0xE5, CHR 0xB8,
     CHR 0x83, CHR 0xE7, CHR 0x9A, CHR 0x84, CHR 0xE9, CHR 0x97, CHR 0xAE, CHR 0xE9, CHR 0xA2, CHR 0x98, CHR 0xE3, CHR
     0x80, CHR 0x82]"

text \<open>", found" / "problems, " / "of which" / "piece" / the comma and the full stop.\<close>

definition found_text :: string where
  "found_text =
     [CHR 0xEF, CHR 0xBC, CHR 0x8C, CHR 0xE5, CHR 0x8F, CHR 0x91, CHR 0xE7, CHR 0x8E, CHR 0xB0]"

definition problems_text :: string where
  "problems_text =
     [CHR 0xE4, CHR 0xB8, CHR 0xAA, CHR 0xE9, CHR 0x97, CHR 0xAE, CHR 0xE9, CHR 0xA2, CHR 0x98, CHR 0xEF, CHR 0xBC, CHR
     0x8C]"

definition of_which_text :: string where
  "of_which_text =
     [CHR 0xE5, CHR 0x85, CHR 0xB6, CHR 0xE4, CHR 0xB8, CHR 0xAD]"

definition piece_text :: string where
  "piece_text =
     [CHR 0xE4, CHR 0xB8, CHR 0xAA]"

definition wide_comma :: string where
  "wide_comma =
     [CHR 0xEF, CHR 0xBC, CHR 0x8C]"

definition wide_stop :: string where
  "wide_stop =
     [CHR 0xE3, CHR 0x80, CHR 0x82]"

text \<open>"open" / "severity adjusted" / "resolved: the model misjudged".\<close>

definition label_open :: string where
  "label_open =
     [CHR 0xE5, CHR 0xBE, CHR 0x85, CHR 0xE5, CHR 0xA4, CHR 0x84, CHR 0xE7, CHR 0x90, CHR 0x86]"

definition label_adjusted :: string where
  "label_adjusted =
     [CHR 0xE7, CHR 0xBA, CHR 0xA7, CHR 0xE5, CHR 0x88, CHR 0xAB, CHR 0xE5, CHR 0xB7, CHR 0xB2, CHR 0xE8, CHR 0xB0, CHR
     0x83, CHR 0xE6, CHR 0x95, CHR 0xB4]"

definition label_resolved :: string where
  "label_resolved =
     [CHR 0xE5, CHR 0xB7, CHR 0xB2, CHR 0xE8, CHR 0xA7, CHR 0xA3, CHR 0xE5, CHR 0x86, CHR 0xB3, CHR 0x2D, CHR 0xE6, CHR
     0xA8, CHR 0xA1, CHR 0xE5, CHR 0x9E, CHR 0x8B, CHR 0xE8, CHR 0xAF, CHR 0xAF, CHR 0xE5, CHR 0x88, CHR 0xA4]"

section \<open>The normalised result\<close>

definition is_test_file :: "string \<Rightarrow> bool" where
  "is_test_file path =
     (let lowered = py_lower path
      in contains lowered ''/src/test/'' \<or> contains lowered ''/src/main/test/'' \<or> endswith lowered ''test.java''
         \<or> endswith lowered ''tests.java'' \<or> endswith lowered ''it.java'')"

fun penalty :: "severity \<Rightarrow> int" where
  "penalty Fatal = 30"
| "penalty High = 15"
| "penalty Medium = 8"
| "penalty Low = 3"
| "penalty Info = 0"

definition calculate_score :: "model_finding list \<Rightarrow> int" where
  "calculate_score fs = max (100 - sum_list (map (\<lambda>f. penalty (mf_severity f)) fs)) 0"

definition severity_count :: "severity \<Rightarrow> model_finding list \<Rightarrow> nat" where
  "severity_count s fs = count_where (\<lambda>f. mf_severity f = s) fs"

definition summary_parts :: "model_finding list \<Rightarrow> string list" where
  "summary_parts fs =
     map (\<lambda>s. severity_text s @ '' '' @ str_nat (severity_count s fs) @ '' '' @ piece_text)
       (filter (\<lambda>s. severity_count s fs \<noteq> 0) all_severities)"

definition build_summary :: "model_finding list \<Rightarrow> nat \<Rightarrow> string" where
  "build_summary fs n =
     summary_intro @ reviewed_text @ '' '' @ str_nat n @ '' '' @ files_text @
     (if fs = [] then no_problem_text
      else found_text @ '' '' @ str_nat (length fs) @ '' '' @ problems_text @ of_which_text @ '' ''
        @ join wide_comma (summary_parts fs) @ wide_stop)"

definition passes :: "model_finding list \<Rightarrow> bool" where
  "passes fs \<longleftrightarrow> severity_count Fatal fs = 0 \<and> severity_count High fs = 0"

text \<open>\<open>allowed\<close> is the list of changed files of the review context, \<open>None\<close> when the context has none.\<close>

definition kept_findings :: "string list option \<Rightarrow> model_finding list \<Rightarrow> model_finding list" where
  "kept_findings allowed fs =
     filter (\<lambda>f. \<not> is_test_file (mf_file f) \<and> (case allowed of None \<Rightarrow> True | Some a \<Rightarrow> mf_file f \<in> set a)) fs"

definition normalize_result :: "analysis_result \<Rightarrow> string list option \<Rightarrow> analysis_result" where
  "normalize_result result allowed =
     (let files = remdups (case allowed of None \<Rightarrow> [] | Some a \<Rightarrow> a); fs = kept_findings allowed (ar_findings result)
      in \<lparr>ar_summary = build_summary fs (length files), ar_pass = passes fs, ar_score = calculate_score fs,
          ar_findings = fs, ar_raw = ar_raw result\<rparr>)"

section \<open>The number of files read back from a summary\<close>

text \<open>The search for "reviewed", a number and "files that are no tests", with white space around the number.\<close>

definition match_file_count :: "string \<Rightarrow> nat option" where
  "match_file_count s =
     (if \<not> startswith s reviewed_text then None
      else (let r = lstrip_by py_isspace (drop (length reviewed_text) s); ds = takeWhile py_isdigit r
            in if ds = [] then None
               else if startswith (lstrip_by py_isspace (drop (length ds) r)) files_text then Some (nat_of_digits ds)
               else None))"

fun search_file_count :: "string \<Rightarrow> nat option" where
  "search_file_count [] = match_file_count []"
| "search_file_count (c # s) =
     (case match_file_count (c # s) of Some n \<Rightarrow> Some n | None \<Rightarrow> search_file_count s)"

definition summary_changed_file_count :: "string \<Rightarrow> nat \<Rightarrow> nat" where
  "summary_changed_file_count summary fallback =
     (case search_file_count summary of Some n \<Rightarrow> n | None \<Rightarrow> fallback)"

section \<open>The link of a finding\<close>

text \<open>The path of a repository without a final \<open>.git\<close>, which \<open>.+?(?:\.git)?$\<close> matches.\<close>

definition repo_url_path :: "string \<Rightarrow> string option" where
  "repo_url_path p =
     (let p = (if endswith p [CHR 0x0A] then butlast p else p);
          q = (if endswith p ''.git'' \<and> length p > 4 then take (length p - 4) p else p)
      in if q = [] \<or> CHR 0x0A \<in> set p then None else Some q)"

definition split_repo_url :: "string \<Rightarrow> (string \<times> string) option" where
  "split_repo_url url =
     (let scp = (if startswith url ''git@'' then cut_first CHR '':'' (drop 4 url) else None);
          web = (if startswith url ''https://'' then cut_first CHR ''/'' (drop 8 url)
                 else if startswith url ''http://'' then cut_first CHR ''/'' (drop 7 url) else None);
          found = (\<lambda>x. case x of Some (host, p) \<Rightarrow>
             if host = [] then None else map_option (\<lambda>q. (host, q)) (repo_url_path p) | None \<Rightarrow> None)
      in case found scp of Some r \<Rightarrow> Some r | None \<Rightarrow> found web)"

definition gitlab_blob_url :: "string \<Rightarrow> string option \<Rightarrow> string \<Rightarrow> int option \<Rightarrow> string option" where
  "gitlab_blob_url repo_url commit file_path lineno =
     (if repo_url = [] \<or> \<not> text_truthy commit \<or> file_path = [] then None
      else (case split_repo_url repo_url of
              None \<Rightarrow> None
            | Some (host, repo_path) \<Rightarrow>
                (let anchor = (case lineno of Some n \<Rightarrow> if n \<noteq> 0 then ''#L'' @ str_int n else [] | None \<Rightarrow> [])
                 in Some (''https://'' @ host @ ''/'' @ repo_path @ ''/blob/'' @ the commit @ ''/'' @ file_path @ anchor))))"

section \<open>The effective state of a report\<close>

type_synonym threads = "(int \<times> feedback_thread) list"

record finding_view =
  vw_index :: int
  vw_finding :: model_finding
  vw_effective :: severity
  vw_status :: finding_status
  vw_label :: string
  vw_processing :: bool
  vw_url :: "string option"
  vw_thread :: feedback_thread

fun status_label :: "finding_status \<Rightarrow> string" where
  "status_label FS_Open = label_open"
| "status_label FS_Severity_Adjusted = label_adjusted"
| "status_label FS_Resolved_False_Positive = label_resolved"

definition thread_of :: "threads \<Rightarrow> int \<Rightarrow> instant \<Rightarrow> feedback_thread" where
  "thread_of threads i now = (case map_of threads i of Some t \<Rightarrow> t | None \<Rightarrow> new_thread i now)"

definition effective_severity :: "feedback_thread \<Rightarrow> model_finding \<Rightarrow> severity" where
  "effective_severity t f = (case ft_severity t of Some s \<Rightarrow> s | None \<Rightarrow> mf_severity f)"

definition finding_view_of :: "trigger_request \<Rightarrow> int \<Rightarrow> feedback_thread \<Rightarrow> model_finding \<Rightarrow> finding_view" where
  "finding_view_of rq i t f =
     \<lparr>vw_index = i, vw_finding = f, vw_effective = effective_severity t f, vw_status = ft_status t,
      vw_label = status_label (ft_status t), vw_processing = ft_processing t,
      vw_url = gitlab_blob_url (rq_repo_url rq) (rq_commit rq) (mf_file f) (mf_line f), vw_thread = t\<rparr>"

record effective_report =
  er_views :: "finding_view list"
  er_findings :: "model_finding list"
  er_summary :: string
  er_score :: int
  er_pass :: bool

fun effective_findings :: "threads \<Rightarrow> instant \<Rightarrow> int \<Rightarrow> model_finding list \<Rightarrow> model_finding list" where
  "effective_findings threads now i [] = []"
| "effective_findings threads now i (f # fs) =
     (let t = thread_of threads i now; rest = effective_findings threads now (i + 1) fs
      in if ft_status t \<noteq> FS_Resolved_False_Positive then f\<lparr>mf_severity := effective_severity t f\<rparr> # rest else rest)"

fun finding_views :: "trigger_request \<Rightarrow> threads \<Rightarrow> instant \<Rightarrow> int \<Rightarrow> model_finding list \<Rightarrow> finding_view list" where
  "finding_views rq threads now i [] = []"
| "finding_views rq threads now i (f # fs) =
     finding_view_of rq i (thread_of threads i now) f # finding_views rq threads now (i + 1) fs"

definition effective_state :: "trigger_request \<Rightarrow> analysis_result \<Rightarrow> threads \<Rightarrow> instant \<Rightarrow> effective_report" where
  "effective_state rq result threads now =
     (let fs = effective_findings threads now 0 (ar_findings result);
          n = summary_changed_file_count (ar_summary result) (length (ar_findings result))
      in \<lparr>er_views = finding_views rq threads now 0 (ar_findings result), er_findings = fs,
          er_summary = build_summary fs n, er_score = calculate_score fs, er_pass = passes fs\<rparr>)"

section \<open>Scores\<close>

lemma penalty_nonneg: "0 \<le> penalty s"
  by (cases s) simp_all

lemma penalties_nonneg: "0 \<le> sum_list (map (\<lambda>f. penalty (mf_severity f)) fs)"
  by (induction fs) (simp_all add: penalty_nonneg)

lemma score_range: "0 \<le> calculate_score fs \<and> calculate_score fs \<le> 100"
  using penalties_nonneg [of fs] by (simp add: calculate_score_def)

lemma passes_iff: "passes fs \<longleftrightarrow> (\<forall>f \<in> set fs. mf_severity f \<noteq> Fatal \<and> mf_severity f \<noteq> High)"
  by (auto simp: passes_def severity_count_def)

lemma passes_blocking: "passes fs \<longleftrightarrow> \<not> list_ex (\<lambda>f. mf_severity f \<in> {Fatal, High}) fs"
  by (auto simp: passes_iff list_ex_iff)

text \<open>Fewer findings: no lower score, and no pass lost.\<close>

lemma score_antimono:
  assumes "mset fs \<subseteq># mset gs" shows "calculate_score gs \<le> calculate_score fs"
proof -
  obtain d where d: "mset gs = mset fs + d" using assms by (auto simp: mset_subset_eq_exists_conv)
  obtain ds where ds: "mset ds = d" using ex_mset by blast
  have "mset (map (\<lambda>f. penalty (mf_severity f)) gs) = mset (map (\<lambda>f. penalty (mf_severity f)) (fs @ ds))"
    by (simp add: d ds)
  then have "sum_list (map (\<lambda>f. penalty (mf_severity f)) gs) = sum_list (map (\<lambda>f. penalty (mf_severity f)) (fs @ ds))"
    by (simp only: sum_mset_sum_list [symmetric])
  then show ?thesis using penalties_nonneg [of ds] by (simp add: calculate_score_def)
qed

lemma passes_antimono: "mset fs \<subseteq># mset gs \<Longrightarrow> passes gs \<Longrightarrow> passes fs"
  by (auto simp: passes_iff dest: mset_subset_eqD)

section \<open>The count survives the summary\<close>

lemma digits_no_space: "py_isdigit c \<Longrightarrow> \<not> py_isspace c"
  by (auto simp: py_isdigit_def py_isspace_def Let_def)

lemma files_text_head: "files_text = CHR 0xE4 # tl files_text"
  by (simp add: files_text_def)

lemma take_digits: "takeWhile py_isdigit (str_nat n @ CHR '' '' # r) = str_nat n"
  using str_nat_digits [of n] by (subst takeWhile_append2) (auto simp: py_isdigit_def)

lemma lstrip_space: "lstrip_by py_isspace (CHR '' '' # r) = lstrip_by py_isspace r"
  by (simp add: lstrip_by_def py_isspace_def)

lemma lstrip_digits: "lstrip_by py_isspace (str_nat n @ r) = str_nat n @ r"
proof -
  obtain c t where ct: "str_nat n = c # t" by (meson str_nat_nonempty list.exhaust)
  then have "\<not> py_isspace c" using str_nat_digits [of n] digits_no_space by auto
  with ct show ?thesis by (simp add: lstrip_by_def)
qed

lemma lstrip_files: "lstrip_by py_isspace (files_text @ r) = files_text @ r"
  by (subst (1 2) files_text_head) (simp add: lstrip_by_def py_isspace_def)

lemma match_summary: "match_file_count (reviewed_text @ '' '' @ str_nat n @ '' '' @ files_text @ r) = Some n"
  by (simp add: match_file_count_def lstrip_space lstrip_digits take_digits lstrip_files nat_of_digits_str_nat)

lemma search_skip: "\<not> startswith (c # s) reviewed_text \<Longrightarrow> search_file_count (c # s) = search_file_count s"
  by (simp add: match_file_count_def)

lemma search_found: "match_file_count s = Some n \<Longrightarrow> search_file_count s = Some n"
  by (cases s) simp_all

lemma search_intro: "search_file_count (summary_intro @ s) = search_file_count s"
  by (simp add: summary_intro_def search_skip [unfolded reviewed_text_def] del: search_file_count.simps)

lemma count_of_summary: "summary_changed_file_count (build_summary fs n) d = n"
  unfolding summary_changed_file_count_def build_summary_def
  by (subst search_intro) (simp add: search_found match_summary [simplified])

section \<open>Feedback and the report\<close>

text \<open>Threads that say nothing against a finding.\<close>

definition neutral :: "threads \<Rightarrow> bool" where
  "neutral threads \<longleftrightarrow> list_all (\<lambda>(_, t). ft_status t \<noteq> FS_Resolved_False_Positive \<and> ft_severity t = None) threads"

lemma neutral_thread:
  assumes "neutral threads"
  shows "ft_status (thread_of threads i now) \<noteq> FS_Resolved_False_Positive \<and> ft_severity (thread_of threads i now) = None"
  using assms by (auto simp: thread_of_def new_thread_def neutral_def list_all_iff split: option.split dest: map_of_SomeD)

lemma neutral_findings: "neutral threads \<Longrightarrow> effective_findings threads now i fs = fs"
  by (induction fs arbitrary: i) (simp_all add: neutral_thread effective_severity_def Let_def)

lemma effective_of_normal:
  assumes "neutral threads"
  shows "let n = normalize_result result allowed; e = effective_state rq n threads now
    in er_findings e = ar_findings n \<and> er_summary e = ar_summary n \<and> er_score e = ar_score n \<and> er_pass e = ar_pass n"
  by (simp add: Let_def effective_state_def normalize_result_def neutral_findings [OF assms] count_of_summary)

lemma subseteq_add: "A \<subseteq># B \<Longrightarrow> A \<subseteq># add_mset x B"
  by (metis add_mset_add_single mset_subset_eq_add_left subset_mset.order_trans)

text \<open>A thread that resolves its finding as a false positive takes findings away and changes no other.\<close>

lemma resolved_findings:
  assumes "ft_status t = FS_Resolved_False_Positive"
  shows "mset (effective_findings (dset k t threads) now i fs) \<subseteq># mset (effective_findings threads now i fs)"
proof (induction fs arbitrary: i)
  case (Cons f fs)
  have "thread_of (dset k t threads) i now = (if i = k then t else thread_of threads i now)"
    by (simp add: thread_of_def)
  with Cons assms show ?case
    by (auto simp: Let_def intro: subseteq_add)
qed simp

text \<open>C26: the normalised result keeps exactly the findings on changed files that are no tests; it passes
  exactly when none of them is fatal or high; its score lies between 0 and 100; and the number of changed
  files is read back from its summary.\<close>

theorem normal_result_sound:
  "let n = normalize_result result allowed
   in (\<forall>f. f \<in> set (ar_findings n) \<longleftrightarrow> f \<in> set (ar_findings result) \<and> \<not> is_test_file (mf_file f)
         \<and> (case allowed of None \<Rightarrow> True | Some a \<Rightarrow> mf_file f \<in> set a))
      \<and> (ar_pass n \<longleftrightarrow> \<not> list_ex (\<lambda>f. mf_severity f \<in> {Fatal, High}) (ar_findings n))
      \<and> ar_score n \<in> {0..100}
      \<and> summary_changed_file_count (ar_summary n) d = card (case allowed of None \<Rightarrow> {} | Some a \<Rightarrow> set a)"
  using score_range [of "kept_findings allowed (ar_findings result)"]
  by (simp add: Let_def normalize_result_def passes_blocking count_of_summary length_remdups_card_conv split: option.split)
    (simp add: kept_findings_def)

text \<open>C27: under threads that neither resolve a finding nor change its severity, the effective state of a
  report is the normalised result it was written with: the same findings, summary, score and gate.\<close>

theorem untouched_report_same:
  assumes "neutral threads"
  shows "let n = normalize_result result allowed; e = effective_state rq n threads now
    in er_findings e = ar_findings n \<and> er_summary e = ar_summary n \<and> er_score e = ar_score n \<and> er_pass e = ar_pass n"
  by (rule effective_of_normal [OF assms])

definition sample_finding :: model_finding where
  "sample_finding = \<lparr>mf_file = ''a.py'', mf_line = Some 3, mf_severity = High, mf_title = ''t'', mf_detail = ''d'', mf_suggestion = None\<rparr>"

definition sample_report :: analysis_result where
  "sample_report = \<lparr>ar_summary = [], ar_pass = False, ar_score = 0, ar_findings = [sample_finding], ar_raw = None\<rparr>"

theorem untouched_report_same_witness:
  "\<forall>rq. let n = normalize_result sample_report (Some [''a.py'']); e = effective_state rq n [(0, new_thread 0 5)] 7
   in er_summary e = ar_summary n \<and> er_score e = 85" (is "\<forall>rq. ?P rq")
proof
  fix rq
  have "neutral [(0, new_thread 0 5)]" by (simp add: neutral_def new_thread_def)
  moreover have "is_test_file ''a.py'' = False" by (simp add: is_test_file_def py_lower_def lower_char_def endswith_def)
  then have "ar_score (normalize_result sample_report (Some [''a.py''])) = 85"
    by (simp add: normalize_result_def kept_findings_def sample_report_def sample_finding_def calculate_score_def Let_def)
  ultimately show "?P rq"
    using untouched_report_same [of "[(0, new_thread 0 5)]" sample_report "Some [''a.py'']" rq 7] by (simp add: Let_def)
qed

text \<open>Resolving a finding as a false positive never lowers the score, never loses a pass, and leaves
  the views of the report in number and order.\<close>

theorem resolving_never_hurts:
  assumes "ft_status t = FS_Resolved_False_Positive"
  shows "let before = effective_state rq result threads now; after = effective_state rq result (dset k t threads) now
    in er_score before \<le> er_score after \<and> (er_pass before \<longrightarrow> er_pass after)
       \<and> map vw_finding (er_views after) = map vw_finding (er_views before)"
proof -
  have views: "map vw_finding (finding_views rq th now i fs) = fs" for th i fs
    by (induction fs arbitrary: i) (simp_all add: finding_view_of_def)
  note sub = resolved_findings [OF assms, of k threads now 0 "ar_findings result"]
  show ?thesis
    using score_antimono [OF sub] passes_antimono [OF sub] by (simp add: Let_def effective_state_def views)
qed

theorem resolving_never_hurts_witness:
  "\<forall>rq. er_pass (effective_state rq sample_report [(0, new_thread 0 5\<lparr>ft_status := FS_Resolved_False_Positive\<rparr>)] 7)
   \<and> 0 \<le> er_score (effective_state rq sample_report [(0, new_thread 0 5\<lparr>ft_status := FS_Resolved_False_Positive\<rparr>)] 7)" (is "\<forall>rq. ?P rq")
proof
  fix rq
  have "er_score (effective_state rq sample_report [] 7) = 85"
    by (simp add: effective_state_def Let_def sample_report_def sample_finding_def thread_of_def new_thread_def effective_severity_def
        calculate_score_def)
  moreover have "er_pass (effective_state rq sample_report [(0, new_thread 0 5\<lparr>ft_status := FS_Resolved_False_Positive\<rparr>)] 7)"
    by (simp add: effective_state_def Let_def sample_report_def sample_finding_def thread_of_def new_thread_def passes_def
        severity_count_def)
  ultimately show "?P rq"
    using resolving_never_hurts [of "new_thread 0 5\<lparr>ft_status := FS_Resolved_False_Positive\<rparr>" rq sample_report "[]" 7 0]
    by (simp add: Let_def)
qed

end
