(* ===== verification/Json_Print.thy ===== *)
theory Json_Print
  imports Json_Value "HOL-Library.List_Lexorder"
begin

text \<open>
  \<open>json.dumps\<close> with \<open>ensure_ascii=False\<close>: strings with the escapes of the standard library, items parted by
  a comma and a space. With \<open>sort_keys\<close> the items of every dict come in the order of their keys.
\<close>

definition hex_digit :: "int \<Rightarrow> char" where
  "hex_digit n = (if n < 10 then char_of (48 + n) else char_of (87 + n))"

definition dump_char :: "char \<Rightarrow> string" where
  "dump_char c =
     (let n = (of_char c :: int)
      in if n = 34 then [CHR 0x5C, CHR 0x22]
         else if n = 92 then [CHR 0x5C, CHR 0x5C]
         else if n = 10 then [CHR 0x5C, CHR ''n'']
         else if n = 13 then [CHR 0x5C, CHR ''r'']
         else if n = 9 then [CHR 0x5C, CHR ''t'']
         else if n = 12 then [CHR 0x5C, CHR ''f'']
         else if n = 8 then [CHR 0x5C, CHR ''b'']
         else if n < 32 then [CHR 0x5C, CHR ''u'', CHR ''0'', CHR ''0'', hex_digit (n div 16), hex_digit (n mod 16)]
         else [c])"

definition dump_string :: "string \<Rightarrow> string" where
  "dump_string s = CHR 0x22 # concat (map dump_char s) @ [CHR 0x22]"

fun sort_items :: "json \<Rightarrow> json" where
  "sort_items (JArr xs) = JArr (map sort_items xs)"
| "sort_items (JObj d) = JObj (sort_key fst (map (\<lambda>(k, v). (k, sort_items v)) d))"
| "sort_items v = v"

fun json_dumps :: "json \<Rightarrow> string" where
  "json_dumps JNull = ''null''"
| "json_dumps (JBool b) = (if b then ''true'' else ''false'')"
| "json_dumps (JInt i) = str_int i"
| "json_dumps (JFloat q) = repr_float q"
| "json_dumps (JStr s) = dump_string s"
| "json_dumps (JArr xs) = ''['' @ join '', '' (map json_dumps xs) @ '']''"
| "json_dumps (JObj d) = ''{'' @ join '', '' (map (\<lambda>(k, v). dump_string k @ '': '' @ json_dumps v) d) @ ''}''"

definition dumps_sorted :: "json \<Rightarrow> string" where
  "dumps_sorted v = json_dumps (sort_items v)"

lemma dumps_sample:
  "dumps_sorted (JObj [(''b'', JArr [JInt (-1), JNull]), (''a'', JStr [CHR 0x0A, CHR ''x'', CHR 0x01])])
   = concat [''{'', [CHR 0x22], ''a'', [CHR 0x22], '': '', [CHR 0x22, CHR 0x5C], ''nx'', [CHR 0x5C], ''u0001'', [CHR 0x22], '', '',
       [CHR 0x22], ''b'', [CHR 0x22], '': [-1, null]}'']"
  by code_simp

end
