(* ===== verification/Service_Callback.thy ===== *)
theory Service_Callback
  imports Task_Models Json_Print
begin

text \<open>
  The callback client, \<open>core/callback.py\<close>, and the payload and digest of \<open>core/service.py\<close>. What a POST
  answers is the answer of an attempt: a status code with a body, or an exception. An instant in a body
  is its number of seconds.
\<close>

record service_payload =
  sp_task_id :: string
  sp_app_name :: string
  sp_branch :: string
  sp_commit :: "string option"
  sp_passed :: bool
  sp_score :: int
  sp_report_url :: string
  sp_status :: record_status
  sp_summary :: string
  sp_findings :: nat
  sp_generated :: instant
  sp_metadata :: json_dict

definition payload_of :: "task_record \<Rightarrow> bool \<Rightarrow> int \<Rightarrow> string \<Rightarrow> string \<Rightarrow> nat \<Rightarrow> instant \<Rightarrow> service_payload" where
  "payload_of r passed score url summary n now =
     \<lparr>sp_task_id = lr_id r, sp_app_name = rq_app_name (lr_request r), sp_branch = rq_branch (lr_request r),
      sp_commit = rq_commit (lr_request r), sp_passed = passed, sp_score = score, sp_report_url = url,
      sp_status = lr_status r, sp_summary = summary, sp_findings = n, sp_generated = now,
      sp_metadata = rq_metadata (lr_request r)\<rparr>"

definition opt_text :: "string option \<Rightarrow> json" where
  "opt_text v = (case v of None \<Rightarrow> JNull | Some s \<Rightarrow> JStr s)"

text \<open>\<open>model_dump\<close> without \<open>generated_at\<close>; the body of a callback has it.\<close>

definition payload_fields :: "service_payload \<Rightarrow> json_dict" where
  "payload_fields p =
     [(''task_id'', JStr (sp_task_id p)), (''app_name'', JStr (sp_app_name p)), (''branch'', JStr (sp_branch p)),
      (''commit_id'', opt_text (sp_commit p)), (''passed'', JBool (sp_passed p)), (''score'', JInt (sp_score p)),
      (''report_url'', JStr (sp_report_url p)), (''status'', JStr (record_status_text (sp_status p))),
      (''summary'', JStr (sp_summary p)), (''findings_count'', JInt (int (sp_findings p))),
      (''metadata'', JObj (sp_metadata p))]"

definition payload_digest :: "service_payload \<Rightarrow> string" where
  "payload_digest p = dumps_sorted (JObj (payload_fields p))"

record callback_settings =
  cs_retry_times :: nat
  cs_ci_ack_url :: string

definition ci_body :: "trigger_request \<Rightarrow> service_payload \<Rightarrow> json" where
  "ci_body rq p =
     JObj [(''state'', JInt (if sp_passed p then 0 else - 1024)),
       (''attribute'', JObj
          [(''taskId'', opt_text (rq_ci_task rq)), (''recordId'', opt_text (rq_ci_record rq)),
           (''taskTemplateId'', JStr (text_or (rq_ci_template rq) [])), (''parentId'', JStr (text_or (rq_ci_parent rq) [])),
           (''url'', JStr (sp_report_url p)), (''reportUrl'', JStr (sp_report_url p)),
           (''operator'', JStr (text_or (rq_operator rq) []))]),
       (''data'', JObj
          [(''score'', JStr (str_int (sp_score p))), (''passed'', JStr (if sp_passed p then ''true'' else ''false'')),
           (''summary'', JStr (sp_summary p))])]"

definition build_request :: "callback_settings \<Rightarrow> trigger_request \<Rightarrow> service_payload \<Rightarrow> (string \<times> json) py_result" where
  "build_request cs rq p =
     (case rq_callback_url rq of
        Some url \<Rightarrow> Inr (url, JObj (payload_fields p @ [(''generated_at'', JInt (sp_generated p))]))
      | None \<Rightarrow>
          if text_truthy (rq_ci_task rq) \<and> text_truthy (rq_ci_record rq) then Inr (cs_ci_ack_url cs, ci_body rq p)
          else Inl (RuntimeError ''no callback target configured''))"

datatype post_answer = Answered int string int | Post_Failed string int

fun history_entry :: "nat \<Rightarrow> post_answer \<Rightarrow> json" where
  "history_entry n (Answered code body ms) =
     JObj [(''attempt'', JInt (int n)), (''status_code'', JInt code), (''elapsed_ms'', JInt ms),
           (''body'', JStr (take 1000 body))]"
| "history_entry n (Post_Failed e ms) =
     JObj [(''attempt'', JInt (int n)), (''elapsed_ms'', JInt ms), (''error'', JStr e)]"

fun acknowledged :: "post_answer \<Rightarrow> bool" where
  "acknowledged (Answered code body ms) = (200 \<le> code \<and> code < 300)"
| "acknowledged (Post_Failed e ms) = False"

text \<open>The attempts in order, until one is acknowledged.\<close>

fun send_attempts :: "(nat \<Rightarrow> post_answer) \<Rightarrow> nat list \<Rightarrow> json list \<Rightarrow> json list py_result" where
  "send_attempts answer [] history = Inl (RuntimeError (''callback failed after retries: '' @ py_repr (JArr history)))"
| "send_attempts answer (n # ns) history =
     (let history = history @ [history_entry n (answer n)]
      in if acknowledged (answer n) then Inr history else send_attempts answer ns history)"

definition callback_send ::
  "callback_settings \<Rightarrow> (string \<times> json \<Rightarrow> nat \<Rightarrow> post_answer) \<Rightarrow> trigger_request \<Rightarrow> service_payload \<Rightarrow> json list py_result" where
  "callback_send cs post rq p =
     bind_r (build_request cs rq p) (\<lambda>req. send_attempts (post req) [1..<cs_retry_times cs + 2] [])"

text \<open>Delivery succeeds exactly when an attempt within the budget is acknowledged, and no attempt follows it.\<close>

lemma send_attempts_eq:
  "send_attempts answer ns h =
     (let refused = (\<lambda>n. \<not> acknowledged (answer n)); tried = h @ map (\<lambda>n. history_entry n (answer n)) (takeWhile refused ns)
      in case dropWhile refused ns of
           [] \<Rightarrow> Inl (RuntimeError (''callback failed after retries: '' @ py_repr (JArr tried)))
         | n # _ \<Rightarrow> Inr (tried @ [history_entry n (answer n)]))"
  by (induction answer ns h rule: send_attempts.induct) (auto simp: Let_def dropWhile_eq_Nil_conv [symmetric] simp del: py_repr.simps dropWhile_eq_Nil_conv split: list.split)

lemma send_attempts_Inr: "send_attempts answer ns h = Inr h1 \<Longrightarrow> \<exists>n \<in> set ns. acknowledged (answer n)"
  by (auto simp: send_attempts_eq Let_def split: list.splits) (metis dropWhile_eq_Nil_conv list.distinct(1))

lemma send_attempts_ok: "n \<in> set ns \<Longrightarrow> acknowledged (answer n) \<Longrightarrow> is_ok (send_attempts answer ns h)"
  by (auto simp: send_attempts_eq Let_def is_ok_def split: list.splits)

end
