(* ===== verification/Task_Service.thy ===== *)
theory Task_Service
  imports Task_Store Task_Report Service_Callback Statements
begin

text \<open>
  The queue of the task service, \<open>core/service.py\<close>: submission with its two searches for a duplicate, the
  run of a task, recovery at a restart and of orphans, deletion by an administrator, the callback. Threads
  share the store, the queue and the sets of task ids; whenever a statement waits for git, a model or a
  callback, the next move of the other threads takes place. A \<open>TaskRecord\<close> is an object the cache of the
  store refers to: \<open>mutate\<close> changes the object, \<open>save_record\<close> writes it to its file. Locks make a
  listed store one step, and a save is taken as one; the lock of a repository and the log are not modelled.
\<close>

section \<open>State\<close>

record feedback_file =
  fb_threads :: threads
  fb_general :: "general_feedback list"
  fb_fix :: "fix_session list"

record service =
  sv_store :: task_store
  sv_feedback :: "(string \<times> feedback_file) list"
  sv_queue :: "string list"
  sv_feedback_queue :: "(string \<times> int) list"
  sv_general_queue :: "(string \<times> string) list"
  sv_fix_queue :: "(string \<times> string) list"
  sv_active :: "string set"
  sv_cancelled :: "string set"
  sv_deleted :: "string set"
  sv_sent :: "service_payload list"
  sv_pages :: "(string \<times> analysis_result) list"
  sv_patterns :: "json list"

record service_world =
  sw_sv :: service
  sw_now :: instant
  sw_moves :: "(instant \<times> (service \<Rightarrow> service)) list"

type_synonym 'a ts = "(service_world, py_exc, 'a) stmt"

record service_settings =
  ss_codec :: codec
  ss_queue_size :: nat
  ss_max_attempts :: nat
  ss_orphan_timeout :: int
  ss_report_base :: string
  ss_report_dir :: string
  ss_callback :: callback_settings
  ss_fix_rounds :: nat

record review_context =
  rc_diff_range :: string
  rc_files :: "string list option"

record run_env =
  rn_prepare :: "task_record \<Rightarrow> string py_result"
  rn_head :: "task_record \<Rightarrow> string py_result"
  rn_context :: "task_record \<Rightarrow> review_context py_result"
  rn_analyze :: "task_record \<Rightarrow> string \<Rightarrow> review_context \<Rightarrow> analysis_result py_result"
  rn_render :: "task_record \<Rightarrow> analysis_result \<Rightarrow> unit py_result"
  rn_post :: "task_record \<Rightarrow> string \<times> json \<Rightarrow> nat \<Rightarrow> post_answer"

section \<open>Statements of the service\<close>

definition sget :: "(service \<Rightarrow> 'a) \<Rightarrow> 'a ts" where
  "sget f = wget (\<lambda>w. f (sw_sv w))"

definition smod :: "(instant \<Rightarrow> service \<Rightarrow> service) \<Rightarrow> unit ts" where
  "smod f = wmod (\<lambda>w. w\<lparr>sw_sv := f (sw_now w) (sw_sv w)\<rparr>)"

definition others_move :: "unit ts" where
  "others_move =
     wmod (\<lambda>w. case sw_moves w of
       [] \<Rightarrow> w
     | (seconds, f) # moves \<Rightarrow> w\<lparr>sw_sv := f (sw_sv w), sw_now := sw_now w + seconds, sw_moves := moves\<rparr>)"

definition outside :: "'a py_result \<Rightarrow> 'a ts" where
  "outside r = wseq others_move (wlift r)"

definition the_store :: "service_settings \<Rightarrow> (codec \<Rightarrow> task_store \<Rightarrow> 'a py_result \<times> task_store) \<Rightarrow> 'a ts" where
  "the_store cfg f w =
     (let (r, st) = f (ss_codec cfg) (sv_store (sw_sv w)) in (r, w\<lparr>sw_sv := (sw_sv w)\<lparr>sv_store := st\<rparr>\<rparr>))"

definition get_record :: "service_settings \<Rightarrow> string \<Rightarrow> task_record option ts" where
  "get_record cfg i = the_store cfg (\<lambda>c. get_task_record c i)"

definition list_all_records :: "service_settings \<Rightarrow> task_record list ts" where
  "list_all_records cfg = the_store cfg list_all_tasks"

text \<open>The object a variable refers to: the record in the cache, or a copy of its own once deleted.\<close>

definition obj :: "task_record \<Rightarrow> service \<Rightarrow> task_record" where
  "obj r s = (case map_of (ts_cache (sv_store s)) (lr_id r) of Some x \<Rightarrow> x | None \<Rightarrow> r)"

definition set_obj :: "task_record \<Rightarrow> service \<Rightarrow> service" where
  "set_obj r s =
     (let st = sv_store s
      in if map_of (ts_cache st) (lr_id r) = None then s
         else s\<lparr>sv_store := st\<lparr>ts_cache := AList.update (lr_id r) r (ts_cache st)\<rparr>\<rparr>)"

definition mutate :: "task_record \<Rightarrow> (instant \<Rightarrow> task_record \<Rightarrow> task_record) \<Rightarrow> task_record ts" where
  "mutate r f w =
     (let x = f (sw_now w) (obj r (sw_sv w)) in (Inr x, w\<lparr>sw_sv := set_obj x (sw_sv w)\<rparr>))"

text \<open>\<open>_save_record\<close> looks for the deletion and writes in two steps of the code; they are one step here, so what
  is proved of saves does not cover a deletion that falls between the two (it is undone by the write).\<close>

definition save_obj :: "service_settings \<Rightarrow> instant \<Rightarrow> task_record \<Rightarrow> service \<Rightarrow> service" where
  "save_obj cfg now r s =
     (let x = obj r s
      in if lr_id x \<in> sv_deleted s then s else s\<lparr>sv_store := save_task (ss_codec cfg) now x (sv_store s)\<rparr>)"

definition save_record :: "service_settings \<Rightarrow> task_record \<Rightarrow> unit ts" where
  "save_record cfg r = smod (\<lambda>now. save_obj cfg now r)"

definition is_deleted :: "string \<Rightarrow> bool ts" where
  "is_deleted i = sget (\<lambda>s. i \<in> sv_deleted s)"

definition enqueue_task :: "service_settings \<Rightarrow> string \<Rightarrow> unit ts" where
  "enqueue_task cfg i =
     wbind (sget (\<lambda>s. 0 < ss_queue_size cfg \<and> ss_queue_size cfg \<le> length (sv_queue s))) (\<lambda>full.
       if full then wraise (RuntimeError ''task queue is full'') else smod (\<lambda>_ s. s\<lparr>sv_queue := sv_queue s @ [i]\<rparr>))"

section \<open>Submission\<close>

type_synonym request_key = "string \<times> string \<times> string \<times> string option"

definition request_key :: "trigger_request \<Rightarrow> request_key" where
  "request_key rq = (rq_app_name rq, rq_repo_url rq, rq_branch rq, rq_commit rq)"

definition in_flight :: "task_record \<Rightarrow> bool" where
  "in_flight r \<longleftrightarrow> lr_status r = LQueued \<or> lr_status r = LRunning"

definition find_inflight_duplicate :: "service_settings \<Rightarrow> trigger_request \<Rightarrow> task_record option ts" where
  "find_inflight_duplicate cfg rq =
     wbind (list_all_records cfg) (\<lambda>rs.
       wret (find (\<lambda>r. in_flight r \<and> request_key (lr_request r) = request_key rq) (rev rs)))"

definition find_same_commit_record :: "service_settings \<Rightarrow> trigger_request \<Rightarrow> task_record option ts" where
  "find_same_commit_record cfg rq =
     (if \<not> text_truthy (rq_commit rq) then wret None
      else wbind (list_all_records cfg) (\<lambda>rs. wret (find (\<lambda>r. request_key (lr_request r) = request_key rq) (rev rs))))"

text \<open>\<open>submit\<close> with the first generation of the service; \<open>i\<close> is the fresh identifier drawn.\<close>

definition submit_new :: "service_settings \<Rightarrow> string \<Rightarrow> trigger_request \<Rightarrow> task_record ts" where
  "submit_new cfg i rq =
     wbind (wget (\<lambda>w. new_record i rq (sw_now w))) (\<lambda>r.
       wseq (save_record cfg r) (wseq (enqueue_task cfg i) (sget (obj r))))"

definition submit :: "service_settings \<Rightarrow> string \<Rightarrow> trigger_request \<Rightarrow> task_record ts" where
  "submit cfg i rq =
     wbind (find_same_commit_record cfg rq) (\<lambda>same.
       case same of
         Some r \<Rightarrow> wret r
       | None \<Rightarrow> wbind (find_inflight_duplicate cfg rq) (\<lambda>dup.
           case dup of Some r \<Rightarrow> wret r | None \<Rightarrow> submit_new cfg i rq))"

section \<open>The callback\<close>

definition send_callback_if_needed ::
  "service_settings \<Rightarrow> run_env \<Rightarrow> task_record \<Rightarrow> service_payload \<Rightarrow> unit ts" where
  "send_callback_if_needed cfg env r p =
     wbind (sget (obj r)) (\<lambda>r.
       if lr_callback_ok r \<and> lr_callback_digest r = Some (payload_digest p) then wret ()
       else wseq (smod (\<lambda>_ s. s\<lparr>sv_sent := sv_sent s @ [p]\<rparr>))
         (wbind (outside (callback_send (ss_callback cfg) (rn_post env r) (lr_request r) p)) (\<lambda>history.
            wbind (mutate r (\<lambda>_ x. x\<lparr>lr_callbacks := history, lr_callback_ok := True,
                lr_callback_digest := Some (payload_digest p)\<rparr>)) (\<lambda>r.
              save_record cfg r))))"

section \<open>The report\<close>

definition service_report_url :: "service_settings \<Rightarrow> string \<Rightarrow> string" where
  "service_report_url cfg i = rstrip_by (\<lambda>c. c = CHR ''/'') (ss_report_base cfg) @ ''/'' @ i @ ''/index.html''"

definition write_report_page :: "service_settings \<Rightarrow> run_env \<Rightarrow> task_record \<Rightarrow> analysis_result \<Rightarrow> (string \<times> string) ts" where
  "write_report_page cfg env r result =
     wseq (outside (rn_render env r result))
       (wseq (smod (\<lambda>_ s. s\<lparr>sv_pages := sv_pages s @ [(lr_id r, result)]\<rparr>))
         (wret (service_report_url cfg (lr_id r), ss_report_dir cfg @ ''/'' @ lr_id r @ ''/index.html'')))"

section \<open>Running a task\<close>

text \<open>The session ids an analysis reports, each once.\<close>

definition add_session_id :: "json \<Rightarrow> string list \<Rightarrow> string list" where
  "add_session_id v acc = (case v of JStr s \<Rightarrow> if s \<noteq> [] \<and> s \<notin> set acc then acc @ [s] else acc | _ \<Rightarrow> acc)"

definition result_session_ids :: "analysis_result \<Rightarrow> string list" where
  "result_session_ids result =
     (case dget (case ar_raw result of Some d \<Rightarrow> d | None \<Rightarrow> []) ''_opencode_session_ids'' of
        JArr vs \<Rightarrow> fold add_session_id vs []
      | _ \<Rightarrow> [])"

definition finish_record :: "analysis_result \<Rightarrow> string \<Rightarrow> string \<Rightarrow> instant \<Rightarrow> task_record \<Rightarrow> task_record" where
  "finish_record result url file now r =
     r\<lparr>lr_status := if ar_pass result then LSuccess else LFailed, lr_finished := Some now, lr_result := Some result,
       lr_report_url := Some url, lr_report_file := Some file\<rparr>"

definition finish_analysis :: "service_settings \<Rightarrow> run_env \<Rightarrow> task_record \<Rightarrow> review_context \<Rightarrow> analysis_result \<Rightarrow> unit ts" where
  "finish_analysis cfg env r ctx result =
     wbind (mutate r (\<lambda>_ x. x\<lparr>lr_sessions := result_session_ids result\<rparr>)) (\<lambda>r.
       (let result = normalize_result result (rc_files ctx)
        in wbind (write_report_page cfg env r result) (\<lambda>(url, file).
           wbind (mutate r (finish_record result url file)) (\<lambda>r.
           wseq (save_record cfg r)
             (wbind (wget sw_now) (\<lambda>now.
                send_callback_if_needed cfg env r
                  (payload_of r (ar_pass result) (ar_score result) url (ar_summary result) (length (ar_findings result)) now)))))))"

text \<open>The body of the \<open>try\<close>.\<close>

definition run_steps :: "service_settings \<Rightarrow> run_env \<Rightarrow> task_record \<Rightarrow> unit ts" where
  "run_steps cfg env r =
     wbind (outside (rn_prepare env r)) (\<lambda>path.
     wbind (outside (rn_head env r)) (\<lambda>commit.
     wbind (sget (obj r)) (\<lambda>r.
     wbind (if text_truthy (rq_commit (lr_request r)) then wret r
            else wbind (mutate r (\<lambda>_ x. x\<lparr>lr_request := (lr_request x)\<lparr>rq_commit := Some commit\<rparr>\<rparr>)) (\<lambda>r.
              wseq (save_record cfg r) (wret r))) (\<lambda>r.
     wbind (outside (rn_context env r)) (\<lambda>ctx.
     wbind (outside (rn_analyze env r path ctx)) (\<lambda>result.
     wbind (is_deleted (lr_id r)) (\<lambda>gone.
       if gone then wret () else finish_analysis cfg env r ctx result)))))))"

text \<open>\<open>_recover_record\<close> and \<open>_requeue_after_failure\<close>, which have one body.\<close>

definition give_up :: "service_settings \<Rightarrow> string \<Rightarrow> instant \<Rightarrow> task_record \<Rightarrow> task_record" where
  "give_up cfg reason now r =
     r\<lparr>lr_status := LFailed, lr_finished := Some now,
       lr_error := Some (reason @ ''; exceeded max attempts='' @ str_nat (ss_max_attempts cfg))\<rparr>"

definition back_in_queue :: "string \<Rightarrow> instant \<Rightarrow> task_record \<Rightarrow> task_record" where
  "back_in_queue reason now r =
     r\<lparr>lr_status := LQueued, lr_started := None, lr_finished := None, lr_error := Some reason\<rparr>"

definition recover_record :: "service_settings \<Rightarrow> string \<Rightarrow> task_record \<Rightarrow> unit ts" where
  "recover_record cfg reason r =
     wbind (sget (obj r)) (\<lambda>r.
       if ss_max_attempts cfg \<le> lr_attempts r then
         wbind (mutate r (give_up cfg reason)) (save_record cfg)
       else
         wbind (mutate r (back_in_queue reason)) (\<lambda>r. wseq (save_record cfg r) (enqueue_task cfg (lr_id r))))"

definition requeue_after_failure :: "service_settings \<Rightarrow> string \<Rightarrow> task_record \<Rightarrow> unit ts" where
  "requeue_after_failure cfg reason r = recover_record cfg reason r"

definition should_retry_task :: "service_settings \<Rightarrow> task_record \<Rightarrow> py_exc \<Rightarrow> bool" where
  "should_retry_task cfg r e \<longleftrightarrow>
     lr_attempts r < ss_max_attempts cfg \<and> contains (exc_text e) ''opencode prompt timeout''"

definition fail_record :: "py_exc \<Rightarrow> instant \<Rightarrow> task_record \<Rightarrow> task_record" where
  "fail_record e now r = r\<lparr>lr_status := LFailed, lr_error := Some (exc_text e), lr_finished := Some now\<rparr>"

definition run_failed :: "service_settings \<Rightarrow> task_record \<Rightarrow> py_exc \<Rightarrow> unit ts" where
  "run_failed cfg r e =
     wbind (is_deleted (lr_id r)) (\<lambda>gone.
       if gone then wret ()
       else wbind (sget (obj r)) (\<lambda>r.
         if should_retry_task cfg r e then requeue_after_failure cfg (exc_text e) r
         else wbind (mutate r (fail_record e)) (\<lambda>r. wseq (save_record cfg r) (wraise e))))"

definition start_record :: "instant \<Rightarrow> task_record \<Rightarrow> task_record" where
  "start_record now r = r\<lparr>lr_status := LRunning, lr_started := Some now, lr_attempts := lr_attempts r + 1\<rparr>"

definition run_task :: "service_settings \<Rightarrow> run_env \<Rightarrow> string \<Rightarrow> unit ts" where
  "run_task cfg env i =
     wbind (get_record cfg i) (\<lambda>found.
       case found of
         None \<Rightarrow> wret ()
       | Some r \<Rightarrow>
           wbind (is_deleted i) (\<lambda>gone.
             if gone then wret ()
             else wbind (mutate r start_record) (\<lambda>r.
               wseq (save_record cfg r)
                 (wcatch (run_steps cfg env r) (run_failed cfg r)))))"

text \<open>One turn of \<open>_worker_loop\<close>; with an empty queue the worker waits.\<close>

definition worker_turn :: "service_settings \<Rightarrow> run_env \<Rightarrow> unit ts" where
  "worker_turn cfg env =
     wbind (sget sv_queue) (\<lambda>q.
       case q of
         [] \<Rightarrow> wret ()
       | i # rest \<Rightarrow>
           wseq (smod (\<lambda>_ s. s\<lparr>sv_queue := rest, sv_active := insert i (sv_active s)\<rparr>))
             (wseq (wcatch (run_task cfg env i) (\<lambda>_. wret ()))
               (smod (\<lambda>_ s. s\<lparr>sv_active := sv_active s - {i}\<rparr>))))"

section \<open>Recovery and deletion\<close>

definition recover_pending_step :: "service_settings \<Rightarrow> task_record \<Rightarrow> unit ts" where
  "recover_pending_step cfg r =
     wbind (is_deleted (lr_id r)) (\<lambda>gone.
       if gone then wret ()
       else wbind (sget (obj r)) (\<lambda>r.
         if lr_status r = LQueued then enqueue_task cfg (lr_id r)
         else if lr_status r = LRunning then recover_record cfg ''service restart recovery'' r
         else wret ()))"

definition recover_pending_tasks :: "service_settings \<Rightarrow> unit ts" where
  "recover_pending_tasks cfg = wbind (list_all_records cfg) (\<lambda>rs. wfor rs (recover_pending_step cfg))"

definition sweep_step :: "service_settings \<Rightarrow> instant \<Rightarrow> task_record \<Rightarrow> unit ts" where
  "sweep_step cfg now r =
     wbind (sget (obj r)) (\<lambda>r.
     wbind (sget sv_active) (\<lambda>active.
       if lr_status r \<noteq> LRunning \<or> lr_id r \<in> active then wret ()
       else (case lr_started r of
               None \<Rightarrow> recover_record cfg ''orphan running task without started_at'' r
             | Some t \<Rightarrow> if ss_orphan_timeout cfg \<le> now - t then recover_record cfg ''orphan running task timeout'' r
                 else wret ())))"

definition sweep_orphan_tasks :: "service_settings \<Rightarrow> unit ts" where
  "sweep_orphan_tasks cfg =
     wbind (wget sw_now) (\<lambda>now. wbind (list_all_records cfg) (\<lambda>rs. wfor rs (sweep_step cfg now)))"

definition cancel_task_of :: "string \<Rightarrow> service \<Rightarrow> service" where
  "cancel_task_of i s =
     s\<lparr>sv_cancelled := insert i (sv_cancelled s), sv_deleted := insert i (sv_deleted s),
       sv_store := delete_task i (sv_store s)\<rparr>"

text \<open>\<open>delete_running_tasks\<close>: the running tasks whose start (or creation) lies between the bounds.\<close>

definition in_window :: "instant option \<Rightarrow> instant option \<Rightarrow> instant \<Rightarrow> bool" where
  "in_window start_at end_at t \<longleftrightarrow>
     (case start_at of Some a \<Rightarrow> a \<le> t | None \<Rightarrow> True) \<and> (case end_at of Some b \<Rightarrow> t \<le> b | None \<Rightarrow> True)"

definition delete_running_tasks :: "service_settings \<Rightarrow> instant option \<Rightarrow> instant option \<Rightarrow> string list ts" where
  "delete_running_tasks cfg start_at end_at =
     wbind (list_all_records cfg) (\<lambda>rs.
       (let ids = map lr_id (filter (\<lambda>r. lr_status r = LRunning \<and>
              in_window start_at end_at (case lr_started r of Some t \<Rightarrow> t | None \<Rightarrow> lr_created r)) rs)
        in wseq (wfor ids (\<lambda>i. smod (\<lambda>_. cancel_task_of i))) (wret ids)))"

end
