(* ===== verification/Service_Samples.thy ===== *)
theory Service_Samples
  imports Task_Service "HOL-Library.Countable"
begin

text \<open>
  A codec that reads what it wrote, so that the hypothesis \<open>codec_ok\<close> can hold: task records are
  countable, and a record is written as its number in decimal. The sample tasks and settings the
  witnesses share.
\<close>

section \<open>Records are countable\<close>

instance json :: countable by countable_datatype
instance severity :: countable by countable_datatype
instance record_status :: countable by countable_datatype

instance model_finding_ext :: (countable) countable
  by (rule countable_classI [of "\<lambda>f. to_nat (mf_file f, mf_line f, mf_severity f, mf_title f, mf_detail f,
      mf_suggestion f, model_finding.more f)"]) simp

instance analysis_result_ext :: (countable) countable
  by (rule countable_classI [of "\<lambda>r. to_nat (ar_summary r, ar_pass r, ar_score r, ar_findings r, ar_raw r,
      analysis_result.more r)"]) simp

instance trigger_request_ext :: (countable) countable
  by (rule countable_classI [of "\<lambda>r. to_nat ((rq_app_name r, rq_repo_url r, rq_branch r, rq_commit r, rq_callback_url r,
      rq_callback_token r, rq_pipeline r, rq_sprint r), rq_operator r, rq_source r, rq_metadata r, rq_ci_task r,
      rq_ci_record r, rq_ci_parent r, rq_ci_template r, trigger_request.more r)"]) simp

instance task_record_ext :: (countable) countable
  by (rule countable_classI [of "\<lambda>r. to_nat ((lr_id r, lr_status r, lr_request r, lr_created r, lr_updated r, lr_started r,
      lr_finished r, lr_attempts r, lr_error r), lr_report_url r, lr_report_file r, lr_result r, lr_sessions r,
      lr_callbacks r, lr_callback_ok r, lr_callback_digest r, task_record.more r)"]) simp

definition sample_codec :: codec where
  "sample_codec =
     \<lparr>cd_dump = (\<lambda>r. str_nat (to_nat r)),
      cd_load = (\<lambda>t. if all_digits t then Inr (from_nat (nat_of_digits t)) else Inl (JSONDecodeError ''Expecting value''))\<rparr>"

lemma sample_codec_ok: "codec_ok sample_codec"
  by (simp add: codec_ok_def sample_codec_def all_digits_str_nat nat_of_digits_str_nat)

section \<open>Samples\<close>

definition sample_request :: trigger_request where
  "sample_request =
     \<lparr>rq_app_name = ''app'', rq_repo_url = ''git@h:g/r.git'', rq_branch = ''main'', rq_commit = None, rq_callback_url = Some ''u'',
      rq_callback_token = None, rq_pipeline = None, rq_sprint = None, rq_operator = None, rq_source = ''manual'',
      rq_metadata = [], rq_ci_task = None, rq_ci_record = None, rq_ci_parent = None, rq_ci_template = None\<rparr>"

definition sample_service_settings :: service_settings where
  "sample_service_settings =
     \<lparr>ss_codec = sample_codec, ss_queue_size = 2, ss_max_attempts = 3, ss_orphan_timeout = 1800, ss_report_base = ''r'',
      ss_report_dir = ''d'', ss_callback = \<lparr>cs_retry_times = 1, cs_ci_ack_url = ''a''\<rparr>, ss_fix_rounds = 3\<rparr>"

definition sample_service :: service where
  "sample_service =
     \<lparr>sv_store = empty_store [], sv_feedback = [], sv_queue = [], sv_feedback_queue = [], sv_general_queue = [],
      sv_fix_queue = [], sv_active = {}, sv_cancelled = {}, sv_deleted = {}, sv_sent = [], sv_pages = [], sv_patterns = []\<rparr>"

definition sample_start :: service_world where
  "sample_start = \<lparr>sw_sv = sample_service, sw_now = 100, sw_moves = []\<rparr>"

definition sample_run_env :: run_env where
  "sample_run_env =
     \<lparr>rn_prepare = (\<lambda>_. Inr ''p''), rn_head = (\<lambda>_. Inr ''abc''),
      rn_context = (\<lambda>_. Inr \<lparr>rc_diff_range = ''HEAD'', rc_files = Some [''a.py'']\<rparr>),
      rn_analyze = (\<lambda>_ _ _. Inr \<lparr>ar_summary = [], ar_pass = True, ar_score = 100, ar_findings = [], ar_raw = None\<rparr>),
      rn_render = (\<lambda>_ _. Inr ()), rn_post = (\<lambda>_ _ _. Answered 200 ''ok'' 5)\<rparr>"

definition sample_task :: task_record where
  "sample_task = new_record ''t1'' sample_request 100"

definition sample_loaded :: service_world where
  "sample_loaded = sample_start\<lparr>sw_sv := sample_service\<lparr>sv_store := \<lparr>ts_cache = [(''t1'', sample_task)], ts_files = []\<rparr>,
     sv_queue := [''t1'']\<rparr>\<rparr>"

end
