(* ===== verification/Service_Correct.thy ===== *)
theory Service_Correct
  imports Service_Samples
begin

text \<open>
  What the task service guarantees of its single operations: what a deletion of running tasks and a
  submission do to the store and the queue. The equations that run its statements one after the other are
  here too, and the invariants that hold whatever the other threads do.
\<close>

section \<open>Preconditions of the statements\<close>

lemma wp_sget [wp_simps]: "wp (sget f) Q E w = Q (f (sw_sv w)) w"
  by (simp add: sget_def wp_wget)

lemma wp_smod [wp_simps]: "wp (smod f) Q E w = Q () (w\<lparr>sw_sv := f (sw_now w) (sw_sv w)\<rparr>)"
  by (simp add: smod_def wp_wmod)

lemma wp_is_deleted [wp_simps]: "wp (is_deleted i) Q E w = Q (i \<in> sv_deleted (sw_sv w)) w"
  by (simp add: is_deleted_def wp_sget)

lemma wp_mutate [wp_simps]:
  "wp (mutate r f) Q E w =
     Q (f (sw_now w) (obj r (sw_sv w))) (w\<lparr>sw_sv := set_obj (f (sw_now w) (obj r (sw_sv w))) (sw_sv w)\<rparr>)"
  by (simp add: wp_def mutate_def Let_def)

section \<open>Runs without interference\<close>

text \<open>The next state of a statement when no other thread has a move, one equation for each kind of
  statement.\<close>

named_theorems run_simps \<open>statements run one after the other\<close>

lemma run_sget [run_simps]: "wbind (sget f) k w = k (f (sw_sv w)) w"
  by (simp add: wbind_def sget_def wget_def)

lemma run_wget [run_simps]: "wbind (wget f) k w = k (f w) w"
  by (simp add: wbind_def wget_def)

lemma run_smod [run_simps]: "wseq (smod f) n w = n (w\<lparr>sw_sv := f (sw_now w) (sw_sv w)\<rparr>)"
  by (simp add: wseq_def wbind_def smod_def wmod_def)

lemma run_is_deleted [run_simps]: "wbind (is_deleted i) k w = k (i \<in> sv_deleted (sw_sv w)) w"
  by (simp add: is_deleted_def run_sget)

lemma outside_quiet: "sw_moves w = [] \<Longrightarrow> outside r w = (r, w)"
  by (simp add: outside_def others_move_def wseq_def wbind_def wmod_def wlift_def)

lemma run_outside [run_simps]:
  "sw_moves w = [] \<Longrightarrow> wbind (outside r) k w = (case r of Inl e \<Rightarrow> (Inl e, w) | Inr x \<Rightarrow> k x w)"
  by (simp add: wbind_def outside_quiet split: sum.split)

lemma run_outside_seq [run_simps]:
  "sw_moves w = [] \<Longrightarrow> wseq (outside r) n w = (case r of Inl e \<Rightarrow> (Inl e, w) | Inr x \<Rightarrow> n w)"
  by (simp add: wseq_def run_outside)

text \<open>The cache after the object of a task was changed, and the store after it was saved.\<close>

definition with_cached :: "task_record \<Rightarrow> service \<Rightarrow> service" where
  "with_cached x s = s\<lparr>sv_store := (sv_store s)\<lparr>ts_cache := AList.update (lr_id x) x (ts_cache (sv_store s))\<rparr>\<rparr>"

definition cached :: "string \<Rightarrow> service \<Rightarrow> task_record option" where
  "cached i s = map_of (ts_cache (sv_store s)) i"

lemma cached_with [simp]: "cached i (with_cached x s) = (if i = lr_id x then Some x else cached i s)"
  by (simp add: cached_def with_cached_def)

lemma cached_upd [simp]:
  "cached i (s\<lparr>sv_sent := a\<rparr>) = cached i s" "cached i (s\<lparr>sv_pages := b\<rparr>) = cached i s"
  "cached i (s\<lparr>sv_patterns := c\<rparr>) = cached i s" "cached i (s\<lparr>sv_feedback := d\<rparr>) = cached i s"
  "cached i (s\<lparr>sv_queue := e\<rparr>) = cached i s"
  by (simp_all add: cached_def)

lemma with_cached_fields [simp]:
  "sv_deleted (with_cached x s) = sv_deleted s" "sv_sent (with_cached x s) = sv_sent s" "sv_pages (with_cached x s) = sv_pages s"
  "sv_feedback (with_cached x s) = sv_feedback s" "sv_queue (with_cached x s) = sv_queue s"
  by (simp_all add: with_cached_def)

lemma obj_cached: "cached (lr_id r) s = Some x \<Longrightarrow> obj r s = x"
  by (simp add: cached_def obj_def)

lemma run_mutate:
  assumes "cached (lr_id r) (sw_sv w) = Some x" and "lr_id (f (sw_now w) x) = lr_id r"
  shows "wbind (mutate r f) k w = k (f (sw_now w) x) (w\<lparr>sw_sv := with_cached (f (sw_now w) x) (sw_sv w)\<rparr>)"
  using assms by (simp add: wbind_def mutate_def obj_cached set_obj_def Let_def with_cached_def cached_def)

lemma save_runs:
  assumes "cached (lr_id r) (sw_sv w) = Some x" and "lr_id x = lr_id r" and "lr_id r \<notin> sv_deleted (sw_sv w)"
  shows "save_record cfg r w = (Inr (), w\<lparr>sw_sv := (sw_sv w)\<lparr>sv_store := save_task (ss_codec cfg) (sw_now w) x (sv_store (sw_sv w))\<rparr>\<rparr>)"
  using assms by (simp add: save_record_def smod_def wmod_def save_obj_def obj_cached Let_def)

lemma run_save:
  assumes "cached (lr_id r) (sw_sv w) = Some x" and "lr_id x = lr_id r" and "lr_id r \<notin> sv_deleted (sw_sv w)"
  shows "wseq (save_record cfg r) n w
    = n (w\<lparr>sw_sv := (sw_sv w)\<lparr>sv_store := save_task (ss_codec cfg) (sw_now w) x (sv_store (sw_sv w))\<rparr>\<rparr>)"
  by (simp add: wseq_def wbind_def save_runs [OF assms])

lemma cached_save [simp]:
  "cached i (s\<lparr>sv_store := save_task c now x (sv_store s)\<rparr>) = (if i = lr_id x then Some (touch now x) else cached i s)"
  by (simp add: cached_def save_task_def Let_def touch_def)

lemma cached_stored: "cached i s = Some x \<Longrightarrow> stored c (sv_store s) i = Some x"
  by (simp add: cached_def stored_cached)

section \<open>Invariants under the moves of other threads\<close>

definition calm :: "(service \<Rightarrow> bool) \<Rightarrow> service_world \<Rightarrow> bool" where
  "calm I w \<longleftrightarrow> I (sw_sv w) \<and> (\<forall>m \<in> set (sw_moves w). \<forall>s. I s \<longrightarrow> I (snd m s))"

lemma calm_sv: "calm I w \<Longrightarrow> I (sw_sv w)"
  by (simp add: calm_def)

lemma always_sget [always_intros]: "always J (sget f)"
  unfolding sget_def by (rule always_wget)

lemma always_smod: "(\<And>now s. I s \<Longrightarrow> I (f now s)) \<Longrightarrow> always (calm I) (smod f)"
  unfolding smod_def by (rule always_wmod) (simp add: calm_def)

lemma always_others_move [always_intros]: "always (calm I) others_move"
  unfolding others_move_def by (rule always_wmod) (auto simp: calm_def split: list.split prod.split)

lemma always_outside [always_intros]: "always (calm I) (outside r)"
  unfolding outside_def by (intro always_intros)

lemma always_the_store: "(\<And>s. I s \<Longrightarrow> I (s\<lparr>sv_store := snd (f (ss_codec cfg) (sv_store s))\<rparr>)) \<Longrightarrow> always (calm I) (the_store cfg f)"
  by (simp add: always_def the_store_def calm_def case_prod_beta)

lemma always_mutate: "(\<And>now s. I s \<Longrightarrow> I (set_obj (f now (obj r s)) s)) \<Longrightarrow> always (calm I) (mutate r f)"
  by (simp add: always_def mutate_def calm_def Let_def)

section \<open>Reading the store\<close>

text \<open>Every file of the store can be read.\<close>

definition readable :: "codec \<Rightarrow> task_store \<Rightarrow> bool" where
  "readable c st \<longleftrightarrow> (\<forall>i t. map_of (ts_files st) i = Some t \<longrightarrow> is_ok (cd_load c t))"

definition records_of :: "codec \<Rightarrow> task_store \<Rightarrow> task_record list" where
  "records_of c st = List.map_filter (stored c st) (file_order st)"

lemma get_readable: "readable c st \<Longrightarrow> fst (get_task_record c i st) = Inr (stored c st i)"
  by (auto simp: readable_def stored_def get_task_record_def load_record_once is_ok_def split: option.split sum.split)
    (metis sum.case(1))

lemma list_readable: "readable c st \<Longrightarrow> is_ok (fst (list_records c is acc st))"
proof (induction c "is" acc st rule: list_records.induct)
  case (2 c i "is" acc st)
  obtain v st2 where v: "get_task_record c i st = (v, st2)" by fastforce
  then have "v = Inr (stored c st i)" "readable c st2"
    using get_readable [OF 2(3), of i] files_get [of c i st] 2(3) by (simp_all add: readable_def)
  with 2 v show ?case by (cases "stored c st i") simp_all
qed simp

text \<open>Reading all records changes no answer of the store.\<close>

definition same_service :: "codec \<Rightarrow> service \<Rightarrow> service \<Rightarrow> bool" where
  "same_service c s s' \<longleftrightarrow>
     s' = s\<lparr>sv_store := sv_store s'\<rparr> \<and> ts_files (sv_store s') = ts_files (sv_store s)
     \<and> stored c (sv_store s') = stored c (sv_store s)"

lemma list_all_reads:
  assumes "readable (ss_codec cfg) (sv_store (sw_sv w))"
  shows "\<exists>s. list_all_records cfg w = (Inr (records_of (ss_codec cfg) (sv_store (sw_sv w))), w\<lparr>sw_sv := s\<rparr>)
    \<and> same_service (ss_codec cfg) (sw_sv w) s"
proof -
  let ?c = "ss_codec cfg" and ?st = "sv_store (sw_sv w)"
  obtain r st where l: "list_all_tasks ?c ?st = (r, st)" by fastforce
  then obtain rs where rs: "r = Inr rs"
    using list_readable [OF assms, of "file_order ?st" "[]"] by (cases r) (simp_all add: list_all_tasks_def)
  with l have "rs = records_of ?c ?st" by (simp add: list_all_value records_of_def)
  moreover have "stored ?c st = stored ?c ?st" "ts_files st = ts_files ?st"
    using stored_list_all [of ?c ?st] files_list_all [of ?c ?st] l by (simp_all add: fun_eq_iff)
  ultimately show ?thesis
    by (intro exI [of _ "(sw_sv w)\<lparr>sv_store := st\<rparr>"]) (simp add: list_all_records_def the_store_def l rs same_service_def)
qed

lemma same_records: "same_service c s s' \<Longrightarrow> records_of c (sv_store s') = records_of c (sv_store s)"
  by (simp add: same_service_def records_of_def file_order_def)

lemma same_readable: "same_service c s s' \<Longrightarrow> readable c (sv_store s') = readable c (sv_store s)"
  by (simp add: same_service_def readable_def)

lemma same_refl [simp]: "same_service c s s"
  by (simp add: same_service_def)

lemma same_trans: "same_service c s t \<Longrightarrow> same_service c t u \<Longrightarrow> same_service c s u"
  by (auto simp: same_service_def) (metis service.surjective service.update_convs(1))

lemma same_fields: "same_service c s s' \<Longrightarrow> sv_queue s' = sv_queue s \<and> sv_deleted s' = sv_deleted s"
  unfolding same_service_def
  by (metis (no_types, lifting) service.select_convs(3,9) service.surjective service.update_convs(1))

section \<open>Deletion\<close>

definition running_between :: "instant option \<Rightarrow> instant option \<Rightarrow> task_record \<Rightarrow> bool" where
  "running_between start_at end_at r \<longleftrightarrow>
     lr_status r = LRunning \<and> in_window start_at end_at (case lr_started r of Some t \<Rightarrow> t | None \<Rightarrow> lr_created r)"

lemma wfor_smod: "wfor xs (\<lambda>x. smod (\<lambda>_. f x)) w = (Inr (), w\<lparr>sw_sv := fold f xs (sw_sv w)\<rparr>)"
  by (induction xs arbitrary: w) (simp_all add: wret_def wseq_def wbind_def smod_def wmod_def)

lemma fold_cancel:
  "fold cancel_task_of ids s = s\<lparr>sv_store := fold delete_task ids (sv_store s),
     sv_deleted := sv_deleted s \<union> set ids, sv_cancelled := sv_cancelled s \<union> set ids\<rparr>"
  by (induction ids arbitrary: s) (simp_all add: cancel_task_of_def)

lemma fold_delete: "stored c (fold delete_task ids st) k = (if k \<in> set ids then None else stored c st k)"
  by (induction ids arbitrary: st) (simp_all add: stored_delete)

text \<open>C20: deleting the running tasks of a window reports exactly the stored records that are running and whose
  start (or creation, before the start is known) lies between the bounds, in the order of the files. Each of
  them is gone from the cache and the files and marked as cancelled and deleted; the store answers for every
  other task as before, and no queue, thread, callback or page changes.\<close>

theorem delete_running_effect:
  assumes "readable (ss_codec cfg) (sv_store (sw_sv w))"
  shows "let c = ss_codec cfg; s = sw_sv w;
        ids = map lr_id (filter (running_between start_at end_at) (records_of c (sv_store s)));
        out = delete_running_tasks cfg start_at end_at w; v = sw_sv (snd out)
    in fst out = Inr ids
      \<and> stored c (sv_store v) = (\<lambda>k. if k \<in> set ids then None else stored c (sv_store s) k)
      \<and> v = s\<lparr>sv_store := sv_store v, sv_deleted := sv_deleted s \<union> set ids, sv_cancelled := sv_cancelled s \<union> set ids\<rparr>
      \<and> sw_now (snd out) = sw_now w"
proof -
  let ?c = "ss_codec cfg" and ?s = "sw_sv w"
  let ?ids = "map lr_id (filter (running_between start_at end_at) (records_of ?c (sv_store ?s)))"
  obtain t where t: "list_all_records cfg w = (Inr (records_of ?c (sv_store ?s)), w\<lparr>sw_sv := t\<rparr>)" "same_service ?c ?s t"
    using list_all_reads [OF assms] by blast
  have out: "delete_running_tasks cfg start_at end_at w = (Inr ?ids, w\<lparr>sw_sv := fold cancel_task_of ?ids t\<rparr>)"
    by (simp add: delete_running_tasks_def wbind_def wseq_def wfor_smod wret_def Let_def t(1) running_between_def [abs_def])
  have st: "stored ?c (sv_store t) = stored ?c (sv_store ?s)" and eq: "t = ?s\<lparr>sv_store := sv_store t\<rparr>"
    using t(2) by (simp_all add: same_service_def)
  have "t\<lparr>sv_store := a, sv_deleted := sv_deleted t \<union> set ?ids, sv_cancelled := sv_cancelled t \<union> set ?ids\<rparr>
      = ?s\<lparr>sv_store := a, sv_deleted := sv_deleted ?s \<union> set ?ids, sv_cancelled := sv_cancelled ?s \<union> set ?ids\<rparr>" for a
    by (subst (1 2 3) eq) simp
  then show ?thesis
    unfolding out Let_def fold_cancel by (simp add: fold_delete st fun_eq_iff)
qed

text \<open>Three running tasks, of which one started within the bounds.\<close>

definition running_record :: "string \<Rightarrow> instant \<Rightarrow> task_record" where
  "running_record i t = start_record t (sample_task\<lparr>lr_id := i\<rparr>)"

definition running_sample :: service_world where
  "running_sample = sample_start\<lparr>sw_sv := sample_service\<lparr>sv_store := empty_store
     (map (\<lambda>(i, t). (i, cd_dump sample_codec (running_record i t))) [(''t1'', 100), (''t2'', 200), (''t3'', 300)])\<rparr>\<rparr>"

lemma running_sample_facts:
  "readable sample_codec (sv_store (sw_sv running_sample))"
  "records_of sample_codec (sv_store (sw_sv running_sample)) = [running_record ''t1'' 100, running_record ''t2'' 200, running_record ''t3'' 300]"
proof -
  have load: "cd_load sample_codec (cd_dump sample_codec r) = Inr r" for r
    using sample_codec_ok by (simp add: codec_ok_def)
  show "readable sample_codec (sv_store (sw_sv running_sample))"
    by (auto simp: readable_def running_sample_def empty_store_def load split: if_splits)
  have stored: "stored sample_codec (sv_store (sw_sv running_sample)) i =
      (if i = ''t1'' then Some (running_record ''t1'' 100) else if i = ''t2'' then Some (running_record ''t2'' 200)
       else if i = ''t3'' then Some (running_record ''t3'' 300) else None)" for i
    by (simp add: running_sample_def empty_store_def stored_def get_task_record_def load load_record_once)
  have "file_order (sv_store (sw_sv running_sample)) = [''t1'', ''t2'', ''t3'']"
    by (simp add: running_sample_def empty_store_def file_order_def)
  then show "records_of sample_codec (sv_store (sw_sv running_sample))
      = [running_record ''t1'' 100, running_record ''t2'' 200, running_record ''t3'' 300]"
    by (simp add: records_of_def stored List.map_filter_simps)
qed

theorem delete_running_effect_witness:
  "fst (delete_running_tasks sample_service_settings (Some 150) (Some 250) running_sample) = Inr [''t2'']
   \<and> stored sample_codec (sv_store (sw_sv (snd (delete_running_tasks sample_service_settings (Some 150) (Some 250) running_sample)))) ''t2'' = None"
proof -
  have c: "ss_codec sample_service_settings = sample_codec" by (simp add: sample_service_settings_def)
  have ids: "map lr_id (filter (running_between (Some 150) (Some 250)) (records_of sample_codec (sv_store (sw_sv running_sample)))) = [''t2'']"
    unfolding running_sample_facts by (simp add: running_between_def in_window_def running_record_def start_record_def)
  show ?thesis
    using delete_running_effect [of sample_service_settings running_sample "Some 150" "Some 250"] running_sample_facts(1)
    unfolding Let_def c ids by simp
qed

section \<open>Submission\<close>

text \<open>The record a submission is answered with instead of a new one: the last with the request's key, any
  one when the commit is named, one still in flight otherwise.\<close>

definition duplicate_of :: "codec \<Rightarrow> service \<Rightarrow> trigger_request \<Rightarrow> task_record option" where
  "duplicate_of c s rq =
     find (\<lambda>r. request_key (lr_request r) = request_key rq \<and> (text_truthy (rq_commit rq) \<or> in_flight r))
       (rev (records_of c (sv_store s)))"

definition queue_full :: "service_settings \<Rightarrow> service \<Rightarrow> bool" where
  "queue_full cfg s \<longleftrightarrow> 0 < ss_queue_size cfg \<and> ss_queue_size cfg \<le> length (sv_queue s)"

lemma same_commit_runs:
  assumes "readable (ss_codec cfg) (sv_store (sw_sv w))"
  shows "\<exists>s. find_same_commit_record cfg rq w
      = (Inr (if text_truthy (rq_commit rq) then duplicate_of (ss_codec cfg) (sw_sv w) rq else None), w\<lparr>sw_sv := s\<rparr>)
    \<and> same_service (ss_codec cfg) (sw_sv w) s"
proof (cases "text_truthy (rq_commit rq)")
  case True
  with list_all_reads [OF assms] show ?thesis
    by (auto simp: find_same_commit_record_def wbind_def wret_def duplicate_of_def)
next
  case False
  then show ?thesis by (intro exI [of _ "sw_sv w"]) (simp add: find_same_commit_record_def wret_def)
qed

lemma inflight_runs:
  assumes "readable (ss_codec cfg) (sv_store (sw_sv w))"
  shows "\<exists>s d. find_inflight_duplicate cfg rq w = (Inr d, w\<lparr>sw_sv := s\<rparr>) \<and> same_service (ss_codec cfg) (sw_sv w) s
    \<and> (if text_truthy (rq_commit rq) then duplicate_of (ss_codec cfg) (sw_sv w) rq = None \<longrightarrow> d = None
       else d = duplicate_of (ss_codec cfg) (sw_sv w) rq)"
proof -
  obtain s where s: "list_all_records cfg w = (Inr (records_of (ss_codec cfg) (sv_store (sw_sv w))), w\<lparr>sw_sv := s\<rparr>)"
    "same_service (ss_codec cfg) (sw_sv w) s"
    using list_all_reads [OF assms] by blast
  have "find (\<lambda>r. in_flight r \<and> request_key (lr_request r) = request_key rq) (rev rs) = None"
    if "find (\<lambda>r. request_key (lr_request r) = request_key rq) (rev rs) = None" for rs
    using that by (auto simp: find_None_key)
  with s show ?thesis
    by (intro exI [of _ s] exI conjI) (auto simp: find_inflight_duplicate_def wbind_def wret_def duplicate_of_def conj_commute)
qed

lemma submit_new_runs:
  assumes "i \<notin> sv_deleted (sw_sv w)" and "map_of (ts_cache (sv_store (sw_sv w))) i = None"
  shows "submit_new cfg i rq w =
    (let r = touch (sw_now w) (new_record i rq (sw_now w)); s = sw_sv w;
         saved = s\<lparr>sv_store := save_task (ss_codec cfg) (sw_now w) r (sv_store s)\<rparr>
     in if queue_full cfg s then (Inl (RuntimeError ''task queue is full''), w\<lparr>sw_sv := saved\<rparr>)
        else (Inr r, w\<lparr>sw_sv := saved\<lparr>sv_queue := sv_queue s @ [i]\<rparr>\<rparr>))"
  using assms
  by (simp add: submit_new_def wbind_def wseq_def wget_def sget_def smod_def wmod_def save_record_def save_obj_def obj_def
      enqueue_task_def wraise_def queue_full_def Let_def new_record_def touch_def save_task_def)

lemma submit_runs:
  assumes "readable (ss_codec cfg) (sv_store (sw_sv w))"
  shows "\<exists>s. same_service (ss_codec cfg) (sw_sv w) s \<and> submit cfg i rq w =
    (case duplicate_of (ss_codec cfg) (sw_sv w) rq of Some r \<Rightarrow> (Inr r, w\<lparr>sw_sv := s\<rparr>)
     | None \<Rightarrow> submit_new cfg i rq (w\<lparr>sw_sv := s\<rparr>))"
proof -
  let ?c = "ss_codec cfg" and ?dup = "duplicate_of (ss_codec cfg) (sw_sv w) rq"
  obtain s where s: "find_same_commit_record cfg rq w = (Inr (if text_truthy (rq_commit rq) then ?dup else None), w\<lparr>sw_sv := s\<rparr>)"
    "same_service ?c (sw_sv w) s"
    using same_commit_runs [OF assms] by blast
  have "readable ?c (sv_store (sw_sv (w\<lparr>sw_sv := s\<rparr>)))" using same_readable [OF s(2)] assms by simp
  from inflight_runs [OF this, of rq] obtain t d where t: "find_inflight_duplicate cfg rq (w\<lparr>sw_sv := s\<rparr>) = (Inr d, w\<lparr>sw_sv := t\<rparr>)"
    "same_service ?c s t" and d: "if text_truthy (rq_commit rq) then duplicate_of ?c s rq = None \<longrightarrow> d = None else d = duplicate_of ?c s rq"
    by auto
  have dup: "duplicate_of ?c s rq = ?dup" by (simp add: duplicate_of_def same_records [OF s(2)])
  have st: "same_service ?c (sw_sv w) t" using s(2) t(2) by (rule same_trans)
  show ?thesis
  proof (cases "text_truthy (rq_commit rq) \<and> ?dup \<noteq> None")
    case True
    with s show ?thesis by (auto simp: submit_def wbind_def wret_def)
  next
    case False
    then have "d = ?dup" using d dup by (auto split: if_splits)
    then have "submit cfg i rq w = (case ?dup of Some r \<Rightarrow> (Inr r, w\<lparr>sw_sv := t\<rparr>) | None \<Rightarrow> submit_new cfg i rq (w\<lparr>sw_sv := t\<rparr>))"
      using s(1) t(1) False by (auto simp: submit_def wbind_def wret_def split: option.split)
    with st show ?thesis by blast
  qed
qed

text \<open>C21: a submission whose request has a duplicate is answered with that record and changes no answer of
  the store and no queue. Any other stores a new queued record under the fresh identifier, and puts it in
  the queue when that has room; when it has none, the caller is told of an error and the record stays
  stored as queued.\<close>

theorem submit_effect:
  assumes "readable (ss_codec cfg) (sv_store (sw_sv w))" and "stored (ss_codec cfg) (sv_store (sw_sv w)) i = None"
    and "i \<notin> sv_deleted (sw_sv w)"
  shows "let c = ss_codec cfg; s = sw_sv w; out = submit cfg i rq w; v = sw_sv (snd out);
        r = touch (sw_now w) (new_record i rq (sw_now w))
    in case duplicate_of c s rq of
         Some d \<Rightarrow> fst out = Inr d \<and> same_service c s v
       | None \<Rightarrow>
           stored c (sv_store v) = (stored c (sv_store s))(i \<mapsto> r)
           \<and> (if queue_full cfg s then fst out = Inl (RuntimeError ''task queue is full'') \<and> sv_queue v = sv_queue s
              else fst out = Inr r \<and> sv_queue v = sv_queue s @ [i])"
proof -
  obtain s where s: "same_service (ss_codec cfg) (sw_sv w) s" "submit cfg i rq w =
      (case duplicate_of (ss_codec cfg) (sw_sv w) rq of Some r \<Rightarrow> (Inr r, w\<lparr>sw_sv := s\<rparr>)
       | None \<Rightarrow> submit_new cfg i rq (w\<lparr>sw_sv := s\<rparr>))"
    using submit_runs [OF assms(1)] by blast
  have same: "stored (ss_codec cfg) (sv_store s) = stored (ss_codec cfg) (sv_store (sw_sv w))" "sv_queue s = sv_queue (sw_sv w)"
    "sv_deleted s = sv_deleted (sw_sv w)"
    using s(1) same_fields [OF s(1)] by (simp_all add: same_service_def)
  have "map_of (ts_cache (sv_store s)) i = None"
    using same(1) assms(2) stored_cached by (metis not_Some_eq)
  with same assms(3) have new: "submit_new cfg i rq (w\<lparr>sw_sv := s\<rparr>) =
    (let r = touch (sw_now w) (new_record i rq (sw_now w));
         saved = s\<lparr>sv_store := save_task (ss_codec cfg) (sw_now w) r (sv_store s)\<rparr>
     in if queue_full cfg s then (Inl (RuntimeError ''task queue is full''), w\<lparr>sw_sv := saved\<rparr>)
        else (Inr r, w\<lparr>sw_sv := saved\<lparr>sv_queue := sv_queue s @ [i]\<rparr>\<rparr>))"
    by (subst submit_new_runs) (simp_all add: Let_def)
  show ?thesis
    using s(1) same
    by (auto simp: Let_def s(2) new queue_full_def fun_eq_iff stored_save touch_def new_record_def split: option.split)
qed

lemma sample_readable: "readable (ss_codec sample_service_settings) (sv_store (sw_sv sample_start))"
  by (simp add: readable_def sample_start_def sample_service_def empty_store_def)

theorem submit_effect_witness:
  "fst (submit sample_service_settings ''t1'' sample_request sample_start) = Inr (touch 100 (new_record ''t1'' sample_request 100))"
proof -
  have "stored (ss_codec sample_service_settings) (sv_store (sw_sv sample_start)) ''t1'' = None" "''t1'' \<notin> sv_deleted (sw_sv sample_start)"
    by (simp_all add: stored_def get_task_record_def sample_start_def sample_service_def empty_store_def)
  from submit_effect [OF sample_readable this, of sample_request]
  show ?thesis
    by (simp add: Let_def duplicate_of_def records_of_def file_order_def queue_full_def sample_start_def sample_service_def
        empty_store_def sample_service_settings_def List.map_filter_simps)
qed

end
