(* ===== verification/Service_Run.thy ===== *)
theory Service_Run
  imports Service_Correct
begin

text \<open>
  How a run ends: whatever git, the model and the callback answer or raise, and whatever the other threads
  do to other tasks, the task is left finished, or back in the queue with attempts to spare, its file
  holding the record of the cache.
\<close>

section \<open>A task alone\<close>

text \<open>A move of another thread that leaves a task alone.\<close>

definition spares :: "string \<Rightarrow> (service \<Rightarrow> service) \<Rightarrow> bool" where
  "spares i f \<longleftrightarrow>
     (\<forall>s. map_of (ts_cache (sv_store (f s))) i = map_of (ts_cache (sv_store s)) i
        \<and> map_of (ts_files (sv_store (f s))) i = map_of (ts_files (sv_store s)) i
        \<and> (i \<in> sv_deleted (f s) \<longleftrightarrow> i \<in> sv_deleted s))"

definition others_spare :: "string \<Rightarrow> service_world \<Rightarrow> bool" where
  "others_spare i w \<longleftrightarrow> (\<forall>m \<in> set (sw_moves w). spares i (snd m))"

text \<open>The task is in the cache, not deleted, and its record has a property.\<close>

definition holds :: "string \<Rightarrow> (task_record \<Rightarrow> bool) \<Rightarrow> service_world \<Rightarrow> bool" where
  "holds i P w \<longleftrightarrow>
     others_spare i w \<and> i \<notin> sv_deleted (sw_sv w)
     \<and> (\<exists>x. map_of (ts_cache (sv_store (sw_sv w))) i = Some x \<and> lr_id x = i \<and> P x)"

definition synced :: "codec \<Rightarrow> string \<Rightarrow> service_world \<Rightarrow> bool" where
  "synced c i w \<longleftrightarrow>
     (\<exists>x t. map_of (ts_cache (sv_store (sw_sv w))) i = Some x \<and> map_of (ts_files (sv_store (sw_sv w))) i = Some t
        \<and> cd_load c t = Inr x)"

lemma holds_mono: "holds i P w \<Longrightarrow> (\<And>x. P x \<Longrightarrow> P' x) \<Longrightarrow> holds i P' w"
  by (auto simp: holds_def)

lemma holds_alive: "holds i P w \<Longrightarrow> i \<notin> sv_deleted (sw_sv w)"
  by (simp add: holds_def)

lemma holds_obj: "holds i P w \<Longrightarrow> lr_id r = i \<Longrightarrow> lr_id (obj r (sw_sv w)) = i \<and> P (obj r (sw_sv w))"
  by (auto simp: holds_def obj_def)

lemma wp_outside_holds:
  assumes "holds i P w"
    and "\<And>x v. r = Inr x \<Longrightarrow> holds i P v \<Longrightarrow> Q x v" and "\<And>e v. r = Inl e \<Longrightarrow> holds i P v \<Longrightarrow> E e v"
  shows "wp (outside r) Q E w"
proof -
  let ?v = "snd (others_move w :: (py_exc + unit) \<times> service_world)"
  have "holds i P ?v"
    using assms(1) by (auto simp: holds_def others_move_def wmod_def others_spare_def spares_def split: list.split)
  with assms(2,3) show ?thesis
    by (cases r) (simp_all add: outside_def wp_simps others_move_def wmod_def)
qed

lemma wp_mutate_holds:
  assumes "holds i P w" and "lr_id r = i" and "\<And>now x. P x \<Longrightarrow> lr_id x = i \<Longrightarrow> lr_id (f now x) = i \<and> P' (f now x)"
    and "\<And>x v. lr_id x = i \<Longrightarrow> P' x \<Longrightarrow> holds i P' v \<Longrightarrow> Q x v"
  shows "wp (mutate r f) Q E w"
proof -
  obtain x where x: "map_of (ts_cache (sv_store (sw_sv w))) i = Some x" "lr_id x = i" "P x"
    using assms(1) by (auto simp: holds_def)
  let ?y = "f (sw_now w) x"
  have y: "lr_id ?y = i" "P' ?y" using assms(3) x by simp_all
  have o: "obj r (sw_sv w) = x" by (simp add: obj_def assms(2) x)
  have "holds i P' (w\<lparr>sw_sv := set_obj ?y (sw_sv w)\<rparr>)"
    using assms(1) x y by (auto simp: holds_def set_obj_def Let_def others_spare_def)
  with y assms(4) show ?thesis by (simp add: wp_mutate o)
qed

lemma wp_save_holds:
  assumes "holds i P w" and "lr_id r = i" and "codec_ok (ss_codec cfg)" and "\<And>now x. P x \<Longrightarrow> P (touch now x)"
    and "\<And>v. holds i P v \<Longrightarrow> synced (ss_codec cfg) i v \<Longrightarrow> Q () v"
  shows "wp (save_record cfg r) Q E w"
proof -
  obtain x where x: "map_of (ts_cache (sv_store (sw_sv w))) i = Some x" "lr_id x = i" "P x"
    using assms(1) by (auto simp: holds_def)
  let ?v = "w\<lparr>sw_sv := save_obj cfg (sw_now w) r (sw_sv w)\<rparr>"
  have o: "obj r (sw_sv w) = x" by (simp add: obj_def assms(2) x)
  have tid: "lr_id (touch (sw_now w) x) = i" by (simp add: touch_def x)
  have "holds i P ?v"
    using assms(1) x assms(4) tid by (simp add: holds_def save_obj_def Let_def o save_task_def others_spare_def)
  moreover have "synced (ss_codec cfg) i ?v"
    using holds_alive [OF assms(1)] assms(3) x tid
    by (simp add: synced_def save_obj_def Let_def o save_task_def codec_ok_def)
  ultimately show ?thesis using assms(5) by (simp add: save_record_def wp_smod)
qed

section \<open>The end of a run\<close>

definition attempted :: "nat \<Rightarrow> task_record \<Rightarrow> bool" where
  "attempted n x \<longleftrightarrow> lr_attempts x = n"

text \<open>Success with a passing result and an acknowledged callback, failure, or a place in the queue with
  attempts to spare.\<close>

definition run_over :: "service_settings \<Rightarrow> nat \<Rightarrow> task_record \<Rightarrow> bool" where
  "run_over cfg n x \<longleftrightarrow>
     lr_attempts x = n
     \<and> (case lr_status x of
          LSuccess \<Rightarrow> (\<exists>res. lr_result x = Some res \<and> ar_pass res) \<and> lr_callback_ok x
        | LFailed \<Rightarrow> True
        | LQueued \<Rightarrow> n < ss_max_attempts cfg
        | LRunning \<Rightarrow> False)"

definition done_task :: "service_settings \<Rightarrow> string \<Rightarrow> nat \<Rightarrow> service_world \<Rightarrow> bool" where
  "done_task cfg i n v \<longleftrightarrow> holds i (run_over cfg n) v \<and> synced (ss_codec cfg) i v"

lemma touch_fields [simp]:
  "lr_attempts (touch now x) = lr_attempts x" "lr_status (touch now x) = lr_status x"
  "lr_result (touch now x) = lr_result x" "lr_callback_ok (touch now x) = lr_callback_ok x"
  by (simp_all add: touch_def)

definition judged_record :: "nat \<Rightarrow> task_record \<Rightarrow> bool" where
  "judged_record n x \<longleftrightarrow>
     lr_attempts x = n \<and> (\<exists>res. lr_result x = Some res \<and> lr_status x = (if ar_pass res then LSuccess else LFailed))"

lemma touch_judged [simp]: "judged_record n (touch now x) = judged_record n x"
  by (simp add: judged_record_def)

lemma touch_over [simp]: "run_over cfg n (touch now x) = run_over cfg n x"
  unfolding run_over_def touch_fields ..

lemma touch_attempted [simp]: "attempted n (touch now x) = attempted n x"
  by (simp add: attempted_def)

lemma judged_attempted: "judged_record n x \<Longrightarrow> attempted n x"
  by (simp add: judged_record_def attempted_def)

lemma judged_over: "judged_record n x \<Longrightarrow> lr_callback_ok x \<Longrightarrow> run_over cfg n x"
  by (auto simp: judged_record_def run_over_def split: if_splits)

lemma delivered_done:
  assumes "codec_ok (ss_codec cfg)" and "holds i (judged_record n) w" and "lr_id r = i"
  shows "wp (wbind (outside answer) (\<lambda>history.
      wbind (mutate r (\<lambda>_ x. x\<lparr>lr_callbacks := history, lr_callback_ok := True, lr_callback_digest := Some d\<rparr>)) (save_record cfg)))
    (\<lambda>_. done_task cfg i n) (\<lambda>_. holds i (attempted n)) w"
proof (rule wp_wbindI, rule wp_outside_holds [OF assms(2)], goal_cases)
  case (1 history v)
  show ?case
  proof (rule wp_wbindI, rule wp_mutate_holds [OF 1(2) assms(3), where P' = "run_over cfg n"], goal_cases)
    case (1 now x)
    then show ?case by (auto simp: judged_record_def run_over_def split: if_splits)
  next
    case (2 x u)
    show ?case
      by (rule wp_save_holds [OF 2(3) 2(1) assms(1)]) (simp_all add: done_task_def)
  qed
next
  case (2 e v)
  then show ?case by (blast intro: holds_mono judged_attempted)
qed

lemma send_callback_done:
  assumes "codec_ok (ss_codec cfg)" and "holds i (judged_record n) w" and "synced (ss_codec cfg) i w" and "lr_id r = i"
  shows "wp (send_callback_if_needed cfg env r p) (\<lambda>_. done_task cfg i n) (\<lambda>_. holds i (attempted n)) w"
proof -
  obtain x where x: "map_of (ts_cache (sv_store (sw_sv w))) i = Some x" "lr_id x = i" "judged_record n x"
    using assms(2) by (auto simp: holds_def)
  have o: "obj r (sw_sv w) = x" by (simp add: obj_def assms(4) x)
  have over: "holds i (run_over cfg n) w" if "lr_callback_ok x"
    using assms(2) x that judged_over by (auto simp: holds_def)
  have h: "holds i (judged_record n) (w\<lparr>sw_sv := (sw_sv w)\<lparr>sv_sent := sv_sent (sw_sv w) @ [p]\<rparr>\<rparr>)"
    using assms(2) by (simp add: holds_def others_spare_def)
  show ?thesis
    unfolding send_callback_if_needed_def
    using over assms(3) delivered_done [OF assms(1) h x(2)]
    by (simp add: wp_sget wp_wbind [where m = "sget f" for f] wp_if wp_wret wp_wseq wp_smod o done_task_def)
qed

lemma write_page_holds:
  assumes "holds i P w" and "\<And>uf v. holds i P v \<Longrightarrow> Q uf v" and "\<And>e v. holds i P v \<Longrightarrow> E e v"
  shows "wp (write_report_page cfg env r result) Q E w"
  unfolding write_report_page_def
proof (rule wp_wseqI, rule wp_outside_holds [OF assms(1)], goal_cases)
  case (1 x v)
  then have "holds i P (v\<lparr>sw_sv := (sw_sv v)\<lparr>sv_pages := sv_pages (sw_sv v) @ [(lr_id r, result)]\<rparr>\<rparr>)"
    by (simp add: holds_def others_spare_def)
  then show ?case by (simp add: wp_simps assms(2))
qed (simp add: assms(3))

lemma finish_analysis_done:
  assumes "codec_ok (ss_codec cfg)" and "holds i (attempted n) w" and "lr_id r = i"
  shows "wp (finish_analysis cfg env r ctx result) (\<lambda>_. done_task cfg i n) (\<lambda>_. holds i (attempted n)) w"
  unfolding finish_analysis_def Let_def
proof (rule wp_wbindI, rule wp_mutate_holds [OF assms(2,3), where P' = "attempted n"], goal_cases)
  case (2 x v)
  show ?case
  proof (rule wp_wbindI, rule write_page_holds [OF 2(3)], goal_cases)
    case (1 uf v)
    obtain url path where uf: "uf = (url, path)" by fastforce
    show ?case unfolding uf prod.case
    proof (rule wp_wbindI, rule wp_mutate_holds [OF 1 2(1), where P' = "judged_record n"], goal_cases)
      case (2 y u)
      show ?case
        by (rule wp_wseqI, rule wp_save_holds [OF 2(3) 2(1) assms(1)])
          (simp_all add: wp_wbind [where m = "wget f" for f] wp_wget send_callback_done [OF assms(1) _ _ 2(1)])
    qed (auto simp: finish_record_def attempted_def judged_record_def)
  qed
qed (auto simp: attempted_def)

lemma holds_sget:
  assumes "holds i P w" and "lr_id r = i" and "\<And>x. lr_id x = i \<Longrightarrow> P x \<Longrightarrow> wp (f x) Q E w"
  shows "wp (wbind (sget (obj r)) f) Q E w"
  using holds_obj [OF assms(1,2)] assms(3) by (simp add: wp_wbind [where m = "sget f" for f] wp_sget)

lemma note_commit_holds:
  assumes "codec_ok (ss_codec cfg)" and "holds i (attempted n) w" and "lr_id r = i"
    and "\<And>x v. lr_id x = i \<Longrightarrow> holds i (attempted n) v \<Longrightarrow> Q x v"
  shows "wp (if text_truthy (rq_commit (lr_request r)) then wret r
      else wbind (mutate r (\<lambda>_ x. x\<lparr>lr_request := (lr_request x)\<lparr>rq_commit := Some commit\<rparr>\<rparr>))
        (\<lambda>r. wseq (save_record cfg r) (wret r))) Q E w"
proof (cases "text_truthy (rq_commit (lr_request r))")
  case False
  have "wp (wbind (mutate r (\<lambda>_ x. x\<lparr>lr_request := (lr_request x)\<lparr>rq_commit := Some commit\<rparr>\<rparr>))
      (\<lambda>r. wseq (save_record cfg r) (wret r))) Q E w"
  proof (rule wp_wbindI, rule wp_mutate_holds [OF assms(2,3), where P' = "attempted n"], goal_cases)
    case (2 x v)
    show ?case
      by (rule wp_wseqI, rule wp_save_holds [OF 2(3) 2(1) assms(1)]) (simp_all add: wp_wret assms(4) 2(1))
  qed (simp add: attempted_def)
  with False show ?thesis by simp
qed (simp add: wp_wret assms(4) [OF assms(3,2)])

lemma run_steps_done:
  assumes "codec_ok (ss_codec cfg)" and "holds i (attempted n) w" and "lr_id r = i"
  shows "wp (run_steps cfg env r) (\<lambda>_. done_task cfg i n) (\<lambda>_. holds i (attempted n)) w"
  unfolding run_steps_def
proof (rule wp_wbindI, rule wp_outside_holds [OF assms(2)], goal_cases)
  case (1 path v)
  show ?case
  proof (rule wp_wbindI, rule wp_outside_holds [OF 1(2)], goal_cases)
    case (1 commit v)
    show ?case
    proof (rule holds_sget [OF 1(2) assms(3)], rule wp_wbindI, rule note_commit_holds [OF assms(1) 1(2)], assumption, goal_cases)
      case (1 x y v)
      show ?case
      proof (rule wp_wbindI, rule wp_outside_holds [OF 1(4)], goal_cases)
        case (1 ctx v)
        show ?case
        proof (rule wp_wbindI, rule wp_outside_holds [OF 1(2)], goal_cases)
          case (1 result u)
          then show ?case
            using finish_analysis_done [OF assms(1) 1(2)] holds_alive [OF 1(2)] \<open>lr_id y = i\<close>
            by (simp add: wp_wbind [where m = "is_deleted j" for j] wp_is_deleted wp_if)
        qed
      qed
    qed
  qed
qed

lemma done_task_queue [simp]: "done_task cfg i n (v\<lparr>sw_sv := (sw_sv v)\<lparr>sv_queue := q\<rparr>\<rparr>) = done_task cfg i n v"
  by (simp add: done_task_def holds_def synced_def others_spare_def)

lemma enqueue_done: "done_task cfg i n v \<Longrightarrow> wp (enqueue_task cfg j) (\<lambda>_. done_task cfg i n) (\<lambda>_. done_task cfg i n) v"
  by (simp add: enqueue_task_def wp_simps)

lemma recover_record_done:
  assumes "codec_ok (ss_codec cfg)" and "holds i (attempted n) w" and "lr_id r = i"
  shows "wp (recover_record cfg reason r) (\<lambda>_. done_task cfg i n) (\<lambda>_. done_task cfg i n) w"
  unfolding recover_record_def
proof (rule holds_sget [OF assms(2,3)])
  fix x assume x: "lr_id x = i" "attempted n x"
  have save: "wp (save_record cfg y) Q E u" if "holds i (run_over cfg n) u" "lr_id y = i" "\<And>v. done_task cfg i n v \<Longrightarrow> Q () v" for y u Q E
    by (rule wp_save_holds [OF that(1,2) assms(1)]) (simp_all add: that(3) done_task_def)
  show "wp (if ss_max_attempts cfg \<le> lr_attempts x then wbind (mutate x (give_up cfg reason)) (save_record cfg)
      else wbind (mutate x (back_in_queue reason)) (\<lambda>r. wseq (save_record cfg r) (enqueue_task cfg (lr_id r))))
      (\<lambda>_. done_task cfg i n) (\<lambda>_. done_task cfg i n) w"
  proof (cases "ss_max_attempts cfg \<le> lr_attempts x")
    case True
    have "wp (wbind (mutate x (give_up cfg reason)) (save_record cfg)) (\<lambda>_. done_task cfg i n) (\<lambda>_. done_task cfg i n) w"
      by (rule wp_wbindI, rule wp_mutate_holds [OF assms(2) x(1), where P' = "run_over cfg n"])
        (auto simp: attempted_def run_over_def give_up_def intro: save)
    with True show ?thesis by simp
  next
    case False
    then have n: "n < ss_max_attempts cfg" using x(2) by (simp add: attempted_def)
    have "wp (wbind (mutate x (back_in_queue reason)) (\<lambda>r. wseq (save_record cfg r) (enqueue_task cfg (lr_id r))))
        (\<lambda>_. done_task cfg i n) (\<lambda>_. done_task cfg i n) w"
      by (rule wp_wbindI, rule wp_mutate_holds [OF assms(2) x(1), where P' = "run_over cfg n"])
        (use n in \<open>auto simp: attempted_def run_over_def back_in_queue_def intro!: wp_wseqI save enqueue_done\<close>)
    with False show ?thesis by simp
  qed
qed

lemma run_failed_done:
  assumes "codec_ok (ss_codec cfg)" and "holds i (attempted n) w" and "lr_id r = i"
  shows "wp (run_failed cfg r e) (\<lambda>_. done_task cfg i n) (\<lambda>_. done_task cfg i n) w"
proof -
  have "wp (wbind (mutate x (fail_record e)) (\<lambda>r. wseq (save_record cfg r) (wraise e :: unit ts)))
      (\<lambda>_. done_task cfg i n) (\<lambda>_. done_task cfg i n) w" if "lr_id x = i" for x
  proof (rule wp_wbindI, rule wp_mutate_holds [OF assms(2) that, where P' = "run_over cfg n"], goal_cases)
    case (2 y v)
    show ?case
      by (rule wp_wseqI, rule wp_save_holds [OF 2(3) 2(1) assms(1)]) (simp_all add: wp_wraise done_task_def)
  qed (auto simp: attempted_def run_over_def fail_record_def)
  then have "wp (wbind (sget (obj r)) (\<lambda>r.
      if should_retry_task cfg r e then requeue_after_failure cfg (exc_text e) r
      else wbind (mutate r (fail_record e)) (\<lambda>r. wseq (save_record cfg r) (wraise e))))
      (\<lambda>_. done_task cfg i n) (\<lambda>_. done_task cfg i n) w"
    using recover_record_done [OF assms(1,2)]
    by (intro holds_sget [OF assms(2,3)]) (simp add: requeue_after_failure_def)
  then show ?thesis
    using holds_alive [OF assms(2)] assms(3)
    by (simp add: run_failed_def wp_wbind [where m = "is_deleted j" for j] wp_is_deleted)
qed

text \<open>A stored task, taken from its file or the cache.\<close>

lemma get_record_holds:
  assumes "others_spare i w" and "i \<notin> sv_deleted (sw_sv w)" and "stored (ss_codec cfg) (sv_store (sw_sv w)) i = Some r" and "lr_id r = i"
    and "\<And>v. holds i (\<lambda>x. x = r) v \<Longrightarrow> Q (Some r) v"
  shows "wp (get_record cfg i) Q E w"
proof -
  let ?g = "get_task_record (ss_codec cfg) i (sv_store (sw_sv w))"
  have "fst ?g = Inr (Some r)" using assms(3) by (simp add: stored_def split: sum.splits)
  moreover have "map_of (ts_cache (snd ?g)) i = Some r"
    using calculation by (auto simp: get_task_record_def split: option.splits sum.splits)
  ultimately show ?thesis
    using assms by (simp add: get_record_def the_store_def wp_def case_prod_beta holds_def others_spare_def)
qed

lemma run_task_done:
  assumes "codec_ok (ss_codec cfg)" and "others_spare i w" and "i \<notin> sv_deleted (sw_sv w)"
    and "stored (ss_codec cfg) (sv_store (sw_sv w)) i = Some r" and "lr_id r = i"
  shows "wp (run_task cfg env i) (\<lambda>_. done_task cfg i (lr_attempts r + 1)) (\<lambda>_. done_task cfg i (lr_attempts r + 1)) w"
  unfolding run_task_def
proof (rule wp_wbindI, rule get_record_holds [OF assms(2-5)])
  fix v assume v: "holds i (\<lambda>x. x = r) v"
  let ?n = "lr_attempts r + 1"
  have "wp (wbind (mutate r start_record) (\<lambda>r. wseq (save_record cfg r) (wcatch (run_steps cfg env r) (run_failed cfg r))))
      (\<lambda>_. done_task cfg i ?n) (\<lambda>_. done_task cfg i ?n) v"
  proof (rule wp_wbindI, rule wp_mutate_holds [OF v assms(5), where P' = "attempted ?n"], goal_cases)
    case (2 x u)
    show ?case
    proof (rule wp_wseqI, rule wp_save_holds [OF 2(3) 2(1) assms(1)], goal_cases)
      case (2 u)
      show ?case
        by (rule wp_wcatchI, rule wp_conseq, rule run_steps_done [OF assms(1) 2(1) \<open>lr_id x = i\<close>])
          (auto intro: run_failed_done [OF assms(1) _ \<open>lr_id x = i\<close>])
    qed simp
  qed (auto simp: attempted_def start_record_def assms(5))
  then show "wp (case Some r of None \<Rightarrow> wret () | Some r \<Rightarrow> wbind (is_deleted i) (\<lambda>gone. if gone then wret ()
      else wbind (mutate r start_record) (\<lambda>r. wseq (save_record cfg r) (wcatch (run_steps cfg env r) (run_failed cfg r)))))
      (\<lambda>_. done_task cfg i ?n) (\<lambda>_. done_task cfg i ?n) v"
    using holds_alive [OF v] by (simp add: wp_wbind [where m = "is_deleted j" for j] wp_is_deleted)
qed

lemma done_stored:
  assumes "done_task cfg i n v"
  shows "\<exists>x. stored (ss_codec cfg) (sv_store (sw_sv v)) i = Some x
    \<and> stored (ss_codec cfg) (empty_store (ts_files (sv_store (sw_sv v)))) i = Some x \<and> run_over cfg n x"
proof -
  from assms obtain x t where x: "map_of (ts_cache (sv_store (sw_sv v))) i = Some x" "run_over cfg n x"
    "map_of (ts_files (sv_store (sw_sv v))) i = Some t" "cd_load (ss_codec cfg) t = Inr x"
    by (auto simp: done_task_def holds_def synced_def)
  then have "stored (ss_codec cfg) (empty_store (ts_files (sv_store (sw_sv v)))) i = Some x"
    by (simp add: stored_def get_task_record_def empty_store_def load_record_once)
  with x show ?thesis by (blast intro: stored_cached)
qed

text \<open>C18: whatever git, the model, the page and the callback answer or raise, and whatever other threads do to
  other tasks, the run of a stored task leaves it successful with a passing result and an acknowledged
  callback, failed, or queued again with attempts to spare; the attempt is counted, and a restart reads
  the same record.\<close>

theorem run_ends_task:
  assumes "codec_ok (ss_codec cfg)" and "others_spare i w" and "i \<notin> sv_deleted (sw_sv w)"
    and "stored (ss_codec cfg) (sv_store (sw_sv w)) i = Some r" and "lr_id r = i"
  shows "\<exists>x. stored (ss_codec cfg) (sv_store (sw_sv (snd (run_task cfg env i w)))) i = Some x
    \<and> stored (ss_codec cfg) (empty_store (ts_files (sv_store (sw_sv (snd (run_task cfg env i w)))))) i = Some x
    \<and> run_over cfg (lr_attempts r + 1) x"
proof (rule done_stored)
  show "done_task cfg i (lr_attempts r + 1) (snd (run_task cfg env i w))"
    using run_task_done [OF assms, of env] by (auto simp: wp_def split: prod.splits sum.splits)
qed

theorem run_ends_task_witness:
  "\<exists>x. stored sample_codec (sv_store (sw_sv (snd (run_task sample_service_settings sample_run_env ''t1'' sample_loaded)))) ''t1'' = Some x
    \<and> run_over sample_service_settings 1 x"
proof -
  have "others_spare ''t1'' sample_loaded" "''t1'' \<notin> sv_deleted (sw_sv sample_loaded)" "lr_id sample_task = ''t1''"
    "stored (ss_codec sample_service_settings) (sv_store (sw_sv sample_loaded)) ''t1'' = Some sample_task"
    by (simp_all add: others_spare_def sample_loaded_def sample_start_def sample_service_def stored_def get_task_record_def
        sample_task_def new_record_def)
  moreover have "codec_ok (ss_codec sample_service_settings)" by (simp add: sample_service_settings_def sample_codec_ok)
  ultimately show ?thesis
    using run_ends_task [of sample_service_settings "''t1''" sample_loaded sample_task sample_run_env]
    by (auto simp: sample_service_settings_def sample_task_def new_record_def)
qed

end
