(* ===== verification/Service_Recovery.thy ===== *)
theory Service_Recovery
  imports Service_Correct
begin

text \<open>
  What a restart does to the stored tasks: every queued task and every running one with attempts to spare
  is in the queue, in the order of the files; a running task that has none left is failed; no other record
  changes.
\<close>

definition requeued :: "service_settings \<Rightarrow> task_record \<Rightarrow> bool" where
  "requeued cfg r \<longleftrightarrow> lr_status r = LQueued \<or> lr_status r = LRunning \<and> lr_attempts r < ss_max_attempts cfg"

definition recovered :: "service_settings \<Rightarrow> instant \<Rightarrow> task_record \<Rightarrow> task_record" where
  "recovered cfg now r =
     (if lr_status r \<noteq> LRunning then r
      else touch now (if lr_attempts r < ss_max_attempts cfg then back_in_queue ''service restart recovery'' now r
                      else give_up cfg ''service restart recovery'' now r))"

text \<open>The records still to be looked at are the objects of the cache, and the queue has room for them.\<close>

definition to_recover :: "service_settings \<Rightarrow> task_record list \<Rightarrow> service \<Rightarrow> bool" where
  "to_recover cfg rs s \<longleftrightarrow>
     (\<forall>r \<in> set rs. map_of (ts_cache (sv_store s)) (lr_id r) = Some r) \<and> sv_deleted s = {}
     \<and> (ss_queue_size cfg = 0 \<or> length (sv_queue s) + length rs \<le> ss_queue_size cfg)"

definition recovery_of :: "service_settings \<Rightarrow> instant \<Rightarrow> task_record \<Rightarrow> service \<Rightarrow> service \<Rightarrow> bool" where
  "recovery_of cfg now r s s' \<longleftrightarrow>
     sv_queue s' = sv_queue s @ (if requeued cfg r then [lr_id r] else []) \<and> sv_deleted s' = sv_deleted s
     \<and> stored (ss_codec cfg) (sv_store s') = (stored (ss_codec cfg) (sv_store s))(lr_id r \<mapsto> recovered cfg now r)
     \<and> (\<forall>k. k \<noteq> lr_id r \<longrightarrow> map_of (ts_cache (sv_store s')) k = map_of (ts_cache (sv_store s)) k)"

lemma save_mutated:
  assumes "map_of (ts_cache (sv_store s)) (lr_id r) = Some r" and "sv_deleted s = {}" and "lr_id x = lr_id r"
  shows "save_obj cfg now x (set_obj x s)
    = s\<lparr>sv_store := save_task (ss_codec cfg) now x ((sv_store s)\<lparr>ts_cache := AList.update (lr_id r) x (ts_cache (sv_store s))\<rparr>)\<rparr>"
  using assms by (simp add: save_obj_def set_obj_def obj_def Let_def)

lemma recovered_stored:
  assumes "lr_id x = lr_id r"
  shows "stored c (save_task c now x (st\<lparr>ts_cache := AList.update (lr_id r) x (ts_cache st)\<rparr>))
    = (stored c st)(lr_id r \<mapsto> touch now x)"
  by (rule ext) (simp add: stored_save assms, simp add: stored_def get_task_record_def split: option.split sum.split)

lemma id_kept [simp]: "lr_id (give_up cfg reason now r) = lr_id r" "lr_id (back_in_queue reason now r) = lr_id r"
  "lr_id (touch now r) = lr_id r"
  by (simp_all add: give_up_def back_in_queue_def touch_def)

lemma enqueue_runs:
  "\<not> queue_full cfg (sw_sv w) \<Longrightarrow>
   enqueue_task cfg i w = (Inr (), w\<lparr>sw_sv := (sw_sv w)\<lparr>sv_queue := sv_queue (sw_sv w) @ [i]\<rparr>\<rparr>)"
  unfolding enqueue_task_def queue_full_def
  by (simp only: wbind_def sget_def wget_def smod_def wmod_def prod.case sum.case if_False)

lemma queue_full_store [simp]: "queue_full cfg (s\<lparr>sv_store := st\<rparr>) = queue_full cfg s"
  by (simp add: queue_full_def)

lemma recover_step:
  assumes "to_recover cfg (r # rs) (sw_sv w)"
  shows "\<exists>s. recover_pending_step cfg r w = (Inr (), w\<lparr>sw_sv := s\<rparr>) \<and> recovery_of cfg (sw_now w) r (sw_sv w) s"
proof -
  let ?s = "sw_sv w"
  from assms have c: "map_of (ts_cache (sv_store ?s)) (lr_id r) = Some r" "sv_deleted ?s = {}"
    and room: "\<not> queue_full cfg ?s"
    by (auto simp: to_recover_def queue_full_def)
  then have o: "obj r ?s = r" by (simp add: obj_def)
  have st: "stored (ss_codec cfg) (sv_store ?s) (lr_id r) = Some r" using c(1) by (rule stored_cached)
  note run = recover_pending_step_def wbind_def wseq_def is_deleted_def sget_def wget_def enqueue_runs smod_def wmod_def wret_def
  note rec = recover_record_def mutate_def save_record_def Let_def save_mutated [OF c]
  note upd = recovery_of_def recovered_stored save_task_def [of "ss_codec cfg"]
  consider (queued) "lr_status r = LQueued" | (again) "lr_status r = LRunning" "lr_attempts r < ss_max_attempts cfg"
    | (lost) "lr_status r = LRunning" "\<not> lr_attempts r < ss_max_attempts cfg" | (over) "lr_status r \<noteq> LQueued" "lr_status r \<noteq> LRunning"
    by blast
  then show ?thesis
  proof cases
    case queued
    then show ?thesis
      using room c st by (intro exI [of _ "?s\<lparr>sv_queue := sv_queue ?s @ [lr_id r]\<rparr>"])
        (simp add: run o recovery_of_def requeued_def recovered_def fun_eq_iff)
  next
    case again
    let ?x = "back_in_queue ''service restart recovery'' (sw_now w) r"
    let ?t = "?s\<lparr>sv_store := save_task (ss_codec cfg) (sw_now w) ?x
        ((sv_store ?s)\<lparr>ts_cache := AList.update (lr_id r) ?x (ts_cache (sv_store ?s))\<rparr>)\<rparr>"
    show ?thesis
      using again room c
      by (intro exI [of _ "?t\<lparr>sv_queue := sv_queue ?s @ [lr_id r]\<rparr>"])
        (simp add: run rec o recovery_of_def recovered_stored requeued_def recovered_def,
         simp add: save_task_def Let_def)
  next
    case lost
    let ?x = "give_up cfg ''service restart recovery'' (sw_now w) r"
    show ?thesis
      using lost c
      by (intro exI [of _ "?s\<lparr>sv_store := save_task (ss_codec cfg) (sw_now w) ?x
        ((sv_store ?s)\<lparr>ts_cache := AList.update (lr_id r) ?x (ts_cache (sv_store ?s))\<rparr>)\<rparr>"])
        (simp add: run rec o recovery_of_def recovered_stored requeued_def recovered_def,
         simp add: save_task_def Let_def)
  next
    case over
    then show ?thesis
      using c st by (intro exI [of _ ?s]) (simp add: run o recovery_of_def requeued_def recovered_def fun_eq_iff)
  qed
qed

lemma recovery_next:
  assumes "to_recover cfg (r # rs) s" and "lr_id r \<notin> lr_id ` set rs" and "recovery_of cfg now r s t"
  shows "to_recover cfg rs t"
proof -
  have "map_of (ts_cache (sv_store t)) (lr_id q) = Some q" if "q \<in> set rs" for q
  proof -
    have "lr_id q \<noteq> lr_id r" using assms(2) that by (metis imageI)
    then show ?thesis using assms(1,3) that by (simp add: to_recover_def recovery_of_def)
  qed
  then show ?thesis using assms(1,3) by (auto simp: to_recover_def recovery_of_def)
qed

lemma recover_loop:
  assumes "to_recover cfg rs (sw_sv w)" and "distinct (map lr_id rs)"
  shows "\<exists>s. wfor rs (recover_pending_step cfg) w = (Inr (), w\<lparr>sw_sv := s\<rparr>)
    \<and> sv_queue s = sv_queue (sw_sv w) @ map lr_id (filter (requeued cfg) rs)
    \<and> (\<forall>k. stored (ss_codec cfg) (sv_store s) k =
         (case find (\<lambda>r. lr_id r = k) rs of Some r \<Rightarrow> Some (recovered cfg (sw_now w) r)
          | None \<Rightarrow> stored (ss_codec cfg) (sv_store (sw_sv w)) k))"
  using assms
proof (induction rs arbitrary: w)
  case Nil
  then show ?case by (intro exI [of _ "sw_sv w"]) (simp add: wret_def)
next
  case (Cons r rs)
  obtain t where t: "recover_pending_step cfg r w = (Inr (), w\<lparr>sw_sv := t\<rparr>)" "recovery_of cfg (sw_now w) r (sw_sv w) t"
    using recover_step [OF Cons.prems(1)] by blast
  have "to_recover cfg rs (sw_sv (w\<lparr>sw_sv := t\<rparr>))"
    using recovery_next [OF Cons.prems(1) _ t(2)] Cons.prems(2) by simp
  moreover have "distinct (map lr_id rs)" using Cons.prems(2) by simp
  ultimately obtain s where s: "wfor rs (recover_pending_step cfg) (w\<lparr>sw_sv := t\<rparr>) = (Inr (), w\<lparr>sw_sv := t\<rparr>\<lparr>sw_sv := s\<rparr>)"
    "sv_queue s = sv_queue (sw_sv (w\<lparr>sw_sv := t\<rparr>)) @ map lr_id (filter (requeued cfg) rs)"
    "\<forall>k. stored (ss_codec cfg) (sv_store s) k =
       (case find (\<lambda>r. lr_id r = k) rs of Some r \<Rightarrow> Some (recovered cfg (sw_now (w\<lparr>sw_sv := t\<rparr>)) r)
        | None \<Rightarrow> stored (ss_codec cfg) (sv_store (sw_sv (w\<lparr>sw_sv := t\<rparr>))) k)"
    using Cons.IH by blast
  have "find (\<lambda>q. lr_id q = lr_id r) rs = None" using Cons.prems(2) by (simp add: find_None_key) (metis imageI)
  with t s show ?case
    by (intro exI [of _ s]) (auto simp: wseq_def wbind_def recovery_of_def split: option.split)
qed

text \<open>Listing leaves every record it returns in the cache.\<close>

lemma get_caches: "fst (get_task_record c i st) = Inr (Some r) \<Longrightarrow> map_of (ts_cache (snd (get_task_record c i st))) i = Some r"
  by (auto simp: get_task_record_def split: option.splits sum.splits)

lemma get_keeps_cached: "map_of (ts_cache st) k = Some r \<Longrightarrow> map_of (ts_cache (snd (get_task_record c i st))) k = Some r"
  by (auto simp: get_task_record_def split: option.splits sum.splits)

lemma list_caches:
  assumes "readable c st" and "k \<in> set is" and "stored c st k = Some r"
  shows "map_of (ts_cache (snd (list_records c is acc st))) k = Some r"
  using assms
proof (induction "is" arbitrary: acc st)
  case (Cons i "is")
  obtain v st2 where v: "get_task_record c i st = (v, st2)" by fastforce
  have v2: "v = Inr (stored c st i)" "stored c st2 = stored c st" "readable c st2"
    using get_readable [OF Cons.prems(1), of i] stored_get [of c i st] files_get [of c i st] Cons.prems(1) v
    by (simp_all add: readable_def fun_eq_iff)
  have keep: "map_of (ts_cache (snd (list_records c is a st2))) k = Some r" if "map_of (ts_cache st2) k = Some r" for a
    using that by (rule list_records_inv) (rule get_keeps_cached)
  show ?case
  proof (cases "k = i")
    case True
    then have "map_of (ts_cache st2) k = Some r"
      using get_caches [of c i st r] v v2 Cons.prems(3) by simp
    with keep v v2 True Cons.prems(3) show ?thesis by simp
  next
    case False
    with Cons.IH [OF v2(3)] Cons.prems v v2(1,2) show ?thesis
      by (cases "stored c st i") simp_all
  qed
qed simp

section \<open>Restart\<close>

definition keyed_files :: "codec \<Rightarrow> (string \<times> string) list \<Rightarrow> bool" where
  "keyed_files c files \<longleftrightarrow>
     distinct (map fst files) \<and> list_all (\<lambda>(i, t). case cd_load c t of Inr r \<Rightarrow> lr_id r = i | Inl _ \<Rightarrow> False) files"

lemma stored_files: "stored c (empty_store files) i = (case map_of files i of None \<Rightarrow> None
    | Some t \<Rightarrow> (case cd_load c t of Inr r \<Rightarrow> Some r | Inl _ \<Rightarrow> None))"
  by (simp add: stored_def get_task_record_def empty_store_def load_record_once split: option.split sum.split)

lemma keyed_readable: "keyed_files c files \<Longrightarrow> readable c (empty_store files)"
  by (fastforce simp: keyed_files_def readable_def empty_store_def list_all_iff is_ok_def dest: map_of_SomeD split: sum.splits)

lemma keyed_stored: "keyed_files c files \<Longrightarrow> stored c (empty_store files) i = Some r \<Longrightarrow> lr_id r = i"
  by (fastforce simp: keyed_files_def stored_files list_all_iff dest: map_of_SomeD split: sum.splits option.splits)

lemma records_ids:
  assumes "\<And>i r. stored c st i = Some r \<Longrightarrow> lr_id r = i"
  shows "map lr_id (List.map_filter (stored c st) is) = filter (\<lambda>i. stored c st i \<noteq> None) is"
  using assms by (induction "is") (auto simp: List.map_filter_simps split: option.split)

lemma set_map_filter: "x \<in> set (List.map_filter f xs) \<longleftrightarrow> (\<exists>y \<in> set xs. f y = Some x)"
  by (induction xs) (auto simp: List.map_filter_simps split: option.splits)

lemma find_record:
  assumes "\<And>i r. stored c st i = Some r \<Longrightarrow> lr_id r = i" and "k \<in> set is \<or> stored c st k = None"
  shows "find (\<lambda>r. lr_id r = k) (List.map_filter (stored c st) is) = stored c st k"
  using assms(2)
proof (induction "is")
  case (Cons a "is")
  show ?case
  proof (cases "stored c st a")
    case None
    with Cons show ?thesis by (cases "k = a") (auto simp: List.map_filter_simps)
  next
    case (Some r)
    with Cons assms(1) [OF Some] show ?thesis by (auto simp: List.map_filter_simps)
  qed
qed (simp add: List.map_filter_simps)

lemma stored_has_file: "stored c (empty_store files) k = Some r \<Longrightarrow> k \<in> set (file_order (empty_store files))"
  unfolding set_file_order by (metis empty_store_def map_of_eq_None_iff option.simps(3,4) stored_files task_store.select_convs(2))

lemma restart_recovers:
  assumes files: "keyed_files (ss_codec cfg) files" and start: "sv_store (sw_sv w) = empty_store files" "sv_queue (sw_sv w) = []"
      "sv_deleted (sw_sv w) = {}"
    and room: "ss_queue_size cfg = 0 \<or> length files \<le> ss_queue_size cfg"
  defines "c \<equiv> ss_codec cfg" and "rs \<equiv> records_of (ss_codec cfg) (empty_store files)"
  shows "\<exists>s. recover_pending_tasks cfg w = (Inr (), w\<lparr>sw_sv := s\<rparr>) \<and> sv_queue s = map lr_id (filter (requeued cfg) rs)
    \<and> (\<forall>k. stored c (sv_store s) k = map_option (recovered cfg (sw_now w)) (stored c (empty_store files) k))"
proof -
  have read: "readable c (sv_store (sw_sv w))" using keyed_readable [OF files] start(1) by (simp add: c_def)
  have keyed: "\<And>i r. stored c (empty_store files) i = Some r \<Longrightarrow> lr_id r = i"
    using keyed_stored [OF files] by (simp add: c_def)
  let ?l = "list_all_tasks c (empty_store files)"
  obtain t where t: "list_all_records cfg w = (Inr rs, w\<lparr>sw_sv := t\<rparr>)" "same_service c (sw_sv w) t"
    using list_all_reads [OF read [unfolded c_def]] by (auto simp: c_def rs_def start(1))
  have t_store: "sv_store t = snd ?l"
    using t(1) by (auto simp: list_all_records_def the_store_def start(1) c_def case_prod_beta)
      (metis service.select_convs(1) service.surjective service.update_convs(1) service_world.ext_inject service_world.surjective
        service_world.update_convs(1))
  have cached: "map_of (ts_cache (sv_store t)) (lr_id r) = Some r" if "r \<in> set rs" for r
  proof -
    from that obtain i where i: "i \<in> set (file_order (empty_store files))" "stored c (empty_store files) i = Some r"
      by (auto simp: rs_def records_of_def set_map_filter c_def)
    then have "lr_id r = i" using keyed by simp
    with i show ?thesis
      using list_caches [OF read [unfolded start(1)] i] by (simp add: t_store list_all_tasks_def)
  qed
  have ids: "map lr_id rs = filter (\<lambda>i. stored c (empty_store files) i \<noteq> None) (file_order (empty_store files))"
    unfolding rs_def records_of_def c_def [symmetric] by (rule records_ids) (rule keyed)
  have "distinct (file_order (empty_store files))"
    using files by (simp add: file_order_def empty_store_def keyed_files_def)
  then have dist: "distinct (map lr_id rs)" using ids by simp
  have "length rs \<le> length files"
    using arg_cong [OF ids, of length] length_filter_le [of _ "file_order (empty_store files)"]
    by (simp add: file_order_def empty_store_def)
  with room same_fields [OF t(2)] start cached have "to_recover cfg rs t"
    by (auto simp: to_recover_def)
  then have "to_recover cfg rs (sw_sv (w\<lparr>sw_sv := t\<rparr>))" by simp
  from recover_loop [OF this dist] obtain s where s: "wfor rs (recover_pending_step cfg) (w\<lparr>sw_sv := t\<rparr>) = (Inr (), w\<lparr>sw_sv := t\<rparr>\<lparr>sw_sv := s\<rparr>)"
    "sv_queue s = sv_queue (sw_sv (w\<lparr>sw_sv := t\<rparr>)) @ map lr_id (filter (requeued cfg) rs)"
    "\<forall>k. stored (ss_codec cfg) (sv_store s) k =
       (case find (\<lambda>r. lr_id r = k) rs of Some r \<Rightarrow> Some (recovered cfg (sw_now (w\<lparr>sw_sv := t\<rparr>)) r)
        | None \<Rightarrow> stored (ss_codec cfg) (sv_store (sw_sv (w\<lparr>sw_sv := t\<rparr>))) k)"
    by blast
  have "find (\<lambda>r. lr_id r = k) rs = stored c (empty_store files) k" for k
    unfolding rs_def records_of_def c_def [symmetric]
    by (rule find_record) (auto intro: keyed stored_has_file)
  with s t same_fields [OF t(2)] start show ?thesis
    by (intro exI [of _ s]) (auto simp: recover_pending_tasks_def wbind_def c_def same_service_def split: option.split)
qed

text \<open>C19: a service that starts on readable files, with room in its queue for them, puts every queued
  task and every interrupted one with attempts to spare in the queue, in the order of the files, fails the
  interrupted ones with none, and leaves every other record as it was.\<close>

theorem restart_loses_no_task:
  assumes "keyed_files (ss_codec cfg) files" and "sv_store (sw_sv w) = empty_store files" and "sv_queue (sw_sv w) = []"
    and "sv_deleted (sw_sv w) = {}" and "ss_queue_size cfg = 0 \<or> length files \<le> ss_queue_size cfg"
  shows "\<exists>s. recover_pending_tasks cfg w = (Inr (), w\<lparr>sw_sv := s\<rparr>)
    \<and> sv_queue s = map lr_id (filter (requeued cfg) (records_of (ss_codec cfg) (empty_store files)))
    \<and> (\<forall>k. stored (ss_codec cfg) (sv_store s) k
         = map_option (recovered cfg (sw_now w)) (stored (ss_codec cfg) (empty_store files) k))"
  using restart_recovers [OF assms] .

theorem restart_loses_no_task_witness:
  "\<exists>s. recover_pending_tasks sample_service_settings
      (sample_start\<lparr>sw_sv := sample_service\<lparr>sv_store := empty_store [(''t1'', cd_dump sample_codec (start_record 100 sample_task))]\<rparr>\<rparr>)
     = (Inr (), s) \<and> sv_queue (sw_sv s) = [''t1'']"
proof -
  let ?r = "start_record 100 sample_task"
  let ?files = "[(''t1'', cd_dump sample_codec ?r)]"
  let ?w = "sample_start\<lparr>sw_sv := sample_service\<lparr>sv_store := empty_store ?files\<rparr>\<rparr>"
  have load: "cd_load sample_codec (cd_dump sample_codec ?r) = Inr ?r" using sample_codec_ok by (simp add: codec_ok_def)
  have rid: "lr_id ?r = ''t1''" by (simp add: start_record_def sample_task_def new_record_def)
  have "keyed_files (ss_codec sample_service_settings) ?files"
    using rid by (simp add: keyed_files_def sample_service_settings_def load)
  from restart_loses_no_task [OF this, of ?w] obtain s where s: "recover_pending_tasks sample_service_settings ?w = (Inr (), ?w\<lparr>sw_sv := s\<rparr>)"
    "sv_queue s = map lr_id (filter (requeued sample_service_settings) (records_of (ss_codec sample_service_settings) (empty_store ?files)))"
    by (auto simp: sample_start_def sample_service_def sample_service_settings_def)
  have "file_order (empty_store ?files) = [''t1'']" by (simp add: file_order_def empty_store_def)
  then have "records_of sample_codec (empty_store ?files) = [?r]"
    by (simp add: records_of_def List.map_filter_simps stored_files load)
  with s show ?thesis
    by (simp add: sample_service_settings_def requeued_def start_record_def sample_task_def new_record_def)
qed

end
