(* ===== verification/Service_Feedback.thy ===== *)
theory Service_Feedback
  imports Service_Correct
begin

text \<open>
  Feedback on the findings of a report, \<open>core/feedback.py\<close> and the feedback jobs of \<open>core/service.py\<close>: the
  user's message, the model's review of it, its effect on the thread, the report written anew and the
  callback when the gate turns to passed. The file of a task's feedback holds threads, general feedback
  and fix sessions; saving one part reads the other two. What the model answered is the dict parsed from
  its output, \<open>check_feedback\<close> and \<open>check_missed_issue\<close> are what \<open>core/opencode_runner.py\<close> asks of it.
\<close>

section \<open>The feedback file\<close>

definition no_feedback :: feedback_file where
  "no_feedback = \<lparr>fb_threads = [], fb_general = [], fb_fix = []\<rparr>"

definition feedback_of :: "string \<Rightarrow> service \<Rightarrow> feedback_file" where
  "feedback_of i s = (case map_of (sv_feedback s) i of Some f \<Rightarrow> f | None \<Rightarrow> no_feedback)"

definition put_feedback :: "string \<Rightarrow> feedback_file \<Rightarrow> service \<Rightarrow> service" where
  "put_feedback i f s = s\<lparr>sv_feedback := AList.update i f (sv_feedback s)\<rparr>"

definition save_threads :: "string \<Rightarrow> threads \<Rightarrow> unit ts" where
  "save_threads i ths = smod (\<lambda>_ s. put_feedback i ((feedback_of i s)\<lparr>fb_threads := sort_key fst ths\<rparr>) s)"

definition save_general_feedbacks :: "string \<Rightarrow> general_feedback list \<Rightarrow> unit ts" where
  "save_general_feedbacks i gs = smod (\<lambda>_ s. put_feedback i ((feedback_of i s)\<lparr>fb_general := gs\<rparr>) s)"

definition save_fix_sessions :: "string \<Rightarrow> fix_session list \<Rightarrow> unit ts" where
  "save_fix_sessions i fs = smod (\<lambda>_ s. put_feedback i ((feedback_of i s)\<lparr>fb_fix := fs\<rparr>) s)"

text \<open>One line of the files of accepted findings and of missed issues.\<close>

definition message_json :: "feedback_message \<Rightarrow> json" where
  "message_json m =
     JObj [(''role'', JStr (case fm_role m of From_User \<Rightarrow> ''user'' | From_Model \<Rightarrow> ''model'')),
       (''content'', JStr (fm_content m)), (''created_at'', JInt (fm_created m))]"

definition append_issue_pattern ::
  "task_record \<Rightarrow> int \<Rightarrow> model_finding \<Rightarrow> feedback_thread \<Rightarrow> string \<Rightarrow> unit ts" where
  "append_issue_pattern r i f t action =
     smod (\<lambda>now s. s\<lparr>sv_patterns := sv_patterns s @
       [JObj [(''task_id'', JStr (lr_id r)), (''app_name'', JStr (rq_app_name (lr_request r))),
          (''branch'', JStr (rq_branch (lr_request r))), (''commit_id'', opt_text (rq_commit (lr_request r))),
          (''finding_index'', JInt i), (''file'', JStr (mf_file f)), (''title'', JStr (mf_title f)), (''action'', JStr action),
          (''severity'', JStr (severity_text (effective_severity t f))), (''pattern_summary'', JStr (text_or (ft_pattern t) [])),
          (''conversation'', JArr (map message_json (ft_messages t))), (''created_at'', JInt now)]]\<rparr>)"

definition append_missed_issue_pattern :: "task_record \<Rightarrow> string \<Rightarrow> string \<Rightarrow> string option \<Rightarrow> unit ts" where
  "append_missed_issue_pattern r content reply pattern =
     smod (\<lambda>now s. s\<lparr>sv_patterns := sv_patterns s @
       [JObj [(''task_id'', JStr (lr_id r)), (''app_name'', JStr (rq_app_name (lr_request r))),
          (''branch'', JStr (rq_branch (lr_request r))), (''commit_id'', opt_text (rq_commit (lr_request r))),
          (''content'', JStr content), (''reply'', JStr reply), (''pattern_summary'', JStr (text_or pattern [])),
          (''created_at'', JInt now)]]\<rparr>)"

section \<open>Submitting feedback\<close>

definition report_of :: "task_record option \<Rightarrow> (task_record \<times> analysis_result) option" where
  "report_of r = (case r of None \<Rightarrow> None | Some r \<Rightarrow> map_option (\<lambda>res. (r, res)) (lr_result r))"

definition user_message :: "string \<Rightarrow> instant \<Rightarrow> feedback_message" where
  "user_message content now = \<lparr>fm_role = From_User, fm_content = content, fm_created = now\<rparr>"

definition model_message :: "string \<Rightarrow> instant \<Rightarrow> feedback_message" where
  "model_message content now = \<lparr>fm_role = From_Model, fm_content = content, fm_created = now\<rparr>"

text \<open>\<open>put_nowait\<close> on a queue of four times the size of the task queue.\<close>

definition feedback_room :: "service_settings \<Rightarrow> 'a list \<Rightarrow> bool" where
  "feedback_room cfg q \<longleftrightarrow> ss_queue_size cfg = 0 \<or> length q < ss_queue_size cfg * 4"

definition put_feedback_job :: "service_settings \<Rightarrow> string \<times> int \<Rightarrow> unit ts" where
  "put_feedback_job cfg job =
     wbind (sget sv_feedback_queue) (\<lambda>q.
       if feedback_room cfg q then smod (\<lambda>_ s. s\<lparr>sv_feedback_queue := sv_feedback_queue s @ [job]\<rparr>) else wraise QueueFull)"

definition add_user_message :: "feedback_thread \<Rightarrow> string \<Rightarrow> instant \<Rightarrow> feedback_thread" where
  "add_user_message t msg now =
     t\<lparr>ft_messages := ft_messages t @ [user_message msg now], ft_processing := True, ft_updated := now\<rparr>"

definition submit_thread_message ::
  "service_settings \<Rightarrow> string \<Rightarrow> int \<Rightarrow> string \<Rightarrow> feedback_thread ts" where
  "submit_thread_message cfg i idx msg =
     wbind (get_record cfg i) (\<lambda>found.
       case report_of found of
         None \<Rightarrow> wraise (RuntimeError ''report not ready'')
       | Some (r, res) \<Rightarrow>
           if idx < 0 \<or> int (length (ar_findings res)) \<le> idx then wraise (RuntimeError ''finding not found'')
           else wbind (sget (\<lambda>s. fb_threads (feedback_of i s))) (\<lambda>ths.
             wbind (wget sw_now) (\<lambda>now.
               (let t = add_user_message (thread_of ths idx now) msg now
                in wseq (save_threads i (dset idx t ths))
                     (wseq (put_feedback_job cfg (i, idx)) (wret t))))))"

definition put_general_job :: "service_settings \<Rightarrow> string \<times> string \<Rightarrow> unit ts" where
  "put_general_job cfg job =
     wbind (sget sv_general_queue) (\<lambda>q.
       if feedback_room cfg q then smod (\<lambda>_ s. s\<lparr>sv_general_queue := sv_general_queue s @ [job]\<rparr>) else wraise QueueFull)"

definition submit_general_feedback :: "service_settings \<Rightarrow> string \<Rightarrow> string \<Rightarrow> string \<Rightarrow> general_feedback ts" where
  "submit_general_feedback cfg i feedback_id msg =
     wbind (get_record cfg i) (\<lambda>found.
       case report_of found of
         None \<Rightarrow> wraise (RuntimeError ''report not ready'')
       | Some _ \<Rightarrow>
           wbind (wget sw_now) (\<lambda>now.
             (let item = \<lparr>gf_id = feedback_id, gf_content = msg, gf_processing = True, gf_confirmed = None, gf_reply = None,
                    gf_pattern = None, gf_created = now, gf_updated = now\<rparr>
              in wbind (sget (\<lambda>s. fb_general (feedback_of i s))) (\<lambda>gs.
                   wseq (save_general_feedbacks i (gs @ [item]))
                     (wseq (put_general_job cfg (i, feedback_id)) (wret item))))))"

section \<open>The review of a message\<close>

record feedback_job_env =
  fj_run :: run_env
  fj_code :: "task_record \<Rightarrow> model_finding \<Rightarrow> string py_result"
  fj_answer :: "task_record \<Rightarrow> model_finding \<Rightarrow> string \<Rightarrow> feedback_thread \<Rightarrow> json_dict py_result"
  fj_missed :: "task_record \<Rightarrow> general_feedback \<Rightarrow> json_dict py_result"

text \<open>\<open>v in {...}\<close> for a set of texts; a list or a dict has no hash.\<close>

definition in_texts :: "json \<Rightarrow> string list \<Rightarrow> bool py_result" where
  "in_texts v ts =
     (case v of
        JArr _ \<Rightarrow> Inl (TypeError (''unhashable type: '' @ repr_str ''list''))
      | JObj _ \<Rightarrow> Inl (TypeError (''unhashable type: '' @ repr_str ''dict''))
      | _ \<Rightarrow> Inr (v \<in> set (map JStr ts)))"

lemma in_texts_True: "in_texts v ts = Inr True \<longleftrightarrow> v \<in> set (map JStr ts)"
  by (cases v) (auto simp: in_texts_def)

definition check_feedback :: "json_dict \<Rightarrow> json_dict py_result" where
  "check_feedback d =
     bind_r (in_texts (dget d ''action'') [''keep'', ''downgrade'', ''resolve_false_positive'']) (\<lambda>known.
       if \<not> known then Inl (RuntimeError (''invalid feedback action: '' @ py_str (dget d ''action'')))
       else if dget d ''action'' = JStr ''downgrade'' then
         bind_r (in_texts (dget d ''severity'') (map severity_text all_severities)) (\<lambda>sound.
           if sound then Inr d else Inl (RuntimeError (''invalid downgrade severity: '' @ py_str (dget d ''severity''))))
       else Inr d)"

definition check_missed_issue :: "json_dict \<Rightarrow> json_dict py_result" where
  "check_missed_issue d =
     (if dget d ''confirmed'' \<notin> {JBool True, JBool False}
      then Inl (RuntimeError ''invalid missed-issue feedback result: confirmed must be boolean'')
      else (case dget d ''reply'' of
              JStr (c # s) \<Rightarrow> Inr d
            | _ \<Rightarrow> Inl (RuntimeError ''invalid missed-issue feedback result: reply is required'')))"

text \<open>\<open>review["reply"]\<close> as the content of a message.\<close>

definition reply_of :: "json_dict \<Rightarrow> string py_result" where
  "reply_of d =
     (case map_of d ''reply'' of
        None \<Rightarrow> Inl (KeyError (repr_str ''reply''))
      | Some (JStr s) \<Rightarrow> Inr s
      | Some _ \<Rightarrow> Inl (ValueError ''Input should be a valid string''))"

text \<open>\<open>review.get("pattern_summary") or finding.title\<close>; the summary is taken to be a text.\<close>

definition pattern_of :: "json_dict \<Rightarrow> model_finding \<Rightarrow> string" where
  "pattern_of d f = py_str (py_or (dget d ''pattern_summary'') (JStr (mf_title f)))"

definition review_thread_of :: "json_dict \<Rightarrow> model_finding \<Rightarrow> feedback_thread \<Rightarrow> feedback_thread" where
  "review_thread_of d f t =
     (if dget d ''action'' = JStr ''downgrade'' then
        t\<lparr>ft_status := FS_Severity_Adjusted, ft_severity := severity_of_text (py_str (dget d ''severity'')),
          ft_pattern := Some (pattern_of d f)\<rparr>
      else if dget d ''action'' = JStr ''resolve_false_positive'' then
        t\<lparr>ft_status := FS_Resolved_False_Positive, ft_pattern := Some (pattern_of d f)\<rparr>
      else t\<lparr>ft_status := FS_Open\<rparr>)"

text \<open>"the model's review failed: ".\<close>

definition review_failed_text :: string where
  "review_failed_text =
     [CHR 0xE6, CHR 0xA8, CHR 0xA1, CHR 0xE5, CHR 0x9E, CHR 0x8B, CHR 0xE5, CHR 0xA4, CHR 0x8D, CHR 0xE6, CHR 0xA0,
     CHR 0xB8, CHR 0xE5, CHR 0xA4, CHR 0xB1, CHR 0xE8, CHR 0xB4, CHR 0xA5, CHR 0xEF, CHR 0xBC, CHR 0x9A]"

definition review_message ::
  "service_settings \<Rightarrow> feedback_job_env \<Rightarrow> task_record \<Rightarrow> int \<Rightarrow> model_finding \<Rightarrow> feedback_thread \<Rightarrow> feedback_thread ts" where
  "review_message cfg env r idx f t =
     wbind (outside (rn_prepare (fj_run env) r)) (\<lambda>path.
     wbind (wlift (fj_code env r f)) (\<lambda>code.
     wbind (outside (bind_r (fj_answer env r f code t) check_feedback)) (\<lambda>d.
     wbind (wlift (reply_of d)) (\<lambda>reply.
     wbind (wget sw_now) (\<lambda>now.
       (let u = review_thread_of d f (t\<lparr>ft_messages := ft_messages t @ [model_message reply now]\<rparr>)
        in wseq (if dget d ''action'' = JStr ''keep'' then wret ()
                 else append_issue_pattern r idx f u (py_str (dget d ''action'')))
             (wret u)))))))"

section \<open>The report after feedback\<close>

definition refresh_result :: "effective_report \<Rightarrow> analysis_result \<Rightarrow> analysis_result" where
  "refresh_result e res = res\<lparr>ar_summary := er_summary e, ar_score := er_score e, ar_pass := er_pass e\<rparr>"

definition refresh_record :: "effective_report \<Rightarrow> task_record \<Rightarrow> task_record" where
  "refresh_record e r =
     r\<lparr>lr_result := map_option (refresh_result e) (lr_result r), lr_status := if er_pass e then LSuccess else LFailed\<rparr>"

definition refresh_record_after_feedback :: "service_settings \<Rightarrow> run_env \<Rightarrow> string \<Rightarrow> unit ts" where
  "refresh_record_after_feedback cfg env i =
     wbind (get_record cfg i) (\<lambda>found.
       case report_of found of
         None \<Rightarrow> wret ()
       | Some (r, res) \<Rightarrow>
           if lr_report_file r = None \<or> lr_report_url r = None then wret ()
           else wbind (sget (\<lambda>s. fb_threads (feedback_of i s))) (\<lambda>ths.
             wbind (wget sw_now) (\<lambda>now.
               (let e = effective_state (lr_request r) res ths now
                in wbind (mutate r (\<lambda>_. refresh_record e)) (\<lambda>r.
                   wbind (write_report_page cfg env r (refresh_result e res)) (\<lambda>(url, path).
                   wbind (mutate r (\<lambda>_ x. x\<lparr>lr_report_url := Some url, lr_report_file := Some path\<rparr>)) (\<lambda>r.
                   wseq (save_record cfg r)
                     (wbind (wget sw_now) (\<lambda>now.
                        if \<not> ar_pass res \<and> er_pass e then
                          send_callback_if_needed cfg env r
                            (payload_of r (er_pass e) (er_score e) url (er_summary e) (length (er_findings e)) now)
                        else wret ())))))))))"

text \<open>The job: the threads are those read before the model was asked.\<close>

definition end_thread :: "instant \<Rightarrow> feedback_thread \<Rightarrow> feedback_thread" where
  "end_thread now t = t\<lparr>ft_processing := False, ft_updated := now\<rparr>"

definition process_feedback_job :: "service_settings \<Rightarrow> feedback_job_env \<Rightarrow> string \<Rightarrow> int \<Rightarrow> unit ts" where
  "process_feedback_job cfg env i idx =
     wbind (get_record cfg i) (\<lambda>found.
       case report_of found of
         None \<Rightarrow> wret ()
       | Some (r, res) \<Rightarrow>
           if idx < 0 \<or> int (length (ar_findings res)) \<le> idx then wret ()
           else wbind (sget (\<lambda>s. fb_threads (feedback_of i s))) (\<lambda>ths.
             case map_of ths idx of
               None \<Rightarrow> wret ()
             | Some t \<Rightarrow>
                 wbind (wcatch (review_message cfg env r idx (ar_findings res ! nat idx) t)
                   (\<lambda>e. wbind (wget sw_now) (\<lambda>now.
                      wret (t\<lparr>ft_messages := ft_messages t @ [model_message (review_failed_text @ exc_text e) now]\<rparr>)))) (\<lambda>t.
                 wbind (wget sw_now) (\<lambda>now.
                 wseq (save_threads i (dset idx (end_thread now t) ths))
                   (refresh_record_after_feedback cfg (fj_run env) i)))))"

definition review_missed_issue ::
  "service_settings \<Rightarrow> feedback_job_env \<Rightarrow> task_record \<Rightarrow> general_feedback \<Rightarrow> general_feedback ts" where
  "review_missed_issue cfg env r item =
     wbind (outside (rn_prepare (fj_run env) r)) (\<lambda>path.
     wbind (outside (bind_r (fj_missed env r item) check_missed_issue)) (\<lambda>d.
     wbind (wlift (reply_of d)) (\<lambda>reply.
       (let pattern = (if dget d ''pattern_summary'' = JNull then None else Some (py_str (dget d ''pattern_summary'')));
            confirmed = (dget d ''confirmed'' = JBool True)
        in wseq (if confirmed then append_missed_issue_pattern r (gf_content item) reply pattern else wret ())
             (wret (item\<lparr>gf_confirmed := Some confirmed, gf_reply := Some reply, gf_pattern := pattern\<rparr>))))))"

definition replace_item :: "general_feedback \<Rightarrow> general_feedback list \<Rightarrow> general_feedback list" where
  "replace_item item gs =
     (let before = takeWhile (\<lambda>g. gf_id g \<noteq> gf_id item) gs
      in before @ (case drop (length before) gs of [] \<Rightarrow> [] | _ # rest \<Rightarrow> item # rest))"

definition process_general_feedback_job :: "service_settings \<Rightarrow> feedback_job_env \<Rightarrow> string \<Rightarrow> string \<Rightarrow> unit ts" where
  "process_general_feedback_job cfg env i feedback_id =
     wbind (get_record cfg i) (\<lambda>found.
       case report_of found of
         None \<Rightarrow> wret ()
       | Some (r, res) \<Rightarrow>
           wbind (sget (\<lambda>s. fb_general (feedback_of i s))) (\<lambda>gs.
             case find (\<lambda>g. gf_id g = feedback_id) gs of
               None \<Rightarrow> wret ()
             | Some item \<Rightarrow>
                 wbind (wcatch (review_missed_issue cfg env r item)
                   (\<lambda>e. wret (item\<lparr>gf_confirmed := Some False, gf_reply := Some (review_failed_text @ exc_text e)\<rparr>))) (\<lambda>item.
                 wbind (wget sw_now) (\<lambda>now.
                   save_general_feedbacks i (replace_item (item\<lparr>gf_processing := False, gf_updated := now\<rparr>) gs)))))"

section \<open>The end of a feedback job\<close>

lemma wp_always: "always J m \<Longrightarrow> J w \<Longrightarrow> wp m (\<lambda>_. J) (\<lambda>_. J) w"
  by (auto simp: always_def wp_def split: prod.split sum.split)

lemma get_record_runs:
  assumes "stored (ss_codec cfg) (sv_store (sw_sv w)) i = Some r"
  shows "\<exists>st. get_record cfg i w = (Inr (Some r), w\<lparr>sw_sv := (sw_sv w)\<lparr>sv_store := st\<rparr>\<rparr>)
    \<and> map_of (ts_cache st) i = Some r \<and> stored (ss_codec cfg) st = stored (ss_codec cfg) (sv_store (sw_sv w))"
proof -
  let ?g = "get_task_record (ss_codec cfg) i (sv_store (sw_sv w))"
  have fst: "fst ?g = Inr (Some r)" using assms by (simp add: stored_def split: sum.splits)
  moreover have "map_of (ts_cache (snd ?g)) i = Some r"
    using fst by (auto simp: get_task_record_def split: option.splits sum.splits)
  ultimately show ?thesis
    by (intro exI [of _ "snd ?g"]) (simp add: get_record_def the_store_def case_prod_beta fun_eq_iff stored_get)
qed

text \<open>The feedback of a task, which the other statements leave alone.\<close>

definition feedback_is :: "string \<Rightarrow> feedback_file \<Rightarrow> service \<Rightarrow> bool" where
  "feedback_is i f s \<longleftrightarrow> feedback_of i s = f"

lemma feedback_is_upd [simp]:
  "feedback_is i f (s\<lparr>sv_store := st\<rparr>) = feedback_is i f s" "feedback_is i f (s\<lparr>sv_sent := x\<rparr>) = feedback_is i f s"
  "feedback_is i f (s\<lparr>sv_pages := y\<rparr>) = feedback_is i f s" "feedback_is i f (s\<lparr>sv_patterns := z\<rparr>) = feedback_is i f s"
  by (simp_all add: feedback_is_def feedback_of_def)

named_theorems feedback_kept \<open>statements that leave the feedback file alone\<close>

lemma kept_get [feedback_kept]: "always (calm (feedback_is i f)) (get_record cfg j)"
  unfolding get_record_def by (rule always_the_store) simp

lemma kept_mutate [feedback_kept]: "always (calm (feedback_is i f)) (mutate r g)"
  by (rule always_mutate) (simp add: set_obj_def Let_def)

lemma kept_save [feedback_kept]: "always (calm (feedback_is i f)) (save_record cfg r)"
  unfolding save_record_def by (rule always_smod) (simp add: save_obj_def Let_def)

lemma kept_send [feedback_kept]: "always (calm (feedback_is i f)) (send_callback_if_needed cfg env r p)"
  unfolding send_callback_if_needed_def by (intro always_intros feedback_kept always_smod) simp

lemma kept_page [feedback_kept]: "always (calm (feedback_is i f)) (write_report_page cfg env r res)"
  unfolding write_report_page_def by (intro always_intros always_smod) simp

lemma kept_refresh [feedback_kept]: "always (calm (feedback_is i f)) (refresh_record_after_feedback cfg env j)"
  unfolding refresh_record_after_feedback_def by (intro always_intros feedback_kept)

lemma kept_review [feedback_kept]: "always (calm (feedback_is i f)) (review_message cfg env r idx g t)"
  unfolding review_message_def append_issue_pattern_def Let_def by (intro always_intros feedback_kept always_smod) simp

text \<open>The messages of a thread with one more from the model.\<close>

definition answered :: "feedback_thread \<Rightarrow> feedback_thread \<Rightarrow> bool" where
  "answered t u \<longleftrightarrow> (\<exists>m. ft_messages u = ft_messages t @ [m] \<and> fm_role m = From_Model)"

lemma answered_review: "answered t (review_thread_of d f (t\<lparr>ft_messages := ft_messages t @ [model_message reply now]\<rparr>))"
  by (simp add: answered_def review_thread_of_def model_message_def)

lemma ends_review: "ends (\<lambda>u _. answered t u) (review_message cfg env r idx g t)"
  unfolding review_message_def Let_def
  by (intro ends_intros) (simp add: ends_def wp_wret answered_review)

text \<open>Other threads that leave the feedback of a task alone.\<close>

definition leave_feedback :: "string \<Rightarrow> service_world \<Rightarrow> bool" where
  "leave_feedback i w \<longleftrightarrow> (\<forall>m \<in> set (sw_moves w). \<forall>s. feedback_of i (snd m s) = feedback_of i s)"

lemma leave_calm: "leave_feedback i w \<Longrightarrow> feedback_of i (sw_sv w) = f \<Longrightarrow> calm (feedback_is i f) w"
  by (simp add: leave_feedback_def calm_def feedback_is_def)

lemma leave_smod [feedback_kept]: "always (leave_feedback i) (smod g)"
  by (simp add: always_def smod_def wmod_def leave_feedback_def)

lemma leave_outside [feedback_kept]: "always (leave_feedback i) (outside r)"
  by (auto simp: always_def outside_def others_move_def wseq_def wbind_def wmod_def wlift_def leave_feedback_def split: list.split)

lemma leave_review [feedback_kept]: "always (leave_feedback i) (review_message cfg env r idx g t)"
  unfolding review_message_def append_issue_pattern_def Let_def by (intro always_intros feedback_kept)

lemma review_outcome:
  assumes "leave_feedback i w" and "feedback_of i (sw_sv w) = f"
  shows "wp (wcatch (review_message cfg env r idx g t)
      (\<lambda>e. wbind (wget sw_now) (\<lambda>now. wret (t\<lparr>ft_messages := ft_messages t @ [model_message (review_failed_text @ exc_text e) now]\<rparr>))))
    (\<lambda>u v. answered t u \<and> leave_feedback i v \<and> feedback_of i (sw_sv v) = f) E w"
proof (rule wp_wcatchI)
  let ?m = "review_message cfg env r idx g t"
  have "wp ?m (\<lambda>u _. answered t u) (\<lambda>_ _. True) w" using ends_review by (simp add: ends_def)
  moreover have "wp ?m (\<lambda>_. leave_feedback i) (\<lambda>_. leave_feedback i) w" by (rule wp_always [OF leave_review assms(1)])
  moreover have "wp ?m (\<lambda>_. calm (feedback_is i f)) (\<lambda>_. calm (feedback_is i f)) w"
    by (rule wp_always [OF kept_review leave_calm [OF assms]])
  ultimately show "wp ?m (\<lambda>u v. answered t u \<and> leave_feedback i v \<and> feedback_of i (sw_sv v) = f)
      (\<lambda>e. wp (wbind (wget sw_now) (\<lambda>now. wret (t\<lparr>ft_messages := ft_messages t @ [model_message (review_failed_text @ exc_text e) now]\<rparr>)))
        (\<lambda>u v. answered t u \<and> leave_feedback i v \<and> feedback_of i (sw_sv v) = f) E) w"
    by (auto simp: wp_def wbind_def wget_def wret_def calm_def feedback_is_def answered_def model_message_def
        split: prod.splits sum.splits)
qed

lemma saved_feedback: "feedback_of i (put_feedback i f s) = f"
  by (simp add: feedback_of_def put_feedback_def)

lemma job_ends:
  assumes "stored (ss_codec cfg) (sv_store (sw_sv w)) i = Some r" and "lr_result r = Some res"
    and "0 \<le> idx" "idx < int (length (ar_findings res))"
    and "map_of (fb_threads (feedback_of i (sw_sv w))) idx = Some t" and "leave_feedback i w"
  defines "f \<equiv> feedback_of i (sw_sv w)"
  shows "wp (process_feedback_job cfg env i idx)
    (\<lambda>_ v. \<exists>u. feedback_of i (sw_sv v) = f\<lparr>fb_threads := sort_key fst (dset idx u (fb_threads f))\<rparr> \<and> \<not> ft_processing u \<and> answered t u)
    (\<lambda>_ v. \<exists>u. feedback_of i (sw_sv v) = f\<lparr>fb_threads := sort_key fst (dset idx u (fb_threads f))\<rparr> \<and> \<not> ft_processing u \<and> answered t u) w"
    (is "wp _ (\<lambda>_. ?Q) (\<lambda>_. ?Q) w")
proof -
  obtain st where st: "get_record cfg i w = (Inr (Some r), w\<lparr>sw_sv := (sw_sv w)\<lparr>sv_store := st\<rparr>\<rparr>)"
    using get_record_runs [OF assms(1)] by blast
  let ?w = "w\<lparr>sw_sv := (sw_sv w)\<lparr>sv_store := st\<rparr>\<rparr>"
  have same: "feedback_of i (sw_sv ?w) = f" by (simp add: f_def feedback_of_def)
  have leave: "leave_feedback i ?w" using assms(6) by (simp add: leave_feedback_def)
  have last: "wp (wbind (wget sw_now) (\<lambda>now. wseq (save_threads i (dset idx (end_thread now u) (fb_threads f)))
      (refresh_record_after_feedback cfg (fj_run env) i))) (\<lambda>_. ?Q) (\<lambda>_. ?Q) v"
    if "answered t u" "leave_feedback i v" "feedback_of i (sw_sv v) = f" for u v
  proof -
    let ?u = "end_thread (sw_now v) u"
    let ?f = "f\<lparr>fb_threads := sort_key fst (dset idx ?u (fb_threads f))\<rparr>"
    let ?v = "v\<lparr>sw_sv := put_feedback i ?f (sw_sv v)\<rparr>"
    have u: "answered t ?u" "\<not> ft_processing ?u" using that(1) by (simp_all add: answered_def end_thread_def)
    have "calm (feedback_is i ?f) ?v"
      using that(2) by (intro leave_calm) (simp_all add: leave_feedback_def saved_feedback)
    then have "wp (refresh_record_after_feedback cfg (fj_run env) i) (\<lambda>_. calm (feedback_is i ?f)) (\<lambda>_. calm (feedback_is i ?f)) ?v"
      by (rule wp_always [OF kept_refresh])
    then have "wp (refresh_record_after_feedback cfg (fj_run env) i) (\<lambda>_. ?Q) (\<lambda>_. ?Q) ?v"
      by (rule wp_conseq) (use u in \<open>auto simp: calm_def feedback_is_def\<close>)
    then show ?thesis
      by (simp add: wp_wbind wp_wget wp_wseq save_threads_def wp_smod that(3))
  qed
  show ?thesis
    unfolding process_feedback_job_def
    using assms(2-5) same
    by (simp add: wp_wbind [where m = "get_record cfg i"] wp_def [of "get_record cfg i"] st report_of_def
        wp_wbind [where m = "sget h" for h] wp_sget f_def [symmetric] not_le [symmetric])
      (rule wp_wbindI, rule wp_conseq, rule review_outcome [OF leave same], use last in blast)
qed

text \<open>C24: a feedback job on a thread of a report ends it whatever git, the model, the page or the callback do:
  the thread is no longer processing, has one more message, from the model, and the other threads, the
  general feedback and the fix sessions are those read before the model was asked.\<close>

theorem feedback_job_ends_thread:
  assumes "stored (ss_codec cfg) (sv_store (sw_sv w)) i = Some r" and "lr_result r = Some res"
    and "0 \<le> idx" and "idx < int (length (ar_findings res))"
    and "map_of (fb_threads (feedback_of i (sw_sv w))) idx = Some t" and "leave_feedback i w"
  shows "\<exists>u. let f = feedback_of i (sw_sv w) in
    feedback_of i (sw_sv (snd (process_feedback_job cfg env i idx w))) = f\<lparr>fb_threads := sort_key fst (dset idx u (fb_threads f))\<rparr>
    \<and> \<not> ft_processing u \<and> (\<exists>m. ft_messages u = ft_messages t @ [m] \<and> fm_role m = From_Model)"
  using job_ends [OF assms, of env] by (auto simp: wp_def Let_def answered_def split: prod.splits sum.splits)

section \<open>The report after feedback\<close>

lemma send_quiet:
  assumes "sw_moves w = []" and "cached (lr_id r) (sw_sv w) = Some x" and "lr_id x = lr_id r" and "lr_id r \<notin> sv_deleted (sw_sv w)"
  shows "\<exists>y. cached (lr_id r) (sw_sv (snd (send_callback_if_needed cfg env r p w))) = Some y
      \<and> lr_status y = lr_status x \<and> lr_result y = lr_result x \<and> lr_report_url y = lr_report_url x"
    and "sv_pages (sw_sv (snd (send_callback_if_needed cfg env r p w))) = sv_pages (sw_sv w)"
    and "sv_sent (sw_sv (snd (send_callback_if_needed cfg env r p w)))
      = sv_sent (sw_sv w) @ (if lr_callback_ok x \<and> lr_callback_digest x = Some (payload_digest p) then [] else [p])"
  unfolding send_callback_if_needed_def using assms
  by (auto simp: run_simps obj_cached run_mutate save_runs wret_def touch_def split: sum.split)

lemma page_quiet:
  assumes "sw_moves w = []" and "rn_render env r res = Inr ()"
  shows "write_report_page cfg env r res w =
    (Inr (service_report_url cfg (lr_id r), ss_report_dir cfg @ ''/'' @ lr_id r @ ''/index.html''),
     w\<lparr>sw_sv := (sw_sv w)\<lparr>sv_pages := sv_pages (sw_sv w) @ [(lr_id r, res)]\<rparr>\<rparr>)"
  using assms by (simp add: write_report_page_def run_simps wret_def)

lemma run_then_page:
  assumes "sw_moves w = []" and "rn_render env r res = Inr ()"
  shows "wbind (write_report_page cfg env r res) k w =
    k (service_report_url cfg (lr_id r), ss_report_dir cfg @ ''/'' @ lr_id r @ ''/index.html'')
      (w\<lparr>sw_sv := (sw_sv w)\<lparr>sv_pages := sv_pages (sw_sv w) @ [(lr_id r, res)]\<rparr>\<rparr>)"
  by (rule run_then) (rule page_quiet [OF assms])

text \<open>What follows the new page: the address of the page is written to the record, which is saved, and the callback
  goes out.\<close>

definition after_page ::
  "service_settings \<Rightarrow> run_env \<Rightarrow> effective_report \<Rightarrow> bool \<Rightarrow> task_record \<Rightarrow> string \<times> string \<Rightarrow> unit ts" where
  "after_page cfg env e failed r page =
     (let (url, path) = page
      in wbind (mutate r (\<lambda>_ x. x\<lparr>lr_report_url := Some url, lr_report_file := Some path\<rparr>)) (\<lambda>r.
           wseq (save_record cfg r)
             (wbind (wget sw_now) (\<lambda>now.
                if failed \<and> er_pass e then
                  send_callback_if_needed cfg env r
                    (payload_of r (er_pass e) (er_score e) url (er_summary e) (length (er_findings e)) now)
                else wret ()))))"

lemma refresh_starts:
  assumes "stored (ss_codec cfg) (sv_store (sw_sv w)) i = Some r" and "lr_id r = i"
    and "lr_result r = Some res" and "lr_report_file r = Some a" and "lr_report_url r = Some b"
  defines "e \<equiv> effective_state (lr_request r) res (fb_threads (feedback_of i (sw_sv w))) (sw_now w)"
  shows "\<exists>s. refresh_record_after_feedback cfg env i w =
      wbind (write_report_page cfg env (refresh_record e r) (refresh_result e res))
        (after_page cfg env e (\<not> ar_pass res) (refresh_record e r)) (w\<lparr>sw_sv := s\<rparr>)
    \<and> cached i s = Some (refresh_record e r) \<and> sv_deleted s = sv_deleted (sw_sv w) \<and> sv_sent s = sv_sent (sw_sv w)
    \<and> sv_pages s = sv_pages (sw_sv w) \<and> ts_files (sv_store s) = ts_files (sv_store (sw_sv w))"
proof -
  obtain st where st: "get_record cfg i w = (Inr (Some r), w\<lparr>sw_sv := (sw_sv w)\<lparr>sv_store := st\<rparr>\<rparr>)"
    "map_of (ts_cache st) i = Some r"
    using get_record_runs [OF assms(1)] by blast
  have "st = snd (get_task_record (ss_codec cfg) i (sv_store (sw_sv w)))"
    using st(1) by (auto simp: get_record_def the_store_def case_prod_beta) (metis service.select_convs(1) service.surjective service.update_convs(1) service_world.select_convs(1) service_world.surjective service_world.update_convs(1))
  then have files: "ts_files st = ts_files (sv_store (sw_sv w))" by (simp add: files_get)
  let ?s = "(sw_sv w)\<lparr>sv_store := st\<rparr>"
  have same: "feedback_of i ?s = feedback_of i (sw_sv w)" by (simp add: feedback_of_def)
  have c: "cached (lr_id r) (sw_sv (w\<lparr>sw_sv := ?s\<rparr>)) = Some r" by (simp add: cached_def st(2) assms(2))
  have id: "lr_id (refresh_record e r) = lr_id r" by (simp add: refresh_record_def)
  have "refresh_record_after_feedback cfg env i w =
      wbind (write_report_page cfg env (refresh_record e r) (refresh_result e res))
        (after_page cfg env e (\<not> ar_pass res) (refresh_record e r)) (w\<lparr>sw_sv := with_cached (refresh_record e r) ?s\<rparr>)"
    unfolding refresh_record_after_feedback_def after_page_def [abs_def]
    by (simp add: run_then [of "get_record cfg i", OF st(1)] report_of_def assms(3-5) run_simps same e_def [symmetric] Let_def
        run_mutate [where f = "\<lambda>_. refresh_record e", OF c id] cong: if_cong)
  then show ?thesis
    using id assms(2) files by (intro exI [of _ "with_cached (refresh_record e r) ?s"]) (simp add: with_cached_def cached_def)
qed

lemma after_page_effect:
  fixes x :: task_record and w :: service_world and cfg env e failed url path
  assumes "sw_moves w = []" and "cached i (sw_sv w) = Some x" and "lr_id x = i" and "i \<notin> sv_deleted (sw_sv w)"
  defines "v \<equiv> sw_sv (snd (after_page cfg env e failed x (url, path) w))"
    and "p \<equiv> payload_of x (er_pass e) (er_score e) url (er_summary e) (length (er_findings e)) (sw_now w)"
  shows "(\<exists>y. cached i v = Some y \<and> lr_status y = lr_status x \<and> lr_result y = lr_result x \<and> lr_report_url y = Some url)
    \<and> sv_pages v = sv_pages (sw_sv w)
    \<and> sv_sent v = sv_sent (sw_sv w) @
        (if failed \<and> er_pass e \<and> \<not> (lr_callback_ok x \<and> lr_callback_digest x = Some (payload_digest p)) then [p] else [])"
proof -
  let ?y = "x\<lparr>lr_report_url := Some url, lr_report_file := Some path\<rparr>"
  let ?s = "with_cached ?y (sw_sv w)"
  let ?v = "w\<lparr>sw_sv := ?s\<lparr>sv_store := save_task (ss_codec cfg) (sw_now w) ?y (sv_store ?s)\<rparr>\<rparr>"
  have c: "cached (lr_id x) (sw_sv w) = Some x" "cached (lr_id ?y) ?s = Some ?y" "lr_id ?y = i" using assms(2,3) by simp_all
  have pay: "payload_of ?y q sc u m n now = payload_of x q sc u m n now" for q sc u m n now
    by (simp add: payload_of_def)
  have run: "after_page cfg env e failed x (url, path) w =
      (if failed \<and> er_pass e then send_callback_if_needed cfg env ?y p ?v else (Inr (), ?v))"
    using assms(3,4) by (simp add: after_page_def run_mutate [OF c(1)] run_save [where x = ?y] run_simps wret_def pay p_def)
  have at: "sw_moves ?v = []" "cached (lr_id ?y) (sw_sv ?v) = Some (touch (sw_now w) ?y)" "lr_id (touch (sw_now w) ?y) = lr_id ?y"
    "lr_id ?y \<notin> sv_deleted (sw_sv ?v)"
    using assms(1,3,4) by (simp_all add: touch_def)
  have t: "lr_callback_ok (touch (sw_now w) ?y) = lr_callback_ok x" "lr_callback_digest (touch (sw_now w) ?y) = lr_callback_digest x"
    "lr_status (touch (sw_now w) ?y) = lr_status x" "lr_result (touch (sw_now w) ?y) = lr_result x"
    "lr_report_url (touch (sw_now w) ?y) = Some url"
    by (simp_all add: touch_def)
  show ?thesis
  proof (cases "failed \<and> er_pass e")
    case True
    show ?thesis
      unfolding v_def run if_P [OF True] send_quiet(2,3) [OF at] t
      using send_quiet(1) [OF at, where env = env and p = p] t c(3) True by simp
  next
    case False
    show ?thesis unfolding v_def run if_not_P [OF False] using at(2) t c(3) False by auto
  qed
qed

text \<open>C25: the report of a stored task written anew after feedback, when the task has a result and a report, is not
  deleted, and no other thread moves meanwhile. The record takes the effective summary, score and gate and the
  status of the gate. When the page cannot be rendered the caller gets that error, the record stays so changed in
  the cache, and neither its file nor a callback is written. Otherwise the page with the new result is written, the
  record has its address, and the callback with the new gate, score, summary and number of findings is sent in
  exactly one case: the result was a failure, the gate is now passed, and the last acknowledged callback did not
  have the same content.\<close>

theorem refresh_effect:
  assumes "stored (ss_codec cfg) (sv_store (sw_sv w)) i = Some r" and "lr_id r = i" and "i \<notin> sv_deleted (sw_sv w)"
    and "lr_result r = Some res" and "lr_report_file r = Some a" and "lr_report_url r = Some b"
    and "sw_moves w = []"
  shows "let c = ss_codec cfg; s = sw_sv w; e = effective_state (lr_request r) res (fb_threads (feedback_of i s)) (sw_now w);
        x = refresh_record e r; out = refresh_record_after_feedback cfg env i w; v = sw_sv (snd out);
        p = payload_of x (er_pass e) (er_score e) (service_report_url cfg i) (er_summary e) (length (er_findings e)) (sw_now w)
    in case rn_render env x (refresh_result e res) of
         Inl err \<Rightarrow> fst out = Inl err \<and> stored c (sv_store v) i = Some x \<and> ts_files (sv_store v) = ts_files (sv_store s)
           \<and> sv_sent v = sv_sent s \<and> sv_pages v = sv_pages s
       | Inr _ \<Rightarrow>
           (\<exists>y. stored c (sv_store v) i = Some y \<and> lr_status y = (if er_pass e then LSuccess else LFailed)
              \<and> lr_result y = Some (refresh_result e res) \<and> lr_report_url y = Some (service_report_url cfg i))
           \<and> sv_pages v = sv_pages s @ [(i, refresh_result e res)]
           \<and> sv_sent v = sv_sent s @ (if \<not> ar_pass res \<and> er_pass e
                \<and> \<not> (lr_callback_ok r \<and> lr_callback_digest r = Some (payload_digest p)) then [p] else [])"
proof -
  define e where "e = effective_state (lr_request r) res (fb_threads (feedback_of i (sw_sv w))) (sw_now w)"
  let ?x = "refresh_record e r"
  have x: "lr_id ?x = i" "lr_status ?x = (if er_pass e then LSuccess else LFailed)" "lr_result ?x = Some (refresh_result e res)"
    "lr_callback_ok ?x = lr_callback_ok r" "lr_callback_digest ?x = lr_callback_digest r"
    by (simp_all add: refresh_record_def assms(2,4))
  obtain s where s: "refresh_record_after_feedback cfg env i w =
      wbind (write_report_page cfg env ?x (refresh_result e res)) (after_page cfg env e (\<not> ar_pass res) ?x) (w\<lparr>sw_sv := s\<rparr>)"
    "cached i s = Some ?x" "sv_deleted s = sv_deleted (sw_sv w)" "sv_sent s = sv_sent (sw_sv w)"
    "sv_pages s = sv_pages (sw_sv w)" "ts_files (sv_store s) = ts_files (sv_store (sw_sv w))"
    using refresh_starts [OF assms(1,2,4-6), folded e_def] by blast
  have q: "sw_moves (w\<lparr>sw_sv := s\<rparr>) = []" using assms(7) by simp
  show ?thesis
  proof (cases "rn_render env ?x (refresh_result e res)")
    case (Inl err)
    then have "refresh_record_after_feedback cfg env i w = (Inl err, w\<lparr>sw_sv := s\<rparr>)"
      by (simp add: s(1) write_report_page_def wseq_def wbind_def outside_quiet [OF q])
    with Inl s(2-6) show ?thesis
      by (simp add: Let_def e_def [symmetric] cached_stored [where c = "ss_codec cfg"])
  next
    case (Inr u)
    let ?w = "w\<lparr>sw_sv := s\<lparr>sv_pages := sv_pages s @ [(i, refresh_result e res)]\<rparr>\<rparr>"
    have run: "refresh_record_after_feedback cfg env i w = after_page cfg env e (\<not> ar_pass res) ?x
        (service_report_url cfg i, ss_report_dir cfg @ ''/'' @ i @ ''/index.html'') ?w"
      using Inr x(1) by (simp add: s(1) run_then_page [OF q])
    have w: "sw_moves ?w = []" "cached i (sw_sv ?w) = Some ?x" "i \<notin> sv_deleted (sw_sv ?w)"
      using assms(3,7) s(2,3) by (simp_all add: cached_def)
    let ?v = "sw_sv (snd (refresh_record_after_feedback cfg env i w))"
    from after_page_effect [OF w(1,2) x(1) w(3), of cfg env e "\<not> ar_pass res" "service_report_url cfg i"
        "ss_report_dir cfg @ ''/'' @ i @ ''/index.html''", folded run] obtain y where
      y: "cached i ?v = Some y" "lr_status y = lr_status ?x" "lr_result y = lr_result ?x" "lr_report_url y = Some (service_report_url cfg i)"
      and sent: "sv_pages ?v = sv_pages (sw_sv ?w)" "sv_sent ?v = sv_sent (sw_sv ?w) @ (if \<not> ar_pass res \<and> er_pass e
         \<and> \<not> (lr_callback_ok ?x \<and> lr_callback_digest ?x = Some (payload_digest (payload_of ?x (er_pass e) (er_score e)
             (service_report_url cfg i) (er_summary e) (length (er_findings e)) (sw_now ?w))))
         then [payload_of ?x (er_pass e) (er_score e) (service_report_url cfg i) (er_summary e) (length (er_findings e)) (sw_now ?w)] else [])"
      by blast
    show ?thesis
      unfolding Let_def e_def [symmetric] Inr sum.case
      using cached_stored [where c = "ss_codec cfg", OF y(1)] y(2-4) sent s(4,5) x by simp
  qed
qed

definition reported_task :: task_record where
  "reported_task =
     sample_task\<lparr>lr_status := LFailed, lr_result := Some sample_report, lr_report_url := Some ''u'', lr_report_file := Some ''f''\<rparr>"

definition resolved_thread :: feedback_thread where
  "resolved_thread = (new_thread 0 5)\<lparr>ft_status := FS_Resolved_False_Positive\<rparr>"

definition reported_world :: "feedback_thread \<Rightarrow> service_world" where
  "reported_world t = sample_start\<lparr>sw_sv := sample_service\<lparr>sv_store := \<lparr>ts_cache = [(''t1'', reported_task)], ts_files = []\<rparr>,
     sv_feedback := [(''t1'', \<lparr>fb_threads = [(0, t)], fb_general = [], fb_fix = []\<rparr>)]\<rparr>\<rparr>"

lemma reported_stored: "stored c (sv_store (sw_sv (reported_world t))) ''t1'' = Some reported_task"
  by (simp add: stored_def get_task_record_def reported_world_def sample_start_def sample_service_def)

lemma reported_feedback: "fb_threads (feedback_of ''t1'' (sw_sv (reported_world t))) = [(0, t)]"
  by (simp add: feedback_of_def reported_world_def sample_start_def sample_service_def)

theorem feedback_job_ends_thread_witness:
  "\<forall>env. \<exists>u. fb_threads (feedback_of ''t1'' (sw_sv (snd (process_feedback_job sample_service_settings env ''t1'' 0 (reported_world (new_thread 0 5))))))
      = [(0, u)] \<and> \<not> ft_processing u" (is "\<forall>env. ?P env")
proof
  fix env
  have r: "lr_result reported_task = Some sample_report" by (simp add: reported_task_def)
  have t: "map_of (fb_threads (feedback_of ''t1'' (sw_sv (reported_world (new_thread 0 5))))) 0 = Some (new_thread 0 5)"
    by (simp add: reported_feedback)
  have l: "leave_feedback ''t1'' (reported_world (new_thread 0 5))"
    by (simp add: leave_feedback_def reported_world_def sample_start_def)
  have n: "(0::int) < int (length (ar_findings sample_report))" by (simp add: sample_report_def)
  show "?P env"
    using feedback_job_ends_thread [of sample_service_settings, OF reported_stored r order_refl n t l, of env] by (auto simp: Let_def reported_feedback)
qed

theorem refresh_effect_witness:
  "\<exists>p. sv_sent (sw_sv (snd (refresh_record_after_feedback sample_service_settings sample_run_env ''t1'' (reported_world resolved_thread)))) = [p]
    \<and> sp_passed p \<and> sp_status p = LSuccess"
proof -
  have r: "lr_id reported_task = ''t1''" "lr_result reported_task = Some sample_report" "lr_report_file reported_task = Some ''f''"
    "lr_report_url reported_task = Some ''u''" "lr_callback_ok reported_task = False"
    by (simp_all add: reported_task_def sample_task_def new_record_def)
  have w: "''t1'' \<notin> sv_deleted (sw_sv (reported_world resolved_thread))" "sw_moves (reported_world resolved_thread) = []"
    "sv_sent (sw_sv (reported_world resolved_thread)) = []"
    by (simp_all add: reported_world_def sample_start_def sample_service_def)
  have env: "\<And>x y. rn_render sample_run_env x y = Inr ()" by (simp add: sample_run_env_def)
  have pass: "er_pass (effective_state rq sample_report [(0, resolved_thread)] now)" for rq now
    by (simp add: effective_state_def Let_def sample_report_def thread_of_def resolved_thread_def new_thread_def passes_def
        severity_count_def)
  have fail: "\<not> ar_pass sample_report" by (simp add: sample_report_def)
  show ?thesis
    using refresh_effect [OF reported_stored r(1) w(1) r(2-4) w(2), of sample_service_settings sample_run_env] r(5) w(3) pass fail
    by (simp add: Let_def reported_feedback env payload_of_def refresh_record_def)
qed

end
