(* ===== verification/Fix_Session.thy ===== *)
theory Fix_Session
  imports Service_Feedback
begin

text \<open>
  Fix sessions of \<open>core/service.py\<close>: the user selects findings of a report, agrees with the model on scope and
  plan, the model changes the code and reviews its own change, the change is pushed with a merge request,
  the user closes the session. A session is an element of the list in the feedback file of its task; a job
  works on the list it read. The answers of the model, of git and of the merge request API are fields of
  \<open>fix_env\<close>; progress notices, which change no state and whose errors are swallowed, are not modelled.
\<close>

record fix_env =
  fe_guidance :: "task_record \<Rightarrow> fix_session \<Rightarrow> json list \<Rightarrow> json_dict py_result"
  fe_workspace :: "task_record \<Rightarrow> fix_session \<Rightarrow> string \<Rightarrow> string \<Rightarrow> string py_result"
  fe_apply :: "task_record \<Rightarrow> fix_session \<Rightarrow> nat \<Rightarrow> string py_result"
  fe_review :: "task_record \<Rightarrow> fix_session \<Rightarrow> nat \<Rightarrow> string \<Rightarrow> json_dict py_result"
  fe_push :: "task_record \<Rightarrow> fix_session \<Rightarrow> string \<Rightarrow> bool py_result"
  fe_merge_request :: "task_record \<Rightarrow> fix_session \<Rightarrow> string \<Rightarrow> json_dict py_result"
  fe_fix_space :: string
  fe_gitlab :: string

section \<open>Texts\<close>

text \<open>"the user confirmed the fix, this session is closed" / "the fix failed: " / "the fix is committed, MR: ".\<close>

definition closed_text :: string where
  "closed_text =
     [CHR 0xE7, CHR 0x94, CHR 0xA8, CHR 0xE6, CHR 0x88, CHR 0xB7, CHR 0xE7, CHR 0xA1, CHR 0xAE, CHR 0xE8, CHR 0xAE,
     CHR 0xA4, CHR 0xE9, CHR 0x80, CHR 0x9A, CHR 0xE8, CHR 0xBF, CHR 0x87, CHR 0xEF, CHR 0xBC, CHR 0x8C, CHR 0xE6,
     CHR 0x9C, CHR 0xAC, CHR 0xE6, CHR 0xAC, CHR 0xA1, CHR 0xE4, CHR 0xBF, CHR 0xAE, CHR 0xE5, CHR 0xA4, CHR 0x8D,
     CHR 0xE4, CHR 0xBC, CHR 0x9A, CHR 0xE8, CHR 0xAF, CHR 0x9D, CHR 0xE5, CHR 0xB7, CHR 0xB2, CHR 0xE5, CHR 0x85,
     CHR 0xB3, CHR 0xE9, CHR 0x97, CHR 0xAD, CHR 0xE3, CHR 0x80, CHR 0x82]"

definition fix_failed_text :: string where
  "fix_failed_text =
     [CHR 0xE4, CHR 0xBF, CHR 0xAE, CHR 0xE5, CHR 0xA4, CHR 0x8D, CHR 0xE5, CHR 0xA4, CHR 0x84, CHR 0xE7, CHR 0x90,
     CHR 0x86, CHR 0xE5, CHR 0xA4, CHR 0xB1, CHR 0xE8, CHR 0xB4, CHR 0xA5, CHR 0xEF, CHR 0xBC, CHR 0x9A]"

definition fix_committed_text :: string where
  "fix_committed_text =
     [CHR 0xE4, CHR 0xBF, CHR 0xAE, CHR 0xE5, CHR 0xA4, CHR 0x8D, CHR 0xE5, CHR 0xB7, CHR 0xB2, CHR 0xE6, CHR 0x8F,
     CHR 0x90, CHR 0xE4, CHR 0xBA, CHR 0xA4, CHR 0xEF, CHR 0xBC, CHR 0x8C, CHR 0x4D, CHR 0x52, CHR 0x3A, CHR 0x20]"

text \<open>What a user says to confirm: "confirmed", "content", "passed", "can be closed", "no problem any more".\<close>

definition CONFIRM_WORDS :: "string list" where
  "CONFIRM_WORDS =
    [[CHR 0xE7, CHR 0xA1, CHR 0xAE, CHR 0xE8, CHR 0xAE, CHR 0xA4, CHR 0xE9, CHR 0x80, CHR 0x9A, CHR 0xE8, CHR 0xBF,
     CHR 0x87],
     [CHR 0xE6, CHR 0xBB, CHR 0xA1, CHR 0xE6, CHR 0x84, CHR 0x8F],
     [CHR 0xE9, CHR 0x80, CHR 0x9A, CHR 0xE8, CHR 0xBF, CHR 0x87],
     [CHR 0xE5, CHR 0x8F, CHR 0xAF, CHR 0xE4, CHR 0xBB, CHR 0xA5, CHR 0xE5, CHR 0x85, CHR 0xB3, CHR 0xE9, CHR 0x97,
     CHR 0xAD],
     [CHR 0xE6, CHR 0xB2, CHR 0xA1, CHR 0xE9, CHR 0x97, CHR 0xAE, CHR 0xE9, CHR 0xA2, CHR 0x98, CHR 0xE4, CHR 0xBA,
     CHR 0x86]]"

definition is_user_fix_confirmed :: "string \<Rightarrow> bool" where
  "is_user_fix_confirmed msg \<longleftrightarrow> list_ex (contains (py_strip msg)) CONFIRM_WORDS"

section \<open>Names\<close>

definition slugify :: "string \<Rightarrow> string" where
  "slugify value =
     (let cleaned = map (\<lambda>c. if py_isalnum c then c else CHR ''-'') (py_lower value);
          cleaned = take 48 (join ''-'' (filter (\<lambda>p. p \<noteq> []) (split_on CHR ''-'' cleaned)))
      in if cleaned = [] then ''task'' else cleaned)"

text \<open>What follows the first colon, or the last two parts; without \<open>.git\<close> and without slashes around it. A
  text with neither a colon nor a slash has no two last parts.\<close>

definition repo_project_path :: "string \<Rightarrow> string py_result" where
  "repo_project_path url =
     (let trim = (\<lambda>p. lstrip_by (\<lambda>c. c = CHR ''/'') (rstrip_by (\<lambda>c. c = CHR ''/'') (removesuffix ''.git'' p)))
      in case cut_first CHR '':'' url of
           Some (_, p) \<Rightarrow> Inr (trim p)
         | None \<Rightarrow>
             (case rev (split_on CHR ''/'' url) of
                b # a # _ \<Rightarrow> Inr (trim (a @ ''/'' @ b))
              | _ \<Rightarrow> Inl (ValueError ''list index out of range'')))"

definition target_repo :: "task_record \<Rightarrow> fix_session \<Rightarrow> string" where
  "target_repo r s = text_or (fx_repo s) (rq_repo_url (lr_request r))"

definition target_branch_of :: "task_record \<Rightarrow> fix_session \<Rightarrow> string" where
  "target_branch_of r s = text_or (fx_branch s) (rq_branch (lr_request r))"

text \<open>The names of the workspace and of the branch of a round.\<close>

definition workspace_names :: "task_record \<Rightarrow> fix_session \<Rightarrow> (string \<times> string) py_result" where
  "workspace_names r s =
     bind_r (repo_project_path (target_repo r s)) (\<lambda>project.
       (let app = slugify (rq_app_name (lr_request r)); repo = slugify (path_name project);
            branch = slugify (target_branch_of r s); commit = take 12 (text_or (rq_commit (lr_request r)) ''head'');
            sid = take 8 (fx_id s); round_text = ''r'' @ str_nat (fx_round s)
        in Inr (app @ ''-'' @ repo @ ''-'' @ branch @ ''-'' @ commit @ ''-'' @ sid @ ''-'' @ round_text,
                ''codex/fix-'' @ app @ ''-'' @ repo @ ''-'' @ sid @ ''-'' @ round_text)))"

section \<open>The selected findings\<close>

definition effective_of :: "string \<Rightarrow> task_record \<Rightarrow> analysis_result \<Rightarrow> instant \<Rightarrow> service \<Rightarrow> effective_report" where
  "effective_of i r res now s = effective_state (lr_request r) res (fb_threads (feedback_of i s)) now"

definition normalize_fix_selection :: "effective_report \<Rightarrow> int list \<Rightarrow> int list" where
  "normalize_fix_selection e indexes =
     (let allowed = map vw_index (filter (\<lambda>v. vw_status v \<noteq> FS_Resolved_False_Positive) (er_views e))
      in filter (\<lambda>k. k \<in> set allowed) indexes)"

definition finding_payload :: "int \<Rightarrow> finding_view \<Rightarrow> json" where
  "finding_payload k v =
     (let f = vw_finding v
      in JObj [(''index'', JInt k), (''file'', JStr (mf_file f)),
           (''line'', case mf_line f of None \<Rightarrow> JNull | Some n \<Rightarrow> JInt n), (''title'', JStr (mf_title f)),
           (''detail'', JStr (mf_detail f)), (''suggestion'', opt_text (mf_suggestion f)),
           (''severity'', JStr (severity_text (vw_effective v)))])"

definition selected_finding_payload :: "effective_report \<Rightarrow> int list \<Rightarrow> json list" where
  "selected_finding_payload e indexes =
     List.map_filter (\<lambda>k. case find (\<lambda>v. vw_index v = k) (er_views e) of
         Some v \<Rightarrow> if vw_status v = FS_Resolved_False_Positive then None else Some (finding_payload k v)
       | None \<Rightarrow> None) indexes"

section \<open>What the user does\<close>

fun replace_fix_session :: "fix_session \<Rightarrow> fix_session list \<Rightarrow> fix_session list" where
  "replace_fix_session s [] = [s]"
| "replace_fix_session s (x # xs) = (if fx_id x = fx_id s then s # xs else x # replace_fix_session s xs)"

definition put_fix_job :: "service_settings \<Rightarrow> string \<times> string \<Rightarrow> unit ts" where
  "put_fix_job cfg job =
     wbind (sget sv_fix_queue) (\<lambda>q.
       if feedback_room cfg q then smod (\<lambda>_ s. s\<lparr>sv_fix_queue := sv_fix_queue s @ [job]\<rparr>) else wraise QueueFull)"

definition add_message :: "feedback_message \<Rightarrow> fix_session \<Rightarrow> fix_session" where
  "add_message m s = s\<lparr>fx_messages := fx_messages s @ [m]\<rparr>"

definition add_user_text :: "string \<Rightarrow> instant \<Rightarrow> fix_session \<Rightarrow> fix_session" where
  "add_user_text msg now s = (if py_strip msg = [] then s else add_message (user_message (py_strip msg) now) s)"

definition new_fix_session :: "string \<Rightarrow> int list \<Rightarrow> string \<Rightarrow> instant \<Rightarrow> fix_session" where
  "new_fix_session sid selected msg now =
     (add_user_text msg now
       \<lparr>fx_id = sid, fx_selected = selected, fx_stage = Scope_Confirmation, fx_repo = None, fx_branch = None, fx_scope = None,
        fx_plan = None, fx_messages = [], fx_processing = False, fx_workspace = None, fx_source_branch = None, fx_mr = None,
        fx_last = None, fx_round = 0, fx_created = now, fx_updated = now\<rparr>)\<lparr>fx_processing := True, fx_updated := now\<rparr>"

definition create_fix_session ::
  "service_settings \<Rightarrow> string \<Rightarrow> string \<Rightarrow> int list \<Rightarrow> string \<Rightarrow> fix_session ts" where
  "create_fix_session cfg i sid indexes msg =
     wbind (get_record cfg i) (\<lambda>found.
       case report_of found of
         None \<Rightarrow> wraise (RuntimeError ''report not ready'')
       | Some (r, res) \<Rightarrow>
           wbind (wget sw_now) (\<lambda>now.
           wbind (sget (\<lambda>s. normalize_fix_selection (effective_of i r res now s) indexes)) (\<lambda>selected.
             if selected = [] then wraise (RuntimeError ''no fixable findings selected'')
             else wbind (sget (\<lambda>s. fb_fix (feedback_of i s))) (\<lambda>sessions.
               (let s = new_fix_session sid selected msg now
                in wseq (save_fix_sessions i (sessions @ [s])) (wseq (put_fix_job cfg (i, sid)) (wret s)))))))"

definition confirm_session :: "instant \<Rightarrow> fix_session \<Rightarrow> fix_session" where
  "confirm_session now s =
     (add_message (model_message closed_text now) s)
       \<lparr>fx_stage := Fix_Completed, fx_processing := False, fx_last := Some closed_text, fx_updated := now\<rparr>"

definition reopen_session :: "instant \<Rightarrow> fix_session \<Rightarrow> fix_session" where
  "reopen_session now s =
     s\<lparr>fx_processing := True,
       fx_stage := (if fx_stage s \<in> {Awaiting_User_Confirmation, Fix_Completed, Fix_Failed} then Scope_Confirmation else fx_stage s),
       fx_updated := now\<rparr>"

definition submit_fix_session_message ::
  "service_settings \<Rightarrow> string \<Rightarrow> string \<Rightarrow> string \<Rightarrow> fix_session ts" where
  "submit_fix_session_message cfg i sid msg =
     wbind (get_record cfg i) (\<lambda>found.
       case report_of found of
         None \<Rightarrow> wraise (RuntimeError ''report not ready'')
       | Some (r, res) \<Rightarrow>
           wbind (sget (\<lambda>s. fb_fix (feedback_of i s))) (\<lambda>sessions.
             case find (\<lambda>s. fx_id s = sid) sessions of
               None \<Rightarrow> wraise (RuntimeError ''fix session not found'')
             | Some s \<Rightarrow>
                 if fx_stage s = Fix_Completed then wraise (RuntimeError ''fix session already completed'')
                 else wbind (wget sw_now) (\<lambda>now.
                   (let s = add_user_text msg now s
                    in if fx_stage s = Awaiting_User_Confirmation \<and> is_user_fix_confirmed msg then
                         (let s = confirm_session now s
                          in wseq (save_fix_sessions i (replace_fix_session s sessions)) (wret s))
                       else
                         (let s = reopen_session now s
                          in wseq (save_fix_sessions i (replace_fix_session s sessions))
                               (wseq (put_fix_job cfg (i, sid)) (wret s)))))))"

section \<open>What the model is asked\<close>

definition check_guidance :: "trigger_request \<Rightarrow> json_dict \<Rightarrow> json_dict py_result" where
  "check_guidance rq d =
     bind_r (in_texts (dget d ''next_stage'') [''scope_confirmation'', ''plan_confirmation'', ''fixing'']) (\<lambda>known.
       if \<not> known then Inl (RuntimeError (''invalid fix next_stage: '' @ py_str (dget d ''next_stage'')))
       else (let d = (if truthy (dget d ''target_repo_url'') then d else dset ''target_repo_url'' (JStr (rq_repo_url rq)) d)
             in Inr (if truthy (dget d ''target_branch'') then d else dset ''target_branch'' (JStr (rq_branch rq)) d)))"

definition check_fix_review :: "json_dict \<Rightarrow> json_dict py_result" where
  "check_fix_review d =
     (if dget d ''passed'' \<notin> {JBool True, JBool False}
      then Inl (RuntimeError ''invalid fix review result: passed must be boolean'') else Inr d)"

text \<open>\<open>guidance.get(k) or old\<close>, on texts.\<close>

definition text_update :: "json_dict \<Rightarrow> string \<Rightarrow> string option \<Rightarrow> string option" where
  "text_update d k old = (if truthy (dget d k) then Some (py_str (dget d k)) else old)"

definition take_guidance :: "task_record \<Rightarrow> json_dict \<Rightarrow> string \<Rightarrow> fix_stage \<Rightarrow> instant \<Rightarrow> fix_session \<Rightarrow> fix_session" where
  "take_guidance r d reply stg now s =
     (add_message (model_message reply now) s)
       \<lparr>fx_repo := Some (text_or (text_update d ''target_repo_url'' (fx_repo s)) (rq_repo_url (lr_request r))),
        fx_branch := Some (text_or (text_update d ''target_branch'' (fx_branch s)) (rq_branch (lr_request r))),
        fx_scope := text_update d ''scope_summary'' (fx_scope s), fx_plan := text_update d ''plan_summary'' (fx_plan s),
        fx_stage := stg\<rparr>"

section \<open>The fix\<close>

text \<open>A part of the job that may raise: the session as far as it was changed, and the exception.\<close>

type_synonym fix_step = "fix_session \<times> py_exc option"

definition try_step :: "'a py_result \<Rightarrow> fix_session \<Rightarrow> ('a \<Rightarrow> fix_step ts) \<Rightarrow> fix_step ts" where
  "try_step answer s f =
     wbind (wtry (outside answer)) (\<lambda>ans. case ans of Inl e \<Rightarrow> wret (s, Some e) | Inr x \<Rightarrow> f x)"

definition merge_request_url :: "fix_env \<Rightarrow> task_record \<Rightarrow> fix_session \<Rightarrow> json_dict \<Rightarrow> string py_result" where
  "merge_request_url env r s d =
     bind_r (repo_project_path (target_repo r s)) (\<lambda>project.
       Inr (if truthy (dget d ''web_url'') then py_str (dget d ''web_url'')
            else fe_gitlab env @ ''/'' @ project @ ''/-/merge_requests''))"

text \<open>\<open>review["reply"]\<close> of the fix's review is only formatted into texts, whatever its value; the answer to
a missing key is the exception. It also becomes \<open>last_result\<close> as it is, which no validation looks at on
assignment: \<open>None\<close> stays \<open>None\<close>, and a value of another type is kept here as the text it prints as
(the source writes the value itself, which the next load of the task's feedback then refuses).\<close>

definition review_reply :: "json_dict \<Rightarrow> json py_result" where
  "review_reply d = (case map_of d ''reply'' of None \<Rightarrow> Inl (KeyError (repr_str ''reply'')) | Some v \<Rightarrow> Inr v)"

definition fix_done :: "string \<Rightarrow> json \<Rightarrow> instant \<Rightarrow> fix_session \<Rightarrow> fix_session" where
  "fix_done mr_url reply now s =
     (add_message (model_message (py_str reply @ [CHR 0x0A, CHR 0x0A] @ fix_committed_text @ mr_url) now) s)
       \<lparr>fx_mr := Some mr_url, fx_last := (if reply = JNull then None else Some (py_str reply)),
        fx_stage := Awaiting_User_Confirmation\<rparr>"

text \<open>The change passed its review: pushed, a merge request opened, the user asked.\<close>

definition deliver_fix :: "fix_env \<Rightarrow> task_record \<Rightarrow> fix_session \<Rightarrow> string \<Rightarrow> json_dict \<Rightarrow> fix_step ts" where
  "deliver_fix env r s branch d =
     try_step (fe_push env r s branch) s (\<lambda>pushed.
       if \<not> pushed then wret (s, Some (RuntimeError ''fix flow produced no code changes''))
       else try_step (bind_r (fe_merge_request env r s branch) (merge_request_url env r s)) s (\<lambda>mr_url.
         (let s = s\<lparr>fx_mr := Some mr_url\<rparr>
          in case review_reply d of
               Inl e \<Rightarrow> wret (s, Some e)
             | Inr reply \<Rightarrow> wbind (wget sw_now) (\<lambda>now. wret (fix_done mr_url reply now s, None)))))"

fun fix_attempts :: "fix_env \<Rightarrow> task_record \<Rightarrow> fix_session \<Rightarrow> string \<Rightarrow> nat list \<Rightarrow> fix_step ts" where
  "fix_attempts env r s branch [] = wret (s, Some (RuntimeError ''fix review did not pass within retry limit''))"
| "fix_attempts env r s branch (n # ns) =
     try_step (fe_apply env r s n) s (\<lambda>summary.
     try_step (bind_r (fe_review env r s n summary) check_fix_review) s (\<lambda>d.
       if dget d ''passed'' = JBool True then deliver_fix env r s branch d
       else (case review_reply d of Inl e \<Rightarrow> wret (s, Some e) | Inr _ \<Rightarrow> fix_attempts env r s branch ns)))"

definition begin_fix :: "fix_session \<Rightarrow> fix_session" where
  "begin_fix s = s\<lparr>fx_processing := True, fx_stage := Fixing, fx_round := fx_round s + 1\<rparr>"

definition execute_fix_session ::
  "service_settings \<Rightarrow> fix_env \<Rightarrow> task_record \<Rightarrow> analysis_result \<Rightarrow> fix_session \<Rightarrow> fix_session list \<Rightarrow> fix_step ts" where
  "execute_fix_session cfg env r res s sessions =
     wbind (wget sw_now) (\<lambda>now.
     wbind (sget (\<lambda>v. selected_finding_payload (effective_of (lr_id r) r res now v) (fx_selected s))) (\<lambda>selected.
       if selected = [] then wret (s, Some (RuntimeError ''no fixable findings remain''))
       else
         (let s = begin_fix s
          in case workspace_names r s of
               Inl e \<Rightarrow> wret (s, Some e)
             | Inr (dir, branch) \<Rightarrow>
                 try_step (fe_workspace env r s dir branch) s (\<lambda>path.
                   (let s = s\<lparr>fx_workspace := Some (fe_fix_space env @ ''/'' @ dir), fx_source_branch := Some branch\<rparr>
                    in wseq (save_fix_sessions (lr_id r) (replace_fix_session s sessions))
                         (fix_attempts env r s branch [1..<ss_fix_rounds cfg + 1]))))))"

text \<open>The body of the \<open>try\<close> of \<open>_process_fix_job\<close>.\<close>

definition fix_job_steps ::
  "service_settings \<Rightarrow> fix_env \<Rightarrow> task_record \<Rightarrow> analysis_result \<Rightarrow> fix_session \<Rightarrow> fix_session list \<Rightarrow> fix_step ts" where
  "fix_job_steps cfg env r res s sessions =
     (if fx_stage s = Scope_Confirmation \<or> fx_stage s = Plan_Confirmation then
        wbind (wget sw_now) (\<lambda>now.
        wbind (sget (\<lambda>v. selected_finding_payload (effective_of (lr_id r) r res now v) (fx_selected s))) (\<lambda>selected.
          try_step (bind_r (fe_guidance env r s selected) (check_guidance (lr_request r))) s (\<lambda>d.
            case reply_of d of
              Inl e \<Rightarrow> wret (s, Some e)
            | Inr reply \<Rightarrow>
                (case fix_stage_of_text (py_str (dget d ''next_stage'')) of
                   Inl e \<Rightarrow> wbind (wget sw_now) (\<lambda>now. wret (take_guidance r d reply (fx_stage s) now s, Some e))
                 | Inr stg \<Rightarrow> wbind (wget sw_now) (\<lambda>now.
                     (let s = take_guidance r d reply stg now s
                      in if stg = Fixing then
                           wseq (save_fix_sessions (lr_id r) (replace_fix_session s sessions))
                             (execute_fix_session cfg env r res s sessions)
                         else wret (s, None)))))))
      else if fx_stage s = Fixing then execute_fix_session cfg env r res s sessions
      else wret (s, None))"

definition fail_fix :: "py_exc \<Rightarrow> instant \<Rightarrow> fix_session \<Rightarrow> fix_session" where
  "fail_fix e now s =
     (add_message (model_message (fix_failed_text @ exc_text e) now) s)
       \<lparr>fx_stage := Fix_Failed, fx_last := Some (fix_failed_text @ exc_text e)\<rparr>"

definition end_fix_job :: "fix_step \<Rightarrow> instant \<Rightarrow> fix_session" where
  "end_fix_job out now =
     (case out of (s, e) \<Rightarrow>
        (case e of None \<Rightarrow> s | Some e \<Rightarrow> fail_fix e now s)\<lparr>fx_processing := False, fx_updated := now\<rparr>)"

definition process_fix_job :: "service_settings \<Rightarrow> fix_env \<Rightarrow> string \<Rightarrow> string \<Rightarrow> unit ts" where
  "process_fix_job cfg env i sid =
     wbind (get_record cfg i) (\<lambda>found.
       case report_of found of
         None \<Rightarrow> wret ()
       | Some (r, res) \<Rightarrow>
           wbind (sget (\<lambda>s. fb_fix (feedback_of i s))) (\<lambda>sessions.
             case find (\<lambda>s. fx_id s = sid) sessions of
               None \<Rightarrow> wret ()
             | Some s \<Rightarrow>
                 wbind (fix_job_steps cfg env r res s sessions) (\<lambda>out.
                 wbind (wget sw_now) (\<lambda>now.
                   save_fix_sessions i (replace_fix_session (end_fix_job out now) sessions)))))"

section \<open>The life cycle of a session\<close>

text \<open>The stages a session passes through: what the user may do, what a job may do.\<close>

inductive user_stage :: "fix_stage \<Rightarrow> fix_stage \<Rightarrow> bool" where
  confirm: "user_stage Awaiting_User_Confirmation Fix_Completed"
| reopen: "stg \<in> {Awaiting_User_Confirmation, Fix_Failed} \<Longrightarrow> user_stage stg Scope_Confirmation"
| talk: "stg \<in> {Scope_Confirmation, Plan_Confirmation, Fixing} \<Longrightarrow> user_stage stg stg"

inductive job_stage :: "fix_stage \<Rightarrow> fix_stage \<Rightarrow> bool" where
  discuss: "stg \<in> {Scope_Confirmation, Plan_Confirmation} \<Longrightarrow> t \<in> {Scope_Confirmation, Plan_Confirmation} \<Longrightarrow> job_stage stg t"
| fixed: "stg \<in> {Scope_Confirmation, Plan_Confirmation, Fixing} \<Longrightarrow> job_stage stg Awaiting_User_Confirmation"
| fix_broken: "stg \<in> {Scope_Confirmation, Plan_Confirmation, Fixing} \<Longrightarrow> job_stage stg Fix_Failed"
| idle: "stg \<in> {Awaiting_User_Confirmation, Fix_Completed, Fix_Failed} \<Longrightarrow> job_stage stg stg"

inductive_cases job_stage_cases: "job_stage stg t"
inductive_simps job_stage_from_completed: "job_stage Fix_Completed t"
inductive_simps user_stage_from_completed: "user_stage Fix_Completed t"

section \<open>What a job does to its session\<close>

text \<open>A passed review within the rounds, the change pushed and the merge request accepted.\<close>

definition delivered :: "service_settings \<Rightarrow> fix_env \<Rightarrow> task_record \<Rightarrow> string \<Rightarrow> bool" where
  "delivered cfg env r sid \<longleftrightarrow>
     (\<exists>s n summary d branch answer. fx_id s = sid \<and> 1 \<le> n \<and> n \<le> ss_fix_rounds cfg \<and> fe_apply env r s n = Inr summary
        \<and> fe_review env r s n summary = Inr d \<and> dget d ''passed'' = JBool True
        \<and> fe_push env r s branch = Inr True \<and> fe_merge_request env r s branch = Inr answer)"

text \<open>The session keeps its id and its messages, the model only adds.\<close>

definition session_grows :: "fix_session \<Rightarrow> fix_session \<Rightarrow> bool" where
  "session_grows s u \<longleftrightarrow>
     fx_id u = fx_id s \<and> (\<exists>ms. fx_messages u = fx_messages s @ ms \<and> list_all (\<lambda>m. fm_role m = From_Model) ms)"

lemma grows_refl [simp]: "session_grows s s"
  by (simp add: session_grows_def)

lemma grows_trans: "session_grows s t \<Longrightarrow> session_grows t u \<Longrightarrow> session_grows s u"
  by (auto simp: session_grows_def)

lemma grows_model: "session_grows s (add_message (model_message c now) s)"
  by (simp add: session_grows_def add_message_def model_message_def)

lemma grows_upd [simp]:
  "session_grows s (u\<lparr>fx_stage := a\<rparr>) = session_grows s u" "session_grows s (u\<lparr>fx_last := b\<rparr>) = session_grows s u"
  "session_grows s (u\<lparr>fx_mr := c\<rparr>) = session_grows s u" "session_grows s (u\<lparr>fx_processing := d\<rparr>) = session_grows s u"
  "session_grows s (u\<lparr>fx_updated := e\<rparr>) = session_grows s u" "session_grows s (u\<lparr>fx_repo := f\<rparr>) = session_grows s u"
  "session_grows s (u\<lparr>fx_branch := f\<rparr>) = session_grows s u" "session_grows s (u\<lparr>fx_scope := f\<rparr>) = session_grows s u"
  "session_grows s (u\<lparr>fx_plan := f\<rparr>) = session_grows s u" "session_grows s (u\<lparr>fx_round := g\<rparr>) = session_grows s u"
  "session_grows s (u\<lparr>fx_workspace := f\<rparr>) = session_grows s u" "session_grows s (u\<lparr>fx_source_branch := f\<rparr>) = session_grows s u"
  by (simp_all add: session_grows_def)

text \<open>The file of the task, up to its fix sessions, while other threads leave it alone.\<close>

definition fix_kept :: "string \<Rightarrow> feedback_file \<Rightarrow> service_world \<Rightarrow> bool" where
  "fix_kept i f w \<longleftrightarrow> leave_feedback i w \<and> (\<exists>fs. feedback_of i (sw_sv w) = f\<lparr>fb_fix := fs\<rparr>)"

lemma fix_kept_moves: "fix_kept i f w \<Longrightarrow> fix_kept i f (snd (others_move w))"
  by (auto simp: fix_kept_def others_move_def wmod_def leave_feedback_def split: list.split)

lemma fix_kept_save: "fix_kept i f w \<Longrightarrow> fix_kept i f (w\<lparr>sw_sv := put_feedback i ((feedback_of i (sw_sv w))\<lparr>fb_fix := fs\<rparr>) (sw_sv w)\<rparr>)"
  unfolding fix_kept_def leave_feedback_def by (elim conjE exE) (simp add: saved_feedback exI [of _ fs])

lemma wp_try_step:
  assumes "fix_kept i f w" and "\<And>e v. answer = Inl e \<Longrightarrow> fix_kept i f v \<Longrightarrow> Q (s, Some e) v"
    and "\<And>x v. answer = Inr x \<Longrightarrow> fix_kept i f v \<Longrightarrow> wp (g x) Q E v"
  shows "wp (try_step answer s g) Q E w"
proof -
  obtain u where u: "others_move w = (Inr (), u)" by (simp add: others_move_def wmod_def)
  then have "fix_kept i f u" using fix_kept_moves [OF assms(1)] by simp
  then show ?thesis
    using assms(2,3) by (cases answer) (simp_all add: try_step_def outside_def wp_simps wp_def [of others_move] u)
qed

lemma wp_save_fix:
  assumes "fix_kept i f w" and "\<And>v. fix_kept i f v \<Longrightarrow> wp n Q E v"
  shows "wp (wseq (save_fix_sessions i fs) n) Q E w"
  using assms(2) [OF fix_kept_save [OF assms(1)]] by (simp add: wp_wseq save_fix_sessions_def wp_smod)

lemma wp_saved_fix:
  assumes "fix_kept i f w" and "\<And>v. fix_kept i f v \<Longrightarrow> R v"
  shows "wp (save_fix_sessions i fs) (\<lambda>_. R) E w"
  using assms(2) [OF fix_kept_save [OF assms(1)]] by (simp add: save_fix_sessions_def wp_smod)

text \<open>Where the fix ends: it was delivered, or the session has the exception.\<close>

definition fix_end :: "service_settings \<Rightarrow> fix_env \<Rightarrow> task_record \<Rightarrow> fix_session \<Rightarrow> fix_step \<Rightarrow> bool" where
  "fix_end cfg env r s out \<longleftrightarrow>
     session_grows s (fst out)
     \<and> (snd out = None \<longrightarrow> fx_stage (fst out) = Awaiting_User_Confirmation \<and> fx_mr (fst out) \<noteq> None \<and> delivered cfg env r (fx_id s))"

lemma fix_end_raise [simp]: "fix_end cfg env r s (u, Some e) = session_grows s u"
  by (simp add: fix_end_def)

lemma deliver_ends:
  assumes "fix_kept i f w" and "1 \<le> n" "n \<le> ss_fix_rounds cfg" and "fe_apply env r s n = Inr summary"
    and "fe_review env r s n summary = Inr d" and "dget d ''passed'' = JBool True"
    and Q: "\<And>out v. fix_end cfg env r s out \<Longrightarrow> fix_kept i f v \<Longrightarrow> Q out v"
  shows "wp (deliver_fix env r s branch d) Q E w"
  unfolding deliver_fix_def
proof (rule wp_try_step [OF assms(1)])
  fix pushed v
  assume pushed: "fe_push env r s branch = Inr pushed" and v: "fix_kept i f v"
  show "wp (if \<not> pushed then wret (s, Some (RuntimeError ''fix flow produced no code changes''))
      else try_step (bind_r (fe_merge_request env r s branch) (merge_request_url env r s)) s (\<lambda>mr_url.
         (let s = s\<lparr>fx_mr := Some mr_url\<rparr>
          in case review_reply d of
               Inl e \<Rightarrow> wret (s, Some e)
             | Inr reply \<Rightarrow> wbind (wget sw_now) (\<lambda>now. wret (fix_done mr_url reply now s, None))))) Q E v"
  proof (cases pushed)
    case True
    have good: "fix_end cfg env r s (fix_done mr_url reply now (s\<lparr>fx_mr := Some mr_url\<rparr>), None)"
      if opened: "bind_r (fe_merge_request env r s branch) (merge_request_url env r s) = Inr mr_url" for mr_url reply now
    proof -
      obtain answer where "fe_merge_request env r s branch = Inr answer"
        using opened by (cases "fe_merge_request env r s branch") simp_all
      moreover have "fe_push env r s branch = Inr True" using pushed True by simp
      ultimately have "delivered cfg env r (fx_id s)"
        unfolding delivered_def using assms(2-6) by blast
      then show ?thesis by (simp add: fix_end_def fix_done_def add_message_def session_grows_def model_message_def)
    qed
    show ?thesis
      using True good
      by (auto simp: Let_def wp_simps intro!: wp_try_step [OF v] Q split: sum.split)
  qed (simp add: wp_wret Q v)
qed (simp add: Q)

lemma attempts_end:
  assumes "fix_kept i f w" and "list_all (\<lambda>n. 1 \<le> n \<and> n \<le> ss_fix_rounds cfg) ns"
    and Q: "\<And>out v. fix_end cfg env r s out \<Longrightarrow> fix_kept i f v \<Longrightarrow> Q out v"
  shows "wp (fix_attempts env r s branch ns) Q E w"
  using assms(1,2)
proof (induction ns arbitrary: w)
  case Nil
  then show ?case by (simp add: wp_wret Q)
next
  case (Cons n ns)
  show ?case
    unfolding fix_attempts.simps
  proof (rule wp_try_step [OF Cons.prems(1)])
    fix summary v
    assume a: "fe_apply env r s n = Inr summary" and v: "fix_kept i f v"
    show "wp (try_step (bind_r (fe_review env r s n summary) check_fix_review) s (\<lambda>d.
       if dget d ''passed'' = JBool True then deliver_fix env r s branch d
       else (case review_reply d of Inl e \<Rightarrow> wret (s, Some e) | Inr _ \<Rightarrow> fix_attempts env r s branch ns))) Q E v"
    proof (rule wp_try_step [OF v])
      fix d u
      assume d: "bind_r (fe_review env r s n summary) check_fix_review = Inr d" and u: "fix_kept i f u"
      have "fe_review env r s n summary = Inr d"
        using d by (cases "fe_review env r s n summary") (auto simp: check_fix_review_def split: if_splits)
      then have "wp (deliver_fix env r s branch d) Q E u" if "dget d ''passed'' = JBool True"
        using Cons.prems(2) that a by (intro deliver_ends [OF u _ _ a _ _ Q]) simp_all
      then show "wp (if dget d ''passed'' = JBool True then deliver_fix env r s branch d
       else (case review_reply d of Inl e \<Rightarrow> wret (s, Some e) | Inr _ \<Rightarrow> fix_attempts env r s branch ns)) Q E u"
        using Cons.prems(2) Cons.IH [OF u] Q u by (auto simp: wp_wret split: sum.split)
    qed (simp add: Q)
  qed (simp add: Q)
qed

lemma fix_end_grows: "session_grows s t \<Longrightarrow> fix_end cfg env r t out \<Longrightarrow> fix_end cfg env r s out"
  by (auto simp: fix_end_def session_grows_def)

lemma execute_ends:
  assumes "fix_kept i f w" and "lr_id r = i"
    and Q: "\<And>out v. fix_end cfg env r s out \<Longrightarrow> fix_kept i f v \<Longrightarrow> Q out v"
  shows "wp (execute_fix_session cfg env r res s sessions) Q E w"
proof -
  have rounds: "list_all (\<lambda>n. 1 \<le> n \<and> n \<le> ss_fix_rounds cfg) [Suc 0..<Suc (ss_fix_rounds cfg)]"
    by (auto simp: list_all_iff)
  have begin_grows: "session_grows s (begin_fix s)" by (simp add: begin_fix_def)
  have grows: "fix_end cfg env r s out" if "fix_end cfg env r ((begin_fix s)\<lparr>fx_workspace := a, fx_source_branch := b\<rparr>) out" for a b out
    using fix_end_grows [OF _ that, of s] begin_grows by simp
  show ?thesis
    unfolding execute_fix_session_def Let_def
    using assms(1) begin_grows
    by (auto simp: wp_simps wp_sget assms(2) Q simp del: upt_Suc split: sum.split
        intro!: wp_try_step [where i = i and f = f] wp_save_fix [where i = i and f = f]
          attempts_end [where i = i and f = f, OF _ rounds] Q intro: grows)
qed

lemma guidance_stage:
  assumes "bind_r g (check_guidance rq) = Inr d"
  shows "fix_stage_of_text (py_str (dget d ''next_stage'')) \<in> {Inr Scope_Confirmation, Inr Plan_Confirmation, Inr Fixing}"
proof -
  obtain d0 where d0: "check_guidance rq d0 = Inr d" using assms by (cases g) simp_all
  then have "dget d ''next_stage'' = dget d0 ''next_stage''"
    by (auto simp: check_guidance_def dget_def Let_def bind_r_Inr split: if_splits)
  moreover have "dget d0 ''next_stage'' \<in> {JStr ''scope_confirmation'', JStr ''plan_confirmation'', JStr ''fixing''}"
    using d0 by (auto simp: check_guidance_def bind_r_Inr in_texts_True [simplified] split: if_splits)
  ultimately show ?thesis
    by (auto simp: fix_stage_of_text_def all_fix_stages_def)
qed

lemma take_guidance_grows: "session_grows s (take_guidance r d reply stg now s)" "fx_stage (take_guidance r d reply stg now s) = stg"
  by (simp_all add: take_guidance_def grows_model)

definition job_end :: "service_settings \<Rightarrow> fix_env \<Rightarrow> task_record \<Rightarrow> fix_session \<Rightarrow> fix_session \<Rightarrow> bool" where
  "job_end cfg env r s u \<longleftrightarrow>
     session_grows s u \<and> \<not> fx_processing u \<and> job_stage (fx_stage s) (fx_stage u)
     \<and> (fx_stage u = Awaiting_User_Confirmation \<and> fx_stage s \<noteq> Awaiting_User_Confirmation
         \<longrightarrow> fx_mr u \<noteq> None \<and> delivered cfg env r (fx_id s))"

lemma job_end_fix:
  assumes "session_grows s t" and "fx_stage s \<in> {Scope_Confirmation, Plan_Confirmation, Fixing}" and "fix_end cfg env r t out"
  shows "job_end cfg env r s (end_fix_job out now)"
proof (cases "snd out")
  case None
  then show ?thesis
    using assms by (cases out) (auto simp: job_end_def end_fix_job_def fix_end_def session_grows_def intro: job_stage.fixed)
next
  case (Some e)
  then have "session_grows s (end_fix_job out now)"
    using assms(1,3)
    by (cases out) (auto simp: end_fix_job_def fix_end_def fail_fix_def intro: grows_trans [OF _ grows_trans [OF _ grows_model]])
  then show ?thesis
    using assms(2) Some by (cases out) (auto simp: job_end_def end_fix_job_def fail_fix_def intro: job_stage.fix_broken)
qed

lemma job_end_raise:
  "session_grows s t \<Longrightarrow> fx_stage s \<in> {Scope_Confirmation, Plan_Confirmation, Fixing} \<Longrightarrow> job_end cfg env r s (end_fix_job (t, Some e) now)"
  by (rule job_end_fix [OF grows_refl]) simp_all

lemma job_end_talk:
  assumes "fx_stage s \<in> {Scope_Confirmation, Plan_Confirmation}" and "stg \<in> {Scope_Confirmation, Plan_Confirmation}"
  shows "job_end cfg env r s (end_fix_job (take_guidance r d reply stg now1 s, None) now)"
  using assms by (auto simp: job_end_def end_fix_job_def take_guidance_grows intro: job_stage.discuss)

lemma job_end_idle:
  "fx_stage s \<notin> {Scope_Confirmation, Plan_Confirmation, Fixing} \<Longrightarrow> job_end cfg env r s (end_fix_job (s, None) now)"
  by (cases "fx_stage s") (auto simp: job_end_def end_fix_job_def intro: job_stage.idle)

lemma job_steps_end:
  assumes "fix_kept i f w" and "lr_id r = i"
    and Q: "\<And>out v. (\<And>now. job_end cfg env r s (end_fix_job out now)) \<Longrightarrow> fix_kept i f v \<Longrightarrow> Q out v"
  shows "wp (fix_job_steps cfg env r res s sessions) Q E w"
proof -
  have talk: "wp (case reply_of d of
              Inl e \<Rightarrow> wret (s, Some e)
            | Inr reply \<Rightarrow>
                (case fix_stage_of_text (py_str (dget d ''next_stage'')) of
                   Inl e \<Rightarrow> wbind (wget sw_now) (\<lambda>now. wret (take_guidance r d reply (fx_stage s) now s, Some e))
                 | Inr stg \<Rightarrow> wbind (wget sw_now) (\<lambda>now.
                     (let s = take_guidance r d reply stg now s
                      in if stg = Fixing then
                           wseq (save_fix_sessions (lr_id r) (replace_fix_session s sessions))
                             (execute_fix_session cfg env r res s sessions)
                         else wret (s, None))))) Q E v"
    if d: "bind_r g (check_guidance rq) = Inr d" and v: "fix_kept i f v"
      and stg: "fx_stage s \<in> {Scope_Confirmation, Plan_Confirmation}" for g rq d v
  proof (cases "reply_of d")
    case (Inl e)
    then show ?thesis using stg v by (auto simp: wp_wret intro!: Q job_end_raise)
  next
    case (Inr reply)
    show ?thesis
      using guidance_stage [OF d] Inr stg v
      by (auto simp: wp_simps Let_def assms(2) intro!: Q job_end_talk wp_saved_fix [where i = i and f = f]
          execute_ends [where i = i and f = f] intro: job_end_fix [OF take_guidance_grows(1)])
  qed
  show ?thesis
    unfolding fix_job_steps_def
    using assms(1)
    by (auto simp: wp_simps wp_sget intro!: wp_try_step [where i = i and f = f] talk Q job_end_raise job_end_idle
        execute_ends [where i = i and f = f, OF _ assms(2)] intro: job_end_fix [OF grows_refl])
qed

lemma fix_job_end:
  assumes "stored (ss_codec cfg) (sv_store (sw_sv w)) i = Some r" and "lr_id r = i" and "lr_result r = Some res"
    and "find (\<lambda>s. fx_id s = sid) (fb_fix (feedback_of i (sw_sv w))) = Some s" and "leave_feedback i w"
  defines "fs \<equiv> fb_fix (feedback_of i (sw_sv w))"
  shows "wp (process_fix_job cfg env i sid)
    (\<lambda>_ v. \<exists>u. fb_fix (feedback_of i (sw_sv v)) = replace_fix_session u fs \<and> job_end cfg env r s u) (\<lambda>_ _. False) w"
proof -
  obtain st where st: "get_record cfg i w = (Inr (Some r), w\<lparr>sw_sv := (sw_sv w)\<lparr>sv_store := st\<rparr>\<rparr>)"
    using get_record_runs [OF assms(1)] by blast
  let ?w = "w\<lparr>sw_sv := (sw_sv w)\<lparr>sv_store := st\<rparr>\<rparr>"
  have same: "feedback_of i (sw_sv ?w) = feedback_of i (sw_sv w)" by (simp add: feedback_of_def)
  have kept: "fix_kept i (feedback_of i (sw_sv w)) ?w"
    unfolding fix_kept_def same using assms(5) by (auto simp: leave_feedback_def intro: exI [of _ "fb_fix (feedback_of i (sw_sv w))"])
  show ?thesis
    unfolding process_fix_job_def
    using assms(3,4) same
    by (auto simp: wp_wbind wp_def [of "get_record cfg i"] st report_of_def wp_sget wp_wget fs_def [symmetric]
        save_fix_sessions_def wp_smod saved_feedback intro!: job_steps_end [OF kept assms(2)]) blast
qed

text \<open>C22: a job on a fix session ends without an exception whatever the model, git and the merge request API
  answer: the session is no longer processing, its stage moves as \<open>job_stage\<close> allows (never left at fixing), its
  messages only get more messages of the model; it waits for the user only with a merge request, after a passed
  review within the rounds and a push; the other sessions are those the job read.\<close>

theorem fix_job_ends_session:
  assumes "stored (ss_codec cfg) (sv_store (sw_sv w)) i = Some r" and "lr_id r = i" and "lr_result r = Some res"
    and "find (\<lambda>s. fx_id s = sid) (fb_fix (feedback_of i (sw_sv w))) = Some s" and "leave_feedback i w"
  shows "\<exists>u. fst (process_fix_job cfg env i sid w) = Inr ()
    \<and> fb_fix (feedback_of i (sw_sv (snd (process_fix_job cfg env i sid w)))) = replace_fix_session u (fb_fix (feedback_of i (sw_sv w)))
    \<and> session_grows s u \<and> \<not> fx_processing u \<and> job_stage (fx_stage s) (fx_stage u)
    \<and> (fx_stage u = Awaiting_User_Confirmation \<and> fx_stage s \<noteq> Awaiting_User_Confirmation
         \<longrightarrow> fx_mr u \<noteq> None \<and> delivered cfg env r (fx_id s))"
  using fix_job_end [OF assms, of env] by (auto simp: wp_def job_end_def split: prod.splits sum.splits)

section \<open>What the user may do\<close>

lemma stage_after [simp]:
  "fx_stage (add_user_text msg now s) = fx_stage s" "fx_stage (confirm_session now s) = Fix_Completed"
  "fx_stage (reopen_session now s) \<noteq> Fix_Completed"
  by (simp_all add: add_user_text_def add_message_def confirm_session_def reopen_session_def)

lemma put_feedback_queue [simp]: "sv_fix_queue (put_feedback i f s) = sv_fix_queue s"
  by (simp add: put_feedback_def)

lemma feedback_of_queue [simp]: "feedback_of i (s\<lparr>sv_fix_queue := q\<rparr>) = feedback_of i s"
  by (simp add: feedback_of_def)

lemma run_put_fix:
  "wseq (put_fix_job cfg job) n w =
     (if feedback_room cfg (sv_fix_queue (sw_sv w)) then n (w\<lparr>sw_sv := (sw_sv w)\<lparr>sv_fix_queue := sv_fix_queue (sw_sv w) @ [job]\<rparr>\<rparr>)
      else (Inl QueueFull, w))"
  by (simp add: put_fix_job_def wseq_def wbind_def sget_def wget_def smod_def wmod_def wraise_def)

lemma submit_fix_cases:
  fixes msg :: string
  assumes "stored (ss_codec cfg) (sv_store (sw_sv w)) i = Some r" and "lr_result r = Some res"
    and "find (\<lambda>s. fx_id s = sid) (fb_fix (feedback_of i (sw_sv w))) = Some s"
  defines "fs \<equiv> fb_fix (feedback_of i (sw_sv w))" and "v \<equiv> submit_fix_session_message cfg i sid msg w"
    and "u \<equiv> (let t = add_user_text msg (sw_now w) s
              in if fx_stage s = Awaiting_User_Confirmation \<and> is_user_fix_confirmed msg then confirm_session (sw_now w) t
                 else reopen_session (sw_now w) t)"
  shows "fx_stage s = Fix_Completed \<Longrightarrow> fst v = Inl (RuntimeError ''fix session already completed'') \<and> fb_fix (feedback_of i (sw_sv (snd v))) = fs"
    and "fx_stage s \<noteq> Fix_Completed \<Longrightarrow> fb_fix (feedback_of i (sw_sv (snd v))) = replace_fix_session u fs
      \<and> sv_fix_queue (sw_sv (snd v)) = sv_fix_queue (sw_sv w) @ (if fx_stage u = Fix_Completed \<or> fst v = Inl QueueFull then [] else [(i, sid)])
      \<and> (fst v = Inr u \<or> fst v = Inl QueueFull)"
proof -
  obtain st where st: "get_record cfg i w = (Inr (Some r), w\<lparr>sw_sv := (sw_sv w)\<lparr>sv_store := st\<rparr>\<rparr>)"
    using get_record_runs [OF assms(1)] by blast
  have same: "feedback_of i ((sw_sv w)\<lparr>sv_store := st\<rparr>) = feedback_of i (sw_sv w)" by (simp add: feedback_of_def)
  note run = submit_fix_session_message_def run_then [of "get_record cfg i", OF st] report_of_def assms(2) run_sget same assms(3)
  show "fst v = Inl (RuntimeError ''fix session already completed'') \<and> fb_fix (feedback_of i (sw_sv (snd v))) = fs"
    if "fx_stage s = Fix_Completed"
    using that by (simp add: v_def fs_def run wraise_def same)
  show "fb_fix (feedback_of i (sw_sv (snd v))) = replace_fix_session u fs
      \<and> sv_fix_queue (sw_sv (snd v)) = sv_fix_queue (sw_sv w) @ (if fx_stage u = Fix_Completed \<or> fst v = Inl QueueFull then [] else [(i, sid)])
      \<and> (fst v = Inr u \<or> fst v = Inl QueueFull)"
    if "fx_stage s \<noteq> Fix_Completed"
    using that
    by (auto simp: v_def u_def fs_def run wraise_def same run_simps Let_def save_fix_sessions_def wret_def run_put_fix saved_feedback)
qed

lemma user_moves:
  assumes "fx_stage s \<noteq> Fix_Completed"
    and "u = (let t = add_user_text msg now s
              in if fx_stage s = Awaiting_User_Confirmation \<and> is_user_fix_confirmed msg then confirm_session now t
                 else reopen_session now t)"
  shows "fx_id u = fx_id s \<and> user_stage (fx_stage s) (fx_stage u) \<and> fx_processing u = (fx_stage u \<noteq> Fix_Completed)
    \<and> (fx_stage u = Fix_Completed \<longleftrightarrow> fx_stage s = Awaiting_User_Confirmation \<and> is_user_fix_confirmed msg)"
  unfolding assms(2) using assms(1)
  by (cases "fx_stage s") (auto simp: Let_def confirm_session_def reopen_session_def add_user_text_def add_message_def user_stage.simps)

text \<open>C23: a message of the user on a fix session: completed is final; otherwise the session moves as
  \<open>user_stage\<close> allows, it is completed exactly when it waited for confirmation and the message has one of the
  words, and in every other case it is processing again and a job is queued, unless the queue is full.\<close>

theorem fix_message_effect:
  assumes "stored (ss_codec cfg) (sv_store (sw_sv w)) i = Some r" and "lr_result r = Some res"
    and "find (\<lambda>s. fx_id s = sid) (fb_fix (feedback_of i (sw_sv w))) = Some s"
  shows "let fs = fb_fix (feedback_of i (sw_sv w)); (out, v) = submit_fix_session_message cfg i sid msg w
    in if fx_stage s = Fix_Completed
       then out = Inl (RuntimeError ''fix session already completed'') \<and> fb_fix (feedback_of i (sw_sv v)) = fs
       else \<exists>u. fb_fix (feedback_of i (sw_sv v)) = replace_fix_session u fs \<and> fx_id u = fx_id s
         \<and> user_stage (fx_stage s) (fx_stage u) \<and> fx_processing u = (fx_stage u \<noteq> Fix_Completed)
         \<and> (fx_stage u = Fix_Completed \<longleftrightarrow> fx_stage s = Awaiting_User_Confirmation \<and> is_user_fix_confirmed msg)
         \<and> sv_fix_queue (sw_sv v) = sv_fix_queue (sw_sv w) @ (if fx_stage u = Fix_Completed \<or> out = Inl QueueFull then [] else [(i, sid)])
         \<and> (out = Inr u \<or> out = Inl QueueFull)"
proof (cases "fx_stage s = Fix_Completed")
  case True
  then show ?thesis using submit_fix_cases(1) [OF assms, of msg] by (simp add: Let_def case_prod_beta)
next
  case False
  obtain u where u: "u = (let t = add_user_text msg (sw_now w) s
      in if fx_stage s = Awaiting_User_Confirmation \<and> is_user_fix_confirmed msg then confirm_session (sw_now w) t
         else reopen_session (sw_now w) t)"
    by blast
  show ?thesis
    unfolding Let_def case_prod_beta if_not_P [OF False]
    by (rule exI [of _ u]) (simp add: submit_fix_cases(2) [OF assms False, of msg, folded u] user_moves [OF False u])
qed

lemma new_session_fields [simp]:
  "fx_id (new_fix_session sid sel msg now) = sid" "fx_selected (new_fix_session sid sel msg now) = sel"
  "fx_stage (new_fix_session sid sel msg now) = Scope_Confirmation" "fx_processing (new_fix_session sid sel msg now)"
  by (simp_all add: new_fix_session_def add_user_text_def add_message_def)

lemma fb_fix_inj [simp]: "(f\<lparr>fb_fix := a\<rparr> = f\<lparr>fb_fix := b\<rparr>) = (a = b)"
  by (cases f) simp

lemma set_selection: "normalize_fix_selection e indexes
    = filter (\<lambda>k. \<exists>v \<in> set (er_views e). vw_index v = k \<and> vw_status v \<noteq> FS_Resolved_False_Positive) indexes"
  by (auto simp: normalize_fix_selection_def intro!: filter_cong)

text \<open>A new fix session selects the requested findings that are in the report and not resolved, in the order
  requested; with none of them it is refused and the file stays as it was.\<close>

theorem create_fix_selects:
  assumes "stored (ss_codec cfg) (sv_store (sw_sv w)) i = Some r" and "lr_result r = Some res"
  shows "let f = feedback_of i (sw_sv w); (out, v) = create_fix_session cfg i sid indexes msg w;
      views = er_views (effective_state (lr_request r) res (fb_threads f) (sw_now w));
      sel = filter (\<lambda>k. \<exists>x \<in> set views. vw_index x = k \<and> vw_status x \<noteq> FS_Resolved_False_Positive) indexes
    in if sel = [] then out = Inl (RuntimeError ''no fixable findings selected'') \<and> feedback_of i (sw_sv v) = f
       else \<exists>s. feedback_of i (sw_sv v) = f\<lparr>fb_fix := fb_fix f @ [s]\<rparr> \<and> fx_id s = sid \<and> fx_selected s = sel
         \<and> fx_stage s = Scope_Confirmation \<and> fx_processing s \<and> (out = Inr s \<or> out = Inl QueueFull)"
proof -
  obtain st where st: "get_record cfg i w = (Inr (Some r), w\<lparr>sw_sv := (sw_sv w)\<lparr>sv_store := st\<rparr>\<rparr>)"
    using get_record_runs [OF assms(1)] by blast
  have same: "feedback_of i ((sw_sv w)\<lparr>sv_store := st\<rparr>) = feedback_of i (sw_sv w)" by (simp add: feedback_of_def)
  show ?thesis
    by (simp add: create_fix_session_def run_then [of "get_record cfg i", OF st] report_of_def assms(2) run_simps same Let_def
        effective_of_def save_fix_sessions_def run_put_fix saved_feedback wraise_def wret_def set_selection)
qed

section \<open>Samples\<close>

definition sample_session :: "fix_stage \<Rightarrow> fix_session" where
  "sample_session stg = (new_fix_session ''s1'' [0] ''fix'' 5)\<lparr>fx_stage := stg\<rparr>"

definition fix_world :: "fix_stage \<Rightarrow> service_world" where
  "fix_world stg = sample_start\<lparr>sw_sv := sample_service\<lparr>sv_store := \<lparr>ts_cache = [(''t1'', reported_task)], ts_files = []\<rparr>,
     sv_feedback := [(''t1'', \<lparr>fb_threads = [], fb_general = [], fb_fix = [sample_session stg]\<rparr>)]\<rparr>\<rparr>"

lemma fix_world_facts:
  "stored c (sv_store (sw_sv (fix_world stg))) ''t1'' = Some reported_task"
  "fb_fix (feedback_of ''t1'' (sw_sv (fix_world stg))) = [sample_session stg]"
  "find (\<lambda>s. fx_id s = ''s1'') (fb_fix (feedback_of ''t1'' (sw_sv (fix_world stg)))) = Some (sample_session stg)"
  "leave_feedback ''t1'' (fix_world stg)" "fx_stage (sample_session stg) = stg" "fx_id (sample_session stg) = ''s1''"
  "lr_id reported_task = ''t1''" "lr_result reported_task = Some sample_report"
  by (simp_all add: stored_def get_task_record_def fix_world_def sample_start_def sample_service_def feedback_of_def
      leave_feedback_def sample_session_def new_fix_session_def add_user_text_def add_message_def py_strip_def
      reported_task_def sample_task_def new_record_def)

theorem fix_job_ends_session_witness:
  "\<forall>env. \<exists>u. fb_fix (feedback_of ''t1'' (sw_sv (snd (process_fix_job sample_service_settings env ''t1'' ''s1'' (fix_world Fixing))))) = [u]
    \<and> fx_stage u \<in> {Awaiting_User_Confirmation, Fix_Failed} \<and> \<not> fx_processing u"
proof
  fix env
  obtain u where u: "fb_fix (feedback_of ''t1'' (sw_sv (snd (process_fix_job sample_service_settings env ''t1'' ''s1'' (fix_world Fixing)))))
      = replace_fix_session u [sample_session Fixing]" "session_grows (sample_session Fixing) u" "\<not> fx_processing u"
    "job_stage Fixing (fx_stage u)"
    using fix_job_ends_session [where w = "fix_world Fixing" and cfg = sample_service_settings and env = env, OF fix_world_facts(1,7,8,3,4)] fix_world_facts(2,5) by auto
  then show "\<exists>u. fb_fix (feedback_of ''t1'' (sw_sv (snd (process_fix_job sample_service_settings env ''t1'' ''s1'' (fix_world Fixing))))) = [u]
    \<and> fx_stage u \<in> {Awaiting_User_Confirmation, Fix_Failed} \<and> \<not> fx_processing u"
    by (auto simp: session_grows_def fix_world_facts(6) elim: job_stage_cases)
qed

text \<open>"not passed" contains "passed".\<close>

definition not_passed_text :: string where
  "not_passed_text =
     [CHR 0xE4, CHR 0xB8, CHR 0x8D, CHR 0xE9, CHR 0x80, CHR 0x9A, CHR 0xE8, CHR 0xBF, CHR 0x87]"

lemma not_passed_confirms: "is_user_fix_confirmed not_passed_text"
  by code_simp

theorem fix_message_effect_witness:
  "\<exists>u. fst (submit_fix_session_message sample_service_settings ''t1'' ''s1'' not_passed_text (fix_world Awaiting_User_Confirmation)) \<in> {Inr u, Inl QueueFull}
    \<and> fx_stage u = Fix_Completed"
  using fix_message_effect [where w = "fix_world Awaiting_User_Confirmation" and cfg = sample_service_settings and msg = not_passed_text,
      OF fix_world_facts(1,8,3)]
    not_passed_confirms fix_world_facts(5)
  by (auto simp: Let_def case_prod_beta)

theorem create_fix_selects_witness:
  "\<exists>s. fb_fix (feedback_of ''t1'' (sw_sv (snd (create_fix_session sample_service_settings ''t1'' ''s2'' [0, 7] ''fix'' (fix_world Fixing)))))
      = [sample_session Fixing, s] \<and> fx_selected s = [0]"
proof -
  let ?views = "er_views (effective_state (lr_request reported_task) sample_report [] 100)"
  obtain x where x: "?views = [x]" "vw_index x = 0" "vw_status x = FS_Open"
    by (simp add: effective_state_def Let_def sample_report_def finding_view_of_def thread_of_def new_thread_def)
  have w: "sw_now (fix_world Fixing) = 100" "fb_threads (feedback_of ''t1'' (sw_sv (fix_world Fixing))) = []"
    by (simp_all add: fix_world_def sample_start_def feedback_of_def)
  show ?thesis
    using create_fix_selects [where w = "fix_world Fixing" and cfg = sample_service_settings and sid = "''s2''" and indexes = "[0, 7]"
        and msg = "''fix''", OF fix_world_facts(1,8)]
    by (auto simp: Let_def case_prod_beta fix_world_facts(2) w x)
qed

end
