(* ===== verification/Opencode_Runner.thy ===== *)
theory Opencode_Runner
  imports Json_Extract Task_Models Statements "HOL-Library.List_Lexorder"
begin

text \<open>
  What \<open>core/opencode_runner.py\<close> makes of a model's output: the event stream of the command, the texts kept
  in the database of the tool, parsing with repair by the model, the retries of an analysis, the token
  counts of a call, the sub-sessions of a session. The command itself is a parameter: the answer to a
  prompt, given the prompts sent before. What pydantic converts to a text, a truth value or a number is
  the parameter \<open>coercions\<close>; which fields a result has, what they default to and which values they may
  have is written out.
\<close>

section \<open>Session ids and error events\<close>

definition append_unique_session_id :: "json \<Rightarrow> string list \<Rightarrow> string list" where
  "append_unique_session_id v ids =
     (case v of JStr s \<Rightarrow> if s \<noteq> [] \<and> s \<notin> set ids then ids @ [s] else ids | _ \<Rightarrow> ids)"

definition event_session_ids :: "json_dict \<Rightarrow> string list \<Rightarrow> string list" where
  "event_session_ids e ids =
     (let ids = append_unique_session_id (dget e ''sessionID'') ids
      in case dget e ''part'' of JObj p \<Rightarrow> append_unique_session_id (dget p ''sessionID'') ids | _ \<Rightarrow> ids)"

text \<open>The lines of a text that are not blank, stripped.\<close>

definition text_lines :: "string \<Rightarrow> string list" where
  "text_lines t = filter (\<lambda>l. l \<noteq> []) (map py_strip (splitlines t))"

definition session_ids_step :: "string \<Rightarrow> string list \<Rightarrow> string list" where
  "session_ids_step line ids = (case json_parse line of Some (JObj e) \<Rightarrow> event_session_ids e ids | _ \<Rightarrow> ids)"

definition extract_session_ids :: "string \<Rightarrow> string list" where
  "extract_session_ids t = fold session_ids_step (text_lines t) []"

text \<open>What parsing raises: \<open>UnrepairableOpencodeOutputError\<close>, a subclass of \<open>RuntimeError\<close>, or another
  exception.\<close>

datatype parse_error = Unrepairable string | Unparsed py_exc

type_synonym 'a parsed = "parse_error + 'a"

definition error_message :: "json_dict \<Rightarrow> json" where
  "error_message e =
     (case dget e ''error'' of
        JObj d \<Rightarrow>
          py_or (case dget d ''data'' of JObj x \<Rightarrow> dget x ''message'' | _ \<Rightarrow> JNull) (py_or (dget d ''message'') (dget d ''name''))
      | _ \<Rightarrow> JNull)"

definition raise_for_error_event :: "json \<Rightarrow> unit parsed" where
  "raise_for_error_event v =
     (case v of
        JObj e \<Rightarrow>
          if dget e ''type'' = JStr ''error'' then Inl (Unrepairable (''opencode error event: '' @ py_str (py_or (error_message e) v)))
          else Inr ()
      | _ \<Rightarrow> Inr ())"

section \<open>The texts of an event stream\<close>

text \<open>The rows of the database of the tool for some sessions, in order: the data of a part and of its
  message. No rows when there is no database.\<close>

type_synonym part_rows = "string list \<Rightarrow> (string \<times> string) list"

definition stripped_text :: "json \<Rightarrow> string option" where
  "stripped_text v = (case v of JStr s \<Rightarrow> if py_strip s = [] then None else Some (py_strip s) | _ \<Rightarrow> None)"

definition text_part_step :: "string list \<Rightarrow> string \<times> string \<Rightarrow> string list py_result" where
  "text_part_step texts row =
     (case (json_parse (snd row), json_parse (fst row)) of
        (Some m, Some p) \<Rightarrow>
          bind_r (need_dict m) (\<lambda>m.
            if dget m ''role'' \<noteq> JStr ''assistant'' then Inr texts
            else bind_r (need_dict p) (\<lambda>p.
              if dget p ''type'' \<noteq> JStr ''text'' then Inr texts else Inr (texts @ opt_list (stripped_text (dget p ''text'')))))
      | _ \<Rightarrow> Inr texts)"

definition load_text_parts :: "part_rows \<Rightarrow> string list \<Rightarrow> string list py_result" where
  "load_text_parts rows ids = (if ids = [] then Inr [] else fold_r text_part_step [] (rows ids))"

record event_state =
  rs_events :: bool
  rs_texts :: "string list"
  rs_sessions :: "string list"
  rs_invalid :: bool

definition event_text :: "json_dict \<Rightarrow> string option" where
  "event_text e =
     (case dget e ''part'' of
        JObj p \<Rightarrow> if dget e ''type'' = JStr ''text'' \<and> dget p ''type'' = JStr ''text'' then stripped_text (dget p ''text'') else None
      | _ \<Rightarrow> None)"

fun stream_lines :: "string list \<Rightarrow> event_state \<Rightarrow> event_state parsed" where
  "stream_lines [] st = Inr st"
| "stream_lines (l # ls) st =
     (case json_parse l of
        None \<Rightarrow> stream_lines ls (st\<lparr>rs_invalid := True\<rparr>)
      | Some (JObj e) \<Rightarrow>
          (case raise_for_error_event (JObj e) of
             Inl x \<Rightarrow> Inl x
           | Inr _ \<Rightarrow>
               stream_lines ls (st\<lparr>rs_events := True, rs_sessions := event_session_ids e (rs_sessions st),
                 rs_texts := rs_texts st @ opt_list (event_text e)\<rparr>))
      | Some _ \<Rightarrow> stream_lines ls st)"

definition lift_parsed :: "'a py_result \<Rightarrow> 'a parsed" where
  "lift_parsed r = (case r of Inl e \<Rightarrow> Inl (Unparsed e) | Inr x \<Rightarrow> Inr x)"

definition bind_p :: "'a parsed \<Rightarrow> ('a \<Rightarrow> 'b parsed) \<Rightarrow> 'b parsed" where
  "bind_p r f = (case r of Inl e \<Rightarrow> Inl e | Inr x \<Rightarrow> f x)"

text \<open>The object in the joined texts; when there is none, in the texts of the database.\<close>

definition object_of_texts :: "part_rows \<Rightarrow> string list \<Rightarrow> string \<Rightarrow> json_dict parsed" where
  "object_of_texts rows ids joined =
     (case extract_model_object joined of
        Inr d \<Rightarrow> Inr d
      | Inl e \<Rightarrow>
          bind_p (lift_parsed (load_text_parts rows ids)) (\<lambda>ts.
            if ts = [] then Inl (Unparsed e) else lift_parsed (extract_model_object (join [CHR 0x0A] ts))))"

definition parse_event_stream :: "part_rows \<Rightarrow> string \<Rightarrow> json_dict option parsed" where
  "parse_event_stream rows t =
     bind_p (stream_lines (text_lines t) \<lparr>rs_events = False, rs_texts = [], rs_sessions = [], rs_invalid = False\<rparr>) (\<lambda>st.
       if \<not> rs_events st then Inr None
       else
         bind_p (if rs_texts st = [] \<and> rs_sessions st \<noteq> [] then lift_parsed (load_text_parts rows (rs_sessions st))
                 else Inr (rs_texts st)) (\<lambda>ts.
           (let joined = py_strip (join [CHR 0x0A] ts)
            in if joined = [] then
                 Inl (Unrepairable (if rs_invalid st then ''incomplete opencode event stream: final text part not found''
                    else ''opencode event stream has no final text output''))
               else bind_p (object_of_texts rows (rs_sessions st) joined) (\<lambda>d. Inr (Some d)))))"

section \<open>A validated result\<close>

record coercions =
  co_text :: "json \<Rightarrow> string option"
  co_bool :: "json \<Rightarrow> bool option"
  co_int :: "json \<Rightarrow> int option"
  co_error :: "json \<Rightarrow> string"

definition bind_o :: "'a option \<Rightarrow> ('a \<Rightarrow> 'b option) \<Rightarrow> 'b option" where
  "bind_o x f = (case x of None \<Rightarrow> None | Some y \<Rightarrow> f y)"

text \<open>A required field, and one that may be missing or null.\<close>

definition field_of :: "json_dict \<Rightarrow> string \<Rightarrow> json option" where
  "field_of d k = map_of d k"

definition opt_field :: "(json \<Rightarrow> 'a option) \<Rightarrow> json_dict \<Rightarrow> string \<Rightarrow> 'a option option" where
  "opt_field f d k =
     (case map_of d k of None \<Rightarrow> Some None | Some JNull \<Rightarrow> Some None | Some v \<Rightarrow> map_option Some (f v))"

definition line_of :: "coercions \<Rightarrow> json_dict \<Rightarrow> int option option" where
  "line_of co d =
     (case map_of d ''line'' of
        None \<Rightarrow> Some None
      | Some v \<Rightarrow> (case normalize_line v of JNull \<Rightarrow> Some None | n \<Rightarrow> map_option Some (co_int co n)))"

definition severity_field :: "json \<Rightarrow> severity option" where
  "severity_field v = (case v of JStr s \<Rightarrow> severity_of_text s | _ \<Rightarrow> None)"

definition finding_of :: "coercions \<Rightarrow> json \<Rightarrow> model_finding option" where
  "finding_of co v =
     (case v of
        JObj d \<Rightarrow>
          bind_o (bind_o (field_of d ''file'') (co_text co)) (\<lambda>f.
          bind_o (line_of co d) (\<lambda>n.
          bind_o (bind_o (field_of d ''severity'') severity_field) (\<lambda>s.
          bind_o (bind_o (field_of d ''title'') (co_text co)) (\<lambda>t.
          bind_o (bind_o (field_of d ''detail'') (co_text co)) (\<lambda>x.
          bind_o (opt_field (co_text co) d ''suggestion'') (\<lambda>g.
            Some \<lparr>mf_file = f, mf_line = n, mf_severity = s, mf_title = t, mf_detail = x, mf_suggestion = g\<rparr>))))))
      | _ \<Rightarrow> None)"

fun all_found :: "('a \<Rightarrow> 'b option) \<Rightarrow> 'a list \<Rightarrow> 'b list option" where
  "all_found f [] = Some []"
| "all_found f (x # xs) = bind_o (f x) (\<lambda>y. map_option ((#) y) (all_found f xs))"

definition findings_field :: "coercions \<Rightarrow> json_dict \<Rightarrow> model_finding list option" where
  "findings_field co d =
     (case map_of d ''findings'' of
        None \<Rightarrow> Some []
      | Some (JArr vs) \<Rightarrow> all_found (finding_of co) vs
      | Some _ \<Rightarrow> None)"

definition score_of :: "coercions \<Rightarrow> json \<Rightarrow> int option" where
  "score_of co v = bind_o (co_int co v) (\<lambda>n. if 0 \<le> n \<and> n \<le> 100 then Some n else None)"

definition analysis_of :: "coercions \<Rightarrow> json \<Rightarrow> analysis_result py_result" where
  "analysis_of co v =
     (case (case v of
              JObj d \<Rightarrow>
                bind_o (bind_o (field_of d ''summary'') (co_text co)) (\<lambda>s.
                bind_o (bind_o (field_of d ''pass_check'') (co_bool co)) (\<lambda>p.
                bind_o (bind_o (field_of d ''score'') (score_of co)) (\<lambda>n.
                bind_o (findings_field co d) (\<lambda>fs.
                bind_o (opt_field as_dict d ''raw_output'') (\<lambda>_.
                  Some \<lparr>ar_summary = s, ar_pass = p, ar_score = n, ar_findings = fs, ar_raw = Some d\<rparr>)))))
            | _ \<Rightarrow> None) of
        Some r \<Rightarrow> Inr r
      | None \<Rightarrow> Inl (ValueError (co_error co v)))"

definition parse_output :: "coercions \<Rightarrow> part_rows \<Rightarrow> string \<Rightarrow> analysis_result parsed" where
  "parse_output co rows stdout =
     (let t = py_strip stdout
      in if t = [] then Inl (Unparsed (RuntimeError ''empty opencode output''))
         else bind_p (case json_parse t of
                Some v \<Rightarrow> bind_p (raise_for_error_event v) (\<lambda>_. Inr v)
              | None \<Rightarrow> bind_p (parse_event_stream rows t) (\<lambda>d.
                  case d of Some d \<Rightarrow> Inr (JObj d) | None \<Rightarrow> bind_p (lift_parsed (extract_model_object t)) (\<lambda>d. Inr (JObj d))))
             (\<lambda>v. lift_parsed (analysis_of co v)))"

section \<open>Answers of the feedback prompts\<close>

definition parse_feedback_output :: "part_rows \<Rightarrow> string \<Rightarrow> json_dict parsed" where
  "parse_feedback_output rows stdout =
     (let t = py_strip stdout
      in if t = [] then Inl (Unparsed (RuntimeError ''empty opencode feedback output''))
         else bind_p (case json_parse t of
                Some v \<Rightarrow> Inr v
              | None \<Rightarrow> bind_p (parse_event_stream rows t) (\<lambda>d. Inr (case d of Some d \<Rightarrow> JObj d | None \<Rightarrow> JNull)))
             (\<lambda>v. case v of JObj d \<Rightarrow> Inr d
                | _ \<Rightarrow> Inl (Unparsed (RuntimeError (''feedback output is not a json object: '' @ py_str v)))))"

definition parse_fix_apply_output :: "part_rows \<Rightarrow> string \<Rightarrow> string parsed" where
  "parse_fix_apply_output rows stdout =
     (let t = py_strip stdout
      in if t = [] then Inl (Unparsed (RuntimeError ''empty opencode fix apply output''))
         else (case parse_feedback_output rows t of
                 Inr d \<Rightarrow> Inr (case stripped_text (dget d ''summary'') of Some s \<Rightarrow> s | None \<Rightarrow> t)
               | Inl (Unrepairable _) \<Rightarrow> Inr t
               | Inl (Unparsed (RuntimeError _)) \<Rightarrow> Inr t
               | Inl e \<Rightarrow> Inl e))"

section \<open>Token counts\<close>

record usage_metrics =
  um_prompt :: int
  um_completion :: int
  um_thinking :: int
  um_cache_read :: int
  um_total :: int

definition no_usage :: usage_metrics where
  "no_usage = \<lparr>um_prompt = 0, um_completion = 0, um_thinking = 0, um_cache_read = 0, um_total = 0\<rparr>"

fun normalize_int :: "json \<Rightarrow> int option" where
  "normalize_int (JInt i) = Some i"
| "normalize_int (JFloat q) = Some (trunc_rat q)"
| "normalize_int (JStr s) = (if all_digits (py_strip s) then Some (int (nat_of_digits (py_strip s))) else None)"
| "normalize_int _ = None"

definition lower_keys :: "json_dict \<Rightarrow> json_dict" where
  "lower_keys d = fold (\<lambda>(k, v). dset (py_lower k) v) d []"

text \<open>\<open>normalize_int(d.get(k1) or d.get(k2) or ...)\<close>, and the same when no value is known yet.\<close>

fun first_truthy :: "json_dict \<Rightarrow> string list \<Rightarrow> json" where
  "first_truthy d [] = JNull"
| "first_truthy d [k] = dget d k"
| "first_truthy d (k # ks) = py_or (dget d k) (first_truthy d ks)"

definition first_int :: "json_dict \<Rightarrow> string list \<Rightarrow> int option" where
  "first_int d ks = normalize_int (first_truthy d ks)"

definition or_else :: "'a option \<Rightarrow> 'a option \<Rightarrow> 'a option" where
  "or_else x y = (case x of None \<Rightarrow> y | Some _ \<Rightarrow> x)"

definition sub_dict :: "json_dict \<Rightarrow> string \<Rightarrow> json_dict option" where
  "sub_dict d k = map_option lower_keys (as_dict (dget d k))"

definition known_int :: "int option \<Rightarrow> int" where
  "known_int x = (case x of None \<Rightarrow> 0 | Some n \<Rightarrow> n)"

definition usage_candidate :: "json_dict \<Rightarrow> usage_metrics option" where
  "usage_candidate obj =
     (let d = lower_keys obj;
          nested = sub_dict d ''tokens'';
          deeper = (\<lambda>x ks. or_else x (bind_o nested (\<lambda>n. first_int n ks)));
          cache = bind_o nested (\<lambda>n. sub_dict n ''cache'');
          inp = deeper (first_int d [''inputtokens'', ''prompttokens'', ''input_tokens'', ''prompt_tokens''])
             [''input'', ''prompt'', ''inputtokens'', ''prompttokens''];
          outp = deeper (first_int d [''outputtokens'', ''completiontokens'', ''output_tokens'', ''completion_tokens''])
             [''output'', ''completion'', ''outputtokens'', ''completiontokens''];
          thinking = deeper (first_int d [''thinkingtokens'', ''reasoningtokens'', ''thinking_tokens'', ''reasoning_tokens''])
             [''thinking'', ''reasoning'', ''thinkingtokens'', ''reasoningtokens''];
          read = or_else (first_int d [''cachereadtokens'', ''cache_read_tokens'', ''cache_read'', ''cacheread''])
             (bind_o cache (\<lambda>c. first_int c [''read'', ''cache_read'', ''cacheread'', ''readtokens'']));
          total = deeper (first_int d [''totaltokens'', ''total_tokens'']) [''total'', ''totaltokens''];
          a = known_int inp; b = known_int outp; t = known_int thinking; c = known_int read
      in if inp = None \<and> outp = None \<and> thinking = None \<and> read = None \<and> total = None then None
         else Some \<lparr>um_prompt = a, um_completion = b, um_thinking = t, um_cache_read = c,
                    um_total = (if known_int total \<noteq> 0 then known_int total else a + b + t + c)\<rparr>)"

fun scan_usage :: "json \<Rightarrow> usage_metrics list" where
  "scan_usage (JObj d) = opt_list (usage_candidate d) @ concat (map (\<lambda>kv. scan_usage (snd kv)) d)"
| "scan_usage (JArr vs) = concat (map scan_usage vs)"
| "scan_usage _ = []"

definition usage_candidates :: "string \<Rightarrow> usage_metrics list" where
  "usage_candidates t = concat (map (\<lambda>l. case json_parse l of Some v \<Rightarrow> scan_usage v | None \<Rightarrow> []) (text_lines t))"

text \<open>\<open>max\<close> with a key returns the first of the greatest.\<close>

fun first_max :: "('a \<Rightarrow> int) \<Rightarrow> 'a \<Rightarrow> 'a list \<Rightarrow> 'a" where
  "first_max f x [] = x"
| "first_max f x (y # ys) = first_max f (if f x < f y then y else x) ys"

definition extract_usage_metrics :: "string \<Rightarrow> usage_metrics" where
  "extract_usage_metrics t = (case usage_candidates t of [] \<Rightarrow> no_usage | u # us \<Rightarrow> first_max um_total u us)"

section \<open>The sessions below a session\<close>

text \<open>The rows of the table of sessions: id and parent. The queue of \<open>_expand_opencode_session_ids\<close>; a table
  that is missing or cannot be read has no rows.\<close>

type_synonym session_rows = "(string \<times> string) list"

definition child_sessions :: "session_rows \<Rightarrow> string \<Rightarrow> string list" where
  "child_sessions rows p = sort (filter (\<lambda>c. c \<noteq> []) (map fst (filter (\<lambda>r. snd r = p) rows)))"

definition sessions_left :: "session_rows \<Rightarrow> string list \<Rightarrow> string list \<Rightarrow> nat" where
  "sessions_left rows pending expanded = card ((set pending \<union> fst ` set rows) - set expanded)"

lemma child_rows: "set (child_sessions rows p) \<subseteq> fst ` set rows"
  by (auto simp: child_sessions_def)

function expand_sessions :: "session_rows \<Rightarrow> string list \<Rightarrow> string list \<Rightarrow> string list" where
  "expand_sessions rows [] expanded = expanded"
| "expand_sessions rows (s # pending) expanded =
     (if s \<in> set expanded then expand_sessions rows pending expanded
      else expand_sessions rows (pending @ filter (\<lambda>c. c \<notin> set (expanded @ [s])) (child_sessions rows s)) (expanded @ [s]))"
  by pat_completeness auto

termination
proof (relation "measures [\<lambda>(rows, pending, expanded). sessions_left rows pending expanded, \<lambda>(rows, pending, expanded). length pending]")
  fix rows :: session_rows and s :: string and pending expanded :: "string list"
  assume s: "s \<notin> set expanded"
  let ?new = "pending @ filter (\<lambda>c. c \<notin> set (expanded @ [s])) (child_sessions rows s)"
  have "(set ?new \<union> fst ` set rows) - set (expanded @ [s]) \<subset> (set (s # pending) \<union> fst ` set rows) - set expanded"
    using s child_rows [of rows s] by auto
  then have "sessions_left rows ?new (expanded @ [s]) < sessions_left rows (s # pending) expanded"
    unfolding sessions_left_def by (intro psubset_card_mono) simp_all
  then show "((rows, ?new, expanded @ [s]), rows, s # pending, expanded) \<in> measures [\<lambda>(rows, pending, expanded). sessions_left rows pending expanded, \<lambda>(rows, pending, expanded). length pending]"
    by simp
next
  fix rows :: session_rows and s :: string and pending expanded :: "string list"
  assume "s \<in> set expanded"
  then have "sessions_left rows pending expanded = sessions_left rows (s # pending) expanded"
    unfolding sessions_left_def by (intro arg_cong [where f = card]) auto
  then show "((rows, pending, expanded), rows, s # pending, expanded) \<in> measures [\<lambda>(rows, pending, expanded). sessions_left rows pending expanded, \<lambda>(rows, pending, expanded). length pending]"
    by simp
qed simp

definition expand_session_ids :: "session_rows \<Rightarrow> string list \<Rightarrow> string list" where
  "expand_session_ids rows ids = expand_sessions rows (filter (\<lambda>i. i \<noteq> []) ids) []"

text \<open>The counts of some sessions and of all below them; the parts of a session are the lines of a text.\<close>

record session_totals =
  so_calls :: int
  so_usage :: usage_metrics

definition add_usage :: "usage_metrics \<Rightarrow> usage_metrics \<Rightarrow> usage_metrics" where
  "add_usage u v =
     \<lparr>um_prompt = um_prompt u + um_prompt v, um_completion = um_completion u + um_completion v,
      um_thinking = um_thinking u + um_thinking v, um_cache_read = um_cache_read u + um_cache_read v,
      um_total = um_total u + um_total v\<rparr>"

definition add_session_usage :: "(string \<Rightarrow> string list) \<Rightarrow> string \<Rightarrow> session_totals \<Rightarrow> session_totals" where
  "add_session_usage parts i t =
     (let u = extract_usage_metrics (join [CHR 0x0A] (parts i))
      in if um_total u \<le> 0 then t else \<lparr>so_calls = so_calls t + 1, so_usage = add_usage (so_usage t) u\<rparr>)"

definition load_usage_metrics :: "session_rows \<Rightarrow> (string \<Rightarrow> string list) \<Rightarrow> string list \<Rightarrow> session_totals" where
  "load_usage_metrics rows parts ids =
     fold (add_session_usage parts) (expand_session_ids rows ids) \<lparr>so_calls = 0, so_usage = no_usage\<rparr>"

section \<open>An analysis\<close>

text \<open>What a command ended with.\<close>

record completed =
  cp_code :: int
  cp_out :: string
  cp_err :: string

text \<open>The polls of a running command: its end if it ended, whether the task was cancelled, the seconds since
  it was started. Polls go on until one of the three ends the wait.\<close>

fun await_prompt :: "int \<Rightarrow> (completed option \<times> bool \<times> int) list \<Rightarrow> completed py_result option" where
  "await_prompt limit [] = None"
| "await_prompt limit ((ended, cancelled, elapsed) # polls) =
     (case ended of
        Some c \<Rightarrow> Some (Inr c)
      | None \<Rightarrow>
          if cancelled then Some (Inl (RuntimeError ''task cancelled by admin''))
          else if limit < elapsed then Some (Inl (RuntimeError ''opencode prompt timeout''))
          else await_prompt limit polls)"

datatype prompt =
    Analysis_Prompt
  | Repair_Prompt string string nat

record runner_settings =
  rt_retries :: nat
  rt_format_retries :: nat
  rt_coercions :: coercions
  rt_rows :: part_rows

record runner_env =
  re_answer :: "prompt list \<Rightarrow> prompt \<Rightarrow> completed py_result"

text \<open>The prompts sent and the counts recorded: category, return code, counts.\<close>

record runner_world =
  rw_prompts :: "prompt list"
  rw_usage :: "(string \<times> int \<times> usage_metrics) list"

type_synonym 'a rs = "(runner_world, py_exc, 'a) stmt"

definition run_prompt :: "runner_env \<Rightarrow> prompt \<Rightarrow> completed rs" where
  "run_prompt env p =
     wbind (wget rw_prompts) (\<lambda>sent.
       wseq (wmod (\<lambda>w. w\<lparr>rw_prompts := sent @ [p]\<rparr>)) (wlift (re_answer env sent p)))"

definition record_usage :: "string \<Rightarrow> completed \<Rightarrow> unit rs" where
  "record_usage category c =
     wmod (\<lambda>w. w\<lparr>rw_usage := rw_usage w @ [(category, cp_code c, extract_usage_metrics (cp_out c))]\<rparr>)"

definition answer_text :: "completed \<Rightarrow> string" where
  "answer_text c = ''returncode='' @ str_int (cp_code c) @ '', stderr='' @ cp_err c @ '', stdout='' @ cp_out c"

definition repair_output :: "runner_env \<Rightarrow> string \<Rightarrow> string \<Rightarrow> nat \<Rightarrow> string rs" where
  "repair_output env broken err n =
     wbind (run_prompt env (Repair_Prompt broken err n)) (\<lambda>c.
       wseq (record_usage ''analysis_repair'' c)
         (if cp_code c \<noteq> 0 then wraise (RuntimeError (''opencode repair failed: '' @ answer_text c)) else wret (cp_out c)))"

definition attach_session_ids :: "string list \<Rightarrow> analysis_result \<Rightarrow> analysis_result" where
  "attach_session_ids ids r =
     (if ids = [] then r
      else r\<lparr>ar_raw := Some (dset ''_opencode_session_ids'' (JArr (map JStr ids)) (case ar_raw r of Some d \<Rightarrow> d | None \<Rightarrow> []))\<rparr>)"

definition add_session_ids :: "string list \<Rightarrow> string list \<Rightarrow> string list" where
  "add_session_ids new ids = fold (\<lambda>i. append_unique_session_id (JStr i)) new ids"

text \<open>\<open>except (RuntimeError, ValidationError, ValueError)\<close>; a \<open>JSONDecodeError\<close> is a \<open>ValueError\<close>.\<close>

definition repairable :: "py_exc \<Rightarrow> bool" where
  "repairable e \<longleftrightarrow> (case e of RuntimeError _ \<Rightarrow> True | ValueError _ \<Rightarrow> True | JSONDecodeError _ \<Rightarrow> True | _ \<Rightarrow> False)"

text \<open>The loop from attempt \<open>n\<close> on with \<open>k\<close> repairs left.\<close>

fun repair_loop :: "runner_settings \<Rightarrow> runner_env \<Rightarrow> nat \<Rightarrow> nat \<Rightarrow> string \<Rightarrow> string list \<Rightarrow> (analysis_result \<times> nat) rs" where
  "repair_loop cfg env k n candidate ids =
     (case parse_output (rt_coercions cfg) (rt_rows cfg) candidate of
        Inr r \<Rightarrow> wret (attach_session_ids ids r, n)
      | Inl (Unrepairable m) \<Rightarrow> wraise (RuntimeError m)
      | Inl (Unparsed e) \<Rightarrow>
          if \<not> repairable e then wraise e
          else (case k of
                  0 \<Rightarrow> wraise (RuntimeError (''opencode output validation failed after repair retries: '' @ exc_text e))
                | Suc k \<Rightarrow>
                    wbind (repair_output env candidate (exc_text e) (n + 1)) (\<lambda>out.
                      repair_loop cfg env k (n + 1) out (add_session_ids (extract_session_ids out) ids))))"

declare repair_loop.simps [simp del]

definition parse_with_repair_loop :: "runner_settings \<Rightarrow> runner_env \<Rightarrow> string \<Rightarrow> (analysis_result \<times> nat) rs" where
  "parse_with_repair_loop cfg env raw = repair_loop cfg env (rt_format_retries cfg) 0 raw (extract_session_ids raw)"

definition SUSPICIOUS_MARKERS :: "string list" where
  "SUSPICIOUS_MARKERS =
    [''i'' @ [CHR 0x27] @ ''ll analyze'', ''let me start'', ''based on my'', ''i will'', ''i'' @ [CHR 0x27] @ ''ll review'',
     [CHR 0xE6, CHR 0x88, CHR 0x91, CHR 0xE5, CHR 0xB0, CHR 0x86, CHR 0xE5, CHR 0x85, CHR 0x88],
     [CHR 0xE6, CHR 0x88, CHR 0x91, CHR 0xE5, CHR 0x85, CHR 0x88],
     [CHR 0xE6, CHR 0x88, CHR 0x91, CHR 0xE4, CHR 0xBC, CHR 0x9A, CHR 0xE6, CHR 0x8C, CHR 0x89],
     [CHR 0xE8, CHR 0xAE, CHR 0xA9, CHR 0xE6, CHR 0x88, CHR 0x91, CHR 0xE5, CHR 0x85, CHR 0x88],
     [CHR 0xE4, CHR 0xB8, CHR 0x8B, CHR 0xE9, CHR 0x9D, CHR 0xA2, CHR 0xE6, CHR 0x88, CHR 0x91, CHR 0xE6, CHR 0x9D, CHR 0xA5],
     [CHR 0xE5, CHR 0x85, CHR 0x88, CHR 0xE5, CHR 0xB9, CHR 0xB6, CHR 0xE8, CHR 0xA1, CHR 0x8C, CHR 0xE6, CHR 0x94, CHR 0xB6, CHR 0xE9, CHR 0x9B, CHR 0x86]]"

definition is_suspicious_empty_repair_result :: "string \<Rightarrow> nat \<Rightarrow> analysis_result \<Rightarrow> bool" where
  "is_suspicious_empty_repair_result raw n r \<longleftrightarrow>
     0 < n \<and> ar_findings r = [] \<and> py_strip raw \<noteq> [] \<and> list_ex (contains (py_lower (py_strip raw))) SUSPICIOUS_MARKERS"

text \<open>The loop of \<open>analyze\<close> with \<open>k\<close> attempts left; an answer that was empty after a repair is asked for
  once more, which is one attempt more.\<close>

function analyze_loop :: "runner_settings \<Rightarrow> runner_env \<Rightarrow> nat \<Rightarrow> bool \<Rightarrow> string \<Rightarrow> analysis_result rs" where
  "analyze_loop cfg env 0 retried last_error = wraise (RuntimeError (''opencode analyze failed after retries: '' @ last_error))"
| "analyze_loop cfg env (Suc k) retried last_error =
     wbind (run_prompt env Analysis_Prompt) (\<lambda>c.
       wseq (record_usage ''analysis'' c)
         (if cp_code c = 0 then
            wbind (parse_with_repair_loop cfg env (cp_out c)) (\<lambda>(r, n).
              if \<not> retried \<and> is_suspicious_empty_repair_result (cp_out c) n r then analyze_loop cfg env (Suc k) True last_error
              else wret r)
          else analyze_loop cfg env k retried (answer_text c)))"
  by pat_completeness auto

termination
  by (relation "measures [\<lambda>(cfg, env, k, retried, e). k + (if retried then 0 else 1)]") auto

declare analyze_loop.simps [simp del]

definition analyze :: "runner_settings \<Rightarrow> runner_env \<Rightarrow> analysis_result rs" where
  "analyze cfg env = analyze_loop cfg env (rt_retries cfg + 1) False ''None''"

section \<open>What is guaranteed\<close>

text \<open>The sub-sessions: reachable through rows of the table.\<close>

definition sub_session :: "session_rows \<Rightarrow> string \<Rightarrow> string \<Rightarrow> bool" where
  "sub_session rows p c \<longleftrightarrow> c \<noteq> [] \<and> (c, p) \<in> set rows"

lemma child_sub: "c \<in> set (child_sessions rows p) \<longleftrightarrow> sub_session rows p c"
  by (force simp: child_sessions_def sub_session_def)

lemma expand_distinct: "distinct expanded \<Longrightarrow> distinct (expand_sessions rows pending expanded)"
  by (induction rows pending expanded rule: expand_sessions.induct) simp_all

lemma expand_keeps: "set expanded \<union> set pending \<subseteq> set (expand_sessions rows pending expanded)"
  by (induction rows pending expanded rule: expand_sessions.induct) auto

lemma expand_closed:
  assumes "\<And>p c. p \<in> set expanded \<Longrightarrow> sub_session rows p c \<Longrightarrow> c \<in> set expanded \<union> set pending"
    and "p \<in> set (expand_sessions rows pending expanded)" and "sub_session rows p c"
  shows "c \<in> set (expand_sessions rows pending expanded)"
  using assms
proof (induction rows pending expanded rule: expand_sessions.induct)
  case (2 rows s pending expanded)
  show ?case
  proof (cases "s \<in> set expanded")
    case True
    then show ?thesis using 2(1) 2(3-5) by auto
  next
    case False
    have "q \<in> set (expanded @ [s]) \<Longrightarrow> sub_session rows q x \<Longrightarrow>
        x \<in> set (expanded @ [s]) \<union> set (pending @ filter (\<lambda>c. c \<notin> set (expanded @ [s])) (child_sessions rows s))" for q x
      using 2(3) [of q x] by (auto simp: child_sub)
    then show ?thesis using 2(2) [OF False] 2(4,5) False by simp
  qed
qed simp

lemma expand_reached:
  assumes "i \<in> set (expand_sessions rows pending expanded)"
  shows "i \<in> set expanded \<or> (\<exists>p \<in> set pending. (sub_session rows)\<^sup>*\<^sup>* p i)"
  using assms
proof (induction rows pending expanded rule: expand_sessions.induct)
  case (2 rows s pending expanded)
  show ?case
  proof (cases "s \<in> set expanded")
    case False
    then have "i \<in> set (expanded @ [s])
        \<or> (\<exists>p \<in> set (pending @ filter (\<lambda>c. c \<notin> set (expanded @ [s])) (child_sessions rows s)). (sub_session rows)\<^sup>*\<^sup>* p i)"
      using 2(2) [OF False] 2(3) by simp
    then show ?thesis by (auto simp: child_sub intro: converse_rtranclp_into_rtranclp)
  qed (use 2 in auto)
qed simp

text \<open>C32: the sessions whose counts are added up are exactly those reachable from the given ones, each once, for
  whatever rows the table has, cycles included.\<close>

theorem expand_is_reachable:
  "distinct (expand_session_ids rows ids)
   \<and> set (expand_session_ids rows ids) = {i. \<exists>p. p \<in> set ids \<and> p \<noteq> [] \<and> (sub_session rows)\<^sup>*\<^sup>* p i}"
proof -
  let ?start = "filter (\<lambda>i. i \<noteq> []) ids"
  have "i \<in> set (expand_session_ids rows ids)" if "p \<in> set ?start" "(sub_session rows)\<^sup>*\<^sup>* p i" for p i
    using that(2)
  proof (induction rule: rtranclp_induct)
    case base
    then show ?case using that(1) expand_keeps [of "[]" ?start rows] by (auto simp: expand_session_ids_def)
  next
    case (step q r)
    then show ?case unfolding expand_session_ids_def using expand_closed [of "[]" rows ?start q r] by simp
  qed
  moreover have "\<exists>p. p \<in> set ids \<and> p \<noteq> [] \<and> (sub_session rows)\<^sup>*\<^sup>* p i" if "i \<in> set (expand_session_ids rows ids)" for i
    using expand_reached [OF that [unfolded expand_session_ids_def]] by auto
  ultimately have "set (expand_session_ids rows ids) = {i. \<exists>p. p \<in> set ids \<and> p \<noteq> [] \<and> (sub_session rows)\<^sup>*\<^sup>* p i}"
    by auto
  then show ?thesis using expand_distinct [of "[]" rows ?start] by (simp add: expand_session_ids_def)
qed

lemma score_field: "score_of co v = Some n \<Longrightarrow> 0 \<le> n \<and> n \<le> 100"
  by (auto simp: score_of_def bind_o_def split: option.splits if_splits)

lemma parsed_score: "parse_output co rows t = Inr r \<Longrightarrow> 0 \<le> ar_score r \<and> ar_score r \<le> 100"
  by (auto simp: parse_output_def Let_def bind_p_def lift_parsed_def analysis_of_def bind_o_def
      split: if_splits sum.splits option.splits json.splits dest!: score_field)

definition is_repair :: "prompt \<Rightarrow> bool" where
  "is_repair p \<longleftrightarrow> p \<noteq> Analysis_Prompt"

definition sound_answer :: "py_exc + analysis_result \<Rightarrow> bool" where
  "sound_answer out \<longleftrightarrow> (case out of Inl e \<Rightarrow> True | Inr r \<Rightarrow> 0 \<le> ar_score r \<and> ar_score r \<le> 100)"

text \<open>The prompts sent since there were \<open>ps\<close>: at most \<open>a\<close> analyses and \<open>b\<close> repairs.\<close>

definition sent_within :: "prompt list \<Rightarrow> nat \<Rightarrow> nat \<Rightarrow> runner_world \<Rightarrow> bool" where
  "sent_within ps a b w \<longleftrightarrow>
     (\<exists>qs. rw_prompts w = ps @ qs \<and> length (filter (\<lambda>p. \<not> is_repair p) qs) \<le> a \<and> length (filter is_repair qs) \<le> b)"

lemma sent_zero: "sent_within (rw_prompts w) 0 0 w"
  by (simp add: sent_within_def)

lemma sent_more: "sent_within ps a b w \<Longrightarrow> a \<le> a' \<Longrightarrow> b \<le> b' \<Longrightarrow> sent_within ps a' b' w"
  by (force simp: sent_within_def)

lemma sent_usage [simp]: "sent_within ps a b (w\<lparr>rw_usage := u\<rparr>) = sent_within ps a b w"
  by (simp add: sent_within_def)

lemma sent_prompt:
  "sent_within ps a b w \<Longrightarrow>
   sent_within ps (if is_repair p then a else a + 1) (if is_repair p then b + 1 else b) (w\<lparr>rw_prompts := rw_prompts w @ [p]\<rparr>)"
  by (auto simp: sent_within_def)

lemma wp_run_prompt:
  "wp (run_prompt env p) Q E w =
     (case re_answer env (rw_prompts w) p of Inl e \<Rightarrow> E e (w\<lparr>rw_prompts := rw_prompts w @ [p]\<rparr>)
      | Inr c \<Rightarrow> Q c (w\<lparr>rw_prompts := rw_prompts w @ [p]\<rparr>))"
  by (simp add: run_prompt_def wp_simps)

lemma repair_within:
  assumes "sent_within ps a b w"
  shows "wp (repair_loop cfg env k n candidate ids)
    (\<lambda>(r, m) v. sent_within ps a (b + k) v \<and> 0 \<le> ar_score r \<and> ar_score r \<le> 100) (\<lambda>_. sent_within ps a (b + k)) w"
  using assms
proof (induction k arbitrary: n candidate ids w b)
  case 0
  then show ?case
    by (subst repair_loop.simps)
      (auto simp: wp_simps attach_session_ids_def dest: parsed_score split: sum.split parse_error.split)
next
  case (Suc k)
  have "sent_within ps a (b + 1) (w\<lparr>rw_prompts := rw_prompts w @ [Repair_Prompt x y z]\<rparr>)" for x y z
    using sent_prompt [OF Suc.prems, of "Repair_Prompt x y z"] by (simp add: is_repair_def)
  note step = Suc.IH [OF this [THEN sent_usage [THEN iffD2]]] sent_more [OF this order_refl, of "b + Suc k"]
  show ?case
    by (subst repair_loop.simps)
      (use sent_more [OF Suc.prems order_refl, of "b + Suc k"] step in
        \<open>auto simp: wp_simps wp_run_prompt repair_output_def record_usage_def attach_session_ids_def
          dest: parsed_score intro: sent_more split: sum.split parse_error.split\<close>)
qed

definition result_within :: "prompt list \<Rightarrow> nat \<Rightarrow> nat \<Rightarrow> (analysis_result \<Rightarrow> runner_world \<Rightarrow> bool)" where
  "result_within ps a b r v \<longleftrightarrow> sent_within ps a b v \<and> 0 \<le> ar_score r \<and> ar_score r \<le> 100"

lemma result_within_more: "result_within ps a b r w \<Longrightarrow> a \<le> a' \<Longrightarrow> b \<le> b' \<Longrightarrow> result_within ps a' b' r w"
  by (auto simp: result_within_def intro: sent_more)

lemma analysis_step:
  assumes "sent_within ps a b w" and "a + 1 \<le> a'" and "b \<le> b'"
    and "\<And>c v. sent_within ps (a + 1) b v \<Longrightarrow> wp (m c) (result_within ps a' b') (\<lambda>_. sent_within ps a' b') v"
  shows "wp (wbind (run_prompt env Analysis_Prompt) (\<lambda>c. wseq (record_usage ''analysis'' c) (m c)))
    (result_within ps a' b') (\<lambda>_. sent_within ps a' b') w"
  using sent_prompt [OF assms(1), of Analysis_Prompt] assms(2-)
  by (auto simp: wp_simps wp_run_prompt record_usage_def is_repair_def intro: sent_more split: sum.split)

lemma parsed_step:
  assumes "sent_within ps a b w" and "b + rt_format_retries cfg \<le> b'" and "a \<le> a'"
    and "\<And>r n v. result_within ps a (b + rt_format_retries cfg) r v \<Longrightarrow> Q (r, n) v"
  shows "wp (parse_with_repair_loop cfg env t) Q (\<lambda>_. sent_within ps a' b') w"
  unfolding parse_with_repair_loop_def
  by (rule wp_conseq [OF repair_within [OF assms(1)]]) (use assms(2-) in \<open>auto simp: result_within_def intro: sent_more\<close>)

lemma analyze_retried:
  "sent_within ps a b w \<Longrightarrow> wp (analyze_loop cfg env k True e) (result_within ps (a + k) (b + rt_format_retries cfg))
     (\<lambda>_. sent_within ps (a + k) (b + rt_format_retries cfg)) w"
proof (induction k arbitrary: a w e)
  case 0
  then show ?case by (subst analyze_loop.simps) (auto simp: wp_simps intro: sent_more)
next
  case (Suc k)
  show ?case
    by (subst analyze_loop.simps, rule analysis_step [OF Suc.prems])
      (use Suc.IH [of "a + 1"] in \<open>auto simp: wp_simps intro!: parsed_step elim!: result_within_more\<close>)
qed

lemma analyze_first:
  "sent_within ps a b w \<Longrightarrow> wp (analyze_loop cfg env k False e) (result_within ps (a + k + 1) (b + 2 * rt_format_retries cfg))
     (\<lambda>_. sent_within ps (a + k + 1) (b + 2 * rt_format_retries cfg)) w"
proof (induction k arbitrary: a w e)
  case 0
  then show ?case by (subst analyze_loop.simps) (auto simp: wp_simps intro: sent_more)
next
  case (Suc k)
  have again: "wp (analyze_loop cfg env (Suc k) True e) (result_within ps (a + Suc k + 1) (b + 2 * rt_format_retries cfg))
      (\<lambda>_. sent_within ps (a + Suc k + 1) (b + 2 * rt_format_retries cfg)) v"
    if "result_within ps (a + 1) (b + rt_format_retries cfg) r v" for r v
    using analyze_retried [of ps "a + 1" "b + rt_format_retries cfg" v cfg env "Suc k" e] that
    by (simp add: result_within_def mult_2 add.assoc add.commute add.left_commute)
  show ?case
    by (subst analyze_loop.simps, rule analysis_step [OF Suc.prems])
      (use Suc.IH [of "a + 1"] again in \<open>auto simp: wp_simps intro!: parsed_step elim!: result_within_more\<close>)
qed

text \<open>C31: an analysis ends with a result whose score is a percentage or with an exception, having sent at most two
  analysis prompts more than there are retries and at most twice as many repair prompts as there are format
  retries, whatever the model answers.\<close>

theorem analyze_bounded:
  "let (out, v) = analyze cfg env w
   in \<exists>qs. rw_prompts v = rw_prompts w @ qs
     \<and> length (filter (\<lambda>p. \<not> is_repair p) qs) \<le> rt_retries cfg + 2 \<and> length (filter is_repair qs) \<le> 2 * rt_format_retries cfg
     \<and> sound_answer out"
  using analyze_first [OF sent_zero, where w = w and cfg = cfg and env = env and k = "rt_retries cfg + 1" and e = "''None''"]
  by (auto simp: analyze_def wp_def result_within_def sent_within_def sound_answer_def split: prod.split sum.splits)

end
