(* ===== verification/Git_Client.thy ===== *)
theory Git_Client
  imports Task_Report Statements
begin

text \<open>
  The git client, \<open>core/git_client.py\<close> and \<open>core/git_identity.py\<close>: which commands are run, with which
  arguments, in which order, for a repository address, a branch and a commit. An argument is either written
  in the code or computed; git's answer to a command, and the contents of the file system, are parameters
  that may depend on the commands run before. A cancellation raises out of a command. The locks of the
  repositories, keyed by their names, are not modelled.
\<close>

section \<open>Commands\<close>

datatype git_arg = Lit string | Val string

datatype git_action =
    Git "git_arg list"
  | Remove_Tree string
  | Make_Dir string

fun arg_text :: "git_arg \<Rightarrow> string" where
  "arg_text (Lit s) = s"
| "arg_text (Val s) = s"

record git_answer =
  ga_code :: int
  ga_out :: string
  ga_err :: string

record git_env =
  ge_run :: "git_action list \<Rightarrow> git_arg list \<Rightarrow> git_answer py_result"
  ge_exists :: "git_action list \<Rightarrow> string \<Rightarrow> bool"
  ge_read :: "git_action list \<Rightarrow> string \<Rightarrow> string"

record git_settings =
  gs_cache_dir :: string
  gs_clone_depth :: nat
  gs_token :: string
  gs_ssh_command :: "string option"

type_synonym 'a gs = "(git_action list, py_exc, 'a) stmt"

definition run_completed :: "git_env \<Rightarrow> git_arg list \<Rightarrow> git_answer gs" where
  "run_completed env cmd =
     wbind (wget id) (\<lambda>done. wseq (wmod (\<lambda>w. w @ [Git cmd])) (wlift (ge_run env done cmd)))"

definition command_failed :: "git_arg list \<Rightarrow> git_answer \<Rightarrow> py_exc" where
  "command_failed cmd a =
     RuntimeError (''git command failed: '' @ join '' '' (''git'' # map arg_text cmd) @ [CHR 0x0A] @ ''stdout='' @ ga_out a @
       [CHR 0x0A] @ ''stderr='' @ ga_err a)"

definition run_output :: "git_env \<Rightarrow> git_arg list \<Rightarrow> string gs" where
  "run_output env cmd =
     wbind (run_completed env cmd) (\<lambda>a. if ga_code a \<noteq> 0 then wraise (command_failed cmd a) else wret (ga_out a))"

definition run_git :: "git_env \<Rightarrow> git_arg list \<Rightarrow> unit gs" where
  "run_git env cmd = wbind (run_completed env cmd) (\<lambda>a. if ga_code a \<noteq> 0 then wraise (command_failed cmd a) else wret ())"

definition run_output_optional :: "git_env \<Rightarrow> git_arg list \<Rightarrow> string option gs" where
  "run_output_optional env cmd =
     wbind (run_completed env cmd) (\<lambda>a.
       wret (if ga_code a \<noteq> 0 \<or> py_strip (ga_out a) = [] then None else Some (py_strip (ga_out a))))"

definition ref_exists :: "git_env \<Rightarrow> string \<Rightarrow> string \<Rightarrow> bool gs" where
  "ref_exists env repo ref =
     wbind (run_completed env [Lit ''-C'', Val repo, Lit ''rev-parse'', Lit ''--verify'', Val ref]) (\<lambda>a. wret (ga_code a = 0))"

definition path_exists :: "git_env \<Rightarrow> string \<Rightarrow> bool gs" where
  "path_exists env p = wget (\<lambda>done. ge_exists env done p)"

section \<open>Addresses\<close>

definition url_clean :: "string \<Rightarrow> string" where
  "url_clean u = filter (\<lambda>c. c \<notin> {CHR 0x09, CHR 0x0A, CHR 0x0D}) (lstrip_by (\<lambda>c. (of_char c :: int) \<le> 32) u)"

definition validate_repo_url :: "string \<Rightarrow> unit py_result" where
  "validate_repo_url u =
     (if u = [] then Inl (ValueError ''unsafe git repo_url'') else bind_r (safe_repo_url u) (\<lambda>_. Inr ()))"

definition validate_refish :: "string \<Rightarrow> unit py_result" where
  "validate_refish ref = validate_git_ref ref ''ref''"

definition validate_branch :: "string \<Rightarrow> unit py_result" where
  "validate_branch branch =
     bind_r (validate_refish branch) (\<lambda>_.
       (let b = removeprefix ''origin/'' branch
        in if startswith b ''/'' \<or> endswith b ''/'' \<or> endswith b ''.'' \<or> endswith b ''.lock''
           then Inl (ValueError ''unsafe git branch'') else Inr ()))"

text \<open>Addresses do not end with a line end here: the validators of a request strip it.\<close>

text \<open>The name of a repository: the last part of its address. Joining it to a directory follows \<open>pathlib\<close>: an
  empty part and a single dot vanish.\<close>

definition repo_name :: "string \<Rightarrow> string" where
  "repo_name u = removesuffix ''.git'' (last (split_on CHR ''/'' (rstrip_by (\<lambda>c. c = CHR ''/'') u)))"

definition path_below :: "string \<Rightarrow> string \<Rightarrow> string" where
  "path_below dir name = (if name = [] \<or> name = ''.'' then dir else dir @ ''/'' @ name)"

text \<open>\<open>urlparse\<close>: the port after the host, the path after the network location.\<close>

definition url_port :: "string \<Rightarrow> nat option py_result" where
  "url_port netloc =
     (let hostinfo = rev (takeWhile (\<lambda>c. c \<noteq> CHR ''@'') (rev netloc));
          after = (case cut_first CHR ''['' hostinfo of
              Some (_, b) \<Rightarrow> (case cut_first CHR '']'' b of Some (_, p) \<Rightarrow> p | None \<Rightarrow> [])
            | None \<Rightarrow> hostinfo);
          digits = (case cut_first CHR '':'' after of Some (_, p) \<Rightarrow> p | None \<Rightarrow> [])
      in if digits = [] then Inr None
         else if \<not> all_digits digits then Inl (ValueError (''Port could not be cast to integer value as '' @ repr_str digits))
         else if 65535 < nat_of_digits digits then Inl (ValueError ''Port out of range 0-65535'')
         else Inr (Some (nat_of_digits digits)))"

definition url_path :: "string \<Rightarrow> string" where
  "url_path rest = takeWhile (\<lambda>c. c \<notin> set ''?#'') (if startswith rest ''//'' then drop (2 + length (url_netloc rest)) rest else rest)"

text \<open>The path of an \<open>https\<close> address ends before the parameters of its last part.\<close>

definition path_without_params :: "string \<Rightarrow> string" where
  "path_without_params p =
     (let end = rev (takeWhile (\<lambda>c. c \<noteq> CHR ''/'') (rev p))
      in take (length p - length end) p @ takeWhile (\<lambda>c. c \<noteq> CHR '';'') end)"

text \<open>The scheme, empty when there is none, and what follows it.\<close>

definition parsed_url :: "string \<Rightarrow> (string \<times> string) py_result" where
  "parsed_url u =
     (let (scheme, rest) = (case url_scheme (url_clean u) of Some p \<Rightarrow> p | None \<Rightarrow> ([], url_clean u))
      in if (CHR ''['' \<in> set (url_netloc rest)) \<noteq> (CHR '']'' \<in> set (url_netloc rest)) then Inl (ValueError ''Invalid IPv6 URL'')
         else Inr (scheme, rest))"

definition netloc_without_userinfo :: "string \<Rightarrow> string py_result" where
  "netloc_without_userinfo netloc =
     bind_r (url_port netloc) (\<lambda>port.
       Inr (py_lower (url_hostname netloc) @ (case port of Some n \<Rightarrow> '':'' @ str_nat n | None \<Rightarrow> [])))"

definition scp_to_https :: "string \<Rightarrow> string option" where
  "scp_to_https u =
     (case cut_first CHR ''@'' u of
        Some (user, rest) \<Rightarrow>
          (case cut_first CHR '':'' rest of
             Some (host, path) \<Rightarrow>
               if user \<noteq> [] \<and> list_all (\<lambda>c. \<not> py_isspace c) user \<and> host \<noteq> [] \<and> list_all (\<lambda>c. \<not> py_isspace c) host
                 \<and> path \<noteq> [] \<and> list_all (\<lambda>c. c \<noteq> CHR 0x0A) path
               then Some (''https://'' @ host @ ''/'' @ lstrip_by (\<lambda>c. c = CHR ''/'') path) else None
           | None \<Rightarrow> None)
      | None \<Rightarrow> None)"

definition git_url_for_access_token :: "string \<Rightarrow> string py_result" where
  "git_url_for_access_token u =
     (if contains u ''://'' then
        bind_r (parsed_url u) (\<lambda>(scheme, rest).
          if (scheme = ''ssh'' \<or> scheme = ''https'') \<and> url_hostname (url_netloc rest) \<noteq> [] then
            bind_r (netloc_without_userinfo (url_netloc rest)) (\<lambda>host.
              Inr (''https://'' @ host @
                (if scheme = ''ssh'' then ''/'' @ lstrip_by (\<lambda>c. c = CHR ''/'') (url_path rest)
                 else path_without_params (url_path rest))))
          else Inr u)
      else (case scp_to_https u of Some v \<Rightarrow> Inr v | None \<Rightarrow> Inr u))"

definition has_git_access_token :: "git_settings \<Rightarrow> bool" where
  "has_git_access_token cfg \<longleftrightarrow> py_strip (gs_token cfg) \<noteq> []"

definition clone_url :: "git_settings \<Rightarrow> string \<Rightarrow> string py_result" where
  "clone_url cfg u =
     bind_r (validate_repo_url u) (\<lambda>_. if has_git_access_token cfg then git_url_for_access_token u else Inr u)"

section \<open>The environment of git\<close>

definition shell_safe :: "char \<Rightarrow> bool" where
  "shell_safe c \<longleftrightarrow> py_isalnum c \<or> c \<in> set ''_@%+=:,./-''"

text \<open>\<open>shlex.quote\<close>.\<close>

definition shell_quote :: "string \<Rightarrow> string" where
  "shell_quote s =
     (let q = [CHR 0x27]
      in if s = [] then q @ q
         else if list_all shell_safe s then s
         else q @ concat (map (\<lambda>c. if c = CHR 0x27 then q @ [CHR 0x22, CHR 0x27, CHR 0x22] @ q else [c]) s) @ q)"

text \<open>\<open>expand\<close> is \<open>expanduser\<close>, which needs the home directory.\<close>

definition git_ssh_command_for_key :: "(string \<Rightarrow> string) \<Rightarrow> string \<Rightarrow> string option" where
  "git_ssh_command_for_key expand key =
     (if py_strip key = [] then None
      else Some (''ssh -F /dev/null -i '' @ shell_quote (expand key) @
        '' -o IdentitiesOnly=yes -o PreferredAuthentications=publickey -o StrictHostKeyChecking=accept-new''))"

type_synonym environ = "(string \<times> string) list"

definition safe_git_env :: "environ \<Rightarrow> environ" where
  "safe_git_env env = dset ''GIT_ALLOW_PROTOCOL'' ''https:ssh'' (dset ''GIT_TERMINAL_PROMPT'' ''0'' env)"

definition base64_char :: "nat \<Rightarrow> char" where
  "base64_char n =
     (''ABCDEFGHIJKLMNOPQRSTUVWXYZabcdefghijklmnopqrstuvwxyz0123456789+/'') ! (n mod 64)"

fun base64 :: "nat list \<Rightarrow> string" where
  "base64 [] = []"
| "base64 [a] = [base64_char (a div 4), base64_char (a mod 4 * 16), CHR ''='', CHR ''='']"
| "base64 [a, b] = [base64_char (a div 4), base64_char (a mod 4 * 16 + b div 16), base64_char (b mod 16 * 4), CHR ''='']"
| "base64 (a # b # c # s) =
     [base64_char (a div 4), base64_char (a mod 4 * 16 + b div 16), base64_char (b mod 16 * 4 + c div 64), base64_char (c mod 64)]
     @ base64 s"

definition access_token_header :: "string \<Rightarrow> string" where
  "access_token_header token = ''Authorization: Basic '' @ base64 (map of_char (''oauth2:'' @ token))"

definition append_git_config :: "string \<Rightarrow> string \<Rightarrow> environ \<Rightarrow> environ" where
  "append_git_config key value env =
     (let t = (case map_of env ''GIT_CONFIG_COUNT'' of Some (c # s) \<Rightarrow> c # s | _ \<Rightarrow> ''0'');
          n = (case int_of_text t of Inr n \<Rightarrow> n | Inl _ \<Rightarrow> 0)
      in dset ''GIT_CONFIG_COUNT'' (str_int (n + 1)) (dset (''GIT_CONFIG_VALUE_'' @ str_int n) value
           (dset (''GIT_CONFIG_KEY_'' @ str_int n) key env)))"

definition git_env_with_identity :: "(string \<Rightarrow> string) \<Rightarrow> string \<Rightarrow> string \<Rightarrow> string \<Rightarrow> environ \<Rightarrow> environ" where
  "git_env_with_identity expand key access_token token_host base =
     (let env = safe_git_env base; token = py_strip access_token
      in if token \<noteq> [] then
           append_git_config (''http.https://'' @ token_host @ ''/.extraheader'') (access_token_header token)
             (dset ''GIT_TERMINAL_PROMPT'' ''0'' env)
         else (case git_ssh_command_for_key expand key of
                 None \<Rightarrow> env
               | Some c \<Rightarrow> dset ''GIT_SSH_COMMAND'' c env))"

text \<open>\<open>GitClient.__init__\<close>.\<close>

definition git_client :: "(string \<Rightarrow> string) \<Rightarrow> string \<Rightarrow> nat \<Rightarrow> string \<Rightarrow> string \<Rightarrow> git_settings" where
  "git_client expand cache_dir depth access_token key =
     \<lparr>gs_cache_dir = cache_dir, gs_clone_depth = depth, gs_token = py_strip access_token,
      gs_ssh_command = (if py_strip access_token \<noteq> [] then None else git_ssh_command_for_key expand key)\<rparr>"

definition token_host :: "string \<Rightarrow> string py_result" where
  "token_host gitlab_base_url =
     bind_r (parsed_url gitlab_base_url) (\<lambda>(_, rest).
       Inr (if url_hostname (url_netloc rest) = [] then ''github.com'' else py_lower (url_hostname (url_netloc rest))))"

section \<open>Preparing a repository\<close>

definition configure_repo_remote_url :: "git_settings \<Rightarrow> git_env \<Rightarrow> string \<Rightarrow> string \<Rightarrow> unit gs" where
  "configure_repo_remote_url cfg env repo u =
     wbind (wlift (clone_url cfg u)) (\<lambda>target.
     wbind (run_output_optional env [Lit ''-C'', Val repo, Lit ''remote'', Lit ''get-url'', Lit ''origin'']) (\<lambda>current.
       if current = Some target then wret ()
       else run_git env [Lit ''-C'', Val repo, Lit ''remote'', Lit ''set-url'', Lit ''origin'', Val target]))"

definition configure_repo_ssh_command :: "git_settings \<Rightarrow> git_env \<Rightarrow> string \<Rightarrow> unit gs" where
  "configure_repo_ssh_command cfg env repo =
     (case gs_ssh_command cfg of
        None \<Rightarrow> wret ()
      | Some c \<Rightarrow> run_git env [Lit ''-C'', Val repo, Lit ''config'', Lit ''core.sshCommand'', Val c])"

definition configure_identity :: "git_settings \<Rightarrow> git_env \<Rightarrow> string \<Rightarrow> string \<Rightarrow> unit gs" where
  "configure_identity cfg env repo u =
     wseq (if has_git_access_token cfg then configure_repo_remote_url cfg env repo u else wret ())
       (configure_repo_ssh_command cfg env repo)"

definition fetch_branch_ref :: "git_env \<Rightarrow> string \<Rightarrow> string \<Rightarrow> unit gs" where
  "fetch_branch_ref env repo branch =
     wbind (wlift (validate_branch branch)) (\<lambda>_.
       run_git env [Lit ''-C'', Val repo, Lit ''fetch'', Lit ''origin'', Lit ''--prune'', Lit ''--'',
         Val (''refs/heads/'' @ branch @ '':refs/remotes/origin/'' @ branch)])"

definition validate_target :: "string \<Rightarrow> string \<Rightarrow> string option \<Rightarrow> unit py_result" where
  "validate_target u branch commit =
     bind_r (validate_repo_url u) (\<lambda>_. bind_r (validate_branch branch) (\<lambda>_.
       if text_truthy commit then validate_refish (text_or commit []) else Inr ()))"

definition switch_to :: "git_env \<Rightarrow> string \<Rightarrow> string \<Rightarrow> string option \<Rightarrow> unit gs" where
  "switch_to env repo branch commit =
     run_git env [Lit ''-C'', Val repo, Lit ''switch'', Lit ''--detach'', Lit ''--force'', Lit ''--'',
       Val (text_or commit (''origin/'' @ branch))]"

definition clean_repo :: "git_env \<Rightarrow> string \<Rightarrow> unit gs" where
  "clean_repo env repo = run_git env [Lit ''-C'', Val repo, Lit ''clean'', Lit ''-fd'']"

definition clone_repo :: "git_settings \<Rightarrow> git_env \<Rightarrow> string \<Rightarrow> string \<Rightarrow> string \<Rightarrow> unit gs" where
  "clone_repo cfg env u branch repo =
     wbind (wlift (clone_url cfg u)) (\<lambda>address.
       run_git env [Lit ''clone'', Lit ''--branch'', Val branch, Lit ''--depth'', Val (str_nat (gs_clone_depth cfg)), Lit ''--'',
         Val address, Val repo])"

definition prepare_repo :: "git_settings \<Rightarrow> git_env \<Rightarrow> string \<Rightarrow> string \<Rightarrow> string option \<Rightarrow> string gs" where
  "prepare_repo cfg env u branch commit =
     wbind (wlift (validate_target u branch commit)) (\<lambda>_.
       (let repo = path_below (gs_cache_dir cfg) (repo_name u)
        in wbind (path_exists env repo) (\<lambda>known.
             wseq (if \<not> known then wseq (clone_repo cfg env u branch repo) (configure_identity cfg env repo u)
                   else wseq (configure_identity cfg env repo u) (fetch_branch_ref env repo branch))
               (wseq (switch_to env repo branch commit) (wseq (clean_repo env repo) (wret repo))))))"

definition prepare_fix_workspace ::
  "git_settings \<Rightarrow> git_env \<Rightarrow> string \<Rightarrow> string \<Rightarrow> string option \<Rightarrow> string \<Rightarrow> string \<Rightarrow> string gs" where
  "prepare_fix_workspace cfg env u branch commit dir fix_branch =
     wbind (wlift (bind_r (validate_repo_url u) (\<lambda>_. bind_r (validate_branch branch) (\<lambda>_. bind_r (validate_branch fix_branch) (\<lambda>_.
         if text_truthy commit then validate_refish (text_or commit []) else Inr ()))))) (\<lambda>_.
       (let repo = path_below dir (repo_name u)
        in wbind (path_exists env dir) (\<lambda>old.
           wseq (if old then wmod (\<lambda>w. w @ [Remove_Tree dir]) else wret ())
           (wseq (wmod (\<lambda>w. w @ [Make_Dir dir]))
           (wbind (wlift (clone_url cfg u)) (\<lambda>address.
           wseq (run_git env [Lit ''clone'', Lit ''--'', Val address, Val repo])
           (wseq (configure_identity cfg env repo u)
           (wseq (fetch_branch_ref env repo branch)
           (wseq (switch_to env repo branch commit)
           (wseq (run_git env [Lit ''-C'', Val repo, Lit ''checkout'', Lit ''-B'', Val fix_branch])
           (wseq (clean_repo env repo) (wret repo))))))))))))"

section \<open>The context of a review\<close>

definition candidate_base_refs :: "git_env \<Rightarrow> string \<Rightarrow> string list gs" where
  "candidate_base_refs env repo =
     wbind (path_exists env (repo @ ''/.git_master'')) (\<lambda>known.
       if \<not> known then wret [''origin/master'']
       else wbind (wget (\<lambda>done. py_strip (ge_read env done (repo @ ''/.git_master'')))) (\<lambda>branch.
         wret (if branch = [] then [''origin/master'']
               else (case validate_branch (removeprefix ''origin/'' branch) of
                       Inl _ \<Rightarrow> [''origin/master'']
                     | Inr _ \<Rightarrow> if startswith branch ''origin/'' then [branch] else [''origin/'' @ branch]))))"

definition has_local_origin :: "git_env \<Rightarrow> string \<Rightarrow> bool gs" where
  "has_local_origin env repo =
     wbind (path_exists env (repo @ ''/.git'')) (\<lambda>known.
       if \<not> known then wret False
       else wbind (run_output_optional env [Lit ''-C'', Val repo, Lit ''remote'', Lit ''get-url'', Lit ''origin'']) (\<lambda>found.
         case found of
           None \<Rightarrow> wret False
         | Some origin \<Rightarrow>
             wbind (wlift (parsed_url origin)) (\<lambda>(scheme, _).
               if scheme \<noteq> [] then wret (scheme = ''file'')
               else if scp_like_url origin then wret False
               else if startswith origin ''/'' \<or> startswith origin ''./'' \<or> startswith origin ''../'' then wret True
               else path_exists env origin)))"

definition refresh_base_ref :: "git_env \<Rightarrow> string \<Rightarrow> string \<Rightarrow> unit gs" where
  "refresh_base_ref env repo base_ref =
     (if \<not> startswith base_ref ''origin/'' then wret ()
      else (let ref = ''refs/heads/'' @ removeprefix ''origin/'' base_ref @ '':refs/remotes/'' @ base_ref
            in wbind (run_completed env [Lit ''-C'', Val repo, Lit ''fetch'', Lit ''origin'', Lit ''--prune'', Lit ''--'', Val ref]) (\<lambda>a.
                 if ga_code a = 0 \<or> contains (ga_err a) (''couldn'' @ [CHR 0x27] @ ''t find remote ref'') then wret ()
                 else wraise (RuntimeError (''git command failed: git -C '' @ repo @ '' fetch origin '' @ ref @ '' --prune'' @ [CHR 0x0A] @
                   ''stdout='' @ ga_out a @ [CHR 0x0A] @ ''stderr='' @ ga_err a)))))"

definition refresh_base_refs :: "git_env \<Rightarrow> string \<Rightarrow> unit gs" where
  "refresh_base_refs env repo =
     wbind (has_local_origin env repo) (\<lambda>is_local.
       if is_local then wret ()
       else wbind (candidate_base_refs env repo) (\<lambda>refs. wfor refs (refresh_base_ref env repo)))"

fun first_merge_base :: "git_env \<Rightarrow> string \<Rightarrow> string list \<Rightarrow> string option gs" where
  "first_merge_base env repo [] = wret None"
| "first_merge_base env repo (ref # refs) =
     wbind (ref_exists env repo ref) (\<lambda>known.
       if \<not> known then first_merge_base env repo refs
       else wbind (run_output_optional env [Lit ''-C'', Val repo, Lit ''merge-base'', Lit ''HEAD'', Val ref]) (\<lambda>base.
         case base of Some b \<Rightarrow> wret (Some b) | None \<Rightarrow> first_merge_base env repo refs))"

fun first_fallback :: "git_env \<Rightarrow> string \<Rightarrow> string list \<Rightarrow> string gs" where
  "first_fallback env repo [] = wret ''HEAD''"
| "first_fallback env repo (ref # refs) =
     wbind (ref_exists env repo ref) (\<lambda>known. if known then wret (ref @ ''..HEAD'') else first_fallback env repo refs)"

definition resolve_diff_range :: "git_env \<Rightarrow> string \<Rightarrow> string gs" where
  "resolve_diff_range env repo =
     wbind (candidate_base_refs env repo) (\<lambda>refs.
     wbind (first_merge_base env repo refs) (\<lambda>base.
       case base of
         Some b \<Rightarrow> wret (b @ ''..HEAD'')
       | None \<Rightarrow> first_fallback env repo [''HEAD~5'', ''HEAD~3'', ''HEAD~1'']))"

record diff_context =
  gc_range :: string
  gc_changed :: "string list"
  gc_non_test :: "string list"
  gc_stat :: string
  gc_log :: string

definition changed_names :: "string \<Rightarrow> string list" where
  "changed_names out = filter (\<lambda>l. l \<noteq> []) (map py_strip (splitlines out))"

definition collect_diff_context :: "git_env \<Rightarrow> string \<Rightarrow> diff_context gs" where
  "collect_diff_context env repo =
     wseq (refresh_base_refs env repo)
     (wbind (resolve_diff_range env repo) (\<lambda>range.
     wbind (run_output env [Lit ''-C'', Val repo, Lit ''diff'', Lit ''--name-only'', Lit ''--diff-filter=ACMR'', Val range]) (\<lambda>names.
     wbind (run_output env [Lit ''-C'', Val repo, Lit ''diff'', Lit ''--stat=160'', Val range]) (\<lambda>stat.
     wbind (run_output env [Lit ''-C'', Val repo, Lit ''log'', Lit ''--oneline'', Lit ''--no-merges'', Val range]) (\<lambda>history.
       wret \<lparr>gc_range = range, gc_changed = changed_names names,
             gc_non_test = filter (\<lambda>f. \<not> is_test_file f) (changed_names names),
             gc_stat = py_strip stat, gc_log = py_strip history\<rparr>)))))"

definition current_commit :: "git_env \<Rightarrow> string \<Rightarrow> string gs" where
  "current_commit env repo =
     wbind (run_output env [Lit ''-C'', Val repo, Lit ''rev-parse'', Lit ''HEAD'']) (\<lambda>out.
       if py_strip out = [] then wraise (RuntimeError (''failed to resolve HEAD commit for repo: '' @ repo)) else wret (py_strip out))"

section \<open>Pushing a fix\<close>

definition configure_access_token_remote :: "git_settings \<Rightarrow> git_env \<Rightarrow> string \<Rightarrow> unit gs" where
  "configure_access_token_remote cfg env repo =
     (if \<not> has_git_access_token cfg then wret ()
      else wbind (run_output_optional env [Lit ''-C'', Val repo, Lit ''remote'', Lit ''get-url'', Lit ''origin'']) (\<lambda>found.
        case found of
          None \<Rightarrow> wret ()
        | Some current \<Rightarrow>
            wbind (wlift (git_url_for_access_token current)) (\<lambda>rewritten.
              if rewritten \<noteq> [] \<and> rewritten \<noteq> current
              then run_git env [Lit ''-C'', Val repo, Lit ''remote'', Lit ''set-url'', Lit ''origin'', Val rewritten]
              else wret ())))"

definition commit_all_and_push :: "git_settings \<Rightarrow> git_env \<Rightarrow> string \<Rightarrow> string \<Rightarrow> string \<Rightarrow> bool gs" where
  "commit_all_and_push cfg env repo branch message =
     wbind (wlift (validate_branch branch)) (\<lambda>_.
     wseq (run_git env [Lit ''-C'', Val repo, Lit ''config'', Lit ''user.name'', Lit ''cr-agent-bot''])
     (wseq (run_git env [Lit ''-C'', Val repo, Lit ''config'', Lit ''user.email'', Lit ''cr-agent@local''])
     (wseq (configure_access_token_remote cfg env repo)
     (wseq (run_git env [Lit ''-C'', Val repo, Lit ''add'', Lit ''-A''])
     (wbind (run_output_optional env [Lit ''-C'', Val repo, Lit ''status'', Lit ''--porcelain'']) (\<lambda>status.
       if status = None then wret False
       else wseq (run_git env [Lit ''-C'', Val repo, Lit ''commit'', Lit ''-m'', Val message])
         (wseq (run_git env [Lit ''-C'', Val repo, Lit ''push'', Lit ''-u'', Lit ''origin'', Val branch]) (wret True))))))))"

section \<open>Arguments are no options\<close>

text \<open>What git may be given in place of a value: a text that cannot be read as an option.\<close>

definition plain :: "string \<Rightarrow> bool" where
  "plain s \<longleftrightarrow> s \<noteq> [] \<and> \<not> startswith s ''-''"

fun plain_arg :: "git_arg \<Rightarrow> bool" where
  "plain_arg (Lit _) \<longleftrightarrow> True"
| "plain_arg (Val s) \<longleftrightarrow> plain s"

fun plain_action :: "git_action \<Rightarrow> bool" where
  "plain_action (Git cmd) \<longleftrightarrow> list_all plain_arg cmd"
| "plain_action _ \<longleftrightarrow> True"

abbreviation plain_log :: "git_action list \<Rightarrow> bool" where
  "plain_log \<equiv> list_all plain_action"

lemma plain_Cons [simp]: "plain (c # s) \<longleftrightarrow> c \<noteq> CHR ''-''"
  by (auto simp: plain_def)

lemma plain_append: "plain a \<Longrightarrow> plain (a @ b)"
  by (cases a) (auto simp: plain_def)

lemma plain_path_below: "plain dir \<Longrightarrow> plain (path_below dir name)"
  by (simp add: path_below_def plain_append)

lemma plain_str_nat: "plain (str_nat n)"
proof (induction n rule: str_nat.induct)
  case (1 n)
  have "digit_char n \<noteq> CHR ''-''" if "n < 10"
    using that of_char_digit [of n] by (auto simp: digit_char_def)
  then show ?case
    using 1 by (subst str_nat.simps) (simp add: plain_append)
qed

lemma plain_refish: "validate_refish ref = Inr u \<Longrightarrow> plain ref"
  by (auto simp: validate_refish_def validate_git_ref_def plain_def split: if_splits)

lemma plain_branch: "validate_branch branch = Inr u \<Longrightarrow> plain branch"
  by (auto simp: validate_branch_def bind_r_Inr dest: plain_refish)

lemma plain_repo_url: "validate_repo_url u = Inr x \<Longrightarrow> plain u"
  by (auto simp: validate_repo_url_def safe_repo_url_def bind_r_Inr plain_def split: if_splits)

lemma scp_https_plain: "scp_to_https u = Some v \<Longrightarrow> plain v"
  by (auto simp: scp_to_https_def split: option.splits if_splits)

lemma token_url_plain: "git_url_for_access_token u = Inr v \<Longrightarrow> v = u \<or> plain v"
  by (auto simp: git_url_for_access_token_def bind_r_Inr split: if_splits option.splits dest: scp_https_plain)

lemma plain_clone_url: "clone_url cfg u = Inr v \<Longrightarrow> plain v"
  by (auto simp: clone_url_def bind_r_Inr split: if_splits dest: plain_repo_url token_url_plain)

lemma plain_ssh_command: "gs_ssh_command (git_client expand dir depth token key) = Some c \<Longrightarrow> plain c"
  by (auto simp: git_client_def git_ssh_command_for_key_def split: if_splits)

section \<open>Commands keep the log plain\<close>

lemma yields_completed [yields_intros]:
  assumes "list_all plain_arg cmd" and "\<And>done a. ge_run env done cmd = Inr a \<Longrightarrow> P a"
  shows "yields plain_log P (run_completed env cmd)"
  unfolding run_completed_def using assms
  by (auto simp: yields_def wp_simps split: sum.split)

lemma yields_command [yields_intros]:
  "list_all plain_arg cmd \<Longrightarrow> yields plain_log (\<lambda>_. True) (run_git env cmd)"
  "list_all plain_arg cmd \<Longrightarrow> yields plain_log (\<lambda>_. True) (run_output env cmd)"
  "list_all plain_arg cmd \<Longrightarrow> yields plain_log (\<lambda>_. True) (run_output_optional env cmd)"
  unfolding run_git_def run_output_def run_output_optional_def
  by (rule yields_wbind [where P = "\<lambda>_. True"]; simp add: yields_intros)+

lemma yields_ref_exists [yields_intros]:
  "plain repo \<Longrightarrow> plain ref \<Longrightarrow> yields plain_log (\<lambda>_. True) (ref_exists env repo ref)"
  unfolding ref_exists_def by (rule yields_wbind [where P = "\<lambda>_. True"]) (simp_all add: yields_intros)

lemma yields_path_exists [yields_intros]: "yields plain_log (\<lambda>_. True) (path_exists env p)"
  by (simp add: path_exists_def yields_wget)

lemma yields_any: "yields I P m \<Longrightarrow> yields I (\<lambda>_. True) m"
  by (erule yields_weaken) simp

lemma yields_step:
  "yields I (\<lambda>_. True) m \<Longrightarrow> (\<And>x. yields I Q (f x)) \<Longrightarrow> yields I Q (wbind m f)"
  by (rule yields_wbind)

lemma yields_remote_url [yields_intros]:
  "plain repo \<Longrightarrow> yields plain_log (\<lambda>_. True) (configure_repo_remote_url cfg env repo u)"
  unfolding configure_repo_remote_url_def
  by (intro yields_check yields_step yields_if yields_command yields_wret) (simp_all add: plain_clone_url)

lemma yields_identity [yields_intros]:
  assumes "plain repo" and "\<And>c. gs_ssh_command cfg = Some c \<Longrightarrow> plain c"
  shows "yields plain_log (\<lambda>_. True) (configure_identity cfg env repo u)"
  unfolding configure_identity_def configure_repo_ssh_command_def using assms
  by (intro yields_wseq yields_if yields_case_option yields_command yields_remote_url yields_wret) simp_all

lemma yields_fetch [yields_intros]:
  "plain repo \<Longrightarrow> yields plain_log (\<lambda>_. True) (fetch_branch_ref env repo branch)"
  unfolding fetch_branch_ref_def by (intro yields_check yields_command) simp

lemma yields_switch [yields_intros]:
  assumes "plain repo" and "text_truthy commit \<Longrightarrow> plain (text_or commit [])"
  shows "yields plain_log (\<lambda>_. True) (switch_to env repo branch commit)"
proof -
  have "plain (text_or commit (''origin/'' @ branch))"
  proof (cases commit)
    case (Some c)
    then show ?thesis using assms(2) by (cases c) (auto simp: text_truthy_def)
  qed simp
  then show ?thesis unfolding switch_to_def by (intro yields_command) (simp add: assms(1))
qed

lemma yields_clean [yields_intros]: "plain repo \<Longrightarrow> yields plain_log (\<lambda>_. True) (clean_repo env repo)"
  unfolding clean_repo_def by (intro yields_command) simp

lemma yields_prepare:
  assumes "plain (gs_cache_dir cfg)" and "\<And>c. gs_ssh_command cfg = Some c \<Longrightarrow> plain c"
  shows "yields plain_log (\<lambda>_. True) (prepare_repo cfg env u branch commit)"
  unfolding prepare_repo_def Let_def validate_target_def clone_repo_def using assms
  by (intro yields_check yields_step yields_wseq yields_if yields_identity yields_fetch yields_switch yields_clean
      yields_path_exists yields_command yields_wret)
    (auto simp: bind_r_Inr plain_path_below plain_str_nat plain_clone_url split: if_splits dest: plain_branch plain_refish)

lemma yields_workspace:
  assumes "plain dir" and "\<And>c. gs_ssh_command cfg = Some c \<Longrightarrow> plain c"
  shows "yields plain_log (\<lambda>_. True) (prepare_fix_workspace cfg env u branch commit dir fix_branch)"
  unfolding prepare_fix_workspace_def Let_def using assms
  by (intro yields_check yields_step yields_wseq yields_if yields_identity yields_fetch yields_switch yields_clean
      yields_path_exists yields_command yields_wret yields_wmod)
    (auto simp: bind_r_Inr plain_path_below plain_clone_url split: if_splits dest: plain_branch plain_refish)

text \<open>The references a review is compared with are remote ones; the range git is given begins with one of
  them, with \<open>HEAD\<close>, or with what git answered.\<close>

lemma candidate_refs_plain:
  "yields plain_log (list_all plain) (candidate_base_refs env repo)"
  unfolding candidate_base_refs_def
  by (intro yields_step yields_if yields_path_exists yields_wret yields_wget)
    (auto simp: startswith_iff split: sum.splits)

lemma yields_local_origin [yields_intros]:
  "plain repo \<Longrightarrow> yields plain_log (\<lambda>_. True) (has_local_origin env repo)"
  unfolding has_local_origin_def
  by (intro yields_step yields_if yields_case_option yields_check yields_path_exists yields_command yields_wret)
    (auto intro!: yields_if yields_wret yields_path_exists split: prod.split)

lemma yields_wfor [yields_intros]:
  "(\<And>x. x \<in> set xs \<Longrightarrow> yields I (\<lambda>_. True) (f x)) \<Longrightarrow> yields I (\<lambda>_. True) (wfor xs f)"
  by (induction xs) (simp_all add: yields_intros)

lemma yields_refresh [yields_intros]:
  "plain repo \<Longrightarrow> yields plain_log (\<lambda>_. True) (refresh_base_refs env repo)"
  unfolding refresh_base_refs_def refresh_base_ref_def Let_def
  by (intro yields_step yields_if yields_wret yields_local_origin yields_any [OF candidate_refs_plain] yields_wfor
      yields_completed yields_wraise) simp_all

definition merge_bases_plain :: "git_env \<Rightarrow> string \<Rightarrow> bool" where
  "merge_bases_plain env repo \<longleftrightarrow>
     (\<forall>done ref a. ge_run env done [Lit ''-C'', Val repo, Lit ''merge-base'', Lit ''HEAD'', Val ref] = Inr a \<longrightarrow>
        \<not> startswith (py_strip (ga_out a)) ''-'')"

lemma yields_merge_base_of:
  assumes "plain repo" and "plain ref" and "merge_bases_plain env repo"
  shows "yields plain_log (pred_option plain)
    (run_output_optional env [Lit ''-C'', Val repo, Lit ''merge-base'', Lit ''HEAD'', Val ref])"
  unfolding run_output_optional_def
  by (rule yields_wbind [where P = "\<lambda>a. \<not> startswith (py_strip (ga_out a)) ''-''"])
    (use assms in \<open>auto intro!: yields_completed yields_wret simp: plain_def merge_bases_plain_def\<close>)

lemma yields_merge_base:
  assumes "plain repo" and "list_all plain refs" and "merge_bases_plain env repo"
  shows "yields plain_log (pred_option plain) (first_merge_base env repo refs)"
  using assms(2)
proof (induction refs)
  case (Cons ref refs)
  then have "plain ref" and rest: "yields plain_log (pred_option plain) (first_merge_base env repo refs)" by simp_all
  then show ?case
    using assms(1, 3)
    by (auto intro!: yields_step [OF yields_ref_exists] yields_if rest yields_wbind [OF yields_merge_base_of]
        yields_case_option yields_wret)
qed (simp add: yields_intros)

lemma yields_fallback:
  assumes "plain repo" and "list_all plain refs"
  shows "yields plain_log plain (first_fallback env repo refs)"
  using assms(2)
proof (induction refs)
  case (Cons ref refs)
  then show ?case using assms(1) by (auto intro!: yields_step [OF yields_ref_exists] yields_if yields_wret plain_append)
qed (simp add: yields_intros)

lemma yields_range:
  "plain repo \<Longrightarrow> merge_bases_plain env repo \<Longrightarrow> yields plain_log plain (resolve_diff_range env repo)"
  unfolding resolve_diff_range_def
  by (intro yields_wbind [OF candidate_refs_plain] yields_wbind [OF yields_merge_base] yields_case_option
      yields_fallback yields_wret plain_append) (simp_all add: plain_append)

lemma yields_context:
  "plain repo \<Longrightarrow> merge_bases_plain env repo \<Longrightarrow> yields plain_log (\<lambda>_. True) (collect_diff_context env repo)"
  unfolding collect_diff_context_def
  by (intro yields_wseq yields_refresh yields_wbind [OF yields_range] yields_step [OF yields_command(2)] yields_wret)
    simp_all

lemma yields_token_remote:
  "plain repo \<Longrightarrow> yields plain_log (\<lambda>_. True) (configure_access_token_remote cfg env repo)"
  unfolding configure_access_token_remote_def
  by (intro yields_if yields_wret yields_step [OF yields_command(3)] yields_case_option yields_check yields_command)
    (auto dest: token_url_plain)

lemma yields_push:
  "plain repo \<Longrightarrow> plain message \<Longrightarrow> yields plain_log (\<lambda>_. True) (commit_all_and_push cfg env repo branch message)"
  unfolding commit_all_and_push_def
  by (intro yields_check yields_wseq yields_command yields_token_remote yields_step [OF yields_command(3)] yields_if yields_wret)
    (simp_all add: plain_branch)

text \<open>C29: No repository address, branch, fix branch or commit of a request, and no address git answers, can
  become an option of git: every computed argument of every command the client runs is non-empty and does not
  begin with a dash. What is assumed: the directories are configured to plain names, the message of a commit is
  plain (the service writes it), and git's merge base does not begin with a dash. The command for the key and
  the depth need no assumption.\<close>

theorem git_arguments_plain:
  assumes "cfg = git_client expand cache_dir depth token key"
    and "plain cache_dir" and "plain dir" and "plain repo" and "plain message" and "merge_bases_plain env repo"
    and "plain_log w"
  shows "plain_log (snd (prepare_repo cfg env u branch commit w))
    \<and> plain_log (snd (prepare_fix_workspace cfg env u branch commit dir fix_branch w))
    \<and> plain_log (snd (collect_diff_context env repo w))
    \<and> plain_log (snd (commit_all_and_push cfg env repo branch message w))"
proof -
  have ssh: "\<And>c. gs_ssh_command cfg = Some c \<Longrightarrow> plain c" using assms(1) by (auto dest: plain_ssh_command)
  have dir: "plain (gs_cache_dir cfg)" using assms(1, 2) by (simp add: git_client_def)
  show ?thesis
    using assms ssh dir
    by (auto intro: yields_end [OF yields_prepare] yields_end [OF yields_workspace] yields_end [OF yields_context]
        yields_end [OF yields_push])
qed

text \<open>A git that does all it is asked.\<close>

definition good_git :: git_env where
  "good_git = \<lparr>ge_run = \<lambda>_ _. Inr \<lparr>ga_code = 0, ga_out = ''abc'', ga_err = []\<rparr>, ge_exists = \<lambda>_ _. True,
     ge_read = \<lambda>_ _. ''origin/main''\<rparr>"

theorem git_arguments_plain_witness:
  "\<forall>u branch commit fix_branch. plain_log (snd (prepare_repo (git_client id ''/cache'' 50 '''' ''/key'') good_git u branch commit []))
    \<and> plain_log (snd (prepare_fix_workspace (git_client id ''/cache'' 50 '''' ''/key'') good_git u branch commit ''/work'' fix_branch []))
    \<and> plain_log (snd (collect_diff_context good_git ''/cache/x'' []))
    \<and> plain_log (snd (commit_all_and_push (git_client id ''/cache'' 50 '''' ''/key'') good_git ''/cache/x'' branch ''fix: x'' []))"
proof (intro allI)
  fix u branch commit fix_branch
  have strip: "py_strip ''abc'' = ''abc''" by code_simp
  show "plain_log (snd (prepare_repo (git_client id ''/cache'' 50 '''' ''/key'') good_git u branch commit []))
    \<and> plain_log (snd (prepare_fix_workspace (git_client id ''/cache'' 50 '''' ''/key'') good_git u branch commit ''/work'' fix_branch []))
    \<and> plain_log (snd (collect_diff_context good_git ''/cache/x'' []))
    \<and> plain_log (snd (commit_all_and_push (git_client id ''/cache'' 50 '''' ''/key'') good_git ''/cache/x'' branch ''fix: x'' []))"
    by (rule git_arguments_plain [OF refl]) (simp_all add: merge_bases_plain_def good_git_def strip)
qed

section \<open>What was done when a repository is ready\<close>

lemma wp_run_git: "Q () (w @ [Git cmd]) \<Longrightarrow> wp (run_git env cmd) Q (\<lambda>_ _. True) w"
  by (simp add: run_git_def run_completed_def wp_simps split: sum.split)

lemma wp_run_optional: "(\<And>found. Q found (w @ [Git cmd])) \<Longrightarrow> wp (run_output_optional env cmd) Q (\<lambda>_ _. True) w"
  by (simp add: run_output_optional_def run_completed_def wp_simps split: sum.split)

lemma wp_remote_url: "(\<And>l. Q () (w @ l)) \<Longrightarrow> wp (configure_repo_remote_url cfg env repo u) Q (\<lambda>_ _. True) w"
  unfolding configure_repo_remote_url_def
  by (auto simp: wp_simps simp del: append_assoc simp: append_assoc [symmetric] split: sum.split
      intro!: wp_run_optional wp_run_git) (simp_all add: append_assoc)

lemma wp_identity:
  assumes "\<And>l. Q () (w @ l)"
  shows "wp (configure_identity cfg env repo u) Q (\<lambda>_ _. True) w"
proof -
  have ssh: "wp (configure_repo_ssh_command cfg env repo) Q (\<lambda>_ _. True) (w @ l)" for l
    using assms [of l] assms [of "l @ x" for x]
    by (auto simp: configure_repo_ssh_command_def wp_simps intro!: wp_run_git split: option.split)
  show ?thesis
    unfolding configure_identity_def using ssh ssh [of "[]"] by (auto simp: wp_simps intro!: wp_remote_url)
qed

lemma wp_fetch:
  "Q () (w @ [Git [Lit ''-C'', Val repo, Lit ''fetch'', Lit ''origin'', Lit ''--prune'', Lit ''--'',
     Val (''refs/heads/'' @ branch @ '':refs/remotes/origin/'' @ branch)]])
   \<Longrightarrow> wp (fetch_branch_ref env repo branch) Q (\<lambda>_ _. True) w"
  unfolding fetch_branch_ref_def by (auto simp: wp_simps intro!: wp_run_git split: sum.split)

definition fetch_cmd :: "string \<Rightarrow> string \<Rightarrow> git_action" where
  "fetch_cmd repo branch =
     Git [Lit ''-C'', Val repo, Lit ''fetch'', Lit ''origin'', Lit ''--prune'', Lit ''--'',
       Val (''refs/heads/'' @ branch @ '':refs/remotes/origin/'' @ branch)]"

definition switch_cmd :: "string \<Rightarrow> string \<Rightarrow> git_action" where
  "switch_cmd repo ref = Git [Lit ''-C'', Val repo, Lit ''switch'', Lit ''--detach'', Lit ''--force'', Lit ''--'', Val ref]"

definition clean_cmd :: "string \<Rightarrow> git_action" where
  "clean_cmd repo = Git [Lit ''-C'', Val repo, Lit ''clean'', Lit ''-fd'']"

definition clone_cmd :: "git_settings \<Rightarrow> string \<Rightarrow> string \<Rightarrow> string \<Rightarrow> git_action" where
  "clone_cmd cfg branch address repo =
     Git [Lit ''clone'', Lit ''--branch'', Val branch, Lit ''--depth'', Val (str_nat (gs_clone_depth cfg)), Lit ''--'',
       Val address, Val repo]"

lemma wp_commands:
  "Q () (w @ [switch_cmd repo (text_or commit (''origin/'' @ branch))]) \<Longrightarrow> wp (switch_to env repo branch commit) Q (\<lambda>_ _. True) w"
  "Q () (w @ [clean_cmd repo]) \<Longrightarrow> wp (clean_repo env repo) Q (\<lambda>_ _. True) w"
  "Q () (w @ [fetch_cmd repo branch]) \<Longrightarrow> wp (fetch_branch_ref env repo branch) Q (\<lambda>_ _. True) w"
  "(\<And>address. clone_url cfg u = Inr address \<Longrightarrow> Q () (w @ [clone_cmd cfg branch address repo]))
    \<Longrightarrow> wp (clone_repo cfg env u branch repo) Q (\<lambda>_ _. True) w"
  by (auto simp: switch_to_def switch_cmd_def clean_repo_def clean_cmd_def fetch_cmd_def clone_repo_def clone_cmd_def wp_simps
      intro!: wp_run_git wp_fetch split: sum.split)

text \<open>C30: When \<open>prepare_repo\<close> returns, it returns the directory of the address's last part in the cache, and the
  last commands it ran put the work tree at the commit (the branch of the remote without one) and removed
  what is not tracked; before them it cloned the address when the directory was not there, and otherwise fetched
  the branch into the clone that was there.\<close>

theorem prepared_repo_commands:
  assumes "prepare_repo cfg env u branch commit w0 = (Inr repo, w)"
  shows "repo = path_below (gs_cache_dir cfg) (repo_name u)
    \<and> (\<exists>before. w = w0 @ before @ [switch_cmd repo (text_or commit (''origin/'' @ branch)), clean_cmd repo]
         \<and> (if ge_exists env w0 repo then before \<noteq> [] \<and> last before = fetch_cmd repo branch
            else before \<noteq> [] \<and> (\<exists>address. clone_url cfg u = Inr address \<and> hd before = clone_cmd cfg branch address repo)))"
    (is "?P repo w")
proof -
  have "wp (prepare_repo cfg env u branch commit) ?P (\<lambda>_ _. True) w0"
    unfolding prepare_repo_def path_exists_def Let_def
    by (auto simp: wp_simps intro!: wp_commands wp_identity split: sum.split)
  then show ?thesis using assms by (rule wp_run)
qed

text \<open>The commands of a fix workspace: a fresh clone of the whole history, the branch fetched, the commit checked
  out and the fix branch begun there.\<close>

lemma prepared_workspace_commands:
  assumes "prepare_fix_workspace cfg env u branch commit dir fix_branch w0 = (Inr repo, w)"
  shows "repo = path_below dir (repo_name u)
    \<and> (\<exists>address between. clone_url cfg u = Inr address \<and>
         w = w0 @ (if ge_exists env w0 dir then [Remove_Tree dir] else []) @ [Make_Dir dir, Git [Lit ''clone'', Lit ''--'', Val address, Val repo]]
           @ between @ [fetch_cmd repo branch, switch_cmd repo (text_or commit (''origin/'' @ branch)),
               Git [Lit ''-C'', Val repo, Lit ''checkout'', Lit ''-B'', Val fix_branch], clean_cmd repo])"
    (is "?P repo w")
proof -
  have "wp (prepare_fix_workspace cfg env u branch commit dir fix_branch) ?P (\<lambda>_ _. True) w0"
    unfolding prepare_fix_workspace_def path_exists_def Let_def
    by (auto simp: wp_simps intro!: wp_run_git wp_commands wp_identity split: sum.split)
  then show ?thesis using assms by (rule wp_run)
qed

lemma wp_token_remote: "(\<And>l. Q () (w @ l)) \<Longrightarrow> wp (configure_access_token_remote cfg env repo) Q (\<lambda>_ _. True) w"
proof -
  assume q: "\<And>l. Q () (w @ l)"
  show ?thesis
    unfolding configure_access_token_remote_def using q q [of "[]"]
    by (auto simp: wp_simps split: option.split sum.split intro!: wp_run_optional wp_run_git)
qed

text \<open>A fix is pushed exactly when \<open>commit_all_and_push\<close> says so: with nothing to commit its last command is the look at
  the status.\<close>

lemma push_commands:
  assumes "commit_all_and_push cfg env repo branch message w0 = (Inr pushed, w)"
  shows "\<exists>before. w = w0 @ before @ [Git [Lit ''-C'', Val repo, Lit ''add'', Lit ''-A''],
      Git [Lit ''-C'', Val repo, Lit ''status'', Lit ''--porcelain'']] @
      (if pushed then [Git [Lit ''-C'', Val repo, Lit ''commit'', Lit ''-m'', Val message],
         Git [Lit ''-C'', Val repo, Lit ''push'', Lit ''-u'', Lit ''origin'', Val branch]] else [])"
    (is "?P pushed w")
proof -
  have "wp (commit_all_and_push cfg env repo branch message) ?P (\<lambda>_ _. True) w0"
    unfolding commit_all_and_push_def
    by (auto simp: wp_simps intro!: wp_run_git wp_run_optional wp_token_remote split: sum.split)
  then show ?thesis using assms by (rule wp_run)
qed

theorem prepared_repo_commands_witness:
  "\<exists>before. snd (prepare_repo (git_client id ''/cache'' 50 '''' ''/key'') good_git ''https://h/a/x.git'' ''main'' None [])
     = [] @ before @ [switch_cmd ''/cache/x'' ''origin/main'', clean_cmd ''/cache/x'']
     \<and> before \<noteq> [] \<and> last before = fetch_cmd ''/cache/x'' ''main''"
proof -
  let ?m = "prepare_repo (git_client id ''/cache'' 50 '''' ''/key'') good_git ''https://h/a/x.git'' ''main'' None []"
  have "fst ?m = Inr ''/cache/x''" by code_simp
  then have "?m = (Inr ''/cache/x'', snd ?m)" by (metis prod.collapse)
  from conjunct2 [OF prepared_repo_commands [OF this]] show ?thesis by (simp add: good_git_def)
qed

section \<open>Two repositories, one clone\<close>

text \<open>The cache of clones goes by the last part of an address only: when a clone under that name is there and no
  access token is configured, the run of another repository with the same last part is the run of this one,
  command for command, so it is reviewed in the clone of the other.\<close>

theorem same_name_same_clone:
  assumes "repo_name u = repo_name v" and "is_ok (validate_repo_url u)" and "is_ok (validate_repo_url v)"
    and "\<not> has_git_access_token cfg" and "ge_exists env w (path_below (gs_cache_dir cfg) (repo_name u))"
  shows "prepare_repo cfg env u branch commit w = prepare_repo cfg env v branch commit w"
proof -
  have "validate_repo_url u = Inr ()" "validate_repo_url v = Inr ()" using assms(2, 3) by (auto dest: ok_projr)
  then have "validate_target u branch commit = validate_target v branch commit" by (simp add: validate_target_def)
  moreover have "configure_identity cfg env repo u = configure_identity cfg env repo v" for repo
    using assms(4) by (simp add: configure_identity_def)
  ultimately show ?thesis
    using assms(1, 5) unfolding prepare_repo_def Let_def
    by (simp add: wbind_def path_exists_def wget_def wlift_def split: prod.split sum.split)
qed

theorem same_name_same_clone_witness:
  "\<forall>branch commit. prepare_repo (git_client id ''/cache'' 50 '''' ''/key'') good_git ''https://h/team-a/api.git'' branch commit []
     = prepare_repo (git_client id ''/cache'' 50 '''' ''/key'') good_git ''https://h/team-b/api'' branch commit []"
proof (intro allI)
  fix branch commit
  show "prepare_repo (git_client id ''/cache'' 50 '''' ''/key'') good_git ''https://h/team-a/api.git'' branch commit []
     = prepare_repo (git_client id ''/cache'' 50 '''' ''/key'') good_git ''https://h/team-b/api'' branch commit []"
  proof (rule same_name_same_clone)
    show "repo_name ''https://h/team-a/api.git'' = repo_name ''https://h/team-b/api''" by code_simp
    show "is_ok (validate_repo_url ''https://h/team-a/api.git'')" by code_simp
    show "is_ok (validate_repo_url ''https://h/team-b/api'')" by code_simp
    show "\<not> has_git_access_token (git_client id ''/cache'' 50 '''' ''/key'')" by code_simp
  qed (simp add: good_git_def)
qed

text \<open>An accepted address may end in a part that names no directory of the cache.\<close>

lemma clone_leaves_cache:
  "validate_repo_url ''https://h/..'' = Inr ()" "path_below ''/cache'' (repo_name ''https://h/..'') = ''/cache/..''"
  "validate_repo_url ''https://h/.git'' = Inr ()" "path_below ''/cache'' (repo_name ''https://h/.git'') = ''/cache''"
  by code_simp+

end
