(* ===== verification/Review_Prompts.thy ===== *)
theory Review_Prompts
  imports Risk Review_Rules Judge Json_Decode Json_Print
begin

text \<open>
  The prompts of the reviewers and the judge: \<open>review_v2/prompts.py\<close>, the profiles of
  \<open>review_v2/reviewer_profiles.py\<close>, and the recovery of a stalled session in \<open>review_v2/llm_session.py\<close>. The
  files of the context, the texts of the package, the templating of Jinja2 and the client of a session are
  parameters.
\<close>

section \<open>Profiles\<close>

record profile =
  rf_role :: string
  rf_source_agent :: string
  rf_persona :: string
  rf_focus :: "string list"
  rf_rules :: "string list"
  rf_tools :: "string list"
  rf_guidance :: string

definition CODE_REVIEW_RULES :: "string list" where
  "CODE_REVIEW_RULES =
    [''Review the changed behavior first, then inspect directly related callers, callees, tests, and configuration when needed.'',
     ''Prefer concrete changed-line evidence over style comments; do not report broad refactor preferences as findings.'',
     ''Every finding must include the user-visible impact and a specific fix.'']"

definition STANDARD_TOOL_POLICY :: "string list" where
  "STANDARD_TOOL_POLICY =
    [''Use read-only filesystem tools and targeted searches to inspect changed files, directly related callers/callees, configuration, tests, and dependency declarations.'',
     ''Task/delegation tools and subagents are allowed when they materially improve precision, but keep them scoped to this reviewer profile and summarize only evidence-backed conclusions.'',
     ''Do not edit source files, commit changes, push branches, or perform destructive operations.'',
     ''Dependency download or build metadata inspection is allowed when needed to resolve APIs from dependent jars or generated sources; keep it bounded to project-standard commands and avoid unrelated package installation.'',
     ''Network access is allowed only for dependency resolution, internal repository metadata, or authoritative documentation needed to verify a finding.'',
     ''Avoid broad repository sweeps unless the diff or call graph justifies the scope expansion.'']"

definition LIGHT_TOOL_POLICY :: "string list" where
  "LIGHT_TOOL_POLICY =
    [''Prefer inline diff and targeted read-only searches around changed files.'',
     ''Use task/delegation tools only when needed to avoid a false positive on a concrete changed-line risk.'',
     ''Do not edit source files, commit changes, push branches, or perform destructive operations.'',
     ''Avoid dependency downloads, network access, and broad repository sweeps unless the diff cannot be understood without them.'']"

definition profile_correctness_light :: profile where
  "profile_correctness_light =
     \<lparr>rf_role = ''Five-Axis Code Reviewer (light CI pass)'',
      rf_source_agent = ''code-reviewer'', rf_persona = ''code-reviewer.md'',
      rf_focus = [''Correctness and edge cases on the changed lines'',
       ''Readability issues only when they hide a real bug'',
       ''Architecture boundary violations directly introduced by the diff'',
       ''Security and performance red flags visible from the changed code''],
      rf_rules = CODE_REVIEW_RULES @ [''Keep this pass narrow: one small production diff should not become a broad repository audit.''],
      rf_tools = LIGHT_TOOL_POLICY,
      rf_guidance = ''Use this reviewer for the five-axis code-reviewer pass in small CI diffs. Report only actionable correctness, architecture, security, or performance defects.''\<rparr>"

definition profile_correctness :: profile where
  "profile_correctness =
     \<lparr>rf_role = ''Five-Axis Code Reviewer'',
      rf_source_agent = ''code-reviewer'', rf_persona = ''code-reviewer.md'',
      rf_focus = [''Correctness, state transitions, null/empty/boundary inputs, retries, idempotency, and concurrency'',
       ''Readability problems that can cause maintenance bugs'',
       ''Architecture fit, ownership boundaries, abstraction level, and dependency direction'',
       ''Security and performance issues that are apparent before specialist passes''],
      rf_rules = CODE_REVIEW_RULES,
      rf_tools = STANDARD_TOOL_POLICY,
      rf_guidance = ''This is the required staff-engineer CI review pass adapted from dev-skills code-reviewer. Findings should be Important-or-higher quality issues, not optional style review.''\<rparr>"

definition profile_security :: profile where
  "profile_security =
     \<lparr>rf_role = ''Security Auditor'',
      rf_source_agent = ''security-auditor'', rf_persona = ''security-auditor.md'',
      rf_focus = [''Trust boundaries and authorization'',
       ''Input validation, injection, SSRF, path traversal, command execution, and output encoding'',
       ''Secrets, tokens, sensitive data exposure, logging, and callback/webhook verification'',
       ''AI/LLM risks: prompt injection, model output as untrusted data, excessive agency, and leaked context'',
       ''OWASP Top 10 and OWASP LLM Top 10''],
      rf_rules = [''Focus on practically exploitable vulnerabilities and release-blocking security regressions.'',
       ''For high or fatal findings, include a concrete exploit or failure scenario.'',
       ''Never recommend disabling a security control as the fix.''],
      rf_tools = STANDARD_TOOL_POLICY @ [''For security-sensitive paths, inspect auth boundaries, validators, serializers, logging, and callback/webhook verification code even when those files are unchanged.''],
      rf_guidance = ''Report only vulnerabilities or concrete defense gaps introduced or exposed by this change. Do not duplicate generic correctness findings unless the security impact is clear.''\<rparr>"

definition profile_api_contract :: profile where
  "profile_api_contract =
     \<lparr>rf_role = ''API And Interface Contract Reviewer'',
      rf_source_agent = ''system-design-reviewer'', rf_persona = ''system-design-reviewer.md'',
      rf_focus = [''Request/response schema compatibility and stable field semantics'',
       ''Database/API migration and rollback safety'',
       ''Cross-module ownership: provider-owned behavior should be fixed in the provider'',
       ''Public report/callback/CI contract compatibility''],
      rf_rules = [''Verify the changed contract against real callers, routes, DTOs, templates, and callback payloads when relevant.'',
       ''Flag incompatible behavior even when the code compiles.'',
       ''Prefer minimal compatible changes over parallel interfaces.''],
      rf_tools = STANDARD_TOOL_POLICY @ [''Inspect dependent interfaces, generated clients, schema files, templates, and real consumers when needed to verify compatibility.''],
      rf_guidance = ''Use this pass for API, schema, callback, and report-contract risk. Findings must explain the affected consumer or compatibility break.''\<rparr>"

definition profile_config_release :: profile where
  "profile_config_release =
     \<lparr>rf_role = ''Config, Release, And CI Verification Reviewer'',
      rf_source_agent = ''test-engineer'', rf_persona = ''test-engineer.md'',
      rf_focus = [''Configuration defaults, environment overrides, deploy files, supervisor or scheduler behavior, and rollback safety'',
       ''Missing verification for changed behavior, especially CI/report/callback paths'',
       ''Operational failure modes: retries, stale leases, timeouts, partial failure visibility, and alertability'',
       ''Release readiness and whether the change can be proven in production''],
      rf_rules = [''Treat missing verification as a finding only when it can hide a real release regression.'',
       ''Check that defaults are safe and rollout failures are visible.'',
       ''Do not ask for broad test rewrites; recommend the smallest test or operational proof that catches the risk.''],
      rf_tools = STANDARD_TOOL_POLICY @ [''Running read-only test discovery, build metadata inspection, or existing verification commands is allowed when it clarifies release risk; do not modify test files.''],
      rf_guidance = ''This pass adapts the dev-skills test-engineer and release-readiness perspective for CI. Report deploy/config/test gaps that could let a broken review ship unnoticed.''\<rparr>"

definition profile_performance :: profile where
  "profile_performance =
     \<lparr>rf_role = ''Performance Reviewer'',
      rf_source_agent = ''web-performance-auditor'', rf_persona = ''web-performance-auditor.md'',
      rf_focus = [''Unbounded loops, pagination misses, N+1 queries, synchronous remote calls, and expensive request-thread work'',
       ''Token/cost/runtime blowups in LLM or CI paths'',
       ''Cache, batching, timeout, concurrency, and backpressure behavior'',
       ''For web/UI code, Core Web Vitals risks: LCP, INP, CLS, bundle size, and blocking work''],
      rf_rules = [''Static source findings are potential impact unless backed by measured data.'',
       ''Do not report micro-optimizations without a credible production impact path.'',
       ''Every finding must include a bounded alternative: limit, batch, cache, async boundary, or timeout.''],
      rf_tools = STANDARD_TOOL_POLICY @ [''Inspect query plans, pagination paths, loops, schedulers, metrics hooks, and dependency APIs when needed to validate the performance impact path.''],
      rf_guidance = ''Report performance issues that can materially affect CI/runtime latency, downstream load, or user-facing responsiveness.''\<rparr>"

definition REVIEWER_PROFILES :: "(string \<times> profile) list" where
  "REVIEWER_PROFILES =
    [(''correctness_light'', profile_correctness_light),
     (''correctness'', profile_correctness),
     (''security'', profile_security),
     (''api_contract'', profile_api_contract),
     (''config_release'', profile_config_release),
     (''performance'', profile_performance)]"

definition reviewer_profile :: "string \<Rightarrow> profile" where
  "reviewer_profile name = (case map_of REVIEWER_PROFILES name of Some p \<Rightarrow> p | None \<Rightarrow> profile_correctness)"

definition texts_json :: "string list \<Rightarrow> json" where
  "texts_json ts = JArr (map JStr ts)"

definition profile_dict :: "profile \<Rightarrow> json" where
  "profile_dict p =
     JObj [(''role'', JStr (rf_role p)), (''source_agent'', JStr (rf_source_agent p)), (''persona_file'', JStr (rf_persona p)),
       (''focus'', texts_json (rf_focus p)), (''rules'', texts_json (rf_rules p)), (''tool_policy'', texts_json (rf_tools p)),
       (''finding_guidance'', JStr (rf_guidance p))]"

section \<open>Decoding\<close>

text \<open>\<open>bytes.decode("utf-8", errors="replace")\<close>: what may follow a first byte, and the longest start of a character
  that cannot be completed replaced by U+FFFD.\<close>

definition followers :: "char \<Rightarrow> (int \<times> int) list option" where
  "followers c =
     (let n = (of_char c :: int)
      in if 0xC2 \<le> n \<and> n \<le> 0xDF then Some [(0x80, 0xBF)]
         else if n = 0xE0 then Some [(0xA0, 0xBF), (0x80, 0xBF)]
         else if n = 0xED then Some [(0x80, 0x9F), (0x80, 0xBF)]
         else if 0xE1 \<le> n \<and> n \<le> 0xEF then Some [(0x80, 0xBF), (0x80, 0xBF)]
         else if n = 0xF0 then Some [(0x90, 0xBF), (0x80, 0xBF), (0x80, 0xBF)]
         else if n = 0xF4 then Some [(0x80, 0x8F), (0x80, 0xBF), (0x80, 0xBF)]
         else if 0xF1 \<le> n \<and> n \<le> 0xF3 then Some [(0x80, 0xBF), (0x80, 0xBF), (0x80, 0xBF)]
         else None)"

fun following :: "(int \<times> int) list \<Rightarrow> string \<Rightarrow> nat" where
  "following ((lo, hi) # rs) (c # s) = (if lo \<le> of_char c \<and> of_char c \<le> hi then Suc (following rs s) else 0)"
| "following _ _ = 0"

definition REPLACEMENT :: string where
  "REPLACEMENT = [CHR 0xEF, CHR 0xBF, CHR 0xBD]"

function utf8_replace :: "string \<Rightarrow> string" where
  "utf8_replace [] = []"
| "utf8_replace (c # s) =
     (if (of_char c :: int) < 128 then c # utf8_replace s
      else case followers c of
        None \<Rightarrow> REPLACEMENT @ utf8_replace s
      | Some rs \<Rightarrow>
          (let k = following rs s
           in if k = length rs then c # take k s @ utf8_replace (drop k s) else REPLACEMENT @ utf8_replace (drop k s)))"
  by pat_completeness auto
termination by (relation "measure length") auto

text \<open>A text in UTF-8: every first byte has its followers.\<close>

function utf8_ok :: "string \<Rightarrow> bool" where
  "utf8_ok [] \<longleftrightarrow> True"
| "utf8_ok (c # s) \<longleftrightarrow>
     (if (of_char c :: int) < 128 then utf8_ok s
      else case followers c of None \<Rightarrow> False | Some rs \<Rightarrow> following rs s = length rs \<and> utf8_ok (drop (length rs) s))"
  by pat_completeness auto
termination by (relation "measure length") auto

text \<open>The line ends of a file opened as text.\<close>

function universal_newlines :: "string \<Rightarrow> string" where
  "universal_newlines [] = []"
| "universal_newlines (c # s) =
     (if c = CHR 0x0D then CHR 0x0A # universal_newlines (if take 1 s = [CHR 0x0A] then tl s else s)
      else c # universal_newlines s)"
  by pat_completeness auto
termination by (relation "measure length") auto

section \<open>Files of the context\<close>

record prompt_env =
  pm_files :: "string \<Rightarrow> string option"
  pm_package :: "string \<Rightarrow> string py_result"
  pm_render :: "string \<Rightarrow> json_dict \<Rightarrow> string py_result"
  pm_patterns :: "string option"
  pm_max_bytes :: int

definition read_text :: "prompt_env \<Rightarrow> string \<Rightarrow> string" where
  "read_text env path = (case pm_files env path of None \<Rightarrow> [] | Some raw \<Rightarrow> universal_newlines (utf8_replace raw))"

definition TRUNCATED_NOTE :: string where
  "TRUNCATED_NOTE = ''\<newline>\<newline>[CR_V2_INLINE_DIFF_TRUNCATED]''"

definition limited_text :: "string \<Rightarrow> int \<Rightarrow> string \<times> bool" where
  "limited_text raw max_bytes =
     (let truncated = max_bytes < int (length raw);
          t = utf8_replace (if truncated then take (nat max_bytes) raw else raw)
      in (if truncated then t @ TRUNCATED_NOTE else t, truncated))"

definition read_text_limited :: "prompt_env \<Rightarrow> string \<Rightarrow> int \<Rightarrow> string \<times> bool" where
  "read_text_limited env path max_bytes =
     (case pm_files env path of None \<Rightarrow> ([], False) | Some raw \<Rightarrow> limited_text raw max_bytes)"

text \<open>\<open>json.dumps(v, ensure_ascii=False, indent=2)\<close>.\<close>

definition spaces :: "nat \<Rightarrow> string" where
  "spaces k = ''\<newline>'' @ replicate (2 * k) CHR '' ''"

fun json_pretty :: "nat \<Rightarrow> json \<Rightarrow> string" where
  "json_pretty k (JArr []) = ''[]''"
| "json_pretty k (JArr (x # xs)) =
     ''['' @ spaces (Suc k) @ join ('','' @ spaces (Suc k)) (map (json_pretty (Suc k)) (x # xs)) @ spaces k @ '']''"
| "json_pretty k (JObj []) = [CHR 0x7B, CHR 0x7D]"
| "json_pretty k (JObj (x # xs)) =
     [CHR 0x7B] @ spaces (Suc k)
       @ join ('','' @ spaces (Suc k)) (map (\<lambda>(key, v). dump_string key @ '': '' @ json_pretty (Suc k) v) (x # xs))
       @ spaces k @ [CHR 0x7D]"
| "json_pretty k v = json_dumps v"

definition pretty_sorted :: "json \<Rightarrow> string" where
  "pretty_sorted v = json_pretty 0 (sort_items v)"

definition read_json_pretty :: "prompt_env \<Rightarrow> string \<Rightarrow> string" where
  "read_json_pretty env path =
     (let t = read_text env path
      in if t = [] then ''null'' else (case json_parse t of Some v \<Rightarrow> pretty_sorted v | None \<Rightarrow> t))"

definition read_json :: "prompt_env \<Rightarrow> string \<Rightarrow> json \<Rightarrow> json" where
  "read_json env path fallback =
     (let t = read_text env path
      in if t = [] then fallback else (case json_parse t of Some v \<Rightarrow> v | None \<Rightarrow> fallback))"

section \<open>References\<close>

definition base_references :: "string \<Rightarrow> string list" where
  "base_references persona =
     [''review.md'', ''personas/'' @ persona, ''static-analysis-checklist.md'', ''false_positive_patterns.md'',
      ''review-practices.md'']"

definition add_reference :: "string list \<Rightarrow> json \<Rightarrow> string list py_result" where
  "add_reference names v =
     (case v of
        JStr r \<Rightarrow> (let name = removeprefix ''references/'' r in Inr (if name \<in> set names then names else names @ [name]))
      | _ \<Rightarrow> Inl (AttributeError ''object has no attribute removeprefix''))"

definition add_rule :: "string list \<Rightarrow> json \<Rightarrow> string list py_result" where
  "add_rule names item =
     bind_r (need_dict item) (\<lambda>d. bind_r (iter_json (py_or (dget d ''references'') (JArr []))) (fold_r add_reference names))"

definition reference_names :: "string \<Rightarrow> json list \<Rightarrow> string list py_result" where
  "reference_names persona rules = fold_r add_rule (base_references persona) rules"

definition read_reference_text :: "prompt_env \<Rightarrow> string \<Rightarrow> string py_result" where
  "read_reference_text env name =
     (if name = ''false_positive_patterns.md'' then
        (case Option.bind (pm_patterns env) (pm_files env) of
           Some raw \<Rightarrow> if utf8_ok raw then Inr (universal_newlines raw) else Inl (ValueError ''codec cannot decode byte'')
         | None \<Rightarrow> pm_package env name)
      else pm_package env name)"

definition prompt_reference_texts :: "prompt_env \<Rightarrow> string \<Rightarrow> json list \<Rightarrow> json list py_result" where
  "prompt_reference_texts env persona rules =
     bind_r (reference_names persona rules)
       (fold_r (\<lambda>out name. bind_r (read_reference_text env name) (\<lambda>t.
          Inr (out @ [JObj [(''name'', JStr name), (''text'', JStr t)]]))) [])"

section \<open>Prompts\<close>

definition inline_diff_max_bytes :: "prompt_env \<Rightarrow> int" where
  "inline_diff_max_bytes env = max 20000 (min (pm_max_bytes env) 500000)"

definition parent_dir :: "string \<Rightarrow> string" where
  "parent_dir path = rev (tl (dropWhile (\<lambda>c. c \<noteq> CHR ''/'') (rev path)))"

record prompt_files =
  pf_prompt_path :: string
  pf_inputs_path :: string
  pf_inputs :: string
  pf_prompt :: string

definition pretty_input :: "json \<Rightarrow> json" where
  "pretty_input v = JStr (json_pretty 0 v)"

definition context_inputs :: "prompt_env \<Rightarrow> string \<Rightarrow> risk_result \<Rightarrow> json_dict" where
  "context_inputs env dir risk =
     (let specs = read_json env (dir @ ''/feature_spec_references.json'') (JArr [])
      in [(''feature_spec_references'', specs), (''feature_spec_references_json'', pretty_input specs),
          (''risk_tier'', JStr (tier_text (rk_tier risk))), (''risk_reasons'', texts_json (rk_reasons risk)),
          (''risk_reasons_json'', pretty_input (texts_json (rk_reasons risk))), (''context_dir'', JStr dir),
          (''diff_path'', JStr (dir @ ''/diff.patch'')),
          (''changed_files_json'', JStr (read_json_pretty env (dir @ ''/changed_files.json''))),
          (''changed_lines_json'', JStr (read_json_pretty env (dir @ ''/changed_lines.json''))),
          (''ci_request_json'', JStr (read_json_pretty env (dir @ ''/ci_request.json'')))])"

definition write_prompt :: "prompt_env \<Rightarrow> string \<Rightarrow> string \<Rightarrow> json_dict \<Rightarrow> prompt_files py_result" where
  "write_prompt env dir template inputs =
     bind_r (pm_render env template inputs) (\<lambda>t.
       Inr \<lparr>pf_prompt_path = dir @ ''/prompt.md'', pf_inputs_path = dir @ ''/prompt_inputs.json'',
            pf_inputs = pretty_sorted (JObj inputs), pf_prompt = t\<rparr>)"

definition reviewer_inputs ::
  "prompt_env \<Rightarrow> string \<Rightarrow> string \<Rightarrow> risk_result \<Rightarrow> plan_item \<Rightarrow> json_dict py_result" where
  "reviewer_inputs env task_id dir risk item =
     (let (diff_text, truncated) = read_text_limited env (dir @ ''/diff.patch'') (inline_diff_max_bytes env);
          profile = reviewer_profile (pi_reviewer item);
          rules = read_json env (dir @ ''/matched_review_rules.json'') (JArr [])
      in bind_r (iter_json rules) (\<lambda>rs. bind_r (prompt_reference_texts env (rf_persona profile) rs) (\<lambda>refs.
         Inr ([(''task_id'', JStr task_id), (''reviewer'', JStr (pi_reviewer item)), (''required'', JBool (pi_required item)),
               (''reviewer_reason'', JStr (pi_reason item)), (''reviewer_profile'', profile_dict profile),
               (''reviewer_profile_json'', pretty_input (profile_dict profile)),
               (''prompt_asset_root'', JStr ''cr_agent.review_v2.templates''), (''prompt_references'', JArr refs),
               (''prompt_references_json'', pretty_input (JArr refs)), (''matched_review_rules'', rules),
               (''matched_review_rules_json'', pretty_input rules), (''diff_text'', JStr diff_text),
               (''diff_truncated'', JBool truncated)] @ context_inputs env dir risk))))"

definition render_reviewer_prompt ::
  "prompt_env \<Rightarrow> string \<Rightarrow> string \<Rightarrow> risk_result \<Rightarrow> plan_item \<Rightarrow> prompt_files py_result" where
  "render_reviewer_prompt env task_id dir risk item =
     bind_r (reviewer_inputs env task_id dir risk item)
       (write_prompt env (parent_dir dir @ ''/reviewers/'' @ pi_reviewer item) ''reviewer.md.j2'')"

definition render_judge_prompt ::
  "prompt_env \<Rightarrow> string \<Rightarrow> string \<Rightarrow> risk_result \<Rightarrow> json_dict list \<Rightarrow> prompt_files py_result" where
  "render_judge_prompt env task_id dir risk outputs =
     (let outs = JArr (map JObj outputs)
      in write_prompt env (parent_dir dir @ ''/judge'') ''judge.md.j2''
           ([(''task_id'', JStr task_id), (''reviewer_outputs'', outs), (''reviewer_outputs_json'', pretty_input outs)]
             @ context_inputs env dir risk))"

section \<open>A stalled session\<close>

definition CONTINUE_PROMPTS :: "(string \<times> string) list" where
  "CONTINUE_PROMPTS =
    [(''review'',
      ''Resume the interrupted review work in this live session. Do NOT restart broad exploration. Continue from the current review context and return the required structured review output.''),
     (''judge'',
      ''Resume the interrupted judge work in this live session. Do NOT restart broad exploration. Continue normalizing the existing reviewer findings for precision, recall, dedupe, and release gating.''),
     (''feedback'',
      ''Resume the interrupted feedback review in this live session. Do NOT restart broad exploration. Continue from the original finding and latest feedback message.'')]"

definition DEFAULT_CONTINUE_PROMPT :: string where
  "DEFAULT_CONTINUE_PROMPT =
    ''Resume the interrupted work in this live session. Do NOT restart broad exploration. Continue from the current session state and existing context.''"

definition continue_prompt_for_phase :: "string \<Rightarrow> string" where
  "continue_prompt_for_phase phase = (case map_of CONTINUE_PROMPTS phase of Some t \<Rightarrow> t | None \<Rightarrow> DEFAULT_CONTINUE_PROMPT)"

definition STALLED_RECOVERABLE_TYPES :: "json list" where
  "STALLED_RECOVERABLE_TYPES = [JStr ''stalled_after_recovery'', JStr ''stalled_no_progress'']"

datatype session_call = Poll_Completion string int "int option" | Send_Message string string "string option" | Notify string

text \<open>The client, and \<open>on_update\<close> when there is one, answer a call after the calls made before it, or raise. The calls
  made are returned with the event.\<close>

definition poll_with_continue_recovery ::
  "(session_call list \<Rightarrow> json_dict py_result) \<Rightarrow> bool \<Rightarrow> string \<Rightarrow> int \<Rightarrow> string \<Rightarrow> string option \<Rightarrow> int option
     \<Rightarrow> (json_dict \<times> session_call list) py_result" where
  "poll_with_continue_recovery client updates sid timeout phase model stalled =
     (let c1 = [Poll_Completion sid timeout stalled];
          c2 = c1 @ [Notify (''recovery: session stalled during '' @ phase @ ''; sending guarded continue prompt'')];
          c3 = (if updates then c2 else c1) @ [Send_Message sid (continue_prompt_for_phase phase) model];
          c4 = c3 @ [Poll_Completion sid (max 120 (min timeout 600)) stalled]
      in bind_r (client c1) (\<lambda>event.
         if \<not> hashable (dget event ''type'') then Inl (TypeError ''unhashable type'')
         else if dget event ''type'' \<notin> set STALLED_RECOVERABLE_TYPES then Inr (event, c1)
         else bind_r (if updates then client c2 else Inr []) (\<lambda>_.
              bind_r (client c3) (\<lambda>_. bind_r (client c4) (\<lambda>answer. Inr (answer, c4))))))"

section \<open>Every prompt has its profile and its references\<close>

text \<open>The files of \<open>templates/references\<close>.\<close>

definition REFERENCE_FILES :: "string list" where
  "REFERENCE_FILES =
    [''false_positive_patterns.md'',
     ''personas/code-reviewer.md'',
     ''personas/security-auditor.md'',
     ''personas/system-design-reviewer.md'',
     ''personas/test-engineer.md'',
     ''personas/web-performance-auditor.md'',
     ''review-practices.md'',
     ''review.md'',
     ''rules/build_gradle.md'',
     ''rules/c_cpp.md'',
     ''rules/default.md'',
     ''rules/java.md'',
     ''rules/json.md'',
     ''rules/kotlin.md'',
     ''rules/mapper_dao_xml.md'',
     ''rules/package_json.md'',
     ''rules/pom_xml.md'',
     ''rules/properties.md'',
     ''rules/rust.md'',
     ''rules/ts_js_tsx_jsx.md'',
     ''rules/yaml.md'',
     ''static-analysis-checklist.md'']"

definition rule_dict :: "rule_match \<Rightarrow> json" where
  "rule_dict m =
     JObj [(''path'', JStr (rm_path m)), (''rule_names'', texts_json (rm_rule_names m)), (''references'', texts_json (rm_references m))]"

lemma specialists_known: "set (specialists_for_paths paths) \<subseteq> set FULL_CI_REVIEWERS"
  by (auto simp: specialists_for_paths_def Let_def FULL_CI_REVIEWERS_def)

lemma risk_specialists: "set (rk_specialists (classify_risk files n truncated)) \<subseteq> set FULL_CI_REVIEWERS"
  using specialists_known by (simp add: classify_risk_def Let_def)

lemma planned_names:
  "item \<in> set (plan_reviewers (classify_risk files n truncated)) \<Longrightarrow>
     pi_reviewer item \<in> {''correctness_light'', ''correctness'', ''security'', ''api_contract'', ''config_release'', ''performance''}"
  using risk_specialists [of files n truncated]
  by (auto simp: plan_reviewers_def FULL_CI_REVIEWERS_def split: if_splits dest!: in_set_takeD)

lemma profile_of_planned:
  assumes "name \<in> {''correctness_light'', ''correctness'', ''security'', ''api_contract'', ''config_release'', ''performance''}"
  shows "\<exists>p. map_of REVIEWER_PROFILES name = Some p \<and> reviewer_profile name = p \<and> ''personas/'' @ rf_persona p \<in> set REFERENCE_FILES"
  using assms
  by (auto simp: REVIEWER_PROFILES_def reviewer_profile_def REFERENCE_FILES_def profile_correctness_light_def profile_correctness_def
      profile_security_def profile_api_contract_def profile_config_release_def profile_performance_def)

definition rule_files :: "string list" where
  "rule_files = ''references/rules/default.md'' # map (\<lambda>(_, _, r). r) SYSTEM_RULES"

lemma rule_files_there: "list_all (\<lambda>r. removeprefix ''references/'' r \<in> set REFERENCE_FILES) rule_files"
  by code_simp

lemma matched_files:
  assumes "m \<in> set (match_review_rules paths)" shows "set (rm_references m) \<subseteq> set rule_files"
proof -
  obtain path where m: "m = (case find (\<lambda>(pattern, _, _). matches pattern (normalize_path path)) SYSTEM_RULES of
      None \<Rightarrow> \<lparr>rm_path = path, rm_rule_names = [''default''], rm_references = [''references/rules/default.md'']\<rparr>
    | Some (_, name, reference) \<Rightarrow> \<lparr>rm_path = path, rm_rule_names = [''default'', name],
        rm_references = [''references/rules/default.md'', reference]\<rparr>)"
    using assms unfolding match_review_rules_def by auto
  show ?thesis
  proof (cases "find (\<lambda>(pattern, _, _). matches pattern (normalize_path path)) SYSTEM_RULES")
    case (Some r)
    then have "r \<in> set SYSTEM_RULES" by (auto dest: find_Some_key)
    moreover obtain a b c where r: "r = (a, b, c)" by (cases r)
    moreover have "rm_references m = [''references/rules/default.md'', c]" using Some by (simp add: m r)
    ultimately show ?thesis by (auto simp: rule_files_def image_iff intro!: bexI [of _ r])
  qed (simp add: m rule_files_def)
qed

definition names_good :: "string list \<Rightarrow> bool" where
  "names_good names \<longleftrightarrow> distinct names \<and> set names \<subseteq> set REFERENCE_FILES"

lemma fold_good:
  assumes "names_good names" and "\<And>ns x. names_good ns \<Longrightarrow> x \<in> set xs \<Longrightarrow> \<exists>ms. f ns x = Inr ms \<and> names_good ms"
  shows "\<exists>ms. fold_r f names xs = Inr ms \<and> names_good ms"
  using assms
proof (induction xs arbitrary: names)
  case (Cons x xs)
  then obtain ms where "f names x = Inr ms" "names_good ms" by fastforce
  with Cons show ?case by simp
qed simp

lemma add_reference_good:
  assumes "names_good names" and "r \<in> set rule_files"
  shows "\<exists>ms. add_reference names (JStr r) = Inr ms \<and> names_good ms"
  using assms rule_files_there by (auto simp: add_reference_def names_good_def Let_def list_all_iff)

lemma add_rule_good:
  assumes "names_good names" and "set (rm_references m) \<subseteq> set rule_files"
  shows "\<exists>ms. add_rule names (rule_dict m) = Inr ms \<and> names_good ms"
proof -
  have "iter_json (py_or (JArr (map JStr rs)) (JArr [])) = Inr (map JStr rs)" for rs by (simp add: py_or_def)
  then show ?thesis
    using assms by (auto simp: add_rule_def rule_dict_def dget_def texts_json_def intro!: fold_good add_reference_good)
qed

text \<open>Every reviewer the plan of a change can name has a profile of its own, and every reference its prompt
  quotes, the persona and the rules matched by any changed file among them, is a file of the package and quoted
  once.\<close>

theorem prompts_complete:
  "list_all (\<lambda>item. pi_reviewer item \<in> set (map fst REVIEWER_PROFILES)
     \<and> (case reference_names (rf_persona (reviewer_profile (pi_reviewer item))) (map rule_dict (match_review_rules paths)) of
          Inl e \<Rightarrow> False | Inr names \<Rightarrow> distinct names \<and> set names \<subseteq> set REFERENCE_FILES))
     (plan_reviewers (classify_risk files n truncated))"
proof -
  have "pi_reviewer item \<in> set (map fst REVIEWER_PROFILES)
     \<and> (\<exists>names. reference_names (rf_persona (reviewer_profile (pi_reviewer item))) (map rule_dict (match_review_rules paths)) = Inr names
        \<and> names_good names)" if item: "item \<in> set (plan_reviewers (classify_risk files n truncated))" for item
  proof -
    obtain p where p: "map_of REVIEWER_PROFILES (pi_reviewer item) = Some p" "reviewer_profile (pi_reviewer item) = p"
      "''personas/'' @ rf_persona p \<in> set REFERENCE_FILES"
      using profile_of_planned [OF planned_names [OF item]] by blast
    have "pi_reviewer item \<in> set (map fst REVIEWER_PROFILES)" using map_of_SomeD [OF p(1)] by force
    moreover have "names_good (base_references (rf_persona p))"
      using p(3) by (simp add: names_good_def base_references_def REFERENCE_FILES_def)
    then have "\<exists>names. reference_names (rf_persona p) (map rule_dict (match_review_rules paths)) = Inr names \<and> names_good names"
      unfolding reference_names_def by (rule fold_good) (auto intro!: add_rule_good matched_files)
    ultimately show ?thesis using p(2) by blast
  qed
  then show ?thesis by (fastforce simp: list_all_iff names_good_def)
qed

section \<open>The diff in a prompt\<close>

lemma following_le: "following rs s \<le> length rs" "following rs s \<le> length s"
  by (induction rs s rule: following.induct) auto

lemma following_take: "following rs (take m s) = min m (following rs s)"
proof (induction rs s arbitrary: m rule: following.induct)
  case (1 lo hi rs c s)
  then show ?case by (cases m) auto
qed auto

lemma followers_short: "followers c = Some rs \<Longrightarrow> length rs \<le> 3"
  by (auto simp: followers_def Let_def split: if_splits)

lemma utf8_ok_replace: "utf8_ok s \<Longrightarrow> utf8_replace s = s"
proof (induction s rule: length_induct)
  case (1 s)
  then show ?case by (cases s) (auto split: if_splits option.splits simp: Let_def)
qed

text \<open>One step of the decoder: how many bytes after the first it takes, and what they become.\<close>

definition taken :: "char \<Rightarrow> string \<Rightarrow> nat" where
  "taken c s = (if (of_char c :: int) < 128 then 0 else case followers c of None \<Rightarrow> 0 | Some rs \<Rightarrow> following rs s)"

definition complete :: "char \<Rightarrow> string \<Rightarrow> bool" where
  "complete c s \<longleftrightarrow> (of_char c :: int) < 128 \<or> (case followers c of None \<Rightarrow> False | Some rs \<Rightarrow> following rs s = length rs)"

lemma decode_step:
  "utf8_replace (c # s) = (if complete c s then c # take (taken c s) s else REPLACEMENT) @ utf8_replace (drop (taken c s) s)"
  by (auto simp: taken_def complete_def Let_def split: option.split)

lemma ok_step: "utf8_ok (c # s) \<longleftrightarrow> complete c s \<and> utf8_ok (drop (taken c s) s)"
  by (auto simp: taken_def complete_def split: option.split)

lemma taken_take: "taken c (take j s) = min j (taken c s)"
  by (simp add: taken_def following_take split: option.split)

lemma taken_short: "taken c s \<le> 3" "taken c s \<le> length s"
  by (auto simp: taken_def following_le split: option.split dest: followers_short intro: order_trans [OF following_le(1)])

lemma complete_take: "taken c s \<le> j \<Longrightarrow> complete c (take j s) = complete c s"
  by (cases "(of_char c :: int) < 128") (auto simp: complete_def taken_def following_take split: option.splits)

lemma incomplete_take: "j < taken c s \<Longrightarrow> \<not> complete c (take j s)"
  using following_le(1) [of "the (followers c)" s]
  by (auto simp: complete_def taken_def following_take split: option.splits if_splits)

declare utf8_replace.simps(2) [simp del] utf8_ok.simps(2) [simp del]

text \<open>Decoding what is cut at \<open>n\<close> bytes: a beginning of the decoded text, and U+FFFD for a character the cut falls into.\<close>

lemma utf8_cut:
  "n \<le> length s \<Longrightarrow>
     \<exists>m. n \<le> m + 3 \<and> utf8_replace s = utf8_replace (take m s) @ utf8_replace (drop m s)
       \<and> (m = n \<and> utf8_replace (take n s) = utf8_replace (take m s)
          \<or> m < n \<and> utf8_replace (take n s) = utf8_replace (take m s) @ REPLACEMENT)
       \<and> (utf8_ok s \<longrightarrow> utf8_ok (take m s))"
proof (induction s arbitrary: n rule: length_induct)
  case (1 s)
  show ?case
  proof (cases "n = 0")
    case False
    then obtain c t where s: "s = c # t" using 1(2) by (cases s) auto
    obtain j where n: "n = Suc j" using False by (cases n) auto
    define k where "k = taken c t"
    show ?thesis
    proof (cases "k \<le> j")
      case True
      have fewer: "length (drop k t) < length s" "j - k \<le> length (drop k t)" using 1(2) by (auto simp: s n)
      from 1(1) [rule_format, OF fewer] obtain m where m: "j - k \<le> m + 3" "m \<le> j - k"
        "utf8_replace (drop k t) = utf8_replace (take m (drop k t)) @ utf8_replace (drop m (drop k t))"
        "m = j - k \<and> utf8_replace (take (j - k) (drop k t)) = utf8_replace (take m (drop k t))
          \<or> m < j - k \<and> utf8_replace (take (j - k) (drop k t)) = utf8_replace (take m (drop k t)) @ REPLACEMENT"
        "utf8_ok (drop k t) \<longrightarrow> utf8_ok (take m (drop k t))"
        by (metis less_imp_le order_refl)
      define u where "u = (if complete c t then c # take k t else REPLACEMENT)"
      have start: "utf8_replace (c # take (k + i) t)
          = u @ utf8_replace (take i (drop k t))" for i
        unfolding u_def decode_step [of c "take (k + i) t"]
        by (simp add: taken_take complete_take take_drop flip: k_def) (simp add: add.commute)
      have ok: "utf8_ok (c # take (k + i) t) \<longleftrightarrow> complete c t \<and> utf8_ok (take i (drop k t))" for i
        unfolding ok_step [of c "take (k + i) t"]
        by (simp add: taken_take complete_take take_drop flip: k_def) (simp add: add.commute)
      have whole: "utf8_replace (c # t) = u @ utf8_replace (drop k t)"
        "utf8_ok (c # t) \<longleftrightarrow> complete c t \<and> utf8_ok (drop k t)"
        unfolding u_def k_def by (rule decode_step, rule ok_step)
      have cut: "utf8_replace (take n s) = u @ utf8_replace (take (j - k) (drop k t))"
        using start [of "j - k"] True by (simp add: s n)
      show ?thesis
      proof (intro exI [of _ "Suc (k + m)"] conjI)
        show "utf8_replace s = utf8_replace (take (Suc (k + m)) s) @ utf8_replace (drop (Suc (k + m)) s)"
          unfolding s by (simp add: start whole) (metis m(3) add.commute drop_drop)
        show "Suc (k + m) = n \<and> utf8_replace (take n s) = utf8_replace (take (Suc (k + m)) s)
            \<or> Suc (k + m) < n \<and> utf8_replace (take n s) = utf8_replace (take (Suc (k + m)) s) @ REPLACEMENT"
          using m(2,4) True unfolding cut by (auto simp: s n start)
        show "utf8_ok s \<longrightarrow> utf8_ok (take (Suc (k + m)) s)"
          using m(5) unfolding s by (simp add: ok whole)
      qed (use m(1) True n in simp)
    next
      case False
      then have "utf8_replace (take n s) = REPLACEMENT"
        using incomplete_take [of j c t] decode_step [of c "take j t"] by (simp add: s n k_def taken_take)
      then show ?thesis using False taken_short(1) [of c t] n by (intro exI [of _ 0]) (simp add: k_def)
    qed
  qed (auto intro: exI [of _ 0])
qed

text \<open>C35: the diff of a prompt, whatever bytes its file holds, is the decoded file when that is within the limit.
  Otherwise it is marked as cut, and before the mark stands the decoding of the file's first bytes: of all bytes up to
  the limit when the cut falls between two characters, and otherwise of all but the last one, two or three, the
  beginning of the character the cut falls into, for which one U+FFFD stands. The decoded first bytes are a beginning of the
  decoded file. A file in UTF-8 is its own decoding, and so are the bytes that are kept. The limit lies between 20,000 and
  500,000 bytes, whatever the settings.\<close>

theorem inline_diff_faithful:
  "let n = inline_diff_max_bytes env; (t, truncated) = limited_text raw n
   in 20000 \<le> n \<and> n \<le> 500000
    \<and> (if utf8_ok raw then utf8_replace raw = raw else True)
    \<and> (if int (length raw) \<le> n then t = utf8_replace raw \<and> \<not> truncated
       else truncated
         \<and> (\<exists>m. n \<le> int m + 3 \<and> utf8_replace raw = utf8_replace (take m raw) @ utf8_replace (drop m raw)
              \<and> (int m = n \<and> t = utf8_replace (take m raw) @ TRUNCATED_NOTE
                 \<or> int m < n \<and> t = utf8_replace (take m raw) @ REPLACEMENT @ TRUNCATED_NOTE)
              \<and> (if utf8_ok raw then utf8_ok (take m raw) \<and> utf8_replace (take m raw) = take m raw else True)))"
proof -
  define n where "n = inline_diff_max_bytes env"
  have n: "20000 \<le> n" "n \<le> 500000" by (simp_all add: n_def inline_diff_max_bytes_def)
  show ?thesis
  proof (cases "int (length raw) \<le> n")
    case True
    then show ?thesis using n utf8_ok_replace [of raw] by (simp add: limited_text_def flip: n_def)
  next
    case False
    then have "nat n \<le> length raw" by linarith
    from utf8_cut [OF this] obtain m where "nat n \<le> m + 3"
      "utf8_replace raw = utf8_replace (take m raw) @ utf8_replace (drop m raw)"
      "m = nat n \<and> utf8_replace (take (nat n) raw) = utf8_replace (take m raw)
        \<or> m < nat n \<and> utf8_replace (take (nat n) raw) = utf8_replace (take m raw) @ REPLACEMENT"
      "utf8_ok raw \<longrightarrow> utf8_ok (take m raw)"
      by blast
    note m = this
    have t: "limited_text raw n = (utf8_replace (take (nat n) raw) @ TRUNCATED_NOTE, True)"
      using False by (simp add: limited_text_def)
    have "\<exists>m. n \<le> int m + 3 \<and> utf8_replace raw = utf8_replace (take m raw) @ utf8_replace (drop m raw)
        \<and> (int m = n \<and> utf8_replace (take (nat n) raw) @ TRUNCATED_NOTE = utf8_replace (take m raw) @ TRUNCATED_NOTE
           \<or> int m < n \<and> utf8_replace (take (nat n) raw) @ TRUNCATED_NOTE = utf8_replace (take m raw) @ REPLACEMENT @ TRUNCATED_NOTE)
        \<and> (if utf8_ok raw then utf8_ok (take m raw) \<and> utf8_replace (take m raw) = take m raw else True)"
    proof (intro exI [of _ m] conjI)
      show "n \<le> int m + 3" using m(1) n by linarith
      show "int m = n \<and> utf8_replace (take (nat n) raw) @ TRUNCATED_NOTE = utf8_replace (take m raw) @ TRUNCATED_NOTE
          \<or> int m < n \<and> utf8_replace (take (nat n) raw) @ TRUNCATED_NOTE = utf8_replace (take m raw) @ REPLACEMENT @ TRUNCATED_NOTE"
      proof (rule disjE [OF m(3)])
        assume a: "m = nat n \<and> utf8_replace (take (nat n) raw) = utf8_replace (take m raw)"
        then have "int m = n" using n(1) by linarith
        then show ?thesis using a by metis
      next
        assume a: "m < nat n \<and> utf8_replace (take (nat n) raw) = utf8_replace (take m raw) @ REPLACEMENT"
        then have "int m < n" using n(1) by linarith
        then show ?thesis using a by (metis append_assoc)
      qed
    qed (use m(2,4) utf8_ok_replace [of "take m raw"] in simp_all)
    then show ?thesis
      unfolding n_def [symmetric] Let_def t using n False utf8_ok_replace [of raw] by simp
  qed
qed

end
