(* ===== verification/Cli.thy ===== *)
theory Cli
  imports Daemon
begin

text \<open>
  The command line of the second version, \<open>review_v2/cli.py\<close>: what each command does to the database and
  prints. The arguments are those \<open>argparse\<close> has read; \<open>run\<close> is modelled with \<open>--once\<close>, as without it the
  command does not end. The printing of the status as JSON is a parameter.
\<close>

record status_payload =
  sb_counts :: "(task_status \<times> nat) list"
  sb_heartbeats :: "heartbeat list"
  sb_active :: "cr_task list"

definition status_payload_of :: "db \<Rightarrow> status_payload" where
  "status_payload_of d = \<lparr>sb_counts = task_counts d, sb_heartbeats = latest_heartbeats 5 d, sb_active = active_tasks 10 d\<rparr>"

datatype cli_command =
    Cli_Run_Once
  | Cli_Once
  | Cli_Recover_Stale
  | Cli_Retry_Callbacks
  | Cli_Status
  | Cli_Dashboard
  | Cli_Stop string "string option"
  | Cli_Cancel string "string option"
  | Cli_Requeue string "string option"

record cli_options =
  op_daemon_id :: "string option"
  op_claim_limit :: "nat option"
  op_lease_seconds :: "int option"

definition cli_config :: "cli_options \<Rightarrow> daemon_config \<Rightarrow> daemon_config" where
  "cli_config ops cfg =
     cfg\<lparr>dc_id := text_or (op_daemon_id ops) (dc_id cfg),
         dc_claim_limit := (case op_claim_limit ops of Some n \<Rightarrow> n | None \<Rightarrow> dc_claim_limit cfg),
         dc_lease_seconds := (case op_lease_seconds ops of Some n \<Rightarrow> n | None \<Rightarrow> dc_lease_seconds cfg)\<rparr>"

definition count_of :: "status_payload \<Rightarrow> string \<Rightarrow> nat" where
  "count_of p name =
     (case find (\<lambda>c. task_status_text (fst c) = name) (sb_counts p) of Some (_, n) \<Rightarrow> n | None \<Rightarrow> 0)"

definition DASHBOARD_NAMES :: "string list" where
  "DASHBOARD_NAMES = [''queued'', ''running'', ''success'', ''failed'', ''skipped'', ''cancelled'']"

definition cli_line :: "string \<Rightarrow> string" where
  "cli_line t = t @ ''\<newline>''"

definition render_dashboard :: "status_payload \<Rightarrow> string" where
  "render_dashboard p =
     cli_line (''CR v2 dashboard '' @ join '' '' (map (\<lambda>name. name @ ''='' @ str_nat (count_of p name)) DASHBOARD_NAMES))
     @ concat (map (\<lambda>h. cli_line (''heartbeat '' @ hb_runner h @ '' '' @ hb_status h @ '' '' @ text_or (hb_message h) []))
         (sb_heartbeats p))
     @ concat (map (\<lambda>t. cli_line (''task '' @ tk_id t @ '' '' @ task_status_text (tk_status t) @ '' '' @ text_or (tk_gate t) []))
         (sb_active p))"

record cli_env =
  ce_sync :: "db \<Rightarrow> json_dict py_result"
  ce_send :: "callback_payload \<Rightarrow> json list py_result"
  ce_digest :: "callback_payload \<Rightarrow> string"
  ce_run :: "string \<Rightarrow> unit wf"
  ce_date :: string
  ce_minute :: nat
  ce_dump :: "status_payload \<Rightarrow> string"

text \<open>The text a command prints, as a statement of the shared world; stopping and cancelling are two
  transactions each, with room for the others in between.\<close>

fun cli_command_run :: "cli_env \<Rightarrow> daemon_config \<Rightarrow> cli_command \<Rightarrow> string wf" where
  "cli_command_run env cfg Cli_Once =
     wbind (daemon_once cfg (ce_run env)) (\<lambda>n. wret (cli_line (''claimed='' @ str_nat n)))"
| "cli_command_run env cfg Cli_Run_Once =
     wbind (daemon_tick cfg (ce_sync env) (ce_send env) (ce_digest env) (ce_run env) (ce_date env) (ce_minute env) None)
       (\<lambda>_. wret (cli_line ''run=stopped''))"
| "cli_command_run env cfg Cli_Recover_Stale =
     wbind (daemon_recover_stale cfg) (\<lambda>ids. wret (cli_line (''recovered='' @ join '','' ids)))"
| "cli_command_run env cfg Cli_Retry_Callbacks =
     wbind (retry_callbacks cfg (ce_send env) (ce_digest env)) (\<lambda>ids. wret (cli_line (''due_callbacks='' @ join '','' ids)))"
| "cli_command_run env cfg Cli_Status =
     wbind (own_read (\<lambda>_. status_payload_of)) (\<lambda>p. wret (cli_line (ce_dump env p)))"
| "cli_command_run env cfg Cli_Dashboard =
     wbind (own_read (\<lambda>_. status_payload_of)) (\<lambda>p. wret (render_dashboard p))"
| "cli_command_run env cfg (Cli_Stop i reason) =
     wseq (own_set (request_task_control i Stop_Task reason)) (wseq (own_set (stop_transaction i reason))
       (wret (cli_line (''stop_requested='' @ i))))"
| "cli_command_run env cfg (Cli_Cancel i reason) =
     wseq (own_set (request_task_control i Cancel_Task reason)) (wseq (own_set (cancel_transaction i reason))
       (wret (cli_line (''cancelled='' @ i))))"
| "cli_command_run env cfg (Cli_Requeue i reason) =
     wseq (own_set (requeue_task i reason)) (wret (cli_line (''requeued='' @ i)))"

definition cli_main :: "cli_env \<Rightarrow> daemon_config \<Rightarrow> cli_options \<Rightarrow> cli_command \<Rightarrow> string wf" where
  "cli_main env cfg ops c = cli_command_run env (cli_config ops cfg) c"

section \<open>What the dashboard counts\<close>

lemma count_of_status:
  "count_of (status_payload_of d) (task_status_text s) = count_where (\<lambda>t. tk_status t = s) (db_tasks d)"
proof (cases "find (\<lambda>c. task_status_text (fst c) = task_status_text s) (task_counts d)")
  case None
  then have "s \<notin> tk_status ` set (db_tasks d)" by (auto simp: find_None_key task_counts_def)
  then have "count_where (\<lambda>t. tk_status t = s) (db_tasks d) = 0" by (auto simp: count_where_def filter_empty_conv)
  with None show ?thesis by (simp add: count_of_def status_payload_of_def)
next
  case (Some c)
  then have "c \<in> set (task_counts d)" "task_status_text (fst c) = task_status_text s" by (auto dest: find_Some_key)
  then have "c = (s, count_where (\<lambda>t. tk_status t = s) (db_tasks d))"
    by (cases "fst c"; cases s) (auto simp: task_counts_def)
  with Some show ?thesis by (simp add: count_of_def status_payload_of_def)
qed

text \<open>The counts of the dashboard are those of the tasks by status; they sum to the number of tasks but for those of
  the status "incomplete", which it does not name.\<close>

theorem dashboard_counts:
  "list_all (\<lambda>s. count_of (status_payload_of d) (task_status_text s) = count_where (\<lambda>t. tk_status t = s) (db_tasks d))
     [TQueued, TRunning, TSuccess, TFailed, TSkipped, TCancelled]
   \<and> sum_list (map (count_of (status_payload_of d)) DASHBOARD_NAMES) + count_where (\<lambda>t. tk_status t = TIncomplete) (db_tasks d)
     = length (db_tasks d)"
proof -
  have one: "(if s = TQueued then 1 else 0) + (if s = TRunning then 1 else 0) + (if s = TSuccess then 1 else 0)
      + (if s = TFailed then 1 else 0) + (if s = TSkipped then 1 else 0) + (if s = TCancelled then 1 else 0)
      + (if s = TIncomplete then 1 else 0) = (1 :: nat)" for s
    by (cases s) simp_all
  have all: "count_where (\<lambda>t. tk_status t = TQueued) ts + count_where (\<lambda>t. tk_status t = TRunning) ts + count_where (\<lambda>t. tk_status t = TSuccess) ts
      + count_where (\<lambda>t. tk_status t = TFailed) ts + count_where (\<lambda>t. tk_status t = TSkipped) ts
      + count_where (\<lambda>t. tk_status t = TCancelled) ts + count_where (\<lambda>t. tk_status t = TIncomplete) ts = length ts" for ts
  proof (induction ts)
    case (Cons t ts)
    then show ?case using one [of "tk_status t"] by (simp add: count_where_def split: if_splits)
  qed (simp add: count_where_def)
  show ?thesis
    using all [of "db_tasks d"] count_of_status [of d TQueued] count_of_status [of d TRunning] count_of_status [of d TSuccess]
      count_of_status [of d TFailed] count_of_status [of d TSkipped] count_of_status [of d TCancelled]
    by (simp add: DASHBOARD_NAMES_def)
qed

end
