(* ===== verification/Report_Views.thy ===== *)
theory Report_Views
  imports Review_Storage "HOL-Library.Product_Lexorder"
begin

text \<open>
  What the pages of the second version show of the database, \<open>review_v2/views.py\<close>: the rows a task has in
  each table, the progress of its reviewers, its stage, and the report on recent tasks. Every projection is a
  record of the values the code puts into a dict. Times are instants, so the comparison of their texts in SQL
  is the comparison of the instants. Rows SQL leaves unordered keep the order of their ids.
\<close>

section \<open>Rows of a task\<close>

fun run_status_text :: "run_status \<Rightarrow> string" where
  "run_status_text RQueued = ''queued''"
| "run_status_text RRunning = ''running''"
| "run_status_text RSuccess = ''success''"
| "run_status_text RFailed = ''failed''"
| "run_status_text RCancelled = ''cancelled''"

text \<open>\<open>LEFT JOIN reviewer_runs\<close>.\<close>

definition joined_run :: "db \<Rightarrow> nat option \<Rightarrow> reviewer_run option" where
  "joined_run d run = (case run of None \<Rightarrow> None | Some i \<Rightarrow> find (\<lambda>r. rr_id r = i) (db_runs d))"

record finding_row =
  fw_finding :: finding
  fw_reviewer :: "string option"
  fw_session :: "string option"

definition finding_rows :: "string \<Rightarrow> db \<Rightarrow> finding_row list" where
  "finding_rows task_id d =
     map (\<lambda>f. \<lparr>fw_finding = f, fw_reviewer = map_option rr_reviewer (joined_run d (fn_run f)),
            fw_session = Option.bind (joined_run d (fn_run f)) rr_session\<rparr>)
       (sort_key (\<lambda>f. (fn_created f, fn_id f)) (filter (\<lambda>f. fn_task f = task_id) (db_findings d)))"

definition review_sessions :: "string \<Rightarrow> db \<Rightarrow> reviewer_run list" where
  "review_sessions task_id d = sort_key (\<lambda>r. (rr_created r, rr_id r)) (filter (\<lambda>r. rr_task r = task_id) (db_runs d))"

definition plan_rows :: "string \<Rightarrow> db \<Rightarrow> reviewer_plan list" where
  "plan_rows task_id d = sort_key rp_created (filter (\<lambda>p. rp_task p = task_id) (db_plans d))"

record feedback_row =
  fr_session :: feedback_session
  fr_parent_reviewer :: "string option"
  fr_parent_session :: "string option"

definition feedback_rows :: "string \<Rightarrow> db \<Rightarrow> feedback_row list" where
  "feedback_rows task_id d =
     map (\<lambda>s. \<lparr>fr_session = s, fr_parent_reviewer = map_option rr_reviewer (joined_run d (fb_parent_run s)),
            fr_parent_session = Option.bind (joined_run d (fb_parent_run s)) rr_session\<rparr>)
       (sort_key fb_created (filter (\<lambda>s. fb_task s = task_id) (db_feedback d)))"

definition event_rows :: "string \<Rightarrow> db \<Rightarrow> task_event list" where
  "event_rows task_id d = sort_key te_created (filter (\<lambda>e. te_task e = Some task_id) (db_events d))"

section \<open>Progress of the reviewers\<close>

text \<open>A key that is missing from the dict is \<open>None\<close>.\<close>

record progress_item =
  pg_reviewer :: string
  pg_required :: "bool option"
  pg_tier :: "string option"
  pg_reason :: "string option"
  pg_created :: "instant option"
  pg_id :: "nat option"
  pg_model :: "string option"
  pg_status :: string
  pg_session :: "string option"
  pg_started :: "instant option"
  pg_finished :: "instant option"
  pg_duration :: "int option"
  pg_tokens :: int
  pg_cost :: rat
  pg_error :: "string option"

definition run_item :: "reviewer_run \<Rightarrow> progress_item" where
  "run_item r =
     \<lparr>pg_reviewer = rr_reviewer r, pg_required = None, pg_tier = None, pg_reason = None, pg_created = None,
      pg_id = Some (rr_id r), pg_model = rr_model r, pg_status = run_status_text (rr_status r), pg_session = rr_session r,
      pg_started = rr_started r, pg_finished = rr_finished r, pg_duration = rr_duration r,
      pg_tokens = us_total (rr_usage r), pg_cost = us_cost (rr_usage r), pg_error = rr_error r\<rparr>"

definition planned_item :: "reviewer_plan \<Rightarrow> progress_item" where
  "planned_item p =
     \<lparr>pg_reviewer = rp_reviewer p, pg_required = Some (rp_required p), pg_tier = rp_tier p, pg_reason = rp_reason p,
      pg_created = Some (rp_created p), pg_id = None, pg_model = None, pg_status = ''queued'', pg_session = None,
      pg_started = None, pg_finished = None, pg_duration = None, pg_tokens = 0, pg_cost = 0, pg_error = None\<rparr>"

definition latest_run :: "reviewer_run list \<Rightarrow> string \<Rightarrow> reviewer_run option" where
  "latest_run runs reviewer = find (\<lambda>r. rr_reviewer r = reviewer) (rev runs)"

definition plan_item_of :: "reviewer_run list \<Rightarrow> reviewer_plan \<Rightarrow> progress_item" where
  "plan_item_of runs p =
     (case latest_run runs (rp_reviewer p) of
        None \<Rightarrow> planned_item p
      | Some r \<Rightarrow> (run_item r)\<lparr>pg_required := Some (rp_required p), pg_tier := rp_tier p, pg_reason := rp_reason p,
          pg_created := Some (rp_created p)\<rparr>)"

definition judge_events :: "task_event list \<Rightarrow> task_event list" where
  "judge_events events = filter (\<lambda>e. startswith (te_type e) ''judge_'') events"

definition synthetic_judge_session :: "task_event list \<Rightarrow> progress_item option" where
  "synthetic_judge_session events =
     (case judge_events events of
        [] \<Rightarrow> None
      | first # others \<Rightarrow>
          (let evs = first # others;
               failed = list_ex (\<lambda>e. te_type e = ''judge_failed'') evs;
               completed = list_ex (\<lambda>e. te_type e = ''judge_completed'') evs;
               status = (if failed then ''failed'' else if completed then ''success'' else ''running'');
               started = (case find (\<lambda>e. te_type e = ''judge_started'') evs of Some e \<Rightarrow> e | None \<Rightarrow> first);
               finished = find (\<lambda>e. te_type e \<in> {''judge_completed'', ''judge_failed''}) (rev evs)
           in Some \<lparr>pg_reviewer = ''cr_judge'', pg_required = Some True, pg_tier = None, pg_reason = Some ''final finding judge'',
                pg_created = Some (te_created started), pg_id = None, pg_model = None, pg_status = status, pg_session = None,
                pg_started = Some (te_created started), pg_finished = map_option te_created finished, pg_duration = None,
                pg_tokens = 0, pg_cost = 0,
                pg_error = (if failed then map_option te_message finished else None)\<rparr>))"

definition review_progress :: "reviewer_plan list \<Rightarrow> reviewer_run list \<Rightarrow> task_event list \<Rightarrow> progress_item list" where
  "review_progress plans runs events =
     (let merged = map (plan_item_of runs) plans
            @ map run_item (filter (\<lambda>r. rr_reviewer r \<notin> set (map rp_reviewer plans)) runs)
      in if list_ex (\<lambda>i. pg_reviewer i = ''cr_judge'') merged then merged
         else merged @ opt_list (synthetic_judge_session events))"

section \<open>Mode, stage and detail\<close>

definition event_tier :: "task_event \<Rightarrow> json" where
  "event_tier e = dget (te_payload e) ''risk_tier''"

definition review_mode :: "reviewer_plan list \<Rightarrow> task_event list \<Rightarrow> string" where
  "review_mode plans events =
     (case find (\<lambda>p. text_truthy (rp_tier p)) plans of
        Some p \<Rightarrow> text_or (rp_tier p) []
      | None \<Rightarrow> (case find (\<lambda>e. truthy (event_tier e)) (rev events) of
            Some e \<Rightarrow> py_str (event_tier e)
          | None \<Rightarrow> ''pending''))"

definition current_stage :: "cr_task \<Rightarrow> task_event list \<Rightarrow> progress_item list \<Rightarrow> string \<Rightarrow> string" where
  "current_stage task events items mode =
     (case filter (\<lambda>i. pg_status i = ''running'') items of
        running # _ \<Rightarrow> if 1 < length items then ''reviewer_fanout:'' @ mode else ''reviewer:'' @ pg_reviewer running
      | [] \<Rightarrow>
          if tk_status task = TRunning \<and> list_ex (\<lambda>i. pg_status i = ''queued'') items then ''reviewer_fanout:'' @ mode
          else if tk_status task \<in> {TQueued, TRunning} \<and> events \<noteq> []
            then text_or (te_stage (last events)) (task_status_text (tk_status task))
          else text_or (tk_gate task) (task_status_text (tk_status task)))"

definition names_of :: "progress_item list \<Rightarrow> string" where
  "names_of items = join '', '' (map pg_reviewer items)"

definition current_detail :: "cr_task \<Rightarrow> task_event list \<Rightarrow> progress_item list \<Rightarrow> string" where
  "current_detail task events items =
     (let running = filter (\<lambda>i. pg_status i = ''running'') items; queued = filter (\<lambda>i. pg_status i = ''queued'') items
      in if running \<noteq> [] then
           str_nat (length running) @ '' reviewer(s) running: '' @ names_of running
             @ (if queued \<noteq> [] then ''; queued: '' @ names_of queued else [])
         else if tk_status task = TRunning \<and> queued \<noteq> [] then ''waiting for reviewer fanout: '' @ names_of queued
         else if events \<noteq> [] then te_message (last events)
         else text_or (tk_error task) [])"

text \<open>The text for a task without an error that is not done.\<close>

definition no_summary :: string where
  "no_summary = [CHR 0xE6, CHR 0x9A, CHR 0x82, CHR 0xE6, CHR 0x97, CHR 0xA0]"

definition score_shown :: "finding_row list \<Rightarrow> nat" where
  "score_shown findings = (if findings = [] then 100 else 80)"

record status_view =
  vs_task :: cr_task
  vs_mode :: string
  vs_plan :: "reviewer_plan list"
  vs_stage :: string
  vs_detail :: string
  vs_sessions :: "progress_item list"
  vs_events :: "task_event list"
  vs_usage :: usage
  vs_summary :: string
  vs_score :: nat
  vs_findings :: "finding_row list"

definition task_status_view :: "string \<Rightarrow> db \<Rightarrow> status_view option" where
  "task_status_view task_id d =
     map_option (\<lambda>task.
       (let findings = finding_rows task_id d; events = event_rows task_id d; plans = plan_rows task_id d;
            items = review_progress plans (review_sessions task_id d) events; mode = review_mode plans events
        in \<lparr>vs_task = task, vs_mode = mode, vs_plan = plans, vs_stage = current_stage task events items mode,
            vs_detail = current_detail task events items, vs_sessions = items, vs_events = events,
            vs_usage = aggregate_task_usage task_id d,
            vs_summary = text_or (tk_error task) (if tk_status task = TSuccess then ''Review completed'' else no_summary),
            vs_score = score_shown findings, vs_findings = findings\<rparr>)) (get_task task_id d)"

definition progress_report :: "string \<Rightarrow> db \<Rightarrow> (status_view \<times> feedback_row list) option" where
  "progress_report task_id d = map_option (\<lambda>v. (v, feedback_rows task_id d)) (task_status_view task_id d)"

record feedback_view =
  vf_task :: cr_task
  vf_row :: feedback_row
  vf_finding :: "finding_row option"
  vf_events :: "task_event list"

definition feedback_progress :: "string \<Rightarrow> string \<Rightarrow> db \<Rightarrow> feedback_view option" where
  "feedback_progress task_id session_id d =
     Option.bind (get_task task_id d) (\<lambda>task.
     map_option (\<lambda>row.
       (let wanted = fb_finding (fr_session row)
        in \<lparr>vf_task = task, vf_row = row,
            vf_finding = find (\<lambda>f. Some (fn_id (fw_finding f)) = wanted) (finding_rows task_id d),
            vf_events = filter (\<lambda>e. dget (te_payload e) ''feedback_session_id'' = JStr session_id
                \<or> text_truthy wanted \<and> dget (te_payload e) ''finding_id'' = JStr (text_or wanted []))
              (event_rows task_id d)\<rparr>))
       (find (\<lambda>row. fb_id (fr_session row) = session_id) (feedback_rows task_id d)))"

section \<open>Counts\<close>

text \<open>\<open>dict(sorted(Counter(xs).items()))\<close>, and \<open>Counter(xs).most_common(n)\<close>, which keeps the order of first
  occurrence among equal counts.\<close>

definition tally :: "'a::linorder list \<Rightarrow> ('a \<times> nat) list" where
  "tally xs = map (\<lambda>k. (k, count_list xs k)) (sort (remdups xs))"

definition most_common :: "nat \<Rightarrow> 'a list \<Rightarrow> ('a \<times> nat) list" where
  "most_common n xs =
     take n (sort_key (\<lambda>(k, c). - int c) (map (\<lambda>k. (k, count_list xs k)) (rev (remdups (rev xs)))))"

text \<open>\<open>Counter.update\<close> with the counts of several dicts.\<close>

definition total_counts :: "('a::linorder \<times> nat) list list \<Rightarrow> ('a \<times> nat) list" where
  "total_counts cs =
     map (\<lambda>k. (k, sum_list (map snd (filter (\<lambda>kc. fst kc = k) (concat cs))))) (sort (remdups (map fst (concat cs))))"

definition severity_counts :: "finding_row list \<Rightarrow> (string \<times> nat) list" where
  "severity_counts findings = tally (map (\<lambda>f. severity_text (fn_severity (fw_finding f))) findings)"

section \<open>Recent tasks\<close>

record recent_task_row =
  rc_task :: cr_task
  rc_gate :: string
  rc_findings :: nat
  rc_severities :: "(string \<times> nat) list"
  rc_score :: nat
  rc_summary :: string
  rc_called_back :: bool
  rc_usage :: usage
  rc_calls :: nat

definition recent_task :: "db \<Rightarrow> cr_task \<Rightarrow> recent_task_row" where
  "recent_task d t =
     (let findings = finding_rows (tk_id t) d
      in \<lparr>rc_task = t, rc_gate = text_or (tk_gate t) (task_status_text (tk_status t)), rc_findings = length findings,
          rc_severities = severity_counts findings, rc_score = score_shown findings,
          rc_summary = text_or (tk_error t) ''Review completed'', rc_called_back = (tk_cb_state t = Some CB_Succeeded),
          rc_usage = aggregate_task_usage (tk_id t) d, rc_calls = length (review_sessions (tk_id t) d)\<rparr>)"

record recent_report_view =
  rq_start :: instant
  rq_end :: instant
  rq_hours :: int
  rq_limit :: int
  rq_matched :: nat
  rq_total :: nat
  rq_passed :: nat
  rq_failed :: nat
  rq_unfinished :: nat
  rq_findings :: nat
  rq_called_back :: nat
  rq_tokens :: int
  rq_statuses :: "(string \<times> nat) list"
  rq_gates :: "(string \<times> nat) list"
  rq_apps :: "(string \<times> nat) list"
  rq_severities :: "(string \<times> nat) list"
  rq_tasks :: "recent_task_row list"

definition recent_rows :: "int \<Rightarrow> nat \<Rightarrow> instant \<Rightarrow> db \<Rightarrow> cr_task list" where
  "recent_rows hours limit now d =
     take limit (sort_key (\<lambda>t. - tk_created t) (filter (\<lambda>t. now - 3600 * hours \<le> tk_created t) (db_tasks d)))"

definition recent_report :: "int \<Rightarrow> int \<Rightarrow> instant \<Rightarrow> db \<Rightarrow> recent_report_view" where
  "recent_report hours limit now d =
     (let safe_hours = max 1 hours; safe_limit = min (max 1 limit) 1000;
          tasks = map (recent_task d) (recent_rows safe_hours (nat safe_limit) now d);
          status = (\<lambda>t. tk_status (rc_task t))
      in \<lparr>rq_start = now - 3600 * safe_hours, rq_end = now, rq_hours = safe_hours, rq_limit = safe_limit,
          rq_matched = length tasks, rq_total = length tasks,
          rq_passed = count_where (\<lambda>t. rc_gate t \<in> {''passed'', ''skipped''}) tasks,
          rq_failed = count_where (\<lambda>t. status t = TFailed \<or> rc_gate t \<in> {''failed'', ''incomplete''}) tasks,
          rq_unfinished = count_where (\<lambda>t. status t \<in> {TRunning, TQueued}) tasks,
          rq_findings = sum_list (map rc_findings tasks), rq_called_back = count_where rc_called_back tasks,
          rq_tokens = sum_list (map (\<lambda>t. us_total (rc_usage t)) tasks),
          rq_statuses = tally (map (\<lambda>t. task_status_text (status t)) tasks),
          rq_gates = tally (map rc_gate tasks),
          rq_apps = most_common 12 (map (\<lambda>t. tk_app_name (rc_task t)) tasks),
          rq_severities = total_counts (map rc_severities tasks), rq_tasks = tasks\<rparr>)"

section \<open>The report of a task\<close>

record report_view =
  rv_task :: cr_task
  rv_summary :: string
  rv_score :: nat
  rv_passed :: bool
  rv_duration :: "int option"
  rv_source :: string
  rv_findings :: "finding_row list"
  rv_severities :: "(string \<times> nat) list"
  rv_mode :: string
  rv_plan :: "reviewer_plan list"
  rv_sessions :: "reviewer_run list"
  rv_feedback :: "feedback_row list"
  rv_events :: "task_event list"
  rv_usage :: usage

definition trigger_source :: "json_dict \<Rightarrow> string" where
  "trigger_source request =
     (if truthy (dget request ''ci_task_id'') \<or> truthy (dget request ''ci_record_id'') then ''ci''
      else py_str (py_or (py_or (dget request ''source'') (dget request ''trigger_source'')) (JStr ''api'')))"

definition duration_seconds :: "cr_task \<Rightarrow> int option" where
  "duration_seconds t =
     (case (tk_started t, tk_finished t) of (Some a, Some b) \<Rightarrow> Some (b - a) | _ \<Rightarrow> None)"

definition report_detail :: "string \<Rightarrow> db \<Rightarrow> report_view option" where
  "report_detail task_id d =
     map_option (\<lambda>task.
       (let findings = finding_rows task_id d; plans = plan_rows task_id d; events = event_rows task_id d
        in \<lparr>rv_task = task, rv_summary = text_or (tk_error task) ''Review completed'', rv_score = score_shown findings,
            rv_passed = (tk_gate task \<in> {Some ''passed'', Some ''skipped''}), rv_duration = duration_seconds task,
            rv_source = trigger_source (tk_request task), rv_findings = findings,
            rv_severities = severity_counts findings, rv_mode = review_mode plans events, rv_plan = plans,
            rv_sessions = review_sessions task_id d, rv_feedback = feedback_rows task_id d, rv_events = events,
            rv_usage = aggregate_task_usage task_id d\<rparr>)) (get_task task_id d)"

section \<open>Sums\<close>

lemma sum_tally: "sum_list (map snd (tally xs)) = length xs"
  by (simp add: tally_def comp_def sum_list_distinct_conv_sum_set sum_count_set)

lemma sum_over_keys:
  "finite ks \<Longrightarrow> fst ` set l \<subseteq> ks \<Longrightarrow> (\<Sum>k \<in> ks. sum_list (map snd (filter (\<lambda>p. fst p = k) l))) = sum_list (map snd l)"
  for l :: "('a \<times> nat) list"
proof (induction l)
  case (Cons p l)
  have "(\<Sum>k \<in> ks. sum_list (map snd (filter (\<lambda>q. fst q = k) (p # l))))
      = (\<Sum>k \<in> ks. (if k = fst p then snd p else 0) + sum_list (map snd (filter (\<lambda>q. fst q = k) l)))"
    by (rule sum.cong) auto
  then show ?case using Cons by (simp add: sum.distrib)
qed simp

lemma sum_total_counts: "sum_list (map snd (total_counts cs)) = sum_list (map (\<lambda>c. sum_list (map snd c)) cs)"
proof -
  have "sum_list (map snd (total_counts cs)) = sum_list (map snd (concat cs))"
    unfolding total_counts_def using sum_over_keys [of "set (map fst (concat cs))" "concat cs"]
    by (simp add: comp_def sum_list_distinct_conv_sum_set)
  also have "\<dots> = sum_list (map (\<lambda>c. sum_list (map snd c)) cs)" by (induction cs) simp_all
  finally show ?thesis .
qed

lemma sum_severity_counts: "sum_list (map snd (severity_counts fs)) = length fs"
  by (simp add: severity_counts_def sum_tally)

lemma recent_rows_facts:
  "length (recent_rows h n now d) \<le> n"
  "set (recent_rows h n now d) \<subseteq> {t \<in> set (db_tasks d). now - 3600 * h \<le> tk_created t}"
  "sorted_wrt (\<lambda>a b. tk_created b \<le> tk_created a) (recent_rows h n now d)"
proof -
  have "sorted (map (\<lambda>t. - tk_created t) (recent_rows h n now d))"
    by (simp add: recent_rows_def take_map [symmetric] sorted_wrt_take)
  then show "sorted_wrt (\<lambda>a b. tk_created b \<le> tk_created a) (recent_rows h n now d)"
    by (simp add: sorted_map)
qed (auto simp: recent_rows_def dest: in_set_takeD)

lemma recent_rows_complete:
  "length (recent_rows h n now d) < n \<Longrightarrow> set (recent_rows h n now d) = {t \<in> set (db_tasks d). now - 3600 * h \<le> tk_created t}"
  by (auto simp: recent_rows_def)

lemma recent_fields:
  "map rc_task (rq_tasks (recent_report hours limit now d)) = recent_rows (max 1 hours) (nat (min (max 1 limit) 1000)) now d"
  "rq_total (recent_report hours limit now d) = length (recent_rows (max 1 hours) (nat (min (max 1 limit) 1000)) now d)"
  "rq_limit (recent_report hours limit now d) = min (max 1 limit) 1000"
  "rq_start (recent_report hours limit now d) = now - 3600 * max 1 hours"
  by (simp_all add: recent_report_def recent_task_def Let_def comp_def)

lemma recent_sums:
  "sum_list (map snd (rq_statuses (recent_report hours limit now d))) = rq_total (recent_report hours limit now d)"
  "sum_list (map snd (rq_gates (recent_report hours limit now d))) = rq_total (recent_report hours limit now d)"
  "sum_list (map snd (rq_severities (recent_report hours limit now d))) = rq_findings (recent_report hours limit now d)"
  by (simp_all add: recent_report_def Let_def sum_tally sum_total_counts comp_def recent_task_def sum_severity_counts)

text \<open>The report on recent tasks adds up: it shows at most the limit and never more than a thousand tasks,
  newest first, all of the window and every one of it unless the limit is reached; the counts by status and by
  gate each sum to the number of tasks shown, those by severity to the number of findings.\<close>

theorem recent_report_adds_up:
  "let r = recent_report hours limit now d; tasks = map rc_task (rq_tasks r)
   in rq_total r = length tasks \<and> int (rq_total r) \<le> rq_limit r \<and> rq_limit r \<le> 1000
     \<and> sorted_wrt (\<lambda>a b. tk_created b \<le> tk_created a) tasks
     \<and> (if int (rq_total r) < rq_limit r then set tasks = {t \<in> set (db_tasks d). rq_start r \<le> tk_created t}
        else set tasks \<subseteq> {t \<in> set (db_tasks d). rq_start r \<le> tk_created t})
     \<and> sum_list (map snd (rq_statuses r)) = rq_total r \<and> sum_list (map snd (rq_gates r)) = rq_total r
     \<and> sum_list (map snd (rq_severities r)) = rq_findings r"
proof -
  let ?r = "recent_report hours limit now d" and ?n = "nat (min (max 1 limit) 1000)"
  let ?ts = "recent_rows (max 1 hours) ?n now d"
  have "length ?ts \<le> ?n" by (rule recent_rows_facts)
  then have bound: "int (rq_total ?r) \<le> rq_limit ?r" unfolding recent_fields by linarith
  have complete: "set ?ts = {t \<in> set (db_tasks d). rq_start ?r \<le> tk_created t}" if "int (rq_total ?r) < rq_limit ?r"
    unfolding recent_fields by (rule recent_rows_complete) (use that [unfolded recent_fields] in linarith)
  have some: "set ?ts \<subseteq> {t \<in> set (db_tasks d). rq_start ?r \<le> tk_created t}"
    unfolding recent_fields by (rule recent_rows_facts)
  have branch: "if int (rq_total ?r) < rq_limit ?r then set ?ts = {t \<in> set (db_tasks d). rq_start ?r \<le> tk_created t}
      else set ?ts \<subseteq> {t \<in> set (db_tasks d). rq_start ?r \<le> tk_created t}"
    using complete some by (simp only: split: if_split) blast
  have limit: "rq_limit ?r \<le> 1000" unfolding recent_fields by simp
  show ?thesis
    unfolding Let_def recent_sums recent_fields(1)
    by (intro conjI recent_fields(2) bound limit recent_rows_facts(3) branch refl)
qed

section \<open>Progress\<close>

definition item_of_run :: "reviewer_plan \<Rightarrow> reviewer_run option \<Rightarrow> progress_item \<Rightarrow> bool" where
  "item_of_run p run item \<longleftrightarrow> pg_reviewer item = rp_reviewer p \<and> pg_required item = Some (rp_required p) \<and>
     (case run of
        None \<Rightarrow> pg_status item = ''queued'' \<and> pg_id item = None
      | Some r \<Rightarrow> pg_status item = run_status_text (rr_status r) \<and> pg_id item = Some (rr_id r) \<and> pg_error item = rr_error r)"

lemma latest_run_reviewer: "latest_run runs n = Some r \<Longrightarrow> rr_reviewer r = n \<and> r \<in> set runs"
  unfolding latest_run_def by (auto dest: find_Some_key)

lemma plan_item_of_run: "item_of_run p (latest_run runs (rp_reviewer p)) (plan_item_of runs p)"
  by (auto simp: item_of_run_def plan_item_of_def planned_item_def run_item_def split: option.split dest: latest_run_reviewer)

lemma judge_item: "synthetic_judge_session events = Some i \<Longrightarrow> pg_reviewer i = ''cr_judge'' \<and> judge_events events \<noteq> []"
  by (auto simp: synthetic_judge_session_def Let_def split: list.splits)

lemma judge_missing: "synthetic_judge_session events = None \<longleftrightarrow> judge_events events = []"
  by (auto simp: synthetic_judge_session_def Let_def split: list.splits)

lemma list_ex_image: "list_ex (\<lambda>x. f x = y) xs \<longleftrightarrow> y \<in> set (map f xs)"
  by (induction xs) auto

text \<open>C34: the progress of a task shows the planned reviewers first, in the order of the plan, each with its newest
  run or as queued when it has none; then every other reviewer that ran; and the judge exactly when it is
  planned, ran, or an event of it was recorded.\<close>

theorem progress_follows_plan:
  "let items = review_progress plans runs events
   in list_all2 (\<lambda>p. item_of_run p (latest_run runs (rp_reviewer p))) plans (take (length plans) items)
    \<and> set (map pg_reviewer items) = set (map rp_reviewer plans) \<union> set (map rr_reviewer runs)
        \<union> (if judge_events events = [] then {} else {''cr_judge''})"
proof -
  let ?merged = "map (plan_item_of runs) plans @ map run_item (filter (\<lambda>r. rr_reviewer r \<notin> set (map rp_reviewer plans)) runs)"
  let ?known = "set (map rp_reviewer plans) \<union> set (map rr_reviewer runs)"
  obtain merged where merged: "merged = ?merged" by simp
  have name: "pg_reviewer (plan_item_of runs p) = rp_reviewer p" for p
    using plan_item_of_run [of p runs] by (simp add: item_of_run_def)
  have known: "set (map pg_reviewer merged) = ?known"
    by (auto simp: merged name run_item_def image_iff)
  have first: "list_all2 (\<lambda>p. item_of_run p (latest_run runs (rp_reviewer p))) plans (take (length plans) (merged @ more))" for more
    by (simp add: merged list_all2_map2 plan_item_of_run list_all2_same)
  have items: "review_progress plans runs events
      = (if ''cr_judge'' \<in> ?known then merged else merged @ opt_list (synthetic_judge_session events))"
    unfolding review_progress_def Let_def merged [symmetric] list_ex_image known by (rule refl)
  have "set (map pg_reviewer (review_progress plans runs events)) = ?known \<union> (if judge_events events = [] then {} else {''cr_judge''})"
  proof (cases "synthetic_judge_session events")
    case None
    then have "judge_events events = []" by (simp only: judge_missing)
    with None known show ?thesis unfolding items by (simp add: opt_list_def)
  next
    case (Some i)
    then have i: "pg_reviewer i = ''cr_judge''" "judge_events events \<noteq> []" by (auto dest: judge_item)
    show ?thesis
    proof (cases "''cr_judge'' \<in> ?known")
      case True
      then show ?thesis using i known unfolding items by auto
    next
      case False
      then show ?thesis using i known unfolding items Some by (simp add: opt_list_def)
    qed
  qed
  moreover have "list_all2 (\<lambda>p. item_of_run p (latest_run runs (rp_reviewer p))) plans
      (take (length plans) (review_progress plans runs events))"
    unfolding items using first [of "[]"] first by (simp only: append_Nil2 split: if_split) blast
  ultimately show ?thesis unfolding Let_def by blast
qed

section \<open>Tokens of a report\<close>

lemma total_of_uses: "us_total (foldl usage_plus u xs) = us_total u + sum_list (map us_total xs)"
  by (induction xs arbitrary: u) (simp_all add: usage_plus_def)

lemma sum_sorted: "sum_list (map f (sort_key k xs)) = (sum_list (map f xs) :: int)"
  by (metis mset_map mset_sort sum_mset_sum_list)

text \<open>The report of a task adds up: the tokens it shows are the sum over the reviewer runs and the feedback
  sessions it lists, its counts by severity sum to the findings it lists, all of its task, and the score is
  full exactly without findings.\<close>

theorem report_detail_adds_up:
  "(case report_detail task_id d of
      None \<Rightarrow> get_task task_id d = None
    | Some v \<Rightarrow> us_total (rv_usage v)
          = sum_list (map (\<lambda>r. us_total (rr_usage r)) (rv_sessions v))
            + sum_list (map (\<lambda>s. us_total (fb_usage (fr_session s))) (rv_feedback v))
        \<and> sum_list (map snd (rv_severities v)) = length (rv_findings v)
        \<and> set (map fw_finding (rv_findings v)) = {f \<in> set (db_findings d). fn_task f = task_id}
        \<and> (rv_score v = 100 \<longleftrightarrow> rv_findings v = []))"
proof (cases "get_task task_id d")
  case (Some task)
  have "us_total (aggregate_task_usage task_id d)
      = sum_list (map (\<lambda>r. us_total (rr_usage r)) (review_sessions task_id d))
        + sum_list (map (\<lambda>s. us_total (fb_usage (fr_session s))) (feedback_rows task_id d))"
    by (simp add: aggregate_task_usage_def total_of_uses usage_zero_def review_sessions_def feedback_rows_def comp_def sum_sorted)
  moreover have "set (map fw_finding (finding_rows task_id d)) = {f \<in> set (db_findings d). fn_task f = task_id}"
    by (auto simp: finding_rows_def comp_def)
  ultimately show ?thesis
    by (simp add: Some report_detail_def Let_def sum_severity_counts score_shown_def)
qed (simp add: report_detail_def)

end
