(* ===== verification/Usage_Log.thy ===== *)
theory Usage_Log
  imports Prelude "HOL-Library.List_Lexorder" "HOL-Library.Multiset"
begin

text \<open>
  The usage log, \<open>core/usage.py\<close>, and the cost report the service computes from it (\<open>get_cost_report\<close> in
  \<open>core/service.py\<close>). The log is a directory of files, one a day, with one JSON line for each call of a
  model; the text of a line and its reading are parameters, as are the calendar days of instants.
\<close>

section \<open>Accumulating into a dict\<close>

text \<open>\<open>m[k] = f(m.get(k, z))\<close>: a new key goes to the end.\<close>

fun upsert :: "'k \<Rightarrow> ('v \<Rightarrow> 'v) \<Rightarrow> 'v \<Rightarrow> ('k \<times> 'v) list \<Rightarrow> ('k \<times> 'v) list" where
  "upsert k f z [] = [(k, f z)]"
| "upsert k f z ((k', v) # m) = (if k' = k then (k', f v) # m else (k', v) # upsert k f z m)"

definition group_by :: "('a \<Rightarrow> 'k) \<Rightarrow> ('a \<Rightarrow> 'v \<Rightarrow> 'v) \<Rightarrow> 'v \<Rightarrow> 'a list \<Rightarrow> ('k \<times> 'v) list" where
  "group_by key f z xs = fold (\<lambda>x. upsert (key x) (f x) z) xs []"

lemma keys_upsert: "set (map fst (upsert k f z m)) = insert k (set (map fst m))"
  by (induction k f z m rule: upsert.induct) (simp_all add: insert_commute)

lemma distinct_upsert: "distinct (map fst m) \<Longrightarrow> distinct (map fst (upsert k f z m))"
  by (induction m) (auto simp: keys_upsert simp del: set_map)

lemma get_upsert: "map_of (upsert k f z m) k' = (if k' = k then Some (f (case map_of m k of Some v \<Rightarrow> v | None \<Rightarrow> z)) else map_of m k')"
  by (induction m) (auto split: option.split)

lemma keys_group: "set (map fst (group_by key f z xs)) = key ` set xs"
proof -
  have "set (map fst (fold (\<lambda>x. upsert (key x) (f x) z) xs m)) = set (map fst m) \<union> key ` set xs" for m
    by (induction xs arbitrary: m) (auto simp: keys_upsert simp del: set_map)
  then show ?thesis by (simp add: group_by_def)
qed

lemma distinct_group: "distinct (map fst (group_by key f z xs))"
proof -
  have "distinct (map fst m) \<Longrightarrow> distinct (map fst (fold (\<lambda>x. upsert (key x) (f x) z) xs m))" for m
    by (induction xs arbitrary: m) (auto simp: distinct_upsert)
  then show ?thesis by (simp add: group_by_def)
qed

text \<open>What a dict holds under a key is what was folded under it.\<close>

lemma get_group:
  "map_of (group_by key f z xs) k = (if k \<in> key ` set xs then Some (fold f (filter (\<lambda>x. key x = k) xs) z) else None)"
proof -
  have "map_of (fold (\<lambda>x. upsert (key x) (f x) z) xs m) k
      = (if k \<in> key ` set xs then Some (fold f (filter (\<lambda>x. key x = k) xs) (case map_of m k of Some v \<Rightarrow> v | None \<Rightarrow> z))
         else map_of m k)" for m
  proof (induction xs arbitrary: m)
    case (Cons x xs)
    have "filter (\<lambda>y. key y = k) xs = []" if "k \<notin> key ` set xs"
      using that by (auto simp: filter_empty_conv)
    with Cons show ?case by (auto simp: get_upsert split: option.split)
  qed simp
  then show ?thesis by (simp add: group_by_def)
qed

lemma sum_upsert:
  fixes g :: "'v \<Rightarrow> int"
  assumes "\<And>v. g (f v) = n + g v" and "g z = 0"
  shows "sum_list (map (\<lambda>p. g (snd p)) (upsert k f z m)) = n + sum_list (map (\<lambda>p. g (snd p)) m)"
  by (induction m) (auto simp: assms)

lemma sum_group:
  fixes g :: "'v \<Rightarrow> int"
  assumes "\<And>x v. g (f x v) = n x + g v" and "g z = 0"
  shows "sum_list (map (\<lambda>p. g (snd p)) (group_by key f z xs)) = sum_list (map n xs)"
proof -
  have "sum_list (map (\<lambda>p. g (snd p)) (fold (\<lambda>x. upsert (key x) (f x) z) xs m))
      = sum_list (map n xs) + sum_list (map (\<lambda>p. g (snd p)) m)" for m
    by (induction xs arbitrary: m) (simp_all add: sum_upsert [of g, OF assms])
  then show ?thesis by (simp add: group_by_def)
qed

section \<open>The log\<close>

record usage_entry =
  ue_task :: string
  ue_category :: string
  ue_prompt :: int
  ue_completion :: int
  ue_thinking :: int
  ue_total :: int
  ue_code :: int
  ue_aware :: bool
  ue_created :: instant

record usage_format =
  uf_day :: "instant \<Rightarrow> string"
  uf_line :: "usage_entry \<Rightarrow> string"
  uf_read :: "string \<Rightarrow> usage_entry py_result"

type_synonym usage_files = "(string \<times> string) list"

definition append_usage :: "usage_format \<Rightarrow> usage_entry \<Rightarrow> usage_files \<Rightarrow> usage_files" where
  "append_usage uf e = upsert (uf_day uf (ue_created e)) (\<lambda>t. t @ uf_line uf e @ [CHR 0x0A]) []"

definition read_usage_file :: "usage_format \<Rightarrow> string \<Rightarrow> usage_entry list py_result" where
  "read_usage_file uf t =
     fold_r (\<lambda>rows l. if py_strip l = [] then Inr rows else bind_r (uf_read uf l) (\<lambda>e. Inr (rows @ [e]))) [] (splitlines t)"

definition list_usage :: "usage_format \<Rightarrow> usage_files \<Rightarrow> usage_entry list py_result" where
  "list_usage uf files = fold_r (\<lambda>rows p. bind_r (read_usage_file uf (snd p)) (\<lambda>es. Inr (rows @ es))) [] (sort_key fst files)"

text \<open>What is relied on: a line is read back, it is one line, and it is not blank.\<close>

definition usage_format_ok :: "usage_format \<Rightarrow> bool" where
  "usage_format_ok uf \<longleftrightarrow>
     (\<forall>e. uf_read uf (uf_line uf e) = Inr e \<and> py_strip (uf_line uf e) \<noteq> [] \<and> (\<forall>c \<in> set (uf_line uf e). \<not> is_line_break c))"

lemma fold_r_collect:
  assumes "\<And>s x. x \<in> set xs \<Longrightarrow> f s x = Inr (s @ g x)"
  shows "fold_r f s xs = Inr (s @ concat (map g xs))"
  using assms by (induction xs arbitrary: s) simp_all

lemma read_written:
  assumes "usage_format_ok uf"
  shows "read_usage_file uf (concat (map (\<lambda>e. uf_line uf e @ [CHR 0x0A]) es)) = Inr es"
proof -
  have "splitlines (concat (map (\<lambda>l. l @ [CHR 0x0A]) (map (uf_line uf) es))) = map (uf_line uf) es"
    by (rule splitlines_join_lines) (use assms in \<open>auto simp: usage_format_ok_def\<close>)
  moreover have "fold_r (\<lambda>rows l. if py_strip l = [] then Inr rows else bind_r (uf_read uf l) (\<lambda>e. Inr (rows @ [e]))) s (map (uf_line uf) es)
      = Inr (s @ es)" for s
    using assms by (induction es arbitrary: s) (simp_all add: usage_format_ok_def)
  ultimately show ?thesis by (simp add: read_usage_file_def comp_def)
qed

text \<open>The file of a day holds the lines of its calls, in order.\<close>

definition usage_lines :: "usage_format \<Rightarrow> usage_entry list \<Rightarrow> string" where
  "usage_lines uf es = concat (map (\<lambda>e. uf_line uf e @ [CHR 0x0A]) es)"

definition day_entries :: "usage_format \<Rightarrow> usage_entry list \<Rightarrow> string \<Rightarrow> usage_entry list" where
  "day_entries uf es day = filter (\<lambda>e. uf_day uf (ue_created e) = day) es"

definition written :: "usage_format \<Rightarrow> usage_entry list \<Rightarrow> usage_files" where
  "written uf es = fold (append_usage uf) es []"

lemma written_group:
  "written uf es = group_by (\<lambda>e. uf_day uf (ue_created e)) (\<lambda>e t. t @ uf_line uf e @ [CHR 0x0A]) [] es"
  by (simp add: written_def group_by_def append_usage_def [abs_def])

lemma fold_lines: "fold (\<lambda>e t. t @ uf_line uf e @ [CHR 0x0A]) es t = t @ usage_lines uf es"
  by (induction es arbitrary: t) (simp_all add: usage_lines_def)

lemma written_files:
  "distinct (map fst (written uf es))"
  "set (map fst (written uf es)) = uf_day uf ` ue_created ` set es"
  "(day, t) \<in> set (written uf es) \<Longrightarrow> t = usage_lines uf (day_entries uf es day)"
proof -
  show d: "distinct (map fst (written uf es))" unfolding written_group by (rule distinct_group)
  show "set (map fst (written uf es)) = uf_day uf ` ue_created ` set es"
    unfolding written_group keys_group by (simp add: image_image)
  assume "(day, t) \<in> set (written uf es)"
  then have "map_of (written uf es) day = Some t" using d by simp
  then show "t = usage_lines uf (day_entries uf es day)"
    unfolding written_group get_group by (simp add: fold_lines day_entries_def split: if_splits)
qed

text \<open>Sorting by a key is the concatenation of the classes in the order of their keys.\<close>

lemma sort_by_classes:
  fixes k :: "'a \<Rightarrow> 'b::linorder"
  assumes "sorted ks" and "distinct ks" and "set ks = k ` set xs"
  shows "concat (map (\<lambda>d. filter (\<lambda>x. k x = d) xs) ks) = sort_key k xs"
proof (rule properties_for_sort_key [symmetric])
  have "distinct ds \<Longrightarrow> mset (concat (map (\<lambda>d. filter (\<lambda>x. k x = d) xs) ds)) = mset (filter (\<lambda>x. k x \<in> set ds) xs)" for ds
    by (induction ds) (auto simp: multiset_eq_iff)
  moreover have "filter (\<lambda>x. k x \<in> set ks) xs = xs" using assms(3) by simp
  ultimately show "mset (concat (map (\<lambda>d. filter (\<lambda>x. k x = d) xs) ks)) = mset xs" using assms(2) by metis
  show "sorted (map k (concat (map (\<lambda>d. filter (\<lambda>x. k x = d) xs) ks)))"
    using assms(1)
  proof (induction ks)
    case (Cons d ks)
    have "sorted (map k (filter (\<lambda>x. k x = d) xs))" by (rule sorted_map_same)
    with Cons show ?case by (auto simp: sorted_append)
  qed simp
  have "filter (\<lambda>x. k y = k x) (concat (map (\<lambda>d. filter (\<lambda>x. k x = d) xs) ds))
      = (if k y \<in> set ds then filter (\<lambda>x. k y = k x) xs else [])" if "distinct ds" for y ds
    using that by (induction ds) (auto simp: filter_empty_conv intro!: filter_cong)
  then show "\<And>x. x \<in> set (concat (map (\<lambda>d. filter (\<lambda>x. k x = d) xs) ks)) \<Longrightarrow>
      filter (\<lambda>y. k x = k y) (concat (map (\<lambda>d. filter (\<lambda>x. k x = d) xs) ks)) = filter (\<lambda>y. k x = k y) xs"
    using assms(2) by auto
qed

text \<open>What was appended to an empty log is what the log lists: every call once, the days in order and
  within a day in the order of the calls.\<close>

theorem usage_roundtrip:
  assumes "usage_format_ok uf"
  shows "list_usage uf (written uf es) = Inr (sort_key (\<lambda>e. uf_day uf (ue_created e)) es)"
proof -
  let ?day = "\<lambda>e. uf_day uf (ue_created e)" and ?files = "sort_key fst (written uf es)"
  have "read_usage_file uf (snd p) = Inr (day_entries uf es (fst p))" if "p \<in> set (written uf es)" for p
    using written_files(3) [of "fst p" "snd p" uf es] that read_written [OF assms, of "day_entries uf es (fst p)"]
    by (simp add: usage_lines_def)
  then have "list_usage uf (written uf es) = Inr ([] @ concat (map (\<lambda>p. day_entries uf es (fst p)) ?files))"
    unfolding list_usage_def by (intro fold_r_collect) simp
  moreover have "concat (map (\<lambda>d. filter (\<lambda>e. ?day e = d) es) (map fst ?files)) = sort_key ?day es"
  proof (rule sort_by_classes)
    show "distinct (map fst ?files)" using written_files(1) [of uf es] by (simp add: distinct_map)
    show "set (map fst ?files) = ?day ` set es" using written_files(2) [of uf es] by (simp add: image_image)
  qed simp
  ultimately show ?thesis by (simp add: day_entries_def comp_def)
qed

section \<open>The cost report\<close>

text \<open>\<open>round(x, n)\<close>: halves go to the even digit.\<close>

definition py_round :: "nat \<Rightarrow> rat \<Rightarrow> rat" where
  "py_round n x =
     (let s = x * 10 ^ n; f = \<lfloor>s\<rfloor>; r = s - of_int f
      in of_int (if r < 1 / 2 \<or> r = 1 / 2 \<and> even f then f else f + 1) / 10 ^ n)"

definition in_period :: "instant option \<Rightarrow> instant option \<Rightarrow> instant \<Rightarrow> bool" where
  "in_period start_at end_at t \<longleftrightarrow>
     (case start_at of Some a \<Rightarrow> a \<le> t | None \<Rightarrow> True) \<and> (case end_at of Some b \<Rightarrow> t \<le> b | None \<Rightarrow> True)"

definition bucket_seconds :: "int \<Rightarrow> int" where
  "bucket_seconds minutes = max minutes 1 * 60"

definition bucket_start :: "int \<Rightarrow> instant \<Rightarrow> instant" where
  "bucket_start seconds t = t div seconds * seconds"

record token_stats =
  to_calls :: int
  to_tokens :: int
  to_prompt :: int
  to_completion :: int
  to_thinking :: int

definition no_tokens :: token_stats where
  "no_tokens = \<lparr>to_calls = 0, to_tokens = 0, to_prompt = 0, to_completion = 0, to_thinking = 0\<rparr>"

definition add_entry :: "usage_entry \<Rightarrow> token_stats \<Rightarrow> token_stats" where
  "add_entry e s =
     \<lparr>to_calls = to_calls s + 1, to_tokens = to_tokens s + ue_total e, to_prompt = to_prompt s + ue_prompt e,
      to_completion = to_completion s + ue_completion e, to_thinking = to_thinking s + ue_thinking e\<rparr>"

record category_row =
  cg_category :: string
  cg_avg_tokens :: rat
  cg_avg_prompt :: rat
  cg_avg_completion :: rat
  cg_avg_thinking :: rat
  cg_calls :: int
  cg_total :: int

definition average :: "int \<Rightarrow> int \<Rightarrow> rat" where
  "average tokens calls = (if calls = 0 then 0 else py_round 1 (of_int tokens / of_int calls))"

definition category_entry :: "string \<times> token_stats \<Rightarrow> category_row" where
  "category_entry p =
     (case p of (category, s) \<Rightarrow>
       \<lparr>cg_category = category, cg_avg_tokens = average (to_tokens s) (to_calls s), cg_avg_prompt = average (to_prompt s) (to_calls s),
        cg_avg_completion = average (to_completion s) (to_calls s), cg_avg_thinking = average (to_thinking s) (to_calls s),
        cg_calls = to_calls s, cg_total = to_tokens s\<rparr>)"

record cost_report =
  cr_calls :: int
  cr_tokens :: int
  cr_prompt :: int
  cr_completion :: int
  cr_thinking :: int
  cr_average :: rat
  cr_categories :: "category_row list"
  cr_buckets :: "(instant \<times> token_stats) list"

definition category_of :: "usage_entry \<Rightarrow> string" where
  "category_of e = text_or (Some (ue_category e)) ''unknown''"

text \<open>A \<open>datetime\<close> as Python compares it: whether it has an offset, and the instant. \<open>UsageStore.append\<close> takes
  \<open>datetime.now()\<close>, which has none; a bound the page sends has one.\<close>

type_synonym stamp = "bool \<times> instant"

definition mixed_stamps :: py_exc where
  "mixed_stamps = TypeError ''can't compare offset-naive and offset-aware datetimes''"

definition earlier :: "stamp \<Rightarrow> stamp \<Rightarrow> bool py_result" where
  "earlier a b = (if fst a = fst b then Inr (snd a < snd b) else Inl mixed_stamps)"

definition entry_in_period :: "stamp option \<Rightarrow> stamp option \<Rightarrow> usage_entry \<Rightarrow> bool py_result" where
  "entry_in_period start_at end_at e =
     (let t = (ue_aware e, ue_created e)
      in bind_r (case start_at of Some a \<Rightarrow> earlier t a | None \<Rightarrow> Inr False) (\<lambda>too_early.
           if too_early then Inr False
           else bind_r (case end_at of Some b \<Rightarrow> earlier b t | None \<Rightarrow> Inr False) (\<lambda>too_late. Inr (\<not> too_late))))"

definition rows_in_period :: "stamp option \<Rightarrow> stamp option \<Rightarrow> usage_entry list \<Rightarrow> usage_entry list py_result" where
  "rows_in_period start_at end_at entries =
     fold_r (\<lambda>rows e. bind_r (entry_in_period start_at end_at e) (\<lambda>b. Inr (if b then rows @ [e] else rows))) [] entries"

definition cost_report_of :: "int \<Rightarrow> usage_entry list \<Rightarrow> cost_report" where
  "cost_report_of bucket_minutes rows =
     (let calls = int (length rows); tokens = sum_list (map ue_total rows);
          categories = group_by category_of add_entry no_tokens rows;
          buckets = group_by (\<lambda>e. bucket_start (bucket_seconds bucket_minutes) (ue_created e)) add_entry no_tokens rows
      in \<lparr>cr_calls = calls, cr_tokens = tokens, cr_prompt = sum_list (map ue_prompt rows),
          cr_completion = sum_list (map ue_completion rows), cr_thinking = sum_list (map ue_thinking rows),
          cr_average = average tokens calls, cr_categories = map category_entry (sort_key fst categories),
          cr_buckets = sort_key fst buckets\<rparr>)"

definition get_cost_report :: "stamp option \<Rightarrow> stamp option \<Rightarrow> int \<Rightarrow> usage_entry list \<Rightarrow> cost_report py_result" where
  "get_cost_report start_at end_at bucket_minutes entries =
     bind_r (rows_in_period start_at end_at entries) (\<lambda>rows. Inr (cost_report_of bucket_minutes rows))"

lemma sum_sorted_ints: "sum_list (map f (sort_key k xs)) = (sum_list (map f xs) :: int)"
  by (metis mset_map mset_sort sum_mset_sum_list)

lemma sum_tokens: "sum_list (map (\<lambda>p. to_tokens (snd p)) (group_by key add_entry no_tokens xs)) = sum_list (map ue_total xs)"
  by (rule sum_group) (simp_all add: add_entry_def no_tokens_def)

lemma sum_calls: "sum_list (map (\<lambda>p. to_calls (snd p)) (group_by key add_entry no_tokens xs)) = int (length xs)"
proof -
  have "sum_list (map (\<lambda>p. to_calls (snd p)) (group_by key add_entry no_tokens xs)) = sum_list (map (\<lambda>_. 1) xs)"
    by (rule sum_group) (simp_all add: add_entry_def no_tokens_def)
  then show ?thesis by (simp add: sum_list_triv)
qed

definition period_of :: "stamp option \<Rightarrow> stamp option \<Rightarrow> usage_entry \<Rightarrow> bool" where
  "period_of start_at end_at e = in_period (map_option snd start_at) (map_option snd end_at) (ue_created e)"

text \<open>A bound that cannot be compared with the time of a call.\<close>

definition incomparable :: "stamp option \<Rightarrow> stamp option \<Rightarrow> usage_entry \<Rightarrow> bool" where
  "incomparable start_at end_at e \<longleftrightarrow>
     (case start_at of Some a \<Rightarrow> fst a \<noteq> ue_aware e | None \<Rightarrow> False) \<or> (case end_at of Some b \<Rightarrow> fst b \<noteq> ue_aware e | None \<Rightarrow> False)"

lemma entry_period:
  "case entry_in_period start_at end_at e of
     Inl x \<Rightarrow> x = mixed_stamps \<and> incomparable start_at end_at e | Inr b \<Rightarrow> b = period_of start_at end_at e"
  by (auto simp: entry_in_period_def earlier_def incomparable_def period_of_def in_period_def Let_def bind_r_simps
      split: option.split)

lemma rows_period:
  "case fold_r (\<lambda>rows e. bind_r (entry_in_period start_at end_at e) (\<lambda>b. Inr (if b then rows @ [e] else rows))) acc entries of
     Inl x \<Rightarrow> x = mixed_stamps \<and> list_ex (incomparable start_at end_at) entries
   | Inr rows \<Rightarrow> rows = acc @ filter (period_of start_at end_at) entries"
proof (induction entries arbitrary: acc)
  case (Cons e entries)
  show ?case
  proof (cases "entry_in_period start_at end_at e")
    case (Inl x)
    then show ?thesis using entry_period [of start_at end_at e] by (simp add: bind_r_simps)
  next
    case (Inr b)
    then have "b = period_of start_at end_at e" using entry_period [of start_at end_at e] by simp
    then show ?thesis using Inr Cons [of "if b then acc @ [e] else acc"] by (auto simp: bind_r_simps split: sum.splits)
  qed
qed simp

lemma rows_in_period_facts:
  "rows_in_period start_at end_at entries = Inl x \<Longrightarrow> x = mixed_stamps \<and> list_ex (incomparable start_at end_at) entries"
  "rows_in_period start_at end_at entries = Inr rows \<Longrightarrow> rows = filter (period_of start_at end_at) entries"
  using rows_period [where acc = "[]" and entries = entries and start_at = start_at and end_at = end_at] by (simp_all add: rows_in_period_def)

lemma naive_calls_refused:
  assumes "entries \<noteq> []" and "\<not> ue_aware (hd entries)"
  shows "get_cost_report (Some (True, a)) end_at bucket_minutes entries = Inl mixed_stamps"
  using assms by (cases entries) (simp_all add: get_cost_report_def rows_in_period_def entry_in_period_def earlier_def bind_r_simps)

text \<open>The cost report adds up: over the calls of the window, the calls and tokens by category and the tokens by
  time sum to the totals shown, each category and each time is shown once, and they come in order. It is refused
  only for a window one bound of which has an offset where the time of a call has none, or the other way round.\<close>

theorem cost_report_adds_up:
  "case get_cost_report start_at end_at bucket_minutes entries of
     Inl e \<Rightarrow> e = mixed_stamps \<and> list_ex (incomparable start_at end_at) entries
   | Inr r \<Rightarrow>
       (let rows = filter (period_of start_at end_at) entries
        in cr_calls r = int (length rows) \<and> cr_tokens r = sum_list (map ue_total rows)
         \<and> sum_list (map cg_calls (cr_categories r)) = cr_calls r \<and> sum_list (map cg_total (cr_categories r)) = cr_tokens r
         \<and> sum_list (map (\<lambda>b. to_tokens (snd b)) (cr_buckets r)) = cr_tokens r
         \<and> sorted_wrt (<) (map cg_category (cr_categories r)) \<and> sorted_wrt (<) (map fst (cr_buckets r)))"
proof -
  have keys: "map (\<lambda>x. cg_category (category_entry x)) = map (fst :: string \<times> token_stats \<Rightarrow> string)"
    "map (\<lambda>x. cg_calls (category_entry x)) = map (\<lambda>p. to_calls (snd p))" "map (\<lambda>x. cg_total (category_entry x)) = map (\<lambda>p. to_tokens (snd p))"
    by (simp_all add: category_entry_def case_prod_beta)
  have strict: "sorted_wrt (<) (map fst (sort_key fst m))" if "distinct (map fst m)" for m :: "('k::linorder \<times> token_stats) list"
    using that by (simp add: strict_sorted_iff distinct_map)
  show ?thesis
  proof (cases "rows_in_period start_at end_at entries")
    case (Inl x)
    then show ?thesis using rows_in_period_facts(1) [OF Inl] by (simp add: get_cost_report_def bind_r_simps)
  next
    case (Inr rows)
    then have "rows = filter (period_of start_at end_at) entries"
      by (rule rows_in_period_facts)
    then show ?thesis
      using Inr unfolding Let_def get_cost_report_def cost_report_of_def
      by (simp add: bind_r_simps comp_def keys sum_sorted_ints sum_tokens sum_calls strict distinct_group)
  qed
qed

end
