(* ===== verification/Service_Views.thy ===== *)
theory Service_Views
  imports Service_Feedback Opencode_Runner Report_Views Usage_Log
begin

text \<open>
  What the first version of the service shows, \<open>core/service.py\<close>: the metrics of the dashboard, the pages of
  tasks and of fix sessions, the report on recent tasks with the tokens of their sessions, the detail of a
  report with its fix sessions, the code shown to the model, and the notice on a fix. The functions take the
  records \<open>list_all\<close> returns. Durations are whole seconds, so rounding them changes nothing.
\<close>

section \<open>Metrics\<close>

definition list_running :: "task_record list \<Rightarrow> task_record list" where
  "list_running records = filter (\<lambda>r. lr_status r = LRunning) records"

definition percentile_index :: "nat \<Rightarrow> nat" where
  "percentile_index n = min (n - 1) ((n - 1) * 99 div 100)"

text \<open>\<open>_percentile(values, 0.99)\<close>.\<close>

definition percentile :: "int list \<Rightarrow> int" where
  "percentile values = (if values = [] then 0 else sort values ! percentile_index (length values))"

record dashboard_metrics =
  dm_counts :: "(instant \<times> nat) list"
  dm_p99 :: "(instant \<times> int) list"

definition task_duration :: "task_record \<Rightarrow> (instant \<times> int) option" where
  "task_duration r =
     (case (lr_started r, lr_finished r) of (Some a, Some b) \<Rightarrow> Some (b, b - a) | _ \<Rightarrow> None)"

definition get_dashboard_metrics :: "instant option \<Rightarrow> instant option \<Rightarrow> int \<Rightarrow> task_record list \<Rightarrow> dashboard_metrics" where
  "get_dashboard_metrics start_at end_at bucket_minutes records =
     (let bucket = bucket_start (bucket_seconds bucket_minutes);
          kept = filter (\<lambda>r. in_period start_at end_at (lr_created r)) records;
          counts = group_by (\<lambda>r. bucket (lr_created r)) (\<lambda>_ n. n + 1) 0 kept;
          durations = filter (\<lambda>p. in_period start_at end_at (fst p)) (List.map_filter task_duration kept);
          buckets = group_by (\<lambda>p. bucket (fst p)) (\<lambda>p ds. ds @ [snd p]) [] durations
      in \<lparr>dm_counts = sort_key fst counts, dm_p99 = map (\<lambda>(b, ds). (b, percentile ds)) (sort_key fst buckets)\<rparr>)"

section \<open>Pages\<close>

record 'a page =
  pp_total :: int
  pp_page :: int
  pp_size :: int
  pp_items :: "'a list"

definition cut_page :: "int \<Rightarrow> int \<Rightarrow> int \<Rightarrow> 'a list \<Rightarrow> 'a page" where
  "cut_page pages page page_size xs =
     (let p = min (max page 1) pages; size = max page_size 1
      in \<lparr>pp_total = int (length xs), pp_page = p, pp_size = size,
          pp_items = take (nat size) (drop (nat ((p - 1) * size)) xs)\<rparr>)"

definition tasks_in_window :: "instant option \<Rightarrow> instant option \<Rightarrow> task_record list \<Rightarrow> task_record list" where
  "tasks_in_window start_at end_at records =
     sort_key (\<lambda>r. - lr_created r) (filter (\<lambda>r. in_period start_at end_at (lr_created r)) records)"

definition list_tasks_page :: "instant option \<Rightarrow> instant option \<Rightarrow> int \<Rightarrow> int \<Rightarrow> task_record list \<Rightarrow> task_record page" where
  "list_tasks_page start_at end_at page page_size records =
     (let rows = tasks_in_window start_at end_at records;
          pages = (if 0 < page_size then max 1 ((int (length rows) + page_size - 1) div page_size) else 1)
      in cut_page pages page page_size rows)"

definition fix_rows :: "instant option \<Rightarrow> instant option \<Rightarrow> (task_record \<Rightarrow> fix_session list) \<Rightarrow> task_record list \<Rightarrow>
    (task_record \<times> fix_session) list" where
  "fix_rows start_at end_at sessions records =
     sort_key (\<lambda>(r, s). - fx_created s)
       (concat (map (\<lambda>r. map (Pair r) (filter (\<lambda>s. in_period start_at end_at (fx_created s)) (sessions r))) records))"

definition list_fix_sessions_page ::
  "instant option \<Rightarrow> instant option \<Rightarrow> int \<Rightarrow> int \<Rightarrow> (task_record \<Rightarrow> fix_session list) \<Rightarrow> task_record list \<Rightarrow>
     (task_record \<times> fix_session) page" where
  "list_fix_sessions_page start_at end_at page page_size sessions records =
     (let rows = fix_rows start_at end_at sessions records; size = max page_size 1
      in cut_page (max 1 ((int (length rows) + size - 1) div size)) page page_size rows)"

section \<open>Recent tasks\<close>

record task_usage =
  tu_totals :: session_totals
  tu_input_cost :: rat
  tu_output_cost :: rat
  tu_cost :: rat
  tu_source :: string
  tu_analysis :: "session_totals option"

definition empty_token_usage :: task_usage where
  "empty_token_usage =
     \<lparr>tu_totals = \<lparr>so_calls = 0, so_usage = no_usage\<rparr>, tu_input_cost = 0, tu_output_cost = 0, tu_cost = 0,
      tu_source = ''usage_log'', tu_analysis = None\<rparr>"

definition add_usage_stats :: "session_totals \<Rightarrow> task_usage \<Rightarrow> task_usage" where
  "add_usage_stats stats u =
     u\<lparr>tu_totals := \<lparr>so_calls = so_calls (tu_totals u) + so_calls stats, so_usage = add_usage (so_usage (tu_totals u)) (so_usage stats)\<rparr>\<rparr>"

definition token_costs :: "task_usage \<Rightarrow> task_usage" where
  "token_costs u =
     (let t = so_usage (tu_totals u);
          input_cost = of_int (um_prompt t + um_cache_read t) * (125 / 100) / 1000000;
          output_cost = of_int (um_completion t + um_thinking t) * 10 / 1000000
      in u\<lparr>tu_input_cost := py_round 4 input_cost, tu_output_cost := py_round 4 output_cost,
           tu_cost := py_round 4 (input_cost + output_cost)\<rparr>)"

definition usage_of_record :: "(string list \<Rightarrow> session_totals) \<Rightarrow> task_record \<Rightarrow> task_usage \<Rightarrow> task_usage" where
  "usage_of_record load r u =
     (let stats = load (lr_sessions r)
      in if um_total (so_usage stats) \<le> 0 then u
         else add_usage_stats stats (u\<lparr>tu_source := ''opencode_db'', tu_analysis := Some stats\<rparr>))"

definition usage_by_task_id :: "(string list \<Rightarrow> session_totals) \<Rightarrow> task_record list \<Rightarrow> (string \<times> task_usage) list" where
  "usage_by_task_id load records =
     map (\<lambda>(i, u). (i, token_costs u)) (group_by lr_id (usage_of_record load) empty_token_usage records)"

definition recent_gate_status :: "task_record \<Rightarrow> string" where
  "recent_gate_status r =
     (if lr_status r \<in> {LQueued, LRunning} then record_status_text (lr_status r)
      else (case lr_result r of
              None \<Rightarrow> if lr_status r = LFailed then ''failed'' else record_status_text (lr_status r)
            | Some res \<Rightarrow> if ar_pass res then ''passed'' else ''failed''))"

definition result_findings :: "task_record \<Rightarrow> model_finding list" where
  "result_findings r = (case lr_result r of Some res \<Rightarrow> ar_findings res | None \<Rightarrow> [])"

record recent_record_row =
  rd_record :: task_record
  rd_gate :: string
  rd_pass :: "bool option"
  rd_score :: "int option"
  rd_summary :: "string option"
  rd_findings :: nat
  rd_severities :: "(string \<times> nat) list"
  rd_duration :: "int option"
  rd_usage :: task_usage

definition row_of_record :: "task_usage option \<Rightarrow> task_record \<Rightarrow> recent_record_row" where
  "row_of_record u r =
     \<lparr>rd_record = r, rd_gate = recent_gate_status r, rd_pass = map_option ar_pass (lr_result r),
      rd_score = map_option ar_score (lr_result r), rd_summary = map_option ar_summary (lr_result r),
      rd_findings = length (result_findings r),
      rd_severities = tally (map (\<lambda>f. severity_text (mf_severity f)) (result_findings r)),
      rd_duration = map_option snd (task_duration r),
      rd_usage = (case u of Some u \<Rightarrow> u | None \<Rightarrow> empty_token_usage)\<rparr>"

record recent_task_report =
  rx_start :: instant
  rx_end :: instant
  rx_hours :: int
  rx_limit :: int
  rx_matched :: nat
  rx_returned :: nat
  rx_passed :: nat
  rx_failed :: nat
  rx_unfinished :: nat
  rx_findings :: nat
  rx_called_back :: nat
  rx_tokens :: int
  rx_statuses :: "(string \<times> nat) list"
  rx_gates :: "(string \<times> nat) list"
  rx_apps :: "(string \<times> nat) list"
  rx_severities :: "(string \<times> nat) list"
  rx_rows :: "recent_record_row list"

definition recent_records :: "int \<Rightarrow> instant \<Rightarrow> task_record list \<Rightarrow> task_record list" where
  "recent_records hours now records =
     sort_key (\<lambda>r. - lr_created r) (filter (\<lambda>r. now - 3600 * hours \<le> lr_created r) records)"

definition get_recent_task_report ::
  "(string list \<Rightarrow> session_totals) \<Rightarrow> int \<Rightarrow> int \<Rightarrow> instant \<Rightarrow> task_record list \<Rightarrow> recent_task_report" where
  "get_recent_task_report load hours limit now records =
     (let safe_hours = max 1 hours; safe_limit = min (max 1 limit) 1000;
          matched = recent_records safe_hours now records; limited = take (nat safe_limit) matched;
          usage = usage_by_task_id load limited;
          rows = map (\<lambda>r. row_of_record (map_of usage (lr_id r)) r) limited; gates = map rd_gate rows
      in \<lparr>rx_start = now - 3600 * safe_hours, rx_end = now, rx_hours = safe_hours, rx_limit = safe_limit,
          rx_matched = length matched, rx_returned = length rows, rx_passed = count_list gates ''passed'',
          rx_failed = count_list gates ''failed'',
          rx_unfinished = count_list gates ''running'' + count_list gates ''queued'',
          rx_findings = sum_list (map rd_findings rows), rx_called_back = count_where (\<lambda>w. lr_callback_ok (rd_record w)) rows,
          rx_tokens = sum_list (map (\<lambda>w. um_total (so_usage (tu_totals (rd_usage w)))) rows),
          rx_statuses = tally (map (\<lambda>w. record_status_text (lr_status (rd_record w))) rows), rx_gates = tally gates,
          rx_apps = most_common 12 (map (\<lambda>w. rq_app_name (lr_request (rd_record w))) rows),
          rx_severities = total_counts (map rd_severities rows), rx_rows = rows\<rparr>)"

section \<open>The detail of a report\<close>

text \<open>The labels of the stages: "confirm the problems and their bounds", "confirm the plan", "repairing", "waiting
  for the user", "completed", "failed"; and the title of a finding that is not there, "problem".\<close>

fun fix_stage_label :: "fix_stage \<Rightarrow> string" where
  "fix_stage_label Scope_Confirmation =
    [CHR 0xE7, CHR 0xA1, CHR 0xAE, CHR 0xE8, CHR 0xAE, CHR 0xA4, CHR 0xE9, CHR 0x97, CHR 0xAE, CHR 0xE9,
     CHR 0xA2, CHR 0x98, CHR 0xE8, CHR 0x8C, CHR 0x83, CHR 0xE5, CHR 0x9B, CHR 0xB4, CHR 0xE5, CHR 0x92,
     CHR 0x8C, CHR 0xE8, CHR 0xBE, CHR 0xB9, CHR 0xE7, CHR 0x95, CHR 0x8C]"
| "fix_stage_label Plan_Confirmation =
    [CHR 0xE7, CHR 0xA1, CHR 0xAE, CHR 0xE8, CHR 0xAE, CHR 0xA4, CHR 0xE4, CHR 0xBF, CHR 0xAE, CHR 0xE5,
     CHR 0xA4, CHR 0x8D, CHR 0xE6, CHR 0x96, CHR 0xB9, CHR 0xE6, CHR 0xA1, CHR 0x88]"
| "fix_stage_label Fixing =
    [CHR 0xE8, CHR 0x87, CHR 0xAA, CHR 0xE5, CHR 0x8A, CHR 0xA8, CHR 0xE4, CHR 0xBF, CHR 0xAE, CHR 0xE5,
     CHR 0xA4, CHR 0x8D, CHR 0xE4, CHR 0xB8, CHR 0xAD]"
| "fix_stage_label Awaiting_User_Confirmation =
    [CHR 0xE7, CHR 0xAD, CHR 0x89, CHR 0xE5, CHR 0xBE, CHR 0x85, CHR 0xE7, CHR 0x94, CHR 0xA8, CHR 0xE6,
     CHR 0x88, CHR 0xB7, CHR 0xE7, CHR 0xA1, CHR 0xAE, CHR 0xE8, CHR 0xAE, CHR 0xA4]"
| "fix_stage_label Fix_Completed =
    [CHR 0xE5, CHR 0xB7, CHR 0xB2, CHR 0xE5, CHR 0xAE, CHR 0x8C, CHR 0xE6, CHR 0x88, CHR 0x90]"
| "fix_stage_label Fix_Failed =
    [CHR 0xE6, CHR 0x89, CHR 0xA7, CHR 0xE8, CHR 0xA1, CHR 0x8C, CHR 0xE5, CHR 0xA4, CHR 0xB1, CHR 0xE8,
     CHR 0xB4, CHR 0xA5]"

definition problem_text :: string where
  "problem_text =
    [CHR 0xE9, CHR 0x97, CHR 0xAE, CHR 0xE9, CHR 0xA2, CHR 0x98, CHR 0x20]"

record fix_session_view =
  fv_session :: fix_session
  fv_label :: string
  fv_titles :: "string list"

definition fix_session_views :: "fix_session list \<Rightarrow> finding_view list \<Rightarrow> fix_session_view list" where
  "fix_session_views sessions views =
     (let titles = map_of (rev (map (\<lambda>v. (vw_index v, mf_title (vw_finding v))) views))
      in sort_key (\<lambda>v. - fx_created (fv_session v))
           (map (\<lambda>s. \<lparr>fv_session = s, fv_label = fix_stage_label (fx_stage s),
                   fv_titles = map (\<lambda>i. case titles i of Some t \<Rightarrow> t | None \<Rightarrow> problem_text @ str_int i) (fx_selected s)\<rparr>) sessions))"

record detail_page =
  rg_record :: task_record
  rg_effective :: effective_report
  rg_general :: "general_feedback list"
  rg_fix :: "fix_session_view list"

definition get_report_detail :: "task_record option \<Rightarrow> feedback_file \<Rightarrow> instant \<Rightarrow> detail_page py_result" where
  "get_report_detail found files now =
     (case found of
        Some r \<Rightarrow> (case lr_result r of
            Some res \<Rightarrow>
              (let e = effective_state (lr_request r) res (fb_threads files) now
               in Inr \<lparr>rg_record = r, rg_effective = e, rg_general = fb_general files,
                       rg_fix = fix_session_views (fb_fix files) (er_views e)\<rparr>)
          | None \<Rightarrow> Inl (RuntimeError ''report not ready''))
      | None \<Rightarrow> Inl (RuntimeError ''report not ready''))"

text \<open>The code shown to the model, from what \<open>git show\<close> answered; "the code cannot be read: ".\<close>

definition no_context_text :: string where
  "no_context_text =
    [CHR 0xE6, CHR 0x97, CHR 0xA0, CHR 0xE6, CHR 0xB3, CHR 0x95, CHR 0xE8, CHR 0xAF, CHR 0xBB, CHR 0xE5,
     CHR 0x8F, CHR 0x96, CHR 0xE4, CHR 0xBB, CHR 0xA3, CHR 0xE7, CHR 0xA0, CHR 0x81, CHR 0xE4, CHR 0xB8,
     CHR 0x8A, CHR 0xE4, CHR 0xB8, CHR 0x8B, CHR 0xE6, CHR 0x96, CHR 0x87, CHR 0x3A, CHR 0x20]"

definition context_range :: "int option \<Rightarrow> int \<Rightarrow> int \<times> int" where
  "context_range line n =
     (case line of
        Some l \<Rightarrow> if l = 0 then (1, min 30 n) else (max (l - 8) 1, min (l + 8) n)
      | None \<Rightarrow> (1, min 30 n))"

definition load_code_context :: "string option \<Rightarrow> model_finding \<Rightarrow> string + string \<Rightarrow> string" where
  "load_code_context commit f shown =
     (if \<not> text_truthy commit then ''N/A''
      else (case shown of
              Inl err \<Rightarrow> no_context_text @ err
            | Inr out \<Rightarrow>
                (let content = splitlines out; (first, last) = context_range (mf_line f) (int (length content))
                 in join [CHR 0x0A] (map (\<lambda>i. str_int i @ '':'' @ content ! nat (i - 1)) [first..last]))))"

section \<open>Pages cover their rows\<close>

lemma chunks: "concat (map (\<lambda>i. take s (drop (i * s) xs)) [0..<n]) = take (n * s) xs"
proof (induction n)
  case (Suc n)
  have "take (n * s) xs @ take s (drop (n * s) xs) = take (s + n * s) xs"
    by (metis add.commute take_add)
  with Suc show ?case by simp
qed simp

lemma upto_from_nat: "[1..int k] = map (\<lambda>i. int i + 1) [0..<k]"
proof (induction k)
  case (Suc k)
  have "[1..int (Suc k)] = [1..int k] @ [int (Suc k)]" using upto_rec2 [of 1 "int (Suc k)"] by simp
  with Suc show ?case by simp
qed simp

lemma pages_cover:
  assumes "0 < sz" and "int (length xs) \<le> int k * sz"
  shows "concat (map (\<lambda>p. pp_items (cut_page (int k) p sz xs)) [1..int k]) = xs"
proof -
  let ?s = "nat sz"
  have "pp_items (cut_page (int k) (int i + 1) sz xs) = take ?s (drop (i * ?s) xs)" if "i < k" for i
  proof -
    have "min (max (int i + 1) 1) (int k) = int i + 1" "max sz 1 = sz" using that assms(1) by auto
    then show ?thesis by (simp add: cut_page_def Let_def nat_mult_distrib)
  qed
  then have "map (\<lambda>p. pp_items (cut_page (int k) p sz xs)) [1..int k] = map (\<lambda>i. take ?s (drop (i * ?s) xs)) [0..<k]"
    by (simp add: upto_from_nat)
  moreover have "length xs \<le> k * ?s"
  proof -
    have "int (length xs) \<le> int (k * ?s)" using assms by simp
    then show ?thesis by (simp only: zle_int)
  qed
  ultimately show ?thesis using chunks [of ?s xs k] by simp
qed

lemma cut_page_facts:
  "pp_total (cut_page k p sz xs) = int (length xs)" "pp_page (cut_page k p sz xs) = min (max p 1) k"
  "length (pp_items (cut_page k p sz xs)) \<le> nat (max sz 1)"
  by (simp_all add: cut_page_def Let_def)

text \<open>The number of pages is enough for the rows.\<close>

lemma enough_pages:
  assumes "0 < sz"
  shows "int n \<le> int (nat (max 1 ((int n + sz - 1) div sz))) * sz"
proof -
  let ?k = "(int n + sz - 1) div sz"
  have "int n \<le> ?k * sz"
  proof -
    have "sz * ?k = int n + sz - 1 - (int n + sz - 1) mod sz" by (simp add: minus_mod_eq_mult_div)
    moreover have "(int n + sz - 1) mod sz < sz" using assms by simp
    ultimately have "int n \<le> sz * ?k" by linarith
    then show ?thesis by (simp only: mult.commute)
  qed
  also have "\<dots> \<le> int (nat (max 1 ?k)) * sz" using assms by (intro mult_right_mono) auto
  finally show ?thesis .
qed

text \<open>The pages of tasks, put together in order, are exactly the tasks of the window, newest first; a page holds no
  more than its sz, tells the whole number, and a page number out of range is taken to the nearest page.\<close>

theorem task_pages_cover:
  assumes "0 < page_size"
  shows "let rows = tasks_in_window start_at end_at records;
             view = (\<lambda>p. list_tasks_page start_at end_at p page_size records);
             pages = max 1 ((int (length rows) + page_size - 1) div page_size)
    in concat (map (\<lambda>p. pp_items (view p)) [1..pages]) = rows
     \<and> sorted_wrt (\<lambda>a b. lr_created b \<le> lr_created a) rows
     \<and> pp_total (view page) = int (length rows) \<and> pp_page (view page) = min (max page 1) pages
     \<and> int (length (pp_items (view page))) \<le> page_size"
proof -
  let ?rows = "tasks_in_window start_at end_at records"
  let ?pages = "max 1 ((int (length ?rows) + page_size - 1) div page_size)"
  have view: "list_tasks_page start_at end_at p page_size records = cut_page ?pages p page_size ?rows" for p
    using assms by (simp only: list_tasks_page_def Let_def if_True)
  have pages: "int (nat ?pages) = ?pages" by simp
  have "concat (map (\<lambda>p. pp_items (cut_page ?pages p page_size ?rows)) [1..?pages]) = ?rows"
    using pages_cover [OF assms enough_pages [OF assms], of ?rows] unfolding pages .
  moreover have "sorted (map (\<lambda>r. - lr_created r) ?rows)" by (simp add: tasks_in_window_def)
  then have "sorted_wrt (\<lambda>a b. lr_created b \<le> lr_created a) ?rows" by (simp add: sorted_map)
  moreover have "int (length (pp_items (cut_page ?pages page page_size ?rows))) \<le> page_size"
    using cut_page_facts(3) [of ?pages page page_size ?rows] assms by linarith
  ultimately show ?thesis
    unfolding Let_def view cut_page_facts(1, 2) by (intro conjI) simp_all
qed

theorem task_pages_cover_witness:
  "concat (map (\<lambda>p. pp_items (list_tasks_page None None p 2 [sample_task, sample_task, sample_task])) [1..2]) = [sample_task, sample_task, sample_task]"
proof -
  have "length (tasks_in_window None None [sample_task, sample_task, sample_task]) = 3"
    "tasks_in_window None None [sample_task, sample_task, sample_task] = [sample_task, sample_task, sample_task]"
    by (simp_all add: tasks_in_window_def in_period_def)
  then show ?thesis using task_pages_cover [of 2 None None "[sample_task, sample_task, sample_task]" 1] by (simp add: Let_def)
qed

section \<open>The metrics\<close>

lemma fold_count: "fold (\<lambda>_. Suc) xs m = m + length xs"
  by (induction xs arbitrary: m) simp_all

lemma fold_append: "fold (\<lambda>p ds. ds @ [f p]) xs ds = ds @ map f xs"
  by (induction xs arbitrary: ds) simp_all

lemma sorted_dict: "distinct (map fst m) \<Longrightarrow> sort_key fst m = map (\<lambda>k. (k, the (map_of m k))) (sort (map fst m))"
proof -
  assume d: "distinct (map fst m)"
  have "map fst (sort_key fst m) = sort (map fst m)"
    by (rule properties_for_sort [symmetric]) (simp_all only: mset_map mset_sort sorted_sort_key)
  moreover have "p = (fst p, the (map_of m (fst p)))" if "p \<in> set (sort_key fst m)" for p
  proof -
    have "map_of m (fst p) = Some (snd p)" using that d by simp
    then show ?thesis by simp
  qed
  then have "sort_key fst m = map (\<lambda>p. (fst p, the (map_of m (fst p)))) (sort_key fst m)" by (intro map_idI [symmetric]) simp
  then have "sort_key fst m = map (\<lambda>k. (k, the (map_of m k))) (map fst (sort_key fst m))" by (simp add: comp_def)
  ultimately show ?thesis by simp
qed

lemma sort_keys: "sort (map fst (group_by key f z xs)) = sort (remdups (map key xs))"
proof -
  have "set (map fst (group_by key f z xs)) = set (remdups (map key xs))" unfolding keys_group by simp
  then have "mset (map fst (group_by key f z xs)) = mset (remdups (map key xs))"
    by (simp only: set_eq_iff_mset_eq_distinct distinct_group distinct_remdups)
  then show ?thesis by (metis sorted_list_of_multiset_mset)
qed

lemma count_keys: "length (filter (\<lambda>x. key x = k) xs) = count_list (map key xs) k"
  by (induction xs) auto

lemma group_counts:
  "sort_key fst (group_by key (\<lambda>_ n. n + 1) 0 xs) = tally (map key xs)"
proof -
  have "sort_key fst (group_by key (\<lambda>_ n. n + 1) (0 :: nat) xs)
      = map (\<lambda>k. (k, the (map_of (group_by key (\<lambda>_ n. n + 1) 0 xs) k))) (sort (remdups (map key xs)))"
    by (simp only: sorted_dict [OF distinct_group] sort_keys)
  also have "\<dots> = tally (map key xs)"
    unfolding tally_def by (rule map_cong) (auto simp: get_group fold_count count_keys)
  finally show ?thesis .
qed

lemma percentile_in: "ds \<noteq> [] \<Longrightarrow> percentile ds \<in> set ds"
proof -
  assume "ds \<noteq> []"
  then have "percentile_index (length ds) < length (sort ds)"
    by (cases ds) (simp_all add: percentile_index_def)
  then have "sort ds ! percentile_index (length ds) \<in> set (sort ds)" by (rule nth_mem)
  then show ?thesis using \<open>ds \<noteq> []\<close> by (simp add: percentile_def)
qed

text \<open>The metrics of the dashboard: the counts are the numbers of the tasks of the window by the bucket they were
  created in, in order, and sum to the tasks of the window; each value of the 99th percentile is a duration of
  its bucket that was measured in the window.\<close>

theorem dashboard_metrics_sound:
  "let m = get_dashboard_metrics start_at end_at bucket_minutes records;
       kept = filter (\<lambda>r. in_period start_at end_at (lr_created r)) records;
       bucket = bucket_start (bucket_seconds bucket_minutes)
   in dm_counts m = tally (map (\<lambda>r. bucket (lr_created r)) kept)
    \<and> sum_list (map snd (dm_counts m)) = length kept
    \<and> list_all (\<lambda>(b, v). list_ex (\<lambda>r. case task_duration r of
          Some (t, d) \<Rightarrow> in_period start_at end_at t \<and> bucket t = b \<and> d = v | None \<Rightarrow> False) kept) (dm_p99 m)"
proof -
  let ?kept = "filter (\<lambda>r. in_period start_at end_at (lr_created r)) records"
  let ?bucket = "bucket_start (bucket_seconds bucket_minutes)"
  let ?ds = "filter (\<lambda>p. in_period start_at end_at (fst p)) (List.map_filter task_duration ?kept)"
  let ?groups = "group_by (\<lambda>p. ?bucket (fst p)) (\<lambda>p ds. ds @ [snd p]) [] ?ds"
  have counts: "dm_counts (get_dashboard_metrics start_at end_at bucket_minutes records) = tally (map (\<lambda>r. ?bucket (lr_created r)) ?kept)"
    by (simp add: get_dashboard_metrics_def Let_def group_counts [simplified])
  have measured: "\<exists>r \<in> set ?kept. \<exists>t. task_duration r = Some (t, percentile ds) \<and> in_period start_at end_at t \<and> ?bucket t = b"
    if "(b, ds) \<in> set ?groups" for b ds
  proof -
    have "map_of ?groups b = Some ds" by (rule map_of_is_SomeI [OF distinct_group that])
    then have b: "b \<in> (\<lambda>p. ?bucket (fst p)) ` set ?ds" and ds: "ds = map snd (filter (\<lambda>p. ?bucket (fst p) = b) ?ds)"
      by (simp_all only: get_group fold_append append_Nil option.inject option.distinct simp_thms split: if_splits)
    then have "ds \<noteq> []" by (auto simp: filter_empty_conv)
    then have "percentile ds \<in> set ds" by (rule percentile_in)
    then show ?thesis unfolding ds by (auto simp: List.map_filter_def)
  qed
  show ?thesis
    unfolding Let_def counts
    by (intro conjI refl)
      (simp add: sum_tally, use measured in \<open>fastforce simp: get_dashboard_metrics_def Let_def list_all_iff list_ex_iff\<close>)
qed

text \<open>The 99th percentile of two or more different durations is never the longest.\<close>

lemma p99_not_longest: "distinct ds \<Longrightarrow> 2 \<le> length ds \<Longrightarrow> percentile ds < Max (set ds)"
proof -
  assume ds: "distinct ds" "2 \<le> length ds"
  let ?s = "sort ds" and ?i = "percentile_index (length ds)"
  have "?i < length ?s - 1" using ds(2) by (simp add: percentile_index_def)
  moreover have "sorted_wrt (<) ?s" using ds(1) by (simp add: strict_sorted_iff)
  ultimately have "?s ! ?i < ?s ! (length ?s - 1)" by (simp add: sorted_wrt_nth_less)
  also have "?s ! (length ?s - 1) \<le> Max (set ds)"
    using ds(2) nth_mem [of "length ?s - 1" ?s] by (intro Max_ge) auto
  finally show ?thesis using ds(2) by (auto simp: percentile_def)
qed

section \<open>Gates of recent tasks, lines of a context\<close>

text \<open>Every task shown is passed, failed, unfinished, or ended well without a result.\<close>

lemma recent_gates: "recent_gate_status r \<in> {''passed'', ''failed'', ''queued'', ''running'', ''success''}"
  by (cases "lr_status r") (auto simp: recent_gate_status_def split: option.split)

lemma context_in_range:
  "context_range line n = (lo, hi) \<Longrightarrow> 1 \<le> lo \<and> hi \<le> n \<and> hi - lo \<le> 29"
  by (auto simp: context_range_def split: option.splits if_splits)

end
