(* ===== verification/Pattern_Sync.thy ===== *)
theory Pattern_Sync
  imports Report_Views Git_Client
begin

text \<open>
  The synchronisation of feedback patterns, \<open>review_v2/feedback_patterns.py\<close>: the resolved findings of the
  database, the reference text made of them, and the branch with a merge request that carries it. Commands,
  files and requests are actions of a log; what they answer is a parameter that may depend on the log. Lengths
  count characters of the UTF-8 text.
\<close>

section \<open>Patterns of the database\<close>

definition RESOLVED_PATTERN_STATUSES :: "string list" where
  "RESOLVED_PATTERN_STATUSES = [''resolved_model_false_positive'', ''re_reviewed_pass'', ''human_non_fix'']"

record pattern_row =
  pt_finding :: finding
  pt_task :: cr_task
  pt_run :: "reviewer_run option"
  pt_event :: "finding_event option"

text \<open>The last change of the status of a finding, by the id of its event.\<close>

definition latest_change :: "db \<Rightarrow> string \<Rightarrow> finding_event option" where
  "latest_change d finding_id =
     find (\<lambda>e. fe_type e = ''finding_status_changed'' \<and> fe_finding e = finding_id) (rev (db_finding_events d))"

definition pattern_rows :: "db \<Rightarrow> pattern_row list" where
  "pattern_rows d =
     List.map_filter (\<lambda>f. map_option (\<lambda>t. \<lparr>pt_finding = f, pt_task = t, pt_run = joined_run d (fn_run f),
         pt_event = latest_change d (fn_id f)\<rparr>) (get_task (fn_task f) d))
       (filter (\<lambda>f. fn_status f \<in> set RESOLVED_PATTERN_STATUSES) (db_findings d))"

definition pattern_time :: "pattern_row \<Rightarrow> instant" where
  "pattern_time p = (case pt_event p of Some e \<Rightarrow> fe_created e | None \<Rightarrow> fn_updated (pt_finding p))"

definition load_feedback_patterns :: "nat \<Rightarrow> db \<Rightarrow> pattern_row list" where
  "load_feedback_patterns limit d =
     take limit (sort_key (\<lambda>p. (- pattern_time p, fn_id (pt_finding p))) (pattern_rows d))"

section \<open>The reference text\<close>

text \<open>A UTF-8 text as its characters: a byte from 0x80 to 0xBF goes on with the character before it.\<close>

definition continues :: "char \<Rightarrow> bool" where
  "continues c \<longleftrightarrow> (128 :: int) \<le> of_char c \<and> (of_char c :: int) < 192"

fun chars_of :: "string \<Rightarrow> string list" where
  "chars_of [] = []"
| "chars_of [c] = [[c]]"
| "chars_of (c # d # s) =
     (if continues d then (case chars_of (d # s) of x # xs \<Rightarrow> (c # x) # xs | [] \<Rightarrow> [[c]]) else [c] # chars_of (d # s))"

text \<open>\<open>s.split()\<close>.\<close>

fun words_acc :: "string \<Rightarrow> string \<Rightarrow> string list" where
  "words_acc acc [] = (if acc = [] then [] else [rev acc])"
| "words_acc acc (c # s) =
     (if py_isspace c then (if acc = [] then words_acc [] s else rev acc # words_acc [] s) else words_acc (c # acc) s)"

definition words_of :: "string \<Rightarrow> string list" where
  "words_of s = words_acc [] s"

definition compact :: "string option \<Rightarrow> string \<Rightarrow> nat \<Rightarrow> string" where
  "compact value fallback max_chars =
     (let t = py_strip (text_or value [])
      in if t = [] then fallback
         else (let u = join '' '' (words_of t)
               in if length (chars_of u) \<le> max_chars then u
                  else rstrip_by py_isspace (concat (take (max_chars - 3) (chars_of u))) @ ''...''))"

text \<open>"unnamed feedback"; the labels of an item: application, branch, file, severity, conclusion, who, explanation,
  problem, suggestion.\<close>

definition unnamed_feedback :: string where
  "unnamed_feedback =
    [CHR 0xE6, CHR 0x9C, CHR 0xAA, CHR 0xE5, CHR 0x91, CHR 0xBD, CHR 0xE5, CHR 0x90, CHR 0x8D, CHR 0xE5,
     CHR 0x8F, CHR 0x8D, CHR 0xE9, CHR 0xA6, CHR 0x88]"

definition item_labels :: "string list" where
  "item_labels =
   [[CHR 0xE6, CHR 0x9D, CHR 0xA5, CHR 0xE6, CHR 0xBA, CHR 0x90, CHR 0xE5, CHR 0xBA, CHR 0x94, CHR 0xE7,
     CHR 0x94, CHR 0xA8],
    [CHR 0xE5, CHR 0x88, CHR 0x86, CHR 0xE6, CHR 0x94, CHR 0xAF],
    [CHR 0xE6, CHR 0x96, CHR 0x87, CHR 0xE4, CHR 0xBB, CHR 0xB6],
    [CHR 0xE5, CHR 0x8E, CHR 0x9F, CHR 0xE5, CHR 0xA7, CHR 0x8B, CHR 0xE7, CHR 0xBA, CHR 0xA7, CHR 0xE5,
     CHR 0x88, CHR 0xAB],
    [CHR 0xE5, CHR 0x8F, CHR 0x8D, CHR 0xE9, CHR 0xA6, CHR 0x88, CHR 0xE7, CHR 0xBB, CHR 0x93, CHR 0xE8,
     CHR 0xAE, CHR 0xBA],
    [CHR 0xE5, CHR 0x8F, CHR 0x8D, CHR 0xE9, CHR 0xA6, CHR 0x88, CHR 0xE4, CHR 0xBA, CHR 0xBA, CHR 0x2F,
     CHR 0xE6, CHR 0xA8, CHR 0xA1, CHR 0xE5, CHR 0x9E, CHR 0x8B],
    [CHR 0xE5, CHR 0x8F, CHR 0x8D, CHR 0xE9, CHR 0xA6, CHR 0x88, CHR 0xE8, CHR 0xAF, CHR 0xB4, CHR 0xE6,
     CHR 0x98, CHR 0x8E],
    [CHR 0xE5, CHR 0x8E, CHR 0x9F, CHR 0xE5, CHR 0xA7, CHR 0x8B, CHR 0xE9, CHR 0x97, CHR 0xAE, CHR 0xE9,
     CHR 0xA2, CHR 0x98],
    [CHR 0xE5, CHR 0x8E, CHR 0x9F, CHR 0xE5, CHR 0xA7, CHR 0x8B, CHR 0xE5, CHR 0xBB, CHR 0xBA, CHR 0xE8,
     CHR 0xAE, CHR 0xAE]]"

definition item_location :: "finding \<Rightarrow> string" where
  "item_location f =
     text_or (Some (fn_file f)) ''N/A'' @ (case fn_line f of Some l \<Rightarrow> '':'' @ str_int l | None \<Rightarrow> [])"

definition item_lines :: "nat \<Rightarrow> pattern_row \<Rightarrow> string list" where
  "item_lines index p =
     (let f = pt_finding p; t = pt_task p;
          short = (\<lambda>v. compact v ''N/A'' 160);
          values = [short (Some (tk_app_name t)), short (Some (tk_branch t)), item_location f,
            short (Some (severity_text (fn_severity f))), short (Some (fn_status f)),
            short (Option.bind (pt_event p) fe_actor), compact (Option.bind (pt_event p) fe_message) ''N/A'' 500,
            compact (Some (fn_detail f)) ''N/A'' 500, compact (fn_suggestion f) ''N/A'' 300]
      in (''### '' @ str_nat index @ ''. '' @ compact (Some (fn_title f)) unnamed_feedback 160)
         # map (\<lambda>(l, v). ''- '' @ l @ '': '' @ v) (zip item_labels values) @ [[]])"

definition render_items :: "pattern_row list \<Rightarrow> string" where
  "render_items items =
     rstrip_by py_isspace (join [CHR 0x0A] (map (\<lambda>(i, p). join [CHR 0x0A] (item_lines i p)) (zip [1..<Suc (length items)] items)))"

text \<open>The headings and the fixed sentences of the text.\<close>

definition archive_title :: string where
  "archive_title =
    [CHR 0x23, CHR 0x20, CHR 0xE6, CHR 0xA8, CHR 0xA1, CHR 0xE5, CHR 0x9E, CHR 0x8B, CHR 0xE5, CHR 0x8F,
     CHR 0x8D, CHR 0xE9, CHR 0xA6, CHR 0x88, CHR 0xE5, CHR 0xBD, CHR 0x92, CHR 0xE6, CHR 0xA1, CHR 0xA3]"

definition archive_intro :: string where
  "archive_intro =
    [CHR 0xE6, CHR 0x9C, CHR 0xAC, CHR 0xE6, CHR 0x96, CHR 0x87, CHR 0xE4, CHR 0xBB, CHR 0xB6, CHR 0xE7,
     CHR 0x94, CHR 0xB1, CHR 0x20, CHR 0x43, CHR 0x52, CHR 0x20, CHR 0x76, CHR 0x32, CHR 0x20, CHR 0x53,
     CHR 0x51, CHR 0x4C, CHR 0x69, CHR 0x74, CHR 0x65, CHR 0x20, CHR 0x66, CHR 0x65, CHR 0x65, CHR 0x64,
     CHR 0x62, CHR 0x61, CHR 0x63, CHR 0x6B, CHR 0x20, CHR 0x70, CHR 0x61, CHR 0x74, CHR 0x74, CHR 0x65,
     CHR 0x72, CHR 0x6E, CHR 0x20, CHR 0x73, CHR 0x79, CHR 0x6E, CHR 0x63, CHR 0x20, CHR 0xE8, CHR 0x87,
     CHR 0xAA, CHR 0xE5, CHR 0x8A, CHR 0xA8, CHR 0xE6, CHR 0x9B, CHR 0xB4, CHR 0xE6, CHR 0x96, CHR 0xB0,
     CHR 0xEF, CHR 0xBC, CHR 0x8C, CHR 0xE7, CHR 0x94, CHR 0xA8, CHR 0xE4, CHR 0xBA, CHR 0x8E, CHR 0xE6,
     CHR 0xB2, CHR 0x89, CHR 0xE6, CHR 0xB7, CHR 0x80, CHR 0xE7, CHR 0x94, CHR 0xA8, CHR 0xE6, CHR 0x88,
     CHR 0xB7, CHR 0xE5, CHR 0x8F, CHR 0x8D, CHR 0xE9, CHR 0xA6, CHR 0x88, CHR 0xE5, CHR 0x90, CHR 0x8E,
     CHR 0xE7, CHR 0xA1, CHR 0xAE, CHR 0xE8, CHR 0xAE, CHR 0xA4, CHR 0xE7, CHR 0x9A, CHR 0x84, CHR 0xE8,
     CHR 0xAF, CHR 0xAF, CHR 0xE5, CHR 0x88, CHR 0xA4, CHR 0xE8, CHR 0x8C, CHR 0x83, CHR 0xE5, CHR 0xBC,
     CHR 0x8F, CHR 0xE3, CHR 0x80, CHR 0x81, CHR 0xE5, CHR 0xB7, CHR 0xB2, CHR 0xE9, CHR 0x87, CHR 0x87,
     CHR 0xE7, CHR 0xBA, CHR 0xB3, CHR 0xE5, CHR 0x8F, CHR 0x8D, CHR 0xE9, CHR 0xA6, CHR 0x88, CHR 0xE8,
     CHR 0x8C, CHR 0x83, CHR 0xE5, CHR 0xBC, CHR 0x8F, CHR 0xE4, CHR 0xB8, CHR 0x8E, CHR 0xE6, CHR 0xBC,
     CHR 0x8F, CHR 0xE5, CHR 0x88, CHR 0xA4, CHR 0xE8, CHR 0x8C, CHR 0x83, CHR 0xE5, CHR 0xBC, CHR 0x8F,
     CHR 0xE3, CHR 0x80, CHR 0x82]"

definition false_positive_title :: string where
  "false_positive_title =
    [CHR 0x23, CHR 0x23, CHR 0x20, CHR 0xE8, CHR 0xAF, CHR 0xAF, CHR 0xE5, CHR 0x88, CHR 0xA4, CHR 0xE8,
     CHR 0x8C, CHR 0x83, CHR 0xE5, CHR 0xBC, CHR 0x8F]"

definition no_false_positive :: string where
  "no_false_positive =
    [CHR 0xE6, CHR 0x9A, CHR 0x82, CHR 0xE6, CHR 0x97, CHR 0xA0, CHR 0xE6, CHR 0x96, CHR 0xB0, CHR 0xE5,
     CHR 0xA2, CHR 0x9E, CHR 0xE8, CHR 0xAF, CHR 0xAF, CHR 0xE5, CHR 0x88, CHR 0xA4, CHR 0xE8, CHR 0x8C,
     CHR 0x83, CHR 0xE5, CHR 0xBC, CHR 0x8F, CHR 0xE3, CHR 0x80, CHR 0x82]"

definition accepted_title :: string where
  "accepted_title =
    [CHR 0x23, CHR 0x23, CHR 0x20, CHR 0xE5, CHR 0xB7, CHR 0xB2, CHR 0xE9, CHR 0x87, CHR 0x87, CHR 0xE7,
     CHR 0xBA, CHR 0xB3, CHR 0xE5, CHR 0x8F, CHR 0x8D, CHR 0xE9, CHR 0xA6, CHR 0x88, CHR 0xE8, CHR 0x8C,
     CHR 0x83, CHR 0xE5, CHR 0xBC, CHR 0x8F]"

definition no_accepted :: string where
  "no_accepted =
    [CHR 0xE6, CHR 0x9A, CHR 0x82, CHR 0xE6, CHR 0x97, CHR 0xA0, CHR 0xE6, CHR 0x96, CHR 0xB0, CHR 0xE5,
     CHR 0xA2, CHR 0x9E, CHR 0xE5, CHR 0xB7, CHR 0xB2, CHR 0xE9, CHR 0x87, CHR 0x87, CHR 0xE7, CHR 0xBA,
     CHR 0xB3, CHR 0xE5, CHR 0x8F, CHR 0x8D, CHR 0xE9, CHR 0xA6, CHR 0x88, CHR 0xE8, CHR 0x8C, CHR 0x83,
     CHR 0xE5, CHR 0xBC, CHR 0x8F, CHR 0xE3, CHR 0x80, CHR 0x82]"

definition missed_title :: string where
  "missed_title =
    [CHR 0x23, CHR 0x23, CHR 0x20, CHR 0xE6, CHR 0xBC, CHR 0x8F, CHR 0xE5, CHR 0x88, CHR 0xA4, CHR 0xE8,
     CHR 0x8C, CHR 0x83, CHR 0xE5, CHR 0xBC, CHR 0x8F]"

definition missed_note :: string where
  "missed_note =
    [CHR 0x43, CHR 0x52, CHR 0x20, CHR 0x76, CHR 0x32, CHR 0x20, CHR 0xE5, CHR 0xBD, CHR 0x93, CHR 0xE5,
     CHR 0x89, CHR 0x8D, CHR 0xE5, CHR 0x8F, CHR 0xAA, CHR 0xE4, CHR 0xBB, CHR 0x8E, CHR 0x20, CHR 0x66,
     CHR 0x69, CHR 0x6E, CHR 0x64, CHR 0x69, CHR 0x6E, CHR 0x67, CHR 0x20, CHR 0x66, CHR 0x65, CHR 0x65,
     CHR 0x64, CHR 0x62, CHR 0x61, CHR 0x63, CHR 0x6B, CHR 0x20, CHR 0x65, CHR 0x76, CHR 0x65, CHR 0x6E,
     CHR 0x74, CHR 0x73, CHR 0x20, CHR 0xE8, CHR 0x87, CHR 0xAA, CHR 0xE5, CHR 0x8A, CHR 0xA8, CHR 0xE6,
     CHR 0xB2, CHR 0x89, CHR 0xE6, CHR 0xB7, CHR 0x80, CHR 0xE5, CHR 0xB7, CHR 0xB2, CHR 0xE5, CHR 0x8F,
     CHR 0x8D, CHR 0xE9, CHR 0xA6, CHR 0x88, CHR 0x20, CHR 0x66, CHR 0x69, CHR 0x6E, CHR 0x64, CHR 0x69,
     CHR 0x6E, CHR 0x67, CHR 0xEF, CHR 0xBC, CHR 0x9B, CHR 0xE6, CHR 0xBC, CHR 0x8F, CHR 0xE5, CHR 0x88,
     CHR 0xA4, CHR 0xE8, CHR 0x8C, CHR 0x83, CHR 0xE5, CHR 0xBC, CHR 0x8F, CHR 0xE4, CHR 0xBB, CHR 0x8D,
     CHR 0xE9, CHR 0x9C, CHR 0x80, CHR 0xE5, CHR 0x8D, CHR 0x95, CHR 0xE7, CHR 0x8B, CHR 0xAC, CHR 0xE4,
     CHR 0xBA, CHR 0x8B, CHR 0xE4, CHR 0xBB, CHR 0xB6, CHR 0xE6, CHR 0x9D, CHR 0xA5, CHR 0xE6, CHR 0xBA,
     CHR 0x90, CHR 0xE5, CHR 0x90, CHR 0x8E, CHR 0xE5, CHR 0x86, CHR 0x8D, CHR 0xE5, CHR 0x90, CHR 0x8C,
     CHR 0xE6, CHR 0xAD, CHR 0xA5, CHR 0xE3, CHR 0x80, CHR 0x82]"

definition render_feedback_patterns :: "pattern_row list \<Rightarrow> pattern_row list \<Rightarrow> string" where
  "render_feedback_patterns false_positive accepted =
     join [CHR 0x0A]
       [archive_title, [], archive_intro, [], false_positive_title, [],
        text_or (Some (render_items false_positive)) no_false_positive, [], accepted_title, [],
        text_or (Some (render_items accepted)) no_accepted, [], missed_title, [], missed_note, []]"

section \<open>Addresses\<close>

definition hex_upper :: "nat \<Rightarrow> char" where
  "hex_upper n = ''0123456789ABCDEF'' ! (n mod 16)"

definition percent :: "char \<Rightarrow> string" where
  "percent c = [CHR ''%'', hex_upper (of_char c div 16), hex_upper (of_char c)]"

text \<open>\<open>quote(s, safe='')\<close> and \<open>quote_plus\<close>.\<close>

definition url_quote :: "string \<Rightarrow> string" where
  "url_quote s = concat (map (\<lambda>c. if py_isalnum c \<or> c \<in> set ''_.-~'' then [c] else percent c) s)"

definition quote_plus :: "string \<Rightarrow> string" where
  "quote_plus s = concat (map (\<lambda>c. if c = CHR '' '' then ''+'' else url_quote [c]) s)"

definition urlencode :: "(string \<times> string) list \<Rightarrow> string" where
  "urlencode pairs = join ''&'' (map (\<lambda>(k, v). quote_plus k @ ''='' @ quote_plus v) pairs)"

definition project_name :: string where
  "project_name = ''comain/code-review-agent''"

definition manual_merge_request_url :: "string \<Rightarrow> string \<Rightarrow> string \<Rightarrow> string" where
  "manual_merge_request_url gitlab branch target =
     (let base = rstrip_by (\<lambda>c. c = CHR ''/'') gitlab
      in if contains base ''github.com'' then
           ''https://github.com/comain/code-review-agent/compare/'' @ url_quote target @ ''...'' @ url_quote branch @ ''?expand=1''
         else base @ ''/comain/code-review-agent/merge_requests/new?merge_request[source_branch]='' @ url_quote branch
           @ ''&merge_request[target_branch]='' @ url_quote target)"

section \<open>Branch and merge request\<close>

datatype sync_action =
    Run_Git string "string list"
  | Clone_Branch string string string
  | Make_Dirs string
  | Make_Work_Dir string
  | Write_File string string
  | Post_Merge_Request string string string
  | Remove_Work_Dir string

datatype mr_answer = Answered_Text string | Http_Error nat string | Url_Error string

text \<open>\<open>ye_disk\<close>: what making a directory and writing a file answer, an \<open>OSError\<close> or nothing; \<open>ye_work\<close>: the
  name \<open>mkdtemp\<close> chooses in \<open>ye_work_root\<close>.\<close>

record sync_env =
  ye_git :: "sync_action list \<Rightarrow> sync_action \<Rightarrow> git_answer py_result"
  ye_read :: "sync_action list \<Rightarrow> string \<Rightarrow> string option"
  ye_disk :: "sync_action list \<Rightarrow> sync_action \<Rightarrow> unit py_result"
  ye_post :: "sync_action list \<Rightarrow> sync_action \<Rightarrow> mr_answer"
  ye_json :: "string \<Rightarrow> json option"
  ye_root :: string
  ye_work_root :: string
  ye_work :: string
  ye_stamp :: string
  ye_day :: string
  ye_keep :: bool
  ye_tokens :: "string option list"

record sync_settings =
  ys_limit :: int
  ys_target :: string
  ys_gitlab :: string
  ys_token :: string

type_synonym 'a ys = "(sync_action list, py_exc, 'a) stmt"

definition sync_act :: "sync_action \<Rightarrow> unit ys" where
  "sync_act a = wmod (\<lambda>log. log @ [a])"

definition sync_command :: "sync_env \<Rightarrow> sync_action \<Rightarrow> git_answer ys" where
  "sync_command env a = wbind (wget id) (\<lambda>log. wseq (sync_act a) (wlift (ye_git env log a)))"

definition sync_file :: "sync_env \<Rightarrow> sync_action \<Rightarrow> unit ys" where
  "sync_file env a = wbind (wget id) (\<lambda>log. wseq (sync_act a) (wlift (ye_disk env log a)))"

definition sync_failed :: "git_answer \<Rightarrow> py_exc" where
  "sync_failed a = RuntimeError (text_or (Some (ga_err a)) (ga_out a))"

definition sync_git :: "sync_env \<Rightarrow> string \<Rightarrow> string list \<Rightarrow> string ys" where
  "sync_git env dir args =
     wbind (sync_command env (Run_Git dir args)) (\<lambda>a. if ga_code a \<noteq> 0 then wraise (sync_failed a) else wret (py_strip (ga_out a)))"

definition sync_git_optional :: "sync_env \<Rightarrow> string \<Rightarrow> string list \<Rightarrow> string option ys" where
  "sync_git_optional env dir args =
     wbind (sync_command env (Run_Git dir args)) (\<lambda>a.
       wret (if ga_code a \<noteq> 0 \<or> py_strip (ga_out a) = [] then None else Some (py_strip (ga_out a))))"

definition ignore_value :: "'a ys \<Rightarrow> unit ys" where
  "ignore_value m = wbind m (\<lambda>_. wret ())"

definition clone_isolated_repo :: "sync_env \<Rightarrow> string \<Rightarrow> string ys" where
  "clone_isolated_repo env target =
     wseq (sync_file env (Make_Dirs (ye_work_root env)))
     (wseq (sync_file env (Make_Work_Dir (ye_work env)))
     (wbind (sync_git env (ye_root env) [''remote'', ''get-url'', ''origin'']) (\<lambda>origin.
     wbind (sync_command env (Clone_Branch target origin (ye_work env))) (\<lambda>a.
       if ga_code a \<noteq> 0 then wraise (sync_failed a) else wret (ye_work env)))))"

definition configure_git_user :: "sync_env \<Rightarrow> string \<Rightarrow> unit ys" where
  "configure_git_user env work =
     wbind (sync_git_optional env (ye_root env) [''config'', ''--get'', ''user.name'']) (\<lambda>name.
     wbind (sync_git_optional env (ye_root env) [''config'', ''--get'', ''user.email'']) (\<lambda>email.
     wseq (ignore_value (sync_git env work [''config'', ''user.name'', text_or name ''codex'']))
       (ignore_value (sync_git env work [''config'', ''user.email'', text_or email ''codex@local'']))))"

definition TARGET_PATTERNS_REL :: string where
  "TARGET_PATTERNS_REL = ''src/cr_agent/review_v2/templates/references/false_positive_patterns.md''"

definition TARGET_PATTERNS_DIR :: string where
  "TARGET_PATTERNS_DIR = ''src/cr_agent/review_v2/templates/references''"

definition TARGET_REVIEW_REFERENCE_REL :: string where
  "TARGET_REVIEW_REFERENCE_REL = ''src/cr_agent/review_v2/templates/references/review.md''"

text \<open>"the archive of the feedback is in `references/false_positive_patterns.md`".\<close>

definition reference_line :: string where
  "reference_line =
    [CHR 0x0A, CHR 0x2D, CHR 0x20, CHR 0xE6, CHR 0xA8, CHR 0xA1, CHR 0xE5, CHR 0x9E, CHR 0x8B, CHR 0xE5,
     CHR 0x8F, CHR 0x8D, CHR 0xE9, CHR 0xA6, CHR 0x88, CHR 0xE5, CHR 0xBD, CHR 0x92, CHR 0xE6, CHR 0xA1,
     CHR 0xA3, CHR 0xE8, CHR 0xA7, CHR 0x81, CHR 0x20, CHR 0x60, CHR 0x72, CHR 0x65, CHR 0x66, CHR 0x65,
     CHR 0x72, CHR 0x65, CHR 0x6E, CHR 0x63, CHR 0x65, CHR 0x73, CHR 0x2F, CHR 0x66, CHR 0x61, CHR 0x6C,
     CHR 0x73, CHR 0x65, CHR 0x5F, CHR 0x70, CHR 0x6F, CHR 0x73, CHR 0x69, CHR 0x74, CHR 0x69, CHR 0x76,
     CHR 0x65, CHR 0x5F, CHR 0x70, CHR 0x61, CHR 0x74, CHR 0x74, CHR 0x65, CHR 0x72, CHR 0x6E, CHR 0x73,
     CHR 0x2E, CHR 0x6D, CHR 0x64, CHR 0x60, CHR 0x0A]"

definition ensure_review_reference :: "sync_env \<Rightarrow> string \<Rightarrow> unit ys" where
  "ensure_review_reference env work =
     (let file = work @ ''/'' @ TARGET_REVIEW_REFERENCE_REL
      in wbind (wget (\<lambda>log. ye_read env log file)) (\<lambda>found.
           case found of
             None \<Rightarrow> wraise (OSError (''No such file or directory: '' @ file))
           | Some t \<Rightarrow>
               if contains t ''false_positive_patterns.md'' then wret ()
               else sync_file env (Write_File file (rstrip_by py_isspace t @ reference_line))))"

definition resolve_gitlab_tokens :: "sync_env \<Rightarrow> sync_settings \<Rightarrow> string list" where
  "resolve_gitlab_tokens env cfg =
     (case find text_truthy (Some (ys_token cfg) # ye_tokens env) of Some t \<Rightarrow> [text_or t []] | None \<Rightarrow> [])"

definition mr_failed :: "string \<Rightarrow> py_exc" where
  "mr_failed t = RuntimeError (''GitLab MR creation failed: '' @ t)"

fun post_merge_request :: "sync_env \<Rightarrow> string \<Rightarrow> string \<Rightarrow> string option \<Rightarrow> string list \<Rightarrow> json option ys" where
  "post_merge_request env url body last_error [] =
     (case last_error of Some e \<Rightarrow> wraise (mr_failed e) | None \<Rightarrow> wret None)"
| "post_merge_request env url body last_error (token # tokens) =
     wbind (wget id) (\<lambda>log.
     wseq (sync_act (Post_Merge_Request token url body))
       (case ye_post env log (Post_Merge_Request token url body) of
          Http_Error code t \<Rightarrow>
            (let err = ''HTTP '' @ str_nat code @ '' '' @ t
             in if code = 401 then post_merge_request env url body (Some err) tokens else wraise (mr_failed err))
        | Url_Error t \<Rightarrow> wraise (mr_failed t)
        | Answered_Text t \<Rightarrow>
            (case ye_json env t of
               None \<Rightarrow> wret None
             | Some v \<Rightarrow> wbind (wlift (need_dict v)) (\<lambda>p. wret (Some (dget p ''web_url''))))))"

definition create_merge_request :: "sync_env \<Rightarrow> sync_settings \<Rightarrow> string \<Rightarrow> string \<Rightarrow> json option ys" where
  "create_merge_request env cfg branch target =
     post_merge_request env
       (rstrip_by (\<lambda>c. c = CHR ''/'') (ys_gitlab cfg) @ ''/api/v4/projects/'' @ quote_plus project_name @ ''/merge_requests'')
       (urlencode [(''source_branch'', branch), (''target_branch'', target),
          (''title'', ''chore: sync CR v2 feedback patterns '' @ ye_day env)])
       None (resolve_gitlab_tokens env cfg)"

record sync_result =
  yr_changed :: bool
  yr_false_positive :: nat
  yr_accepted :: nat
  yr_total :: nat
  yr_branch :: "string option"
  yr_pushed :: bool
  yr_mr :: json
  yr_manual :: "string option"
  yr_message :: string

definition unchanged :: "nat \<Rightarrow> nat \<Rightarrow> string \<Rightarrow> sync_result" where
  "unchanged fp acc msg =
     \<lparr>yr_changed = False, yr_false_positive = fp, yr_accepted = acc, yr_total = fp + acc, yr_branch = None, yr_pushed = False,
      yr_mr = JNull, yr_manual = None, yr_message = msg\<rparr>"

text \<open>A merge request that cannot be created is told in the message; only a \<open>RuntimeError\<close> is caught.\<close>

definition try_merge_request :: "sync_env \<Rightarrow> sync_settings \<Rightarrow> string \<Rightarrow> string \<Rightarrow> (json \<times> string) ys" where
  "try_merge_request env cfg branch target =
     wcatch
       (wbind (create_merge_request env cfg branch target) (\<lambda>url.
          (let u = (case url of Some v \<Rightarrow> v | None \<Rightarrow> JNull)
           in wret (u, if truthy u then ''merge request created''
                       else ''sync branch pushed; merge request requires manual creation''))))
       (\<lambda>e. case e of
          RuntimeError t \<Rightarrow> wret (JNull, ''sync branch pushed; merge request creation failed: '' @ t)
        | _ \<Rightarrow> wraise e)"

definition push_patterns :: "sync_env \<Rightarrow> sync_settings \<Rightarrow> string \<Rightarrow> string \<Rightarrow> nat \<Rightarrow> nat \<Rightarrow> string \<Rightarrow> sync_result ys" where
  "push_patterns env cfg target content fp acc work =
     wseq (configure_git_user env work)
     (wbind (wget (\<lambda>log. text_or (ye_read env log (work @ ''/'' @ TARGET_PATTERNS_REL)) [])) (\<lambda>existing.
       if existing = content then wret (unchanged fp acc ''pattern reference already up to date in target branch'')
       else
         (let branch = ''mr/feedback-pattern-sync-'' @ ye_stamp env
          in wseq (sync_file env (Make_Dirs (work @ ''/'' @ TARGET_PATTERNS_DIR)))
             (wseq (sync_file env (Write_File (work @ ''/'' @ TARGET_PATTERNS_REL) content))
             (wseq (ensure_review_reference env work)
             (wseq (ignore_value (sync_git env work [''checkout'', ''-B'', branch]))
             (wseq (ignore_value (sync_git env work [''add'', TARGET_PATTERNS_REL, TARGET_REVIEW_REFERENCE_REL]))
             (wseq (ignore_value (sync_git env work [''commit'', ''-m'', ''Sync CR v2 feedback patterns '' @ ye_day env]))
             (wseq (ignore_value (sync_git env work [''push'', ''-u'', ''origin'', branch]))
             (wbind (try_merge_request env cfg branch target) (\<lambda>(url, msg).
               wret \<lparr>yr_changed = True, yr_false_positive = fp, yr_accepted = acc, yr_total = fp + acc,
                 yr_branch = Some branch, yr_pushed = True, yr_mr = url,
                 yr_manual = Some (manual_merge_request_url (ys_gitlab cfg) branch target), yr_message = msg\<rparr>)))))))))))"

definition create_patterns_merge_request :: "sync_env \<Rightarrow> sync_settings \<Rightarrow> string \<Rightarrow> nat \<Rightarrow> nat \<Rightarrow> sync_result ys" where
  "create_patterns_merge_request env cfg content fp acc =
     (let target = text_or (Some (ys_target cfg)) ''init''
      in wbind (clone_isolated_repo env target) (\<lambda>work.
         wbind (wtry (push_patterns env cfg target content fp acc work)) (\<lambda>r.
         wseq (if ye_keep env then wret () else sync_act (Remove_Work_Dir work)) (wlift r))))"

definition is_false_positive :: "pattern_row \<Rightarrow> bool" where
  "is_false_positive p \<longleftrightarrow> fn_status (pt_finding p) = ''resolved_model_false_positive''"

definition sync_feedback_patterns :: "sync_env \<Rightarrow> sync_settings \<Rightarrow> db \<Rightarrow> sync_result ys" where
  "sync_feedback_patterns env cfg d =
     (let patterns = load_feedback_patterns (nat (max 1 (ys_limit cfg))) d;
          fp = filter is_false_positive patterns; acc = filter (\<lambda>p. \<not> is_false_positive p) patterns
      in if patterns = [] then wret (unchanged 0 0 ''no resolved feedback patterns'')
         else create_patterns_merge_request env cfg (render_feedback_patterns fp acc) (length fp) (length acc))"

text \<open>What the daemon is told: the result as a dict.\<close>

definition sync_result_dict :: "sync_result \<Rightarrow> json_dict" where
  "sync_result_dict r =
     [(''output_path'', JStr TARGET_PATTERNS_REL), (''changed'', JBool (yr_changed r)),
      (''false_positive_count'', JInt (int (yr_false_positive r))), (''accepted_feedback_count'', JInt (int (yr_accepted r))),
      (''total_count'', JInt (int (yr_total r))),
      (''branch'', case yr_branch r of Some b \<Rightarrow> JStr b | None \<Rightarrow> JNull), (''pushed'', JBool (yr_pushed r)),
      (''merge_request_url'', yr_mr r),
      (''manual_merge_request_url'', case yr_manual r of Some u \<Rightarrow> JStr u | None \<Rightarrow> JNull), (''message'', JStr (yr_message r))]"

section \<open>Characters and words\<close>

lemma chars_of_Nil [simp]: "chars_of s = [] \<longleftrightarrow> s = []"
  by (induction s rule: chars_of.induct) (simp_all split: list.split)

lemma chars_of_next: "\<exists>x xs. chars_of (d # s) = x # xs"
  by (metis chars_of_Nil list.distinct(1) neq_Nil_conv)

lemma chars_of_step:
  "chars_of (d # s) = x # xs \<Longrightarrow> chars_of (c # d # s) = (if continues d then (c # x) # xs else [c] # x # xs)"
  by simp

declare chars_of.simps(3) [simp del]

lemma length_chars: "length (chars_of (c # s)) = Suc (length (filter (\<lambda>d. \<not> continues d) s))"
proof (induction s arbitrary: c)
  case (Cons d s)
  obtain x xs where x: "chars_of (d # s) = x # xs" using chars_of_next by blast
  then show ?case using Cons [of d] by (simp add: chars_of_step [OF x])
qed simp

lemma length_chars_append: "length (chars_of (a @ b)) \<le> length (chars_of a) + length (chars_of b)"
  by (cases a; cases b) (simp_all add: length_chars)

lemma length_chars_prefix: "length (chars_of a) \<le> length (chars_of (a @ b))"
  by (cases a) (simp_all add: length_chars)

lemma concat_chars: "concat (chars_of s) = s"
proof (induction s)
  case (Cons c s)
  show ?case
  proof (cases s)
    case s: (Cons d r)
    obtain y ys where y: "chars_of (d # r) = y # ys" using chars_of_next by blast
    then show ?thesis using Cons unfolding s chars_of_step [OF y] by simp
  qed simp
qed simp

lemma chars_of_nonempty: "x \<in> set (chars_of s) \<Longrightarrow> x \<noteq> []"
proof (induction s arbitrary: x)
  case (Cons c s)
  show ?case
  proof (cases s)
    case s: (Cons d r)
    obtain y ys where y: "chars_of (d # r) = y # ys" using chars_of_next by blast
    then show ?thesis using Cons unfolding s chars_of_step [OF y] by (auto split: if_splits)
  qed (use Cons.prems in simp)
qed simp

lemma concat_first: "chars_of (d # r) = y # ys \<Longrightarrow> hd y = d"
proof -
  assume y: "chars_of (d # r) = y # ys"
  then have "y @ concat ys = d # r" using concat_chars [of "d # r"] by simp
  moreover have "y \<noteq> []" using chars_of_nonempty [of y "d # r"] y by simp
  ultimately show ?thesis by (cases y) simp_all
qed

lemma chars_of_parts: "x \<in> set (chars_of s) \<Longrightarrow> \<exists>c t. x = c # t \<and> list_all continues t"
proof (induction s arbitrary: x)
  case (Cons c s)
  show ?case
  proof (cases s)
    case s: (Cons d r)
    obtain y ys where y: "chars_of (d # r) = y # ys" using chars_of_next by blast
    have IH: "z \<in> set (chars_of (d # r)) \<Longrightarrow> \<exists>c t. z = c # t \<and> list_all continues t" for z
      using Cons.IH [of z] s by simp
    obtain t where t: "y = d # t" "list_all continues t"
      using IH [of y] concat_first [OF y] y by auto
    show ?thesis
    proof (cases "continues d")
      case True
      then show ?thesis
        using Cons.prems IH [of x] t y unfolding s chars_of_step [OF y] by auto
    next
      case False
      then show ?thesis using Cons.prems IH [of x] y unfolding s chars_of_step [OF y] by auto
    qed
  qed (use Cons.prems in simp)
qed simp

lemma length_chars_concat: "\<forall>x \<in> set xs. length (chars_of x) \<le> 1 \<Longrightarrow> length (chars_of (concat xs)) \<le> length xs"
proof (induction xs)
  case (Cons x xs)
  then show ?case using length_chars_append [of x "concat xs"] by simp
qed simp

lemma length_chars_take: "length (chars_of (concat (take n (chars_of s)))) \<le> n"
proof -
  have "length (chars_of x) \<le> 1" if "x \<in> set (take n (chars_of s))" for x
    using chars_of_parts [OF in_set_takeD [OF that]]
    by (auto simp: length_chars list_all_iff)
  then have "length (chars_of (concat (take n (chars_of s)))) \<le> length (take n (chars_of s))"
    by (intro length_chars_concat) blast
  then show ?thesis by simp
qed

lemma rstrip_prefix: "\<exists>r. s = rstrip_by p s @ r"
proof
  show "s = rstrip_by p s @ rev (takeWhile p (rev s))"
    by (simp add: rstrip_by_def flip: rev_append)
qed

text \<open>The only white space of joined words is the space between them.\<close>

definition one_line_text :: "string \<Rightarrow> bool" where
  "one_line_text s \<longleftrightarrow> list_all (\<lambda>c. py_isspace c \<longrightarrow> c = CHR '' '') s"

lemma words_plain: "list_all (\<lambda>c. \<not> py_isspace c) acc \<Longrightarrow> w \<in> set (words_acc acc s) \<Longrightarrow> list_all (\<lambda>c. \<not> py_isspace c) w"
  by (induction acc s arbitrary: w rule: words_acc.induct) (auto split: if_splits)

lemma join_words: "\<forall>w \<in> set ws. list_all (\<lambda>c. \<not> py_isspace c) w \<Longrightarrow> one_line_text (join '' '' ws)"
  by (induction "'' ''" ws rule: join.induct) (auto simp: one_line_text_def list_all_iff)

lemma one_line_words: "one_line_text (join '' '' (words_of s))"
  unfolding words_of_def by (intro join_words ballI) (auto elim: words_plain [rotated])

lemma one_line_take: "one_line_text s \<Longrightarrow> one_line_text (concat (take n (chars_of s)))"
proof -
  assume "one_line_text s"
  moreover have "concat (take n (chars_of s)) @ concat (drop n (chars_of s)) = s"
    by (metis append_take_drop_id concat_append concat_chars)
  ultimately show ?thesis unfolding one_line_text_def by (metis list_all_append)
qed

lemma one_line_rstrip: "one_line_text s \<Longrightarrow> one_line_text (rstrip_by p s)"
  using rstrip_prefix [of s p] unfolding one_line_text_def by (metis list_all_append)

lemma dots: "length (chars_of ''...'') = 3"
  by code_simp

text \<open>A compacted text is its fallback, or a text on one line of at most the given number of characters.\<close>

theorem compact_bounded:
  "compact value fallback (n + 3) = fallback
   \<or> one_line_text (compact value fallback (n + 3)) \<and> length (chars_of (compact value fallback (n + 3))) \<le> n + 3"
proof (cases "py_strip (text_or value []) = []")
  case False
  let ?u = "join '' '' (words_of (py_strip (text_or value [])))"
  show ?thesis
  proof (cases "length (chars_of ?u) \<le> n + 3")
    case True
    then show ?thesis using False one_line_words by (simp add: compact_def Let_def)
  next
    case long: False
    let ?cut = "rstrip_by py_isspace (concat (take n (chars_of ?u)))"
    have c: "compact value fallback (n + 3) = ?cut @ ''...''"
      using False long by (simp add: compact_def Let_def)
    have "length (chars_of ?cut) \<le> n"
      by (metis length_chars_take length_chars_prefix rstrip_prefix le_trans)
    then have "length (chars_of (?cut @ ''...'')) \<le> n + 3"
      using length_chars_append [of ?cut "''...''"] dots by linarith
    moreover have "one_line_text (?cut @ ''...'')"
      using one_line_rstrip [OF one_line_take [OF one_line_words]] by (simp add: one_line_text_def py_isspace_def)
    ultimately show ?thesis unfolding c by blast
  qed
qed (simp add: compact_def)

section \<open>What a synchronisation touches\<close>

text \<open>The actions allowed: nothing is pushed but the branch of the synchronisation, out of the work directory, and
  nothing is made, written or removed outside of it but the directory the work directories lie in, which is made
  where it is missing.\<close>

definition sync_branch :: "sync_env \<Rightarrow> string" where
  "sync_branch env = ''mr/feedback-pattern-sync-'' @ ye_stamp env"

fun confined :: "sync_env \<Rightarrow> sync_action \<Rightarrow> bool" where
  "confined env (Run_Git dir args) \<longleftrightarrow>
     (if take 1 args = [''push''] then dir = ye_work env \<and> args = [''push'', ''-u'', ''origin'', sync_branch env]
      else dir = ye_work env \<or> args \<in> {[''remote'', ''get-url'', ''origin''], [''config'', ''--get'', ''user.name''],
        [''config'', ''--get'', ''user.email'']})"
| "confined env (Clone_Branch _ _ dir) \<longleftrightarrow> dir = ye_work env"
| "confined env (Make_Dirs dir) \<longleftrightarrow> dir = ye_work_root env \<or> startswith dir (ye_work env @ ''/'')"
| "confined env (Make_Work_Dir dir) \<longleftrightarrow> dir = ye_work env"
| "confined env (Write_File file _) \<longleftrightarrow> startswith file (ye_work env @ ''/'')"
| "confined env (Post_Merge_Request _ _ _) \<longleftrightarrow> True"
| "confined env (Remove_Work_Dir dir) \<longleftrightarrow> dir = ye_work env"

lemma yields_act: "confined env a \<Longrightarrow> yields (list_all (confined env)) (\<lambda>_. True) (sync_act a)"
  unfolding sync_act_def by (rule yields_wmod) simp_all

lemma yields_sync_command: "confined env a \<Longrightarrow> yields (list_all (confined env)) (\<lambda>_. True) (sync_command env a)"
  unfolding sync_command_def by (intro yields_step [OF yields_wget] yields_wseq yields_act yields_wlift) simp_all

lemma yields_file: "confined env a \<Longrightarrow> yields (list_all (confined env)) (\<lambda>_. True) (sync_file env a)"
  unfolding sync_file_def by (intro yields_step [OF yields_wget] yields_wseq yields_act yields_wlift) simp_all

lemma yields_git:
  assumes "confined env (Run_Git dir args)"
  shows "yields (list_all (confined env)) (\<lambda>_. True) (sync_git env dir args)"
    "yields (list_all (confined env)) (\<lambda>_. True) (sync_git_optional env dir args)"
    "yields (list_all (confined env)) (\<lambda>_. True) (ignore_value (sync_git env dir args))"
  unfolding sync_git_def sync_git_optional_def ignore_value_def
  by (intro yields_step [OF yields_sync_command] yields_step [OF yields_step [OF yields_sync_command]] yields_if yields_wraise
      yields_wret assms TrueI)+

lemma yields_clone_isolated:
  "yields (list_all (confined env)) (\<lambda>work. work = ye_work env) (clone_isolated_repo env target)"
  unfolding clone_isolated_repo_def
  by (intro yields_wseq yields_file yields_step [OF yields_git(1)] yields_step [OF yields_sync_command] yields_if yields_wraise
      yields_wret) simp_all

lemma yields_git_user:
  "yields (list_all (confined env)) (\<lambda>_. True) (configure_git_user env (ye_work env))"
  unfolding configure_git_user_def
  by (intro yields_wseq yields_step [OF yields_git(2)] yields_git) simp_all

lemma yields_reference:
  "yields (list_all (confined env)) (\<lambda>_. True) (ensure_review_reference env (ye_work env))"
  unfolding ensure_review_reference_def Let_def
  by (intro yields_step [OF yields_wget] yields_case_option yields_wraise yields_if yields_wret yields_file)
    (simp_all add: startswith_iff)

lemma yields_post:
  "yields (list_all (confined env)) (\<lambda>_. True) (post_merge_request env url body e tokens)"
proof (induction tokens arbitrary: e)
  case (Cons token tokens)
  show ?case
    unfolding post_merge_request.simps Let_def
    by (rule yields_step [OF yields_wget [where P = "\<lambda>_. True"]], simp, rule yields_wseq, rule yields_act, simp)
      (auto split: mr_answer.split option.split intro!: Cons yields_if yields_wraise yields_wret yields_check)
qed (simp add: yields_intros split: option.split)

lemma yields_try_mr:
  "yields (list_all (confined env)) (\<lambda>_. True) (try_merge_request env cfg branch target)"
  unfolding try_merge_request_def create_merge_request_def Let_def
  by (intro yields_wcatch yields_step [OF yields_post] yields_wret)
    (auto intro: yields_wret yields_wraise split: py_exc.split)

lemma yields_push_patterns:
  "yields (list_all (confined env)) (\<lambda>_. True) (push_patterns env cfg target content fp acc (ye_work env))"
  unfolding push_patterns_def Let_def sync_branch_def [symmetric]
  by (rule yields_wseq [OF yields_git_user], rule yields_step [OF yields_wget [where P = "\<lambda>_. True"]], simp)
    (auto intro!: yields_if yields_wret yields_wseq yields_file yields_reference yields_git yields_step [OF yields_try_mr]
      simp: startswith_iff split: prod.split)

lemma sync_keeps_confined:
  "yields (list_all (confined env)) (\<lambda>_. True) (sync_feedback_patterns env cfg d)"
  unfolding sync_feedback_patterns_def create_patterns_merge_request_def Let_def
  by (intro yields_if yields_wret yields_wbind [OF yields_clone_isolated] yields_step [OF yields_wtry [OF yields_push_patterns]]
      yields_wseq yields_act yields_wlift TrueI)
    (auto intro!: yields_step [OF yields_wtry [OF yields_push_patterns]] yields_wseq yields_act yields_wlift yields_if yields_wret)

lemma yields_unremoved:
  "yields (list_all (\<lambda>a. \<forall>dir. a \<noteq> Remove_Work_Dir dir)) (\<lambda>_. True) (clone_isolated_repo env target)"
  unfolding clone_isolated_repo_def sync_git_def sync_command_def sync_file_def sync_act_def
  by (intro yields_wseq yields_step [OF yields_wget] yields_step yields_wmod yields_if yields_wraise yields_wret yields_wlift TrueI)
    simp_all

lemma sync_cleans_up:
  "case clone_isolated_repo env (text_or (Some (ys_target cfg)) ''init'') w of
     (Inl e, v) \<Rightarrow> create_patterns_merge_request env cfg content fp acc w = (Inl e, v)
   | (Inr work, v) \<Rightarrow>
       (if ye_keep env then True
        else (\<exists>log. snd (create_patterns_merge_request env cfg content fp acc w) = log @ [Remove_Work_Dir work]))"
proof (cases "clone_isolated_repo env (text_or (Some (ys_target cfg)) ''init'') w")
  case (Pair r v)
  then show ?thesis
    by (cases r) (simp_all add: create_patterns_merge_request_def Let_def wbind_def wtry_def wseq_def sync_act_def wmod_def wlift_def
        split: prod.split)
qed

text \<open>C33: whatever git, the files and the server answer, a synchronisation pushes nothing but its own branch, and makes,
  writes and removes nothing outside its work directory, except that it makes the directory the work directories lie
  in. Once the target branch was cloned, removing the work directory is the last thing done unless it is to be kept,
  whatever failed in between; where making the directory or the clone itself fails, the synchronisation ends with that
  error at once and removes nothing.\<close>

theorem sync_confined:
  "list_all (confined env) (snd (sync_feedback_patterns env cfg d []))
   \<and> (case clone_isolated_repo env (text_or (Some (ys_target cfg)) ''init'') [] of
        (Inl e, v) \<Rightarrow> create_patterns_merge_request env cfg content fp acc [] = (Inl e, v)
            \<and> list_all (\<lambda>a. \<forall>dir. a \<noteq> Remove_Work_Dir dir) v
      | (Inr work, v) \<Rightarrow>
          (if ye_keep env then True
           else (\<exists>log. snd (create_patterns_merge_request env cfg content fp acc []) = log @ [Remove_Work_Dir work])))"
  using yields_end [OF sync_keeps_confined, of env "[]" cfg d]
    sync_cleans_up [where env = env and cfg = cfg and w = "[]" and content = content and fp = fp and acc = acc]
    yields_end [OF yields_unremoved, of "[]" env "text_or (Some (ys_target cfg)) ''init''"]
  by (auto split: sum.splits prod.splits)

section \<open>Which patterns are taken\<close>

lemma pattern_rows_resolved:
  "p \<in> set (pattern_rows d) \<Longrightarrow> fn_status (pt_finding p) \<in> set RESOLVED_PATTERN_STATUSES \<and> pt_finding p \<in> set (db_findings d)"
  by (auto simp: pattern_rows_def List.map_filter_def)

lemma loaded_patterns:
  "length (load_feedback_patterns n d) \<le> n"
  "set (load_feedback_patterns n d) \<subseteq> set (pattern_rows d)"
  "sorted_wrt (\<lambda>p q. pattern_time q \<le> pattern_time p) (load_feedback_patterns n d)"
proof -
  have "sorted_wrt (\<lambda>p q. (- pattern_time p, fn_id (pt_finding p)) \<le> (- pattern_time q, fn_id (pt_finding q)))
      (sort_key (\<lambda>p. (- pattern_time p, fn_id (pt_finding p))) (pattern_rows d))"
    using sorted_sort_key [of "\<lambda>p. (- pattern_time p, fn_id (pt_finding p))" "pattern_rows d"] by (simp add: sorted_map)
  then have "sorted_wrt (\<lambda>p q. pattern_time q \<le> pattern_time p)
      (sort_key (\<lambda>p. (- pattern_time p, fn_id (pt_finding p))) (pattern_rows d))"
    by (rule sorted_wrt_mono_rel [rotated]) (auto simp: less_eq_prod_def)
  then show "sorted_wrt (\<lambda>p q. pattern_time q \<le> pattern_time p) (load_feedback_patterns n d)"
    by (simp add: load_feedback_patterns_def sorted_wrt_take)
qed (auto simp: load_feedback_patterns_def dest: in_set_takeD)

lemma known_findings_taken:
  assumes "db_ok d" shows "map pt_finding (pattern_rows d) = filter (\<lambda>f. fn_status f \<in> set RESOLVED_PATTERN_STATUSES) (db_findings d)"
proof -
  have known: "\<exists>t. get_task (fn_task f) d = Some t" if "f \<in> set (db_findings d)" for f
  proof -
    have "task_known d (fn_task f)" using assms that unfolding db_ok_def refs_ok_def by blast
    then show ?thesis by (cases "get_task (fn_task f) d") (auto simp: get_task_def find_None_key)
  qed
  let ?fs = "filter (\<lambda>f. fn_status f \<in> set RESOLVED_PATTERN_STATUSES) (db_findings d)"
  have "map pt_finding (List.map_filter (\<lambda>f. map_option (\<lambda>t. \<lparr>pt_finding = f, pt_task = t, pt_run = joined_run d (fn_run f),
      pt_event = latest_change d (fn_id f)\<rparr>) (get_task (fn_task f) d)) fs) = fs" if "set fs \<subseteq> set (db_findings d)" for fs
    using that
  proof (induction fs)
    case (Cons f fs)
    then obtain t where "get_task (fn_task f) d = Some t" using known [of f] by auto
    with Cons show ?case by simp
  qed simp
  from this [of ?fs] show ?thesis unfolding pattern_rows_def by simp
qed

end
