(* ===== verification/Api.thy ===== *)
theory Api
  imports Feedback_Review Fix_Session Service_Views Pattern_Sync
begin

text \<open>
  The end points of the service, \<open>api/routes.py\<close>, with the submission to the review database
  (\<open>_submit_v2\<close> in \<open>core/service.py\<close>): the token of the triggers, submission, reading, feedback, fix
  sessions, control of tasks and the synchronisation of patterns. An end point is a statement over the task
  service and the review database; it answers, or ends with a status of HTTP, or lets an exception through,
  which the server answers with 500. The queries FastAPI checks before the function is called are not modelled,
  nor are the fixed messages of the answers; the parts of the pages are in \<open>Page_Parts\<close>. Header names are in lower case; the bounds of a window
  have an offset, as the pages send them.
\<close>

section \<open>Worlds\<close>

record sync_state =
  sy_running :: bool
  sy_started :: "instant option"
  sy_finished :: "instant option"
  sy_code :: "int option"
  sy_message :: string

record api_world =
  ap_service :: service_world
  ap_review :: world
  ap_sync :: sync_state

datatype api_exc = Http nat string | Raised py_exc

type_synonym 'a api = "(api_world, api_exc, 'a) stmt"

record api_settings =
  as_service :: service_settings
  as_v2 :: bool
  as_token :: string

record http_request =
  hr_headers :: "(string \<times> string) list"
  hr_base_url :: string

text \<open>A call of the task service, of the review database, and of what may raise.\<close>

definition of_service :: "'a ts \<Rightarrow> 'a api" where
  "of_service m w =
     (case m (ap_service w) of (Inl e, v) \<Rightarrow> (Inl (Raised e), w\<lparr>ap_service := v\<rparr>) | (Inr x, v) \<Rightarrow> (Inr x, w\<lparr>ap_service := v\<rparr>))"

fun raised_by :: "wf_exc \<Rightarrow> api_exc" where
  "raised_by (Failure e) = Raised e"
| "raised_by (Control a t) = Raised (RuntimeError t)"

definition of_review :: "'a wf \<Rightarrow> 'a api" where
  "of_review m w =
     (case m (ap_review w) of (Inl e, v) \<Rightarrow> (Inl (raised_by e), w\<lparr>ap_review := v\<rparr>) | (Inr x, v) \<Rightarrow> (Inr x, w\<lparr>ap_review := v\<rparr>))"

definition of_result :: "'a py_result \<Rightarrow> 'a api" where
  "of_result r = (case r of Inl e \<Rightarrow> wraise (Raised e) | Inr x \<Rightarrow> wret x)"

definition or_404 :: "string \<Rightarrow> 'a option \<Rightarrow> 'a api" where
  "or_404 detail found = (case found of None \<Rightarrow> wraise (Http 404 detail) | Some x \<Rightarrow> wret x)"

definition not_found :: string where
  "not_found = ''task not found''"

section \<open>The token of a trigger\<close>

definition header :: "http_request \<Rightarrow> string \<Rightarrow> string" where
  "header h name = text_or (map_of (hr_headers h) name) []"

definition trigger_token_from_request :: "http_request \<Rightarrow> string" where
  "trigger_token_from_request h =
     (let (scheme, v) = (case cut_first CHR '' '' (header h ''authorization'') of
            Some p \<Rightarrow> p | None \<Rightarrow> (header h ''authorization'', []))
      in if py_lower scheme = ''bearer'' \<and> py_strip v \<noteq> [] then py_strip v
         else py_strip (text_or (Some (header h ''x-cr-agent-token'')) (header h ''x-webhook-token'')))"

definition is_ascii :: "string \<Rightarrow> bool" where
  "is_ascii s \<longleftrightarrow> list_all (\<lambda>c. (of_char c :: int) < 128) s"

text \<open>\<open>hmac.compare_digest\<close> takes texts of ASCII characters only.\<close>

definition compare_digest :: "string \<Rightarrow> string \<Rightarrow> bool py_result" where
  "compare_digest a b =
     (if is_ascii a \<and> is_ascii b then Inr (a = b)
      else Inl (TypeError ''comparing strings with non-ASCII characters is not supported''))"

definition require_trigger_auth :: "api_settings \<Rightarrow> http_request \<Rightarrow> unit api" where
  "require_trigger_auth cfg h =
     (let expected = py_strip (as_token cfg); provided = trigger_token_from_request h
      in if expected = [] then wraise (Http 503 ''trigger token is not configured'')
         else if provided = [] then wraise (Http 401 ''invalid trigger token'')
         else wbind (of_result (compare_digest provided expected)) (\<lambda>same.
           if same then wret () else wraise (Http 401 ''invalid trigger token'')))"

section \<open>Submission\<close>

definition task_status_url :: "http_request \<Rightarrow> string \<Rightarrow> string" where
  "task_status_url h i = rstrip_by (\<lambda>c. c = CHR ''/'') (hr_base_url h) @ ''/task-status/'' @ i"

definition report_or_task_url :: "http_request \<Rightarrow> task_record \<Rightarrow> string" where
  "report_or_task_url h r = text_or (lr_report_url r) (task_status_url h (lr_id r))"

text \<open>\<open>request.model_dump(mode="json")\<close>.\<close>

definition request_dict :: "trigger_request \<Rightarrow> json_dict" where
  "request_dict rq =
     [(''app_name'', JStr (rq_app_name rq)), (''repo_url'', JStr (rq_repo_url rq)), (''branch'', JStr (rq_branch rq)),
      (''commit_id'', opt_str (rq_commit rq)), (''callback_url'', opt_str (rq_callback_url rq)),
      (''callback_token'', opt_str (rq_callback_token rq)), (''pipeline_id'', opt_str (rq_pipeline rq)),
      (''sprint_id'', opt_str (rq_sprint rq)), (''operator'', opt_str (rq_operator rq)),
      (''trigger_source'', JStr (rq_source rq)), (''metadata'', JObj (rq_metadata rq)), (''ci_task_id'', opt_str (rq_ci_task rq)),
      (''ci_record_id'', opt_str (rq_ci_record rq)), (''ci_parent_id'', opt_str (rq_ci_parent rq)),
      (''ci_task_template_id'', opt_str (rq_ci_template rq))]"

text \<open>The identifier \<open>i\<close> is the fresh one drawn. The record is not stored: the database holds the task.\<close>

definition submit_v2 :: "api_settings \<Rightarrow> string \<Rightarrow> trigger_request \<Rightarrow> task_record api" where
  "submit_v2 cfg i rq =
     wseq (of_review (db_set (create_task i (rq_app_name rq) (rq_repo_url rq) (rq_branch rq) (rq_commit rq) 100 (request_dict rq))))
       (wget (\<lambda>w. (new_record i rq (sw_now (ap_service w)))
          \<lparr>lr_report_url := Some (rstrip_by (\<lambda>c. c = CHR ''/'') (ss_report_base (as_service cfg)) @ ''/'' @ i @ ''/index.html'')\<rparr>))"

definition submit_task :: "api_settings \<Rightarrow> string \<Rightarrow> trigger_request \<Rightarrow> task_record api" where
  "submit_task cfg i rq = (if as_v2 cfg then submit_v2 cfg i rq else of_service (submit (as_service cfg) i rq))"

record trigger_response =
  tx_id :: string
  tx_status :: record_status
  tx_task_url :: string
  tx_report_url :: "string option"

definition trigger_response_of :: "http_request \<Rightarrow> task_record \<Rightarrow> trigger_response" where
  "trigger_response_of h r =
     \<lparr>tx_id = lr_id r, tx_status = lr_status r, tx_task_url = task_status_url h (lr_id r), tx_report_url = lr_report_url r\<rparr>"

definition trigger_task :: "api_settings \<Rightarrow> http_request \<Rightarrow> string \<Rightarrow> trigger_request \<Rightarrow> trigger_response api" where
  "trigger_task cfg h i rq =
     wseq (require_trigger_auth cfg h)
     (wbind (submit_task cfg i rq) (\<lambda>r. wret (trigger_response_of h r)))"

text \<open>The end point for hooks has the same body.\<close>

definition trigger_from_hook :: "api_settings \<Rightarrow> http_request \<Rightarrow> string \<Rightarrow> trigger_request \<Rightarrow> trigger_response api" where
  "trigger_from_hook cfg h i rq =
     wseq (require_trigger_auth cfg h)
     (wbind (submit_task cfg i rq) (\<lambda>r. wret (trigger_response_of h r)))"

record ci_answer =
  ca_status :: int
  ca_message :: string
  ca_data :: json_dict

text \<open>"being processed".\<close>

definition processing_text :: string where
  "processing_text =
    [CHR 0xE5, CHR 0xA4, CHR 0x84, CHR 0xE7, CHR 0x90, CHR 0x86, CHR 0xE4, CHR 0xB8, CHR 0xAD]"

definition ci_result :: "http_request \<Rightarrow> task_record \<Rightarrow> ci_answer" where
  "ci_result h r =
     \<lparr>ca_status = 0, ca_message = processing_text,
      ca_data = [(''taskId'', JStr (lr_id r)), (''task_id'', JStr (lr_id r)), (''status'', JStr (record_status_text (lr_status r))),
        (''url'', JStr (report_or_task_url h r)), (''reportUrl'', JStr (report_or_task_url h r)),
        (''taskUrl'', JStr (task_status_url h (lr_id r)))]\<rparr>"

definition ci_failure :: "py_exc \<Rightarrow> ci_answer" where
  "ci_failure e = \<lparr>ca_status = -1, ca_message = exc_text e, ca_data = []\<rparr>"

definition ci_submit :: "api_settings \<Rightarrow> string \<Rightarrow> json_dict \<Rightarrow> task_record api" where
  "ci_submit cfg i payload = wbind (of_result (from_ci_payload payload)) (submit_task cfg i)"

definition ci_outcome :: "http_request \<Rightarrow> api_exc + task_record \<Rightarrow> ci_answer" where
  "ci_outcome h r =
     (case r of
        Inr x \<Rightarrow> ci_result h x
      | Inl (Raised e) \<Rightarrow> ci_failure e
      | Inl (Http code t) \<Rightarrow> ci_failure (RuntimeError t))"

definition trigger_from_ci :: "api_settings \<Rightarrow> http_request \<Rightarrow> string \<Rightarrow> json_dict \<Rightarrow> ci_answer api" where
  "trigger_from_ci cfg h i payload =
     wseq (require_trigger_auth cfg h)
     (wbind (wtry (ci_submit cfg i payload)) (\<lambda>r. wret (ci_outcome h r)))"

section \<open>Reading\<close>

definition api_get_task :: "api_settings \<Rightarrow> string \<Rightarrow> task_record api" where
  "api_get_task cfg i = wbind (of_service (get_record (as_service cfg) i)) (or_404 not_found)"

definition api_list_tasks :: "api_settings \<Rightarrow> task_record list api" where
  "api_list_tasks cfg = of_service (list_all_records (as_service cfg))"

definition task_status_data :: "api_settings \<Rightarrow> string \<Rightarrow> (status_view + task_record) api" where
  "task_status_data cfg i =
     (if as_v2 cfg then wbind (of_review (db_get (task_status_view i))) (\<lambda>v. wbind (or_404 not_found v) (\<lambda>x. wret (Inl x)))
      else wbind (api_get_task cfg i) (\<lambda>r. wret (Inr r)))"

definition report_progress_data :: "api_settings \<Rightarrow> string \<Rightarrow> (status_view \<times> feedback_row list) api" where
  "report_progress_data cfg i =
     (if \<not> as_v2 cfg then wraise (Http 404 ''progress is only available for review v2'')
      else wbind (of_review (db_get (progress_report i))) (or_404 not_found))"

definition feedback_progress_data :: "api_settings \<Rightarrow> string \<Rightarrow> string \<Rightarrow> feedback_view api" where
  "feedback_progress_data cfg i sid =
     (if \<not> as_v2 cfg then wraise (Http 404 ''feedback progress is only available for review v2'')
      else wbind (of_review (db_get (feedback_progress i sid))) (or_404 ''feedback session not found''))"

definition report_detail_data :: "api_settings \<Rightarrow> string \<Rightarrow> (report_view + detail_page) api" where
  "report_detail_data cfg i =
     (if as_v2 cfg then wbind (of_review (db_get (report_detail i))) (\<lambda>v. wbind (or_404 not_found v) (\<lambda>x. wret (Inl x)))
      else wbind (of_service (get_record (as_service cfg) i)) (\<lambda>r.
           wbind (of_service (sget (feedback_of i))) (\<lambda>files.
           wbind (of_service (wget sw_now)) (\<lambda>now.
           wbind (of_result (get_report_detail r files now)) (\<lambda>p. wret (Inr p))))))"

definition recent_reports_data ::
  "api_settings \<Rightarrow> (string list \<Rightarrow> session_totals) \<Rightarrow> int \<Rightarrow> int \<Rightarrow> (recent_report_view + recent_task_report) api" where
  "recent_reports_data cfg load hours limit =
     (if as_v2 cfg then of_review (wbind (wget wd_now) (\<lambda>now. db_get (\<lambda>d. Inl (recent_report hours limit now d))))
      else of_service (wbind (wget sw_now) (\<lambda>now. wbind (list_all_records (as_service cfg)) (\<lambda>rs.
        wret (Inr (get_recent_task_report load hours limit now rs))))))"

record running_row =
  nr_id :: string
  nr_app :: string
  nr_branch :: string
  nr_started :: instant
  nr_elapsed :: int

definition running_row_of :: "instant \<Rightarrow> task_record \<Rightarrow> running_row" where
  "running_row_of now r =
     (let t = (case lr_started r of Some t \<Rightarrow> t | None \<Rightarrow> lr_created r)
      in \<lparr>nr_id = lr_id r, nr_app = rq_app_name (lr_request r), nr_branch = rq_branch (lr_request r), nr_started = t,
          nr_elapsed = now - t\<rparr>)"

definition admin_task_list ::
  "api_settings \<Rightarrow> instant option \<Rightarrow> instant option \<Rightarrow> int \<Rightarrow> int \<Rightarrow> task_record page api" where
  "admin_task_list cfg start_at end_at page page_size =
     of_service (wbind (list_all_records (as_service cfg)) (\<lambda>rs. wret (list_tasks_page start_at end_at page page_size rs)))"

definition admin_metrics :: "api_settings \<Rightarrow> instant option \<Rightarrow> instant option \<Rightarrow> int \<Rightarrow> dashboard_metrics api" where
  "admin_metrics cfg start_at end_at bucket_minutes =
     of_service (wbind (list_all_records (as_service cfg)) (\<lambda>rs. wret (get_dashboard_metrics start_at end_at bucket_minutes rs)))"

definition admin_delete_running_tasks :: "api_settings \<Rightarrow> instant option \<Rightarrow> instant option \<Rightarrow> string list api" where
  "admin_delete_running_tasks cfg start_at end_at = of_service (delete_running_tasks (as_service cfg) start_at end_at)"

definition admin_running_tasks :: "api_settings \<Rightarrow> running_row list api" where
  "admin_running_tasks cfg =
     of_service (wbind (wget sw_now) (\<lambda>now. wbind (list_all_records (as_service cfg)) (\<lambda>rs.
       wret (map (running_row_of now) (list_running rs)))))"

section \<open>Feedback and fix sessions\<close>

text \<open>\<open>(v or "").strip()\<close>.\<close>

definition message_of :: "json \<Rightarrow> string api" where
  "message_of v =
     (case py_or v (JStr []) of JStr s \<Rightarrow> wret (py_strip s) | _ \<Rightarrow> wraise (Raised (AttributeError ''object has no attribute strip'')))"

definition required_message :: "json \<Rightarrow> string api" where
  "required_message v = wbind (message_of v) (\<lambda>m. if m = [] then wraise (Http 400 ''message is required'') else wret m)"

definition submit_report_feedback :: "api_settings \<Rightarrow> string \<Rightarrow> int \<Rightarrow> json_dict \<Rightarrow> feedback_thread api" where
  "submit_report_feedback cfg i idx payload =
     (if as_v2 cfg then wraise (Http 404 ''index-based feedback is not available in v2'')
      else wbind (required_message (dget payload ''message'')) (\<lambda>m. of_service (submit_thread_message (as_service cfg) i idx m)))"

text \<open>A \<open>ValueError\<close> is answered with 404.\<close>

definition value_error_404 :: "'a api \<Rightarrow> 'a api" where
  "value_error_404 m =
     wcatch m (\<lambda>e. case e of
        Raised (ValueError t) \<Rightarrow> wraise (Http 404 t)
      | Raised (JSONDecodeError t) \<Rightarrow> wraise (Http 404 t)
      | _ \<Rightarrow> wraise e)"

text \<open>The answer is the session started, or none for a finding an operator closes. The thread that runs the
  re-review is \<open>process_finding_feedback\<close>.\<close>

definition submit_report_feedback_v2 ::
  "api_settings \<Rightarrow> feedback_env \<Rightarrow> string \<Rightarrow> string \<Rightarrow> string \<Rightarrow> json_dict \<Rightarrow> string option api" where
  "submit_report_feedback_v2 cfg env sid i finding_id payload =
     (if \<not> as_v2 cfg then wraise (Http 404 ''v2 feedback is not enabled'')
      else wbind (required_message (py_or (dget payload ''message'') (dget payload ''rationale''))) (\<lambda>m.
        value_error_404
          (if dget payload ''disposition'' = JStr ''human_non_fix'' then
             wseq (of_review (mark_human_non_fix i finding_id (py_str (py_or (dget payload ''actor'') (JStr ''human''))) m)) (wret None)
           else wbind (of_review (start_finding_feedback env i finding_id m sid)) (\<lambda>(s, _). wret (Some s)))))"

definition submit_general_report_feedback :: "api_settings \<Rightarrow> string \<Rightarrow> string \<Rightarrow> json_dict \<Rightarrow> general_feedback api" where
  "submit_general_report_feedback cfg fid i payload =
     wbind (required_message (dget payload ''message'')) (\<lambda>m. of_service (submit_general_feedback (as_service cfg) i fid m))"

definition ints_of :: "json list \<Rightarrow> int list py_result" where
  "ints_of vs = fold_r (\<lambda>is v. bind_r (py_int v) (\<lambda>n. Inr (is @ [n]))) [] vs"

definition api_create_fix_session :: "api_settings \<Rightarrow> string \<Rightarrow> string \<Rightarrow> json_dict \<Rightarrow> fix_session api" where
  "api_create_fix_session cfg sid i payload =
     (if as_v2 cfg then wraise (Http 404 ''fix sessions are not available in v2'')
      else (case py_or (dget payload ''selected_finding_indexes'') (JArr []) of
          JArr selected \<Rightarrow>
            wbind (of_result (ints_of selected)) (\<lambda>is.
            wbind (message_of (dget payload ''message'')) (\<lambda>m. of_service (create_fix_session (as_service cfg) i sid is m)))
        | _ \<Rightarrow> wraise (Http 400 ''selected_finding_indexes must be a list'')))"

definition api_submit_fix_message :: "api_settings \<Rightarrow> string \<Rightarrow> string \<Rightarrow> json_dict \<Rightarrow> fix_session api" where
  "api_submit_fix_message cfg i sid payload =
     wbind (required_message (dget payload ''message'')) (\<lambda>m. of_service (submit_fix_session_message (as_service cfg) i sid m))"

section \<open>Control of a task\<close>

record control_answer =
  ct_task :: string
  ct_action :: string
  ct_view :: status_view

definition ensure_review_task :: "string \<Rightarrow> unit api" where
  "ensure_review_task i = wbind (of_review (db_get (get_task i))) (\<lambda>t. wbind (or_404 not_found t) (\<lambda>_. wret ()))"

definition control_response :: "string \<Rightarrow> string \<Rightarrow> control_answer api" where
  "control_response i action =
     wbind (of_review (db_get (task_status_view i))) (\<lambda>v. wbind (or_404 not_found v) (\<lambda>x.
       wret \<lparr>ct_task = i, ct_action = action, ct_view = x\<rparr>))"

definition admin_control ::
  "api_settings \<Rightarrow> string \<Rightarrow> (string \<Rightarrow> string option \<Rightarrow> unit wf) \<Rightarrow> string \<Rightarrow> string option \<Rightarrow> control_answer api" where
  "admin_control cfg action m i reason =
     (if \<not> as_v2 cfg then wraise (Http 404 ''task control is only available for review v2'')
      else wseq (ensure_review_task i) (wseq (of_review (m i reason)) (control_response i action)))"

text \<open>A stop and a cancellation are two transactions, and other processes may move between them.\<close>

definition stop_calls :: "string \<Rightarrow> string option \<Rightarrow> unit wf" where
  "stop_calls i reason =
     wseq (db_set (request_task_control i Stop_Task reason)) (wseq env_step (db_set (stop_transaction i reason)))"

definition cancel_calls :: "string \<Rightarrow> string option \<Rightarrow> unit wf" where
  "cancel_calls i reason =
     wseq (db_set (request_task_control i Cancel_Task reason)) (wseq env_step (db_set (cancel_transaction i reason)))"

definition requeue_calls :: "string \<Rightarrow> string option \<Rightarrow> unit wf" where
  "requeue_calls i reason = db_set (requeue_task i reason)"

definition admin_stop_task :: "api_settings \<Rightarrow> string \<Rightarrow> string option \<Rightarrow> control_answer api" where
  "admin_stop_task cfg = admin_control cfg ''stop'' stop_calls"

definition admin_cancel_task :: "api_settings \<Rightarrow> string \<Rightarrow> string option \<Rightarrow> control_answer api" where
  "admin_cancel_task cfg = admin_control cfg ''cancel'' cancel_calls"

definition admin_requeue_task :: "api_settings \<Rightarrow> string \<Rightarrow> string option \<Rightarrow> control_answer api" where
  "admin_requeue_task cfg = admin_control cfg ''requeue'' requeue_calls"

section \<open>Synchronisation of patterns\<close>

text \<open>The messages: "the task is being run", "done", "failed", and those of the second version.\<close>

definition script_running_text :: string where
  "script_running_text =
    [CHR 0xE5, CHR 0x90, CHR 0x8C, CHR 0xE6, CHR 0xAD, CHR 0xA5, CHR 0xE4, CHR 0xBB, CHR 0xBB, CHR 0xE5,
     CHR 0x8A, CHR 0xA1, CHR 0xE6, CHR 0x89, CHR 0xA7, CHR 0xE8, CHR 0xA1, CHR 0x8C, CHR 0xE4, CHR 0xB8,
     CHR 0xAD]"

definition script_done_text :: string where
  "script_done_text =
    [CHR 0xE5, CHR 0x90, CHR 0x8C, CHR 0xE6, CHR 0xAD, CHR 0xA5, CHR 0xE5, CHR 0xAE, CHR 0x8C, CHR 0xE6,
     CHR 0x88, CHR 0x90]"

definition script_failed_text :: string where
  "script_failed_text =
    [CHR 0xE5, CHR 0x90, CHR 0x8C, CHR 0xE6, CHR 0xAD, CHR 0xA5, CHR 0xE5, CHR 0xA4, CHR 0xB1, CHR 0xE8,
     CHR 0xB4, CHR 0xA5]"

definition sync_running_text :: string where
  "sync_running_text =
    [CHR 0x43, CHR 0x52, CHR 0x20, CHR 0x76, CHR 0x32, CHR 0x20, CHR 0x53, CHR 0x51, CHR 0x4C, CHR 0x69,
     CHR 0x74, CHR 0x65, CHR 0x20, CHR 0x66, CHR 0x65, CHR 0x65, CHR 0x64, CHR 0x62, CHR 0x61, CHR 0x63,
     CHR 0x6B, CHR 0x20, CHR 0xE8, CHR 0x8C, CHR 0x83, CHR 0xE5, CHR 0xBC, CHR 0x8F, CHR 0xE5, CHR 0x90,
     CHR 0x8C, CHR 0xE6, CHR 0xAD, CHR 0xA5, CHR 0xE6, CHR 0x89, CHR 0xA7, CHR 0xE8, CHR 0xA1, CHR 0x8C,
     CHR 0xE4, CHR 0xB8, CHR 0xAD]"

definition sync_done_text :: string where
  "sync_done_text =
    [CHR 0x43, CHR 0x52, CHR 0x20, CHR 0x76, CHR 0x32, CHR 0x20, CHR 0x53, CHR 0x51, CHR 0x4C, CHR 0x69,
     CHR 0x74, CHR 0x65, CHR 0x20, CHR 0x66, CHR 0x65, CHR 0x65, CHR 0x64, CHR 0x62, CHR 0x61, CHR 0x63,
     CHR 0x6B, CHR 0x20, CHR 0xE8, CHR 0x8C, CHR 0x83, CHR 0xE5, CHR 0xBC, CHR 0x8F, CHR 0xE5, CHR 0x90,
     CHR 0x8C, CHR 0xE6, CHR 0xAD, CHR 0xA5, CHR 0xE5, CHR 0xAE, CHR 0x8C, CHR 0xE6, CHR 0x88, CHR 0x90,
     CHR 0x3A, CHR 0x20, CHR 0x74, CHR 0x6F, CHR 0x74, CHR 0x61, CHR 0x6C, CHR 0x3D]"

definition set_sync :: "(instant \<Rightarrow> sync_state \<Rightarrow> sync_state) \<Rightarrow> unit api" where
  "set_sync f = wmod (\<lambda>w. w\<lparr>ap_sync := f (wd_now (ap_review w)) (ap_sync w)\<rparr>)"

definition first_chars :: "nat \<Rightarrow> string \<Rightarrow> string" where
  "first_chars n s = concat (take n (chars_of s))"

definition sync_begun :: "string \<Rightarrow> instant \<Rightarrow> sync_state \<Rightarrow> sync_state" where
  "sync_begun msg now y = y\<lparr>sy_running := True, sy_started := Some now, sy_message := msg\<rparr>"

definition sync_ended :: "int \<Rightarrow> string \<Rightarrow> instant \<Rightarrow> sync_state \<Rightarrow> sync_state" where
  "sync_ended code msg now y = y\<lparr>sy_running := False, sy_finished := Some now, sy_code := Some code, sy_message := msg\<rparr>"

text \<open>The script is run in a thread: it starts, and ends with an exit code and its output, or raises when it
  cannot be started.\<close>

definition script_begins :: "unit api" where
  "script_begins = set_sync (sync_begun script_running_text)"

definition script_ends :: "(int \<times> string \<times> string) py_result \<Rightarrow> unit api" where
  "script_ends r =
     wbind (of_result r) (\<lambda>(code, out, err).
       (let output = py_strip (text_or (Some out) err)
        in set_sync (sync_ended code
             (if output \<noteq> [] then first_chars 2000 output else if code = 0 then script_done_text else script_failed_text))))"

record sync_answer =
  yn_accepted :: bool
  yn_result :: "json_dict option"
  yn_error :: "string option"
  yn_state :: sync_state

definition sync_answered :: "bool \<Rightarrow> json_dict option \<Rightarrow> string option \<Rightarrow> sync_answer api" where
  "sync_answered accepted result err =
     wget (\<lambda>w. \<lparr>yn_accepted = accepted, yn_result = result, yn_error = err, yn_state = ap_sync w\<rparr>)"

text \<open>\<open>_run_v2_false_positive_sync\<close>.\<close>

definition run_v2_sync :: "sync_env \<Rightarrow> sync_settings \<Rightarrow> sync_answer api" where
  "run_v2_sync env cfg =
     wbind (wget (\<lambda>w. sy_running (ap_sync w))) (\<lambda>running.
       if running then sync_answered False None None
       else wseq (set_sync (sync_begun sync_running_text))
         (wbind (wget (\<lambda>w. fst (sync_feedback_patterns env cfg (wd_db (ap_review w)) []))) (\<lambda>r.
            case r of
              Inr res \<Rightarrow>
                wseq (set_sync (sync_ended 0 (sync_done_text @ str_nat (yr_total res) @ '', changed=''
                         @ (if yr_changed res then ''True'' else ''False''))))
                  (sync_answered True (Some (sync_result_dict res)) None)
            | Inl e \<Rightarrow>
                wseq (set_sync (sync_ended 1 (first_chars 2000 (exc_text e)))) (sync_answered False None (Some (exc_text e))))))"

text \<open>\<open>_trigger_false_positive_sync\<close>: for the script the thread is started, its first statement is another step.\<close>

definition trigger_sync :: "api_settings \<Rightarrow> sync_env \<Rightarrow> sync_settings \<Rightarrow> sync_answer api" where
  "trigger_sync cfg env ys =
     (if as_v2 cfg then run_v2_sync env ys
      else wbind (wget (\<lambda>w. sy_running (ap_sync w))) (\<lambda>running. sync_answered (\<not> running) None None))"

section \<open>Texts of the pages\<close>

text \<open>\<open>s.replace(old, new)\<close>.\<close>

function replace_text :: "string \<Rightarrow> string \<Rightarrow> string \<Rightarrow> string" where
  "replace_text old new s =
     (if s = [] then []
      else if old \<noteq> [] \<and> startswith s old then new @ replace_text old new (drop (length old) s)
      else hd s # replace_text old new (tl s))"
  by pat_completeness auto
termination by (relation "measure (\<lambda>(old, new, s). length s)") auto

declare replace_text.simps [simp del]

text \<open>JSON inside a \<open>script\<close> element; the last two are U+2028 and U+2029.\<close>

definition json_for_script :: "json \<Rightarrow> string" where
  "json_for_script v =
     replace_text [CHR 0xE2, CHR 0x80, CHR 0xA9] (CHR 0x5C # ''u2029'')
       (replace_text [CHR 0xE2, CHR 0x80, CHR 0xA8] (CHR 0x5C # ''u2028'')
         (replace_text ''</'' [CHR ''<'', CHR 0x5C, CHR ''/''] (json_dumps v)))"

definition page_finding_location :: "json_dict \<Rightarrow> string" where
  "page_finding_location item =
     (let path = py_str (py_or (py_or (dget item ''file'') (dget item ''file_path'')) (JStr ''-'')); line = dget item ''line''
      in if truthy line then path @ '':'' @ py_str line else path)"

text \<open>"none"; "passed", "not passed", "unknown".\<close>

definition none_label :: string where
  "none_label =
    [CHR 0xE6, CHR 0x9A, CHR 0x82, CHR 0xE6, CHR 0x97, CHR 0xA0]"

definition passed_label :: string where
  "passed_label =
    [CHR 0xE9, CHR 0x80, CHR 0x9A, CHR 0xE8, CHR 0xBF, CHR 0x87]"

definition not_passed_label :: string where
  "not_passed_label =
    [CHR 0xE6, CHR 0x9C, CHR 0xAA, CHR 0xE9, CHR 0x80, CHR 0x9A, CHR 0xE8, CHR 0xBF, CHR 0x87]"

definition unknown_label :: string where
  "unknown_label =
    [CHR 0xE6, CHR 0x9C, CHR 0xAA, CHR 0xE7, CHR 0x9F, CHR 0xA5]"

definition duration_label :: "rat option \<Rightarrow> string" where
  "duration_label seconds =
     (case seconds of
        None \<Rightarrow> none_label
      | Some q \<Rightarrow>
          (let t = nat (max 0 \<lfloor>py_round 0 q\<rfloor>); hours = t div 60 div 60; minute = t div 60 mod 60; sec = t mod 60
           in if hours \<noteq> 0 then str_nat hours @ ''h '' @ str_nat minute @ ''m '' @ str_nat sec @ ''s''
              else if minute \<noteq> 0 then str_nat minute @ ''m '' @ str_nat sec @ ''s''
              else str_nat sec @ ''s''))"

definition chip_class :: "string \<Rightarrow> string" where
  "chip_class name =
     (if name \<in> {''passed'', ''success''} then ''ok''
      else if name \<in> {''failed'', ''fatal'', ''high''} then ''bad''
      else if name \<in> {''queued'', ''medium''} then ''warn''
      else if name = ''running'' then ''run'' else [])"

definition report_status_label :: "json_dict \<Rightarrow> string" where
  "report_status_label d =
     (if truthy (dget d ''pass_check'') then passed_label
      else if dget d ''gate_status'' \<in> {JStr ''failed'', JStr ''incomplete''} then not_passed_label
      else py_str (py_or (dget d ''status'') (JStr unknown_label)))"

section \<open>The token decides\<close>

definition authorized :: "api_settings \<Rightarrow> http_request \<Rightarrow> bool" where
  "authorized cfg h \<longleftrightarrow>
     (let expected = py_strip (as_token cfg)
      in expected \<noteq> [] \<and> is_ascii expected \<and> trigger_token_from_request h = expected)"

definition refusals :: "api_exc set" where
  "refusals = {Http 503 ''trigger token is not configured'', Http 401 ''invalid trigger token'',
     Raised (TypeError ''comparing strings with non-ASCII characters is not supported'')}"

lemma auth_authorized: "authorized cfg h \<Longrightarrow> require_trigger_auth cfg h w = (Inr (), w)"
  by (simp add: authorized_def require_trigger_auth_def Let_def compare_digest_def of_result_def wbind_def wret_def)

lemma auth_refused:
  assumes "\<not> authorized cfg h" shows "\<exists>e \<in> refusals. require_trigger_auth cfg h w = (Inl e, w)"
  using assms
  by (auto simp: authorized_def require_trigger_auth_def Let_def compare_digest_def of_result_def wbind_def wret_def wraise_def
      refusals_def)

lemma authorized_runs:
  assumes "authorized cfg h"
  shows "snd (trigger_task cfg h i rq w) = snd (submit_task cfg i rq w)"
    "fst (trigger_task cfg h i rq w) = map_sum id (trigger_response_of h) (fst (submit_task cfg i rq w))"
    "trigger_from_hook cfg h i rq w = trigger_task cfg h i rq w"
    "trigger_from_ci cfg h i payload w = (Inr (ci_outcome h (fst (ci_submit cfg i payload w))), snd (ci_submit cfg i payload w))"
  using assms
  by (simp_all add: trigger_task_def trigger_from_hook_def trigger_from_ci_def wseq_def wbind_def wtry_def wret_def auth_authorized
      split: prod.split sum.split)

text \<open>C38: nobody without the configured token submits a task: such a request is refused with 401, with 503 when no
  token is configured, or lets the exception of a comparison with other than ASCII characters through, and
  nothing changes; with the token the task is submitted.\<close>

theorem trigger_needs_token:
  "if authorized cfg h then
     snd (trigger_task cfg h i rq w) = snd (submit_task cfg i rq w)
     \<and> fst (trigger_task cfg h i rq w) = map_sum id (trigger_response_of h) (fst (submit_task cfg i rq w))
     \<and> trigger_from_hook cfg h i rq w = trigger_task cfg h i rq w
     \<and> fst (trigger_from_ci cfg h i payload w) = Inr (ci_outcome h (fst (ci_submit cfg i payload w)))
     \<and> snd (trigger_from_ci cfg h i payload w) = snd (ci_submit cfg i payload w)
   else (\<exists>e \<in> refusals. trigger_task cfg h i rq w = (Inl e, w) \<and> trigger_from_hook cfg h i rq w = (Inl e, w)
          \<and> trigger_from_ci cfg h i payload w = (Inl e, w))"
proof (cases "authorized cfg h")
  case True
  then show ?thesis by (simp add: authorized_runs)
next
  case False
  then obtain e where "e \<in> refusals" "require_trigger_auth cfg h w = (Inl e, w)" using auth_refused by blast
  with False show ?thesis by (auto simp: trigger_task_def trigger_from_hook_def trigger_from_ci_def wseq_def wbind_def)
qed


section \<open>What a submission does\<close>

lemma submit_v2_known:
  assumes "task_known (wd_db (ap_review w)) i"
  shows "submit_v2 cfg i rq w = (Inl (Raised (IntegrityError ''UNIQUE constraint failed: cr_tasks.task_id'')), w)"
  using assms by (simp add: submit_v2_def wseq_def wbind_def of_review_def db_set_def db_do_def unit_r_def create_task_def)

lemma submit_v2_new:
  assumes "\<not> task_known (wd_db (ap_review w)) i"
  obtains r d1 where "submit_v2 cfg i rq w = (Inr r, w\<lparr>ap_review := (ap_review w)\<lparr>wd_db := d1\<rparr>\<rparr>)"
    and "lr_id r = i" "lr_status r = LQueued" "lr_request r = rq"
    and "db_tasks d1 = db_tasks (wd_db (ap_review w))
      @ [new_task i (rq_app_name rq) (rq_repo_url rq) (rq_branch rq) (rq_commit rq) 100 (request_dict rq) (wd_now (ap_review w))]"
  using assms
  by (simp add: submit_v2_def wseq_def wbind_def of_review_def db_set_def db_do_def unit_r_def create_task_def insert_event_def wget_def
      new_record_def new_task_def)

text \<open>C39: where the second version of the review is enabled, which it is not by default, a trigger of the pipeline
  with the token is answered with status 0 exactly when its payload is accepted and the identifier drawn is new: then one
  queued task of that request is added to the database; otherwise the answer is -1 with the error, and nothing
  changes. The task service, which serves the first version, is left as it is. In the first version the same end point
  submits to the task service, where a repeated trigger gets the task there is.\<close>

theorem ci_trigger_effect:
  assumes token: "authorized cfg h" and v2: "as_v2 cfg"
  shows "let w1 = snd (trigger_from_ci cfg h i payload w); d = wd_db (ap_review w); d1 = wd_db (ap_review w1)
   in (case fst (trigger_from_ci cfg h i payload w) of
         Inl e \<Rightarrow> False
       | Inr ans \<Rightarrow>
           ap_service w1 = ap_service w \<and> ap_sync w1 = ap_sync w
           \<and> (case from_ci_payload payload of
                Inl e \<Rightarrow> ans = ci_failure e \<and> ca_status ans = -1 \<and> w1 = w
              | Inr rq \<Rightarrow>
                  if task_known d i then ca_status ans = -1 \<and> w1 = w
                  else ca_status ans = 0 \<and> dget (ca_data ans) ''task_id'' = JStr i
                    \<and> db_tasks d1 = db_tasks d @ [new_task i (rq_app_name rq) (rq_repo_url rq) (rq_branch rq) (rq_commit rq) 100
                        (request_dict rq) (wd_now (ap_review w))]))"
proof -
  have True: "authorized cfg h \<and> as_v2 cfg" using token v2 by simp
  then have run: "trigger_from_ci cfg h i payload w = (Inr (ci_outcome h (fst (ci_submit cfg i payload w))), snd (ci_submit cfg i payload w))"
    by (simp add: authorized_runs)
  show ?thesis
  proof (cases "from_ci_payload payload")
    case (Inl e)
    then show ?thesis using run
      by (simp add: ci_submit_def wbind_def of_result_def wraise_def ci_outcome_def ci_failure_def)
  next
    case (Inr rq)
    then have sub: "ci_submit cfg i payload w = submit_v2 cfg i rq w"
      using True by (simp add: ci_submit_def wbind_def of_result_def wret_def submit_task_def)
    show ?thesis
    proof (cases "task_known (wd_db (ap_review w)) i")
      case True
      then show ?thesis using run Inr unfolding sub by (simp add: submit_v2_known ci_outcome_def ci_failure_def)
    next
      case False
      then obtain r d1 where "submit_v2 cfg i rq w = (Inr r, w\<lparr>ap_review := (ap_review w)\<lparr>wd_db := d1\<rparr>\<rparr>)" "lr_id r = i"
        "db_tasks d1 = db_tasks (wd_db (ap_review w))
          @ [new_task i (rq_app_name rq) (rq_repo_url rq) (rq_branch rq) (rq_commit rq) 100 (request_dict rq) (wd_now (ap_review w))]"
        by (rule submit_v2_new)
      then show ?thesis using run Inr False unfolding sub by (simp add: ci_outcome_def ci_result_def dget_def)
    qed
  qed
qed

text \<open>A trigger of the pipeline with its token: the task it makes, and what an identifier in use is answered.\<close>

definition sample_api_settings :: api_settings where
  "sample_api_settings = \<lparr>as_service = sample_service_settings, as_v2 = True, as_token = ''secret''\<rparr>"

definition sample_http :: http_request where
  "sample_http = \<lparr>hr_headers = [(''authorization'', ''Bearer secret'')], hr_base_url = ''http://cr/''\<rparr>"

definition sample_api_world :: "db \<Rightarrow> api_world" where
  "sample_api_world d =
     \<lparr>ap_service = sample_start, ap_review = sample_world\<lparr>wd_db := d\<rparr>,
      ap_sync = \<lparr>sy_running = False, sy_started = None, sy_finished = None, sy_code = None, sy_message = []\<rparr>\<rparr>"

theorem ci_trigger_effect_witness:
  "\<exists>ans w1 t. trigger_from_ci sample_api_settings sample_http ''t9'' sample_payload (sample_api_world empty_db) = (Inr ans, w1)
    \<and> ca_status ans = 0 \<and> db_tasks (wd_db (ap_review w1)) = [t] \<and> tk_id t = ''t9''
    \<and> (\<exists>ans2. trigger_from_ci sample_api_settings sample_http ''t9'' sample_payload w1 = (Inr ans2, w1) \<and> ca_status ans2 = -1)"
proof -
  have hyps: "authorized sample_api_settings sample_http" "as_v2 sample_api_settings" by code_simp+
  have "case from_ci_payload sample_payload of Inr r \<Rightarrow> True | Inl _ \<Rightarrow> False" by code_simp
  then obtain rq where rq: "from_ci_payload sample_payload = Inr rq" by (auto split: sum.splits)
  define v where "v = sample_api_world empty_db"
  have v: "wd_db (ap_review v) = empty_db" "\<not> task_known empty_db ''t9''" "db_tasks empty_db = []"
    by (simp_all add: v_def sample_api_world_def empty_db_def)
  obtain ans w1 where run: "trigger_from_ci sample_api_settings sample_http ''t9'' sample_payload v = (Inr ans, w1)"
    using ci_trigger_effect [OF hyps, of "''t9''" sample_payload v]
    by (cases "trigger_from_ci sample_api_settings sample_http ''t9'' sample_payload v") (auto simp: Let_def split: sum.splits)
  have made: "ca_status ans = 0" "db_tasks (wd_db (ap_review w1)) = [new_task ''t9'' (rq_app_name rq) (rq_repo_url rq) (rq_branch rq)
      (rq_commit rq) 100 (request_dict rq) (wd_now (ap_review v))]"
    using ci_trigger_effect [OF hyps, of "''t9''" sample_payload v] rq
    by (simp_all add: run v Let_def)
  then have known: "task_known (wd_db (ap_review w1)) ''t9''" by (simp add: new_task_def)
  obtain ans2 w2 where again: "trigger_from_ci sample_api_settings sample_http ''t9'' sample_payload w1 = (Inr ans2, w2)"
    using ci_trigger_effect [OF hyps, of "''t9''" sample_payload w1]
    by (cases "trigger_from_ci sample_api_settings sample_http ''t9'' sample_payload w1") (auto simp: Let_def split: sum.splits)
  have "ca_status ans2 = -1 \<and> w2 = w1"
    using ci_trigger_effect [OF hyps, of "''t9''" sample_payload w1] rq known by (simp add: again)
  then show ?thesis using run made again unfolding v_def by (auto simp: new_task_def)
qed

text \<open>A task of the second version is not a record of the task service, so the end point for one task does not
  find it.\<close>

lemma v2_task_not_found:
  assumes "submit_v2 cfg i rq w = (Inr r, v)" and "get_record (as_service cfg) i (ap_service w) = (Inr None, s)"
  shows "fst (api_get_task cfg i v) = Inl (Http 404 not_found)"
proof -
  have "ap_service v = ap_service w"
  proof (cases "task_known (wd_db (ap_review w)) i")
    case False
    then obtain r1 d1 where "submit_v2 cfg i rq w = (Inr r1, w\<lparr>ap_review := (ap_review w)\<lparr>wd_db := d1\<rparr>\<rparr>)" by (rule submit_v2_new)
    then show ?thesis using assms(1) by auto
  qed (use assms(1) submit_v2_known [where w = w and i = i and cfg = cfg and rq = rq] in simp)
  then show ?thesis using assms(2) by (simp add: api_get_task_def wbind_def of_service_def or_404_def wraise_def)
qed

section \<open>Control\<close>

lemma known_insert:
  "task_known d i \<Longrightarrow> \<exists>d1. insert_event (Some i) typ sev stage msg payload now d = Inr d1 \<and> task_known d1 i"
  by (simp add: insert_event_def)

lemma known_kept: "task_known (upd_task i (cancel_row g m now) d) j = task_known d j" "task_known (upd_task i (requeue_row now) d) j = task_known d j"
  by (simp_all add: get_task_known get_upd_task cancel_row_def requeue_row_def)

lemma control_succeeds:
  assumes "task_known d i"
  shows "\<exists>d1. request_task_stop i reason now d = Inr d1 \<and> task_known d1 i"
    "\<exists>d1. cancel_task i reason now d = Inr d1 \<and> task_known d1 i"
    "\<exists>d1. requeue_task i reason now d = Inr d1 \<and> task_known d1 i"
proof -
  show "\<exists>d1. request_task_stop i reason now d = Inr d1 \<and> task_known d1 i"
    using assms unfolding request_task_stop_def stop_transaction_def request_task_control_def bind_r_simps Let_def
    by (simp add: insert_event_def)
  show "\<exists>d1. cancel_task i reason now d = Inr d1 \<and> task_known d1 i"
    using assms unfolding cancel_task_def cancel_transaction_def request_task_control_def Let_def
    by (simp, intro known_insert) (simp add: ack_controls_def end_runs_def known_kept)
  show "\<exists>d1. requeue_task i reason now d = Inr d1 \<and> task_known d1 i"
    using assms unfolding requeue_task_def Let_def
    by (intro known_insert) (simp add: ack_controls_def known_kept)
qed

text \<open>Where nobody else moves, the two transactions are the operation.\<close>

lemma calls_run:
  assumes "wd_moves v = []" and "task_known (wd_db v) i"
  shows "stop_calls i reason v = db_set (request_task_stop i reason) v"
    "cancel_calls i reason v = db_set (cancel_task i reason) v"
    "requeue_calls i reason v = db_set (requeue_task i reason) v"
proof -
  obtain c s where known: "request_task_control i Cancel_Task reason (wd_now v) (wd_db v) = Inr c"
    "request_task_control i Stop_Task reason (wd_now v) (wd_db v) = Inr s"
    using assms(2) by (simp add: request_task_control_def)
  obtain e g where ends: "cancel_task i reason (wd_now v) (wd_db v) = Inr e" "request_task_stop i reason (wd_now v) (wd_db v) = Inr g"
    using control_succeeds [OF assms(2)] by blast
  show "stop_calls i reason v = db_set (request_task_stop i reason) v"
    using known ends assms(1)
    by (simp add: stop_calls_def request_task_stop_def db_set_def db_do_def unit_r_def wseq_def wbind_def env_step_def bind_r_simps)
  show "cancel_calls i reason v = db_set (cancel_task i reason) v"
    using known ends assms(1)
    by (simp add: cancel_calls_def cancel_task_def db_set_def db_do_def unit_r_def wseq_def wbind_def env_step_def bind_r_simps)
  show "requeue_calls i reason v = db_set (requeue_task i reason) v" by (simp add: requeue_calls_def)
qed

lemma calls_same:
  "\<forall>v. wd_moves v = [] \<longrightarrow> task_known (wd_db v) i \<longrightarrow> stop_calls i reason v = db_set (request_task_stop i reason) v"
  "\<forall>v. wd_moves v = [] \<longrightarrow> task_known (wd_db v) i \<longrightarrow> cancel_calls i reason v = db_set (cancel_task i reason) v"
  "\<forall>v. wd_moves v = [] \<longrightarrow> task_known (wd_db v) i \<longrightarrow> requeue_calls i reason v = db_set (requeue_task i reason) v"
  by (simp_all add: calls_run)

lemma control_run:
  assumes "\<forall>v. wd_moves v = [] \<longrightarrow> task_known (wd_db v) i \<longrightarrow> m i reason v = db_set (f i reason) v" and "wd_moves (ap_review w) = []"
  shows "admin_control cfg action m i reason w =
     (if \<not> as_v2 cfg then (Inl (Http 404 ''task control is only available for review v2''), w)
      else if \<not> task_known (wd_db (ap_review w)) i then (Inl (Http 404 not_found), w)
      else (case f i reason (wd_now (ap_review w)) (wd_db (ap_review w)) of
          Inl e \<Rightarrow> (Inl (Raised e), w)
        | Inr d1 \<Rightarrow>
            (let w1 = w\<lparr>ap_review := (ap_review w)\<lparr>wd_db := d1\<rparr>\<rparr>
             in case task_status_view i d1 of
                  None \<Rightarrow> (Inl (Http 404 not_found), w1)
                | Some v \<Rightarrow> (Inr \<lparr>ct_task = i, ct_action = action, ct_view = v\<rparr>, w1))))"
  using assms
  by (auto simp: admin_control_def ensure_review_task_def control_response_def wseq_def wbind_def of_review_def db_get_def db_set_def
      db_do_def unit_r_def or_404_def wraise_def wret_def get_task_known Let_def bind_r_Inr bind_r_Inl
      split: option.split sum.split prod.split)

text \<open>An operator's request to stop, cancel or requeue a task is answered with 404 and changes nothing when the task
  is not in the database; otherwise, where nobody else moves meanwhile, the operation is done, which then cannot fail,
  nothing else changes, and the answer shows the task as it is after it.\<close>

theorem control_end_points:
  assumes quiet: "wd_moves (ap_review w) = []"
  shows "list_all (\<lambda>(run, action, f).
     (let d = wd_db (ap_review w)
      in if as_v2 cfg \<and> task_known d i then
           (case f i reason (wd_now (ap_review w)) d of
              Inl e \<Rightarrow> False
            | Inr d1 \<Rightarrow>
                (case task_status_view i d1 of
                   None \<Rightarrow> False
                 | Some v \<Rightarrow> run cfg i reason w = (Inr \<lparr>ct_task = i, ct_action = action, ct_view = v\<rparr>,
                     w\<lparr>ap_review := (ap_review w)\<lparr>wd_db := d1\<rparr>\<rparr>)))
         else (\<exists>t. run cfg i reason w = (Inl (Http 404 t), w))))
     [(admin_stop_task, ''stop'', request_task_stop), (admin_cancel_task, ''cancel'', cancel_task),
      (admin_requeue_task, ''requeue'', requeue_task)]"
proof -
  have shown: "\<exists>v. task_status_view i d1 = Some v" if "task_known d1 i" for d1
    using that by (auto simp: task_status_view_def get_task_known)
  note run = control_run [where m = stop_calls and f = request_task_stop, OF calls_same(1) quiet]
    control_run [where m = cancel_calls and f = cancel_task, OF calls_same(2) quiet]
    control_run [where m = requeue_calls and f = requeue_task, OF calls_same(3) quiet]
  show ?thesis
  proof (cases "task_known (wd_db (ap_review w)) i")
    case True
    let ?now = "wd_now (ap_review w)" and ?d = "wd_db (ap_review w)"
    obtain d1 d2 d3 where "request_task_stop i reason ?now ?d = Inr d1" "task_known d1 i"
      "cancel_task i reason ?now ?d = Inr d2" "task_known d2 i" "requeue_task i reason ?now ?d = Inr d3" "task_known d3 i"
      using control_succeeds [OF True, of reason ?now] by blast
    moreover obtain v1 v2 v3 where "task_status_view i d1 = Some v1" "task_status_view i d2 = Some v2" "task_status_view i d3 = Some v3"
      using calculation shown by blast
    ultimately show ?thesis
      using True by (simp add: admin_stop_task_def admin_cancel_task_def admin_requeue_task_def run)
  qed (simp add: admin_stop_task_def admin_cancel_task_def admin_requeue_task_def run)
qed

section \<open>Synchronisation\<close>

text \<open>The flag is looked at when the thread is made and set when it runs: of two requests between the two both are
  accepted. The second version sets it at once, and always resets it.\<close>

lemma sync_accepted_twice:
  assumes "\<not> as_v2 cfg" and "\<not> sy_running (ap_sync w)"
  shows "\<exists>a b. wbind (trigger_sync cfg env ys) (\<lambda>a. wbind (trigger_sync cfg env ys) (\<lambda>b. wret (a, b))) w = (Inr (a, b), w)
    \<and> yn_accepted a \<and> yn_accepted b"
  using assms by (simp add: trigger_sync_def wbind_def wget_def wret_def sync_answered_def)

lemma v2_sync_excludes:
  "sy_running (ap_sync w) \<Longrightarrow> \<exists>a. run_v2_sync env ys w = (Inr a, w) \<and> \<not> yn_accepted a"
  "\<not> sy_running (ap_sync w) \<Longrightarrow> \<exists>a w1. run_v2_sync env ys w = (Inr a, w1) \<and> \<not> sy_running (ap_sync w1)
     \<and> ap_review w1 = ap_review w \<and> yn_state a = ap_sync w1"
  by (auto simp: run_v2_sync_def wseq_def wbind_def wget_def wmod_def wret_def set_sync_def sync_answered_def sync_begun_def sync_ended_def
      split: sum.split)

section \<open>JSON in a page\<close>

text \<open>No end of an element.\<close>

fun no_close :: "string \<Rightarrow> bool" where
  "no_close (c # d # s) \<longleftrightarrow> \<not> (c = CHR ''<'' \<and> d = CHR ''/'') \<and> no_close (d # s)"
| "no_close _ \<longleftrightarrow> True"

lemma no_close_iff: "no_close s \<longleftrightarrow> \<not> contains s ''</''"
  by (induction s rule: no_close.induct) auto

lemma no_close_Cons: "no_close (c # s) \<longleftrightarrow> no_close s \<and> \<not> (c = CHR ''<'' \<and> s \<noteq> [] \<and> hd s = CHR ''/'')"
  by (cases s) auto

lemma replace_close:
  "no_close (replace_text ''</'' [CHR ''<'', CHR 0x5C, CHR ''/''] s)
   \<and> (s \<noteq> [] \<longrightarrow> replace_text ''</'' [CHR ''<'', CHR 0x5C, CHR ''/''] s \<noteq> []
        \<and> hd (replace_text ''</'' [CHR ''<'', CHR 0x5C, CHR ''/''] s) = hd s)"
proof (induction s rule: length_induct)
  case (1 s)
  show ?case
  proof (cases s)
    case (Cons c t)
    show ?thesis
    proof (cases "startswith s ''</''")
      case True
      then obtain u where u: "s = ''</'' @ u" by (auto simp: startswith_iff)
      then have "no_close (replace_text ''</'' [CHR ''<'', CHR 0x5C, CHR ''/''] u)" using 1 by simp
      then show ?thesis
        unfolding u by (subst (1 2 3) replace_text.simps) (simp add: no_close_Cons)
    next
      case False
      have "length t < length s" by (simp add: Cons)
      with 1 have t: "no_close (replace_text ''</'' [CHR ''<'', CHR 0x5C, CHR ''/''] t)"
        "t \<noteq> [] \<longrightarrow> hd (replace_text ''</'' [CHR ''<'', CHR 0x5C, CHR ''/''] t) = hd t" by blast+
      have "\<not> (c = CHR ''<'' \<and> t \<noteq> [] \<and> hd t = CHR ''/'')" using False by (cases t) (auto simp: Cons)
      moreover have "replace_text ''</'' [CHR ''<'', CHR 0x5C, CHR ''/''] [] = []" by (simp add: replace_text.simps)
      ultimately show ?thesis
        using t False unfolding Cons by (subst (1 2 3) replace_text.simps) (auto simp: no_close_Cons)
    qed
  qed (simp add: replace_text.simps)
qed


lemma no_close_append:
  "no_close (a @ b) \<longleftrightarrow> no_close a \<and> no_close b \<and> \<not> (a \<noteq> [] \<and> b \<noteq> [] \<and> last a = CHR ''<'' \<and> hd b = CHR ''/'')"
  by (induction a) (auto simp: no_close_Cons)

lemma replace_other:
  assumes "old \<noteq> []" and new: "new \<noteq> []" "no_close new" "hd new \<noteq> CHR ''/''" "last new \<noteq> CHR ''<''"
  shows "no_close s \<Longrightarrow> no_close (replace_text old new s)
    \<and> (replace_text old new s \<noteq> [] \<longrightarrow> s \<noteq> [] \<and> (hd (replace_text old new s) = CHR ''/'' \<longrightarrow> hd s = CHR ''/''))"
proof (induction s rule: length_induct)
  case (1 s)
  show ?case
  proof (cases s)
    case (Cons c t)
    show ?thesis
    proof (cases "startswith s old")
      case True
      then obtain u where u: "s = old @ u" by (auto simp: startswith_iff)
      then have "no_close (replace_text old new u)" using 1 assms(1) by (simp add: no_close_append)
      moreover have "replace_text old new s = new @ replace_text old new u"
        by (subst replace_text.simps) (simp add: u assms(1))
      ultimately show ?thesis using new by (simp add: no_close_append Cons)
    next
      case False
      have "length t < length s" "no_close t" using 1(2) by (simp_all add: Cons no_close_Cons)
      with 1 have "no_close (replace_text old new t)"
        "replace_text old new t \<noteq> [] \<longrightarrow> t \<noteq> [] \<and> (hd (replace_text old new t) = CHR ''/'' \<longrightarrow> hd t = CHR ''/'')" by blast+
      then show ?thesis
        using False 1(2) unfolding Cons by (subst (1 2 3) replace_text.simps) (auto simp: no_close_Cons)
    qed
  qed (simp add: replace_text.simps)
qed

text \<open>C40: whatever the texts of a value, its JSON in a page has nowhere the characters that end an element.\<close>

theorem json_for_script_safe: "\<not> contains (json_for_script v) ''</''"
proof -
  have "no_close (json_for_script v)"
    unfolding json_for_script_def
    by (rule conjunct1 [OF replace_other], simp_all, rule conjunct1 [OF replace_other], simp_all add: replace_close)
  then show ?thesis by (simp add: no_close_iff)
qed

text \<open>But it may open a comment and a script, after which the end of the page's own script is read as text.\<close>

lemma json_for_script_opens: "contains (json_for_script (JStr ''<!--<script>'')) ''<!--<script>''"
  by (simp add: json_for_script_def dump_string_def dump_char_def replace_text.simps)

end
