(* ===== verification/Page_Parts.thy ===== *)
theory Page_Parts
  imports Api Report_Html
begin

text \<open>
  The parts of the pages of \<open>api/routes.py\<close> that show data: the cards of the findings with the buttons for
  feedback, the sessions of reviewers and of feedback, the rows of recent tasks, counts, tokens and costs. The
  frames of the pages around them are literals. The reading of a time and its conversion to the zone of
  Shanghai are a parameter.
\<close>

section \<open>Texts\<close>

definition list_comma :: string where
  "list_comma = [CHR 0xE3, CHR 0x80, CHR 0x81]"

definition items_text :: string where
  "items_text = [CHR 0xE4, CHR 0xB8, CHR 0xAA]"

definition this_time_text :: string where
  "this_time_text = [CHR 0xE6, CHR 0x9C, CHR 0xAC, CHR 0xE6, CHR 0xAC, CHR 0xA1]"

definition review_by_text :: string where
  "review_by_text = [CHR 0xE5, CHR 0xAE, CHR 0xA1, CHR 0xE6, CHR 0x9F, CHR 0xA5, CHR 0xE7, CHR 0x94, CHR 0xB1]"

definition done_nothing_text :: string where
  "done_nothing_text = [CHR 0xE5, CHR 0xAE, CHR 0x8C, CHR 0xE6, CHR 0x88, CHR 0x90, CHR 0xEF, CHR 0xBC, CHR 0x8C, CHR 0xE6, CHR 0x9C, CHR 0xAA,
     CHR 0xE5, CHR 0x8F, CHR 0x91, CHR 0xE7, CHR 0x8E, CHR 0xB0, CHR 0xE9, CHR 0x98, CHR 0xBB, CHR 0xE6, CHR 0x96, CHR 0xAD,
     CHR 0xE5, CHR 0x8F, CHR 0x91, CHR 0xE5, CHR 0xB8, CHR 0x83, CHR 0xE7, CHR 0x9A, CHR 0x84, CHR 0xE9, CHR 0x97, CHR 0xAE,
     CHR 0xE9, CHR 0xA2, CHR 0x98, CHR 0xE3, CHR 0x80, CHR 0x82]"

definition done_found_text :: string where
  "done_found_text = [CHR 0xE5, CHR 0xAE, CHR 0x8C, CHR 0xE6, CHR 0x88, CHR 0x90, CHR 0xEF, CHR 0xBC, CHR 0x8C, CHR 0xE5, CHR 0x8F, CHR 0x91,
     CHR 0xE7, CHR 0x8E, CHR 0xB0]"

definition fix_first_text :: string where
  "fix_first_text = [CHR 0xE9, CHR 0x97, CHR 0xAE, CHR 0xE9, CHR 0xA2, CHR 0x98, CHR 0xEF, CHR 0xBC, CHR 0x8C, CHR 0xE5, CHR 0xBB, CHR 0xBA,
     CHR 0xE8, CHR 0xAE, CHR 0xAE, CHR 0xE5, CHR 0xA4, CHR 0x84, CHR 0xE7, CHR 0x90, CHR 0x86, CHR 0xE5, CHR 0x90, CHR 0x8E,
     CHR 0xE5, CHR 0x86, CHR 0x8D, CHR 0xE7, CHR 0xBB, CHR 0xA7, CHR 0xE7, CHR 0xBB, CHR 0xAD, CHR 0xE5, CHR 0x8F, CHR 0x91,
     CHR 0xE5, CHR 0xB8, CHR 0x83, CHR 0xE3, CHR 0x80, CHR 0x82]"

definition state_is_text :: string where
  "state_is_text = [CHR 0xE8, CHR 0xAF, CHR 0xA5, CHR 0xE9, CHR 0x97, CHR 0xAE, CHR 0xE9, CHR 0xA2, CHR 0x98, CHR 0xE5, CHR 0xBD, CHR 0x93,
     CHR 0xE5, CHR 0x89, CHR 0x8D, CHR 0xE7, CHR 0x8A, CHR 0xB6, CHR 0xE6, CHR 0x80, CHR 0x81, CHR 0xE4, CHR 0xB8, CHR 0xBA]"

definition no_action_text :: string where
  "no_action_text = [CHR 0xEF, CHR 0xBC, CHR 0x8C, CHR 0xE6, CHR 0x97, CHR 0xA0, CHR 0xE9, CHR 0x9C, CHR 0x80, CHR 0xE7, CHR 0xBB, CHR 0xA7,
     CHR 0xE7, CHR 0xBB, CHR 0xAD, CHR 0xE5, CHR 0xA4, CHR 0x84, CHR 0xE7, CHR 0x90, CHR 0x86, CHR 0xE3, CHR 0x80, CHR 0x82]"

definition feedback_hint_text :: string where
  "feedback_hint_text = [CHR 0xE8, CHR 0xA1, CHR 0xA5, CHR 0xE5, CHR 0x85, CHR 0x85, CHR 0xE5, CHR 0x8F, CHR 0x8D, CHR 0xE9, CHR 0xA6, CHR 0x88,
     CHR 0xEF, CHR 0xBC, CHR 0x9A, CHR 0xE4, CHR 0xBE, CHR 0x8B, CHR 0xE5, CHR 0xA6, CHR 0x82, CHR 0xE4, CHR 0xB8, CHR 0xBA,
     CHR 0xE4, CHR 0xBB, CHR 0x80, CHR 0xE4, CHR 0xB9, CHR 0x88, CHR 0xE8, CHR 0xBF, CHR 0x99, CHR 0xE6, CHR 0x98, CHR 0xAF,
     CHR 0xE8, CHR 0xAF, CHR 0xAF, CHR 0xE5, CHR 0x88, CHR 0xA4, CHR 0xE3, CHR 0x80, CHR 0x81, CHR 0xE4, CHR 0xB8, CHR 0xBA,
     CHR 0xE4, CHR 0xBB, CHR 0x80, CHR 0xE4, CHR 0xB9, CHR 0x88, CHR 0xE5, CHR 0xBA, CHR 0x94, CHR 0xE9, CHR 0x99, CHR 0x8D,
     CHR 0xE7, CHR 0xBA, CHR 0xA7, CHR 0xEF, CHR 0xBC, CHR 0x8C, CHR 0xE6, CHR 0x88, CHR 0x96, CHR 0xE5, CHR 0xB8, CHR 0x8C,
     CHR 0xE6, CHR 0x9C, CHR 0x9B, CHR 0xE6, CHR 0xA8, CHR 0xA1, CHR 0xE5, CHR 0x9E, CHR 0x8B, CHR 0xE5, CHR 0xA4, CHR 0x8D,
     CHR 0xE6, CHR 0xA0, CHR 0xB8, CHR 0xE5, CHR 0x93, CHR 0xAA, CHR 0xE4, CHR 0xBA, CHR 0x9B, CHR 0xE4, CHR 0xB8, CHR 0x8A,
     CHR 0xE4, CHR 0xB8, CHR 0x8B, CHR 0xE6, CHR 0x96, CHR 0x87, CHR 0xE3, CHR 0x80, CHR 0x82]"

definition review_button_text :: string where
  "review_button_text = [CHR 0xE5, CHR 0x8F, CHR 0x8D, CHR 0xE9, CHR 0xA6, CHR 0x88, CHR 0xE5, CHR 0xA4, CHR 0x8D, CHR 0xE5, CHR 0xAE, CHR 0xA1]"

definition mark_button_text :: string where
  "mark_button_text = [CHR 0xE4, CHR 0xBA, CHR 0xBA, CHR 0xE5, CHR 0xB7, CHR 0xA5, CHR 0xE6, CHR 0xA0, CHR 0x87, CHR 0xE8, CHR 0xAE, CHR 0xB0,
     CHR 0xE9, CHR 0x9D, CHR 0x9E, CHR 0xE4, CHR 0xBF, CHR 0xAE, CHR 0xE5, CHR 0xA4, CHR 0x8D]"

definition without_text :: string where
  "without_text = [CHR 0xE6, CHR 0x97, CHR 0xA0]"

definition task_text :: string where
  "task_text = [CHR 0xE4, CHR 0xBB, CHR 0xBB, CHR 0xE5, CHR 0x8A, CHR 0xA1]"

definition app_text :: string where
  "app_text = [CHR 0xE5, CHR 0xBA, CHR 0x94, CHR 0xE7, CHR 0x94, CHR 0xA8]"

definition branch_text :: string where
  "branch_text = [CHR 0xE5, CHR 0x88, CHR 0x86, CHR 0xE6, CHR 0x94, CHR 0xAF]"

definition commit_text :: string where
  "commit_text = [CHR 0xE6, CHR 0x8F, CHR 0x90, CHR 0xE4, CHR 0xBA, CHR 0xA4]"

definition finished_text :: string where
  "finished_text = [CHR 0xE6, CHR 0x8A, CHR 0xA5, CHR 0xE5, CHR 0x91, CHR 0x8A, CHR 0xE7, CHR 0x94, CHR 0x9F, CHR 0xE6, CHR 0x88, CHR 0x90,
     CHR 0xE6, CHR 0x97, CHR 0xB6, CHR 0xE9, CHR 0x97, CHR 0xB4]"

definition started_text :: string where
  "started_text = [CHR 0xE5, CHR 0xBC, CHR 0x80, CHR 0xE5, CHR 0xA7, CHR 0x8B, CHR 0xE6, CHR 0x89, CHR 0xA7, CHR 0xE8, CHR 0xA1, CHR 0x8C,
     CHR 0xE6, CHR 0x97, CHR 0xB6, CHR 0xE9, CHR 0x97, CHR 0xB4]"

definition duration_text :: string where
  "duration_text = [CHR 0xE8, CHR 0x80, CHR 0x97, CHR 0xE6, CHR 0x97, CHR 0xB6]"

definition source_text :: string where
  "source_text = [CHR 0xE8, CHR 0xA7, CHR 0xA6, CHR 0xE5, CHR 0x8F, CHR 0x91, CHR 0xE6, CHR 0x9D, CHR 0xA5, CHR 0xE6, CHR 0xBA, CHR 0x90]"

definition status_text :: string where
  "status_text = [CHR 0xE7, CHR 0x8A, CHR 0xB6, CHR 0xE6, CHR 0x80, CHR 0x81]"

definition score_text :: string where
  "score_text = [CHR 0xE8, CHR 0xAF, CHR 0x84, CHR 0xE5, CHR 0x88, CHR 0x86]"

definition callback_text :: string where
  "callback_text = [CHR 0xE5, CHR 0x9B, CHR 0x9E, CHR 0xE8, CHR 0xB0, CHR 0x83, CHR 0xE7, CHR 0x8A, CHR 0xB6, CHR 0xE6, CHR 0x80, CHR 0x81]"

definition findings_text :: string where
  "findings_text = [CHR 0xE9, CHR 0x97, CHR 0xAE, CHR 0xE9, CHR 0xA2, CHR 0x98, CHR 0xE6, CHR 0x95, CHR 0xB0]"

definition full_stop :: string where
  "full_stop = [CHR 0xE3, CHR 0x80, CHR 0x82]"

definition progress_text :: string where
  "progress_text = [CHR 0xE8, CHR 0xBF, CHR 0x9B, CHR 0xE5, CHR 0xBA, CHR 0xA6]"

definition no_feedback_text :: string where
  "no_feedback_text = [CHR 0xE6, CHR 0x9A, CHR 0x82, CHR 0xE6, CHR 0x97, CHR 0xA0, CHR 0xE5, CHR 0x8F, CHR 0x8D, CHR 0xE9, CHR 0xA6, CHR 0x88,
     CHR 0xE5, CHR 0xA4, CHR 0x8D, CHR 0xE5, CHR 0xAE, CHR 0xA1, CHR 0xE4, CHR 0xBC, CHR 0x9A, CHR 0xE8, CHR 0xAF, CHR 0x9D,
     CHR 0xE3, CHR 0x80, CHR 0x82]"

definition user_feedback_text :: string where
  "user_feedback_text = [CHR 0xE7, CHR 0x94, CHR 0xA8, CHR 0xE6, CHR 0x88, CHR 0xB7, CHR 0xE5, CHR 0x8F, CHR 0x8D, CHR 0xE9, CHR 0xA6, CHR 0x88]"

definition reply_text :: string where
  "reply_text = [CHR 0xE6, CHR 0xA8, CHR 0xA1, CHR 0xE5, CHR 0x9E, CHR 0x8B, CHR 0xE5, CHR 0x9B, CHR 0x9E, CHR 0xE5, CHR 0xA4, CHR 0x8D]"

definition succeeded_text :: string where
  "succeeded_text = [CHR 0xE6, CHR 0x88, CHR 0x90, CHR 0xE5, CHR 0x8A, CHR 0x9F]"

definition not_done_text :: string where
  "not_done_text = [CHR 0xE6, CHR 0x9C, CHR 0xAA, CHR 0xE5, CHR 0xAE, CHR 0x8C, CHR 0xE6, CHR 0x88, CHR 0x90]"

definition report_text :: string where
  "report_text = [CHR 0xE6, CHR 0x8A, CHR 0xA5, CHR 0xE5, CHR 0x91, CHR 0x8A]"

definition no_report_text :: string where
  "no_report_text = [CHR 0xE6, CHR 0x9A, CHR 0x82, CHR 0xE6, CHR 0x97, CHR 0xA0, CHR 0xE6, CHR 0x8A, CHR 0xA5, CHR 0xE5, CHR 0x91, CHR 0x8A]"

definition middle_dot :: string where
  "middle_dot = [CHR 0xC2, CHR 0xB7]"

lemmas page_texts =
  none_label_def no_findings_text_def list_comma_def items_text_def this_time_text_def review_by_text_def done_nothing_text_def done_found_text_def fix_first_text_def state_is_text_def no_action_text_def feedback_hint_text_def review_button_text_def mark_button_text_def without_text_def task_text_def app_text_def branch_text_def commit_text_def finished_text_def started_text_def duration_text_def source_text_def status_text_def score_text_def callback_text_def findings_text_def full_stop_def progress_text_def no_feedback_text_def user_feedback_text_def reply_text_def succeeded_text_def not_done_text_def report_text_def no_report_text_def middle_dot_def

section \<open>Values\<close>

text \<open>\<open>_escape\<close>.\<close>

definition esc :: "json \<Rightarrow> string" where
  "esc v = html_escape (if v = JNull then [] else py_str v)"

text \<open>\<open>d[key]\<close>.\<close>

definition ditem :: "json_dict \<Rightarrow> string \<Rightarrow> json py_result" where
  "ditem d key = (case map_of d key of Some v \<Rightarrow> Inr v | None \<Rightarrow> Inl (KeyError (repr_str key)))"

definition iso_label :: "(json \<Rightarrow> string py_result) \<Rightarrow> json \<Rightarrow> string py_result" where
  "iso_label shanghai v = (if truthy v then shanghai v else Inr none_label)"

text \<open>\<open>f"{n:,}"\<close> and \<open>f"{q:.kf}"\<close>.\<close>

fun grouped_digits :: "nat \<Rightarrow> string" where
  "grouped_digits n =
     (if n < 1000 then str_nat n
      else grouped_digits (n div 1000) @ '','' @ (let s = str_nat (n mod 1000) in replicate (3 - length s) CHR ''0'' @ s))"

declare grouped_digits.simps [simp del]

definition fixed_digits :: "nat \<Rightarrow> rat \<Rightarrow> string" where
  "fixed_digits k q =
     (let n = nat \<lfloor>abs (py_round k q) * 10 ^ k\<rfloor>; s = str_nat (n mod 10 ^ k)
      in (if q < 0 then ''-'' else []) @ str_nat (n div 10 ^ k) @ ''.'' @ replicate (k - length s) CHR ''0'' @ s)"

definition number_label :: "json \<Rightarrow> string" where
  "number_label v =
     (case py_int v of Inl _ \<Rightarrow> ''0'' | Inr n \<Rightarrow> (if n < 0 then ''-'' else []) @ grouped_digits (nat (abs n)))"

definition money_label :: "json \<Rightarrow> string" where
  "money_label v = (case py_float v of Inl _ \<Rightarrow> ''$0.0000'' | Inr q \<Rightarrow> ''$'' @ fixed_digits 4 q)"

definition compact_token_label :: "json \<Rightarrow> string" where
  "compact_token_label v =
     (let n = (case py_int v of Inl _ \<Rightarrow> 0 | Inr n \<Rightarrow> n)
      in if n \<ge> 1000000 then fixed_digits 1 (of_int n / 1000000) @ ''M''
         else if n \<ge> 1000 then fixed_digits 1 (of_int n / 1000) @ ''K''
         else str_int n)"

definition seconds_label :: "json \<Rightarrow> string py_result" where
  "seconds_label v =
     (if v = JNull then Inr (duration_label None)
      else (case v of JInt n \<Rightarrow> Inr (duration_label (Some (of_int n))) | JFloat q \<Rightarrow> Inr (duration_label (Some q))
        | JBool b \<Rightarrow> Inr (duration_label (Some (if b then 1 else 0)))
        | _ \<Rightarrow> Inl (TypeError ''type does not define __round__ method'')))"

definition render_count_chips :: "(string \<times> nat) list \<Rightarrow> string \<Rightarrow> string" where
  "render_count_chips counts empty_text =
     (if counts = [] then ''<span class=\"chip\">'' @ html_escape empty_text @ ''</span>''
      else join ''\<newline>'' (map (\<lambda>(name, n).
        ''<span class=\"chip '' @ chip_class name @ ''\">'' @ html_escape name @ ''='' @ str_nat n @ ''</span>'') counts))"

definition report_summary_text :: "json list \<Rightarrow> nat \<Rightarrow> (string \<times> nat) list \<Rightarrow> string" where
  "report_summary_text findings session_count sev_counts =
     (let findings_count = length findings;
          counted = join list_comma (map (\<lambda>(name, n). name @ '' '' @ str_nat n @ '' '' @ items_text) sev_counts);
          severity_text = (if counted = [] then str_nat findings_count @ '' '' @ items_text else counted)
      in if findings_count = 0 then this_time_text @ '' CR v2 '' @ review_by_text @ '' '' @ str_nat session_count @ '' '' @ items_text
        @ '' reviewer session '' @ done_nothing_text
         else this_time_text @ '' CR v2 '' @ review_by_text @ '' '' @ str_nat session_count @ '' '' @ items_text
        @ '' reviewer session '' @ done_found_text @ '' '' @ severity_text @ fix_first_text)"

section \<open>Findings\<close>

definition finding_actions :: "json_dict \<Rightarrow> string" where
  "finding_actions item =
     (let finding_id = dget item ''finding_id''; status = py_str (py_or (dget item ''status'') (JStr ''open'')); escaped_id = esc finding_id
      in if \<not> truthy finding_id then []
         else if status \<noteq> ''open'' then
        ''<p class=\"muted\">'' @ state_is_text @ '' '' @ html_escape status @ no_action_text @ ''</p>''
         else
        ''\<newline>    <div class=\"feedback-actions\" data-finding-id=\"'' @ escaped_id
        @ ''\">\<newline>      <textarea id=\"feedback-input-'' @ escaped_id @ ''\" placeholder=\"'' @ feedback_hint_text
        @ ''\"></textarea>\<newline>      <div class=\"feedback-buttons\">\<newline>        <button class=\"submit-btn\" type=\"button\" onclick=\"submitFindingFeedback(''
        @ [CHR 0x27] @ escaped_id @ [CHR 0x27] @ '')\">'' @ review_button_text
        @ ''</button>\<newline>        <button class=\"mark-btn\" type=\"button\" onclick=\"markHumanNonFix('' @ [CHR 0x27]
        @ escaped_id @ [CHR 0x27] @ '')\">'' @ mark_button_text
        @ ''</button>\<newline>      </div>\<newline>      <div class=\"feedback-result muted\" id=\"feedback-result-''
        @ escaped_id @ ''\"></div>\<newline>    </div>\<newline>    '')"

definition page_card :: "bool \<Rightarrow> nat \<times> json_dict \<Rightarrow> string" where
  "page_card actions numbered =
     (let (index, item) = numbered;
          severity = finding_severity item;
          blocking = severity \<in> set BLOCKING_SEVERITIES;
          layer_label = (if blocking then ''Blocking'' else ''Non-blocking'');
          layer_class = (if blocking then ''blocking'' else ''non-blocking'');
          reviewer_badge = (if truthy (dget item ''source_reviewer'') then ''<span class=\"badge\">reviewer: '' @ esc (dget item ''source_reviewer'') @ ''</span>'' else [])
      in ''\<newline>        <article class=\"finding severity-'' @ severity @ ''\">\<newline>          <h3>'' @ str_nat index
        @ ''. '' @ esc (py_or (dget item ''title'') (JStr unnamed_title))
        @ ''</h3>\<newline>          <p class=\"finding-meta\">\<newline>            <span class=\"badge severity-badge severity-''
        @ severity @ ''\">'' @ html_escape severity @ ''</span>\<newline>            <span class=\"badge layer-badge ''
        @ layer_class @ ''\">'' @ html_escape layer_label @ ''</span>\<newline>            <span class=\"badge\">''
        @ esc (py_or (dget item ''status'') (JStr ''open'')) @ ''</span>\<newline>            '' @ reviewer_badge
        @ ''\<newline>            <code>'' @ html_escape (page_finding_location item)
        @ ''</code>\<newline>          </p>\<newline>          <p>'' @ esc (py_or (dget item ''detail'') (JStr []))
        @ ''</p>\<newline>          ''
        @ (if truthy (dget item ''suggestion'') then ''<pre>'' @ esc (dget item ''suggestion'') @ ''</pre>'' else [])
        @ ''\<newline>          '' @ (if actions then finding_actions item else [])
        @ ''\<newline>        </article>\<newline>        '')"

definition page_section :: "bool \<Rightarrow> (string \<times> json_dict list) list \<Rightarrow> string \<Rightarrow> string list" where
  "page_section actions grouped severity =
     (let items = (case map_of grouped severity of None \<Rightarrow> [] | Some xs \<Rightarrow> xs);
          layer = (if severity \<in> set BLOCKING_SEVERITIES then ''blocking'' else ''non-blocking'');
          findings_html = join ''\<newline>'' (map (page_card actions) (zip [1..<length items + 1] items))
      in if items = [] then []
         else
           [''\<newline>            <section class=\"severity-group severity-'' @ severity @ '' '' @ layer @ ''\" aria-label=\"''
        @ html_escape (severity_group_title severity (length items)) @ ''\">\<newline>              <h3>''
        @ html_escape (severity_group_title severity (length items)) @ ''</h3>\<newline>              '' @ findings_html
        @ ''\<newline>            </section>\<newline>            ''])"

definition page_groups :: "json_dict list \<Rightarrow> (string \<times> json_dict list) list" where
  "page_groups findings =
     foldl (\<lambda>grouped item. dict_append (finding_severity item) item grouped) []
       (sort_key (\<lambda>item. (finding_rank item, page_finding_location item)) findings)"

definition render_findings_html :: "bool \<Rightarrow> json_dict list \<Rightarrow> string" where
  "render_findings_html actions findings =
     (if findings = [] then ''<p class=\"muted\">'' @ no_findings_text @ ''</p>''
      else join ''\<newline>'' (concat (map (page_section actions (page_groups findings)) SEVERITY_ORDER)))"

section \<open>Sessions and tasks\<close>

definition render_token_usage_summary :: "json_dict \<Rightarrow> string" where
  "render_token_usage_summary usage =
        ''\<newline>    <div class=\"usage-line\">\<newline>      <strong>''
        @ html_escape (money_label (dget usage ''cost_usd'')) @ ''</strong>\<newline>      <span>''
        @ html_escape (compact_token_label (dget usage ''total_tokens''))
        @ '' tokens</span>\<newline>      <span class=\"muted\">input '' @ html_escape (number_label (dget usage ''input_tokens''))
        @ ''</span>\<newline>      <span class=\"muted\">cache-read ''
        @ html_escape (number_label (dget usage ''cache_read_tokens'')) @ ''</span>\<newline>      <span class=\"muted\">output ''
        @ html_escape (number_label (dget usage ''output_tokens'')) @ ''</span>\<newline>      <span class=\"muted\">reasoning ''
        @ html_escape (number_label (dget usage ''reasoning_tokens'')) @ ''</span>\<newline>    </div>\<newline>    ''"

definition meta_item :: "string \<times> json \<Rightarrow> string" where
  "meta_item entry =
     (let (label, v) = entry
      in ''\<newline>        <div class=\"meta-item\">\<newline>          <dt>'' @ html_escape label
        @ ''</dt>\<newline>          <dd>'' @ esc v @ ''</dd>\<newline>        </div>\<newline>        '')"

definition render_report_meta_grid :: "(json \<Rightarrow> string py_result) \<Rightarrow> json_dict \<Rightarrow> json list \<Rightarrow> string py_result" where
  "render_report_meta_grid shanghai d findings =
     bind_r (iso_label shanghai (py_or (dget d ''finished_at'') (dget d ''created_at''))) (\<lambda>finished.
     bind_r (iso_label shanghai (dget d ''started_at'')) (\<lambda>started.
     bind_r (seconds_label (dget d ''duration_seconds'')) (\<lambda>duration.
       Inr (join ''\<newline>'' (map meta_item
        [(task_text @ ''ID'', py_or (dget d ''task_id'') (JStr ''-'')),
         (app_text, py_or (dget d ''app_name'') (JStr ''-'')),
         (branch_text, py_or (dget d ''branch'') (JStr ''-'')),
         (commit_text, py_or (dget d ''commit_id'') (JStr (without_text @ '' commit''))),
         (finished_text, JStr finished),
         (started_text, JStr started),
         (duration_text, JStr duration),
         (source_text, py_or (dget d ''trigger_source'') (JStr ''-'')),
         (status_text, JStr (report_status_label d)),
         (score_text, if dget d ''score'' \<noteq> JNull then dget d ''score'' else JStr ''-''),
         (callback_text, py_or (dget d ''callback_state'') (JStr none_label)),
         (findings_text, JInt (int (length findings)))])))))"

definition review_session_row :: "(json \<Rightarrow> string py_result) \<Rightarrow> json_dict \<Rightarrow> string py_result" where
  "review_session_row shanghai item =
     bind_r (seconds_label (dget item ''duration_seconds'')) (\<lambda>duration.
     bind_r (iso_label shanghai (dget item ''started_at'')) (\<lambda>started.
     bind_r (iso_label shanghai (dget item ''finished_at'')) (\<lambda>finished.
       Inr (''\<newline>        <tr>\<newline>          <td>'' @ esc (py_or (dget item ''reviewer'') (JStr ''-''))
        @ ''</td>\<newline>          <td><span class=\"status '' @ esc (py_or (dget item ''status'') (JStr [])) @ ''\">''
        @ esc (py_or (dget item ''status'') (JStr ''-'')) @ ''</span></td>\<newline>          <td><code>''
        @ esc (py_or (dget item ''session_id'') (JStr none_label)) @ ''</code></td>\<newline>          <td>''
        @ html_escape (compact_token_label (dget item ''total_tokens'')) @ '' tokens</td>\<newline>          <td>''
        @ html_escape (money_label (dget item ''cost_usd'')) @ ''</td>\<newline>          <td>'' @ html_escape duration
        @ ''</td>\<newline>          <td>'' @ html_escape started @ ''</td>\<newline>          <td>'' @ html_escape finished
        @ ''</td>\<newline>          <td>'' @ esc (py_or (dget item ''error'') (JStr []))
        @ ''</td>\<newline>        </tr>\<newline>        ''))))"

definition table_rows :: "('a \<Rightarrow> string py_result) \<Rightarrow> 'a list \<Rightarrow> string py_result" where
  "table_rows row items =
     bind_r (fold_r (\<lambda>rows item. bind_r (row item) (\<lambda>r. Inr (rows @ [r]))) [] items) (\<lambda>rows. Inr (join ''\<newline>'' rows))"

definition render_review_sessions :: "(json \<Rightarrow> string py_result) \<Rightarrow> json_dict list \<Rightarrow> string py_result" where
  "render_review_sessions shanghai sessions =
     (if sessions = [] then Inr (''<p class=\"muted\">'' @ none_label @ '' reviewer session'' @ full_stop @ ''</p>'')
      else bind_r (table_rows (review_session_row shanghai) sessions) (\<lambda>rows.
       Inr (''\<newline>    <div class=\"table-wrap\">\<newline>      <table>\<newline>        <thead><tr><th>Reviewer</th><th>Status</th><th>Session</th><th>Tokens</th><th>Cost</th><th>''
        @ duration_text @ ''</th><th>Started</th><th>Finished</th><th>Error</th></tr></thead>\<newline>        <tbody>'' @ rows
        @ ''</tbody>\<newline>      </table>\<newline>    </div>\<newline>    '')))"

definition feedback_session_row :: "json_dict \<Rightarrow> string" where
  "feedback_session_row item =
     (let task_id = dget item ''task_id''; session = dget item ''feedback_session_id'';
          progress_link =
            (if truthy task_id \<and> truthy session then ''<a href=\"/reports/'' @ esc task_id @ ''/feedback-sessions/'' @ esc session
        @ ''/progress\" target=\"_blank\" rel=\"noopener\">'' @ progress_text @ ''</a>''
             else ''<span class=\"muted\">'' @ none_label @ ''</span>'')
      in ''\<newline>        <tr>\<newline>          <td><code>'' @ esc (py_or (dget item ''finding_id'') (JStr ''general''))
        @ ''</code></td>\<newline>          <td>'' @ esc (py_or (dget item ''parent_reviewer'') (JStr none_label))
        @ ''</td>\<newline>          <td><span class=\"status '' @ esc (py_or (dget item ''status'') (JStr [])) @ ''\">''
        @ esc (py_or (dget item ''status'') (JStr ''-'')) @ ''</span></td>\<newline>          <td>''
        @ esc (py_or (dget item ''feedback_text'') (JStr none_label)) @ ''</td>\<newline>          <td>''
        @ esc (py_or (dget item ''model_reply'') (JStr none_label)) @ ''</td>\<newline>          <td><code>''
        @ esc (py_or (dget item ''opencode_session_id'') (JStr none_label)) @ ''</code></td>\<newline>          <td>''
        @ html_escape (compact_token_label (dget item ''total_tokens'')) @ '' tokens</td>\<newline>          <td>''
        @ html_escape (money_label (dget item ''cost_usd'')) @ ''</td>\<newline>          <td>'' @ progress_link
        @ ''</td>\<newline>        </tr>\<newline>        '')"

definition render_feedback_sessions :: "json_dict list \<Rightarrow> string" where
  "render_feedback_sessions sessions =
     (if sessions = [] then ''<p class=\"muted\">'' @ no_feedback_text @ ''</p>''
      else let rows = join ''\<newline>'' (map feedback_session_row sessions)
        in ''\<newline>    <div class=\"table-wrap\">\<newline>      <table>\<newline>        <thead><tr><th>Finding</th><th>Reviewer</th><th>Status</th><th>''
        @ user_feedback_text @ ''</th><th>'' @ reply_text
        @ ''</th><th>Session</th><th>Tokens</th><th>Cost</th><th>Progress</th></tr></thead>\<newline>        <tbody>'' @ rows
        @ ''</tbody>\<newline>      </table>\<newline>    </div>\<newline>    '')"

text \<open>\<open>v[:n]\<close>.\<close>

definition first_of :: "nat \<Rightarrow> json \<Rightarrow> json py_result" where
  "first_of n v =
     (case v of JStr s \<Rightarrow> Inr (JStr (first_chars n s)) | JArr xs \<Rightarrow> Inr (JArr (take n xs))
      | _ \<Rightarrow> Inl (TypeError ''object is not subscriptable''))"

definition escaped_item :: "json_dict \<Rightarrow> string \<Rightarrow> string py_result" where
  "escaped_item d key = bind_r (ditem d key) (\<lambda>v. Inr (esc v))"

definition recent_report_link :: "json_dict \<Rightarrow> string" where
  "recent_report_link item =
     (if truthy (dget item ''report_url'') then ''<a href=\"'' @ esc (dget item ''report_url'') @ ''\" target=\"_blank\" rel=\"noopener\">'' @ report_text @ ''</a>''
      else ''<span class=\"muted\">'' @ no_report_text @ ''</span>'')"

definition recent_ci_bits :: "json_dict \<Rightarrow> string" where
  "recent_ci_bits item =
     (if truthy (dget item ''ci_task_id'') then ''<div><code>'' @ esc (dget item ''ci_task_id'') @ ''</code></div>'' else [])
     @ (if truthy (dget item ''ci_record_id'') then ''<div class=\"muted\">record '' @ esc (dget item ''ci_record_id'') @ ''</div>'' else [])"

record recent_cells =
  rw_task_id :: string
  rw_status :: string
  rw_gate :: string
  rw_app :: json
  rw_branch :: json
  rw_commit :: string
  rw_attempts :: json
  rw_findings :: json
  rw_succeeded :: json
  rw_created :: string
  rw_duration :: string
  rw_usage :: json_dict

definition recent_row_text :: "json_dict \<Rightarrow> recent_cells \<Rightarrow> string" where
  "recent_row_text item c =
     (let ci = recent_ci_bits item; usage = rw_usage c;
          summary = py_or (py_or (dget item ''summary'') (dget item ''error_message'')) (JStr none_label)
      in ''<tr>\<newline>      <td>\<newline>        <div class=\"job-main\">\<newline>          <strong>'' @ esc (rw_app c)
        @ ''</strong>\<newline>          <code>'' @ rw_task_id c @ ''</code>\<newline>          <span class=\"branch\">''
        @ esc (rw_branch c) @ ''</span>\<newline>          <span class=\"muted\">''
        @ (if rw_commit c = [] then without_text @ '' commit'' else html_escape (rw_commit c))
        @ ''</span>\<newline>        </div>\<newline>      </td>\<newline>      <td><span class=\"status '' @ rw_status c @ ''\">''
        @ rw_status c @ ''</span><div class=\"muted\">attempts '' @ py_str (rw_attempts c)
        @ ''</div></td>\<newline>      <td><span class=\"status '' @ rw_gate c @ ''\">'' @ rw_gate c
        @ ''</span></td>\<newline>      <td>\<newline>        <div>'' @ py_str (rw_findings c)
        @ '' findings</div>\<newline>        <div class=\"muted\">score ''
        @ (if dget item ''score'' \<noteq> JNull then py_str (dget item ''score'') else ''-'')
        @ ''</div>\<newline>      </td>\<newline>      <td>\<newline>        <div class=\"token-total\">''
        @ html_escape (money_label (dget usage ''cost_usd'')) @ '' '' @ middle_dot @ '' ''
        @ html_escape (compact_token_label (dget usage ''total_tokens''))
        @ '' tokens</div>\<newline>        <div class=\"muted\">'' @ esc (py_or (dget usage ''calls'') (JInt 0)) @ '' calls ''
        @ middle_dot @ '' '' @ esc (py_or (dget usage ''source'') (JStr ''usage_log''))
        @ ''</div>\<newline>      </td>\<newline>      <td>''
        @ (if ci = [] then ''<span class=\"muted\">'' @ none_label @ ''</span>'' else ci) @ ''</td>\<newline>      <td>''
        @ (if truthy (rw_succeeded c) then succeeded_text else ''<span class=\"muted\">'' @ not_done_text @ ''</span>'')
        @ ''</td>\<newline>      <td>\<newline>        <div>'' @ html_escape (rw_created c)
        @ '' GMT+8</div>\<newline>        <div class=\"muted\">'' @ duration_text @ '' '' @ html_escape (rw_duration c)
        @ ''</div>\<newline>      </td>\<newline>      <td>\<newline>        <div class=\"links\">\<newline>          <a href=\"/task-status/''
        @ rw_task_id c @ ''\" target=\"_blank\" rel=\"noopener\">'' @ status_text @ ''</a>\<newline>          ''
        @ recent_report_link item @ ''\<newline>        </div>\<newline>      </td>\<newline>      <td><div class=\"summary\">''
        @ esc summary @ ''</div></td>\<newline>    </tr>'')"

definition render_recent_task_row :: "(json \<Rightarrow> string py_result) \<Rightarrow> json_dict \<Rightarrow> string py_result" where
  "render_recent_task_row shanghai item =
     bind_r (escaped_item item ''task_id'') (\<lambda>task_id.
     bind_r (escaped_item item ''status'') (\<lambda>status.
     bind_r (escaped_item item ''gate_status'') (\<lambda>gate.
     bind_r (need_dict (py_or (dget item ''token_usage'') (JObj []))) (\<lambda>usage.
     bind_r (ditem item ''app_name'') (\<lambda>app. bind_r (ditem item ''branch'') (\<lambda>branch.
     bind_r (first_of 12 (py_or (dget item ''commit_id'') (JStr []))) (\<lambda>commit.
     bind_r (ditem item ''attempts'') (\<lambda>attempts. bind_r (ditem item ''findings_count'') (\<lambda>findings.
     bind_r (ditem item ''callback_succeeded'') (\<lambda>succeeded.
     bind_r (iso_label shanghai (dget item ''created_at'')) (\<lambda>created.
     bind_r (seconds_label (dget item ''duration_seconds'')) (\<lambda>duration.
       Inr (recent_row_text item
         \<lparr>rw_task_id = task_id, rw_status = status, rw_gate = gate, rw_app = app, rw_branch = branch,
          rw_commit = py_str commit, rw_attempts = attempts, rw_findings = findings, rw_succeeded = succeeded,
          rw_created = created, rw_duration = duration, rw_usage = usage\<rparr>)))))))))))))"
section \<open>The markup is the page's own\<close>

lemma tags_esc [simp]: "tags (esc v) = 0"
  by (simp add: esc_def)

lemma tags_chip_class [simp]: "tags (chip_class name) = 0"
  by (simp add: chip_class_def)

lemma tags_join_map: "tags (join ''\<newline>'' (map f xs)) = sum_list (map (\<lambda>x. tags (f x)) xs)"
  by (simp add: tags_join comp_def)

text \<open>The tags of the parts for one finding: the card, the badge of its reviewer, its suggestion, and the form for
  feedback, which an open finding has and a closed one replaces by a line.\<close>

definition action_tags :: "json_dict \<Rightarrow> nat" where
  "action_tags item =
     (if \<not> truthy (dget item ''finding_id'') then 0
      else if py_str (py_or (dget item ''status'') (JStr ''open'')) = ''open'' then 12 else 2)"

definition page_card_tags :: "bool \<Rightarrow> json_dict \<Rightarrow> nat" where
  "page_card_tags actions item =
     16 + (if truthy (dget item ''source_reviewer'') then 2 else 0) + (if truthy (dget item ''suggestion'') then 2 else 0)
     + (if actions then action_tags item else 0)"

lemma tags_actions: "tags (finding_actions item) = action_tags item"
  by (simp add: finding_actions_def action_tags_def Let_def page_texts)

lemma tags_page_card: "tags (page_card actions numbered) = page_card_tags actions (snd numbered)"
  by (cases numbered) (simp add: page_card_def page_card_tags_def tags_actions Let_def)

lemma tags_page_section:
  assumes "s \<in> set SEVERITY_ORDER"
  shows "sum_list (map tags (page_section actions (page_groups fs) s)) =
    (if s \<in> finding_severity ` set fs then 4 else 0)
      + sum_list (map (page_card_tags actions)
          (filter (\<lambda>i. finding_severity i = s) (sort_key (\<lambda>i. (finding_rank i, page_finding_location i)) fs)))"
proof -
  let ?items = "filter (\<lambda>i. finding_severity i = s) (sort_key (\<lambda>i. (finding_rank i, page_finding_location i)) fs)"
  have none: "?items = [] \<longleftrightarrow> s \<notin> finding_severity ` set fs" by (auto simp: filter_empty_conv)
  have groups: "map_of (page_groups fs) s = (if ?items = [] then None else Some ?items)"
    by (simp add: page_groups_def group_lookup)
  have cards: "sum_list (map (\<lambda>x. tags (page_card actions x)) (zip ns is)) = sum_list (map (page_card_tags actions) is)"
    if "length ns = length is" for ns "is"
    using that by (induction ns "is" rule: list_induct2) (simp_all add: tags_page_card)
  show ?thesis
  proof (cases "?items = []")
    case True
    then show ?thesis using none groups by (simp add: page_section_def)
  next
    case False
    have layer: "tags (if b then ''blocking'' else ''non-blocking'') = 0" for b by simp
    from False have "sum_list (map tags (page_section actions (page_groups fs) s)) =
        4 + tags (join ''\<newline>'' (map (page_card actions) (zip [1..<length ?items + 1] ?items)))"
      using tags_severity [OF assms] layer by (simp add: page_section_def groups Let_def del: upt_Suc)
    then show ?thesis
      using False none cards [of "[1..<length ?items + 1]" ?items] by (simp add: tags_join_map del: upt_Suc)
  qed
qed

lemma tags_page_findings:
  "tags (render_findings_html actions findings) =
     (if findings = [] then 2
      else 4 * card (finding_severity ` set findings) + sum_list (map (page_card_tags actions) findings))"
proof (cases "findings = []")
  case False
  let ?sorted = "sort_key (\<lambda>i. (finding_rank i, page_finding_location i)) findings"
  have order: "distinct SEVERITY_ORDER" by (simp add: SEVERITY_ORDER_def)
  have "tags (render_findings_html actions findings) =
      sum_list (map (\<lambda>s. sum_list (map tags (page_section actions (page_groups findings) s))) SEVERITY_ORDER)"
    using False by (simp add: render_findings_html_def tags_join map_concat sum_concat o_def)
  also have "\<dots> = sum_list (map (\<lambda>s. (if s \<in> finding_severity ` set findings then 4 else 0)
      + sum_list (map (page_card_tags actions) (filter (\<lambda>i. finding_severity i = s) ?sorted))) SEVERITY_ORDER)"
    by (rule arg_cong [of _ _ sum_list], rule map_cong) (simp_all add: tags_page_section)
  also have "\<dots> = 4 * card (finding_severity ` set findings \<inter> set SEVERITY_ORDER)
      + sum_list (map (page_card_tags actions) (filter (\<lambda>i. finding_severity i \<in> set SEVERITY_ORDER) ?sorted))"
    by (simp add: sum_list_addf sum_present [OF order] sum_by_key [OF order])
  also have "finding_severity ` set findings \<inter> set SEVERITY_ORDER = finding_severity ` set findings"
    using severity_known by auto
  also have "sum_list (map (page_card_tags actions) (filter (\<lambda>i. finding_severity i \<in> set SEVERITY_ORDER) ?sorted))
      = sum_list (map (page_card_tags actions) findings)"
    by (simp add: severity_known sum_mset_sum_list [symmetric] mset_map)
  finally show ?thesis using False by simp
qed (simp add: render_findings_html_def no_findings_text_def)

lemma tags_chips:
  assumes "tags t = 0" shows "tags (render_count_chips counts t) = 2 * max 1 (length counts)"
proof (cases "counts = []")
  case False
  then have "max 1 (length counts) = length counts" by (cases counts) simp_all
  with False show ?thesis by (simp add: render_count_chips_def tags_join_map sum_list_triv split_def)
qed (simp add: render_count_chips_def assms)

lemma tags_feedback_row: "tags (feedback_session_row item) = 28"
  by (simp add: feedback_session_row_def page_texts Let_def)

lemma tags_feedback_sessions:
  "tags (render_feedback_sessions sessions) = (if sessions = [] then 2 else 28 + 28 * length sessions)"
  by (simp add: render_feedback_sessions_def page_texts Let_def tags_join_map tags_feedback_row sum_list_triv)

lemma tags_session_row: "review_session_row shanghai item = Inr r \<Longrightarrow> tags r = 24"
  by (auto simp: review_session_row_def bind_r_Inr)

lemma table_rows_tags:
  assumes "table_rows row items = Inr t" and "\<And>item r. row item = Inr r \<Longrightarrow> tags r = c"
  shows "tags t = c * length items"
proof -
  have "sum_list (map tags rs) = sum_list (map tags acc) + c * length items"
    if "fold_r (\<lambda>rows item. bind_r (row item) (\<lambda>r. Inr (rows @ [r]))) acc items = Inr rs" for acc rs
    using that assms(2) by (induction items arbitrary: acc) (auto simp: bind_r_Inr)
  then show ?thesis using assms(1) by (fastforce simp: table_rows_def bind_r_Inr tags_join)
qed

lemma tags_review_sessions:
  assumes "render_review_sessions shanghai sessions = Inr h"
  shows "tags h = (if sessions = [] then 2 else 28 + 24 * length sessions)"
proof (cases "sessions = []")
  case False
  then obtain t where t: "table_rows (review_session_row shanghai) sessions = Inr t"
    and h: "tags h = 28 + tags t"
    using assms by (auto simp: render_review_sessions_def bind_r_Inr page_texts)
  show ?thesis using h table_rows_tags [OF t tags_session_row] False by simp
qed (use assms in \<open>auto simp: render_review_sessions_def page_texts\<close>)

lemma tags_meta_item: "tags (meta_item entry) = 6"
  by (simp add: meta_item_def split_def)

lemma tags_meta_grid: "render_report_meta_grid shanghai d findings = Inr h \<Longrightarrow> tags h = 72"
  by (auto simp: render_report_meta_grid_def bind_r_Inr tags_join_map tags_meta_item)

lemma tags_usage: "tags (render_token_usage_summary usage) = 14"
  by (simp add: render_token_usage_summary_def)

lemma tags_recent_parts:
  "tags (recent_report_link item) = 2"
  "tags (recent_ci_bits item) =
     (if truthy (dget item ''ci_task_id'') then 4 else 0) + (if truthy (dget item ''ci_record_id'') then 2 else 0)"
  by (simp_all add: recent_report_link_def recent_ci_bits_def page_texts)

lemma recent_ci_empty:
  "recent_ci_bits item = [] \<longleftrightarrow> \<not> truthy (dget item ''ci_task_id'') \<and> \<not> truthy (dget item ''ci_record_id'')"
  by (simp add: recent_ci_bits_def)

text \<open>The tags of the row of a recent task; its two counts and its score are not escaped.\<close>

definition recent_row_tags :: "json_dict \<Rightarrow> nat" where
  "recent_row_tags item =
     58 + (if truthy (dget item ''ci_task_id'') then 4 else 0) + (if truthy (dget item ''ci_record_id'') then 2 else 0)
     + (if truthy (dget item ''ci_task_id'') \<or> truthy (dget item ''ci_record_id'') then 0 else 2)
     + (if truthy (dget item ''callback_succeeded'') then 0 else 2)
     + tags (py_str (dget item ''attempts'')) + tags (py_str (dget item ''findings_count''))
     + (if dget item ''score'' = JNull then 0 else tags (py_str (dget item ''score'')))"

lemma ditem_dget: "ditem d k = Inr v \<Longrightarrow> dget d k = v"
  by (auto simp: ditem_def dget_def split: option.splits)

lemma tags_row_text:
  assumes "tags (rw_task_id c) = 0" and "tags (rw_status c) = 0" and "tags (rw_gate c) = 0"
  shows "tags (recent_row_text item c) =
     58 + (if recent_ci_bits item = [] then 2 else tags (recent_ci_bits item)) + (if truthy (rw_succeeded c) then 0 else 2)
     + tags (py_str (rw_attempts c)) + tags (py_str (rw_findings c))
     + (if dget item ''score'' = JNull then 0 else tags (py_str (dget item ''score'')))"
  unfolding recent_row_text_def Let_def count_list_append if_distrib [of tags]
  by (simp add: assms tags_recent_parts(1) page_texts)

lemma tags_recent_row: "render_recent_task_row shanghai item = Inr h \<Longrightarrow> tags h = recent_row_tags item"
  by (clarsimp simp: render_recent_task_row_def bind_r_Inr escaped_item_def dest!: ditem_dget)
    (simp add: tags_row_text recent_row_tags_def tags_recent_parts(2) recent_ci_empty)

text \<open>C37: whatever the texts in the data, the parts of the pages have exactly the tags of their layout: for each finding a
  card, with the form for feedback when it is open and has an identifier; for each session a row; twelve entries of
  the head of a report. No value can add or close an element, except the numbers in the row of a recent task, which
  are not escaped.\<close>

theorem page_markup_fixed:
  "tags (render_findings_html actions findings) =
     (if findings = [] then 2
      else 4 * card (finding_severity ` set findings) + sum_list (map (page_card_tags actions) findings))
   \<and> tags (render_feedback_sessions feedback) = (if feedback = [] then 2 else 28 + 28 * length feedback)
   \<and> (case render_review_sessions shanghai sessions of
        Inl e \<Rightarrow> True | Inr h \<Rightarrow> tags h = (if sessions = [] then 2 else 28 + 24 * length sessions))
   \<and> (case render_report_meta_grid shanghai d fs of Inl e \<Rightarrow> True | Inr h \<Rightarrow> tags h = 72)
   \<and> (case render_recent_task_row shanghai item of Inl e \<Rightarrow> True | Inr h \<Rightarrow> tags h = recent_row_tags item)
   \<and> tags (render_token_usage_summary usage) = 14"
  by (auto simp: tags_page_findings tags_feedback_sessions tags_usage tags_review_sessions tags_meta_grid tags_recent_row
      split: sum.split)

end
