(* ===== verification/Runner_Asks.thy ===== *)
theory Runner_Asks
  imports Opencode_Runner Fix_Session
begin

text \<open>
  The other questions of \<open>core/opencode_runner.py\<close> to the model: about feedback on a finding, a missed issue, the
  talk about a fix, the fix itself and its review. A question keeps the values its prompt is made of; the wording
  of the prompts and the answers of the model are parameters. What an answer must be like is checked by the
  definitions the service relies on (\<open>Service_Feedback\<close>, \<open>Fix_Session\<close>).
\<close>

section \<open>Questions\<close>

datatype ask =
    Ask_Feedback "string option" json_dict string "json list"
  | Ask_Missed_Issue string "string option" string string
  | Ask_Conversation string string string "string option" string "json list" "string option" "string option" "json list"
  | Ask_Fix string string string "string option" "json list" "string option" "string option" "json list" string
  | Ask_Review string string string "string option" "json list" string "string option" "string option"

text \<open>A prompt file, the directory the model works in, and the question.\<close>

record sent_ask =
  sa_file :: string
  sa_dir :: string
  sa_ask :: ask

record ask_env =
  ae_answer :: "sent_ask list \<Rightarrow> sent_ask \<Rightarrow> completed py_result"
  ae_rows :: part_rows

record ask_world =
  aw_sent :: "sent_ask list"
  aw_usage :: "(string \<times> int \<times> usage_metrics) list"

type_synonym 'a as = "(ask_world, py_exc, 'a) stmt"

definition count_usage :: "string \<Rightarrow> completed \<Rightarrow> unit as" where
  "count_usage category c =
     wmod (\<lambda>w. w\<lparr>aw_usage := aw_usage w @ [(category, cp_code c, extract_usage_metrics (cp_out c))]\<rparr>)"

definition ask_model :: "ask_env \<Rightarrow> string \<Rightarrow> string \<Rightarrow> sent_ask \<Rightarrow> string as" where
  "ask_model env category failed a =
     wbind (wget aw_sent) (\<lambda>sent.
     wseq (wmod (\<lambda>w. w\<lparr>aw_sent := sent @ [a]\<rparr>))
     (wbind (wlift (ae_answer env sent a)) (\<lambda>c.
     wseq (count_usage category c)
       (if cp_code c \<noteq> 0 then wraise (RuntimeError (failed @ '': '' @ answer_text c)) else wret (cp_out c)))))"

definition of_parsed :: "'a parsed \<Rightarrow> 'a py_result" where
  "of_parsed r = (case r of Inl (Unrepairable m) \<Rightarrow> Inl (RuntimeError m) | Inl (Unparsed e) \<Rightarrow> Inl e | Inr x \<Rightarrow> Inr x)"

text \<open>The answer as a dict that \<open>check\<close> accepts.\<close>

definition ask_dict ::
  "ask_env \<Rightarrow> string \<Rightarrow> string \<Rightarrow> (json_dict \<Rightarrow> json_dict py_result) \<Rightarrow> sent_ask \<Rightarrow> json_dict as" where
  "ask_dict env category failed check a =
     wbind (ask_model env category failed a) (\<lambda>out.
       wlift (bind_r (of_parsed (parse_feedback_output (ae_rows env) out)) check))"

section \<open>The five questions\<close>

definition index_text :: "json_dict \<Rightarrow> string" where
  "index_text finding = (case map_of finding ''index'' of Some v \<Rightarrow> py_str v | None \<Rightarrow> ''0'')"

definition review_finding_feedback ::
  "ask_env \<Rightarrow> string \<Rightarrow> string \<Rightarrow> string option \<Rightarrow> json_dict \<Rightarrow> string \<Rightarrow> json list \<Rightarrow> json_dict as" where
  "review_finding_feedback env i repo_path commit finding code conversation =
     ask_dict env ''finding_feedback'' ''opencode feedback review failed'' check_feedback
       \<lparr>sa_file = i @ ''.feedback.'' @ index_text finding @ ''.prompt.md'', sa_dir = repo_path,
        sa_ask = Ask_Feedback commit finding code conversation\<rparr>"

definition review_missed_issue_feedback ::
  "ask_env \<Rightarrow> string \<Rightarrow> string \<Rightarrow> string \<Rightarrow> string option \<Rightarrow> string \<Rightarrow> string \<Rightarrow> json_dict as" where
  "review_missed_issue_feedback env i repo_path branch commit summary issue =
     ask_dict env ''missed_issue_feedback'' ''opencode missed-issue review failed'' check_missed_issue
       \<lparr>sa_file = i @ ''.general-feedback.prompt.md'', sa_dir = repo_path,
        sa_ask = Ask_Missed_Issue branch commit summary issue\<rparr>"

definition review_fix_conversation ::
  "ask_env \<Rightarrow> string \<Rightarrow> trigger_request \<Rightarrow> string option \<Rightarrow> string \<Rightarrow> json list \<Rightarrow> string option \<Rightarrow> string option \<Rightarrow> json list
     \<Rightarrow> json_dict as" where
  "review_fix_conversation env i rq commit stg findings scope plan conversation =
     ask_dict env ''fix_conversation'' ''opencode fix conversation failed'' (check_guidance rq)
       \<lparr>sa_file = i @ ''.fix-conversation.prompt.md'', sa_dir = ''.'',
        sa_ask = Ask_Conversation (rq_repo_url rq) (rq_app_name rq) (rq_branch rq) commit stg findings scope plan conversation\<rparr>"

definition apply_fix_session ::
  "ask_env \<Rightarrow> string \<Rightarrow> string \<Rightarrow> string \<Rightarrow> string \<Rightarrow> string option \<Rightarrow> json list \<Rightarrow> string option \<Rightarrow> string option \<Rightarrow> json list
     \<Rightarrow> nat \<Rightarrow> string \<Rightarrow> string as" where
  "apply_fix_session env i repo_path repo_url branch commit findings scope plan conversation attempt skill =
     wbind (ask_model env ''fix_apply'' ''opencode fix apply failed''
       \<lparr>sa_file = i @ ''.fix-apply.'' @ str_nat attempt @ ''.prompt.md'', sa_dir = repo_path,
        sa_ask = Ask_Fix repo_path repo_url branch commit findings scope plan conversation skill\<rparr>)
       (\<lambda>out. wlift (of_parsed (parse_fix_apply_output (ae_rows env) out)))"

definition review_fix_result ::
  "ask_env \<Rightarrow> string \<Rightarrow> string \<Rightarrow> string \<Rightarrow> string \<Rightarrow> string option \<Rightarrow> json list \<Rightarrow> string \<Rightarrow> string option \<Rightarrow> string option
     \<Rightarrow> json_dict as" where
  "review_fix_result env i repo_path repo_url branch commit findings summary scope plan =
     ask_dict env ''fix_review'' ''opencode fix review failed'' check_fix_review
       \<lparr>sa_file = i @ ''.fix-review.prompt.md'', sa_dir = repo_path,
        sa_ask = Ask_Review repo_path repo_url branch commit findings summary scope plan\<rparr>"

section \<open>What an answer is\<close>

text \<open>One question was sent, and when the model ended its tokens are counted, whatever becomes of the answer.\<close>

definition one_asked :: "ask_env \<Rightarrow> string \<Rightarrow> ask_world \<Rightarrow> ask_world \<Rightarrow> bool" where
  "one_asked env category w v \<longleftrightarrow>
     (\<exists>a. aw_sent v = aw_sent w @ [a]
        \<and> aw_usage v = aw_usage w @ (case ae_answer env (aw_sent w) a of
            Inl e \<Rightarrow> [] | Inr c \<Rightarrow> [(category, cp_code c, extract_usage_metrics (cp_out c))]))"

definition asked_well :: "ask_env \<Rightarrow> string \<Rightarrow> ('a \<Rightarrow> bool) \<Rightarrow> 'a as \<Rightarrow> ask_world \<Rightarrow> bool" where
  "asked_well env category P m w \<longleftrightarrow> wp m (\<lambda>x v. P x \<and> one_asked env category w v) (\<lambda>e v. one_asked env category w v) w"

lemma ask_model_well: "asked_well env category (\<lambda>_. True) (ask_model env category failed a) w"
  by (auto simp: asked_well_def one_asked_def ask_model_def count_usage_def wp_simps split: sum.split)

lemma asked_then:
  assumes "asked_well env category (\<lambda>_. True) m w" and "\<And>x y. f x = Inr y \<Longrightarrow> P y"
  shows "asked_well env category P (wbind m (\<lambda>x. wlift (f x))) w"
  using assms by (auto simp: asked_well_def wp_def wbind_def wlift_def split: sum.splits prod.splits)

lemma ask_dict_well:
  assumes "\<And>d e. check d = Inr e \<Longrightarrow> P e" shows "asked_well env category P (ask_dict env category failed check a) w"
  unfolding ask_dict_def by (rule asked_then [OF ask_model_well]) (auto simp: bind_r_Inr assms)

text \<open>What an accepted answer is. Only what the code of \<open>opencode_runner.py\<close> checks is stated: the reply of the
  answer to feedback, of the talk about a fix and of its review is not looked at here.\<close>

definition feedback_answer :: "json_dict \<Rightarrow> bool" where
  "feedback_answer d \<longleftrightarrow>
     dget d ''action'' \<in> {JStr ''keep'', JStr ''downgrade'', JStr ''resolve_false_positive''}
     \<and> (if dget d ''action'' = JStr ''downgrade''
        then (\<exists>s. dget d ''severity'' = JStr (severity_text s) \<and> severity_of_text (py_str (dget d ''severity'')) = Some s)
        else True)"

definition missed_answer :: "json_dict \<Rightarrow> bool" where
  "missed_answer d \<longleftrightarrow> dget d ''confirmed'' \<in> {JBool True, JBool False} \<and> (\<exists>s. s \<noteq> [] \<and> reply_of d = Inr s)"

text \<open>The next stage is one of the three before the end of the fix; a repository or branch the model did not name is that
  of the request.\<close>

definition guidance_answer :: "trigger_request \<Rightarrow> json_dict \<Rightarrow> bool" where
  "guidance_answer rq d \<longleftrightarrow>
     fix_stage_of_text (py_str (dget d ''next_stage'')) \<in> {Inr Scope_Confirmation, Inr Plan_Confirmation, Inr Fixing}
     \<and> (truthy (dget d ''target_repo_url'') \<or> dget d ''target_repo_url'' = JStr (rq_repo_url rq))
     \<and> (truthy (dget d ''target_branch'') \<or> dget d ''target_branch'' = JStr (rq_branch rq))"

lemma severity_named: "JStr t \<in> set (map JStr (map severity_text all_severities)) \<Longrightarrow> \<exists>s. t = severity_text s \<and> severity_of_text t = Some s"
  by (auto simp: all_severities_def severity_of_text_def)

lemma check_feedback_sound: "check_feedback d = Inr e \<Longrightarrow> feedback_answer e"
  using severity_named
  by (auto simp: check_feedback_def feedback_answer_def bind_r_Inr dest!: in_texts_True [THEN iffD1] split: if_splits)

lemma check_missed_sound: "check_missed_issue d = Inr e \<Longrightarrow> missed_answer e"
  by (auto simp: check_missed_issue_def missed_answer_def reply_of_def dget_def
      split: if_splits json.splits list.splits option.splits)

lemma check_review_sound: "check_fix_review d = Inr e \<Longrightarrow> dget e ''passed'' \<in> {JBool True, JBool False}"
  by (auto simp: check_fix_review_def split: if_splits)

lemma check_guidance_sound:
  assumes "check_guidance rq d = Inr e" shows "guidance_answer rq e"
proof -
  have "bind_r (Inr d) (check_guidance rq) = Inr e" using assms by simp
  from guidance_stage [OF this] show ?thesis
    using assms by (auto simp: guidance_answer_def check_guidance_def bind_r_Inr Let_def dget_def split: if_splits)
qed

lemma stripped_not_empty: "stripped_text v = Some s \<Longrightarrow> s \<noteq> []"
  by (auto simp: stripped_text_def split: json.splits if_splits)

lemma apply_output_not_empty: "of_parsed (parse_fix_apply_output rows out) = Inr t \<Longrightarrow> t \<noteq> []"
  by (auto simp: of_parsed_def parse_fix_apply_output_def Let_def dest: stripped_not_empty
      split: if_splits sum.splits option.splits parse_error.splits py_exc.splits)

text \<open>C36: every question is sent once, and once the model ended its tokens are counted, whether or not the answer is
  accepted. An accepted answer to feedback has one of the three actions, and a severity of the service where the action is to
  downgrade; to a missed issue, a decision and a reply that is a text and not empty; to the talk about a fix, one of three
  next stages, and a repository and a branch, the request's own where the model named none; the fix is
  told by a text that is not empty, and its review has a verdict that is true or false. What else an answer may hold,
  the reply to feedback, in the talk and of the review among it, is not checked.\<close>

theorem answers_typed:
  "asked_well env ''finding_feedback'' feedback_answer
     (review_finding_feedback env i path commit finding code conversation) w
   \<and> asked_well env ''missed_issue_feedback'' missed_answer
     (review_missed_issue_feedback env i path branch commit summary issue) w
   \<and> asked_well env ''fix_conversation'' (guidance_answer rq)
     (review_fix_conversation env i rq commit stg findings scope plan conversation) w
   \<and> asked_well env ''fix_apply'' (\<lambda>t. t \<noteq> [])
     (apply_fix_session env i path repo_url branch commit findings scope plan conversation attempt skill) w
   \<and> asked_well env ''fix_review'' (\<lambda>d. dget d ''passed'' \<in> {JBool True, JBool False})
     (review_fix_result env i path repo_url branch commit findings summary scope plan) w"
  unfolding review_finding_feedback_def review_missed_issue_feedback_def review_fix_conversation_def apply_fix_session_def
    review_fix_result_def
  by (intro conjI ask_dict_well asked_then [OF ask_model_well])
    (simp_all only: check_feedback_sound check_missed_sound check_review_sound check_guidance_sound apply_output_not_empty
      not_False_eq_True)

end
