(* ===== verification/Sync_Script.thy ===== *)
theory Sync_Script
  imports Pattern_Sync Review_Prompts
begin

text \<open>
  The script \<open>scripts/sync_false_positive_patterns.py\<close>, which the first version of the service runs as a process of
  its own: it reads the lines the service wrote for feedback (\<open>append_issue_pattern\<close>, \<open>append_missed_issue_pattern\<close>),
  renders the reference text and pushes it on a branch. Commands and files are the actions of \<open>Pattern_Sync\<close>.
\<close>

section \<open>Lines of feedback\<close>

text \<open>The files of the directory of issues, by name.\<close>

type_synonym issue_files = "(string \<times> string) list"

definition line_key :: "string \<Rightarrow> json_dict \<Rightarrow> json" where
  "line_key fallback item =
     py_or (py_or (py_or (dget item ''pattern_summary'') (dget item ''title'')) (dget item ''content'')) (JStr fallback)"

definition issue_line :: "string \<Rightarrow> json_dict option py_result" where
  "issue_line line =
     (if py_strip line = [] then Inr None
      else (case json_parse line of
              None \<Rightarrow> Inl (JSONDecodeError ''Expecting value'')
            | Some v \<Rightarrow> bind_r (need_dict v) (\<lambda>item. Inr (Some item))))"

definition add_line :: "string \<Rightarrow> (json \<times> json_dict) list \<Rightarrow> string \<Rightarrow> (json \<times> json_dict) list py_result" where
  "add_line fallback patterns line =
     bind_r (issue_line line) (\<lambda>parsed. case parsed of
        None \<Rightarrow> Inr patterns
      | Some item \<Rightarrow>
          (let key = line_key fallback item
           in if \<not> hashable key then Inl (TypeError ''unhashable type'')
              else Inr (if key \<in> fst ` set patterns then patterns else patterns @ [(key, item)])))"

definition issue_text :: "string \<Rightarrow> string py_result" where
  "issue_text raw = (if utf8_ok raw then Inr (universal_newlines raw) else Inl (ValueError ''codec cannot decode byte''))"

definition load_patterns :: "issue_files \<Rightarrow> string \<Rightarrow> string \<Rightarrow> (json \<times> json_dict) list py_result" where
  "load_patterns files suffix fallback =
     fold_r (\<lambda>patterns (name, raw). bind_r (issue_text raw) (\<lambda>t. fold_r (add_line fallback) patterns (splitlines t))) []
       (sort_key fst (filter (\<lambda>(name, _). endswith name suffix) files))"

text \<open>"unnamed pattern", "unnamed accepted pattern", "unnamed missed pattern"; the headings, labels and fixed
  sentences of the text.\<close>

definition unnamed_pattern :: string where
  "unnamed_pattern = [CHR 0xE6, CHR 0x9C, CHR 0xAA, CHR 0xE5, CHR 0x91, CHR 0xBD, CHR 0xE5, CHR 0x90, CHR 0x8D, CHR 0xE6, CHR 0xA8, CHR 0xA1,
     CHR 0xE5, CHR 0xBC, CHR 0x8F]"

definition unnamed_accepted_pattern :: string where
  "unnamed_accepted_pattern = [CHR 0xE6, CHR 0x9C, CHR 0xAA, CHR 0xE5, CHR 0x91, CHR 0xBD, CHR 0xE5, CHR 0x90, CHR 0x8D, CHR 0xE9, CHR 0x87, CHR 0x87,
     CHR 0xE7, CHR 0xBA, CHR 0xB3, CHR 0xE6, CHR 0xA8, CHR 0xA1, CHR 0xE5, CHR 0xBC, CHR 0x8F]"

definition unnamed_missed_pattern :: string where
  "unnamed_missed_pattern = [CHR 0xE6, CHR 0x9C, CHR 0xAA, CHR 0xE5, CHR 0x91, CHR 0xBD, CHR 0xE5, CHR 0x90, CHR 0x8D, CHR 0xE6, CHR 0xBC, CHR 0x8F,
     CHR 0xE5, CHR 0x88, CHR 0xA4, CHR 0xE6, CHR 0xA8, CHR 0xA1, CHR 0xE5, CHR 0xBC, CHR 0x8F]"

definition script_title :: string where
  "script_title = [CHR 0x23, CHR 0x20, CHR 0xE6, CHR 0xA8, CHR 0xA1, CHR 0xE5, CHR 0x9E, CHR 0x8B, CHR 0xE5, CHR 0x8F, CHR 0x8D, CHR 0xE9,
     CHR 0xA6, CHR 0x88, CHR 0xE5, CHR 0xBD, CHR 0x92, CHR 0xE6, CHR 0xA1, CHR 0xA3]"

definition script_intro :: string where
  "script_intro = [CHR 0xE6, CHR 0x9C, CHR 0xAC, CHR 0xE6, CHR 0x96, CHR 0x87, CHR 0xE4, CHR 0xBB, CHR 0xB6, CHR 0xE7, CHR 0x94, CHR 0xB1,
     CHR 0xE6, CHR 0xAF, CHR 0x8F, CHR 0xE6, CHR 0x97, CHR 0xA5, CHR 0xE5, CHR 0x90, CHR 0x8C, CHR 0xE6, CHR 0xAD, CHR 0xA5,
     CHR 0xE8, CHR 0x84, CHR 0x9A, CHR 0xE6, CHR 0x9C, CHR 0xAC, CHR 0xE8, CHR 0x87, CHR 0xAA, CHR 0xE5, CHR 0x8A, CHR 0xA8,
     CHR 0xE6, CHR 0x9B, CHR 0xB4, CHR 0xE6, CHR 0x96, CHR 0xB0, CHR 0xEF, CHR 0xBC, CHR 0x8C, CHR 0xE7, CHR 0x94, CHR 0xA8,
     CHR 0xE4, CHR 0xBA, CHR 0x8E, CHR 0xE6, CHR 0xB2, CHR 0x89, CHR 0xE6, CHR 0xB7, CHR 0x80, CHR 0xE7, CHR 0x94, CHR 0xA8,
     CHR 0xE6, CHR 0x88, CHR 0xB7, CHR 0xE5, CHR 0x8F, CHR 0x8D, CHR 0xE9, CHR 0xA6, CHR 0x88, CHR 0xE5, CHR 0x90, CHR 0x8E,
     CHR 0xE7, CHR 0xA1, CHR 0xAE, CHR 0xE8, CHR 0xAE, CHR 0xA4, CHR 0xE7, CHR 0x9A, CHR 0x84, CHR 0xE8, CHR 0xAF, CHR 0xAF,
     CHR 0xE5, CHR 0x88, CHR 0xA4, CHR 0xE8, CHR 0x8C, CHR 0x83, CHR 0xE5, CHR 0xBC, CHR 0x8F, CHR 0xE3, CHR 0x80, CHR 0x81,
     CHR 0xE5, CHR 0xB7, CHR 0xB2, CHR 0xE9, CHR 0x87, CHR 0x87, CHR 0xE7, CHR 0xBA, CHR 0xB3, CHR 0xE5, CHR 0x8F, CHR 0x8D,
     CHR 0xE9, CHR 0xA6, CHR 0x88, CHR 0xE8, CHR 0x8C, CHR 0x83, CHR 0xE5, CHR 0xBC, CHR 0x8F, CHR 0xE4, CHR 0xB8, CHR 0x8E,
     CHR 0xE6, CHR 0xBC, CHR 0x8F, CHR 0xE5, CHR 0x88, CHR 0xA4, CHR 0xE8, CHR 0x8C, CHR 0x83, CHR 0xE5, CHR 0xBC, CHR 0x8F,
     CHR 0xE3, CHR 0x80, CHR 0x82]"

definition false_positive_heading :: string where
  "false_positive_heading = [CHR 0x23, CHR 0x23, CHR 0x20, CHR 0xE8, CHR 0xAF, CHR 0xAF, CHR 0xE5, CHR 0x88, CHR 0xA4, CHR 0xE8, CHR 0x8C, CHR 0x83,
     CHR 0xE5, CHR 0xBC, CHR 0x8F]"

definition accepted_heading :: string where
  "accepted_heading = [CHR 0x23, CHR 0x23, CHR 0x20, CHR 0xE5, CHR 0xB7, CHR 0xB2, CHR 0xE9, CHR 0x87, CHR 0x87, CHR 0xE7, CHR 0xBA, CHR 0xB3,
     CHR 0xE5, CHR 0x8F, CHR 0x8D, CHR 0xE9, CHR 0xA6, CHR 0x88, CHR 0xE8, CHR 0x8C, CHR 0x83, CHR 0xE5, CHR 0xBC, CHR 0x8F]"

definition missed_heading :: string where
  "missed_heading = [CHR 0x23, CHR 0x23, CHR 0x20, CHR 0xE6, CHR 0xBC, CHR 0x8F, CHR 0xE5, CHR 0x88, CHR 0xA4, CHR 0xE8, CHR 0x8C, CHR 0x83,
     CHR 0xE5, CHR 0xBC, CHR 0x8F]"

definition no_new_false_positive :: string where
  "no_new_false_positive = [CHR 0xE6, CHR 0x9A, CHR 0x82, CHR 0xE6, CHR 0x97, CHR 0xA0, CHR 0xE6, CHR 0x96, CHR 0xB0, CHR 0xE5, CHR 0xA2, CHR 0x9E,
     CHR 0xE8, CHR 0xAF, CHR 0xAF, CHR 0xE5, CHR 0x88, CHR 0xA4, CHR 0xE8, CHR 0x8C, CHR 0x83, CHR 0xE5, CHR 0xBC, CHR 0x8F,
     CHR 0xE3, CHR 0x80, CHR 0x82]"

definition no_new_accepted :: string where
  "no_new_accepted = [CHR 0xE6, CHR 0x9A, CHR 0x82, CHR 0xE6, CHR 0x97, CHR 0xA0, CHR 0xE6, CHR 0x96, CHR 0xB0, CHR 0xE5, CHR 0xA2, CHR 0x9E,
     CHR 0xE5, CHR 0xB7, CHR 0xB2, CHR 0xE9, CHR 0x87, CHR 0x87, CHR 0xE7, CHR 0xBA, CHR 0xB3, CHR 0xE5, CHR 0x8F, CHR 0x8D,
     CHR 0xE9, CHR 0xA6, CHR 0x88, CHR 0xE8, CHR 0x8C, CHR 0x83, CHR 0xE5, CHR 0xBC, CHR 0x8F, CHR 0xE3, CHR 0x80, CHR 0x82]"

definition no_new_missed :: string where
  "no_new_missed = [CHR 0xE6, CHR 0x9A, CHR 0x82, CHR 0xE6, CHR 0x97, CHR 0xA0, CHR 0xE6, CHR 0x96, CHR 0xB0, CHR 0xE5, CHR 0xA2, CHR 0x9E,
     CHR 0xE6, CHR 0xBC, CHR 0x8F, CHR 0xE5, CHR 0x88, CHR 0xA4, CHR 0xE8, CHR 0x8C, CHR 0x83, CHR 0xE5, CHR 0xBC, CHR 0x8F,
     CHR 0xE3, CHR 0x80, CHR 0x82]"

definition app_label :: string where
  "app_label = [CHR 0x2D, CHR 0x20, CHR 0xE6, CHR 0x9D, CHR 0xA5, CHR 0xE6, CHR 0xBA, CHR 0x90, CHR 0xE5, CHR 0xBA, CHR 0x94, CHR 0xE7,
     CHR 0x94, CHR 0xA8, CHR 0x3A, CHR 0x20]"

definition file_label :: string where
  "file_label = [CHR 0x2D, CHR 0x20, CHR 0xE6, CHR 0x96, CHR 0x87, CHR 0xE4, CHR 0xBB, CHR 0xB6, CHR 0x3A, CHR 0x20]"

definition note_label :: string where
  "note_label = [CHR 0x2D, CHR 0x20, CHR 0xE8, CHR 0xAF, CHR 0xB4, CHR 0xE6, CHR 0x98, CHR 0x8E, CHR 0x3A, CHR 0x20]"

definition missed_label :: string where
  "missed_label = [CHR 0x2D, CHR 0x20, CHR 0xE6, CHR 0xBC, CHR 0x8F, CHR 0xE5, CHR 0x88, CHR 0xA4, CHR 0xE6, CHR 0x8F, CHR 0x8F, CHR 0xE8,
     CHR 0xBF, CHR 0xB0, CHR 0x3A, CHR 0x20]"

definition reply_label :: string where
  "reply_label = [CHR 0x2D, CHR 0x20, CHR 0xE6, CHR 0xA8, CHR 0xA1, CHR 0xE5, CHR 0x9E, CHR 0x8B, CHR 0xE7, CHR 0xBB, CHR 0x93, CHR 0xE8,
     CHR 0xAE, CHR 0xBA, CHR 0x3A, CHR 0x20]"

definition action_label :: string where
  "action_label = [CHR 0x2D, CHR 0x20, CHR 0xE9, CHR 0x87, CHR 0x87, CHR 0xE7, CHR 0xBA, CHR 0xB3, CHR 0xE5, CHR 0x8A, CHR 0xA8, CHR 0xE4,
     CHR 0xBD, CHR 0x9C, CHR 0x3A, CHR 0x20]"

definition severity_label :: string where
  "severity_label = [CHR 0x2D, CHR 0x20, CHR 0xE8, CHR 0xB0, CHR 0x83, CHR 0xE6, CHR 0x95, CHR 0xB4, CHR 0xE5, CHR 0x90, CHR 0x8E, CHR 0xE7,
     CHR 0xBA, CHR 0xA7, CHR 0xE5, CHR 0x88, CHR 0xAB, CHR 0x3A, CHR 0x20]"

definition load_all_false_positive_patterns :: "issue_files \<Rightarrow> (json \<times> json_dict) list py_result" where
  "load_all_false_positive_patterns files = load_patterns files ''.false-positive.jsonl'' unnamed_pattern"

definition load_all_accepted_patterns :: "issue_files \<Rightarrow> (json \<times> json_dict) list py_result" where
  "load_all_accepted_patterns files = load_patterns files ''.accepted-finding-feedback.jsonl'' unnamed_accepted_pattern"

definition load_all_missed_issue_patterns :: "issue_files \<Rightarrow> (json \<times> json_dict) list py_result" where
  "load_all_missed_issue_patterns files = load_patterns files ''.missed-issue.jsonl'' unnamed_missed_pattern"

definition has_today_pattern_updates :: "string \<Rightarrow> issue_files \<Rightarrow> bool" where
  "has_today_pattern_updates day files \<longleftrightarrow>
     list_ex (\<lambda>suffix. day @ ''.'' @ suffix @ ''.jsonl'' \<in> fst ` set files)
       [''false-positive'', ''accepted-finding-feedback'', ''missed-issue'']"

section \<open>The reference text\<close>

definition shown_or :: "json_dict \<Rightarrow> string \<Rightarrow> string" where
  "shown_or item k = (case map_of item k of Some v \<Rightarrow> py_str v | None \<Rightarrow> ''N/A'')"

definition pattern_block :: "(string \<times> string) list \<Rightarrow> json \<times> json_dict \<Rightarrow> string" where
  "pattern_block labels p =
     (let (title, item) = p
      in join ''\<newline>''
           ([''## '' @ py_str title] @ map (\<lambda>(label, k). label @ shown_or item k) labels
            @ [note_label @ py_str (py_or (dget item ''pattern_summary'') title), []]))"

definition false_positive_block :: "json \<times> json_dict \<Rightarrow> string" where
  "false_positive_block = pattern_block [(app_label, ''app_name''), (file_label, ''file'')]"

definition missed_issue_block :: "json \<times> json_dict \<Rightarrow> string" where
  "missed_issue_block = pattern_block [(app_label, ''app_name''), (missed_label, ''content''), (reply_label, ''reply'')]"

definition accepted_feedback_block :: "json \<times> json_dict \<Rightarrow> string" where
  "accepted_feedback_block =
     pattern_block [(app_label, ''app_name''), (file_label, ''file''), (action_label, ''action''), (severity_label, ''severity'')]"

definition nl :: string where
  "nl = ''\<newline>''"

definition section_of :: "string list \<Rightarrow> string \<Rightarrow> string" where
  "section_of blocks nothing = (if blocks = [] then nothing @ nl else join nl blocks)"

definition script_text :: "(json \<times> json_dict) list \<Rightarrow> (json \<times> json_dict) list \<Rightarrow> (json \<times> json_dict) list \<Rightarrow> string" where
  "script_text fp acc missed =
     script_title @ nl @ nl @ script_intro @ nl @ nl
       @ rstrip_by py_isspace (join nl
          [false_positive_heading @ nl, section_of (map false_positive_block fp) no_new_false_positive,
           nl @ accepted_heading @ nl, section_of (map accepted_feedback_block acc) no_new_accepted,
           nl @ missed_heading @ nl, section_of (map missed_issue_block missed) no_new_missed])
       @ nl"

definition update_patterns_file ::
  "sync_env \<Rightarrow> string \<Rightarrow> (json \<times> json_dict) list \<Rightarrow> (json \<times> json_dict) list \<Rightarrow> (json \<times> json_dict) list \<Rightarrow> bool ys" where
  "update_patterns_file env work fp acc missed =
     (let file = work @ ''/'' @ TARGET_PATTERNS_REL; updated = script_text fp acc missed
      in wbind (wget (\<lambda>log. ye_read env log file)) (\<lambda>found.
         let existing = (case found of Some t \<Rightarrow> t | None \<Rightarrow> script_title @ nl @ nl @ script_intro @ nl)
         in if fp = [] \<and> acc = [] \<and> missed = [] then wret False
            else if updated = existing then wret False
            else wseq (sync_file env (Make_Dirs (work @ ''/'' @ TARGET_PATTERNS_DIR)))
              (wseq (sync_file env (Write_File file updated)) (wseq (ensure_review_reference env work) (wret True)))))"

section \<open>The script\<close>

definition clone_current_branch :: "sync_env \<Rightarrow> string ys" where
  "clone_current_branch env =
     wseq (sync_file env (Make_Dirs (ye_work_root env)))
     (wseq (sync_file env (Make_Work_Dir (ye_work env)))
     (wbind (sync_git env (ye_root env) [''remote'', ''get-url'', ''origin'']) (\<lambda>origin.
     wbind (sync_git env (ye_root env) [''rev-parse'', ''--abbrev-ref'', ''HEAD'']) (\<lambda>branch.
     wbind (sync_command env (Clone_Branch branch origin (ye_work env))) (\<lambda>a.
       if ga_code a \<noteq> 0 then wraise (sync_failed a) else wret (ye_work env))))))"

definition script_branch :: "sync_env \<Rightarrow> string" where
  "script_branch env = ''mr/false-positive-sync-'' @ ye_stamp env"

definition manual_request :: "string \<Rightarrow> string" where
  "manual_request branch =
     ''Create PR manually: https://github.com/comain/code-review-agent/compare/init...'' @ branch @ ''?expand=1''"

definition push_script_patterns ::
  "sync_env \<Rightarrow> (json \<times> json_dict) list \<Rightarrow> (json \<times> json_dict) list \<Rightarrow> (json \<times> json_dict) list \<Rightarrow> string \<Rightarrow> string list ys" where
  "push_script_patterns env fp acc missed work =
     wseq (configure_git_user env work)
     (wbind (update_patterns_file env work fp acc missed) (\<lambda>changed.
       if \<not> changed then wret [''No pattern file changes.'']
       else
         (let branch = script_branch env
          in wseq (ignore_value (sync_git env work [''checkout'', ''-B'', branch]))
             (wseq (ignore_value (sync_git env work
                [''add'', work @ ''/'' @ TARGET_PATTERNS_REL, work @ ''/'' @ TARGET_REVIEW_REFERENCE_REL]))
             (wseq (ignore_value (sync_git env work [''commit'', ''-m'', ''Sync issue feedback patterns '' @ ye_day env]))
             (wseq (ignore_value (sync_git env work [''push'', ''-u'', ''origin'', branch]))
               (wret [manual_request branch, ''work_repo='' @ work])))))))"

definition script_main :: "sync_env \<Rightarrow> issue_files \<Rightarrow> string list ys" where
  "script_main env files =
     (if \<not> has_today_pattern_updates (ye_day env) files then
        wret [''No false-positive, accepted-feedback, or missed-issue patterns found today.'']
      else
        wbind (wlift (load_all_false_positive_patterns files)) (\<lambda>fp.
        wbind (wlift (load_all_accepted_patterns files)) (\<lambda>acc.
        wbind (wlift (load_all_missed_issue_patterns files)) (\<lambda>missed.
        wbind (clone_current_branch env) (\<lambda>work.
        wbind (wtry (push_script_patterns env fp acc missed work)) (\<lambda>r.
        wseq (if ye_keep env then wret () else sync_act (Remove_Work_Dir work)) (wlift r)))))))"

section \<open>Which lines are taken\<close>

text \<open>The lines of all files in their order.\<close>

definition all_lines :: "issue_files \<Rightarrow> string \<Rightarrow> string list" where
  "all_lines files suffix =
     concat (map (\<lambda>(_, raw). splitlines (universal_newlines raw)) (sort_key fst (filter (\<lambda>(name, _). endswith name suffix) files)))"

definition line_items :: "string list \<Rightarrow> json_dict list" where
  "line_items lines = List.map_filter (\<lambda>l. case issue_line l of Inr (Some item) \<Rightarrow> Some item | _ \<Rightarrow> None) lines"

lemma load_lines:
  assumes "load_patterns files suffix fallback = Inr ps"
  shows "fold_r (add_line fallback) [] (all_lines files suffix) = Inr ps"
proof -
  have "fold_r (add_line fallback) acc (concat (map (\<lambda>(_, raw). splitlines (universal_newlines raw)) fs)) = Inr ps"
    if "fold_r (\<lambda>patterns (name, raw). bind_r (issue_text raw) (\<lambda>t. fold_r (add_line fallback) patterns (splitlines t))) acc fs = Inr ps"
    for acc fs
    using that
    by (induction fs arbitrary: acc) (auto simp: bind_r_Inr fold_r_append issue_text_def split: if_splits)
  then show ?thesis using assms by (simp add: load_patterns_def all_lines_def)
qed

lemma added_line:
  assumes "add_line fallback ps l = Inr rs"
  shows "issue_line l = Inr None \<and> rs = ps
    \<or> (\<exists>item. issue_line l = Inr (Some item)
         \<and> rs = (if line_key fallback item \<in> fst ` set ps then ps else ps @ [(line_key fallback item, item)]))"
proof -
  obtain parsed where "issue_line l = Inr parsed" using assms by (auto simp: add_line_def bind_r_Inr)
  with assms show ?thesis by (cases parsed) (auto simp: add_line_def Let_def split: if_splits)
qed

lemma line_items_Cons:
  "issue_line l = Inr None \<Longrightarrow> line_items (l # lines) = line_items lines"
  "issue_line l = Inr (Some item) \<Longrightarrow> line_items (l # lines) = item # line_items lines"
  by (simp_all add: line_items_def List.map_filter_def)

lemma added_lines:
  assumes "fold_r (add_line fallback) ps lines = Inr qs" and "distinct (map fst ps)"
  shows "distinct (map fst qs)
    \<and> map_of qs = map_of (map (\<lambda>i. (line_key fallback i, i)) (line_items lines)) ++ map_of ps"
  using assms
proof (induction lines arbitrary: ps)
  case (Cons l lines)
  then obtain rs where rs: "add_line fallback ps l = Inr rs" "fold_r (add_line fallback) rs lines = Inr qs"
    by (auto simp: bind_r_Inr)
  show ?case
  proof (cases "rs = ps \<and> issue_line l = Inr None")
    case True
    with Cons rs show ?thesis by (simp add: line_items_Cons)
  next
    case False
    then obtain item where item: "issue_line l = Inr (Some item)"
      "rs = (if line_key fallback item \<in> fst ` set ps then ps else ps @ [(line_key fallback item, item)])"
      using added_line [OF rs(1)] by auto
    then have "distinct (map fst rs)" using Cons.prems(2) by simp
    moreover have "map_of rs = [line_key fallback item \<mapsto> item] ++ map_of ps"
      using item(2) by (auto simp: fun_eq_iff map_add_def weak_map_of_SomeI dest: map_of_SomeD split: option.split
          intro: weak_map_of_SomeI simp: map_of_eq_None_iff)
    ultimately show ?thesis
      using Cons.IH [OF rs(2)] item(1) by (auto simp: line_items_Cons fun_eq_iff map_add_def split: option.split)
  qed
qed (simp add: line_items_def List.map_filter_def)

text \<open>Every pattern is kept once, with the first line of its key over all files in the order of their names.\<close>

theorem first_line_kept:
  "case load_patterns files suffix fallback of Inl e \<Rightarrow> True
   | Inr ps \<Rightarrow> distinct (map fst ps)
       \<and> map_of ps = map_of (map (\<lambda>item. (line_key fallback item, item)) (line_items (all_lines files suffix)))"
  using added_lines [OF load_lines, of files suffix fallback] by (auto split: sum.split)

section \<open>What the script touches\<close>

fun script_confined :: "sync_env \<Rightarrow> sync_action \<Rightarrow> bool" where
  "script_confined env (Run_Git dir args) \<longleftrightarrow>
     (if take 1 args = [''push''] then dir = ye_work env \<and> args = [''push'', ''-u'', ''origin'', script_branch env]
      else dir = ye_work env \<or> args \<in> {[''remote'', ''get-url'', ''origin''], [''rev-parse'', ''--abbrev-ref'', ''HEAD''],
        [''config'', ''--get'', ''user.name''], [''config'', ''--get'', ''user.email'']})"
| "script_confined env (Clone_Branch _ _ dir) \<longleftrightarrow> dir = ye_work env"
| "script_confined env (Make_Dirs dir) \<longleftrightarrow> dir = ye_work_root env \<or> startswith dir (ye_work env @ ''/'')"
| "script_confined env (Make_Work_Dir dir) \<longleftrightarrow> dir = ye_work env"
| "script_confined env (Write_File file _) \<longleftrightarrow> startswith file (ye_work env @ ''/'')"
| "script_confined env (Post_Merge_Request _ _ _) \<longleftrightarrow> False"
| "script_confined env (Remove_Work_Dir dir) \<longleftrightarrow> dir = ye_work env"

lemma keeps_act: "P a \<Longrightarrow> yields (list_all P) (\<lambda>_. True) (sync_act a)"
  unfolding sync_act_def by (rule yields_wmod) simp_all

lemma keeps_command: "P a \<Longrightarrow> yields (list_all P) (\<lambda>_. True) (sync_command env a)"
  unfolding sync_command_def by (intro yields_step [OF yields_wget] yields_wseq keeps_act yields_wlift) simp_all

lemma keeps_file: "P a \<Longrightarrow> yields (list_all P) (\<lambda>_. True) (sync_file env a)"
  unfolding sync_file_def by (intro yields_step [OF yields_wget] yields_wseq keeps_act yields_wlift) simp_all

lemma keeps_git:
  assumes "P (Run_Git dir args)"
  shows "yields (list_all P) (\<lambda>_. True) (sync_git env dir args)"
    "yields (list_all P) (\<lambda>_. True) (sync_git_optional env dir args)"
    "yields (list_all P) (\<lambda>_. True) (ignore_value (sync_git env dir args))"
  unfolding sync_git_def sync_git_optional_def ignore_value_def
  by (intro yields_step [OF keeps_command] yields_step [OF yields_step [OF keeps_command]] yields_if yields_wraise
      yields_wret assms TrueI)+

lemma keeps_clone: "yields (list_all (script_confined env)) (\<lambda>work. work = ye_work env) (clone_current_branch env)"
  unfolding clone_current_branch_def
  by (intro yields_wseq keeps_file yields_step [OF keeps_git(1)] yields_step [OF keeps_command] yields_if yields_wraise
      yields_wret) simp_all

lemma keeps_user: "yields (list_all (script_confined env)) (\<lambda>_. True) (configure_git_user env (ye_work env))"
  unfolding configure_git_user_def
  by (intro yields_wseq yields_step [OF keeps_git(2)] keeps_git) simp_all

lemma keeps_reference: "yields (list_all (script_confined env)) (\<lambda>_. True) (ensure_review_reference env (ye_work env))"
  unfolding ensure_review_reference_def Let_def
  by (intro yields_step [OF yields_wget] yields_case_option yields_wraise yields_if yields_wret keeps_file)
    (simp_all add: startswith_iff)

lemma keeps_update: "yields (list_all (script_confined env)) (\<lambda>_. True) (update_patterns_file env (ye_work env) fp acc missed)"
  unfolding update_patterns_file_def Let_def
  by (intro yields_step [OF yields_wget] yields_if yields_wret yields_wseq keeps_file keeps_reference) (simp_all add: startswith_iff)

lemma keeps_push: "yields (list_all (script_confined env)) (\<lambda>_. True) (push_script_patterns env fp acc missed (ye_work env))"
  unfolding push_script_patterns_def Let_def
  by (intro yields_wseq [OF keeps_user] yields_step [OF keeps_update] yields_if yields_wret yields_wseq keeps_git) simp_all

text \<open>Whatever git, the files and the lines of feedback answer, the script pushes nothing but its own branch and
  touches nothing outside its work directory but the directory that lies in, which it makes where it is missing.\<close>

theorem script_stays_confined: "list_all (script_confined env) (snd (script_main env files []))"
proof -
  have "yields (list_all (script_confined env)) (\<lambda>_. True) (script_main env files)"
    unfolding script_main_def
    by (intro yields_if yields_wret yields_step [OF yields_wlift [where P = "\<lambda>_. True"]] yields_wbind [OF keeps_clone] TrueI)
      (auto intro!: yields_step [OF yields_wtry [OF keeps_push]] yields_wseq keeps_act yields_wlift yields_if yields_wret)
  from yields_end [OF this, of "[]"] show ?thesis by simp
qed

end
