(* ===== verification/Spec2Isabelle.thy ===== *)
theory Spec2Isabelle
  imports Risk Review_Rules Context Judge Json_Extract Costing System Feedback_Review Service_Run Service_Recovery
    Fix_Session Opencode_Runner Git_Client Review_Prompts Cli Page_Parts Runner_Asks
    Sync_Script
begin

text \<open>
  A model of the code review agent under \<open>src/src/cr_agent\<close> with the properties that make it correct.

  The program. A request to review a branch comes in through \<open>api/routes.py\<close>. There are two generations of
  the service behind it. The first, \<open>core/service.py\<close>, keeps a record of every task in memory and in a file
  each, puts tasks into a queue, and has worker threads that check the commit out with \<open>core/git_client.py\<close>,
  ask one model through \<open>core/opencode_runner.py\<close>, normalise its findings, write a report and call back;
  users then discuss findings and let the model repair them in fix sessions. The second, \<open>review_v2/\<close>, keeps
  everything in SQLite: a daemon claims a queued task under a lease and runs a workflow that prepares the
  diff, decides by a guard and by risk which reviewers to run, runs them in parallel, lets a judge accept
  findings, and sets the gate; operators and feedback change it later.

  Conventions. A text is the list of the bytes the program writes (UTF-8); case and white space are those of
  ASCII. A \<open>float\<close> is a rational, a time the number of its seconds, a dict an association list. An exception is
  a value: functions return \<open>py_exc + 'a\<close>, statements are functions of a state that keep it when they raise
  (\<open>Statements\<close>). What is outside, git, models, files, HTTP, the operating system, is a parameter that may
  answer or raise anything, and where the code waits for it the other threads or processes make their next
  move, an arbitrary change of the shared state unless a theorem restricts it. Fresh identifiers are
  arguments. Statements of SQL are functions on tables of rows, each write one transaction; an operation of the
  database with two transactions (\<open>request_task_stop\<close>, \<open>cancel_task\<close>) is two steps of the system. The check for a
  deletion and the write of a record in \<open>_save_record\<close> are taken as one step; the findings tell the race between them.

  Theories and the code they model.
    \<^item> \<open>Prelude\<close>, \<open>Statements\<close>, \<open>Interfaces\<close>: texts, exceptions, statements with weakest preconditions and
      invariants (\<open>yields\<close>), and the locales: \<open>step_system\<close> (invariants of what is reachable), \<open>counter_sum\<close>
      (token buckets), \<open>keep_stronger\<close> (merging by key), \<open>keyed_store\<close>. They are interpreted in
      \<open>Storage_Lifecycle\<close> and \<open>Service_Correct\<close>, \<open>Costing\<close>, \<open>Judge\<close>, \<open>Task_Store\<close>.
    \<^item> \<open>Json_Value\<close>, \<open>Json_Decode\<close>, \<open>Json_Print\<close>: values of \<open>json\<close>, their reading and writing.
    \<^item> \<open>Review_Models\<close>, \<open>Risk\<close>, \<open>Review_Rules\<close>, \<open>Context\<close>, \<open>Judge\<close>, \<open>Json_Extract\<close>, \<open>Costing\<close>: the modules of
      \<open>review_v2\<close> of these names (\<open>Risk\<close> with \<open>guards.py\<close>, \<open>Context\<close> with \<open>artifacts.py\<close>, \<open>Json_Extract\<close> with
      \<open>json_output.py\<close> and the extraction of \<open>core/opencode_runner.py\<close>, \<open>Costing\<close> with \<open>session_usage.py\<close> and
      \<open>session_analysis.py\<close>).
    \<^item> \<open>Review_Tables\<close>, \<open>Review_Storage\<close>: the schema and every operation of \<open>ReviewDB\<close> in \<open>storage.py\<close>;
      \<open>Storage_Invariant\<close>, \<open>Storage_Lifecycle\<close>: what every sequence of operations keeps, claims, leases,
      recovery and controls.
    \<^item> \<open>Opencode_Stream\<close>, \<open>Opencode_Routing\<close>, \<open>Opencode_Process\<close>: one turn of a model, from the choice of the
      candidates to the outcome read from the stream.
    \<^item> \<open>Workflow_Monad\<close>, \<open>Report_Html\<close>, \<open>Workflow\<close>: \<open>workflow.py\<close>; \<open>Workflow_Correct\<close>, \<open>Workflow_Gate\<close>: how a
      run ends and what a passed gate means; \<open>Daemon\<close>, \<open>System\<close>: a turn of the daemon with the workflow as the
      program it runs; \<open>Feedback_Review\<close>: \<open>feedback.py\<close>.
    \<^item> \<open>Report_Views\<close>, \<open>Pattern_Sync\<close>, \<open>Cli\<close>: \<open>views.py\<close>, \<open>feedback_patterns.py\<close> and \<open>cli.py\<close>;
      \<open>Review_Prompts\<close>: \<open>prompts.py\<close>, \<open>reviewer_profiles.py\<close> and \<open>llm_session.py\<close>.
    \<^item> \<open>Task_Models\<close>, \<open>Task_Store\<close>, \<open>Task_Report\<close>, \<open>Service_Callback\<close>, \<open>Usage_Log\<close>: \<open>models.py\<close>,
      \<open>core/storage.py\<close>, the results and pages of \<open>core/service.py\<close> with \<open>core/reporting.py\<close>,
      \<open>core/callback.py\<close>, \<open>core/usage.py\<close> with the cost report.
    \<^item> \<open>Task_Service\<close>, \<open>Service_Feedback\<close>, \<open>Fix_Session\<close>, \<open>Service_Views\<close>: the operations of \<open>core/service.py\<close> and
      \<open>core/feedback.py\<close>; \<open>Service_Samples\<close>, \<open>Service_Correct\<close>, \<open>Service_Run\<close>, \<open>Service_Recovery\<close>: what they
      guarantee.
    \<^item> \<open>Opencode_Runner\<close>, \<open>Git_Client\<close>, \<open>Api\<close>: \<open>core/opencode_runner.py\<close>, \<open>core/git_client.py\<close> with
      \<open>core/git_identity.py\<close>, and \<open>api/routes.py\<close> with the submission to the review database; \<open>Runner_Asks\<close>: the questions to
      the model about feedback and fixes; \<open>Page_Parts\<close>: what the pages show of the data.
    \<^item> \<open>Sync_Script\<close>: \<open>scripts/sync_false_positive_patterns.py\<close>.

  What is shown. A gate passes only for a diff that was reviewed by every required reviewer and the judge,
  under any schedule (\<open>Workflow_Gate\<close>); a run always ends, refines the operations of the database and keeps
  its invariant (\<open>Workflow_Correct\<close>, \<open>Storage_Invariant\<close>); a turn of the daemon, with other processes moving after each of its
  transactions and while it waits, ends the task it claims (\<open>System\<close>).
  Claims, recovery and controls do exactly what they say. The parser of diffs inverts the printer of diffs,
  up to the lines added after the marker for a missing line break, the judge keeps a strongest candidate of each key, the rules and the guard agree. The task service ends
  every task it takes up, loses none at a restart, deletes the running ones of a window and no others, and answers duplicates;
  feedback jobs and fix sessions end and move between their stages as allowed. No text of a request becomes
  an option of git, no finding adds an element to a page, a synchronisation stays in its directory and
  branch, nobody submits without the token. The numbers of the pages add up; every
  planned reviewer has its profile, its references are there, and the diff it is shown is the diff up to a bound, whatever its bytes.
  Lemmas that show a fault of the code say so in words; they hold of the code as it is.

  Bounds. The JSON readers recurse on fuel that starts as the length of the text plus one, of which every
  call uses a character. The fan-out of the workflow takes its schedule as a list of thread indices and
  lets the remaining steps of the threads follow in order, so that every schedule is complete. The loops
  over retries, repairs, fix rounds, candidates of models and tokens are recursion on their bound or list;
  every function of the model is total.

  Not modelled, and why. The frames of the pages in \<open>routes.py\<close> with their styles and scripts: they are
  literals. The templating of the prompts (Jinja2) and the texts of the prompts in \<open>opencode_runner.py\<close>: the
  model that reads them is a parameter. \<open>config.py\<close> (the settings are fields of the records of each component),
  the start of the server and of the threads, the reading of the command line, signals, pipes, locks of
  repositories, copies of configuration files, log lines and the notices about the progress of a fix session:
  they call the operating system around modelled operations. The server for trying callbacks under \<open>src/scripts\<close> is
  no part of the service. SQLite set-up (pragmas, indexes, column upgrades) is not behaviour of the operations.
\<close>

end
